(* ===== verification/Prelude.thy ===== *)
theory Prelude
  imports Complex_Main "HOL-Library.AList"
begin

text \<open>
  What every component shares: Python values (strings as sequences of Unicode code points,
  unbounded integers, floats read as exact rationals, insertion-ordered dictionaries), the
  exceptions the code raises as values, and the effect type in which stateful code is written
  (a function of the state that returns the new state together with a result or an exception).
\<close>

named_theorems eff_simps \<open>unfolding rules of the effect combinators\<close>
named_theorems field_frame \<open>fields an operation leaves alone\<close>

section \<open>Python strings\<close>

type_synonym codepoint = nat
type_synonym pystr = "codepoint list"
type_synonym uuid = nat
type_synonym instant = int

text \<open>A literal of the source: \<open>py ''abc''\<close> is the string \<open>"abc"\<close>.\<close>

definition py :: "string \<Rightarrow> pystr" where
  "py s = map of_char s"

lemma py_inject [simp]: "py a = py b \<longleftrightarrow> a = b"
  by (simp add: py_def inj_map_eq_map inj_def)

lemma length_py [simp]: "length (py s) = length s"
  by (simp add: py_def)

lemma py_eq_Nil [simp]: "py s = [] \<longleftrightarrow> s = []" "[] = py s \<longleftrightarrow> s = []"
  by (auto simp: py_def)

text \<open>The white space of \<open>str.isspace\<close>, \<open>str.strip\<close> and \<open>str.split\<close>.\<close>

definition py_isspace :: "codepoint \<Rightarrow> bool" where
  "py_isspace c \<longleftrightarrow>
     9 \<le> c \<and> c \<le> 13 \<or> 28 \<le> c \<and> c \<le> 32 \<or> c = 133 \<or> c = 160 \<or> c = 5760 \<or>
     8192 \<le> c \<and> c \<le> 8202 \<or> c = 8232 \<or> c = 8233 \<or> c = 8239 \<or> c = 8287 \<or> c = 12288"

definition py_lstrip :: "pystr \<Rightarrow> pystr" where
  "py_lstrip s = dropWhile py_isspace s"

definition py_rstrip :: "pystr \<Rightarrow> pystr" where
  "py_rstrip s = rev (dropWhile py_isspace (rev s))"

definition py_strip :: "pystr \<Rightarrow> pystr" where
  "py_strip s = py_rstrip (py_lstrip s)"

lemma py_strip_Nil_iff: "py_strip s = [] \<longleftrightarrow> (\<forall>c \<in> set s. py_isspace c)"
proof -
  have "py_strip s = [] \<longleftrightarrow> (\<forall>c \<in> set (dropWhile py_isspace s). py_isspace c)"
    by (simp add: py_strip_def py_rstrip_def py_lstrip_def dropWhile_eq_Nil_conv)
  also have "\<dots> \<longleftrightarrow> (\<forall>c \<in> set s. py_isspace c)"
    by (metis dropWhile_eq_Nil_conv hd_dropWhile list.set_sel(1) set_dropWhileD)
  finally show ?thesis .
qed

text \<open>
  \<open>str.casefold\<close> maps every code point by the full case-folding table of the Unicode
  database. The table is a parameter; \<open>ascii_fold\<close> is its restriction to ASCII.
\<close>

type_synonym fold_table = "codepoint \<Rightarrow> pystr"

definition py_casefold :: "fold_table \<Rightarrow> pystr \<Rightarrow> pystr" where
  "py_casefold table s = concat (map table s)"

definition ascii_fold :: fold_table where
  "ascii_fold c = (if 65 \<le> c \<and> c \<le> 90 then [c + 32] else [c])"

text \<open>\<open>sep.join(parts)\<close>.\<close>

fun py_join :: "pystr \<Rightarrow> pystr list \<Rightarrow> pystr" where
  "py_join sep [] = []"
| "py_join sep [x] = x"
| "py_join sep (x # y # ys) = x @ sep @ py_join sep (y # ys)"

text \<open>\<open>value or default\<close> on an optional string: both \<open>None\<close> and \<open>""\<close> are false.\<close>

definition str_or :: "pystr option \<Rightarrow> pystr \<Rightarrow> pystr" where
  "str_or v d = (case v of None \<Rightarrow> d | Some s \<Rightarrow> if s = [] then d else s)"

definition str_truthy :: "pystr option \<Rightarrow> bool" where
  "str_truthy v \<longleftrightarrow> (case v of None \<Rightarrow> False | Some s \<Rightarrow> s \<noteq> [])"

text \<open>\<open>round\<close> of a float: to the nearest integer, ties to the even one.\<close>

definition py_round :: "rat \<Rightarrow> int" where
  "py_round q =
     (let f = \<lfloor>q\<rfloor>; d = q - of_int f
      in if d < 1 / 2 then f
         else if d > 1 / 2 then f + 1
         else if even f then f else f + 1)"

lemma py_round_nonneg: "0 \<le> q \<Longrightarrow> 0 \<le> py_round q"
  by (simp add: py_round_def Let_def)

section \<open>Insertion-ordered dictionaries\<close>

text \<open>
  A Python dictionary is an association list in insertion order: \<open>d[k] = v\<close> keeps the
  position of a key that is present and appends a new one (\<^const>\<open>AList.update\<close>), and
  \<open>d.setdefault(k, v)\<close> leaves a present key alone.
\<close>

type_synonym ('k, 'v) dict = "('k \<times> 'v) list"

definition dict_setdefault :: "'k \<Rightarrow> 'v \<Rightarrow> ('k, 'v) dict \<Rightarrow> ('k, 'v) dict" where
  "dict_setdefault k v d = (if k \<in> fst ` set d then d else d @ [(k, v)])"

definition dict_values :: "('k, 'v) dict \<Rightarrow> 'v list" where
  "dict_values d = map snd d"

text \<open>\<open>list(dict.fromkeys(xs))\<close>: the first occurrence of every value, in order.\<close>

fun dedup_from :: "'a list \<Rightarrow> 'a list \<Rightarrow> 'a list" where
  "dedup_from seen [] = []"
| "dedup_from seen (x # xs) =
     (if x \<in> set seen then dedup_from seen xs else x # dedup_from (x # seen) xs)"

definition dedup :: "'a list \<Rightarrow> 'a list" where
  "dedup xs = dedup_from [] xs"

lemma set_dedup_from: "set (dedup_from seen xs) = set xs - set seen"
  by (induction xs arbitrary: seen) auto

lemma distinct_dedup_from: "distinct (dedup_from seen xs)"
  by (induction xs arbitrary: seen) (auto simp: set_dedup_from)

lemma set_dedup [simp]: "set (dedup xs) = set xs"
  by (simp add: dedup_def set_dedup_from)

lemma distinct_dedup [simp]: "distinct (dedup xs)"
  by (simp add: dedup_def distinct_dedup_from)

lemma dedup_from_id: "distinct xs \<Longrightarrow> set xs \<inter> set seen = {} \<Longrightarrow> dedup_from seen xs = xs"
  by (induction xs arbitrary: seen) auto

lemma dedup_id: "distinct xs \<Longrightarrow> dedup xs = xs"
  by (simp add: dedup_def dedup_from_id)

lemma length_dedup_from_le: "length (dedup_from seen xs) \<le> length xs"
  by (induction xs arbitrary: seen) (auto intro: le_SucI)

lemma length_dedup_le: "length (dedup xs) \<le> length xs"
  by (simp add: dedup_def length_dedup_from_le)

text \<open>
  \<open>for x in xs: d.setdefault(key(x), x)\<close> followed by \<open>d.values()\<close>: the first element
  with each key, in order of first appearance.
\<close>

definition index_by :: "('a \<Rightarrow> 'k) \<Rightarrow> ('k, 'a) dict \<Rightarrow> 'a list \<Rightarrow> ('k, 'a) dict" where
  "index_by key d xs = fold (\<lambda>x. dict_setdefault (key x) x) xs d"

definition keyed :: "('a \<Rightarrow> 'k) \<Rightarrow> ('k, 'a) dict \<Rightarrow> bool" where
  "keyed key d \<longleftrightarrow> distinct (map fst d) \<and> (\<forall>(k, x) \<in> set d. k = key x)"

lemma keyed_Nil [simp]: "keyed key []"
  by (simp add: keyed_def)

lemma keyed_setdefault: "keyed key d \<Longrightarrow> keyed key (dict_setdefault (key x) x d)"
  by (auto simp: keyed_def dict_setdefault_def)

lemma keyed_index_by: "keyed key d \<Longrightarrow> keyed key (index_by key d xs)"
  unfolding index_by_def by (induction xs arbitrary: d) (auto simp: keyed_setdefault)

lemma keyed_values: "keyed key d \<Longrightarrow> map key (dict_values d) = map fst d"
  by (auto simp: keyed_def dict_values_def)

lemma keyed_distinct: "keyed key d \<Longrightarrow> distinct (map key (dict_values d))"
  by (simp add: keyed_values) (simp add: keyed_def)

lemma keys_index_by: "fst ` set (index_by key d xs) = fst ` set d \<union> key ` set xs"
  unfolding index_by_def
  by (induction xs arbitrary: d) (auto simp: dict_setdefault_def image_iff split: if_splits)

lemma values_index_by_subset:
  "set (dict_values (index_by key d xs)) \<subseteq> set (dict_values d) \<union> set xs"
  unfolding index_by_def
proof (induction xs arbitrary: d)
  case (Cons x xs)
  have "set (dict_values (dict_setdefault (key x) x d)) \<subseteq> insert x (set (dict_values d))"
    by (auto simp: dict_setdefault_def dict_values_def)
  with Cons.IH[of "dict_setdefault (key x) x d"] show ?case by auto
qed simp

lemma index_by_keeps: "\<exists>ys. index_by key d xs = d @ ys"
  unfolding index_by_def
proof (induction xs arbitrary: d)
  case (Cons x xs)
  show ?case
    using Cons.IH[of "dict_setdefault (key x) x d"]
    by (auto simp: dict_setdefault_def split: if_splits)
qed simp

text \<open>A dictionary comprehension \<open>{key(x): x for x in xs}\<close>: a later element replaces the
  value of an earlier one with its key.\<close>

definition dict_of :: "('a \<Rightarrow> 'k) \<Rightarrow> 'a list \<Rightarrow> ('k, 'a) dict" where
  "dict_of key xs = fold (\<lambda>x. AList.update (key x) x) xs []"

lemma update_fresh: "k \<notin> fst ` set d \<Longrightarrow> AList.update k v d = d @ [(k, v)]"
  by (induction d) auto

lemma dict_of_distinct:
  "distinct (map key xs) \<Longrightarrow> dict_of key xs = map (\<lambda>x. (key x, x)) xs"
proof -
  have "distinct (map key xs) \<Longrightarrow> key ` set xs \<inter> fst ` set d = {} \<Longrightarrow>
        fold (\<lambda>x. AList.update (key x) x) xs d = d @ map (\<lambda>x. (key x, x)) xs" for d
  proof (induction xs arbitrary: d)
    case (Cons x xs)
    then have "fold (\<lambda>x. AList.update (key x) x) xs (d @ [(key x, x)]) =
               (d @ [(key x, x)]) @ map (\<lambda>x. (key x, x)) xs"
      by (intro Cons.IH) auto
    with Cons.prems show ?case by (simp add: update_fresh)
  qed simp
  then show "distinct (map key xs) \<Longrightarrow> dict_of key xs = map (\<lambda>x. (key x, x)) xs"
    by (simp add: dict_of_def)
qed

lemma map_sum_eq_Inr: "map_sum id f x = Inr y \<longleftrightarrow> (\<exists>z. x = Inr z \<and> y = f z)"
  by (cases x) auto

lemma find_SomeD: "find P xs = Some x \<Longrightarrow> x \<in> set xs \<and> P x"
  by (induction xs) (auto split: if_splits)

section \<open>Effects: state and exceptions\<close>

type_synonym ('s, 'e, 'a) eff = "'s \<Rightarrow> ('e + 'a) \<times> 's"

definition returnE :: "'a \<Rightarrow> ('s, 'e, 'a) eff" where
  "returnE x = (\<lambda>s. (Inr x, s))"

definition raiseE :: "'e \<Rightarrow> ('s, 'e, 'a) eff" where
  "raiseE e = (\<lambda>s. (Inl e, s))"

definition bindE :: "('s, 'e, 'a) eff \<Rightarrow> ('a \<Rightarrow> ('s, 'e, 'b) eff) \<Rightarrow> ('s, 'e, 'b) eff" where
  "bindE m f = (\<lambda>s. case m s of (Inl e, s') \<Rightarrow> (Inl e, s') | (Inr x, s') \<Rightarrow> f x s')"

text \<open>\<open>try: m except e: h(e)\<close>.\<close>

definition catchE :: "('s, 'e, 'a) eff \<Rightarrow> ('e \<Rightarrow> ('s, 'e, 'a) eff) \<Rightarrow> ('s, 'e, 'a) eff" where
  "catchE m h = (\<lambda>s. case m s of (Inl e, s') \<Rightarrow> h e s' | (Inr x, s') \<Rightarrow> (Inr x, s'))"

definition getE :: "('s \<Rightarrow> 'a) \<Rightarrow> ('s, 'e, 'a) eff" where
  "getE f = (\<lambda>s. (Inr (f s), s))"

definition modifyE :: "('s \<Rightarrow> 's) \<Rightarrow> ('s, 'e, unit) eff" where
  "modifyE f = (\<lambda>s. (Inr (), f s))"

definition liftE :: "'e + 'a \<Rightarrow> ('s, 'e, 'a) eff" where
  "liftE r = (\<lambda>s. (r, s))"

text \<open>\<open>if x is None: raise e\<close>, and the value otherwise.\<close>

definition requireE :: "'e \<Rightarrow> 'a option \<Rightarrow> ('s, 'e, 'a) eff" where
  "requireE e v = (case v of None \<Rightarrow> raiseE e | Some x \<Rightarrow> returnE x)"

definition guardE :: "bool \<Rightarrow> 'e \<Rightarrow> ('s, 'e, unit) eff" where
  "guardE b e = (if b then returnE () else raiseE e)"

lemmas eff_defs [eff_simps] =
  returnE_def raiseE_def getE_def modifyE_def liftE_def requireE_def guardE_def

lemma bindE_eq_Inr [eff_simps]:
  "bindE m f s = (Inr y, s'') \<longleftrightarrow> (\<exists>x s'. m s = (Inr x, s') \<and> f x s' = (Inr y, s''))"
  by (auto simp: bindE_def split: prod.splits sum.splits)

lemma bindE_eq_Inl [eff_simps]:
  "bindE m f s = (Inl e, s'') \<longleftrightarrow>
     m s = (Inl e, s'') \<or> (\<exists>x s'. m s = (Inr x, s') \<and> f x s' = (Inl e, s''))"
  by (auto simp: bindE_def split: prod.splits sum.splits)

lemma bindE_step: "m s = (Inr x, s') \<Longrightarrow> bindE m f s = f x s'"
  by (simp add: bindE_def)

lemma bindE_stop: "m s = (Inl e, s') \<Longrightarrow> bindE m f s = (Inl e, s')"
  by (simp add: bindE_def)

text \<open>
  What an operation keeps: \<open>keepsE I m\<close> says that \<open>m\<close> preserves \<open>I\<close> whether it returns
  or raises. The combinators preserve it, so a whole handler does when its calls do.
\<close>

definition keepsE :: "('s \<Rightarrow> bool) \<Rightarrow> ('s, 'e, 'a) eff \<Rightarrow> bool" where
  "keepsE I m \<longleftrightarrow> (\<forall>s. I s \<longrightarrow> I (snd (m s)))"

lemma keepsED: "keepsE I m \<Longrightarrow> I s \<Longrightarrow> m s = (r, s') \<Longrightarrow> I s'"
  by (auto simp: keepsE_def dest!: spec[of _ s])

lemma keepsE_return [intro!, simp]: "keepsE I (returnE x)"
  by (simp add: keepsE_def returnE_def)

lemma keepsE_raise [intro!, simp]: "keepsE I (raiseE e)"
  by (simp add: keepsE_def raiseE_def)

lemma keepsE_get [intro!, simp]: "keepsE I (getE f)"
  by (simp add: keepsE_def getE_def)

lemma keepsE_lift [intro!, simp]: "keepsE I (liftE r)"
  by (simp add: keepsE_def liftE_def)

lemma keepsE_require [intro!, simp]: "keepsE I (requireE e v)"
  by (simp add: requireE_def split: option.split)

lemma keepsE_guard [intro!, simp]: "keepsE I (guardE b e)"
  by (simp add: guardE_def)

lemma keepsE_bind [intro!]:
  "keepsE I m \<Longrightarrow> (\<And>x. keepsE I (f x)) \<Longrightarrow> keepsE I (bindE m f)"
  by (fastforce simp: keepsE_def bindE_def split: prod.split sum.split)

lemma keepsE_catch [intro!]:
  "keepsE I m \<Longrightarrow> (\<And>e. keepsE I (h e)) \<Longrightarrow> keepsE I (catchE m h)"
  by (fastforce simp: keepsE_def catchE_def split: prod.split sum.split)

lemma keepsE_modify: "(\<And>s. I s \<Longrightarrow> I (f s)) \<Longrightarrow> keepsE I (modifyE f)"
  by (simp add: keepsE_def modifyE_def)

lemma keepsE_if [intro!]: "keepsE I a \<Longrightarrow> keepsE I b \<Longrightarrow> keepsE I (if c then a else b)"
  by simp

end
