(* ===== verification/Errors.thy ===== *)
theory Errors
  imports Prelude
begin

text \<open>
  The exceptions of the program as values. \<open>app_error\<close> has one constructor per class of
  \<^verbatim>\<open>app/core/exceptions.py\<close>; its public code and message are the class attributes.
  \<open>sql_error\<close> is the part of the SQLAlchemy hierarchy the code distinguishes
  (\<open>OperationalError\<close>, \<open>ProgrammingError\<close>, constraint violations, anything else), and
  \<open>py_exc\<close> is any exception a handler may see; \<open>OtherExc n\<close> is an exception of a class
  named \<open>n\<close> outside all of these (a vendor SDK class, for instance).
\<close>

datatype app_error =
    ApplicationError | AuthenticationRequiredError | PermissionDeniedError
  | ConnectorNotConfiguredError | ConnectorUnavailableError | InvalidConnectorResponseError
  | OpenAIClientNotConfiguredError | ModelProviderNotConfiguredError | LLMProviderError
  | InvalidLLMResponseError | AssessmentGenerationError | DatabaseNotConfiguredError
  | DatabaseUnavailableError | PersistenceError | AssessmentNotFoundError
  | RuntimeStateNotFoundError | InvalidReviewTransitionError | RevisionLimitReachedError
  | EmbeddingNotConfiguredError | EmbeddingProviderError | InvalidEmbeddingError
  | EmptyKnowledgeDocumentError | KnowledgeDocumentNotFoundError
  | KnowledgeStoreUnavailableError | KnowledgePersistenceError | KnowledgeGraphDisabledError
  | KnowledgeGraphExtractionError | KnowledgeGraphPersistenceError
  | KnowledgeGraphUnavailableError | UnsupportedFileTypeError | FileTooLargeError
  | EmptyFileError | InvalidUploadMetadataError | DocumentParseError | EncryptedPDFError
  | OCRRequiredError | TextDecodeError

primrec error_code :: "app_error \<Rightarrow> pystr" where
  "error_code ApplicationError = py ''application_error''"
| "error_code AuthenticationRequiredError = py ''authentication_required''"
| "error_code PermissionDeniedError = py ''permission_denied''"
| "error_code ConnectorNotConfiguredError = py ''connector_not_configured''"
| "error_code ConnectorUnavailableError = py ''connector_unavailable''"
| "error_code InvalidConnectorResponseError = py ''invalid_connector_response''"
| "error_code OpenAIClientNotConfiguredError = py ''openai_not_configured''"
| "error_code ModelProviderNotConfiguredError = py ''model_provider_not_configured''"
| "error_code LLMProviderError = py ''llm_provider_error''"
| "error_code InvalidLLMResponseError = py ''invalid_llm_response''"
| "error_code AssessmentGenerationError = py ''assessment_generation_error''"
| "error_code DatabaseNotConfiguredError = py ''database_not_configured''"
| "error_code DatabaseUnavailableError = py ''database_unavailable''"
| "error_code PersistenceError = py ''persistence_error''"
| "error_code AssessmentNotFoundError = py ''assessment_not_found''"
| "error_code RuntimeStateNotFoundError = py ''runtime_state_not_found''"
| "error_code InvalidReviewTransitionError = py ''invalid_review_transition''"
| "error_code RevisionLimitReachedError = py ''revision_limit_reached''"
| "error_code EmbeddingNotConfiguredError = py ''embedding_not_configured''"
| "error_code EmbeddingProviderError = py ''embedding_provider_error''"
| "error_code InvalidEmbeddingError = py ''invalid_embedding''"
| "error_code EmptyKnowledgeDocumentError = py ''empty_knowledge_document''"
| "error_code KnowledgeDocumentNotFoundError = py ''knowledge_document_not_found''"
| "error_code KnowledgeStoreUnavailableError = py ''knowledge_store_unavailable''"
| "error_code KnowledgePersistenceError = py ''knowledge_persistence_error''"
| "error_code KnowledgeGraphDisabledError = py ''knowledge_graph_disabled''"
| "error_code KnowledgeGraphExtractionError = py ''knowledge_graph_extraction_error''"
| "error_code KnowledgeGraphPersistenceError = py ''knowledge_graph_persistence_error''"
| "error_code KnowledgeGraphUnavailableError = py ''knowledge_graph_unavailable''"
| "error_code UnsupportedFileTypeError = py ''unsupported_file_type''"
| "error_code FileTooLargeError = py ''file_too_large''"
| "error_code EmptyFileError = py ''empty_file''"
| "error_code InvalidUploadMetadataError = py ''invalid_upload_metadata''"
| "error_code DocumentParseError = py ''document_parse_failed''"
| "error_code EncryptedPDFError = py ''encrypted_pdf''"
| "error_code OCRRequiredError = py ''ocr_required''"
| "error_code TextDecodeError = py ''text_decode_failed''"

primrec public_message :: "app_error \<Rightarrow> pystr" where
  "public_message ApplicationError =
     py ''The request could not be completed.''"
| "public_message AuthenticationRequiredError =
     py ''Valid bearer authentication is required.''"
| "public_message PermissionDeniedError =
     py ''The authenticated principal is not permitted to perform this action.''"
| "public_message ConnectorNotConfiguredError =
     py ''The policy repository connector is not configured.''"
| "public_message ConnectorUnavailableError =
     py ''The policy repository is temporarily unavailable. Please try again.''"
| "public_message InvalidConnectorResponseError =
     py ''The policy repository returned an invalid response.''"
| "public_message OpenAIClientNotConfiguredError =
     py ''AI assessments are unavailable because OPENAI_API_KEY is not configured.''"
| "public_message ModelProviderNotConfiguredError =
     py ''AI assessments are unavailable because the model provider is not configured.''"
| "public_message LLMProviderError =
     py ''AI assessment generation is temporarily unavailable. Please try again.''"
| "public_message InvalidLLMResponseError =
     py ''The AI service returned an invalid assessment. Please try again.''"
| "public_message AssessmentGenerationError =
     py ''AI assessment generation failed unexpectedly. Please try again.''"
| "public_message DatabaseNotConfiguredError =
     py ''Assessment persistence is unavailable because DATABASE_URL is not configured.''"
| "public_message DatabaseUnavailableError =
     py ''Assessment persistence is temporarily unavailable. Please try again.''"
| "public_message PersistenceError =
     py ''The assessment could not be persisted. Please try again.''"
| "public_message AssessmentNotFoundError =
     py ''The requested assessment was not found.''"
| "public_message RuntimeStateNotFoundError =
     py ''Runtime governance state is not available for this assessment.''"
| "public_message InvalidReviewTransitionError =
     py ''The requested human review action is not valid in the current state.''"
| "public_message RevisionLimitReachedError =
     py ''The maximum number of human-requested revisions has been reached.''"
| "public_message EmbeddingNotConfiguredError =
     py ''Knowledge embeddings are unavailable because OPENAI_API_KEY is not configured.''"
| "public_message EmbeddingProviderError =
     py ''Knowledge embedding generation is temporarily unavailable. Please try again.''"
| "public_message InvalidEmbeddingError =
     py ''The embedding service returned an invalid vector. Please try again.''"
| "public_message EmptyKnowledgeDocumentError =
     py ''The knowledge document must contain non-whitespace text.''"
| "public_message KnowledgeDocumentNotFoundError =
     py ''The requested knowledge document was not found.''"
| "public_message KnowledgeStoreUnavailableError =
     py ''The knowledge store is temporarily unavailable. Please try again.''"
| "public_message KnowledgePersistenceError =
     py ''The knowledge document could not be persisted. Please try again.''"
| "public_message KnowledgeGraphDisabledError =
     py ''Knowledge graph operations are not enabled.''"
| "public_message KnowledgeGraphExtractionError =
     py ''Knowledge graph extraction could not produce valid grounded data.''"
| "public_message KnowledgeGraphPersistenceError =
     py ''The knowledge graph could not be persisted. Please try again.''"
| "public_message KnowledgeGraphUnavailableError =
     py ''Knowledge graph retrieval is temporarily unavailable. Please try again.''"
| "public_message UnsupportedFileTypeError =
     py ''The uploaded file type is not supported or does not match its content.''"
| "public_message FileTooLargeError =
     py ''The uploaded file exceeds the configured size limit.''"
| "public_message EmptyFileError =
     py ''The uploaded file is empty.''"
| "public_message InvalidUploadMetadataError =
     py ''Upload metadata must be a valid JSON object.''"
| "public_message DocumentParseError =
     py ''The uploaded document could not be parsed.''"
| "public_message EncryptedPDFError =
     py ''Encrypted PDF files are not supported.''"
| "public_message OCRRequiredError =
     py ''The PDF requires OCR because it has insufficient extractable text.''"
| "public_message TextDecodeError =
     py ''The text document is not valid UTF-8.''"

datatype sql_error = OperationalError | ProgrammingError | IntegrityError | OtherSQLError

datatype py_exc =
    AppExc app_error
  | SqlExc sql_error
  | ValidationExc
  | ValueExc
  | TypeExc
  | OperationTimeoutExc
  | ProviderTimeoutExc
  | ProviderTransientExc
  | ProviderPermanentExc
  | RuntimeExc
  | KeyExc
  | InvalidTokenExc
  | PyJWKClientExc
  | AssertionExc
  | RecursionLimitExc
  | OtherExc pystr

text \<open>The public codes tell the classes apart, and every code and message fits the columns
  \<open>error_code\<close> (100) and \<open>error_message\<close> (500) and the trace summary (300).\<close>

lemma error_code_length: "0 < length (error_code e) \<and> length (error_code e) \<le> 100"
  by (cases e) simp_all

lemma public_message_length: "0 < length (public_message e) \<and> length (public_message e) \<le> 300"
  by (cases e) simp_all

lemma error_code_nonempty [simp]: "error_code e \<noteq> []"
  using error_code_length[of e] by auto

lemma public_message_nonempty [simp]: "public_message e \<noteq> []"
  using public_message_length[of e] by auto

lemma take_error_code [simp]: "take 100 (error_code e) = error_code e"
  using error_code_length[of e] by simp

lemma take_public_message [simp]: "take 500 (public_message e) = public_message e"
  using public_message_length[of e] by simp

end
