(* ===== verification/Domain.thy ===== *)
theory Domain
  imports Errors
begin

text \<open>
  The data the services exchange: the assessment vocabulary (\<^verbatim>\<open>app/models/assessment.py\<close>),
  knowledge evidence (\<^verbatim>\<open>app/models/knowledge.py\<close>, \<^verbatim>\<open>app/models/knowledge_graph.py\<close>), the request and
  result schemas (\<^verbatim>\<open>app/schemas/assessment.py\<close>) and the execution metadata of the three modes
  (\<^verbatim>\<open>app/agents/models.py\<close>, \<^verbatim>\<open>app/agents/multi_agent_models.py\<close>). Field bounds and model
  validators that Pydantic enforces are bool-valued predicates.
\<close>

section \<open>JSON payloads\<close>

datatype json =
    JNull | JBool bool | JInt int | JFloat rat | JStr pystr
  | JArr "json list" | JObj "(pystr \<times> json) list"

type_synonym json_object = "(pystr, json) dict"

section \<open>Assessment vocabulary\<close>

datatype AssessmentStatus =
  Status_PENDING | Status_PROCESSING | Status_COMPLETED | Status_FAILED | Status_PENDING_REVIEW

primrec status_value :: "AssessmentStatus \<Rightarrow> pystr" where
  "status_value Status_PENDING = py ''pending''"
| "status_value Status_PROCESSING = py ''processing''"
| "status_value Status_COMPLETED = py ''completed''"
| "status_value Status_FAILED = py ''failed''"
| "status_value Status_PENDING_REVIEW = py ''pending_review''"

datatype SuitabilityLevel = Suitability_LOW | Suitability_MEDIUM | Suitability_HIGH
datatype ComplexityLevel = Complexity_LOW | Complexity_MEDIUM | Complexity_HIGH
datatype PriorityLevel = Priority_LOW | Priority_MEDIUM | Priority_HIGH

datatype SolutionPattern =
  DETERMINISTIC_AUTOMATION | LLM_ASSISTED_WORKFLOW | RAG_DECISION_SUPPORT | TOOL_USING_AGENT
  | AGENTIC_WORKFLOW

datatype RiskCategory =
  Category_PRIVACY | Category_SECURITY | Category_HALLUCINATION | Category_COMPLIANCE
  | Category_DATA_QUALITY | Category_EXPLAINABILITY | Category_OPERATIONAL

datatype RiskSeverity = Severity_LOW | Severity_MEDIUM | Severity_HIGH | Severity_CRITICAL

datatype ExternalEvidenceStatus = Evidence_RETRIEVED | Evidence_NOT_RETRIEVED

section \<open>Knowledge evidence\<close>

datatype KnowledgeSourceType =
  Source_TEXT | Source_MARKDOWN | Source_POLICY | Source_REPORT | Source_CASE_STUDY
  | Source_MANUAL | Source_SYNTHETIC

primrec source_type_value :: "KnowledgeSourceType \<Rightarrow> pystr" where
  "source_type_value Source_TEXT = py ''text''"
| "source_type_value Source_MARKDOWN = py ''markdown''"
| "source_type_value Source_POLICY = py ''policy''"
| "source_type_value Source_REPORT = py ''report''"
| "source_type_value Source_CASE_STUDY = py ''case_study''"
| "source_type_value Source_MANUAL = py ''manual''"
| "source_type_value Source_SYNTHETIC = py ''synthetic''"

datatype RetrievalSource = Retrieval_VECTOR | Retrieval_GRAPH | Retrieval_BOTH

record RetrievedEvidence =
  ev_chunk_id :: uuid
  ev_document_id :: uuid
  ev_document_title :: pystr
  ev_content :: pystr
  ev_similarity_score :: "rat option"
  ev_source_type :: KnowledgeSourceType
  ev_metadata :: json_object
  ev_retrieval_source :: RetrievalSource

record GraphRetrievalExecutionMetadata =
  gx_graph_retrieval_used :: bool
  gx_matched_entity_count :: int
  gx_relationship_count :: int
  gx_graph_depth_used :: int
  gx_vector_evidence_count :: int
  gx_graph_evidence_count :: int
  gx_hybrid_evidence_count :: int
  gx_degraded_graph_mode :: bool
  gx_graph_error_code :: "pystr option"
  gx_vector_error_code :: "pystr option"

text \<open>\<open>GraphRetrievalExecutionMetadata()\<close>: every field at its default.\<close>

definition default_graph_metadata :: GraphRetrievalExecutionMetadata where
  "default_graph_metadata =
     \<lparr>gx_graph_retrieval_used = False, gx_matched_entity_count = 0, gx_relationship_count = 0,
      gx_graph_depth_used = 0, gx_vector_evidence_count = 0, gx_graph_evidence_count = 0,
      gx_hybrid_evidence_count = 0, gx_degraded_graph_mode = False,
      gx_graph_error_code = None, gx_vector_error_code = None\<rparr>"

definition opt_len_ok :: "pystr option \<Rightarrow> nat \<Rightarrow> bool" where
  "opt_len_ok v n \<longleftrightarrow> (case v of None \<Rightarrow> True | Some s \<Rightarrow> length s \<le> n)"

definition graph_metadata_ok :: "GraphRetrievalExecutionMetadata \<Rightarrow> bool" where
  "graph_metadata_ok g \<longleftrightarrow>
     0 \<le> gx_matched_entity_count g \<and> 0 \<le> gx_relationship_count g \<and>
     0 \<le> gx_graph_depth_used g \<and> gx_graph_depth_used g \<le> 5 \<and>
     0 \<le> gx_vector_evidence_count g \<and> 0 \<le> gx_graph_evidence_count g \<and>
     0 \<le> gx_hybrid_evidence_count g \<and>
     opt_len_ok (gx_graph_error_code g) 100 \<and> opt_len_ok (gx_vector_error_code g) 100"

section \<open>Assessment request and result schemas\<close>

record AssessmentRequest =
  req_company_name :: pystr
  req_organization_description :: "pystr option"
  req_industry :: pystr
  req_business_problem :: pystr
  req_current_process :: "pystr option"
  req_pain_points :: "pystr list"
  req_desired_outcome :: pystr
  req_constraints :: "pystr list"
  req_additional_context :: "pystr option"

definition len_between :: "nat \<Rightarrow> nat \<Rightarrow> pystr \<Rightarrow> bool" where
  "len_between lo hi s \<longleftrightarrow> lo \<le> length s \<and> length s \<le> hi"

lemma len_between_py [simp]: "len_between lo hi (py s) \<longleftrightarrow> lo \<le> length s \<and> length s \<le> hi"
  by (simp add: len_between_def)

definition opt_between :: "nat \<Rightarrow> nat \<Rightarrow> pystr option \<Rightarrow> bool" where
  "opt_between lo hi v \<longleftrightarrow> (case v of None \<Rightarrow> True | Some s \<Rightarrow> len_between lo hi s)"

definition request_ok :: "AssessmentRequest \<Rightarrow> bool" where
  "request_ok r \<longleftrightarrow>
     len_between 1 200 (req_company_name r) \<and>
     opt_between 1 2000 (req_organization_description r) \<and>
     len_between 1 120 (req_industry r) \<and>
     len_between 1 2000 (req_business_problem r) \<and>
     opt_between 1 4000 (req_current_process r) \<and>
     length (req_pain_points r) \<le> 20 \<and> (\<forall>p \<in> set (req_pain_points r). len_between 1 500 p) \<and>
     len_between 1 2000 (req_desired_outcome r) \<and>
     length (req_constraints r) \<le> 20 \<and> (\<forall>c \<in> set (req_constraints r). len_between 1 500 c) \<and>
     opt_between 1 4000 (req_additional_context r)"

record ProblemAnalysis =
  pa_core_problem :: pystr
  pa_current_process_weaknesses :: "pystr list"
  pa_key_bottlenecks :: "pystr list"

record AISuitability =
  suit_level :: SuitabilityLevel
  suit_rationale :: pystr

record RecommendedUseCase =
  uc_name :: pystr
  uc_description :: pystr
  uc_expected_business_value :: pystr
  uc_complexity :: ComplexityLevel
  uc_priority :: PriorityLevel

record RecommendedSolution =
  sol_pattern :: SolutionPattern
  sol_description :: pystr
  sol_rationale :: pystr

record AssessmentRisk =
  risk_category :: RiskCategory
  risk_description :: pystr
  risk_severity :: RiskSeverity
  risk_mitigation :: pystr

record HumanOversight =
  ho_review_recommended :: bool
  ho_decisions_requiring_review :: "pystr list"
  ho_rationale :: pystr

record NextStep =
  ns_priority :: int
  ns_action :: pystr
  ns_rationale :: pystr

record SourceReference =
  sr_document_id :: uuid
  sr_chunk_id :: uuid
  sr_document_title :: pystr

record AssessmentResult =
  res_executive_summary :: pystr
  res_problem_analysis :: ProblemAnalysis
  res_ai_suitability :: AISuitability
  res_recommended_use_cases :: "RecommendedUseCase list"
  res_recommended_solution :: RecommendedSolution
  res_risks :: "AssessmentRisk list"
  res_human_oversight :: HumanOversight
  res_next_steps :: "NextStep list"
  res_assumptions :: "pystr list"
  res_information_gaps :: "pystr list"
  res_external_evidence_status :: ExternalEvidenceStatus
  res_source_references :: "SourceReference list"

section \<open>Execution metadata\<close>

datatype AgentDecisionType = Decide_TOOL | Decide_SYNTHESIZE | Decide_FAIL

datatype AgentTraceEventType =
  AT_REASONING_STARTED | AT_TOOL_REQUESTED | AT_TOOL_COMPLETED | AT_TOOL_FAILED
  | AT_SYNTHESIS_STARTED | AT_WORKFLOW_COMPLETED | AT_WORKFLOW_FAILED | AT_MAX_STEPS_REACHED
  | AT_MAX_TOOL_CALLS_REACHED

datatype AgentTerminationReason =
  Term_COMPLETED | Term_MAX_STEPS_REACHED | Term_MAX_TOOL_CALLS_REACHED | Term_AGENT_STOPPED
  | Term_FAILED

primrec termination_value :: "AgentTerminationReason \<Rightarrow> pystr" where
  "termination_value Term_COMPLETED = py ''completed''"
| "termination_value Term_MAX_STEPS_REACHED = py ''max_steps_reached''"
| "termination_value Term_MAX_TOOL_CALLS_REACHED = py ''max_tool_calls_reached''"
| "termination_value Term_AGENT_STOPPED = py ''agent_stopped''"
| "termination_value Term_FAILED = py ''failed''"

record AgentToolRequest =
  atr_name :: pystr
  atr_arguments :: json_object

record AgentDecision =
  ad_action :: AgentDecisionType
  ad_tool_request :: "AgentToolRequest option"

text \<open>The validator \<open>AgentDecision.validate_tool_request\<close>.\<close>

definition agent_decision_ok :: "AgentDecision \<Rightarrow> bool" where
  "agent_decision_ok d \<longleftrightarrow>
     \<not> (ad_action d = Decide_TOOL \<and> ad_tool_request d = None) \<and>
     \<not> (ad_action d \<noteq> Decide_TOOL \<and> ad_tool_request d \<noteq> None)"

datatype ToolStatus = Tool_completed | Tool_failed | Tool_cached

record AgentTraceEvent =
  ate_step :: int
  ate_event_type :: AgentTraceEventType
  ate_timestamp :: instant
  ate_summary :: pystr
  ate_tool_name :: "pystr option"
  ate_tool_status :: "ToolStatus option"
  ate_termination_reason :: "AgentTerminationReason option"

datatype ExecutionMode = Mode_DETERMINISTIC | Mode_SINGLE_AGENT | Mode_MULTI_AGENT

primrec mode_value :: "ExecutionMode \<Rightarrow> pystr" where
  "mode_value Mode_DETERMINISTIC = py ''deterministic''"
| "mode_value Mode_SINGLE_AGENT = py ''single_agent''"
| "mode_value Mode_MULTI_AGENT = py ''multi_agent''"

text \<open>The fields every execution record carries: request id, mode marker, routing.\<close>

record ExecutionCommon =
  x_request_id :: "pystr option"
  x_execution_mode :: pystr
  x_preferred_execution_mode :: "ExecutionMode option"
  x_routing_reason_codes :: "pystr list"
  x_fallback_reason_codes :: "pystr list"
  x_graph_retrieval :: "GraphRetrievalExecutionMetadata option"

record AssessmentExecutionMetadata =
  ax_common :: ExecutionCommon
  ax_steps_used :: int
  ax_tools_used :: "pystr list"
  ax_termination_reason :: AgentTerminationReason
  ax_trace :: "AgentTraceEvent list"

datatype SpecialistConfidence = Confidence_LOW | Confidence_MEDIUM | Confidence_HIGH

datatype MultiAgentName =
  Agent_EVIDENCE | Agent_ARCHITECTURE | Agent_RISK_GOVERNANCE | Agent_SYNTHESIS

datatype MultiAgentStatus = MA_PENDING | MA_RUNNING | MA_COMPLETED | MA_FAILED | MA_SKIPPED

datatype MultiAgentTraceEventType =
  MT_WORKFLOW_STARTED | MT_AGENT_STARTED | MT_AGENT_COMPLETED | MT_AGENT_FAILED
  | MT_TOOL_COMPLETED | MT_TOOL_FAILED | MT_TOOL_AUTHORIZATION_DENIED | MT_DEGRADED_MODE
  | MT_WORKFLOW_COMPLETED

datatype MultiAgentTerminationReason = MTerm_COMPLETED | MTerm_COMPLETED_DEGRADED

primrec multi_termination_value :: "MultiAgentTerminationReason \<Rightarrow> pystr" where
  "multi_termination_value MTerm_COMPLETED = py ''completed''"
| "multi_termination_value MTerm_COMPLETED_DEGRADED = py ''completed_degraded''"

record MultiAgentStatuses =
  mas_evidence :: MultiAgentStatus
  mas_architecture :: MultiAgentStatus
  mas_risk_governance :: MultiAgentStatus
  mas_synthesis :: MultiAgentStatus

definition statuses_values :: "MultiAgentStatuses \<Rightarrow> MultiAgentStatus list" where
  "statuses_values m = [mas_evidence m, mas_architecture m, mas_risk_governance m, mas_synthesis m]"

record MultiAgentDurations =
  mad_evidence :: "int option"
  mad_architecture :: "int option"
  mad_risk_governance :: "int option"
  mad_synthesis :: "int option"

record MultiAgentErrors =
  mae_evidence :: "pystr option"
  mae_architecture :: "pystr option"
  mae_risk_governance :: "pystr option"
  mae_synthesis :: "pystr option"

record MultiAgentTraceEvent =
  mte_sequence :: int
  mte_timestamp :: instant
  mte_agent :: "MultiAgentName option"
  mte_event_type :: MultiAgentTraceEventType
  mte_summary :: pystr
  mte_tool_name :: "pystr option"
  mte_error_code :: "pystr option"

text \<open>The field bounds of \<open>MultiAgentTraceEvent\<close>: a violation is a \<open>ValidationError\<close>.\<close>

definition multi_event_ok :: "MultiAgentTraceEvent \<Rightarrow> bool" where
  "multi_event_ok e \<longleftrightarrow>
     0 \<le> mte_sequence e \<and> len_between 1 300 (mte_summary e) \<and>
     opt_len_ok (mte_tool_name e) 100 \<and> opt_len_ok (mte_error_code e) 100"

record MultiAgentExecutionMetadata =
  mx_common :: ExecutionCommon
  mx_agents :: "MultiAgentName list"
  mx_agent_statuses :: MultiAgentStatuses
  mx_agent_durations_ms :: MultiAgentDurations
  mx_agent_errors :: MultiAgentErrors
  mx_tools_used :: "pystr list"
  mx_tool_calls :: int
  mx_degraded_mode :: bool
  mx_degradation_reasons :: "pystr list"
  mx_termination_reason :: MultiAgentTerminationReason
  mx_trace :: "MultiAgentTraceEvent list"

definition all_agents :: "MultiAgentName list" where
  "all_agents = [Agent_EVIDENCE, Agent_ARCHITECTURE, Agent_RISK_GOVERNANCE, Agent_SYNTHESIS]"

text \<open>The validator \<open>MultiAgentExecutionMetadata.validate_agent_roster\<close>.\<close>

definition agent_roster_ok :: "MultiAgentExecutionMetadata \<Rightarrow> bool" where
  "agent_roster_ok m \<longleftrightarrow> mx_agents m = all_agents"

datatype ExecutionMetadata =
    DeterministicExecution ExecutionCommon
  | SingleAgentExecution AssessmentExecutionMetadata
  | MultiAgentExecution MultiAgentExecutionMetadata

primrec exec_common :: "ExecutionMetadata \<Rightarrow> ExecutionCommon" where
  "exec_common (DeterministicExecution c) = c"
| "exec_common (SingleAgentExecution a) = ax_common a"
| "exec_common (MultiAgentExecution m) = mx_common m"

text \<open>\<open>execution.model_copy(update=...)\<close> on the common fields.\<close>

primrec map_exec_common ::
  "(ExecutionCommon \<Rightarrow> ExecutionCommon) \<Rightarrow> ExecutionMetadata \<Rightarrow> ExecutionMetadata" where
  "map_exec_common f (DeterministicExecution c) = DeterministicExecution (f c)"
| "map_exec_common f (SingleAgentExecution a) =
     SingleAgentExecution (a\<lparr>ax_common := f (ax_common a)\<rparr>)"
| "map_exec_common f (MultiAgentExecution m) =
     MultiAgentExecution (m\<lparr>mx_common := f (mx_common m)\<rparr>)"

lemma exec_common_map [simp]: "exec_common (map_exec_common f x) = f (exec_common x)"
  by (cases x) simp_all

end
