(* ===== verification/Json_Text.thy ===== *)
theory Json_Text
  imports Domain "HOL-Library.List_Lexorder" "HOL-Library.Multiset"
begin

text \<open>
  \<open>json.dumps(value, sort_keys=True, separators=(",", ":"), ensure_ascii=False)\<close> as the tools use
  it to identify a call, \<open>str(UUID)\<close>, decimal numbers and the strict UTF-8 check of
  \<open>str.encode\<close>. Strings are compared code point by code point, as Python does. The shortest
  decimal form of a binary float is a parameter (\<open>float_repr\<close>).
\<close>

section \<open>Numbers and identifiers\<close>

fun nat_digits :: "nat \<Rightarrow> pystr" where
  "nat_digits n = (if n < 10 then [48 + n] else nat_digits (n div 10) @ [48 + n mod 10])"

declare nat_digits.simps [simp del]

definition int_str :: "int \<Rightarrow> pystr" where
  "int_str i = (if i < 0 then 45 # nat_digits (nat (- i)) else nat_digits (nat i))"

definition hex_digit :: "nat \<Rightarrow> codepoint" where
  "hex_digit d = (if d < 10 then 48 + d else 87 + d)"

fun hex_digits :: "nat \<Rightarrow> nat \<Rightarrow> pystr" where
  "hex_digits 0 n = []"
| "hex_digits (Suc k) n = hex_digits k (n div 16) @ [hex_digit (n mod 16)]"

text \<open>\<open>str(uuid)\<close>: 32 lower-case hexadecimal digits, grouped 8-4-4-4-12.\<close>

definition uuid_str :: "uuid \<Rightarrow> pystr" where
  "uuid_str u =
     (let h = hex_digits 32 u
      in take 8 h @ [45] @ take 4 (drop 8 h) @ [45] @ take 4 (drop 12 h) @ [45] @
         take 4 (drop 16 h) @ [45] @ drop 20 h)"

section \<open>Serialisation\<close>

definition escape_char :: "codepoint \<Rightarrow> pystr" where
  "escape_char c =
     (if c = 34 then [92, 34]
      else if c = 92 then [92, 92]
      else if c = 10 then [92, 110]
      else if c = 13 then [92, 114]
      else if c = 9 then [92, 116]
      else if c = 12 then [92, 102]
      else if c = 8 then [92, 98]
      else if c < 32 then [92, 117] @ hex_digits 4 c
      else [c])"

definition json_string :: "pystr \<Rightarrow> pystr" where
  "json_string s = [34] @ concat (map escape_char s) @ [34]"

definition json_member :: "pystr \<times> pystr \<Rightarrow> pystr" where
  "json_member m = json_string (fst m) @ [58] @ snd m"

fun json_dumps :: "(rat \<Rightarrow> pystr) \<Rightarrow> json \<Rightarrow> pystr" where
  "json_dumps float_repr JNull = py ''null''"
| "json_dumps float_repr (JBool b) = (if b then py ''true'' else py ''false'')"
| "json_dumps float_repr (JInt i) = int_str i"
| "json_dumps float_repr (JFloat q) = float_repr q"
| "json_dumps float_repr (JStr s) = json_string s"
| "json_dumps float_repr (JArr xs) = [91] @ py_join [44] (map (json_dumps float_repr) xs) @ [93]"
| "json_dumps float_repr (JObj kvs) =
     [123] @ py_join [44]
       (map json_member (sort_key fst (map (\<lambda>kv. (fst kv, json_dumps float_repr (snd kv))) kvs)))
     @ [125]"

text \<open>\<open>s.encode("utf-8")\<close> raises \<open>UnicodeEncodeError\<close>, a \<open>ValueError\<close>, on surrogates.\<close>

definition encodable :: "pystr \<Rightarrow> bool" where
  "encodable s = list_all (\<lambda>c. \<not> (55296 \<le> c \<and> c \<le> 57343)) s"

section \<open>Facts\<close>

text \<open>The order in which a dictionary was filled does not show in its serialisation.\<close>

lemma sort_key_map_fst:
  assumes "distinct (map fst xs)" and "mset xs = mset ys"
  shows "sort_key fst xs = sort_key fst ys"
  using assms by (intro sort_key_inj_key_eq) (simp_all add: distinct_map)

lemma json_dumps_order:
  assumes "distinct (map fst a)" and "mset a = mset b"
  shows "json_dumps float_repr (JObj a) = json_dumps float_repr (JObj b)"
proof -
  let ?f = "\<lambda>kv. (fst kv, json_dumps float_repr (snd kv))"
  have "mset (map ?f a) = mset (map ?f b)" using assms(2) by simp
  moreover have "distinct (map fst (map ?f a))" using assms(1) by (simp add: comp_def)
  ultimately have "sort_key fst (map ?f a) = sort_key fst (map ?f b)"
    by (intro sort_key_map_fst)
  then show ?thesis by simp
qed

lemma length_hex_digits [simp]: "length (hex_digits k n) = k"
  by (induction k arbitrary: n) simp_all

lemma length_uuid_str [simp]: "length (uuid_str u) = 36"
  by (simp add: uuid_str_def Let_def)

text \<open>Text without surrogates serialises to text without surrogates.\<close>

fun json_encodable :: "json \<Rightarrow> bool" where
  "json_encodable (JStr s) = encodable s"
| "json_encodable (JArr xs) = list_all json_encodable xs"
| "json_encodable (JObj kvs) = list_all (\<lambda>kv. encodable (fst kv) \<and> json_encodable (snd kv)) kvs"
| "json_encodable _ = True"

lemma encodable_append [simp]: "encodable (a @ b) \<longleftrightarrow> encodable a \<and> encodable b"
  by (simp add: encodable_def)

lemma encodable_Nil [simp]: "encodable []"
  by (simp add: encodable_def)

lemma encodable_Cons [simp]: "encodable (c # s) \<longleftrightarrow> \<not> (55296 \<le> c \<and> c \<le> 57343) \<and> encodable s"
  by (simp add: encodable_def)

lemma encodable_py [simp]: "encodable (py s)"
proof -
  have "\<not> 55296 \<le> (of_char c :: nat)" for c
    using nat_of_char_less_256[of c] by linarith
  then show ?thesis by (auto simp: encodable_def py_def list_all_iff)
qed

lemma hex_digit_lt: "hex_digit (n mod 16) < 103"
proof -
  have "n mod 16 < 16" by simp
  then show ?thesis unfolding hex_digit_def by (simp split: if_split)
qed

lemma encodable_digits [simp]: "encodable (nat_digits n)" "encodable (hex_digits k n)"
proof -
  show "encodable (nat_digits n)"
    by (induction n rule: nat_digits.induct) (subst nat_digits.simps, auto)
  show "encodable (hex_digits k n)"
  proof (induction k arbitrary: n)
    case (Suc k)
    then show ?case using hex_digit_lt[of n] by simp
  qed simp
qed

lemma encodable_int_str [simp]: "encodable (int_str i)"
  by (simp add: int_str_def)

lemma encodable_join: "list_all encodable xs \<Longrightarrow> encodable sep \<Longrightarrow> encodable (py_join sep xs)"
  by (induction sep xs rule: py_join.induct) auto

lemma encodable_concat: "encodable (concat xss) \<longleftrightarrow> list_all encodable xss"
  by (induction xss) auto

lemma encodable_json_string [simp]: "encodable s \<Longrightarrow> encodable (json_string s)"
  by (auto simp: json_string_def encodable_concat list_all_iff escape_char_def encodable_def[of s])

lemma json_dumps_encodable:
  assumes "\<And>q. encodable (f q)" and "json_encodable v"
  shows "encodable (json_dumps f v)"
  using assms(2)
proof (induction v)
  case (JArr xs)
  then show ?case by (auto simp: list_all_iff intro!: encodable_join)
next
  case (JObj kvs)
  have "encodable (json_member (fst kv, json_dumps f (snd kv)))" if "kv \<in> set kvs" for kv
  proof -
    have "encodable (fst kv)" "json_encodable (snd kv)"
      using JObj.prems that by (simp_all add: list_all_iff)
    moreover have "encodable (json_dumps f (snd kv))"
      using JObj.IH[of kv "snd kv"] that calculation(2) by (cases kv) auto
    ultimately show ?thesis by (simp add: json_member_def)
  qed
  then show ?case by (auto simp: list_all_iff intro!: encodable_join)
qed (use assms(1) in \<open>auto simp: encodable_py\<close>)

end
