(* ===== verification/Knowledge_Model.thy ===== *)
theory Knowledge_Model
  imports Json_Text
begin

text \<open>
  Documents, chunks and graph neighbourhoods (\<^verbatim>\<open>app/models/knowledge.py\<close>,
  \<^verbatim>\<open>app/models/knowledge_graph.py\<close>), shared by the knowledge store, retrieval and the tools.
  Embedding vectors are lists of rationals.
\<close>

section \<open>Documents and chunks\<close>

record KnowledgeDocumentRecord =
  kd_document_id :: uuid
  kd_title :: pystr
  kd_source_type :: KnowledgeSourceType
  kd_source_uri :: "pystr option"
  kd_external_id :: "pystr option"
  kd_content :: pystr
  kd_metadata :: json_object
  kd_content_hash :: pystr
  kd_created_at :: instant
  kd_updated_at :: instant

record KnowledgeChunkRecord =
  kc_chunk_id :: uuid
  kc_document_id :: uuid
  kc_chunk_index :: int
  kc_content :: pystr
  kc_embedding :: "rat list"
  kc_metadata :: json_object
  kc_created_at :: instant

record EmbeddedChunk =
  ec_chunk_index :: int
  ec_content :: pystr
  ec_embedding :: "rat list"
  ec_metadata :: json_object

text \<open>A segment's metadata holds the two entries its only producer writes
  (\<^verbatim>\<open>app/ingestion/service.py\<close>): \<open>page_number\<close> and \<open>section_heading\<close>.\<close>

record KnowledgeSourceSegment =
  seg_text :: pystr
  seg_page_number :: "int option"
  seg_section_heading :: "pystr option"

record KnowledgeIngestionResult =
  ki_document :: KnowledgeDocumentRecord
  ki_chunk_count :: nat
  ki_duplicate :: bool

section \<open>Graph vocabulary\<close>

datatype KnowledgeEntityType =
  Entity_ORGANIZATION | Entity_PROCESS | Entity_SYSTEM | Entity_POLICY | Entity_REGULATION
  | Entity_RISK | Entity_DATA_ASSET | Entity_AI_CAPABILITY | Entity_CONTROL | Entity_ROLE
  | Entity_OTHER

primrec entity_type_value :: "KnowledgeEntityType \<Rightarrow> pystr" where
  "entity_type_value Entity_ORGANIZATION = py ''organization''"
| "entity_type_value Entity_PROCESS = py ''process''"
| "entity_type_value Entity_SYSTEM = py ''system''"
| "entity_type_value Entity_POLICY = py ''policy''"
| "entity_type_value Entity_REGULATION = py ''regulation''"
| "entity_type_value Entity_RISK = py ''risk''"
| "entity_type_value Entity_DATA_ASSET = py ''data_asset''"
| "entity_type_value Entity_AI_CAPABILITY = py ''ai_capability''"
| "entity_type_value Entity_CONTROL = py ''control''"
| "entity_type_value Entity_ROLE = py ''role''"
| "entity_type_value Entity_OTHER = py ''other''"

datatype KnowledgeRelationshipType =
  Rel_USES | Rel_DEPENDS_ON | Rel_PART_OF | Rel_GOVERNED_BY | Rel_AFFECTED_BY | Rel_CREATES_RISK
  | Rel_MITIGATED_BY | Rel_REQUIRES | Rel_PRODUCES | Rel_CONSUMES | Rel_RELATED_TO

record GraphEntityResult =
  ge_entity_id :: uuid
  ge_entity_type :: KnowledgeEntityType
  ge_canonical_name :: pystr
  ge_normalized_name :: pystr
  ge_description :: "pystr option"

record GraphRelationshipResult =
  gl_relationship_id :: uuid
  gl_source_entity_id :: uuid
  gl_source_entity_name :: pystr
  gl_target_entity_id :: uuid
  gl_target_entity_name :: pystr
  gl_relationship_type :: KnowledgeRelationshipType
  gl_description :: "pystr option"
  gl_confidence :: rat
  gl_source_document_id :: uuid
  gl_source_chunk_id :: uuid

record GraphNeighborhood =
  gn_query :: pystr
  gn_matched_entities :: "GraphEntityResult list"
  gn_related_entities :: "GraphEntityResult list"
  gn_relationships :: "GraphRelationshipResult list"
  gn_source_document_ids :: "uuid list"
  gn_source_chunk_ids :: "uuid list"
  gn_depth_used :: int
  gn_evidence :: "RetrievedEvidence list"

section \<open>Graph records\<close>

primrec relationship_type_value :: "KnowledgeRelationshipType \<Rightarrow> pystr" where
  "relationship_type_value Rel_USES = py ''uses''"
| "relationship_type_value Rel_DEPENDS_ON = py ''depends_on''"
| "relationship_type_value Rel_PART_OF = py ''part_of''"
| "relationship_type_value Rel_GOVERNED_BY = py ''governed_by''"
| "relationship_type_value Rel_AFFECTED_BY = py ''affected_by''"
| "relationship_type_value Rel_CREATES_RISK = py ''creates_risk''"
| "relationship_type_value Rel_MITIGATED_BY = py ''mitigated_by''"
| "relationship_type_value Rel_REQUIRES = py ''requires''"
| "relationship_type_value Rel_PRODUCES = py ''produces''"
| "relationship_type_value Rel_CONSUMES = py ''consumes''"
| "relationship_type_value Rel_RELATED_TO = py ''related_to''"

record KnowledgeEntityRecord =
  ken_entity_id :: uuid
  ken_entity_type :: KnowledgeEntityType
  ken_canonical_name :: pystr
  ken_normalized_name :: pystr
  ken_description :: "pystr option"
  ken_metadata :: json_object
  ken_created_at :: instant
  ken_updated_at :: instant

record KnowledgeEntityMentionRecord =
  kme_mention_id :: uuid
  kme_entity_id :: uuid
  kme_document_id :: uuid
  kme_chunk_id :: uuid
  kme_mention_text :: pystr
  kme_confidence :: rat
  kme_metadata :: json_object
  kme_created_at :: instant

record KnowledgeRelationshipRecord =
  krl_relationship_id :: uuid
  krl_source_entity_id :: uuid
  krl_target_entity_id :: uuid
  krl_relationship_type :: KnowledgeRelationshipType
  krl_description :: "pystr option"
  krl_confidence :: rat
  krl_source_chunk_id :: uuid
  krl_metadata :: json_object
  krl_created_at :: instant

record GraphTraversalData =
  gtd_matched_entities :: "KnowledgeEntityRecord list"
  gtd_related_entities :: "KnowledgeEntityRecord list"
  gtd_relationships :: "KnowledgeRelationshipRecord list"
  gtd_mentions :: "KnowledgeEntityMentionRecord list"
  gtd_evidence :: "RetrievedEvidence list"
  gtd_depth_used :: nat

record KnowledgeGraphEnrichmentResult =
  kge_document_id :: uuid
  kge_entity_count :: nat
  kge_relationship_count :: nat

definition empty_neighborhood :: "pystr \<Rightarrow> GraphNeighborhood" where
  "empty_neighborhood query =
     \<lparr>gn_query = query, gn_matched_entities = [], gn_related_entities = [], gn_relationships = [],
      gn_source_document_ids = [], gn_source_chunk_ids = [], gn_depth_used = 0, gn_evidence = []\<rparr>"

record HybridRetrievalResult =
  hrr_evidence :: "RetrievedEvidence list"
  hrr_neighborhood :: GraphNeighborhood
  hrr_metadata :: GraphRetrievalExecutionMetadata

end
