(* ===== verification/Resilience.thy ===== *)
theory Resilience
  imports Domain
begin

text \<open>
  Retry, failure classification and time bounds (\<^verbatim>\<open>app/runtime/resilience.py\<close>, \<open>RetryPolicy\<close>
  of \<^verbatim>\<open>app/runtime/models.py\<close>) and the request-scoped counters
  (\<^verbatim>\<open>app/runtime/metrics.py\<close>). The retried operation is a function of the attempt number, so
  every sequence of outcomes is covered; the callbacks \<open>sleeper\<close> and \<open>on_retry\<close> are the
  lists of their calls.
\<close>

section \<open>Failure classification\<close>

datatype FailureCategory =
  Fail_TRANSIENT | Fail_PERMANENT | Fail_VALIDATION | Fail_POLICY | Fail_TIMEOUT | Fail_PROVIDER
  | Fail_RETRIEVAL | Fail_TOOL | Fail_PERSISTENCE | Fail_HUMAN_REJECTION

text \<open>\<open>type(exc).__name__\<close>, as far as the classification looks at it.\<close>

definition vendor_exception_name :: "py_exc \<Rightarrow> pystr" where
  "vendor_exception_name e = (case e of OtherExc n \<Rightarrow> n | _ \<Rightarrow> [])"

definition classify_failure :: "py_exc \<Rightarrow> FailureCategory" where
  "classify_failure e =
     (if e \<in> {ProviderTimeoutExc, OperationTimeoutExc} \<or>
         vendor_exception_name e \<in> {py ''APITimeoutError''}
      then Fail_TIMEOUT
      else if e = ProviderTransientExc \<or>
         vendor_exception_name e \<in>
           {py ''APIConnectionError'', py ''InternalServerError'', py ''RateLimitError''}
      then Fail_TRANSIENT
      else if e \<in> {ValueExc, ValidationExc, TypeExc} then Fail_VALIDATION
      else Fail_PERMANENT)"

definition retriable :: "py_exc \<Rightarrow> bool" where
  "retriable e \<longleftrightarrow> classify_failure e \<in> {Fail_TRANSIENT, Fail_TIMEOUT}"

section \<open>Bounded retry\<close>

record RetryPolicy =
  rp_max_retries :: nat
  rp_base_delay_ms :: int
  rp_max_delay_ms :: int
  rp_jitter_ratio :: rat

text \<open>The field bounds and the validator \<open>RetryPolicy.validate_delay_bounds\<close>.\<close>

definition retry_policy_ok :: "RetryPolicy \<Rightarrow> bool" where
  "retry_policy_ok p \<longleftrightarrow>
     rp_max_retries p \<le> 10 \<and> 0 \<le> rp_base_delay_ms p \<and> rp_base_delay_ms p \<le> 60000 \<and>
     0 \<le> rp_max_delay_ms p \<and> rp_max_delay_ms p \<le> 60000 \<and>
     0 \<le> rp_jitter_ratio p \<and> rp_jitter_ratio p \<le> 1 \<and>
     rp_base_delay_ms p \<le> rp_max_delay_ms p"

record 'a retry_run =
  rr_result :: "py_exc + 'a"
  rr_calls :: nat
  rr_sleeps :: "rat list"
  rr_retries :: "(nat \<times> FailureCategory) list"

definition backoff_seconds :: "RetryPolicy \<Rightarrow> rat \<Rightarrow> nat \<Rightarrow> rat" where
  "backoff_seconds p rnd attempt =
     (let base = of_int (min (rp_max_delay_ms p) (rp_base_delay_ms p * 2 ^ attempt));
          jitter = base * rp_jitter_ratio p * rnd
      in (base + jitter) / 1000)"

text \<open>
  \<open>for attempt in range(max_retries + 1)\<close>: \<open>left\<close> counts the iterations that remain,
  \<open>operation\<close> and \<open>random_value\<close> are indexed by the attempt.
\<close>

primrec retry_loop ::
  "RetryPolicy \<Rightarrow> (nat \<Rightarrow> py_exc + 'a) \<Rightarrow> (nat \<Rightarrow> rat) \<Rightarrow> nat \<Rightarrow> nat \<Rightarrow> 'a retry_run" where
  "retry_loop p operation random_value 0 attempt =
     \<lparr>rr_result = Inl RuntimeExc, rr_calls = 0, rr_sleeps = [], rr_retries = []\<rparr>"
| "retry_loop p operation random_value (Suc left) attempt =
     (case operation attempt of
        Inr x \<Rightarrow> \<lparr>rr_result = Inr x, rr_calls = 1, rr_sleeps = [], rr_retries = []\<rparr>
      | Inl e \<Rightarrow>
          (let category = classify_failure e in
           if category \<notin> {Fail_TRANSIENT, Fail_TIMEOUT} \<or> attempt \<ge> rp_max_retries p
           then \<lparr>rr_result = Inl e, rr_calls = 1, rr_sleeps = [], rr_retries = []\<rparr>
           else
             (let rest = retry_loop p operation random_value left (Suc attempt) in
              rest\<lparr>rr_calls := Suc (rr_calls rest),
                   rr_sleeps := backoff_seconds p (random_value attempt) attempt # rr_sleeps rest,
                   rr_retries := (Suc attempt, category) # rr_retries rest\<rparr>)))"

definition run_with_retry ::
  "RetryPolicy \<Rightarrow> (nat \<Rightarrow> py_exc + 'a) \<Rightarrow> (nat \<Rightarrow> rat) \<Rightarrow> 'a retry_run" where
  "run_with_retry p operation random_value =
     retry_loop p operation random_value (Suc (rp_max_retries p)) 0"

text \<open>
  The specification: the outcome of the first attempt that is not a retriable failure, or of
  the last attempt the policy allows.
\<close>

definition settles_at :: "RetryPolicy \<Rightarrow> (nat \<Rightarrow> py_exc + 'a) \<Rightarrow> nat \<Rightarrow> bool" where
  "settles_at p operation k \<longleftrightarrow>
     k \<le> rp_max_retries p \<and> (\<forall>i < k. \<exists>e. operation i = Inl e \<and> retriable e) \<and>
     (k = rp_max_retries p \<or> (\<exists>x. operation k = Inr x) \<or>
      (\<exists>e. operation k = Inl e \<and> \<not> retriable e))"

lemma settles_exists: "\<exists>k. settles_at p operation k"
proof -
  let ?stop = "\<lambda>k. k = rp_max_retries p \<or> (\<exists>x. operation k = Inr x) \<or>
      (\<exists>e. operation k = Inl e \<and> \<not> retriable e)"
  define k where "k = (LEAST k. ?stop k)"
  have stop: "?stop k" unfolding k_def by (rule LeastI[of ?stop "rp_max_retries p"]) simp
  have le: "k \<le> rp_max_retries p" unfolding k_def by (rule Least_le) simp
  have "\<exists>e. operation i = Inl e \<and> retriable e" if "i < k" for i
  proof -
    from not_less_Least that have "\<not> ?stop i" unfolding k_def by blast
    then show ?thesis by (cases "operation i") auto
  qed
  with stop le show ?thesis by (auto simp: settles_at_def)
qed

lemma retry_loop_settles:
  assumes "attempt + d = k" and "k \<le> rp_max_retries p" and "d < n"
    and "\<And>i. attempt \<le> i \<Longrightarrow> i < k \<Longrightarrow> \<exists>e. operation i = Inl e \<and> retriable e"
    and "k = rp_max_retries p \<or> (\<exists>x. operation k = Inr x) \<or>
         (\<exists>e. operation k = Inl e \<and> \<not> retriable e)"
  shows "rr_result (retry_loop p operation rnd n attempt) = operation k \<and>
         rr_calls (retry_loop p operation rnd n attempt) = Suc d \<and>
         rr_sleeps (retry_loop p operation rnd n attempt) =
           map (\<lambda>i. backoff_seconds p (rnd i) i) [attempt..<k] \<and>
         map fst (rr_retries (retry_loop p operation rnd n attempt)) = [Suc attempt..<Suc k]"
  using assms
proof (induction d arbitrary: attempt n)
  case 0
  then obtain m where n: "n = Suc m" by (cases n) auto
  from "0.prems" show ?case
    by (cases "operation k") (auto simp: n retriable_def Let_def)
next
  case (Suc d)
  then obtain m where n: "n = Suc m" "d < m" by (cases n) auto
  have lt: "attempt < k" using Suc.prems(1) by simp
  with Suc.prems(4)[of attempt] obtain e where e: "operation attempt = Inl e" "retriable e" by auto
  have not_last: "\<not> rp_max_retries p \<le> attempt" using lt Suc.prems(2) by simp
  have IH: "rr_result (retry_loop p operation rnd m (Suc attempt)) = operation k \<and>
         rr_calls (retry_loop p operation rnd m (Suc attempt)) = Suc d \<and>
         rr_sleeps (retry_loop p operation rnd m (Suc attempt)) =
           map (\<lambda>i. backoff_seconds p (rnd i) i) [Suc attempt..<k] \<and>
         map fst (rr_retries (retry_loop p operation rnd m (Suc attempt))) = [Suc (Suc attempt)..<Suc k]"
    using Suc.prems lt n(2) by (intro Suc.IH) auto
  show ?case
    using e not_last IH lt by (auto simp: n(1) retriable_def Let_def upt_rec[of attempt] upt_rec[of "Suc attempt"])
qed

lemma backoff_bounds:
  assumes "retry_policy_ok p" and "0 \<le> rnd" and "rnd \<le> 1"
  shows "0 \<le> backoff_seconds p rnd k \<and>
         backoff_seconds p rnd k \<le> of_int (rp_max_delay_ms p) * (1 + rp_jitter_ratio p) / 1000"
proof -
  let ?base = "of_int (min (rp_max_delay_ms p) (rp_base_delay_ms p * 2 ^ k)) :: rat"
  have b0: "0 \<le> ?base"
    using assms(1) by (simp add: retry_policy_ok_def)
  have b1: "?base \<le> of_int (rp_max_delay_ms p)"
    by simp
  have j: "0 \<le> rp_jitter_ratio p" using assms(1) by (simp add: retry_policy_ok_def)
  have jr: "0 \<le> rp_jitter_ratio p * rnd" "rp_jitter_ratio p * rnd \<le> rp_jitter_ratio p"
    using assms(2,3) j by (simp_all add: mult_left_le)
  have eq: "backoff_seconds p rnd k = ?base * (1 + rp_jitter_ratio p * rnd) / 1000"
    unfolding backoff_seconds_def Let_def by (simp add: algebra_simps)
  have "?base * (1 + rp_jitter_ratio p * rnd) \<le>
        of_int (rp_max_delay_ms p) * (1 + rp_jitter_ratio p)"
    using b0 b1 jr by (intro mult_mono) auto
  then show ?thesis unfolding eq using b0 jr by simp
qed

section \<open>Time bound\<close>

text \<open>
  \<open>run_with_timeout\<close>: the worker's outcome arrives after \<open>finished\<close> seconds, or never
  (\<open>None\<close>); the caller waits for \<open>timeout_seconds\<close> at most.
\<close>

definition run_with_timeout :: "rat option \<Rightarrow> py_exc + 'a \<Rightarrow> rat \<Rightarrow> py_exc + 'a" where
  "run_with_timeout finished outcome timeout_seconds =
     (if timeout_seconds \<le> 0 then Inl ValueExc
      else case finished of
             None \<Rightarrow> Inl OperationTimeoutExc
           | Some t \<Rightarrow> if t \<le> timeout_seconds then outcome else Inl OperationTimeoutExc)"

section \<open>Runtime metrics\<close>

record ProviderTokenUsage =
  use_input_tokens :: "int option"
  use_output_tokens :: "int option"
  use_total_tokens :: "int option"

text \<open>
  What a provider hands to the recorder: nothing, the application's own usage record, or a
  vendor response with an optional \<open>usage\<close> attribute whose counters may be missing or not
  integers (\<open>None\<close> of the inner options).
\<close>

datatype usage_attr = Usage_missing | Usage_not_int | Usage_int int

datatype provider_response =
    No_response
  | Usage_record ProviderTokenUsage
  | Vendor_response "(usage_attr \<times> usage_attr \<times> usage_attr) option"

record RuntimeMetricsRecorder =
  met_model_call_durations_ms :: "int list"
  met_embedding_call_durations_ms :: "int list"
  met_tool_call_durations_ms :: "int list"
  met_retry_count :: int
  met_timeout_count :: int
  met_input_tokens :: int
  met_output_tokens :: int
  met_total_tokens :: int
  met_usage_observed :: bool

definition new_metrics :: RuntimeMetricsRecorder where
  "new_metrics =
     \<lparr>met_model_call_durations_ms = [], met_embedding_call_durations_ms = [],
      met_tool_call_durations_ms = [], met_retry_count = 0, met_timeout_count = 0,
      met_input_tokens = 0, met_output_tokens = 0, met_total_tokens = 0,
      met_usage_observed = False\<rparr>"

definition add_tokens ::
  "int \<Rightarrow> int \<Rightarrow> int \<Rightarrow> RuntimeMetricsRecorder \<Rightarrow> RuntimeMetricsRecorder" where
  "add_tokens i k t m =
     m\<lparr>met_usage_observed := True,
       met_input_tokens := met_input_tokens m + i,
       met_output_tokens := met_output_tokens m + k,
       met_total_tokens := met_total_tokens m + t\<rparr>"

text \<open>
  \<open>_record_usage\<close>. Adding a \<open>None\<close> counter of the application's own record raises
  \<open>TypeError\<close>, after the flag and the earlier counters have been written.
\<close>

definition record_usage ::
  "provider_response \<Rightarrow> (RuntimeMetricsRecorder, py_exc, unit) eff" where
  "record_usage response =
     (case response of
        No_response \<Rightarrow> returnE ()
      | Usage_record u \<Rightarrow>
          bindE (modifyE (\<lambda>m. m\<lparr>met_usage_observed := True\<rparr>)) (\<lambda>_.
          bindE (requireE TypeExc (use_input_tokens u)) (\<lambda>i.
          bindE (modifyE (\<lambda>m. m\<lparr>met_input_tokens := met_input_tokens m + i\<rparr>)) (\<lambda>_.
          bindE (requireE TypeExc (use_output_tokens u)) (\<lambda>k.
          bindE (modifyE (\<lambda>m. m\<lparr>met_output_tokens := met_output_tokens m + k\<rparr>)) (\<lambda>_.
          bindE (requireE TypeExc (use_total_tokens u)) (\<lambda>t.
          modifyE (\<lambda>m. m\<lparr>met_total_tokens := met_total_tokens m + t\<rparr>)))))))
      | Vendor_response None \<Rightarrow> returnE ()
      | Vendor_response (Some (i, k, t)) \<Rightarrow>
          (let t' = (case (i, k, t) of
                       (Usage_int a, Usage_int b, Usage_missing) \<Rightarrow> Usage_int (a + b)
                     | _ \<Rightarrow> t)
           in case (i, k, t') of
                (Usage_int a, Usage_int b, Usage_int c) \<Rightarrow>
                  if 0 \<le> a \<and> 0 \<le> b \<and> 0 \<le> c then modifyE (add_tokens a b c) else returnE ()
              | _ \<Rightarrow> returnE ()))"

definition record_model_call ::
  "int \<Rightarrow> provider_response \<Rightarrow> (RuntimeMetricsRecorder, py_exc, unit) eff" where
  "record_model_call duration_ms response =
     bindE (modifyE (\<lambda>m. m\<lparr>met_model_call_durations_ms :=
                            met_model_call_durations_ms m @ [max 0 duration_ms]\<rparr>))
           (\<lambda>_. record_usage response)"

definition record_embedding_call :: "int \<Rightarrow> (RuntimeMetricsRecorder, py_exc, unit) eff" where
  "record_embedding_call duration_ms =
     modifyE (\<lambda>m. m\<lparr>met_embedding_call_durations_ms :=
                     met_embedding_call_durations_ms m @ [max 0 duration_ms]\<rparr>)"

definition record_tool_call :: "int \<Rightarrow> (RuntimeMetricsRecorder, py_exc, unit) eff" where
  "record_tool_call duration_ms =
     modifyE (\<lambda>m. m\<lparr>met_tool_call_durations_ms :=
                     met_tool_call_durations_ms m @ [max 0 duration_ms]\<rparr>)"

definition record_retry :: "FailureCategory \<Rightarrow> (RuntimeMetricsRecorder, py_exc, unit) eff" where
  "record_retry category =
     modifyE (\<lambda>m. m\<lparr>met_retry_count := met_retry_count m + 1,
                    met_timeout_count := met_timeout_count m +
                      (if category = Fail_TIMEOUT then 1 else 0)\<rparr>)"

definition token_usage :: "RuntimeMetricsRecorder \<Rightarrow> ProviderTokenUsage option" where
  "token_usage m =
     (if \<not> met_usage_observed m then None
      else Some \<lparr>use_input_tokens = Some (met_input_tokens m),
                 use_output_tokens = Some (met_output_tokens m),
                 use_total_tokens = Some (met_total_tokens m)\<rparr>)"

text \<open>
  The counters never go negative and durations are non-negative: what \<open>OperationalTelemetry\<close>
  (\<open>ge=0\<close>) requires of them.
\<close>

definition metrics_ok :: "RuntimeMetricsRecorder \<Rightarrow> bool" where
  "metrics_ok m \<longleftrightarrow>
     (\<forall>d \<in> set (met_model_call_durations_ms m). 0 \<le> d) \<and>
     (\<forall>d \<in> set (met_embedding_call_durations_ms m). 0 \<le> d) \<and>
     (\<forall>d \<in> set (met_tool_call_durations_ms m). 0 \<le> d) \<and>
     0 \<le> met_retry_count m \<and> 0 \<le> met_timeout_count m \<and>
     met_timeout_count m \<le> met_retry_count m + int (length (met_tool_call_durations_ms m)) \<and>
     0 \<le> met_input_tokens m \<and> 0 \<le> met_output_tokens m \<and> 0 \<le> met_total_tokens m"

definition usage_record_ok :: "ProviderTokenUsage \<Rightarrow> bool" where
  "usage_record_ok u =
     list_all (\<lambda>v. case v of None \<Rightarrow> True | Some i \<Rightarrow> 0 \<le> i)
       [use_input_tokens u, use_output_tokens u, use_total_tokens u]"

lemma usage_record_ok_iff:
  "usage_record_ok u \<longleftrightarrow>
     (\<forall>i. use_input_tokens u = Some i \<longrightarrow> 0 \<le> i) \<and> (\<forall>i. use_output_tokens u = Some i \<longrightarrow> 0 \<le> i) \<and>
     (\<forall>i. use_total_tokens u = Some i \<longrightarrow> 0 \<le> i)"
  by (auto simp: usage_record_ok_def split: option.splits)

definition response_ok :: "provider_response \<Rightarrow> bool" where
  "response_ok r \<longleftrightarrow> (case r of Usage_record u \<Rightarrow> usage_record_ok u | _ \<Rightarrow> True)"

lemma metrics_ok_new [simp]: "metrics_ok new_metrics"
  by (simp add: metrics_ok_def new_metrics_def)

lemma record_retry_keeps: "keepsE metrics_ok (record_retry c)"
  unfolding record_retry_def by (rule keepsE_modify) (auto simp: metrics_ok_def)

lemma record_embedding_call_keeps: "keepsE metrics_ok (record_embedding_call d)"
  unfolding record_embedding_call_def by (rule keepsE_modify) (auto simp: metrics_ok_def)

lemma record_tool_call_keeps: "keepsE metrics_ok (record_tool_call d)"
  unfolding record_tool_call_def by (rule keepsE_modify) (auto simp: metrics_ok_def)

lemma add_tokens_keeps:
  "0 \<le> a \<Longrightarrow> 0 \<le> b \<Longrightarrow> 0 \<le> c \<Longrightarrow> keepsE metrics_ok (modifyE (add_tokens a b c))"
  by (rule keepsE_modify) (auto simp: metrics_ok_def add_tokens_def)

lemma record_usage_keeps:
  assumes "response_ok r"
  shows "keepsE metrics_ok (record_usage r)"
proof (cases r)
  case (Usage_record u)
  with assms have u: "usage_record_ok u" by (simp add: response_ok_def)
  show ?thesis
    unfolding Usage_record record_usage_def provider_response.case
    using u
    by (cases "use_input_tokens u"; cases "use_output_tokens u"; cases "use_total_tokens u")
       (auto simp: keepsE_def bindE_def eff_simps metrics_ok_def usage_record_ok_iff)
qed (auto simp: record_usage_def Let_def intro!: add_tokens_keeps split: option.split usage_attr.split)

lemma record_model_call_keeps: "response_ok r \<Longrightarrow> keepsE metrics_ok (record_model_call d r)"
  unfolding record_model_call_def
  by (intro keepsE_bind keepsE_modify record_usage_keeps) (auto simp: metrics_ok_def)

section \<open>Properties of the retry loop\<close>

lemma sum_list_le_bound:
  fixes c :: rat
  assumes "\<And>x. x \<in> set xs \<Longrightarrow> x \<le> c"
  shows "sum_list xs \<le> of_nat (length xs) * c"
  using assms
proof (induction xs)
  case (Cons x xs)
  then have "sum_list xs \<le> of_nat (length xs) * c" "x \<le> c" by auto
  then show ?case by (simp add: algebra_simps)
qed simp

text \<open>the retry loop returns the outcome of the first attempt that succeeds or fails with a
  non-retriable category, or of the last attempt the policy allows; it calls the operation once
  per attempt, sleeps the computed backoff before every repetition and reports each one.\<close>

theorem retry_outcome:
  "\<exists>k. settles_at p operation k \<and>
       rr_result (run_with_retry p operation rnd) = operation k \<and>
       rr_calls (run_with_retry p operation rnd) = Suc k \<and>
       rr_sleeps (run_with_retry p operation rnd) = map (\<lambda>i. backoff_seconds p (rnd i) i) [0..<k] \<and>
       map fst (rr_retries (run_with_retry p operation rnd)) = [1..<Suc k]"
proof -
  obtain k where k: "settles_at p operation k" using settles_exists by blast
  then show ?thesis
    unfolding run_with_retry_def
    using retry_loop_settles[of 0 k k p "Suc (rp_max_retries p)" operation rnd]
    by (intro exI[of _ k]) (simp add: settles_at_def)
qed

text \<open>Under a validated policy and jitter drawn from the unit interval, one retried call
  makes at most eleven attempts and the total time it sleeps is bounded by the number of retries
  times the maximum delay including jitter.\<close>

theorem retry_bounded:
  assumes "retry_policy_ok p" and "\<And>i. 0 \<le> rnd i \<and> rnd i \<le> 1"
  shows "rr_calls (run_with_retry p operation rnd) \<le> Suc (rp_max_retries p) \<and>
         rr_calls (run_with_retry p operation rnd) \<le> 11 \<and>
         sum_list (rr_sleeps (run_with_retry p operation rnd)) \<le>
           of_nat (rp_max_retries p) * (of_int (rp_max_delay_ms p) * (1 + rp_jitter_ratio p) / 1000)"
proof -
  let ?b = "of_int (rp_max_delay_ms p) * (1 + rp_jitter_ratio p) / 1000 :: rat"
  obtain k where k: "settles_at p operation k" using settles_exists by blast
  then have le: "k \<le> rp_max_retries p" by (simp add: settles_at_def)
  have run: "rr_calls (run_with_retry p operation rnd) = Suc k \<and>
       rr_sleeps (run_with_retry p operation rnd) = map (\<lambda>i. backoff_seconds p (rnd i) i) [0..<k]"
    unfolding run_with_retry_def
    using retry_loop_settles[of 0 k k p "Suc (rp_max_retries p)" operation rnd] k
    by (simp add: settles_at_def)
  have b: "0 \<le> ?b" using assms(1) by (simp add: retry_policy_ok_def)
  have "sum_list (map (\<lambda>i. backoff_seconds p (rnd i) i) [0..<k]) \<le> of_nat k * ?b"
    using sum_list_le_bound[of "map (\<lambda>i. backoff_seconds p (rnd i) i) [0..<k]" ?b]
      backoff_bounds[OF assms(1)] assms(2) by fastforce
  also have "\<dots> \<le> of_nat (rp_max_retries p) * ?b" using le b by (intro mult_right_mono) simp_all
  finally show ?thesis using run le assms(1) by (simp add: retry_policy_ok_def)
qed

theorem retry_bounded_witness:
  "let p = \<lparr>rp_max_retries = 2, rp_base_delay_ms = 100, rp_max_delay_ms = 150, rp_jitter_ratio = 1\<rparr>;
       r = run_with_retry p (\<lambda>_. Inl ProviderTransientExc :: py_exc + nat) (\<lambda>_. 0)
   in rr_calls r = 3 \<and> sum_list (rr_sleeps r) = 1 / 4 \<and> sum_list (rr_sleeps r) \<le> 3 / 5"
proof -
  let ?p = "\<lparr>rp_max_retries = 2, rp_base_delay_ms = 100, rp_max_delay_ms = 150, rp_jitter_ratio = 1\<rparr>"
  have "sum_list (rr_sleeps (run_with_retry ?p (\<lambda>_. Inl ProviderTransientExc :: py_exc + nat) (\<lambda>_. 0))) \<le> 3 / 5"
    using retry_bounded[of ?p "\<lambda>_. 0" "\<lambda>_. Inl ProviderTransientExc :: py_exc + nat"]
    by (simp add: retry_policy_ok_def)
  then show ?thesis
    by (simp add: run_with_retry_def numeral_2_eq_2 numeral_3_eq_3 classify_failure_def
        vendor_exception_name_def backoff_seconds_def Let_def)
qed

end
