(* ===== verification/Tools.thy ===== *)
theory Tools
  imports Knowledge_Model Resilience
begin

text \<open>
  The tools an agent may call: argument schemas and results (\<^verbatim>\<open>app/tools/models.py\<close>), the registry with
  its per-run cache (\<^verbatim>\<open>app/tools/registry.py\<close>), the read-only knowledge tools
  (\<^verbatim>\<open>app/tools/knowledge.py\<close>) and the per-agent permissions (\<^verbatim>\<open>app/tools/permissions.py\<close>).

  Tools run in a world: the state \<open>'w\<close> behind the handlers, the shared metrics recorder, and
  what the environment will do (how long each handler invocation takes or that it never ends, the
  readings of \<open>perf_counter\<close> and of the clock). Pydantic's \<open>model_validate\<close> and
  \<open>model_json_schema\<close> and SHA-256 are parameters.
\<close>

section \<open>Arguments and results\<close>

datatype tool_arguments =
    SearchKnowledgeArguments (ska_query: pystr) (ska_top_k: int)
  | GetKnowledgeDocumentArguments (gda_document_id: uuid)
  | SearchKnowledgeGraphArguments (sga_query: pystr) (sga_max_depth: int)
      (sga_entity_types: "KnowledgeEntityType list option")

text \<open>The field bounds of the three schemas.\<close>

primrec tool_arguments_ok :: "tool_arguments \<Rightarrow> bool" where
  "tool_arguments_ok (SearchKnowledgeArguments q k) \<longleftrightarrow>
     len_between 1 4000 q \<and> 1 \<le> k \<and> k \<le> 20"
| "tool_arguments_ok (GetKnowledgeDocumentArguments d) \<longleftrightarrow> True"
| "tool_arguments_ok (SearchKnowledgeGraphArguments q m ts) \<longleftrightarrow>
     len_between 1 4000 q \<and> 1 \<le> m \<and> m \<le> 5 \<and>
     (case ts of None \<Rightarrow> True | Some xs \<Rightarrow> length xs \<le> 11)"

text \<open>\<open>arguments.model_dump(mode="json")\<close>.\<close>

primrec dump_arguments :: "tool_arguments \<Rightarrow> json_object" where
  "dump_arguments (SearchKnowledgeArguments q k) =
     [(py ''query'', JStr q), (py ''top_k'', JInt k)]"
| "dump_arguments (GetKnowledgeDocumentArguments d) =
     [(py ''document_id'', JStr (uuid_str d))]"
| "dump_arguments (SearchKnowledgeGraphArguments q m ts) =
     [(py ''query'', JStr q), (py ''max_depth'', JInt m),
      (py ''entity_types'',
        (case ts of None \<Rightarrow> JNull | Some xs \<Rightarrow> JArr (map (\<lambda>t. JStr (entity_type_value t)) xs)))]"

record ObservedKnowledgeDocument =
  od_document_id :: uuid
  od_title :: pystr
  od_source_type :: KnowledgeSourceType
  od_content_excerpt :: pystr
  od_metadata :: json_object
  od_truncated :: bool

record ToolExecutionResult =
  te_tool_name :: pystr
  te_success :: bool
  te_summary :: pystr
  te_evidence :: "RetrievedEvidence list"
  te_document :: "ObservedKnowledgeDocument option"
  te_graph_neighborhood :: "GraphNeighborhood option"
  te_graph_retrieval :: "GraphRetrievalExecutionMetadata option"
  te_error_code :: "pystr option"
  te_cached :: bool

text \<open>\<open>ToolExecutionResult(tool_name, success, summary)\<close> with every other field at its default.\<close>

definition tool_result :: "pystr \<Rightarrow> bool \<Rightarrow> pystr \<Rightarrow> ToolExecutionResult" where
  "tool_result name success summary =
     \<lparr>te_tool_name = name, te_success = success, te_summary = summary, te_evidence = [],
      te_document = None, te_graph_neighborhood = None, te_graph_retrieval = None,
      te_error_code = None, te_cached = False\<rparr>"

definition tool_failure :: "pystr \<Rightarrow> pystr \<Rightarrow> pystr \<Rightarrow> ToolExecutionResult" where
  "tool_failure name summary code = (tool_result name False summary)\<lparr>te_error_code := Some code\<rparr>"

record ToolHistoryEntry =
  th_step :: int
  th_tool_name :: pystr
  th_success :: bool
  th_summary :: pystr
  th_argument_keys :: "pystr list"
  th_call_fingerprint :: pystr
  th_cached :: bool
  th_error_code :: "pystr option"
  th_graph_retrieval :: "GraphRetrievalExecutionMetadata option"

section \<open>The world of a tool call\<close>

record 'w tool_world =
  tw_env :: 'w
  tw_metrics :: "RuntimeMetricsRecorder option"
  tw_finish :: "nat \<Rightarrow> rat option"
  tw_invoked :: nat
  tw_perf :: "nat \<Rightarrow> rat"
  tw_reads :: nat
  tw_now :: "nat \<Rightarrow> instant"
  tw_ticks :: nat

type_synonym ('w, 'a) tool = "('w tool_world, py_exc, 'a) eff"

definition perf_counter :: "('w, rat) tool" where
  "perf_counter = (\<lambda>s. (Inr (tw_perf s (tw_reads s)), s\<lparr>tw_reads := Suc (tw_reads s)\<rparr>))"

definition datetime_now :: "('w, instant) tool" where
  "datetime_now = (\<lambda>s. (Inr (tw_now s (tw_ticks s)), s\<lparr>tw_ticks := Suc (tw_ticks s)\<rparr>))"

definition update_metrics ::
  "(RuntimeMetricsRecorder \<Rightarrow> RuntimeMetricsRecorder) \<Rightarrow> ('w, unit) tool" where
  "update_metrics f = modifyE (\<lambda>s. s\<lparr>tw_metrics := map_option f (tw_metrics s)\<rparr>)"

section \<open>The registry\<close>

record digest_library =
  dl_float_repr :: "rat \<Rightarrow> pystr"
  dl_sha256_hex :: "pystr \<Rightarrow> pystr"

record 'w ToolDefinition =
  td_name :: pystr
  td_description :: pystr
  td_validate :: "json_object \<Rightarrow> py_exc + tool_arguments"
  td_json_schema :: json_object
  td_handler :: "tool_arguments \<Rightarrow> ('w, py_exc, ToolExecutionResult) eff"

definition openai_schema :: "'w ToolDefinition \<Rightarrow> json_object" where
  "openai_schema d =
     [(py ''type'', JStr (py ''function'')),
      (py ''name'', JStr (td_name d)),
      (py ''description'', JStr (td_description d)),
      (py ''parameters'',
        JObj (AList.update (py ''additionalProperties'') (JBool False) (td_json_schema d))),
      (py ''strict'', JBool True)]"

record 'w ToolRegistry =
  rg_definitions :: "(pystr, 'w ToolDefinition) dict"
  rg_timeout_seconds :: "rat option"
  rg_digest :: digest_library

definition mk_registry ::
  "'w ToolDefinition list \<Rightarrow> rat option \<Rightarrow> digest_library \<Rightarrow> py_exc + 'w ToolRegistry" where
  "mk_registry definitions timeout_seconds digest =
     (let names = map td_name definitions
      in if length names \<noteq> length (remdups names) then Inl ValueExc
         else Inr \<lparr>rg_definitions = dict_of td_name definitions,
                   rg_timeout_seconds = timeout_seconds, rg_digest = digest\<rparr>)"

definition registry_names :: "'w ToolRegistry \<Rightarrow> pystr list" where
  "registry_names r = map fst (rg_definitions r)"

definition schemas :: "'w ToolRegistry \<Rightarrow> json_object list" where
  "schemas r = map openai_schema (dict_values (rg_definitions r))"

text \<open>\<open>hashlib.sha256(json.dumps(value).encode("utf-8")).hexdigest()\<close>.\<close>

definition digest_json :: "digest_library \<Rightarrow> json_object \<Rightarrow> py_exc + pystr" where
  "digest_json lib v =
     (let serialized = json_dumps (dl_float_repr lib) (JObj v)
      in if encodable serialized then Inr (dl_sha256_hex lib serialized) else Inl ValueExc)"

definition fingerprint :: "digest_library \<Rightarrow> pystr \<Rightarrow> json_object \<Rightarrow> py_exc + pystr" where
  "fingerprint lib name arguments =
     digest_json lib [(py ''name'', JStr name), (py ''arguments'', JObj arguments)]"

definition argument_keys :: "json_object \<Rightarrow> pystr list" where
  "argument_keys raw = sort (map fst raw)"

text \<open>
  One invocation of a handler. With a time bound the handler runs in a worker; when the bound
  passes first the caller gets \<open>OperationTimeoutError\<close> and the worker goes on by itself.
\<close>

definition run_handler ::
  "rat option \<Rightarrow> ('w, py_exc, ToolExecutionResult) eff \<Rightarrow> ('w, ToolExecutionResult) tool" where
  "run_handler timeout_seconds handler =
     (\<lambda>s. let started = (case timeout_seconds of None \<Rightarrow> True | Some bound \<Rightarrow> 0 < bound);
               (outcome, w) = handler (tw_env s);
               ran = s\<lparr>tw_env := w, tw_invoked := Suc (tw_invoked s)\<rparr>
           in ((case timeout_seconds of
                  None \<Rightarrow> outcome
                | Some bound \<Rightarrow> run_with_timeout (tw_finish s (tw_invoked s)) outcome bound),
               if started then ran else s))"

text \<open>The three \<open>except\<close> clauses around the handler.\<close>

definition failure_result :: "pystr \<Rightarrow> py_exc \<Rightarrow> ToolExecutionResult" where
  "failure_result name e =
     (case e of
        OperationTimeoutExc \<Rightarrow>
          tool_failure name (py ''The approved tool exceeded its configured time limit.'')
            (py ''tool_timeout'')
      | AppExc a \<Rightarrow> tool_failure name (public_message a) (error_code a)
      | _ \<Rightarrow>
          tool_failure name (py ''The approved tool could not complete the request.'')
            (py ''tool_execution_error''))"

definition invoke_tool ::
  "'w ToolRegistry \<Rightarrow> pystr \<Rightarrow> ('w, py_exc, ToolExecutionResult) eff \<Rightarrow>
     ('w, ToolExecutionResult) tool" where
  "invoke_tool r name handler =
     bindE perf_counter (\<lambda>started.
     bindE (catchE (run_handler (rg_timeout_seconds r) handler)
              (\<lambda>e. bindE (if e = OperationTimeoutExc
                          then update_metrics (\<lambda>m. m\<lparr>met_timeout_count := met_timeout_count m + 1\<rparr>)
                          else returnE ())
                         (\<lambda>_. returnE (failure_result name e)))) (\<lambda>result.
     bindE perf_counter (\<lambda>finished.
     bindE (update_metrics (\<lambda>m. snd (record_tool_call
              (max 0 (py_round ((finished - started) * 1000))) m))) (\<lambda>_.
     returnE result))))"

type_synonym tool_cache = "(pystr, ToolExecutionResult) dict"

definition registry_execute ::
  "'w ToolRegistry \<Rightarrow> pystr \<Rightarrow> json_object \<Rightarrow> tool_cache option \<Rightarrow>
     ('w, (ToolExecutionResult \<times> pystr \<times> pystr list) \<times> tool_cache option) tool" where
  "registry_execute r name raw cache =
     (case map_of (rg_definitions r) name of
        None \<Rightarrow>
          bindE (liftE (fingerprint (rg_digest r) name raw)) (\<lambda>fp.
          returnE ((tool_failure name
                      (py ''Requested tool is not in the approved tool registry.'')
                      (py ''unknown_tool''), fp, argument_keys raw), cache))
      | Some d \<Rightarrow>
          (case td_validate d raw of
             Inl e \<Rightarrow>
               if e = ValidationExc then
                 bindE (liftE (fingerprint (rg_digest r) name raw)) (\<lambda>fp.
                 returnE ((tool_failure name
                             (py ''Tool arguments did not match the approved schema.'')
                             (py ''invalid_tool_arguments''), fp, argument_keys raw), cache))
               else raiseE e
           | Inr arguments \<Rightarrow>
               bindE (liftE (fingerprint (rg_digest r) name (dump_arguments arguments))) (\<lambda>fp.
                 case Option.bind cache (\<lambda>c. map_of c fp) of
                   Some hit \<Rightarrow> returnE ((hit\<lparr>te_cached := True\<rparr>, fp, argument_keys raw), cache)
                 | None \<Rightarrow>
                     bindE (invoke_tool r name (td_handler d arguments)) (\<lambda>result.
                     returnE ((result, fp, argument_keys raw),
                              map_option (AList.update fp result) cache)))))"

section \<open>The knowledge tools\<close>

definition DOCUMENT_EXCERPT_MAX_CHARS :: nat where
  "DOCUMENT_EXCERPT_MAX_CHARS = 12000"

definition attribute_error :: py_exc where
  "attribute_error = OtherExc (py ''AttributeError'')"

definition search_knowledge ::
  "(pystr \<Rightarrow> int \<Rightarrow> ('w, py_exc, RetrievedEvidence list) eff) \<Rightarrow> tool_arguments \<Rightarrow>
     ('w, py_exc, ToolExecutionResult) eff" where
  "search_knowledge retrieval_search raw =
     (case raw of
        SearchKnowledgeArguments q k \<Rightarrow>
          bindE (retrieval_search q k) (\<lambda>evidence.
          returnE ((tool_result (py ''search_knowledge'') True
                      (py ''Knowledge search returned '' @ nat_digits (length evidence) @
                       py '' relevant chunk(s).''))\<lparr>te_evidence := evidence\<rparr>))
      | _ \<Rightarrow> raiseE attribute_error)"

definition observe_document :: "KnowledgeDocumentRecord \<Rightarrow> ObservedKnowledgeDocument" where
  "observe_document record =
     (let excerpt = take DOCUMENT_EXCERPT_MAX_CHARS (kd_content record)
      in \<lparr>od_document_id = kd_document_id record, od_title = kd_title record,
          od_source_type = kd_source_type record, od_content_excerpt = excerpt,
          od_metadata = kd_metadata record,
          od_truncated = (length (kd_content record) > length excerpt)\<rparr>)"

definition get_knowledge_document ::
  "(uuid \<Rightarrow> ('w, py_exc, KnowledgeDocumentRecord option) eff) \<Rightarrow> tool_arguments \<Rightarrow>
     ('w, py_exc, ToolExecutionResult) eff" where
  "get_knowledge_document get_by_id raw =
     (case raw of
        GetKnowledgeDocumentArguments d \<Rightarrow>
          bindE (get_by_id d) (\<lambda>found.
            returnE (case found of
                None \<Rightarrow> tool_result (py ''get_knowledge_document'') True
                          (py ''Knowledge document was not found.'')
              | Some record \<Rightarrow>
                  (tool_result (py ''get_knowledge_document'') True
                     (py ''Knowledge document was retrieved through the read-only repository.''))
                  \<lparr>te_document := Some (observe_document record)\<rparr>))
      | _ \<Rightarrow> raiseE attribute_error)"

definition graph_search_failed :: "app_error \<Rightarrow> ToolExecutionResult" where
  "graph_search_failed a =
     (tool_failure (py ''search_knowledge_graph'') (public_message a) (error_code a))
     \<lparr>te_graph_retrieval :=
        Some (default_graph_metadata\<lparr>gx_degraded_graph_mode := True,
                                     gx_graph_error_code := Some (error_code a)\<rparr>)\<rparr>"

definition neighborhood_metadata :: "GraphNeighborhood \<Rightarrow> GraphRetrievalExecutionMetadata" where
  "neighborhood_metadata n =
     default_graph_metadata\<lparr>
       gx_graph_retrieval_used := True,
       gx_matched_entity_count := int (length (gn_matched_entities n)),
       gx_relationship_count := int (length (gn_relationships n)),
       gx_graph_depth_used := gn_depth_used n,
       gx_graph_evidence_count := int (length (gn_evidence n)),
       gx_hybrid_evidence_count := int (length (gn_evidence n))\<rparr>"

definition graph_search_completed :: "GraphNeighborhood \<Rightarrow> py_exc + ToolExecutionResult" where
  "graph_search_completed n =
     (if graph_metadata_ok (neighborhood_metadata n)
      then Inr ((tool_result (py ''search_knowledge_graph'') True
                   (py ''Knowledge graph search returned '' @
                    nat_digits (length (gn_matched_entities n)) @
                    py '' matched entity/entities and '' @
                    nat_digits (length (gn_relationships n)) @ py '' relationship(s).''))
                \<lparr>te_evidence := gn_evidence n, te_graph_neighborhood := Some n,
                  te_graph_retrieval := Some (neighborhood_metadata n)\<rparr>)
      else Inl ValidationExc)"

definition search_knowledge_graph ::
  "(pystr \<Rightarrow> int \<Rightarrow> KnowledgeEntityType list option \<Rightarrow> ('w, py_exc, GraphNeighborhood) eff) \<Rightarrow>
     tool_arguments \<Rightarrow> ('w, py_exc, ToolExecutionResult) eff" where
  "search_knowledge_graph graph_search raw =
     (case raw of
        SearchKnowledgeGraphArguments q m ts \<Rightarrow>
          (\<lambda>w. case graph_search q m ts w of
             (Inl (AppExc a), w') \<Rightarrow> (Inr (graph_search_failed a), w')
           | (Inl e, w') \<Rightarrow> (Inl e, w')
           | (Inr n, w') \<Rightarrow> (graph_search_completed n, w'))
      | _ \<Rightarrow> raiseE attribute_error)"

text \<open>What Pydantic derives from the three argument models: validation and JSON schema.\<close>

record schema_library =
  sl_search :: "json_object \<Rightarrow> py_exc + tool_arguments"
  sl_document :: "json_object \<Rightarrow> py_exc + tool_arguments"
  sl_graph :: "json_object \<Rightarrow> py_exc + tool_arguments"
  sl_search_schema :: json_object
  sl_document_schema :: json_object
  sl_graph_schema :: json_object

definition build_knowledge_tool_registry ::
  "schema_library \<Rightarrow> digest_library \<Rightarrow>
     (pystr \<Rightarrow> int \<Rightarrow> ('w, py_exc, RetrievedEvidence list) eff) \<Rightarrow>
     (uuid \<Rightarrow> ('w, py_exc, KnowledgeDocumentRecord option) eff) \<Rightarrow>
     (pystr \<Rightarrow> int \<Rightarrow> KnowledgeEntityType list option \<Rightarrow> ('w, py_exc, GraphNeighborhood) eff) option \<Rightarrow>
     rat option \<Rightarrow> py_exc + 'w ToolRegistry" where
  "build_knowledge_tool_registry lib digest retrieval documents graph timeout_seconds =
     (let definitions =
        [\<lparr>td_name = py ''search_knowledge'',
          td_description = py ''Search the existing enterprise knowledge store for evidence relevant to the assessment. Use a focused query and a small result count.'',
          td_validate = sl_search lib, td_json_schema = sl_search_schema lib,
          td_handler = search_knowledge retrieval\<rparr>,
         \<lparr>td_name = py ''get_knowledge_document'',
          td_description = py ''Read a bounded excerpt of one existing knowledge document by UUID. Use it only when a known source needs more context.'',
          td_validate = sl_document lib, td_json_schema = sl_document_schema lib,
          td_handler = get_knowledge_document documents\<rparr>] @
        (case graph of
           None \<Rightarrow> []
         | Some g \<Rightarrow>
             [\<lparr>td_name = py ''search_knowledge_graph'',
               td_description = py ''Find known enterprise entities and traverse a small, source-grounded relationship neighborhood. Use only for relationship-aware evidence.'',
               td_validate = sl_graph lib, td_json_schema = sl_graph_schema lib,
               td_handler = search_knowledge_graph g\<rparr>])
      in mk_registry definitions timeout_seconds digest)"

section \<open>Permissions\<close>

definition EVIDENCE_TOOL_NAMES :: "pystr list" where
  "EVIDENCE_TOOL_NAMES =
     [py ''search_knowledge'', py ''get_knowledge_document'', py ''search_knowledge_graph'']"

primrec agent_name_value :: "MultiAgentName \<Rightarrow> pystr" where
  "agent_name_value Agent_EVIDENCE = py ''evidence''"
| "agent_name_value Agent_ARCHITECTURE = py ''architecture''"
| "agent_name_value Agent_RISK_GOVERNANCE = py ''risk_governance''"
| "agent_name_value Agent_SYNTHESIS = py ''synthesis''"

primrec permissions :: "MultiAgentName \<Rightarrow> pystr list" where
  "permissions Agent_EVIDENCE = EVIDENCE_TOOL_NAMES"
| "permissions Agent_ARCHITECTURE = []"
| "permissions Agent_RISK_GOVERNANCE = []"
| "permissions Agent_SYNTHESIS = []"

definition schemas_for :: "MultiAgentName \<Rightarrow> 'w ToolRegistry \<Rightarrow> json_object list" where
  "schemas_for agent r =
     filter (\<lambda>schema. case map_of schema (py ''name'') of
                        Some (JStr n) \<Rightarrow> n \<in> set (permissions agent)
                      | _ \<Rightarrow> False) (schemas r)"

definition permitted_execute ::
  "MultiAgentName \<Rightarrow> 'w ToolRegistry \<Rightarrow> pystr \<Rightarrow> json_object \<Rightarrow> tool_cache option \<Rightarrow>
     ('w, (ToolExecutionResult \<times> pystr \<times> pystr list) \<times> tool_cache option) tool" where
  "permitted_execute agent r name raw cache =
     (if name \<notin> set (permissions agent)
      then bindE (liftE (digest_json (rg_digest r)
                   [(py ''agent'', JStr (agent_name_value agent)), (py ''name'', JStr name),
                    (py ''arguments'', JObj raw)])) (\<lambda>fp.
           returnE ((tool_failure name
                       (py ''The specialist is not authorized to use the requested tool.'')
                       (py ''unauthorized_tool''), fp, argument_keys raw), cache))
      else registry_execute r name raw cache)"

section \<open>Facts about a call\<close>

lemma digest_json_Inl: "digest_json lib v = Inl e \<Longrightarrow> e = ValueExc"
  by (auto simp: digest_json_def Let_def split: if_splits)

lemma fingerprint_Inl: "fingerprint lib name a = Inl e \<Longrightarrow> e = ValueExc"
  unfolding fingerprint_def by (rule digest_json_Inl)

text \<open>A handler's exception becomes a failure result; its effect on the environment is kept.\<close>

lemma invoke_tool_run:
  "\<exists>result s'. invoke_tool r name h s = (Inr result, s') \<and>
     (tw_env s' = tw_env s \<and> tw_invoked s' = tw_invoked s \<or>
      tw_env s' = snd (h (tw_env s)) \<and> tw_invoked s' = Suc (tw_invoked s)) \<and>
     (fst (h (tw_env s)) = Inr result \<or> (\<exists>e. result = failure_result name e))"
proof -
  obtain outcome w where h: "h (tw_env s) = (outcome, w)" by (cases "h (tw_env s)")
  let ?s1 = "s\<lparr>tw_reads := Suc (tw_reads s)\<rparr>"
  let ?run = "run_handler (rg_timeout_seconds r) h ?s1"
  obtain out s2 where run: "?run = (out, s2)" by (cases ?run)
  then have s2: "tw_env s2 = tw_env s \<and> tw_invoked s2 = tw_invoked s \<or>
      tw_env s2 = w \<and> tw_invoked s2 = Suc (tw_invoked s)"
    using h by (auto simp: run_handler_def Let_def)
  have out: "out = outcome \<or> (\<exists>e. out = Inl e)"
    using run h by (auto simp: run_handler_def run_with_timeout_def Let_def split: option.splits if_splits)
  show ?thesis
    using s2 out h run
    by (cases out)
       (auto simp: invoke_tool_def bindE_def catchE_def perf_counter_def update_metrics_def eff_simps
         split: prod.splits sum.splits)
qed

lemma failure_result_fields:
  "te_success (failure_result name e) = False \<and> te_tool_name (failure_result name e) = name \<and>
   te_evidence (failure_result name e) = [] \<and> te_document (failure_result name e) = None \<and>
   len_between 1 300 (te_summary (failure_result name e)) \<and>
   opt_between 1 100 (te_error_code (failure_result name e))"
  using error_code_length public_message_length
  by (cases e) (simp_all add: failure_result_def tool_failure_def tool_result_def opt_between_def
      len_between_def Suc_le_eq)

text \<open>The four ways a call to the registry can go.\<close>

lemma registry_execute_cases:
  assumes "registry_execute r name raw cache s = (out, s')"
  obtains
    (raised) e where "out = Inl e" "s' = s"
      "fingerprint (rg_digest r) name raw = Inl e \<or>
       (\<exists>d. map_of (rg_definitions r) name = Some d \<and>
          (td_validate d raw = Inl e \<and> e \<noteq> ValidationExc \<or>
           (\<exists>a. td_validate d raw = Inr a \<and>
                fingerprint (rg_digest r) name (dump_arguments a) = Inl e)))"
  | (refused) summary code fp where
      "out = Inr ((tool_failure name summary code, fp, argument_keys raw), cache)" "s' = s"
      "len_between 1 300 summary"
      "map_of (rg_definitions r) name = None \<or>
       (\<exists>d. map_of (rg_definitions r) name = Some d \<and> td_validate d raw = Inl ValidationExc)"
  | (cached) d a fp hit c where "map_of (rg_definitions r) name = Some d"
      "td_validate d raw = Inr a" "fingerprint (rg_digest r) name (dump_arguments a) = Inr fp"
      "cache = Some c" "map_of c fp = Some hit"
      "out = Inr ((hit\<lparr>te_cached := True\<rparr>, fp, argument_keys raw), cache)" "s' = s"
  | (ran) d a fp result where "map_of (rg_definitions r) name = Some d"
      "td_validate d raw = Inr a" "fingerprint (rg_digest r) name (dump_arguments a) = Inr fp"
      "invoke_tool r name (td_handler d a) s = (Inr result, s')"
      "out = Inr ((result, fp, argument_keys raw), map_option (AList.update fp result) cache)"
proof (cases "map_of (rg_definitions r) name")
  case None
  show thesis
  proof (cases "fingerprint (rg_digest r) name raw")
    case (Inl e)
    with None assms show thesis
      by (intro raised[of e]) (auto simp: registry_execute_def bindE_def eff_simps)
  next
    case (Inr fp)
    with None assms show thesis
      by (intro refused[of "py ''Requested tool is not in the approved tool registry.''" "py ''unknown_tool''" fp])
         (auto simp: registry_execute_def bindE_def eff_simps)
  qed
next
  case (Some d)
  show thesis
  proof (cases "td_validate d raw")
    case (Inl e)
    show thesis
    proof (cases "e = ValidationExc")
      case True
      show thesis
      proof (cases "fingerprint (rg_digest r) name raw")
        case (Inl e')
        with Some \<open>td_validate d raw = Inl e\<close> True assms show thesis
          by (intro raised[of e']) (auto simp: registry_execute_def bindE_def eff_simps)
      next
        case (Inr fp)
        with Some Inl True assms show thesis
          by (intro refused[of "py ''Tool arguments did not match the approved schema.''"
                 "py ''invalid_tool_arguments''" fp])
             (auto simp: registry_execute_def bindE_def eff_simps)
      qed
    next
      case False
      with Some Inl assms show thesis
        by (intro raised[of e]) (auto simp: registry_execute_def bindE_def eff_simps)
    qed
  next
    case (Inr a)
    show thesis
    proof (cases "fingerprint (rg_digest r) name (dump_arguments a)")
      case (Inl e)
      with Some Inr assms show thesis
        by (intro raised[of e]) (auto simp: registry_execute_def bindE_def eff_simps)
    next
      case fp: (Inr fp)
      show thesis
      proof (cases "Option.bind cache (\<lambda>c. map_of c fp)")
        case None
        obtain result s2 where "invoke_tool r name (td_handler d a) s = (Inr result, s2)"
          using invoke_tool_run by blast
        with None Some Inr fp assms show thesis
          by (intro ran[of d a fp result]) (auto simp: registry_execute_def bindE_def eff_simps)
      next
        case hit: (Some h)
        then obtain c where "cache = Some c" "map_of c fp = Some h"
          by (auto simp: bind_eq_Some_conv)
        with hit Some Inr fp assms show thesis
          by (intro cached[of d a fp c h]) (auto simp: registry_execute_def bindE_def eff_simps)
      qed
    qed
  qed
qed

section \<open>Properties\<close>

text \<open>C29: a specialist runs a handler only if it is the evidence agent, the tool is on the
  evidence allowlist and registered, and the arguments passed the tool's schema; the handler then
  runs once, on exactly the validated arguments. Any other request leaves the world untouched.\<close>

theorem only_permitted_tools_run:
  assumes "permitted_execute agent r name raw cache s = (out, s')"
    and "tw_env s' \<noteq> tw_env s \<or> tw_invoked s' \<noteq> tw_invoked s"
  shows "agent = Agent_EVIDENCE \<and> name \<in> set EVIDENCE_TOOL_NAMES \<and> name \<in> set (registry_names r) \<and>
    (\<exists>d a. map_of (rg_definitions r) name = Some d \<and> td_validate d raw = Inr a \<and>
       tw_env s' = snd (td_handler d a (tw_env s)) \<and> tw_invoked s' = Suc (tw_invoked s))"
proof (cases "name \<in> set (permissions agent)")
  case False
  then have "s' = s"
    using assms(1)
    by (auto simp: permitted_execute_def bindE_def eff_simps split: sum.splits)
  with assms(2) show ?thesis by simp
next
  case True
  then have agent: "agent = Agent_EVIDENCE" "name \<in> set EVIDENCE_TOOL_NAMES"
    by (cases agent; simp)+
  from True assms(1) have run: "registry_execute r name raw cache s = (out, s')"
    by (simp add: permitted_execute_def)
  from run show ?thesis
  proof (cases rule: registry_execute_cases)
    case (ran d a fp result)
    then show ?thesis
      using agent assms(2) invoke_tool_run[of r name "td_handler d a" s]
        map_of_SomeD[OF ran(1)] by (force simp: registry_names_def)
  qed (use assms(2) in simp_all)
qed

text \<open>a failing tool never breaks the workflow: whatever a handler raises, and when it exceeds
  its time limit, the call returns a result. A call raises only before anything has run, because its
  arguments cannot be serialised or because schema validation itself raised something other than
  \<open>ValidationError\<close>.\<close>

theorem tool_failures_are_results:
  "case registry_execute r name raw cache s of
     (Inl e, s') \<Rightarrow> s' = s \<and>
       (fingerprint (rg_digest r) name raw = Inl e \<or>
        (\<exists>d. map_of (rg_definitions r) name = Some d \<and>
          (td_validate d raw = Inl e \<and> e \<noteq> ValidationExc \<or>
           (\<exists>a. td_validate d raw = Inr a \<and>
                fingerprint (rg_digest r) name (dump_arguments a) = Inl e))))
   | (Inr ((result, fp, keys), cache'), s') \<Rightarrow>
       keys = argument_keys raw \<and>
       ((\<exists>summary code. result = tool_failure name summary code \<and> len_between 1 300 summary) \<or>
        (\<exists>e. result = failure_result name e) \<or>
        (\<exists>d a. map_of (rg_definitions r) name = Some d \<and> td_validate d raw = Inr a \<and>
          (fst (td_handler d a (tw_env s)) = Inr result \<or>
           (\<exists>c hit. cache = Some c \<and> map_of c fp = Some hit \<and> result = hit\<lparr>te_cached := True\<rparr>))))"
proof -
  obtain out s' where run: "registry_execute r name raw cache s = (out, s')"
    by (cases "registry_execute r name raw cache s")
  from run show ?thesis
  proof (cases rule: registry_execute_cases)
    case (ran d a fp result)
    then show ?thesis using invoke_tool_run[of r name "td_handler d a" s] run by auto
  qed (use run in auto)
qed

text \<open>Within one execution the same tool with the same validated arguments runs at most once:
  after a call that returned, every further such call, however its raw arguments were written, is
  answered from the cache, marked as cached, without touching the world.\<close>

theorem repeated_call_served_from_cache:
  assumes "registry_execute r name raw (Some c) s = (Inr ((result, fp, keys), Some c'), s')"
    and "map_of (rg_definitions r) name = Some d"
    and "td_validate d raw = Inr a" and "td_validate d raw2 = Inr a"
  shows "registry_execute r name raw2 (Some c') t =
           (Inr ((result\<lparr>te_cached := True\<rparr>, fp, argument_keys raw2), Some c'), t)"
  using assms(1)
proof (cases rule: registry_execute_cases)
  case (cached d' a' fp' hit c'')
  then show ?thesis
    using assms by (auto simp: registry_execute_def bindE_def eff_simps)
next
  case (ran d' a' fp' result')
  then have "map_of c' fp = Some result" using assms(1) by (auto simp: update_conv')
  with ran assms show ?thesis
    by (auto simp: registry_execute_def bindE_def eff_simps)
qed (use assms in auto)

text \<open>A call is identified by its name and arguments, not by the order in which the arguments
  were written.\<close>

theorem fingerprint_ignores_argument_order:
  assumes "distinct (map fst a)" and "mset a = mset b"
  shows "fingerprint lib name a = fingerprint lib name b"
  unfolding fingerprint_def digest_json_def
  using json_dumps_order[OF assms, of "dl_float_repr lib"] by (simp add: Let_def)

section \<open>Arguments that cannot be encoded\<close>

lemma py_join_mem: "x \<in> set xs \<Longrightarrow> set x \<subseteq> set (py_join sep xs)"
  by (induction sep xs rule: py_join.induct) auto

lemma json_string_surrogate:
  "c \<in> set str \<Longrightarrow> 55296 \<le> c \<Longrightarrow> c \<in> set (json_string str)"
  by (auto simp: json_string_def escape_char_def intro!: bexI[of _ c])

lemma json_dumps_member:
  assumes "(k, v) \<in> set kvs"
  shows "set (json_dumps f v) \<subseteq> set (json_dumps f (JObj kvs))"
proof -
  let ?ms = "sort_key fst (map (\<lambda>kv. (fst kv, json_dumps f (snd kv))) kvs)"
  have "(k, json_dumps f v) \<in> set ?ms" using assms by force
  then have "json_member (k, json_dumps f v) \<in> set (map json_member ?ms)" by (metis image_eqI set_map)
  from py_join_mem[OF this, of "[44]"] show ?thesis by (auto simp: json_member_def)
qed

text \<open>The registry's containment has a gap: when the arguments hold a string with a surrogate
  code point (which \<open>json.loads\<close> accepts) the schema refuses it, and building the refusal's
  fingerprint then raises \<open>UnicodeEncodeError\<close> out of the call.\<close>

theorem unencodable_arguments_escape:
  assumes "map_of (rg_definitions r) name = Some d" and "td_validate d raw = Inl ValidationExc"
    and "(k, JStr str) \<in> set raw" and "c \<in> set str" and "55296 \<le> c" and "c \<le> 57343"
  shows "registry_execute r name raw cache s = (Inl ValueExc, s)"
proof -
  let ?f = "dl_float_repr (rg_digest r)"
  let ?v = "[(py ''name'', JStr name), (py ''arguments'', JObj raw)]"
  have "c \<in> set (json_dumps ?f (JStr str))" using json_string_surrogate assms(4,5) by simp
  also have "\<dots> \<subseteq> set (json_dumps ?f (JObj raw))" by (rule json_dumps_member[OF assms(3)])
  also have "\<dots> \<subseteq> set (json_dumps ?f (JObj ?v))" by (rule json_dumps_member[of "py ''arguments''"]) simp
  finally have "\<not> encodable (json_dumps ?f (JObj ?v))"
    using assms(5,6) by (force simp: encodable_def list_all_iff)
  then have "fingerprint (rg_digest r) name raw = Inl ValueExc"
    unfolding fingerprint_def digest_json_def Let_def by simp
  with assms(1,2) show ?thesis by (simp add: registry_execute_def bindE_def eff_simps)
qed

section \<open>A sample registry\<close>

text \<open>One search tool over a counter: it accepts one raw form, refuses the others and counts its
  runs.\<close>

definition sample_arguments :: json_object where
  "sample_arguments = [(py ''query'', JStr (py ''q'')), (py ''top_k'', JInt 1)]"

definition sample_tool :: "nat ToolDefinition" where
  "sample_tool =
     \<lparr>td_name = py ''search_knowledge'', td_description = py ''d'',
      td_validate = (\<lambda>raw. if raw = sample_arguments then Inr (SearchKnowledgeArguments (py ''q'') 1)
                          else Inl ValidationExc),
      td_json_schema = [],
      td_handler = (\<lambda>a w. (Inr (tool_result (py ''search_knowledge'') True (py ''found'')), Suc w))\<rparr>"

definition sample_digest :: digest_library where
  "sample_digest = \<lparr>dl_float_repr = (\<lambda>q. []), dl_sha256_hex = (\<lambda>s. s)\<rparr>"

definition sample_registry :: "nat ToolRegistry" where
  "sample_registry =
     \<lparr>rg_definitions = [(py ''search_knowledge'', sample_tool)], rg_timeout_seconds = None,
      rg_digest = sample_digest\<rparr>"

definition sample_world :: "nat tool_world" where
  "sample_world =
     \<lparr>tw_env = 0, tw_metrics = None, tw_finish = (\<lambda>n. None), tw_invoked = 0, tw_perf = (\<lambda>n. 0),
      tw_reads = 0, tw_now = (\<lambda>n. 0), tw_ticks = 0\<rparr>"

lemma sample_registry_tool: "map_of (rg_definitions sample_registry) (py ''search_knowledge'') = Some sample_tool"
  by (simp add: sample_registry_def)

lemma sample_fingerprint:
  "\<exists>fp. fingerprint sample_digest (py ''search_knowledge'')
          (dump_arguments (SearchKnowledgeArguments (py ''q'') 1)) = Inr fp"
proof -
  have "encodable (json_dumps (dl_float_repr sample_digest)
          (JObj [(py ''name'', JStr (py ''search_knowledge'')),
                 (py ''arguments'', JObj (dump_arguments (SearchKnowledgeArguments (py ''q'') 1)))]))"
    by (rule json_dumps_encodable) (simp_all add: sample_digest_def)
  then show ?thesis unfolding fingerprint_def digest_json_def Let_def by (simp only: if_True) blast
qed

lemma sample_call:
  "\<exists>fp s'. registry_execute sample_registry (py ''search_knowledge'') sample_arguments (Some [])
             sample_world =
           (Inr ((tool_result (py ''search_knowledge'') True (py ''found''), fp,
                  argument_keys sample_arguments),
                 Some [(fp, tool_result (py ''search_knowledge'') True (py ''found''))]), s') \<and>
          tw_env s' = 1"
proof -
  obtain fp where "fingerprint sample_digest (py ''search_knowledge'')
          (dump_arguments (SearchKnowledgeArguments (py ''q'') 1)) = Inr fp"
    using sample_fingerprint by blast
  then show ?thesis
    by (simp add: registry_execute_def sample_registry_def sample_tool_def bindE_def liftE_def
        invoke_tool_def perf_counter_def catchE_def run_handler_def update_metrics_def modifyE_def
        returnE_def Let_def del: dump_arguments.simps) (simp add: sample_world_def)
qed

theorem only_permitted_tools_run_witness:
  "\<exists>out s'. permitted_execute Agent_EVIDENCE sample_registry (py ''search_knowledge'')
      sample_arguments (Some []) sample_world = (out, s') \<and>
    tw_env s' = 1 \<and> py ''search_knowledge'' \<in> set (registry_names sample_registry)"
proof -
  have p: "py ''search_knowledge'' \<in> set (permissions Agent_EVIDENCE)"
    by (simp add: EVIDENCE_TOOL_NAMES_def)
  obtain out s' where run: "permitted_execute Agent_EVIDENCE sample_registry (py ''search_knowledge'')
      sample_arguments (Some []) sample_world = (out, s')" "tw_env s' = 1"
    using sample_call p unfolding permitted_execute_def by force
  moreover have "tw_env s' \<noteq> tw_env sample_world" using run(2) by (simp add: sample_world_def)
  ultimately show ?thesis using only_permitted_tools_run[OF run(1)] by blast
qed

theorem repeated_call_served_from_cache_witness:
  "\<exists>fp c. registry_execute sample_registry (py ''search_knowledge'') sample_arguments (Some c) sample_world =
     (Inr (((tool_result (py ''search_knowledge'') True (py ''found''))\<lparr>te_cached := True\<rparr>, fp,
            argument_keys sample_arguments), Some c), sample_world)"
proof -
  have "td_validate sample_tool sample_arguments = Inr (SearchKnowledgeArguments (py ''q'') 1)"
    by (simp add: sample_tool_def)
  with sample_call show ?thesis
    using repeated_call_served_from_cache[OF _ sample_registry_tool] by blast
qed

theorem fingerprint_ignores_argument_order_witness:
  "fingerprint sample_digest (py ''search_knowledge'') [(py ''query'', JStr (py ''q'')), (py ''top_k'', JInt 1)] =
   fingerprint sample_digest (py ''search_knowledge'') [(py ''top_k'', JInt 1), (py ''query'', JStr (py ''q''))]"
  by (rule fingerprint_ignores_argument_order) simp_all

theorem unencodable_arguments_escape_witness:
  "registry_execute sample_registry (py ''search_knowledge'') [(py ''query'', JStr [55296])] (Some [])
     sample_world = (Inl ValueExc, sample_world)"
  by (rule unencodable_arguments_escape[OF sample_registry_tool, of _ "py ''query''" "[55296]" 55296])
     (simp_all add: sample_tool_def sample_arguments_def)

end
