(* ===== verification/Agent_Graph.thy ===== *)
theory Agent_Graph
  imports Tools
begin

text \<open>
  The single-agent workflow (\<^verbatim>\<open>app/graph/state.py\<close>, \<^verbatim>\<open>app/graph/nodes.py\<close>, \<^verbatim>\<open>app/graph/routing.py\<close>,
  \<^verbatim>\<open>app/graph/workflow.py\<close>): an agent decides, one tool runs, the observation is recorded, and the
  loop is cut by a step limit and a tool-call limit.

  The agent is a protocol in the source and a record of effects here. LangGraph is not part of the
  program: \<open>invoke\<close> is a parameter of \<open>workflow_run\<close>, and \<open>langgraph_semantics\<close> states what its
  documentation promises: nodes run one after the other along the declared edges, an exception of
  a node propagates, and \<open>GraphRecursionError\<close> (\<open>RecursionLimitExc\<close>) is raised only when more
  than \<open>recursion_limit\<close> node executions would be needed.
\<close>

section \<open>State\<close>

record AssessmentGraphState =
  gs_assessment_id :: pystr
  gs_request_id :: pystr
  gs_request :: AssessmentRequest
  gs_retrieved_evidence :: "RetrievedEvidence list"
  gs_observed_documents :: "ObservedKnowledgeDocument list"
  gs_tool_history :: "ToolHistoryEntry list"
  gs_tool_cache :: tool_cache
  gs_pending_tool_name :: "pystr option"
  gs_pending_tool_arguments :: json_object
  gs_next_action :: AgentDecisionType
  gs_step :: int
  gs_max_steps :: int
  gs_tool_calls_used :: int
  gs_max_tool_calls :: int
  gs_final_result :: "AssessmentResult option"
  gs_termination_reason :: "AgentTerminationReason option"
  gs_error :: "pystr option"
  gs_trace :: "AgentTraceEvent list"

definition initialize_assessment_state ::
  "pystr \<Rightarrow> AssessmentRequest \<Rightarrow> int \<Rightarrow> int \<Rightarrow> py_exc + AssessmentGraphState" where
  "initialize_assessment_state assessment_id request max_steps max_tool_calls =
     (if max_steps < 1 \<or> max_tool_calls < 1 then Inl ValueExc
      else Inr \<lparr>gs_assessment_id = assessment_id, gs_request_id = assessment_id,
                gs_request = request, gs_retrieved_evidence = [], gs_observed_documents = [],
                gs_tool_history = [], gs_tool_cache = [], gs_pending_tool_name = None,
                gs_pending_tool_arguments = [], gs_next_action = Decide_SYNTHESIZE, gs_step = 0,
                gs_max_steps = max_steps, gs_tool_calls_used = 0,
                gs_max_tool_calls = max_tool_calls, gs_final_result = None,
                gs_termination_reason = None, gs_error = None, gs_trace = []\<rparr>)"

section \<open>The agent and the nodes\<close>

record 'w AssessmentAgent =
  aa_decide :: "AssessmentRequest \<Rightarrow> RetrievedEvidence list \<Rightarrow> ObservedKnowledgeDocument list \<Rightarrow>
     ToolHistoryEntry list \<Rightarrow> int \<Rightarrow> int \<Rightarrow> json_object list \<Rightarrow> ('w, py_exc, AgentDecision) eff"
  aa_synthesize :: "AssessmentRequest \<Rightarrow> RetrievedEvidence list \<Rightarrow>
     ObservedKnowledgeDocument list \<Rightarrow> ('w, py_exc, AssessmentResult) eff"

text \<open>The field bounds of \<open>AgentTraceEvent\<close>.\<close>

definition agent_trace_event_ok :: "AgentTraceEvent \<Rightarrow> bool" where
  "agent_trace_event_ok e \<longleftrightarrow>
     0 \<le> ate_step e \<and> len_between 1 300 (ate_summary e) \<and> opt_len_ok (ate_tool_name e) 100"

definition agent_event ::
  "int \<Rightarrow> AgentTraceEventType \<Rightarrow> pystr \<Rightarrow> pystr option \<Rightarrow> ToolStatus option \<Rightarrow>
     AgentTerminationReason option \<Rightarrow> ('w, AgentTraceEvent) tool" where
  "agent_event step event_type summary tool_name tool_status termination_reason =
     bindE datetime_now (\<lambda>now.
       let e = \<lparr>ate_step = step, ate_event_type = event_type, ate_timestamp = now,
                ate_summary = summary, ate_tool_name = tool_name, ate_tool_status = tool_status,
                ate_termination_reason = termination_reason\<rparr>
       in if agent_trace_event_ok e then returnE e else raiseE ValidationExc)"

text \<open>An effect of the agent on the environment of the tools.\<close>

definition in_env :: "('w, py_exc, 'a) eff \<Rightarrow> ('w, 'a) tool" where
  "in_env m = (\<lambda>s. case m (tw_env s) of (r, w) \<Rightarrow> (r, s\<lparr>tw_env := w\<rparr>))"

definition limit_reached ::
  "AssessmentGraphState \<Rightarrow> AgentTraceEventType \<Rightarrow> pystr \<Rightarrow> AgentTerminationReason \<Rightarrow>
     ('w, AssessmentGraphState) tool" where
  "limit_reached st event_type summary reason =
     bindE (agent_event (gs_step st) event_type summary None None (Some reason)) (\<lambda>event.
     returnE (st\<lparr>gs_next_action := Decide_SYNTHESIZE, gs_termination_reason := Some reason,
                gs_trace := gs_trace st @ [event]\<rparr>))"

definition reason ::
  "'w AssessmentAgent \<Rightarrow> 'w ToolRegistry \<Rightarrow> AssessmentGraphState \<Rightarrow>
     ('w, AssessmentGraphState) tool" where
  "reason agent tools st =
     (if gs_step st \<ge> gs_max_steps st then
        limit_reached st AT_MAX_STEPS_REACHED
          (py ''The configured reasoning-step limit was reached.'') Term_MAX_STEPS_REACHED
      else if gs_tool_calls_used st \<ge> gs_max_tool_calls st then
        limit_reached st AT_MAX_TOOL_CALLS_REACHED
          (py ''The configured tool-call limit was reached.'') Term_MAX_TOOL_CALLS_REACHED
      else
        (let step = gs_step st + 1
         in bindE (agent_event step AT_REASONING_STARTED
                     (py ''The agent evaluated whether more approved evidence was needed.'')
                     None None None) (\<lambda>started.
            bindE (in_env (aa_decide agent (gs_request st) (gs_retrieved_evidence st)
                     (gs_observed_documents st) (gs_tool_history st) step (gs_max_steps st)
                     (schemas tools))) (\<lambda>decision.
              let trace = gs_trace st @ [started];
                  st1 = st\<lparr>gs_step := step, gs_next_action := ad_action decision,
                           gs_pending_tool_name := None, gs_pending_tool_arguments := [],
                           gs_trace := trace\<rparr>
              in case (ad_action decision, ad_tool_request decision) of
                   (Decide_TOOL, Some tool_request) \<Rightarrow>
                     bindE (agent_event step AT_TOOL_REQUESTED
                              (py ''The agent requested one approved read-only tool.'')
                              (Some (atr_name tool_request)) None None) (\<lambda>requested.
                     returnE (st1\<lparr>gs_pending_tool_name := Some (atr_name tool_request),
                                  gs_pending_tool_arguments := atr_arguments tool_request,
                                  gs_trace := trace @ [requested]\<rparr>))
                 | (Decide_SYNTHESIZE, _) \<Rightarrow>
                     returnE (st1\<lparr>gs_termination_reason := Some Term_AGENT_STOPPED\<rparr>)
                 | (Decide_FAIL, _) \<Rightarrow>
                     returnE (st1\<lparr>gs_termination_reason := Some Term_FAILED\<rparr>)
                 | (Decide_TOOL, None) \<Rightarrow> returnE st1))))"

definition history_entry ::
  "int \<Rightarrow> pystr \<Rightarrow> ToolExecutionResult \<Rightarrow> pystr \<Rightarrow> pystr list \<Rightarrow> ToolHistoryEntry" where
  "history_entry step name result fp keys =
     \<lparr>th_step = step, th_tool_name = name, th_success = te_success result,
      th_summary = te_summary result, th_argument_keys = keys, th_call_fingerprint = fp,
      th_cached = te_cached result, th_error_code = te_error_code result,
      th_graph_retrieval = None\<rparr>"

definition merge_evidence ::
  "RetrievedEvidence list \<Rightarrow> RetrievedEvidence list \<Rightarrow> RetrievedEvidence list" where
  "merge_evidence old new = dict_values (index_by ev_chunk_id (dict_of ev_chunk_id old) new)"

definition merge_documents ::
  "ObservedKnowledgeDocument list \<Rightarrow> ObservedKnowledgeDocument option \<Rightarrow>
     ObservedKnowledgeDocument list" where
  "merge_documents old new =
     (let by_id = dict_of od_document_id old
      in dict_values (case new of None \<Rightarrow> by_id
                      | Some d \<Rightarrow> dict_setdefault (od_document_id d) d by_id))"

definition result_status :: "ToolExecutionResult \<Rightarrow> ToolStatus" where
  "result_status result =
     (if te_cached result then Tool_cached
      else if te_success result then Tool_completed else Tool_failed)"

definition execute_tool ::
  "'w ToolRegistry \<Rightarrow> AssessmentGraphState \<Rightarrow> ('w, AssessmentGraphState) tool" where
  "execute_tool tools st =
     (let tool_name = str_or (gs_pending_tool_name st) []
      in bindE (registry_execute tools tool_name (gs_pending_tool_arguments st)
                  (Some (gs_tool_cache st))) (\<lambda>((result, fp, keys), cache).
         bindE (agent_event (gs_step st)
                  (if te_success result then AT_TOOL_COMPLETED else AT_TOOL_FAILED)
                  (te_summary result) (Some tool_name) (Some (result_status result)) None) (\<lambda>event.
         returnE (st\<lparr>gs_retrieved_evidence :=
                       merge_evidence (gs_retrieved_evidence st) (te_evidence result),
                    gs_observed_documents :=
                       merge_documents (gs_observed_documents st) (te_document result),
                    gs_tool_history :=
                       gs_tool_history st @ [history_entry (gs_step st) tool_name result fp keys],
                    gs_tool_cache := (case cache of Some c \<Rightarrow> c | None \<Rightarrow> gs_tool_cache st),
                    gs_tool_calls_used := gs_tool_calls_used st + 1,
                    gs_pending_tool_name := None,
                    gs_pending_tool_arguments := [],
                    gs_trace := gs_trace st @ [event]\<rparr>))))"

definition synthesize ::
  "'w AssessmentAgent \<Rightarrow> AssessmentGraphState \<Rightarrow> ('w, AssessmentGraphState) tool" where
  "synthesize agent st =
     (let termination_reason =
            (case gs_termination_reason st of None \<Rightarrow> Term_COMPLETED | Some t \<Rightarrow> t)
      in bindE (agent_event (gs_step st) AT_SYNTHESIS_STARTED
                  (py ''Schema-constrained assessment synthesis started.'') None None None) (\<lambda>started.
         bindE (in_env (aa_synthesize agent (gs_request st) (gs_retrieved_evidence st)
                  (gs_observed_documents st))) (\<lambda>result.
         bindE (agent_event (gs_step st) AT_WORKFLOW_COMPLETED
                  (py ''The agentic workflow produced a structured assessment.'') None None
                  (Some termination_reason)) (\<lambda>completed.
         returnE (st\<lparr>gs_final_result := Some result,
                    gs_termination_reason := Some termination_reason,
                    gs_trace := gs_trace st @ [started, completed]\<rparr>)))))"

definition fail :: "AssessmentGraphState \<Rightarrow> ('w, AssessmentGraphState) tool" where
  "fail st =
     bindE (agent_event (gs_step st) AT_WORKFLOW_FAILED
              (py ''The agentic workflow terminated without a final result.'') None None
              (Some Term_FAILED)) (\<lambda>event.
     returnE (st\<lparr>gs_error := Some (py ''agent_terminated_without_result''),
                gs_termination_reason := Some Term_FAILED,
                gs_trace := gs_trace st @ [event]\<rparr>))"

section \<open>The graph\<close>

datatype graph_node = Node_reason | Node_execute_tool | Node_synthesize | Node_fail | Node_END

definition route_after_reason :: "AssessmentGraphState \<Rightarrow> graph_node" where
  "route_after_reason st =
     (case gs_next_action st of
        Decide_TOOL \<Rightarrow> Node_execute_tool
      | Decide_SYNTHESIZE \<Rightarrow> Node_synthesize
      | Decide_FAIL \<Rightarrow> Node_fail)"

text \<open>What a node computes and the edge that leaves it (\<open>build_assessment_graph\<close>).\<close>

primrec graph_node_step ::
  "'w AssessmentAgent \<Rightarrow> 'w ToolRegistry \<Rightarrow> graph_node \<Rightarrow> AssessmentGraphState \<Rightarrow>
     ('w, graph_node \<times> AssessmentGraphState) tool" where
  "graph_node_step agent tools Node_reason st =
     bindE (reason agent tools st) (\<lambda>st'. returnE (route_after_reason st', st'))"
| "graph_node_step agent tools Node_execute_tool st =
     bindE (execute_tool tools st) (\<lambda>st'. returnE (Node_reason, st'))"
| "graph_node_step agent tools Node_synthesize st =
     bindE (synthesize agent st) (\<lambda>st'. returnE (Node_END, st'))"
| "graph_node_step agent tools Node_fail st =
     bindE (fail st) (\<lambda>st'. returnE (Node_END, st'))"
| "graph_node_step agent tools Node_END st = returnE (Node_END, st)"

text \<open>At most \<open>n\<close> node executions from a node.\<close>

primrec run_graph ::
  "'w AssessmentAgent \<Rightarrow> 'w ToolRegistry \<Rightarrow> nat \<Rightarrow> graph_node \<times> AssessmentGraphState \<Rightarrow>
     ('w, AssessmentGraphState) tool" where
  "run_graph agent tools 0 p =
     (if fst p = Node_END then returnE (snd p) else raiseE RecursionLimitExc)"
| "run_graph agent tools (Suc n) p =
     (if fst p = Node_END then returnE (snd p)
      else bindE (graph_node_step agent tools (fst p) (snd p)) (run_graph agent tools n))"

type_synonym 'w graph_invoke =
  "'w AssessmentAgent \<Rightarrow> 'w ToolRegistry \<Rightarrow> nat \<Rightarrow> AssessmentGraphState \<Rightarrow>
     ('w, AssessmentGraphState) tool"

definition langgraph_semantics :: "'w graph_invoke \<Rightarrow> bool" where
  "langgraph_semantics invoke \<longleftrightarrow>
     (\<forall>agent tools limit st s. \<exists>n \<ge> limit.
        invoke agent tools limit st s = run_graph agent tools n (Node_reason, st) s)"

record AgentWorkflowResult =
  awr_result :: AssessmentResult
  awr_evidence :: "RetrievedEvidence list"
  awr_execution :: AssessmentExecutionMetadata

definition finish_workflow ::
  "(AssessmentResult \<Rightarrow> py_exc + AssessmentResult) \<Rightarrow> AssessmentGraphState \<Rightarrow>
     py_exc + AgentWorkflowResult" where
  "finish_workflow validate_result st =
     (case (gs_final_result st, gs_termination_reason st, gs_error st) of
        (Some result, Some termination_reason, None) \<Rightarrow>
          if gs_step st < 0 then Inl ValidationExc
          else (case validate_result result of
             Inl e \<Rightarrow> Inl e
           | Inr validated \<Rightarrow>
               Inr \<lparr>awr_result = validated, awr_evidence = gs_retrieved_evidence st,
                    awr_execution =
                      \<lparr>ax_common = \<lparr>x_request_id = None, x_execution_mode = py ''single_agent'',
                                    x_preferred_execution_mode = None,
                                    x_routing_reason_codes = [], x_fallback_reason_codes = [],
                                    x_graph_retrieval = None\<rparr>,
                       ax_steps_used = gs_step st,
                       ax_tools_used = dedup (map th_tool_name (gs_tool_history st)),
                       ax_termination_reason = termination_reason,
                       ax_trace = gs_trace st\<rparr>\<rparr>)
      | _ \<Rightarrow> Inl (AppExc AssessmentGenerationError))"

record 'w AgenticAssessmentWorkflow =
  wf_invoke :: "'w graph_invoke"
  wf_agent :: "'w AssessmentAgent"
  wf_tools :: "'w ToolRegistry"
  wf_max_steps :: int
  wf_max_tool_calls :: int
  wf_recursion_limit :: nat
  wf_validate_result :: "AssessmentResult \<Rightarrow> py_exc + AssessmentResult"

definition workflow_run ::
  "'w AgenticAssessmentWorkflow \<Rightarrow> pystr \<Rightarrow> AssessmentRequest \<Rightarrow> ('w, AgentWorkflowResult) tool" where
  "workflow_run flow assessment_id request =
     bindE (liftE (initialize_assessment_state assessment_id request (wf_max_steps flow)
              (wf_max_tool_calls flow))) (\<lambda>initial_state.
     bindE (wf_invoke flow (wf_agent flow) (wf_tools flow) (wf_recursion_limit flow) initial_state) (\<lambda>st.
     liftE (finish_workflow (wf_validate_result flow) st)))"

section \<open>Execution without a limit\<close>

inductive graph_runs ::
  "'w AssessmentAgent \<Rightarrow> 'w ToolRegistry \<Rightarrow> graph_node \<times> AssessmentGraphState \<Rightarrow> 'w tool_world \<Rightarrow>
     py_exc + AssessmentGraphState \<Rightarrow> 'w tool_world \<Rightarrow> bool" for agent tools where
  runs_end: "graph_runs agent tools (Node_END, st) s (Inr st) s"
| runs_raise: "node \<noteq> Node_END \<Longrightarrow> graph_node_step agent tools node st s = (Inl e, s') \<Longrightarrow>
     graph_runs agent tools (node, st) s (Inl e) s'"
| runs_step: "node \<noteq> Node_END \<Longrightarrow> graph_node_step agent tools node st s = (Inr p', s1) \<Longrightarrow>
     graph_runs agent tools p' s1 out s' \<Longrightarrow> graph_runs agent tools (node, st) s out s'"

section \<open>Events and merges\<close>

lemma agent_event_Inr:
  assumes "agent_event step t summary name status why s = (Inr e, s')"
  shows "agent_trace_event_ok e \<and> ate_event_type e = t \<and> ate_termination_reason e = why \<and>
         ate_tool_name e = name \<and> s' = s\<lparr>tw_ticks := Suc (tw_ticks s)\<rparr>"
  using assms
  by (auto simp: agent_event_def datetime_now_def bindE_def Let_def returnE_def raiseE_def
      split: if_splits)

lemma agent_event_run:
  assumes "0 \<le> step" and "len_between 1 300 summary" and "opt_len_ok name 100"
  shows "\<exists>e. agent_event step t summary name status why s = (Inr e, s\<lparr>tw_ticks := Suc (tw_ticks s)\<rparr>)"
  using assms
  by (simp add: agent_event_def datetime_now_def bindE_def Let_def returnE_def agent_trace_event_ok_def)

lemma agent_event_frame:
  "agent_event step t summary name status why s = (r, s') \<Longrightarrow>
     tw_env s' = tw_env s \<and> tw_invoked s' = tw_invoked s"
  by (auto simp: agent_event_def datetime_now_def bindE_def Let_def returnE_def raiseE_def
      split: if_splits)

lemma in_env_frame: "in_env m s = (r, s') \<Longrightarrow> tw_invoked s' = tw_invoked s"
  by (auto simp: in_env_def split: prod.splits)

lemma merge_evidence_facts:
  assumes "distinct (map ev_chunk_id old)"
  shows "distinct (map ev_chunk_id (merge_evidence old new))"
    and "set (merge_evidence old new) \<subseteq> set old \<union> set new"
    and "set old \<subseteq> set (merge_evidence old new)"
proof -
  let ?d = "dict_of ev_chunk_id old"
  have d: "?d = map (\<lambda>x. (ev_chunk_id x, x)) old" by (rule dict_of_distinct[OF assms])
  then have k: "keyed ev_chunk_id ?d" using assms by (auto simp: keyed_def comp_def)
  show "distinct (map ev_chunk_id (merge_evidence old new))"
    unfolding merge_evidence_def by (rule keyed_distinct[OF keyed_index_by[OF k]])
  have v: "set (dict_values ?d) = set old" unfolding d by (simp add: dict_values_def comp_def)
  with values_index_by_subset[of ev_chunk_id ?d new]
  show "set (merge_evidence old new) \<subseteq> set old \<union> set new" by (simp add: merge_evidence_def)
  obtain ys where "index_by ev_chunk_id ?d new = ?d @ ys" using index_by_keeps by blast
  with v show "set old \<subseteq> set (merge_evidence old new)"
    by (auto simp: merge_evidence_def dict_values_def)
qed

section \<open>The invariant of the loop\<close>

definition from_handler :: "'w ToolRegistry \<Rightarrow> RetrievedEvidence \<Rightarrow> bool" where
  "from_handler tools ev \<longleftrightarrow>
     (\<exists>name d a w result. map_of (rg_definitions tools) name = Some d \<and>
        fst (td_handler d a w) = Inr result \<and> ev \<in> set (te_evidence result))"

definition cache_sourced :: "'w ToolRegistry \<Rightarrow> tool_cache \<Rightarrow> bool" where
  "cache_sourced tools c \<longleftrightarrow>
     (\<forall>result \<in> snd ` set c. \<forall>ev \<in> set (te_evidence result). from_handler tools ev)"

definition graph_inv :: "'w ToolRegistry \<Rightarrow> int \<Rightarrow> int \<Rightarrow> AssessmentGraphState \<Rightarrow> bool" where
  "graph_inv tools m t st \<longleftrightarrow>
     gs_max_steps st = m \<and> gs_max_tool_calls st = t \<and>
     0 \<le> gs_step st \<and> gs_step st \<le> m \<and> 0 \<le> gs_tool_calls_used st \<and> gs_tool_calls_used st \<le> t \<and>
     int (length (gs_tool_history st)) = gs_tool_calls_used st \<and>
     distinct (map ev_chunk_id (gs_retrieved_evidence st)) \<and>
     (\<forall>ev \<in> set (gs_retrieved_evidence st). from_handler tools ev) \<and>
     cache_sourced tools (gs_tool_cache st) \<and>
     list_all agent_trace_event_ok (gs_trace st)"

text \<open>Why a run stopped, in terms of the limits.\<close>

definition stop_ok :: "int \<Rightarrow> int \<Rightarrow> AssessmentGraphState \<Rightarrow> bool" where
  "stop_ok m t st \<longleftrightarrow>
     (case gs_termination_reason st of
        Some Term_AGENT_STOPPED \<Rightarrow> gs_step st = gs_tool_calls_used st + 1
      | Some Term_MAX_STEPS_REACHED \<Rightarrow> gs_step st = m \<and> gs_tool_calls_used st = m
      | Some Term_MAX_TOOL_CALLS_REACHED \<Rightarrow> gs_step st = t \<and> gs_tool_calls_used st = t \<and> t < m
      | _ \<Rightarrow> False)"

primrec node_inv :: "'w ToolRegistry \<Rightarrow> int \<Rightarrow> int \<Rightarrow> graph_node \<Rightarrow> AssessmentGraphState \<Rightarrow> bool" where
  "node_inv tools m t Node_reason st \<longleftrightarrow>
     graph_inv tools m t st \<and> gs_tool_calls_used st = gs_step st \<and> gs_error st = None \<and>
     gs_final_result st = None"
| "node_inv tools m t Node_execute_tool st \<longleftrightarrow>
     graph_inv tools m t st \<and> gs_tool_calls_used st + 1 = gs_step st \<and>
     gs_tool_calls_used st < t \<and> gs_error st = None \<and> gs_final_result st = None"
| "node_inv tools m t Node_synthesize st \<longleftrightarrow>
     graph_inv tools m t st \<and> stop_ok m t st \<and> gs_error st = None \<and> gs_final_result st = None"
| "node_inv tools m t Node_fail st \<longleftrightarrow> graph_inv tools m t st \<and> gs_final_result st = None"
| "node_inv tools m t Node_END st \<longleftrightarrow>
     graph_inv tools m t st \<and>
     (gs_error st = None \<longrightarrow> stop_ok m t st \<and> gs_trace st \<noteq> [] \<and>
        ate_event_type (last (gs_trace st)) = AT_WORKFLOW_COMPLETED \<and>
        ate_termination_reason (last (gs_trace st)) = gs_termination_reason st)"

text \<open>Node executions left.\<close>

primrec node_bound :: "graph_node \<Rightarrow> AssessmentGraphState \<Rightarrow> nat" where
  "node_bound Node_reason st = nat (2 * (gs_max_steps st - gs_step st) + 2)"
| "node_bound Node_execute_tool st = nat (2 * (gs_max_steps st - gs_step st) + 3)"
| "node_bound Node_synthesize st = 1"
| "node_bound Node_fail st = 1"
| "node_bound Node_END st = 0"

section \<open>One node\<close>

text \<open>What a completed node keeps: the invariant of its successor, fewer executions left, and a
  handler run is a counted tool call.\<close>

definition node_kept ::
  "'w ToolRegistry \<Rightarrow> int \<Rightarrow> int \<Rightarrow> graph_node \<Rightarrow> AssessmentGraphState \<Rightarrow> 'w tool_world \<Rightarrow>
     graph_node \<Rightarrow> AssessmentGraphState \<Rightarrow> 'w tool_world \<Rightarrow> bool" where
  "node_kept tools m t node st s node' st' s' \<longleftrightarrow>
     node_inv tools m t node' st' \<and> node_bound node' st' < node_bound node st \<and>
     int (tw_invoked s') + gs_tool_calls_used st \<le> int (tw_invoked s) + gs_tool_calls_used st'"

lemma limit_reached_step:
  assumes "limit_reached st event_type summary why s = (Inr st', s')"
    and "node_inv tools m t Node_reason st" and "stop_ok m t (st\<lparr>gs_termination_reason := Some why\<rparr>)"
  shows "node_kept tools m t Node_reason st s (route_after_reason st') st' s'"
proof -
  from assms(1) obtain e where e:
    "agent_event (gs_step st) event_type summary None None (Some why) s = (Inr e, s')"
    and st': "st' = st\<lparr>gs_next_action := Decide_SYNTHESIZE, gs_termination_reason := Some why,
                       gs_trace := gs_trace st @ [e]\<rparr>"
    by (auto simp: limit_reached_def eff_simps)
  from agent_event_Inr[OF e] assms(2,3) show ?thesis
    by (auto simp: node_kept_def st' route_after_reason_def graph_inv_def stop_ok_def
        split: option.splits AgentTerminationReason.splits)
qed

lemma reason_step:
  assumes "reason agent tools st s = (Inr st', s')" and "node_inv tools m t Node_reason st"
  shows "node_kept tools m t Node_reason st s (route_after_reason st') st' s'"
proof -
  consider (steps) "gs_step st \<ge> gs_max_steps st"
    | (calls) "gs_step st < gs_max_steps st" "gs_tool_calls_used st \<ge> gs_max_tool_calls st"
    | (ask) "gs_step st < gs_max_steps st" "gs_tool_calls_used st < gs_max_tool_calls st"
    by linarith
  then show ?thesis
  proof cases
    case steps
    then show ?thesis
      using assms by (intro limit_reached_step) (auto simp: reason_def stop_ok_def graph_inv_def)
  next
    case calls
    then show ?thesis
      using assms by (intro limit_reached_step) (auto simp: reason_def stop_ok_def graph_inv_def)
  next
    case ask
    let ?step = "gs_step st + 1"
    from assms(1) ask obtain started s1 decision s2 where
      e1: "agent_event ?step AT_REASONING_STARTED
             (py ''The agent evaluated whether more approved evidence was needed.'') None None None s
           = (Inr started, s1)"
      and d: "in_env (aa_decide agent (gs_request st) (gs_retrieved_evidence st)
                 (gs_observed_documents st) (gs_tool_history st) ?step (gs_max_steps st)
                 (schemas tools)) s1 = (Inr decision, s2)"
      and rest: "(let trace = gs_trace st @ [started];
                  st1 = st\<lparr>gs_step := ?step, gs_next_action := ad_action decision,
                           gs_pending_tool_name := None, gs_pending_tool_arguments := [],
                           gs_trace := trace\<rparr>
              in case (ad_action decision, ad_tool_request decision) of
                   (Decide_TOOL, Some tool_request) \<Rightarrow>
                     bindE (agent_event ?step AT_TOOL_REQUESTED
                              (py ''The agent requested one approved read-only tool.'')
                              (Some (atr_name tool_request)) None None) (\<lambda>requested.
                     returnE (st1\<lparr>gs_pending_tool_name := Some (atr_name tool_request),
                                  gs_pending_tool_arguments := atr_arguments tool_request,
                                  gs_trace := trace @ [requested]\<rparr>))
                 | (Decide_SYNTHESIZE, _) \<Rightarrow>
                     returnE (st1\<lparr>gs_termination_reason := Some Term_AGENT_STOPPED\<rparr>)
                 | (Decide_FAIL, _) \<Rightarrow>
                     returnE (st1\<lparr>gs_termination_reason := Some Term_FAILED\<rparr>)
                 | (Decide_TOOL, None) \<Rightarrow> returnE st1) s2 = (Inr st', s')"
      by (auto simp: reason_def Let_def bindE_eq_Inr)
    have inv: "tw_invoked s2 = tw_invoked s"
      using agent_event_frame[OF e1] in_env_frame[OF d] by simp
    note ok = agent_event_Inr[OF e1]
    show ?thesis
    proof (cases "ad_action decision")
      case Decide_TOOL
      then show ?thesis
        using rest ask assms(2) inv ok
        by (auto simp: Let_def eff_simps node_kept_def route_after_reason_def graph_inv_def
            dest!: agent_event_Inr split: option.splits)
    qed (use rest ask assms(2) inv ok in
        \<open>auto simp: Let_def eff_simps node_kept_def route_after_reason_def graph_inv_def stop_ok_def\<close>)
  qed
qed

lemma registry_execute_sourced:
  assumes "registry_execute tools name raw (Some c) s = (Inr ((result, fp, keys), c'), s')"
    and "cache_sourced tools c"
  shows "\<forall>ev \<in> set (te_evidence result). from_handler tools ev"
    and "\<exists>c''. c' = Some c'' \<and>
      cache_sourced tools c''"
    and "tw_invoked s' \<le> Suc (tw_invoked s)"
proof -
  have "(\<forall>ev \<in> set (te_evidence result). from_handler tools ev) \<and>
    (\<exists>c''. c' = Some c'' \<and>
      cache_sourced tools c'') \<and>
    tw_invoked s' \<le> Suc (tw_invoked s)"
    using assms(1)
  proof (cases rule: registry_execute_cases)
    case (refused summary code fp')
    then show ?thesis using assms(2) by (simp add: tool_failure_def tool_result_def)
  next
    case (cached d a fp' hit c0)
    then have "(fp', hit) \<in> set c" by (auto dest: map_of_SomeD)
    with assms(2) have "\<forall>ev \<in> set (te_evidence hit). from_handler tools ev"
      by (force simp: cache_sourced_def)
    with cached assms(2) show ?thesis by simp
  next
    case (ran d a fp' result')
    from invoke_tool_run[of tools name "td_handler d a" s] ran(4)
    have r: "fst (td_handler d a (tw_env s)) = Inr result' \<or> (\<exists>e. result' = failure_result name e)"
      and i: "tw_invoked s' \<le> Suc (tw_invoked s)" by auto
    have ev: "\<forall>ev \<in> set (te_evidence result'). from_handler tools ev"
    proof (cases "fst (td_handler d a (tw_env s)) = Inr result'")
      case True
      with ran(1) show ?thesis unfolding from_handler_def by blast
    next
      case False
      with r show ?thesis using failure_result_fields by auto
    qed
    have "set (AList.update fp' result' c) \<subseteq> insert (fp', result') (set c)"
      by (induction c) auto
    with ev assms(2) have "cache_sourced tools (AList.update fp' result' c)"
      by (fastforce simp: cache_sourced_def)
    with ran(5) ev i show ?thesis by simp
  qed simp
  then show "\<forall>ev \<in> set (te_evidence result). from_handler tools ev"
    "\<exists>c''. c' = Some c'' \<and>
      cache_sourced tools c''"
    "tw_invoked s' \<le> Suc (tw_invoked s)" by blast+
qed

lemma execute_tool_step:
  assumes "execute_tool tools st s = (Inr st', s')" and "node_inv tools m t Node_execute_tool st"
  shows "node_kept tools m t Node_execute_tool st s Node_reason st' s'"
proof -
  let ?name = "str_or (gs_pending_tool_name st) []"
  from assms(1) obtain result fp keys c' s1 e where
    run: "registry_execute tools ?name (gs_pending_tool_arguments st) (Some (gs_tool_cache st)) s =
            (Inr ((result, fp, keys), c'), s1)"
    and e: "agent_event (gs_step st) (if te_success result then AT_TOOL_COMPLETED else AT_TOOL_FAILED)
              (te_summary result) (Some ?name) (Some (result_status result)) None s1 = (Inr e, s')"
    and st': "st' = st\<lparr>gs_retrieved_evidence :=
                       merge_evidence (gs_retrieved_evidence st) (te_evidence result),
                    gs_observed_documents :=
                       merge_documents (gs_observed_documents st) (te_document result),
                    gs_tool_history :=
                       gs_tool_history st @ [history_entry (gs_step st) ?name result fp keys],
                    gs_tool_cache := (case c' of Some c \<Rightarrow> c | None \<Rightarrow> gs_tool_cache st),
                    gs_tool_calls_used := gs_tool_calls_used st + 1,
                    gs_pending_tool_name := None,
                    gs_pending_tool_arguments := [],
                    gs_trace := gs_trace st @ [e]\<rparr>"
    by (auto simp: execute_tool_def Let_def eff_simps)
  from assms(2) have g: "graph_inv tools m t st" by simp
  then have cache: "cache_sourced tools (gs_tool_cache st)"
    and dist: "distinct (map ev_chunk_id (gs_retrieved_evidence st))"
    and le: "gs_step st \<le> gs_max_steps st"
    by (simp_all add: graph_inv_def)
  note src = registry_execute_sourced[OF run cache]
  have "graph_inv tools m t st'"
    using g src(1,2) merge_evidence_facts(1,2)[OF dist, of "te_evidence result"]
      agent_event_Inr[OF e] assms(2)
    unfolding st' by (auto simp: graph_inv_def)
  then show ?thesis
    using assms(2) le src(3) agent_event_Inr[OF e] unfolding node_kept_def st' by simp
qed

lemma synthesize_step:
  assumes "synthesize agent st s = (Inr st', s')" and "node_inv tools m t Node_synthesize st"
  shows "node_kept tools m t Node_synthesize st s Node_END st' s'"
proof -
  from assms(2) obtain why where why: "gs_termination_reason st = Some why"
    by (auto simp: stop_ok_def split: option.splits)
  from assms(1) why obtain e1 s1 res s2 e2 where
    e: "agent_event (gs_step st) AT_SYNTHESIS_STARTED
          (py ''Schema-constrained assessment synthesis started.'') None None None s = (Inr e1, s1)"
    "in_env (aa_synthesize agent (gs_request st) (gs_retrieved_evidence st)
          (gs_observed_documents st)) s1 = (Inr res, s2)"
    "agent_event (gs_step st) AT_WORKFLOW_COMPLETED
          (py ''The agentic workflow produced a structured assessment.'') None None (Some why) s2 =
          (Inr e2, s')"
    and st': "st' = st\<lparr>gs_final_result := Some res, gs_termination_reason := Some why,
                       gs_trace := gs_trace st @ [e1, e2]\<rparr>"
    by (auto simp: synthesize_def Let_def eff_simps)
  show ?thesis
    using assms(2) why agent_event_Inr[OF e(1)] agent_event_Inr[OF e(3)] in_env_frame[OF e(2)]
    by (auto simp: node_kept_def st' graph_inv_def stop_ok_def
        split: AgentTerminationReason.splits)
qed

lemma fail_step:
  assumes "fail st s = (Inr st', s')" and "node_inv tools m t Node_fail st"
  shows "node_kept tools m t Node_fail st s Node_END st' s'"
  using assms by (auto simp: fail_def eff_simps node_kept_def graph_inv_def dest!: agent_event_Inr)

lemma graph_node_step_kept:
  assumes "graph_node_step agent tools node st s = (Inr (node', st'), s')" and "node \<noteq> Node_END"
    and "node_inv tools m t node st"
  shows "node_kept tools m t node st s node' st' s'"
  using assms reason_step execute_tool_step synthesize_step fail_step
  by (cases node) (auto simp: bindE_eq_Inr returnE_def simp del: node_inv.simps)

text \<open>A node that raises has run at most one handler, and only the tool node runs one.\<close>

lemma execute_tool_raise:
  assumes "execute_tool tools st s = (Inl e, s')"
  shows "tw_invoked s' \<le> Suc (tw_invoked s)"
proof -
  let ?name = "str_or (gs_pending_tool_name st) []"
  obtain out s1 where run: "registry_execute tools ?name (gs_pending_tool_arguments st)
      (Some (gs_tool_cache st)) s = (out, s1)"
    by (cases "registry_execute tools ?name (gs_pending_tool_arguments st) (Some (gs_tool_cache st)) s")
  then have "tw_invoked s1 \<le> Suc (tw_invoked s)"
  proof (cases rule: registry_execute_cases)
    case (ran d a fp result)
    then show ?thesis using invoke_tool_run[of tools ?name "td_handler d a" s] by auto
  qed simp_all
  moreover have "tw_invoked s' = tw_invoked s1"
    using assms run
    by (auto simp: execute_tool_def Let_def bindE_def returnE_def dest: agent_event_frame
        split: sum.splits prod.splits)
  ultimately show ?thesis by simp
qed

lemma invoked_frames:
  "reason agent tools st s = (r, s') \<Longrightarrow> tw_invoked s' = tw_invoked s"
  "synthesize agent st s = (r, s') \<Longrightarrow> tw_invoked s' = tw_invoked s"
  "fail st s = (r, s') \<Longrightarrow> tw_invoked s' = tw_invoked s"
  by (auto simp: reason_def limit_reached_def synthesize_def fail_def Let_def bindE_def returnE_def
      dest!: agent_event_frame in_env_frame
      split: if_splits prod.splits sum.splits option.splits AgentDecisionType.splits)

lemma graph_node_step_raise:
  assumes "graph_node_step agent tools node st s = (Inl e, s')" and "node_inv tools m t node st"
  shows "int (tw_invoked s') + gs_tool_calls_used st \<le> int (tw_invoked s) + t"
proof (cases node)
  case Node_execute_tool
  with assms have "execute_tool tools st s = (Inl e, s')"
    by (auto simp: bindE_eq_Inl returnE_def)
  from execute_tool_raise[OF this] assms(2) Node_execute_tool show ?thesis by auto
next
  case Node_END
  with assms show ?thesis by (simp add: returnE_def)
qed (use assms in \<open>auto simp: bindE_eq_Inl returnE_def graph_inv_def dest!: invoked_frames\<close>)

section \<open>The run\<close>

lemma graph_runs_end:
  assumes "graph_runs agent tools p s out s'"
  shows "node_inv tools m t (fst p) (snd p) \<Longrightarrow>
    int (tw_invoked s') + gs_tool_calls_used (snd p) \<le> int (tw_invoked s) + t \<and>
    (\<forall>st. out = Inr st \<longrightarrow> node_inv tools m t Node_END st)"
  using assms
proof induction
  case (runs_end st s)
  then show ?case by (simp add: graph_inv_def)
next
  case (runs_raise node st s e s')
  then show ?case using graph_node_step_raise[OF runs_raise(2)] by simp
next
  case (runs_step node st s p' s1 out s')
  obtain node' st' where p': "p' = (node', st')" by (cases p')
  have "node_kept tools m t node st s node' st' s1"
    using runs_step.hyps p' runs_step.prems by (intro graph_node_step_kept) auto
  with runs_step.IH p' show ?case by (auto simp: node_kept_def)
qed

lemma run_graph_runs:
  assumes "node_inv tools m t node st" and "node_bound node st \<le> n"
    and "run_graph agent tools n (node, st) s = (out, s')"
  shows "graph_runs agent tools (node, st) s out s'"
  using assms
proof (induction n arbitrary: node st s)
  case 0
  then have "node = Node_END" by (cases node) (auto simp: graph_inv_def)
  with 0 show ?case by (auto simp: returnE_def intro: runs_end)
next
  case (Suc n)
  show ?case
  proof (cases "node = Node_END")
    case True
    with Suc.prems show ?thesis by (auto simp: returnE_def intro: runs_end)
  next
    case False
    show ?thesis
    proof (cases "graph_node_step agent tools node st s")
      case (Pair r s1)
      show ?thesis
      proof (cases r)
        case (Inl e)
        with Pair False Suc.prems show ?thesis
          by (auto simp: bindE_def intro: runs_raise)
      next
        case (Inr p')
        obtain node' st' where p': "p' = (node', st')" by (cases p')
        have k: "node_kept tools m t node st s node' st' s1"
          using Pair Inr p' False Suc.prems(1) by (intro graph_node_step_kept) auto
        then have "node_inv tools m t node' st'" "node_bound node' st' \<le> n"
          using Suc.prems(2) by (simp_all add: node_kept_def)
        moreover have "run_graph agent tools n (node', st') s1 = (out, s')"
          using Suc.prems(3) Pair Inr p' False by (simp add: bindE_def)
        ultimately have "graph_runs agent tools (node', st') s1 out s'" by (rule Suc.IH)
        with Pair Inr p' False show ?thesis by (auto intro: runs_step)
      qed
    qed
  qed
qed

lemma initial_state_inv:
  assumes "initialize_assessment_state i request m t = Inr st"
  shows "node_inv tools m t Node_reason st \<and> node_bound Node_reason st = nat (2 * m + 2) \<and>
    gs_tool_calls_used st = 0"
  using assms
  by (auto simp: initialize_assessment_state_def graph_inv_def cache_sourced_def split: if_splits)

section \<open>Completion\<close>

text \<open>
  What a run needs to come to an end with a result: an agent that answers and asks for well-formed
  calls, and tools whose schemas refuse only with \<open>ValidationError\<close>, keep text encodable, and
  whose results carry a summary a trace event can hold. Handlers may fail in any way.
\<close>

definition request_encodable :: "AgentToolRequest \<Rightarrow> bool" where
  "request_encodable r \<longleftrightarrow>
     len_between 1 100 (atr_name r) \<and> encodable (atr_name r) \<and> json_encodable (JObj (atr_arguments r))"

definition agent_answers :: "'w AssessmentAgent \<Rightarrow> bool" where
  "agent_answers agent \<longleftrightarrow>
     (\<forall>request evidence documents history step max_steps tools w.
        \<exists>d w'. aa_decide agent request evidence documents history step max_steps tools w = (Inr d, w') \<and>
          (case ad_action d of
             Decide_TOOL \<Rightarrow> (\<exists>r. ad_tool_request d = Some r \<and> request_encodable r)
           | Decide_SYNTHESIZE \<Rightarrow> True
           | Decide_FAIL \<Rightarrow> False)) \<and>
     (\<forall>request evidence documents w. \<exists>r w'. aa_synthesize agent request evidence documents w = (Inr r, w'))"

definition definition_sound :: "'w ToolDefinition \<Rightarrow> bool" where
  "definition_sound d \<longleftrightarrow>
     (\<forall>raw. case td_validate d raw of
         Inl e \<Rightarrow> e = ValidationExc
       | Inr a \<Rightarrow> json_encodable (JObj (dump_arguments a))) \<and>
     (\<forall>a w result. fst (td_handler d a w) = Inr result \<longrightarrow> len_between 1 300 (te_summary result))"

definition tools_sound :: "'w ToolRegistry \<Rightarrow> bool" where
  "tools_sound tools \<longleftrightarrow>
     (\<forall>q. encodable (dl_float_repr (rg_digest tools) q)) \<and>
     (\<forall>d \<in> snd ` set (rg_definitions tools). definition_sound d)"

lemma fingerprint_encodable:
  assumes "\<forall>q. encodable (dl_float_repr lib q)" and "encodable name" and "json_encodable (JObj raw)"
  shows "\<exists>fp. fingerprint lib name raw = Inr fp"
proof -
  have "encodable (json_dumps (dl_float_repr lib)
          (JObj [(py ''name'', JStr name), (py ''arguments'', JObj raw)]))"
    using assms by (intro json_dumps_encodable) auto
  then show ?thesis unfolding fingerprint_def digest_json_def Let_def by (simp only: if_True) blast
qed

definition cache_summaries :: "tool_cache \<Rightarrow> bool" where
  "cache_summaries c \<longleftrightarrow> (\<forall>result \<in> snd ` set c. len_between 1 300 (te_summary result))"

lemma registry_execute_returns:
  assumes "tools_sound tools" and "encodable name" and "json_encodable (JObj raw)"
    and "cache_summaries c"
  shows "\<exists>result fp keys c' s'. registry_execute tools name raw (Some c) s =
           (Inr ((result, fp, keys), Some c'), s') \<and> len_between 1 300 (te_summary result) \<and>
           cache_summaries c'"
proof -
  obtain out s' where run: "registry_execute tools name raw (Some c) s = (out, s')"
    by (cases "registry_execute tools name raw (Some c) s")
  have sound: "definition_sound d" if "map_of (rg_definitions tools) name = Some d" for d
    using assms(1) that unfolding tools_sound_def by (force dest: map_of_SomeD)
  have enc: "\<forall>q. encodable (dl_float_repr (rg_digest tools) q)"
    using assms(1) by (simp add: tools_sound_def)
  from run show ?thesis
  proof (cases rule: registry_execute_cases)
    case (raised e)
    have "fingerprint (rg_digest tools) name raw \<noteq> Inl e"
      using fingerprint_encodable[OF enc assms(2,3)] by auto
    then obtain d where d: "map_of (rg_definitions tools) name = Some d"
      and why: "td_validate d raw = Inl e \<and> e \<noteq> ValidationExc \<or>
           (\<exists>a. td_validate d raw = Inr a \<and>
                fingerprint (rg_digest tools) name (dump_arguments a) = Inl e)"
      using raised(3) by blast
    have v: "case td_validate d raw of Inl e \<Rightarrow> e = ValidationExc
       | Inr a \<Rightarrow> json_encodable (JObj (dump_arguments a))"
      using sound[OF d] unfolding definition_sound_def by blast
    from why v obtain a where "json_encodable (JObj (dump_arguments a))"
      "fingerprint (rg_digest tools) name (dump_arguments a) = Inl e" by auto
    with fingerprint_encodable[OF enc assms(2)] have False by fastforce
    then show ?thesis ..
  next
    case (refused summary code fp)
    with run assms(4) show ?thesis by (auto simp: tool_failure_def tool_result_def)
  next
    case (cached d a fp hit c0)
    then have "(fp, hit) \<in> set c" by (auto dest: map_of_SomeD)
    with assms(4) have "len_between 1 300 (te_summary hit)" by (force simp: cache_summaries_def)
    with cached run assms(4) show ?thesis by auto
  next
    case (ran d a fp result)
    have "len_between 1 300 (te_summary result)"
      using invoke_tool_run[of tools name "td_handler d a" s] ran(4) sound[OF ran(1)]
        failure_result_fields[of name] unfolding definition_sound_def by force
    moreover have "set (AList.update fp result c) \<subseteq> insert (fp, result) (set c)"
      by (induction c) auto
    ultimately show ?thesis using ran run assms(4) by (fastforce simp: cache_summaries_def)
  qed
qed

definition live_node :: "graph_node \<Rightarrow> AssessmentGraphState \<Rightarrow> bool" where
  "live_node node st \<longleftrightarrow> 0 \<le> gs_step st \<and> gs_error st = None \<and> cache_summaries (gs_tool_cache st) \<and>
     (case node of
        Node_reason \<Rightarrow> True
      | Node_execute_tool \<Rightarrow> (\<exists>name. gs_pending_tool_name st = Some name \<and> len_between 1 100 name \<and>
          encodable name \<and> json_encodable (JObj (gs_pending_tool_arguments st)))
      | Node_synthesize \<Rightarrow> True
      | Node_fail \<Rightarrow> False
      | Node_END \<Rightarrow> gs_final_result st \<noteq> None \<and> gs_termination_reason st \<noteq> None)"

lemma agent_event_plain:
  assumes "0 \<le> step" and "len_between 1 300 summary"
  obtains e where "agent_event step t summary None status why s = (Inr e, s\<lparr>tw_ticks := Suc (tw_ticks s)\<rparr>)"
  using agent_event_run[OF assms, of None] by (auto simp: opt_len_ok_def) blast

lemma limit_reached_live:
  assumes "live_node Node_reason st" and "len_between 1 300 summary"
  shows "\<exists>st' s'. limit_reached st event_type summary why s = (Inr st', s') \<and>
           live_node (route_after_reason st') st'"
proof -
  have "0 \<le> gs_step st" using assms(1) by (simp add: live_node_def)
  then obtain e where "agent_event (gs_step st) event_type summary None None (Some why) s =
      (Inr e, s\<lparr>tw_ticks := Suc (tw_ticks s)\<rparr>)"
    using assms(2) by (rule agent_event_plain)
  then show ?thesis
    using assms(1) by (simp add: limit_reached_def bindE_def returnE_def live_node_def route_after_reason_def)
qed

lemma in_env_run: "m (tw_env s) = (Inr x, w) \<Longrightarrow> in_env m s = (Inr x, s\<lparr>tw_env := w\<rparr>)"
  by (simp add: in_env_def)

lemma reason_live:
  assumes "agent_answers agent" and "live_node Node_reason st"
  shows "\<exists>st' s'. reason agent tools st s = (Inr st', s') \<and> live_node (route_after_reason st') st'"
proof (cases "gs_step st \<ge> gs_max_steps st \<or> gs_tool_calls_used st \<ge> gs_max_tool_calls st")
  case True
  have len: "len_between 1 300 (py ''The configured reasoning-step limit was reached.'')"
    "len_between 1 300 (py ''The configured tool-call limit was reached.'')" by simp_all
  show ?thesis
  proof (cases "gs_step st \<ge> gs_max_steps st")
    case True
    then show ?thesis
      using limit_reached_live[OF assms(2) len(1), of AT_MAX_STEPS_REACHED Term_MAX_STEPS_REACHED s]
      by (simp only: reason_def if_True)
  next
    case False
    then show ?thesis
      using \<open>gs_step st \<ge> gs_max_steps st \<or> _\<close>
        limit_reached_live[OF assms(2) len(2), of AT_MAX_TOOL_CALLS_REACHED Term_MAX_TOOL_CALLS_REACHED s]
      by (simp only: reason_def if_True if_False simp_thms)
  qed
next
  case False
  let ?step = "gs_step st + 1" and ?s1 = "s\<lparr>tw_ticks := Suc (tw_ticks s)\<rparr>"
  have pos: "0 \<le> ?step" using assms(2) by (simp add: live_node_def)
  have len: "len_between 1 300 (py ''The agent evaluated whether more approved evidence was needed.'')" by simp
  obtain e1 where e1: "agent_event ?step AT_REASONING_STARTED
      (py ''The agent evaluated whether more approved evidence was needed.'') None None None s = (Inr e1, ?s1)"
    by (rule agent_event_plain[OF pos len])
  let ?ask = "aa_decide agent (gs_request st) (gs_retrieved_evidence st) (gs_observed_documents st)
      (gs_tool_history st) ?step (gs_max_steps st) (schemas tools)"
  obtain d w where d: "?ask (tw_env ?s1) = (Inr d, w)"
    and dec: "case ad_action d of
             Decide_TOOL \<Rightarrow> (\<exists>r. ad_tool_request d = Some r \<and> request_encodable r)
           | Decide_SYNTHESIZE \<Rightarrow> True
           | Decide_FAIL \<Rightarrow> False"
    using assms(1) unfolding agent_answers_def by meson
  let ?s2 = "?s1\<lparr>tw_env := w\<rparr>"
  have ask: "in_env ?ask ?s1 = (Inr d, ?s2)" using d by (rule in_env_run)
  show ?thesis
  proof (cases "ad_action d")
    case Decide_TOOL
    with dec obtain r where r: "ad_tool_request d = Some r" "request_encodable r" by auto
    then have "opt_len_ok (Some (atr_name r)) 100"
      by (simp add: request_encodable_def len_between_def opt_len_ok_def)
    then obtain e2 s3 where e2: "agent_event ?step AT_TOOL_REQUESTED
        (py ''The agent requested one approved read-only tool.'') (Some (atr_name r)) None None ?s2 = (Inr e2, s3)"
      using agent_event_run[OF pos, of "py ''The agent requested one approved read-only tool.''" "Some (atr_name r)"]
      by fastforce
    then show ?thesis
      using False e1 ask Decide_TOOL r assms(2)
      by (simp add: reason_def bindE_def returnE_def Let_def live_node_def route_after_reason_def
          request_encodable_def)
  next
    case Decide_SYNTHESIZE
    then show ?thesis
      using False e1 ask assms(2)
      by (simp add: reason_def bindE_def returnE_def Let_def live_node_def route_after_reason_def)
  qed (use dec in simp)
qed

lemma execute_tool_live:
  assumes "tools_sound tools" and "live_node Node_execute_tool st"
  shows "\<exists>st' s'. execute_tool tools st s = (Inr st', s') \<and> live_node Node_reason st'"
proof -
  from assms(2) obtain name where n: "gs_pending_tool_name st = Some name" "len_between 1 100 name"
    "encodable name" "json_encodable (JObj (gs_pending_tool_arguments st))"
    and c: "cache_summaries (gs_tool_cache st)" and pos: "0 \<le> gs_step st"
    by (auto simp: live_node_def)
  have name: "str_or (gs_pending_tool_name st) [] = name"
    using n(1,2) by (simp add: str_or_def)
  obtain result fp keys c' s1 where run: "registry_execute tools name (gs_pending_tool_arguments st)
      (Some (gs_tool_cache st)) s = (Inr ((result, fp, keys), Some c'), s1)"
    "len_between 1 300 (te_summary result)" "cache_summaries c'"
    using registry_execute_returns[OF assms(1) n(3,4) c] by blast
  have "opt_len_ok (Some name) 100" using n(2) by (simp add: len_between_def opt_len_ok_def)
  from agent_event_run[OF pos run(2) this] obtain e s2 where
    "agent_event (gs_step st) (if te_success result then AT_TOOL_COMPLETED else AT_TOOL_FAILED)
       (te_summary result) (Some name) (Some (result_status result)) None s1 = (Inr e, s2)" by blast
  then show ?thesis
    using run name assms(2)
    by (simp add: execute_tool_def Let_def bindE_def returnE_def live_node_def)
qed

lemma synthesize_live:
  assumes "agent_answers agent" and "live_node Node_synthesize st"
  shows "\<exists>st' s'. synthesize agent st s = (Inr st', s') \<and> live_node Node_END st'"
proof -
  have pos: "0 \<le> gs_step st" using assms(2) by (simp add: live_node_def)
  let ?why = "case gs_termination_reason st of None \<Rightarrow> Term_COMPLETED | Some t \<Rightarrow> t"
  let ?s1 = "s\<lparr>tw_ticks := Suc (tw_ticks s)\<rparr>"
  have len: "len_between 1 300 (py ''Schema-constrained assessment synthesis started.'')"
    "len_between 1 300 (py ''The agentic workflow produced a structured assessment.'')" by simp_all
  obtain e1 where e1: "agent_event (gs_step st) AT_SYNTHESIS_STARTED
      (py ''Schema-constrained assessment synthesis started.'') None None None s = (Inr e1, ?s1)"
    by (rule agent_event_plain[OF pos len(1)])
  obtain res w where "aa_synthesize agent (gs_request st) (gs_retrieved_evidence st)
      (gs_observed_documents st) (tw_env ?s1) = (Inr res, w)"
    using assms(1) unfolding agent_answers_def by meson
  from in_env_run[of "aa_synthesize agent (gs_request st) (gs_retrieved_evidence st)
      (gs_observed_documents st)", OF this]
  have syn: "in_env (aa_synthesize agent (gs_request st) (gs_retrieved_evidence st)
      (gs_observed_documents st)) ?s1 = (Inr res, ?s1\<lparr>tw_env := w\<rparr>)" .
  obtain e2 s3 where "agent_event (gs_step st) AT_WORKFLOW_COMPLETED
      (py ''The agentic workflow produced a structured assessment.'') None None (Some ?why)
      (?s1\<lparr>tw_env := w\<rparr>) = (Inr e2, s3)"
    by (rule agent_event_plain[OF pos len(2)])
  then show ?thesis
    using e1 syn assms(2) by (simp add: synthesize_def Let_def bindE_def returnE_def live_node_def)
qed

lemma graph_node_step_live:
  assumes "agent_answers agent" and "tools_sound tools" and "live_node node st" and "node \<noteq> Node_END"
  shows "\<exists>node' st' s'. graph_node_step agent tools node st s = (Inr (node', st'), s') \<and>
           live_node node' st'"
proof (cases node)
  case Node_reason
  then show ?thesis using reason_live[OF assms(1), of st tools s] assms(3)
    by (fastforce simp: bindE_def returnE_def)
next
  case Node_execute_tool
  then show ?thesis using execute_tool_live[OF assms(2), of st s] assms(3)
    by (fastforce simp: bindE_def returnE_def)
next
  case Node_synthesize
  then show ?thesis using synthesize_live[OF assms(1), of st s] assms(3)
    by (fastforce simp: bindE_def returnE_def)
qed (use assms in \<open>simp_all add: live_node_def\<close>)

lemma run_graph_completes:
  assumes "agent_answers agent" and "tools_sound tools"
  shows "node_inv tools m t node st \<Longrightarrow> live_node node st \<Longrightarrow> node_bound node st \<le> n \<Longrightarrow>
    \<exists>st' s'. run_graph agent tools n (node, st) s = (Inr st', s') \<and> live_node Node_END st'"
proof (induction n arbitrary: node st s)
  case 0
  then have "node = Node_END" by (cases node) (auto simp: graph_inv_def)
  with 0 show ?case by (simp add: returnE_def)
next
  case (Suc n)
  show ?case
  proof (cases "node = Node_END")
    case True
    with Suc.prems show ?thesis by (simp add: returnE_def)
  next
    case False
    from graph_node_step_live[OF assms Suc.prems(2) False] obtain node' st' s1 where
      step: "graph_node_step agent tools node st s = (Inr (node', st'), s1)" "live_node node' st'"
      by blast
    have "node_kept tools m t node st s node' st' s1"
      by (rule graph_node_step_kept[OF step(1) False Suc.prems(1)])
    then have "node_inv tools m t node' st'" "node_bound node' st' \<le> n"
      using Suc.prems(3) by (simp_all add: node_kept_def)
    from Suc.IH[OF this(1) step(2) this(2)] step False show ?thesis by (simp add: bindE_def)
  qed
qed

section \<open>Configuration\<close>

text \<open>The settings that decide whether and with which limits the workflow is built, their field
  bounds, and the part of \<open>Settings.validate_chunk_settings\<close> about the recursion limit.\<close>

record AgentSettings =
  cfg_execution_mode_override :: "ExecutionMode option"
  cfg_execution_routing_enabled :: bool
  cfg_agentic_workflow_enabled :: bool
  cfg_multi_agent_workflow_enabled :: bool
  cfg_agent_max_steps :: int
  cfg_agent_max_tool_calls :: int
  cfg_langgraph_recursion_limit :: int

definition agent_settings_ok :: "AgentSettings \<Rightarrow> bool" where
  "agent_settings_ok c \<longleftrightarrow>
     1 \<le> cfg_agent_max_steps c \<and> cfg_agent_max_steps c \<le> 50 \<and>
     1 \<le> cfg_agent_max_tool_calls c \<and> cfg_agent_max_tool_calls c \<le> 50 \<and>
     1 \<le> cfg_langgraph_recursion_limit c \<and> cfg_langgraph_recursion_limit c \<le> 1000 \<and>
     (let minimum_recursion_limit = cfg_agent_max_steps c * 2 + 3
      in \<not> (cfg_agentic_workflow_enabled c \<and>
             cfg_langgraph_recursion_limit c < minimum_recursion_limit))"

definition get_agentic_assessment_workflow ::
  "AgentSettings \<Rightarrow> 'w graph_invoke \<Rightarrow> (AssessmentResult \<Rightarrow> py_exc + AssessmentResult) \<Rightarrow>
     'w AssessmentAgent \<Rightarrow> 'w ToolRegistry \<Rightarrow> 'w AgenticAssessmentWorkflow option" where
  "get_agentic_assessment_workflow c invoke validate agent tools =
     (let override = cfg_execution_mode_override c;
          forced_single_agent = (override = Some Mode_SINGLE_AGENT);
          flow = \<lparr>wf_invoke = invoke, wf_agent = agent, wf_tools = tools,
                  wf_max_steps = cfg_agent_max_steps c,
                  wf_max_tool_calls = cfg_agent_max_tool_calls c,
                  wf_recursion_limit = nat (cfg_langgraph_recursion_limit c),
                  wf_validate_result = validate\<rparr>
      in if override \<noteq> None \<and> \<not> forced_single_agent then None
         else if override = None \<and> cfg_execution_routing_enabled c
         then (if \<not> cfg_agentic_workflow_enabled c then None else Some flow)
         else if override = None \<and>
                 (\<not> cfg_agentic_workflow_enabled c \<or> cfg_multi_agent_workflow_enabled c)
         then None
         else Some flow)"

lemma get_workflow_fields:
  assumes "get_agentic_assessment_workflow c invoke validate agent tools = Some flow"
  shows "wf_invoke flow = invoke \<and> wf_agent flow = agent \<and> wf_tools flow = tools \<and>
    wf_max_steps flow = cfg_agent_max_steps c \<and> wf_max_tool_calls flow = cfg_agent_max_tool_calls c \<and>
    wf_recursion_limit flow = nat (cfg_langgraph_recursion_limit c) \<and> wf_validate_result flow = validate \<and>
    (cfg_execution_mode_override c = None \<longrightarrow> cfg_agentic_workflow_enabled c)"
  using assms by (auto simp: get_agentic_assessment_workflow_def Let_def split: if_splits)

section \<open>Properties\<close>

text \<open>The run of a workflow whose recursion limit covers its step limit.\<close>

lemma workflow_runs:
  assumes "langgraph_semantics (wf_invoke flow)" and "nat (2 * wf_max_steps flow + 3) \<le> wf_recursion_limit flow"
    and "initialize_assessment_state i request (wf_max_steps flow) (wf_max_tool_calls flow) = Inr st"
    and "wf_invoke flow (wf_agent flow) (wf_tools flow) (wf_recursion_limit flow) st s = (out, s')"
  shows "graph_runs (wf_agent flow) (wf_tools flow) (Node_reason, st) s out s'"
proof -
  obtain n where n: "wf_recursion_limit flow \<le> n"
    "wf_invoke flow (wf_agent flow) (wf_tools flow) (wf_recursion_limit flow) st s =
       run_graph (wf_agent flow) (wf_tools flow) n (Node_reason, st) s"
    using assms(1) unfolding langgraph_semantics_def by meson
  note init = initial_state_inv[OF assms(3), of "wf_tools flow"]
  have "node_bound Node_reason st \<le> n" using init assms(2) n(1) by linarith
  with init n(2) assms(4) show ?thesis by (intro run_graph_runs) auto
qed

lemma finish_workflow_Inr:
  assumes "finish_workflow validate st = Inr r"
  shows "gs_error st = None \<and> gs_termination_reason st = Some (ax_termination_reason (awr_execution r)) \<and>
    awr_evidence r = gs_retrieved_evidence st \<and> ax_steps_used (awr_execution r) = gs_step st \<and>
    ax_trace (awr_execution r) = gs_trace st"
  using assms
  by (auto simp: finish_workflow_def split: option.splits sum.splits if_splits)

lemma workflow_end:
  assumes "langgraph_semantics (wf_invoke flow)" and "nat (2 * wf_max_steps flow + 3) \<le> wf_recursion_limit flow"
    and "workflow_run flow i request s = (out, s')"
  shows "int (tw_invoked s') \<le> int (tw_invoked s) + max 0 (wf_max_tool_calls flow)"
    and "out = Inr r \<Longrightarrow> \<exists>st. node_inv (wf_tools flow) (wf_max_steps flow) (wf_max_tool_calls flow) Node_END st \<and>
           finish_workflow (wf_validate_result flow) st = Inr r"
proof -
  have "int (tw_invoked s') \<le> int (tw_invoked s) + max 0 (wf_max_tool_calls flow) \<and>
    (out = Inr r \<longrightarrow> (\<exists>st. node_inv (wf_tools flow) (wf_max_steps flow) (wf_max_tool_calls flow) Node_END st \<and>
           finish_workflow (wf_validate_result flow) st = Inr r))"
  proof (cases "initialize_assessment_state i request (wf_max_steps flow) (wf_max_tool_calls flow)")
    case (Inl e)
    with assms(3) show ?thesis by (auto simp: workflow_run_def bindE_def liftE_def)
  next
    case (Inr st)
    obtain out1 s1 where inv: "wf_invoke flow (wf_agent flow) (wf_tools flow) (wf_recursion_limit flow) st s = (out1, s1)"
      by (cases "wf_invoke flow (wf_agent flow) (wf_tools flow) (wf_recursion_limit flow) st s")
    note init = initial_state_inv[OF Inr, of "wf_tools flow"]
    note fin = graph_runs_end[OF workflow_runs[OF assms(1,2) Inr inv], of "wf_max_steps flow" "wf_max_tool_calls flow"]
    have "s' = s1" and "out = (case out1 of Inl e \<Rightarrow> Inl e | Inr st' \<Rightarrow> finish_workflow (wf_validate_result flow) st')"
      using assms(3) Inr inv by (auto simp: workflow_run_def bindE_def liftE_def split: sum.splits)
    with fin init show ?thesis by (cases out1) auto
  qed
  then show "int (tw_invoked s') \<le> int (tw_invoked s) + max 0 (wf_max_tool_calls flow)"
    and "out = Inr r \<Longrightarrow> \<exists>st. node_inv (wf_tools flow) (wf_max_steps flow) (wf_max_tool_calls flow) Node_END st \<and>
           finish_workflow (wf_validate_result flow) st = Inr r" by blast+
qed


text \<open>every agentic run stays within its budget: however the agent and the tools behave, at most
  \<open>max_tool_calls\<close> handlers run, also when the run raises. A run that returns reports a step count
  within the limit and the reason it stopped: the agent asked for synthesis, or the step or tool-call
  limit was really reached; its trace is well-formed and ends with that reason.\<close>

theorem agentic_run_within_limits:
  assumes "langgraph_semantics (wf_invoke flow)" and "nat (2 * wf_max_steps flow + 3) \<le> wf_recursion_limit flow"
    and "workflow_run flow i request s = (out, s')"
  shows "int (tw_invoked s') \<le> int (tw_invoked s) + max 0 (wf_max_tool_calls flow) \<and>
    (case out of Inl e \<Rightarrow> True
     | Inr r \<Rightarrow>
         (let x = awr_execution r
          in 0 \<le> ax_steps_used x \<and> ax_steps_used x \<le> wf_max_steps flow \<and>
             (case ax_termination_reason x of
                Term_AGENT_STOPPED \<Rightarrow> 1 \<le> ax_steps_used x
              | Term_MAX_STEPS_REACHED \<Rightarrow> ax_steps_used x = wf_max_steps flow
              | Term_MAX_TOOL_CALLS_REACHED \<Rightarrow>
                  ax_steps_used x = wf_max_tool_calls flow \<and> wf_max_tool_calls flow < wf_max_steps flow
              | _ \<Rightarrow> False) \<and>
             list_all agent_trace_event_ok (ax_trace x) \<and> ax_trace x \<noteq> [] \<and>
             ate_event_type (last (ax_trace x)) = AT_WORKFLOW_COMPLETED \<and>
             ate_termination_reason (last (ax_trace x)) = Some (ax_termination_reason x)))"
proof -
  note fin = workflow_end[OF assms]
  show ?thesis
  proof (cases out)
    case (Inl e)
    with fin(1) show ?thesis by simp
  next
    case res: (Inr r)
    from fin(2)[OF this] fin(1) res show ?thesis
      by (auto simp: graph_inv_def stop_ok_def Let_def dest!: finish_workflow_Inr
          split: AgentTerminationReason.splits)
  qed
qed

text \<open>the evidence an agentic run hands on was observed: every item was returned by a handler of
  the registry, and no chunk appears twice.\<close>

theorem agentic_evidence_was_observed:
  assumes "langgraph_semantics (wf_invoke flow)" and "nat (2 * wf_max_steps flow + 3) \<le> wf_recursion_limit flow"
    and "workflow_run flow i request s = (Inr r, s')"
  shows "distinct (map ev_chunk_id (awr_evidence r)) \<and>
    list_all (\<lambda>ev. \<exists>name d a w result. map_of (rg_definitions (wf_tools flow)) name = Some d \<and>
       fst (td_handler d a w) = Inr result \<and> ev \<in> set (te_evidence result)) (awr_evidence r)"
proof -
  from workflow_end(2)[OF assms refl] obtain st' where
    "node_inv (wf_tools flow) (wf_max_steps flow) (wf_max_tool_calls flow) Node_END st'"
    "awr_evidence r = gs_retrieved_evidence st'"
    using finish_workflow_Inr by blast
  then show ?thesis by (auto simp: graph_inv_def list_all_iff from_handler_def)
qed

lemma workflow_completes:
  assumes "langgraph_semantics (wf_invoke flow)" and "nat (2 * wf_max_steps flow + 3) \<le> wf_recursion_limit flow"
    and "1 \<le> wf_max_steps flow" and "1 \<le> wf_max_tool_calls flow"
    and "agent_answers (wf_agent flow)" and "tools_sound (wf_tools flow)"
    and "\<forall>x. \<exists>y. wf_validate_result flow x = Inr y"
  shows "\<exists>r s'. workflow_run flow i request s = (Inr r, s')"
proof -
  obtain st where st: "initialize_assessment_state i request (wf_max_steps flow) (wf_max_tool_calls flow) = Inr st"
    using assms(3,4) by (simp add: initialize_assessment_state_def)
  obtain n where n: "wf_recursion_limit flow \<le> n"
    "wf_invoke flow (wf_agent flow) (wf_tools flow) (wf_recursion_limit flow) st s =
       run_graph (wf_agent flow) (wf_tools flow) n (Node_reason, st) s"
    using assms(1) unfolding langgraph_semantics_def by meson
  note init = initial_state_inv[OF st, of "wf_tools flow"]
  have live: "live_node Node_reason st"
    using st by (auto simp: initialize_assessment_state_def live_node_def cache_summaries_def split: if_splits)
  have "node_bound Node_reason st \<le> n" using init assms(2) n(1) by linarith
  with run_graph_completes[OF assms(5,6) _ live] init obtain st' s1 where
    fin: "run_graph (wf_agent flow) (wf_tools flow) n (Node_reason, st) s = (Inr st', s1)" "live_node Node_END st'"
    by blast
  obtain x t y where "gs_final_result st' = Some x" "gs_termination_reason st' = Some t"
    "gs_error st' = None" "0 \<le> gs_step st'" "wf_validate_result flow x = Inr y"
    using fin(2) assms(7) unfolding live_node_def by fastforce
  then show ?thesis
    using st n(2) fin(1) by (simp add: workflow_run_def bindE_def liftE_def finish_workflow_def)
qed


text \<open>The check of the recursion limit does not cover the forced mode: settings that force the
  single-agent mode without enabling the agentic workflow are accepted with any recursion limit, and
  the workflow is built with a limit below the node executions its step limit allows for.\<close>

theorem forced_mode_escapes_limit_check:
  "\<exists>c. agent_settings_ok c \<and>
     (\<forall>invoke validate agent tools. \<exists>flow.
        get_agentic_assessment_workflow c invoke validate agent tools = Some flow \<and>
        int (wf_recursion_limit flow) < 2 * wf_max_steps flow + 2)"
  by (rule exI[of _ "\<lparr>cfg_execution_mode_override = Some Mode_SINGLE_AGENT,
       cfg_execution_routing_enabled = True, cfg_agentic_workflow_enabled = False,
       cfg_multi_agent_workflow_enabled = False, cfg_agent_max_steps = 20,
       cfg_agent_max_tool_calls = 20, cfg_langgraph_recursion_limit = 25\<rparr>"])
     (simp add: agent_settings_ok_def get_agentic_assessment_workflow_def)

section \<open>A sample workflow\<close>

definition sample_assessment :: AssessmentResult where
  "sample_assessment =
     \<lparr>res_executive_summary = py ''s'',
      res_problem_analysis = \<lparr>pa_core_problem = py ''p'', pa_current_process_weaknesses = [],
                              pa_key_bottlenecks = []\<rparr>,
      res_ai_suitability = \<lparr>suit_level = Suitability_HIGH, suit_rationale = py ''r''\<rparr>,
      res_recommended_use_cases = [],
      res_recommended_solution = \<lparr>sol_pattern = RAG_DECISION_SUPPORT, sol_description = py ''d'',
                                  sol_rationale = py ''r''\<rparr>,
      res_risks = [], res_human_oversight = \<lparr>ho_review_recommended = True,
        ho_decisions_requiring_review = [], ho_rationale = py ''r''\<rparr>,
      res_next_steps = [], res_assumptions = [], res_information_gaps = [],
      res_external_evidence_status = Evidence_NOT_RETRIEVED, res_source_references = []\<rparr>"

definition sample_agent :: "nat AssessmentAgent" where
  "sample_agent =
     \<lparr>aa_decide = (\<lambda>request evidence documents history step max_steps schemas w.
        (Inr (if history = []
              then \<lparr>ad_action = Decide_TOOL,
                    ad_tool_request = Some \<lparr>atr_name = py ''search_knowledge'',
                                            atr_arguments = sample_arguments\<rparr>\<rparr>
              else \<lparr>ad_action = Decide_SYNTHESIZE, ad_tool_request = None\<rparr>), w)),
      aa_synthesize = (\<lambda>request evidence documents w. (Inr sample_assessment, w))\<rparr>"

definition sample_invoke :: "nat graph_invoke" where
  "sample_invoke agent tools limit st = run_graph agent tools limit (Node_reason, st)"

definition sample_settings :: AgentSettings where
  "sample_settings =
     \<lparr>cfg_execution_mode_override = None, cfg_execution_routing_enabled = True,
      cfg_agentic_workflow_enabled = True, cfg_multi_agent_workflow_enabled = False,
      cfg_agent_max_steps = 5, cfg_agent_max_tool_calls = 5, cfg_langgraph_recursion_limit = 25\<rparr>"

definition sample_flow :: "nat AgenticAssessmentWorkflow" where
  "sample_flow =
     \<lparr>wf_invoke = sample_invoke, wf_agent = sample_agent, wf_tools = sample_registry,
      wf_max_steps = 5, wf_max_tool_calls = 5, wf_recursion_limit = 25, wf_validate_result = Inr\<rparr>"

definition sample_agent_request :: AssessmentRequest where
  "sample_agent_request =
     \<lparr>req_company_name = py ''c'', req_organization_description = None, req_industry = py ''i'',
      req_business_problem = py ''b'', req_current_process = None, req_pain_points = [],
      req_desired_outcome = py ''o'', req_constraints = [], req_additional_context = None\<rparr>"

lemma sample_semantics: "langgraph_semantics sample_invoke"
  by (auto simp: langgraph_semantics_def sample_invoke_def)

lemma sample_agent_answers: "agent_answers sample_agent"
  by (simp add: agent_answers_def sample_agent_def request_encodable_def sample_arguments_def)

lemma sample_tools_sound: "tools_sound sample_registry"
  by (simp add: tools_sound_def sample_registry_def sample_digest_def definition_sound_def
      sample_tool_def tool_result_def split: if_split)


lemma sample_flow_runs:
  "\<exists>r s'. workflow_run sample_flow (py ''1'') sample_agent_request sample_world = (Inr r, s')"
  by (rule workflow_completes)
     (simp_all add: sample_flow_def sample_semantics sample_agent_answers sample_tools_sound)

lemma sample_flow_limits:
  "langgraph_semantics (wf_invoke sample_flow)"
  "nat (2 * wf_max_steps sample_flow + 3) \<le> wf_recursion_limit sample_flow"
  by (simp_all add: sample_flow_def sample_semantics)

theorem agentic_run_within_limits_witness:
  "\<exists>r s'. workflow_run sample_flow (py ''1'') sample_agent_request sample_world = (Inr r, s') \<and>
     ax_steps_used (awr_execution r) \<le> 5 \<and> int (tw_invoked s') \<le> 5"
proof -
  obtain r s' where run: "workflow_run sample_flow (py ''1'') sample_agent_request sample_world = (Inr r, s')"
    using sample_flow_runs by blast
  from agentic_run_within_limits[OF sample_flow_limits run] run show ?thesis
    by (auto simp: sample_flow_def sample_world_def Let_def)
qed

theorem agentic_evidence_was_observed_witness:
  "\<exists>r s'. workflow_run sample_flow (py ''1'') sample_agent_request sample_world = (Inr r, s') \<and>
     distinct (map ev_chunk_id (awr_evidence r))"
proof -
  obtain r s' where run: "workflow_run sample_flow (py ''1'') sample_agent_request sample_world = (Inr r, s')"
    using sample_flow_runs by blast
  from agentic_evidence_was_observed[OF sample_flow_limits run] run show ?thesis by blast
qed


end
