(* ===== verification/Identity.thy ===== *)
theory Identity
  imports Domain
begin

text \<open>
  Authentication and roles: the principal (\<^verbatim>\<open>app/identity/models.py\<close>), claim mapping and the
  two token verifiers (\<^verbatim>\<open>app/identity/tokens.py\<close>), and the request dependencies that
  guard the routes (\<^verbatim>\<open>app/identity/dependencies.py\<close>). The PyJWT library is the parameter
  \<open>jwt_decode\<close> (and \<open>get_signing_key\<close> for the JWKS client); the case-folding table of the
  Unicode database is the parameter \<open>table\<close>.
\<close>

section \<open>Principals\<close>

datatype Role = Role_ANALYST | Role_REVIEWER | Role_ADMIN

primrec role_value :: "Role \<Rightarrow> pystr" where
  "role_value Role_ANALYST = py ''analyst''"
| "role_value Role_REVIEWER = py ''reviewer''"
| "role_value Role_ADMIN = py ''admin''"

text \<open>\<open>Role(s)\<close>: the member with this value, or a \<open>ValueError\<close>.\<close>

definition role_of :: "pystr \<Rightarrow> Role option" where
  "role_of s = find (\<lambda>r. role_value r = s) [Role_ANALYST, Role_REVIEWER, Role_ADMIN]"

record AuthenticatedPrincipal =
  pr_subject :: pystr
  pr_email :: "pystr option"
  pr_display_name :: "pystr option"
  pr_roles :: "Role list"
  pr_issuer :: pystr

definition principal_ok :: "AuthenticatedPrincipal \<Rightarrow> bool" where
  "principal_ok p \<longleftrightarrow>
     len_between 1 255 (pr_subject p) \<and> opt_len_ok (pr_email p) 320 \<and>
     opt_len_ok (pr_display_name p) 255 \<and> pr_roles p \<noteq> [] \<and> len_between 1 255 (pr_issuer p)"

definition can_review :: "AuthenticatedPrincipal \<Rightarrow> bool" where
  "can_review p \<longleftrightarrow> list_ex (\<lambda>r. r \<in> {Role_REVIEWER, Role_ADMIN}) (pr_roles p)"

definition audit_role :: "AuthenticatedPrincipal \<Rightarrow> Role" where
  "audit_role p =
     (if Role_ADMIN \<in> set (pr_roles p) then Role_ADMIN
      else if Role_REVIEWER \<in> set (pr_roles p) then Role_REVIEWER
      else Role_ANALYST)"

section \<open>Claims and tokens\<close>

text \<open>
  \<open>Role(str(value).casefold())\<close> of one JSON value. \<open>str\<close> of anything but a string
  (\<open>'5'\<close>, \<open>'True'\<close>, \<open>'None'\<close>, a bracketed list or object) is never a role name.
\<close>

definition role_of_json :: "fold_table \<Rightarrow> json \<Rightarrow> Role option" where
  "role_of_json table v = (case v of JStr s \<Rightarrow> role_of (py_casefold table s) | _ \<Rightarrow> None)"

fun roles_of_json :: "fold_table \<Rightarrow> json list \<Rightarrow> Role list option" where
  "roles_of_json table [] = Some []"
| "roles_of_json table (v # vs) =
     (case role_of_json table v of
        None \<Rightarrow> None
      | Some r \<Rightarrow> map_option (Cons r) (roles_of_json table vs))"

definition claim :: "json_object \<Rightarrow> string \<Rightarrow> json option" where
  "claim claims key = map_of claims (py key)"

text \<open>An optional string claim: absent and \<open>null\<close> are \<open>None\<close>, another type is refused.\<close>

definition optional_text :: "json option \<Rightarrow> py_exc + pystr option" where
  "optional_text v =
     (case v of
        None \<Rightarrow> Inr None
      | Some JNull \<Rightarrow> Inr None
      | Some (JStr s) \<Rightarrow> Inr (Some s)
      | Some _ \<Rightarrow> Inl (AppExc AuthenticationRequiredError))"

definition required_text :: "json option \<Rightarrow> py_exc + pystr" where
  "required_text v =
     (case v of
        Some (JStr s) \<Rightarrow>
          if py_strip s = [] then Inl (AppExc AuthenticationRequiredError) else Inr s
      | _ \<Rightarrow> Inl (AppExc AuthenticationRequiredError))"

definition raw_roles :: "json_object \<Rightarrow> json list option" where
  "raw_roles claims =
     (let v = (case claim claims ''roles'' of
                 Some r \<Rightarrow> r
               | None \<Rightarrow> (case claim claims ''role'' of Some r \<Rightarrow> r | None \<Rightarrow> JArr []))
      in case v of JStr s \<Rightarrow> Some [JStr s] | JArr vs \<Rightarrow> Some vs | _ \<Rightarrow> None)"

definition principal_from_claims ::
  "fold_table \<Rightarrow> json_object \<Rightarrow> py_exc + AuthenticatedPrincipal" where
  "principal_from_claims table claims =
     (case required_text (claim claims ''sub'') of Inl e \<Rightarrow> Inl e | Inr subject \<Rightarrow>
     (case required_text (claim claims ''iss'') of Inl e \<Rightarrow> Inl e | Inr issuer \<Rightarrow>
     (case raw_roles claims of
        None \<Rightarrow> Inl (AppExc AuthenticationRequiredError)
      | Some [] \<Rightarrow> Inl (AppExc AuthenticationRequiredError)
      | Some (v # vs) \<Rightarrow>
     (case roles_of_json table (v # vs) of
        None \<Rightarrow> Inl (AppExc AuthenticationRequiredError)
      | Some roles \<Rightarrow>
     (case optional_text (claim claims ''email'') of Inl e \<Rightarrow> Inl e | Inr email \<Rightarrow>
     (case optional_text (case claim claims ''name'' of
                            Some n \<Rightarrow> Some n | None \<Rightarrow> claim claims ''display_name'') of
        Inl e \<Rightarrow> Inl e
      | Inr display_name \<Rightarrow>
          (let p = \<lparr>pr_subject = subject, pr_email = email, pr_display_name = display_name,
                    pr_roles = roles, pr_issuer = issuer\<rparr>
           in if principal_ok p then Inr p else Inl ValidationExc)))))))"

text \<open>
  What \<open>jwt.decode\<close> is asked to enforce: the key, the algorithm allowlist, issuer, audience,
  leeway, and the claims that must be present.
\<close>

record decode_request =
  dq_key :: pystr
  dq_algorithms :: "pystr list"
  dq_issuer :: pystr
  dq_audience :: pystr
  dq_leeway :: int
  dq_require :: "pystr list"

type_synonym jwt_decoder = "pystr \<Rightarrow> decode_request \<Rightarrow> py_exc + json_object"

record LocalJWTVerifier =
  lv_verification_key :: pystr
  lv_algorithm :: pystr
  lv_issuer :: pystr
  lv_audience :: pystr
  lv_leeway_seconds :: int

record OIDCJWKSVerifier =
  ov_jwks_url :: pystr
  ov_issuer :: pystr
  ov_audience :: pystr
  ov_leeway_seconds :: int
  ov_cache_seconds :: int
  ov_timeout_seconds :: int

definition required_claims :: "pystr list" where
  "required_claims = [py ''exp'', py ''sub'', py ''iss'', py ''aud'']"

definition decode_then_map ::
  "fold_table \<Rightarrow> jwt_decoder \<Rightarrow> pystr \<Rightarrow> decode_request \<Rightarrow> py_exc + AuthenticatedPrincipal" where
  "decode_then_map table jwt_decode token q =
     (case jwt_decode token q of
        Inl e \<Rightarrow> Inl e
      | Inr claims \<Rightarrow> principal_from_claims table claims)"

text \<open>\<open>except (...): raise AuthenticationRequiredError\<close> over the listed classes.\<close>

definition fail_closed :: "py_exc set \<Rightarrow> py_exc + 'a \<Rightarrow> py_exc + 'a" where
  "fail_closed caught r =
     (case r of
        Inl e \<Rightarrow> if e \<in> caught then Inl (AppExc AuthenticationRequiredError) else Inl e
      | Inr x \<Rightarrow> Inr x)"

definition local_verify ::
  "fold_table \<Rightarrow> jwt_decoder \<Rightarrow> LocalJWTVerifier \<Rightarrow> pystr \<Rightarrow> py_exc + AuthenticatedPrincipal" where
  "local_verify table jwt_decode v token =
     fail_closed {InvalidTokenExc, TypeExc, ValueExc, ValidationExc, KeyExc}
       (decode_then_map table jwt_decode token
          \<lparr>dq_key = lv_verification_key v, dq_algorithms = [lv_algorithm v],
           dq_issuer = lv_issuer v, dq_audience = lv_audience v,
           dq_leeway = lv_leeway_seconds v, dq_require = required_claims\<rparr>)"

definition oidc_verify ::
  "fold_table \<Rightarrow> jwt_decoder \<Rightarrow> (pystr \<Rightarrow> py_exc + pystr) \<Rightarrow> OIDCJWKSVerifier \<Rightarrow> pystr \<Rightarrow>
     py_exc + AuthenticatedPrincipal" where
  "oidc_verify table jwt_decode get_signing_key v token =
     fail_closed {InvalidTokenExc, PyJWKClientExc, TypeExc, ValueExc, ValidationExc, KeyExc}
       (case get_signing_key token of
          Inl e \<Rightarrow> Inl e
        | Inr key \<Rightarrow>
            decode_then_map table jwt_decode token
              \<lparr>dq_key = key, dq_algorithms = [py ''RS256''],
               dq_issuer = ov_issuer v, dq_audience = ov_audience v,
               dq_leeway = ov_leeway_seconds v, dq_require = required_claims\<rparr>)"

section \<open>Request dependencies\<close>

record auth_settings =
  as_auth_enabled :: bool
  as_jwt_algorithm :: pystr
  as_jwt_verification_key :: "pystr option"
  as_jwks_url :: "pystr option"
  as_jwks_cache_seconds :: int
  as_jwks_timeout_seconds :: int
  as_jwt_issuer :: "pystr option"
  as_jwt_audience :: "pystr option"
  as_jwt_leeway_seconds :: int

datatype TokenVerifier = LocalVerifier LocalJWTVerifier | OIDCVerifier OIDCJWKSVerifier

definition get_token_verifier :: "auth_settings \<Rightarrow> py_exc + TokenVerifier option" where
  "get_token_verifier st =
     (if \<not> as_auth_enabled st then Inr None
      else case (as_jwt_issuer st, as_jwt_audience st) of
        (Some issuer, Some audience) \<Rightarrow>
          if str_truthy (as_jwks_url st)
          then Inr (Some (OIDCVerifier
                 \<lparr>ov_jwks_url = the (as_jwks_url st), ov_issuer = issuer, ov_audience = audience,
                  ov_leeway_seconds = as_jwt_leeway_seconds st,
                  ov_cache_seconds = as_jwks_cache_seconds st,
                  ov_timeout_seconds = as_jwks_timeout_seconds st\<rparr>))
          else (case as_jwt_verification_key st of
                  None \<Rightarrow> Inl (AppExc AuthenticationRequiredError)
                | Some key \<Rightarrow> Inr (Some (LocalVerifier
                    \<lparr>lv_verification_key = key, lv_algorithm = as_jwt_algorithm st,
                     lv_issuer = issuer, lv_audience = audience,
                     lv_leeway_seconds = as_jwt_leeway_seconds st\<rparr>)))
      | _ \<Rightarrow> Inl (AppExc AuthenticationRequiredError))"

record bearer_credentials =
  bc_scheme :: pystr
  bc_credentials :: pystr

record jwt_library =
  jl_fold_table :: fold_table
  jl_decode :: jwt_decoder
  jl_signing_key :: "pystr \<Rightarrow> pystr \<Rightarrow> py_exc + pystr"

definition verify_token :: "jwt_library \<Rightarrow> TokenVerifier \<Rightarrow> pystr \<Rightarrow> py_exc + AuthenticatedPrincipal" where
  "verify_token lib v token =
     (case v of
        LocalVerifier l \<Rightarrow> local_verify (jl_fold_table lib) (jl_decode lib) l token
      | OIDCVerifier w \<Rightarrow>
          oidc_verify (jl_fold_table lib) (jl_decode lib) (jl_signing_key lib (ov_jwks_url w)) w token)"

definition development_principal :: AuthenticatedPrincipal where
  "development_principal =
     \<lparr>pr_subject = py ''local-development'', pr_email = None,
      pr_display_name = Some (py ''Local development principal''),
      pr_roles = [Role_ADMIN], pr_issuer = py ''local-development''\<rparr>"

definition get_authenticated_principal ::
  "jwt_library \<Rightarrow> auth_settings \<Rightarrow> bearer_credentials option \<Rightarrow> TokenVerifier option \<Rightarrow>
     py_exc + AuthenticatedPrincipal" where
  "get_authenticated_principal lib st credentials verifier =
     (if \<not> as_auth_enabled st then Inr development_principal
      else case (credentials, verifier) of
        (Some c, Some v) \<Rightarrow>
          if py_casefold (jl_fold_table lib) (bc_scheme c) \<noteq> py ''bearer''
          then Inl (AppExc AuthenticationRequiredError)
          else verify_token lib v (bc_credentials c)
      | _ \<Rightarrow> Inl (AppExc AuthenticationRequiredError))"

definition require_reviewer_or_admin ::
  "AuthenticatedPrincipal \<Rightarrow> py_exc + AuthenticatedPrincipal" where
  "require_reviewer_or_admin p =
     (if \<not> can_review p then Inl (AppExc PermissionDeniedError) else Inr p)"

definition require_admin :: "AuthenticatedPrincipal \<Rightarrow> py_exc + AuthenticatedPrincipal" where
  "require_admin p =
     (if Role_ADMIN \<notin> set (pr_roles p) then Inl (AppExc PermissionDeniedError) else Inr p)"

text \<open>The dependency chain of a reviewer route: settings, verifier, principal, role.\<close>

definition authorize_reviewer ::
  "jwt_library \<Rightarrow> auth_settings \<Rightarrow> bearer_credentials option \<Rightarrow> py_exc + AuthenticatedPrincipal" where
  "authorize_reviewer lib st credentials =
     (case get_token_verifier st of
        Inl e \<Rightarrow> Inl e
      | Inr v \<Rightarrow>
          (case get_authenticated_principal lib st credentials v of
             Inl e \<Rightarrow> Inl e
           | Inr p \<Rightarrow> require_reviewer_or_admin p))"

section \<open>Facts\<close>

lemma role_of_value [simp]: "role_of (role_value r) = Some r"
  by (cases r) (simp_all add: role_of_def)

lemma role_of_Some_iff: "role_of s = Some r \<longleftrightarrow> s = role_value r"
  by (cases r) (auto simp: role_of_def split: if_splits)

lemma roles_of_json_set:
  "roles_of_json table vs = Some rs \<Longrightarrow>
     set rs = {r. \<exists>s. JStr s \<in> set vs \<and> py_casefold table s = role_value r} \<and> length rs = length vs"
proof (induction vs arbitrary: rs)
  case (Cons v vs)
  from Cons.prems obtain r rs' where r: "role_of_json table v = Some r"
    and rs': "roles_of_json table vs = Some rs'" "rs = r # rs'"
    by (auto split: option.splits)
  from r obtain s where v: "v = JStr s" "py_casefold table s = role_value r"
    by (auto simp: role_of_json_def role_of_Some_iff split: json.splits)
  have uniq: "role_value a = role_value b \<Longrightarrow> a = b" for a b
    using role_of_value by (metis option.inject)
  show ?case using Cons.IH[OF rs'(1)] rs'(2) v by (auto dest: uniq)
qed simp

lemma required_text_Inr:
  "required_text v = Inr s \<longleftrightarrow> v = Some (JStr s) \<and> py_strip s \<noteq> []"
  by (auto simp: required_text_def split: option.splits json.splits if_splits)

lemma principal_from_claims_Inr:
  assumes "principal_from_claims table claims = Inr p"
  shows "claim claims ''sub'' = Some (JStr (pr_subject p))" "py_strip (pr_subject p) \<noteq> []"
    and "claim claims ''iss'' = Some (JStr (pr_issuer p))"
    and "principal_ok p"
    and "\<exists>vs. raw_roles claims = Some vs \<and> vs \<noteq> [] \<and> roles_of_json table vs = Some (pr_roles p)"
  using assms unfolding principal_from_claims_def
  by (auto simp: required_text_Inr Let_def split: sum.splits option.splits list.splits if_splits)

lemma principal_from_claims_Inl:
  "principal_from_claims table claims = Inl e \<Longrightarrow> e \<in> {AppExc AuthenticationRequiredError, ValidationExc}"
  unfolding principal_from_claims_def required_text_def optional_text_def
  by (auto simp: Let_def split: sum.splits option.splits list.splits json.splits if_splits)

lemma fail_closed_Inr [simp]: "fail_closed E r = Inr x \<longleftrightarrow> r = Inr x"
  by (auto simp: fail_closed_def split: sum.splits)

lemma can_review_iff: "can_review p \<longleftrightarrow> Role_REVIEWER \<in> set (pr_roles p) \<or> Role_ADMIN \<in> set (pr_roles p)"
  by (auto simp: can_review_def list_ex_iff)

section \<open>Properties\<close>

text \<open>What PyJWT documents: \<open>decode\<close> raises a subclass of \<open>InvalidTokenError\<close>, the key client
  raises \<open>PyJWKClientError\<close> (or \<open>InvalidTokenError\<close> for a token it cannot read).\<close>

definition jwt_errors_documented :: "jwt_library \<Rightarrow> bool" where
  "jwt_errors_documented lib \<longleftrightarrow>
     (\<forall>token q e. jl_decode lib token q = Inl e \<longrightarrow> e = InvalidTokenExc) \<and>
     (\<forall>url token e. jl_signing_key lib url token = Inl e \<longrightarrow> e \<in> {PyJWKClientExc, InvalidTokenExc})"

definition decodes_under ::
  "jwt_library \<Rightarrow> auth_settings \<Rightarrow> pystr \<Rightarrow> decode_request \<Rightarrow> json_object \<Rightarrow> bool" where
  "decodes_under lib st token q claims \<longleftrightarrow>
     jl_decode lib token q = Inr claims \<and>
     as_jwt_issuer st = Some (dq_issuer q) \<and> as_jwt_audience st = Some (dq_audience q) \<and>
     set (dq_require q) = {py ''exp'', py ''sub'', py ''iss'', py ''aud''} \<and>
     (if str_truthy (as_jwks_url st) then dq_algorithms q = [py ''RS256'']
      else dq_algorithms q = [as_jwt_algorithm st] \<and> as_jwt_verification_key st = Some (dq_key q))"

lemma get_token_verifier_Inr:
  assumes "get_token_verifier st = Inr (Some v)" and "verify_token lib v token = Inr p"
  shows "\<exists>q claims. decodes_under lib st token q claims \<and>
           principal_from_claims (jl_fold_table lib) claims = Inr p"
proof (cases v)
  case (LocalVerifier l)
  with assms(2) obtain claims where
    "jl_decode lib token \<lparr>dq_key = lv_verification_key l, dq_algorithms = [lv_algorithm l],
           dq_issuer = lv_issuer l, dq_audience = lv_audience l,
           dq_leeway = lv_leeway_seconds l, dq_require = required_claims\<rparr> = Inr claims"
    and "principal_from_claims (jl_fold_table lib) claims = Inr p"
    by (auto simp: verify_token_def local_verify_def decode_then_map_def split: sum.splits)
  moreover have "\<not> str_truthy (as_jwks_url st) \<and> as_jwt_verification_key st = Some (lv_verification_key l) \<and>
      as_jwt_issuer st = Some (lv_issuer l) \<and> as_jwt_audience st = Some (lv_audience l) \<and>
      as_jwt_algorithm st = lv_algorithm l"
    using assms(1) LocalVerifier
    by (auto simp: get_token_verifier_def split: if_splits option.splits)
  ultimately show ?thesis
    by (intro exI conjI) (auto simp: decodes_under_def required_claims_def)
next
  case (OIDCVerifier w)
  with assms(2) obtain key claims where
    "jl_decode lib token \<lparr>dq_key = key, dq_algorithms = [py ''RS256''],
           dq_issuer = ov_issuer w, dq_audience = ov_audience w,
           dq_leeway = ov_leeway_seconds w, dq_require = required_claims\<rparr> = Inr claims"
    and "principal_from_claims (jl_fold_table lib) claims = Inr p"
    by (auto simp: verify_token_def oidc_verify_def decode_then_map_def split: sum.splits)
  moreover have "str_truthy (as_jwks_url st) \<and>
      as_jwt_issuer st = Some (ov_issuer w) \<and> as_jwt_audience st = Some (ov_audience w)"
    using assms(1) OIDCVerifier
    by (auto simp: get_token_verifier_def split: if_splits option.splits)
  ultimately show ?thesis
    by (intro exI conjI) (auto simp: decodes_under_def required_claims_def)
qed

text \<open>C18: with authentication enabled, a reviewer route is reached only by a bearer token that the
  JWT library accepted for the configured issuer, audience and algorithm allowlist with
  expiry, subject, issuer and audience required, whose subject and issuer claims are the
  principal's and whose role claim names reviewer or admin.\<close>

theorem reviewer_route_requires_verified_role:
  assumes "as_auth_enabled st" and "authorize_reviewer lib st credentials = Inr p"
  shows "\<exists>c q claims vs s.
           credentials = Some c \<and> decodes_under lib st (bc_credentials c) q claims \<and>
           py_casefold (jl_fold_table lib) (bc_scheme c) = py ''bearer'' \<and>
           claim claims ''sub'' = Some (JStr (pr_subject p)) \<and>
           claim claims ''iss'' = Some (JStr (pr_issuer p)) \<and>
           raw_roles claims = Some vs \<and> JStr s \<in> set vs \<and>
           py_casefold (jl_fold_table lib) s \<in> {py ''reviewer'', py ''admin''}"
proof -
  from assms obtain c v where c: "credentials = Some c" and v: "get_token_verifier st = Inr (Some v)"
    and scheme: "py_casefold (jl_fold_table lib) (bc_scheme c) = py ''bearer''"
    and p: "verify_token lib v (bc_credentials c) = Inr p" and review: "can_review p"
    unfolding authorize_reviewer_def get_authenticated_principal_def require_reviewer_or_admin_def
    by (auto split: sum.splits option.splits if_splits)
  from get_token_verifier_Inr[OF v p] obtain q claims
    where d: "decodes_under lib st (bc_credentials c) q claims"
      and m: "principal_from_claims (jl_fold_table lib) claims = Inr p" by blast
  from principal_from_claims_Inr(5)[OF m] obtain vs
    where vs: "raw_roles claims = Some vs" "roles_of_json (jl_fold_table lib) vs = Some (pr_roles p)"
    by blast
  from review roles_of_json_set[OF vs(2)] obtain s where
    "JStr s \<in> set vs" "py_casefold (jl_fold_table lib) s \<in> {py ''reviewer'', py ''admin''}"
    by (auto simp: can_review_iff)
  with c d scheme vs principal_from_claims_Inr[OF m] show ?thesis by blast
qed

definition sample_claims :: json_object where
  "sample_claims = [(py ''sub'', JStr (py ''u1'')), (py ''iss'', JStr (py ''idp'')),
     (py ''roles'', JArr [JStr (py ''Reviewer'')])]"

definition sample_library :: jwt_library where
  "sample_library =
     \<lparr>jl_fold_table = ascii_fold,
      jl_decode = (\<lambda>token q. if token = py ''good'' then Inr sample_claims else Inl InvalidTokenExc),
      jl_signing_key = (\<lambda>url token. Inl PyJWKClientExc)\<rparr>"

definition sample_auth_settings :: auth_settings where
  "sample_auth_settings =
     \<lparr>as_auth_enabled = True, as_jwt_algorithm = py ''HS256'',
      as_jwt_verification_key = Some (py ''key''), as_jwks_url = None, as_jwks_cache_seconds = 300,
      as_jwks_timeout_seconds = 5, as_jwt_issuer = Some (py ''idp''),
      as_jwt_audience = Some (py ''api''), as_jwt_leeway_seconds = 0\<rparr>"

lemmas sample_auth_defs =
  authorize_reviewer_def get_token_verifier_def get_authenticated_principal_def verify_token_def
  local_verify_def decode_then_map_def fail_closed_def principal_from_claims_def required_text_def
  optional_text_def raw_roles_def claim_def role_of_json_def role_of_def require_reviewer_or_admin_def
  can_review_def principal_ok_def sample_claims_def sample_library_def sample_auth_settings_def
  str_truthy_def opt_len_ok_def len_between_def py_casefold_def ascii_fold_def py_def py_strip_def
  py_lstrip_def py_rstrip_def py_isspace_def

lemma sample_reviewer_accepted:
  "authorize_reviewer sample_library sample_auth_settings
     (Some \<lparr>bc_scheme = py ''Bearer'', bc_credentials = py ''good''\<rparr>) =
   Inr \<lparr>pr_subject = py ''u1'', pr_email = None, pr_display_name = None,
        pr_roles = [Role_REVIEWER], pr_issuer = py ''idp''\<rparr>"
  by (simp add: sample_auth_defs Let_def)

theorem reviewer_route_requires_verified_role_witness:
  "\<exists>q claims. decodes_under sample_library sample_auth_settings (py ''good'') q claims \<and>
     claim claims ''sub'' = Some (JStr (py ''u1''))"
  using reviewer_route_requires_verified_role[OF _ sample_reviewer_accepted]
  by (auto simp: sample_auth_settings_def)



end
