(* ===== verification/Risk_Gate.thy ===== *)
theory Risk_Gate
  imports Domain
begin

text \<open>
  The runtime risk and quality gate: its vocabulary and contracts
  (\<^verbatim>\<open>app/runtime/models.py\<close>) and \<open>RuntimeRiskGate.evaluate\<close> with its helpers
  (\<^verbatim>\<open>app/runtime/gate.py\<close>). The decisions are ordered by the gate's own \<open>_priority\<close>;
  the order is an instance of \<open>linorder\<close>, and the gate is shown to return the strongest
  outcome that some rule of the policy justifies.
\<close>

section \<open>Vocabulary\<close>

datatype RuntimeRiskDecision =
  AUTO_COMPLETE | COMPLETE_WITH_WARNING | REQUIRE_HUMAN_REVIEW | BLOCK_AND_ESCALATE

primrec decision_value :: "RuntimeRiskDecision \<Rightarrow> pystr" where
  "decision_value AUTO_COMPLETE = py ''auto_complete''"
| "decision_value COMPLETE_WITH_WARNING = py ''complete_with_warning''"
| "decision_value REQUIRE_HUMAN_REVIEW = py ''require_human_review''"
| "decision_value BLOCK_AND_ESCALATE = py ''block_and_escalate''"

datatype RuntimeRiskLevel = Level_LOW | Level_MEDIUM | Level_HIGH | Level_CRITICAL

datatype RuntimeReasonCode =
  MEDIUM_RISK | HIGH_RISK | CRITICAL_RISK | INSUFFICIENT_EVIDENCE | INVALID_PROVENANCE
  | DEGRADED_EXECUTION | SPECIALIST_UNAVAILABLE | MISSING_HUMAN_OVERSIGHT
  | MISSING_RISK_MITIGATION | UNSUPPORTED_CLAIM | MODEL_FAILURE | TOOL_FAILURE
  | RETRIEVAL_FAILURE | QUALITY_GATE_FAILED

record RuntimeRiskPolicy =
  pol_medium_risk_decision :: RuntimeRiskDecision
  pol_high_risk_decision :: RuntimeRiskDecision
  pol_critical_risk_decision :: RuntimeRiskDecision
  pol_review_on_insufficient_evidence :: bool
  pol_review_on_degraded_execution :: bool
  pol_review_on_specialist_unavailable :: bool
  pol_review_on_tool_failure :: bool
  pol_block_high_risk_invalid_provenance :: bool
  pol_block_critical_missing_mitigation :: bool
  pol_max_human_revisions :: int

definition default_policy :: RuntimeRiskPolicy where
  "default_policy =
     \<lparr>pol_medium_risk_decision = COMPLETE_WITH_WARNING,
      pol_high_risk_decision = REQUIRE_HUMAN_REVIEW,
      pol_critical_risk_decision = BLOCK_AND_ESCALATE,
      pol_review_on_insufficient_evidence = True,
      pol_review_on_degraded_execution = True,
      pol_review_on_specialist_unavailable = True,
      pol_review_on_tool_failure = True,
      pol_block_high_risk_invalid_provenance = True,
      pol_block_critical_missing_mitigation = True,
      pol_max_human_revisions = 2\<rparr>"

record QualityGateSignals =
  sig_risk_level :: RuntimeRiskLevel
  sig_evidence_required :: bool
  sig_evidence_available :: bool
  sig_provenance_valid :: bool
  sig_unsupported_claims_detected :: bool
  sig_degraded_execution :: bool
  sig_specialist_unavailable :: bool
  sig_retrieval_failed :: bool
  sig_tool_failed :: bool
  sig_model_failed :: bool
  sig_human_oversight_required :: bool
  sig_human_oversight_present :: bool
  sig_mitigations_complete :: bool

text \<open>\<open>QualityGateSignals(risk_level=l)\<close>: the remaining fields at their defaults.\<close>

definition default_signals :: "RuntimeRiskLevel \<Rightarrow> QualityGateSignals" where
  "default_signals l =
     \<lparr>sig_risk_level = l, sig_evidence_required = False, sig_evidence_available = False,
      sig_provenance_valid = True, sig_unsupported_claims_detected = False,
      sig_degraded_execution = False, sig_specialist_unavailable = False,
      sig_retrieval_failed = False, sig_tool_failed = False, sig_model_failed = False,
      sig_human_oversight_required = False, sig_human_oversight_present = True,
      sig_mitigations_complete = True\<rparr>"

record QualityGateResult =
  gr_decision :: RuntimeRiskDecision
  gr_risk_level :: RuntimeRiskLevel
  gr_reason_codes :: "RuntimeReasonCode list"
  gr_review_required :: bool
  gr_blocked :: bool

text \<open>The validator \<open>QualityGateResult.validate_decision_flags\<close>.\<close>

definition gate_result_ok :: "QualityGateResult \<Rightarrow> bool" where
  "gate_result_ok g \<longleftrightarrow>
     gr_review_required g = (gr_decision g = REQUIRE_HUMAN_REVIEW) \<and>
     gr_blocked g = (gr_decision g = BLOCK_AND_ESCALATE)"

definition mk_gate_result ::
  "RuntimeRiskDecision \<Rightarrow> RuntimeRiskLevel \<Rightarrow> RuntimeReasonCode list \<Rightarrow> bool \<Rightarrow> bool \<Rightarrow>
     py_exc + QualityGateResult" where
  "mk_gate_result d l rs rr b =
     (let g = \<lparr>gr_decision = d, gr_risk_level = l, gr_reason_codes = rs,
               gr_review_required = rr, gr_blocked = b\<rparr>
      in if gate_result_ok g then Inr g else Inl ValidationExc)"

section \<open>The gate\<close>

primrec gate_priority :: "RuntimeRiskDecision \<Rightarrow> int" where
  "gate_priority AUTO_COMPLETE = 0"
| "gate_priority COMPLETE_WITH_WARNING = 1"
| "gate_priority REQUIRE_HUMAN_REVIEW = 2"
| "gate_priority BLOCK_AND_ESCALATE = 3"

definition risk_decision :: "RuntimeRiskLevel \<Rightarrow> RuntimeRiskPolicy \<Rightarrow> RuntimeRiskDecision" where
  "risk_decision l p =
     (if l = Level_CRITICAL then pol_critical_risk_decision p
      else if l = Level_HIGH then pol_high_risk_decision p
      else if l = Level_MEDIUM then pol_medium_risk_decision p
      else AUTO_COMPLETE)"

definition gate_reason_codes :: "QualityGateSignals \<Rightarrow> RuntimeReasonCode list" where
  "gate_reason_codes s =
     (if sig_risk_level s = Level_MEDIUM then [MEDIUM_RISK]
      else if sig_risk_level s = Level_HIGH then [HIGH_RISK]
      else if sig_risk_level s = Level_CRITICAL then [CRITICAL_RISK] else []) @
     (if sig_evidence_required s \<and> \<not> sig_evidence_available s then [INSUFFICIENT_EVIDENCE]
      else []) @
     (if \<not> sig_provenance_valid s then [INVALID_PROVENANCE] else []) @
     (if sig_degraded_execution s then [DEGRADED_EXECUTION] else []) @
     (if sig_specialist_unavailable s then [SPECIALIST_UNAVAILABLE] else []) @
     (if sig_human_oversight_required s \<and> \<not> sig_human_oversight_present s
      then [MISSING_HUMAN_OVERSIGHT] else []) @
     (if \<not> sig_mitigations_complete s then [MISSING_RISK_MITIGATION] else []) @
     (if sig_unsupported_claims_detected s then [UNSUPPORTED_CLAIM] else []) @
     (if sig_model_failed s then [MODEL_FAILURE] else []) @
     (if sig_tool_failed s then [TOOL_FAILURE] else []) @
     (if sig_retrieval_failed s then [RETRIEVAL_FAILURE] else [])"

definition review_conditions :: "RuntimeRiskPolicy \<Rightarrow> QualityGateSignals \<Rightarrow> bool list" where
  "review_conditions p s =
     [sig_evidence_required s \<and> \<not> sig_evidence_available s \<and>
        pol_review_on_insufficient_evidence p,
      sig_degraded_execution s \<and> pol_review_on_degraded_execution p,
      sig_specialist_unavailable s \<and> pol_review_on_specialist_unavailable p,
      sig_tool_failed s \<and> pol_review_on_tool_failure p,
      sig_retrieval_failed s \<and> pol_review_on_insufficient_evidence p,
      sig_human_oversight_required s \<and> \<not> sig_human_oversight_present s,
      sig_unsupported_claims_detected s]"

definition gate_evaluate ::
  "RuntimeRiskPolicy \<Rightarrow> QualityGateSignals \<Rightarrow> py_exc + QualityGateResult" where
  "gate_evaluate p s =
     (let reasons = gate_reason_codes s;
          d0 = risk_decision (sig_risk_level s) p;
          d1 = (if sig_model_failed s then BLOCK_AND_ESCALATE else d0);
          d2 = (if \<not> sig_provenance_valid s \<and> pol_block_high_risk_invalid_provenance p \<and>
                   sig_risk_level s \<in> {Level_HIGH, Level_CRITICAL}
                then BLOCK_AND_ESCALATE else d1);
          d3 = (if \<not> sig_mitigations_complete s \<and> pol_block_critical_missing_mitigation p \<and>
                   sig_risk_level s = Level_CRITICAL
                then BLOCK_AND_ESCALATE else d2);
          d4 = (if list_ex id (review_conditions p s) \<and>
                   gate_priority d3 < gate_priority REQUIRE_HUMAN_REVIEW
                then REQUIRE_HUMAN_REVIEW else d3)
      in mk_gate_result d4 (sig_risk_level s) reasons
           (d4 = REQUIRE_HUMAN_REVIEW) (d4 = BLOCK_AND_ESCALATE))"

section \<open>The order of decisions\<close>

text \<open>\<open>_priority\<close> is injective, so it makes the decisions a linear order.\<close>

instantiation RuntimeRiskDecision :: linorder
begin
definition less_eq_RuntimeRiskDecision :: "RuntimeRiskDecision \<Rightarrow> RuntimeRiskDecision \<Rightarrow> bool" where
  "less_eq_RuntimeRiskDecision a b \<longleftrightarrow> gate_priority a \<le> gate_priority b"
definition less_RuntimeRiskDecision :: "RuntimeRiskDecision \<Rightarrow> RuntimeRiskDecision \<Rightarrow> bool" where
  "less_RuntimeRiskDecision a b \<longleftrightarrow> gate_priority a < gate_priority b"
instance
proof
  fix x y z :: RuntimeRiskDecision
  show "(x < y) = (x \<le> y \<and> \<not> y \<le> x)"
    by (auto simp: less_eq_RuntimeRiskDecision_def less_RuntimeRiskDecision_def)
  show "x \<le> x" by (simp add: less_eq_RuntimeRiskDecision_def)
  show "x \<le> y \<Longrightarrow> y \<le> z \<Longrightarrow> x \<le> z" by (simp add: less_eq_RuntimeRiskDecision_def)
  show "x \<le> y \<Longrightarrow> y \<le> x \<Longrightarrow> x = y"
    by (cases x; cases y) (simp_all add: less_eq_RuntimeRiskDecision_def)
  show "x \<le> y \<or> y \<le> x" by (auto simp: less_eq_RuntimeRiskDecision_def)
qed
end

lemmas decision_order = less_eq_RuntimeRiskDecision_def less_RuntimeRiskDecision_def

text \<open>The severity scale is ordered by position in the enum, as \<open>derive_signals\<close> reads it.\<close>

primrec level_index :: "RuntimeRiskLevel \<Rightarrow> nat" where
  "level_index Level_LOW = 0"
| "level_index Level_MEDIUM = 1"
| "level_index Level_HIGH = 2"
| "level_index Level_CRITICAL = 3"

lemma level_index_inject [simp]: "level_index a = level_index b \<longleftrightarrow> a = b"
  by (cases a; cases b) simp_all

section \<open>The rules the policy states, and the gate as their maximum\<close>

text \<open>
  The specification: which outcomes the signals justify under the policy, rule by rule, with
  no order between the rules. The gate must return the strongest of them.
\<close>

definition block_rule :: "RuntimeRiskPolicy \<Rightarrow> QualityGateSignals \<Rightarrow> bool" where
  "block_rule p s \<longleftrightarrow>
     sig_model_failed s \<or>
     (\<not> sig_provenance_valid s \<and> pol_block_high_risk_invalid_provenance p \<and>
        level_index Level_HIGH \<le> level_index (sig_risk_level s)) \<or>
     (\<not> sig_mitigations_complete s \<and> pol_block_critical_missing_mitigation p \<and>
        sig_risk_level s = Level_CRITICAL)"

definition review_rule :: "RuntimeRiskPolicy \<Rightarrow> QualityGateSignals \<Rightarrow> bool" where
  "review_rule p s \<longleftrightarrow>
     sig_unsupported_claims_detected s \<or>
     (sig_human_oversight_required s \<and> \<not> sig_human_oversight_present s) \<or>
     (pol_review_on_insufficient_evidence p \<and>
        (sig_retrieval_failed s \<or> sig_evidence_required s \<and> \<not> sig_evidence_available s)) \<or>
     (pol_review_on_degraded_execution p \<and> sig_degraded_execution s) \<or>
     (pol_review_on_specialist_unavailable p \<and> sig_specialist_unavailable s) \<or>
     (pol_review_on_tool_failure p \<and> sig_tool_failed s)"

definition justified :: "RuntimeRiskPolicy \<Rightarrow> QualityGateSignals \<Rightarrow> RuntimeRiskDecision set" where
  "justified p s =
     {risk_decision (sig_risk_level s) p} \<union>
     (if block_rule p s then {BLOCK_AND_ESCALATE} else {}) \<union>
     (if review_rule p s then {REQUIRE_HUMAN_REVIEW} else {})"

lemma finite_justified [simp]: "finite (justified p s)"
  by (simp add: justified_def)

lemma justified_nonempty [simp]: "justified p s \<noteq> {}"
  by (simp add: justified_def)

lemma decision_top [simp]: "d \<le> BLOCK_AND_ESCALATE"
  by (cases d) (simp_all add: decision_order)

lemma max_block [simp]:
  "max d BLOCK_AND_ESCALATE = BLOCK_AND_ESCALATE" "max BLOCK_AND_ESCALATE d = BLOCK_AND_ESCALATE"
  by (simp_all add: max_absorb1 max_absorb2)

lemma max_review:
  "max d REQUIRE_HUMAN_REVIEW =
     (if gate_priority d < gate_priority REQUIRE_HUMAN_REVIEW then REQUIRE_HUMAN_REVIEW else d)"
  by (cases d) (simp_all add: decision_order max_def)

lemma high_or_critical:
  "l \<in> {Level_HIGH, Level_CRITICAL} \<longleftrightarrow> level_index Level_HIGH \<le> level_index l"
  by (cases l) simp_all

definition gate_decision :: "RuntimeRiskPolicy \<Rightarrow> QualityGateSignals \<Rightarrow> RuntimeRiskDecision" where
  "gate_decision p s = Max (justified p s)"

lemma review_conditions_ex: "list_ex id (review_conditions p s) \<longleftrightarrow> review_rule p s"
  by (auto simp: review_conditions_def review_rule_def)

lemma Max_three:
  fixes d :: RuntimeRiskDecision
  shows "Max ({d} \<union> (if b then {BLOCK_AND_ESCALATE} else {}) \<union>
              (if r then {REQUIRE_HUMAN_REVIEW} else {})) =
         (let d3 = (if b then BLOCK_AND_ESCALATE else d)
          in if r \<and> gate_priority d3 < gate_priority REQUIRE_HUMAN_REVIEW
             then REQUIRE_HUMAN_REVIEW else d3)"
  by (cases b; cases r)
     (simp_all add: max_review[symmetric] Let_def max.commute[of REQUIRE_HUMAN_REVIEW]
        del: gate_priority.simps)

text \<open>Constructing the result never raises: the flags are computed from the decision.\<close>

lemma mk_gate_result_flags [simp]:
  "mk_gate_result d l rs (d = REQUIRE_HUMAN_REVIEW) (d = BLOCK_AND_ESCALATE) =
     Inr \<lparr>gr_decision = d, gr_risk_level = l, gr_reason_codes = rs,
          gr_review_required = (d = REQUIRE_HUMAN_REVIEW),
          gr_blocked = (d = BLOCK_AND_ESCALATE)\<rparr>"
  by (simp add: mk_gate_result_def gate_result_ok_def)

lemma gate_evaluate_eq:
  "gate_evaluate p s =
     Inr \<lparr>gr_decision = gate_decision p s, gr_risk_level = sig_risk_level s,
          gr_reason_codes = gate_reason_codes s,
          gr_review_required = (gate_decision p s = REQUIRE_HUMAN_REVIEW),
          gr_blocked = (gate_decision p s = BLOCK_AND_ESCALATE)\<rparr>"
proof -
  have block: "(if \<not> sig_mitigations_complete s \<and> pol_block_critical_missing_mitigation p \<and>
                   sig_risk_level s = Level_CRITICAL then BLOCK_AND_ESCALATE
                else if \<not> sig_provenance_valid s \<and> pol_block_high_risk_invalid_provenance p \<and>
                   sig_risk_level s \<in> {Level_HIGH, Level_CRITICAL} then BLOCK_AND_ESCALATE
                else if sig_model_failed s then BLOCK_AND_ESCALATE else d) =
               (if block_rule p s then BLOCK_AND_ESCALATE else d)" for d
    unfolding block_rule_def high_or_critical by (simp del: level_index.simps)
  have decision: "gate_decision p s =
        (let d3 = (if block_rule p s then BLOCK_AND_ESCALATE
                   else risk_decision (sig_risk_level s) p)
         in if list_ex id (review_conditions p s) \<and>
               gate_priority d3 < gate_priority REQUIRE_HUMAN_REVIEW
            then REQUIRE_HUMAN_REVIEW else d3)"
    unfolding gate_decision_def justified_def review_conditions_ex Max_three ..
  show ?thesis
    unfolding gate_evaluate_def Let_def block decision[unfolded Let_def, symmetric]
      mk_gate_result_flags ..
qed

text \<open>Which reason code stands for which signal.\<close>

definition reason_holds :: "QualityGateSignals \<Rightarrow> RuntimeReasonCode \<Rightarrow> bool" where
  "reason_holds s r =
     (case r of
        MEDIUM_RISK \<Rightarrow> sig_risk_level s = Level_MEDIUM
      | HIGH_RISK \<Rightarrow> sig_risk_level s = Level_HIGH
      | CRITICAL_RISK \<Rightarrow> sig_risk_level s = Level_CRITICAL
      | INSUFFICIENT_EVIDENCE \<Rightarrow> sig_evidence_required s \<and> \<not> sig_evidence_available s
      | INVALID_PROVENANCE \<Rightarrow> \<not> sig_provenance_valid s
      | DEGRADED_EXECUTION \<Rightarrow> sig_degraded_execution s
      | SPECIALIST_UNAVAILABLE \<Rightarrow> sig_specialist_unavailable s
      | MISSING_HUMAN_OVERSIGHT \<Rightarrow>
          sig_human_oversight_required s \<and> \<not> sig_human_oversight_present s
      | MISSING_RISK_MITIGATION \<Rightarrow> \<not> sig_mitigations_complete s
      | UNSUPPORTED_CLAIM \<Rightarrow> sig_unsupported_claims_detected s
      | MODEL_FAILURE \<Rightarrow> sig_model_failed s
      | TOOL_FAILURE \<Rightarrow> sig_tool_failed s
      | RETRIEVAL_FAILURE \<Rightarrow> sig_retrieval_failed s
      | QUALITY_GATE_FAILED \<Rightarrow> False)"

lemma set_gate_reason_codes: "r \<in> set (gate_reason_codes s) \<longleftrightarrow> reason_holds s r"
  by (cases r) (auto simp: gate_reason_codes_def reason_holds_def)

lemma distinct_gate_reason_codes: "distinct (gate_reason_codes s)"
  by (auto simp: gate_reason_codes_def)

text \<open>
  The risk-free order on signals: \<open>t\<close> is at least as alarming as \<open>s\<close>.
\<close>

definition worse_signals :: "QualityGateSignals \<Rightarrow> QualityGateSignals \<Rightarrow> bool" where
  "worse_signals s t \<longleftrightarrow>
     level_index (sig_risk_level s) \<le> level_index (sig_risk_level t) \<and>
     (sig_evidence_required s \<and> \<not> sig_evidence_available s \<longrightarrow>
        sig_evidence_required t \<and> \<not> sig_evidence_available t) \<and>
     (sig_provenance_valid t \<longrightarrow> sig_provenance_valid s) \<and>
     (sig_unsupported_claims_detected s \<longrightarrow> sig_unsupported_claims_detected t) \<and>
     (sig_degraded_execution s \<longrightarrow> sig_degraded_execution t) \<and>
     (sig_specialist_unavailable s \<longrightarrow> sig_specialist_unavailable t) \<and>
     (sig_retrieval_failed s \<longrightarrow> sig_retrieval_failed t) \<and>
     (sig_tool_failed s \<longrightarrow> sig_tool_failed t) \<and>
     (sig_model_failed s \<longrightarrow> sig_model_failed t) \<and>
     (sig_human_oversight_required s \<and> \<not> sig_human_oversight_present s \<longrightarrow>
        sig_human_oversight_required t \<and> \<not> sig_human_oversight_present t) \<and>
     (sig_mitigations_complete t \<longrightarrow> sig_mitigations_complete s)"

definition graded_policy :: "RuntimeRiskPolicy \<Rightarrow> bool" where
  "graded_policy p \<longleftrightarrow>
     pol_medium_risk_decision p \<le> pol_high_risk_decision p \<and>
     pol_high_risk_decision p \<le> pol_critical_risk_decision p"

lemma decision_bot [simp]: "AUTO_COMPLETE \<le> d"
  by (cases d) (simp_all add: decision_order)

lemma risk_decision_mono:
  assumes "graded_policy p" and "level_index l \<le> level_index m"
  shows "risk_decision l p \<le> risk_decision m p"
  using assms by (cases l; cases m) (auto simp: risk_decision_def graded_policy_def)

lemma justified_dominated:
  assumes "graded_policy p" and "worse_signals s t" and "d \<in> justified p s"
  shows "\<exists>d' \<in> justified p t. d \<le> d'"
proof -
  have level: "level_index (sig_risk_level s) \<le> level_index (sig_risk_level t)"
    using assms(2) by (simp add: worse_signals_def)
  have base: "risk_decision (sig_risk_level s) p \<le> risk_decision (sig_risk_level t) p"
    by (rule risk_decision_mono[OF assms(1) level])
  have crit: "sig_risk_level s = Level_CRITICAL \<Longrightarrow> sig_risk_level t = Level_CRITICAL"
    using level by (cases "sig_risk_level t") auto
  have block: "block_rule p s \<Longrightarrow> block_rule p t"
    using assms(2) level crit unfolding block_rule_def worse_signals_def by (elim disjE) auto
  have review: "review_rule p s \<Longrightarrow> review_rule p t"
    using assms(2) unfolding review_rule_def worse_signals_def by (elim disjE) auto
  show ?thesis
    using assms(3) base block review by (auto simp: justified_def split: if_splits)
qed

lemma gate_decision_mono:
  assumes "graded_policy p" and "worse_signals s t"
  shows "gate_decision p s \<le> gate_decision p t"
proof -
  have "gate_decision p s \<in> justified p s"
    unfolding gate_decision_def by (intro Max_in) simp_all
  with justified_dominated[OF assms] obtain d' where "d' \<in> justified p t" "gate_decision p s \<le> d'"
    by blast
  moreover from this(1) have "d' \<le> gate_decision p t"
    unfolding gate_decision_def by (intro Max_ge) simp_all
  ultimately show ?thesis by simp
qed

section \<open>Properties of the gate\<close>

text \<open>C17: evaluating the gate never raises; the decision it returns is one that some rule of the
  policy justifies and the strongest of all justified ones (in the order of \<open>_priority\<close>), the
  flags agree with it, and the reason codes are exactly the signals that hold, each once.\<close>

theorem gate_strongest_outcome:
  "\<exists>g. gate_evaluate p s = Inr g \<and>
       gr_decision g \<in> justified p s \<and>
       justified p s \<subseteq> {d. gate_priority d \<le> gate_priority (gr_decision g)} \<and>
       gate_result_ok g \<and> gr_risk_level g = sig_risk_level s \<and>
       set (gr_reason_codes g) = {r. reason_holds s r} \<and> distinct (gr_reason_codes g)"
proof -
  have "gate_decision p s \<in> justified p s"
    unfolding gate_decision_def by (intro Max_in) simp_all
  moreover have "gate_priority d \<le> gate_priority (gate_decision p s)" if "d \<in> justified p s" for d
    using Max_ge[OF finite_justified that] by (simp add: gate_decision_def decision_order)
  ultimately show ?thesis
    by (auto simp: gate_evaluate_eq gate_result_ok_def set_gate_reason_codes distinct_gate_reason_codes)
qed

text \<open>With a policy that does not weaken as the risk level grows (the shipped default is
  one), signals that are at least as alarming never get a weaker decision.\<close>

theorem gate_monotone:
  assumes "graded_policy p" and "worse_signals s t"
    and "gate_evaluate p s = Inr g" and "gate_evaluate p t = Inr h"
  shows "gate_priority (gr_decision g) \<le> gate_priority (gr_decision h)"
  using gate_decision_mono[OF assms(1,2)] assms(3,4) by (auto simp: gate_evaluate_eq decision_order)

theorem gate_monotone_witness:
  "\<exists>g h. gate_evaluate default_policy (default_signals Level_LOW) = Inr g \<and>
     gate_evaluate default_policy ((default_signals Level_HIGH)\<lparr>sig_model_failed := True\<rparr>) = Inr h \<and>
     gr_decision g = AUTO_COMPLETE \<and> gr_decision h = BLOCK_AND_ESCALATE \<and>
     gate_priority (gr_decision g) \<le> gate_priority (gr_decision h)"
proof -
  let ?s = "default_signals Level_LOW"
  let ?t = "(default_signals Level_HIGH)\<lparr>sig_model_failed := True\<rparr>"
  have "graded_policy default_policy" by (simp add: graded_policy_def default_policy_def decision_order)
  moreover have "worse_signals ?s ?t" by (simp add: worse_signals_def default_signals_def)
  moreover obtain g where g: "gate_evaluate default_policy ?s = Inr g" "gr_decision g = AUTO_COMPLETE"
    by (auto simp: gate_evaluate_def default_policy_def default_signals_def risk_decision_def
        review_conditions_def Let_def mk_gate_result_def gate_result_ok_def)
  moreover obtain h where h: "gate_evaluate default_policy ?t = Inr h" "gr_decision h = BLOCK_AND_ESCALATE"
    by (auto simp: gate_evaluate_def default_policy_def default_signals_def risk_decision_def
        review_conditions_def Let_def mk_gate_result_def gate_result_ok_def)
  ultimately have "gate_priority (gr_decision g) \<le> gate_priority (gr_decision h)"
    by (intro gate_monotone[of default_policy ?s ?t g h])
  with g h show ?thesis by blast
qed

end
