(* ===== verification/Configuration.thy ===== *)
theory Configuration
  imports Agent_Graph Identity Risk_Gate
begin

text \<open>
  Configuration (\<^verbatim>\<open>app/core/config.py\<close>): the settings with their field bounds, the validators that
  run after the fields, and the retry policy that the provider factory derives from them.

  The settings are grouped as in the class. A validator returns the message of the \<open>ValueError\<close> it
  raises, \<open>None\<close> when it passes (an address that cannot be split gives the message of its check);
  Pydantic turns any of them into a \<open>ValidationError\<close>. Of
  \<open>urllib.parse.urlsplit\<close> the check of bracketed hosts and of Unicode normalisation is the
  argument \<open>netloc_ok\<close>.
\<close>

section \<open>Strings and addresses\<close>

text \<open>\<open>s.split(",")\<close>.\<close>

fun split_comma :: "pystr \<Rightarrow> pystr list" where
  "split_comma [] = [[]]"
| "split_comma (c # s) =
     (if c = 44 then [] # split_comma s
      else case split_comma s of [] \<Rightarrow> [[c]] | w # ws \<Rightarrow> (c # w) # ws)"

definition csv_values :: "pystr \<Rightarrow> pystr list" where
  "csv_values s = filter (\<lambda>v. v \<noteq> []) (map py_strip (split_comma s))"

definition py_startswith :: "pystr \<Rightarrow> pystr \<Rightarrow> bool" where
  "py_startswith s p \<longleftrightarrow> take (length p) s = p"

text \<open>\<open>p in s\<close> for strings.\<close>

fun py_contains :: "pystr \<Rightarrow> pystr \<Rightarrow> bool" where
  "py_contains [] p \<longleftrightarrow> p = []"
| "py_contains (c # s) p \<longleftrightarrow> py_startswith (c # s) p \<or> py_contains s p"

record split_url =
  su_scheme :: pystr
  su_netloc :: pystr
  su_path :: pystr
  su_query :: pystr
  su_fragment :: pystr

definition ascii_alpha :: "codepoint \<Rightarrow> bool" where
  "ascii_alpha c \<longleftrightarrow> 65 \<le> c \<and> c \<le> 90 \<or> 97 \<le> c \<and> c \<le> 122"

definition scheme_char :: "codepoint \<Rightarrow> bool" where
  "scheme_char c \<longleftrightarrow> ascii_alpha c \<or> 48 \<le> c \<and> c \<le> 57 \<or> c \<in> {43, 45, 46}"

definition ascii_lower :: "pystr \<Rightarrow> pystr" where
  "ascii_lower s = map (\<lambda>c. if 65 \<le> c \<and> c \<le> 90 then c + 32 else c) s"

text \<open>The part before the first \<open>c\<close> and the part after it, if there is one.\<close>

definition split_at :: "codepoint \<Rightarrow> pystr \<Rightarrow> pystr \<times> pystr" where
  "split_at c s = (takeWhile (\<lambda>d. d \<noteq> c) s, drop 1 (dropWhile (\<lambda>d. d \<noteq> c) s))"

definition split_scheme :: "pystr \<Rightarrow> pystr \<times> pystr" where
  "split_scheme s =
     (let before = takeWhile (\<lambda>d. d \<noteq> 58) s
      in if 58 \<in> set s \<and> before \<noteq> [] \<and> ascii_alpha (hd before) \<and> list_all scheme_char before
         then (ascii_lower before, drop (Suc (length before)) s) else ([], s))"

definition split_netloc :: "pystr \<Rightarrow> pystr \<times> pystr" where
  "split_netloc s =
     (if py_startswith s (py ''//'')
      then (takeWhile (\<lambda>d. d \<notin> {47, 63, 35}) (drop 2 s), dropWhile (\<lambda>d. d \<notin> {47, 63, 35}) (drop 2 s))
      else ([], s))"

definition urlsplit :: "(pystr \<Rightarrow> bool) \<Rightarrow> pystr \<Rightarrow> split_url option" where
  "urlsplit netloc_ok url =
     (let clean = filter (\<lambda>c. c \<notin> {9, 10, 13}) (dropWhile (\<lambda>c. c \<le> 32) url);
          (scheme, rest) = split_scheme clean;
          (netloc, rest) = split_netloc rest;
          (rest, fragment) = split_at 35 rest;
          (path, query) = split_at 63 rest
      in if (91 \<in> set netloc) \<noteq> (93 \<in> set netloc) \<or> netloc \<noteq> [] \<and> \<not> netloc_ok netloc then None
         else Some \<lparr>su_scheme = scheme, su_netloc = netloc, su_path = path, su_query = query,
                    su_fragment = fragment\<rparr>)"

definition http_url :: "(pystr \<Rightarrow> bool) \<Rightarrow> pystr \<Rightarrow> bool" where
  "http_url netloc_ok url \<longleftrightarrow>
     (case urlsplit netloc_ok url of
        None \<Rightarrow> False
      | Some u \<Rightarrow> su_scheme u \<in> {py ''http'', py ''https''} \<and> su_netloc u \<noteq> [])"

definition url_scheme_is :: "(pystr \<Rightarrow> bool) \<Rightarrow> pystr \<Rightarrow> pystr \<Rightarrow> bool" where
  "url_scheme_is netloc_ok scheme url \<longleftrightarrow>
     (case urlsplit netloc_ok url of None \<Rightarrow> False | Some u \<Rightarrow> su_scheme u = scheme)"

definition absolute_path :: "(pystr \<Rightarrow> bool) \<Rightarrow> pystr \<Rightarrow> bool" where
  "absolute_path netloc_ok path \<longleftrightarrow>
     (case urlsplit netloc_ok path of
        None \<Rightarrow> False
      | Some u \<Rightarrow> py_startswith path (py ''/'') \<and> \<not> py_startswith path (py ''//'') \<and>
          su_scheme u = [] \<and> su_netloc u = [] \<and> su_query u = [] \<and> su_fragment u = [])"

section \<open>Settings\<close>

datatype Environment = Env_LOCAL | Env_DEVELOPMENT | Env_TEST | Env_STAGING | Env_PRODUCTION

datatype ProviderName = Provider_OPENAI | Provider_ANTHROPIC

datatype ExporterName = Exporter_NONE | Exporter_OTLP

record AppSettings =
  cfg_app_name :: pystr
  cfg_environment :: Environment
  cfg_debug :: bool
  cfg_api_v1_prefix :: pystr
  cfg_cors_allowed_origins :: pystr
  cfg_cors_allow_credentials :: bool
  cfg_trusted_hosts :: pystr
  cfg_max_json_request_size_kb :: int
  cfg_request_id_max_length :: int
  cfg_log_exception_tracebacks :: bool
  cfg_database_url :: "pystr option"
  cfg_database_connect_timeout_seconds :: int

record ProviderSettings =
  cfg_chat_model_provider :: ProviderName
  cfg_chat_model_name :: pystr
  cfg_embedding_model :: pystr
  cfg_openai_api_key :: "pystr option"
  cfg_anthropic_api_key :: "pystr option"
  cfg_openai_timeout_seconds :: rat
  cfg_openai_store_responses :: bool
  cfg_provider_required :: bool

record KnowledgeSettings =
  cfg_rag_enabled :: bool
  cfg_openai_embedding_dimension :: nat
  cfg_rag_chunk_size :: int
  cfg_rag_chunk_overlap :: int
  cfg_rag_retrieval_top_k :: int
  cfg_rag_similarity_threshold :: rat
  cfg_knowledge_graph_enabled :: bool
  cfg_graph_max_depth :: int
  cfg_graph_max_entities :: int
  cfg_graph_min_confidence :: rat
  cfg_max_upload_size_mb :: int
  cfg_pdf_min_extracted_characters :: int

record MultiAgentSettings =
  cfg_evidence_agent_max_steps :: int
  cfg_evidence_agent_max_tool_calls :: int
  cfg_multi_agent_max_failures :: int
  cfg_specialist_retry_limit :: int

record ResilienceSettings =
  cfg_provider_max_retries :: int
  cfg_provider_retry_base_delay_ms :: int
  cfg_model_timeout_seconds :: rat
  cfg_embedding_timeout_seconds :: rat
  cfg_tool_timeout_seconds :: rat
  cfg_graph_extraction_timeout_seconds :: rat
  cfg_model_input_cost_per_1m_tokens :: "rat option"
  cfg_model_output_cost_per_1m_tokens :: "rat option"

record ObservabilitySettings =
  cfg_observability_exporter :: ExporterName
  cfg_otel_exporter_otlp_endpoint :: "pystr option"
  cfg_otel_service_name :: pystr
  cfg_otel_export_timeout_seconds :: int

record PolicyRepositorySettings =
  cfg_policy_repository_enabled :: bool
  cfg_policy_repository_base_url :: "pystr option"
  cfg_policy_repository_token :: "pystr option"
  cfg_policy_repository_documents_path :: pystr
  cfg_policy_repository_timeout_seconds :: int
  cfg_policy_repository_max_documents :: int
  cfg_policy_repository_max_response_mb :: int

text \<open>The risk-gate settings are the fields of the policy that is built from them.\<close>

record Settings =
  cfg_app :: AppSettings
  cfg_provider :: ProviderSettings
  cfg_knowledge :: KnowledgeSettings
  cfg_agents :: AgentSettings
  cfg_multi_agent :: MultiAgentSettings
  cfg_runtime_risk_gate_enabled :: bool
  cfg_runtime_policy :: RuntimeRiskPolicy
  cfg_resilience :: ResilienceSettings
  cfg_evaluation_llm_judge_enabled :: bool
  cfg_evaluation_judge_model :: pystr
  cfg_auth :: auth_settings
  cfg_observability :: ObservabilitySettings
  cfg_policy_repository :: PolicyRepositorySettings

definition parsed_cors_allowed_origins :: "Settings \<Rightarrow> pystr list" where
  "parsed_cors_allowed_origins s = csv_values (cfg_cors_allowed_origins (cfg_app s))"

definition parsed_trusted_hosts :: "Settings \<Rightarrow> pystr list" where
  "parsed_trusted_hosts s = csv_values (cfg_trusted_hosts (cfg_app s))"

text \<open>A secret that is set and not blank.\<close>

definition secret_set :: "pystr option \<Rightarrow> bool" where
  "secret_set v \<longleftrightarrow> (case v of None \<Rightarrow> False | Some s \<Rightarrow> py_strip s \<noteq> [])"

definition selected_key :: "ProviderSettings \<Rightarrow> pystr option" where
  "selected_key p =
     (if cfg_chat_model_provider p = Provider_ANTHROPIC then cfg_anthropic_api_key p else cfg_openai_api_key p)"

definition provider_is_configured :: "Settings \<Rightarrow> bool" where
  "provider_is_configured s \<longleftrightarrow> secret_set (selected_key (cfg_provider s))"

section \<open>Field bounds\<close>

definition in_bounds :: "int \<Rightarrow> int \<Rightarrow> int \<Rightarrow> bool" where
  "in_bounds lo hi v \<longleftrightarrow> lo \<le> v \<and> v \<le> hi"

definition app_fields_ok :: "AppSettings \<Rightarrow> bool" where
  "app_fields_ok a \<longleftrightarrow>
     in_bounds 1 10240 (cfg_max_json_request_size_kb a) \<and> in_bounds 16 128 (cfg_request_id_max_length a) \<and>
     in_bounds 1 30 (cfg_database_connect_timeout_seconds a)"

definition knowledge_fields_ok :: "KnowledgeSettings \<Rightarrow> bool" where
  "knowledge_fields_ok k \<longleftrightarrow>
     cfg_openai_embedding_dimension k = 1536 \<and>
     in_bounds 200 20000 (cfg_rag_chunk_size k) \<and> in_bounds 0 5000 (cfg_rag_chunk_overlap k) \<and>
     in_bounds 1 20 (cfg_rag_retrieval_top_k k) \<and>
     - 1 \<le> cfg_rag_similarity_threshold k \<and> cfg_rag_similarity_threshold k \<le> 1 \<and>
     in_bounds 1 5 (cfg_graph_max_depth k) \<and> in_bounds 1 100 (cfg_graph_max_entities k) \<and>
     0 \<le> cfg_graph_min_confidence k \<and> cfg_graph_min_confidence k \<le> 1 \<and>
     in_bounds 1 100 (cfg_max_upload_size_mb k) \<and> in_bounds 1 10000 (cfg_pdf_min_extracted_characters k)"

definition agent_fields_ok :: "AgentSettings \<Rightarrow> MultiAgentSettings \<Rightarrow> bool" where
  "agent_fields_ok a m \<longleftrightarrow>
     in_bounds 1 50 (cfg_agent_max_steps a) \<and> in_bounds 1 50 (cfg_agent_max_tool_calls a) \<and>
     in_bounds 1 1000 (cfg_langgraph_recursion_limit a) \<and>
     in_bounds 1 50 (cfg_evidence_agent_max_steps m) \<and> in_bounds 1 50 (cfg_evidence_agent_max_tool_calls m) \<and>
     in_bounds 0 2 (cfg_multi_agent_max_failures m) \<and> in_bounds 0 3 (cfg_specialist_retry_limit m)"

definition cost_ok :: "rat option \<Rightarrow> bool" where
  "cost_ok v \<longleftrightarrow> (case v of None \<Rightarrow> True | Some c \<Rightarrow> 0 \<le> c)"

definition resilience_fields_ok :: "ResilienceSettings \<Rightarrow> bool" where
  "resilience_fields_ok r \<longleftrightarrow>
     in_bounds 0 10 (cfg_provider_max_retries r) \<and> in_bounds 0 60000 (cfg_provider_retry_base_delay_ms r) \<and>
     0 < cfg_model_timeout_seconds r \<and> 0 < cfg_embedding_timeout_seconds r \<and> 0 < cfg_tool_timeout_seconds r \<and>
     0 < cfg_graph_extraction_timeout_seconds r \<and>
     cost_ok (cfg_model_input_cost_per_1m_tokens r) \<and> cost_ok (cfg_model_output_cost_per_1m_tokens r)"

definition auth_fields_ok :: "auth_settings \<Rightarrow> bool" where
  "auth_fields_ok a \<longleftrightarrow>
     as_jwt_algorithm a \<in> {py ''HS256'', py ''RS256''} \<and> in_bounds 60 86400 (as_jwks_cache_seconds a) \<and>
     in_bounds 1 30 (as_jwks_timeout_seconds a) \<and> in_bounds 0 300 (as_jwt_leeway_seconds a)"

definition policy_repository_fields_ok :: "PolicyRepositorySettings \<Rightarrow> bool" where
  "policy_repository_fields_ok p \<longleftrightarrow>
     in_bounds 1 30 (cfg_policy_repository_timeout_seconds p) \<and>
     in_bounds 1 500 (cfg_policy_repository_max_documents p) \<and>
     in_bounds 1 25 (cfg_policy_repository_max_response_mb p)"

definition settings_fields_ok :: "Settings \<Rightarrow> bool" where
  "settings_fields_ok s \<longleftrightarrow>
     app_fields_ok (cfg_app s) \<and> 0 < cfg_openai_timeout_seconds (cfg_provider s) \<and>
     knowledge_fields_ok (cfg_knowledge s) \<and> agent_fields_ok (cfg_agents s) (cfg_multi_agent s) \<and>
     in_bounds 0 10 (pol_max_human_revisions (cfg_runtime_policy s)) \<and>
     resilience_fields_ok (cfg_resilience s) \<and> auth_fields_ok (cfg_auth s) \<and>
     len_between 1 100 (cfg_otel_service_name (cfg_observability s)) \<and>
     in_bounds 1 30 (cfg_otel_export_timeout_seconds (cfg_observability s)) \<and>
     policy_repository_fields_ok (cfg_policy_repository s)"

section \<open>Validators\<close>

text \<open>The first check whose condition holds raises its message.\<close>

fun first_raise :: "(bool \<times> pystr) list \<Rightarrow> pystr option" where
  "first_raise [] = None"
| "first_raise ((bad, message) # checks) = (if bad then Some message else first_raise checks)"

definition UNSAFE_PLACEHOLDER_MARKERS :: "pystr list" where
  "UNSAFE_PLACEHOLDER_MARKERS = [py ''change-me'', py ''changeme'', py ''placeholder'', py ''replace-with'']"

definition has_placeholder :: "fold_table \<Rightarrow> pystr \<Rightarrow> bool" where
  "has_placeholder table s \<longleftrightarrow> list_ex (py_contains (py_casefold table s)) UNSAFE_PLACEHOLDER_MARKERS"

definition validate_auth_settings :: "(pystr \<Rightarrow> bool) \<Rightarrow> auth_settings \<Rightarrow> pystr option" where
  "validate_auth_settings netloc_ok a =
     first_raise
       [(as_jwt_verification_key a = None \<and> \<not> str_truthy (as_jwks_url a),
         py ''AUTH_JWT_VERIFICATION_KEY or AUTH_JWKS_URL is required when authentication is enabled''),
        (as_jwt_verification_key a \<noteq> None \<and> str_truthy (as_jwks_url a),
         py ''Configure only one of AUTH_JWT_VERIFICATION_KEY or AUTH_JWKS_URL''),
        (str_truthy (as_jwks_url a) \<and> \<not> http_url netloc_ok (the (as_jwks_url a)),
         py ''AUTH_JWKS_URL must be a valid HTTP(S) URL''),
        (str_truthy (as_jwks_url a) \<and> as_jwt_algorithm a \<noteq> py ''RS256'',
         py ''AUTH_JWKS_URL requires AUTH_JWT_ALGORITHM=RS256''),
        (\<not> str_truthy (as_jwt_issuer a) \<or> \<not> str_truthy (as_jwt_audience a),
         py ''AUTH_JWT_ISSUER and AUTH_JWT_AUDIENCE are required when authentication is enabled'')]"

definition provider_needed :: "Settings \<Rightarrow> bool" where
  "provider_needed s \<longleftrightarrow>
     cfg_provider_required (cfg_provider s) \<or> cfg_rag_enabled (cfg_knowledge s) \<or>
     cfg_agentic_workflow_enabled (cfg_agents s) \<or> cfg_multi_agent_workflow_enabled (cfg_agents s) \<or>
     cfg_knowledge_graph_enabled (cfg_knowledge s) \<or> cfg_evaluation_llm_judge_enabled s"

definition production_database_checks :: "fold_table \<Rightarrow> pystr option \<Rightarrow> (bool \<times> pystr) list" where
  "production_database_checks table url =
     [(url = None, py ''DATABASE_URL is required in production''),
      (\<not> py_startswith (py_strip (the url)) (py ''postgresql://'') \<and>
       \<not> py_startswith (py_strip (the url)) (py ''postgresql+psycopg://''),
       py ''DATABASE_URL must use PostgreSQL in production''),
      (has_placeholder table (py_strip (the url)),
       py ''DATABASE_URL contains an unsafe placeholder in production'')]"

definition production_app_checks :: "Settings \<Rightarrow> (bool \<times> pystr) list" where
  "production_app_checks s =
     [(cfg_debug (cfg_app s), py ''APP_DEBUG must be false in production''),
      (cfg_log_exception_tracebacks (cfg_app s), py ''LOG_EXCEPTION_TRACEBACKS must be false in production''),
      (py ''*'' \<in> set (parsed_cors_allowed_origins s), py ''CORS_ALLOWED_ORIGINS cannot contain '' @ [39, 42, 39] @ py '' in production''),
      (cfg_cors_allow_credentials (cfg_app s) \<and> parsed_cors_allowed_origins s = [],
       py ''CORS_ALLOWED_ORIGINS must be explicit when credentials are allowed''),
      (parsed_trusted_hosts s = [] \<or> py ''*'' \<in> set (parsed_trusted_hosts s),
       py ''TRUSTED_HOSTS must be an explicit allowlist in production'')]"

definition production_provider_checks :: "fold_table \<Rightarrow> Settings \<Rightarrow> (bool \<times> pystr) list" where
  "production_provider_checks table s =
     [(provider_needed s \<and> \<not> provider_is_configured s,
       (if cfg_chat_model_provider (cfg_provider s) = Provider_ANTHROPIC then py ''ANTHROPIC_API_KEY''
        else py ''OPENAI_API_KEY'') @ py '' is required by the enabled production profile''),
      ((cfg_rag_enabled (cfg_knowledge s) \<or> cfg_knowledge_graph_enabled (cfg_knowledge s)) \<and>
       \<not> secret_set (cfg_openai_api_key (cfg_provider s)),
       py ''OPENAI_API_KEY is required for OpenAI embeddings''),
      (provider_is_configured s \<and> has_placeholder table (the (selected_key (cfg_provider s))),
       py ''Selected provider API key contains an unsafe placeholder'')]"

definition production_auth_checks :: "(pystr \<Rightarrow> bool) \<Rightarrow> fold_table \<Rightarrow> auth_settings \<Rightarrow> (bool \<times> pystr) list" where
  "production_auth_checks netloc_ok table a =
     [(str_truthy (as_jwks_url a) \<and> \<not> url_scheme_is netloc_ok (py ''https'') (the (as_jwks_url a)),
       py ''AUTH_JWKS_URL must use HTTPS in production''),
      (\<not> str_truthy (as_jwks_url a) \<and>
       (let key = py_strip (the (as_jwt_verification_key a)) in length key < 32 \<or> has_placeholder table key),
       py ''AUTH_JWT_VERIFICATION_KEY is unsafe for production'')]"

definition validate_production_settings ::
  "(pystr \<Rightarrow> bool) \<Rightarrow> fold_table \<Rightarrow> Settings \<Rightarrow> pystr option" where
  "validate_production_settings netloc_ok table s =
     (let p = cfg_policy_repository s;
          early = first_raise
            (production_app_checks s @ production_database_checks table (cfg_database_url (cfg_app s)) @
             [(cfg_policy_repository_enabled p \<and>
               \<not> url_scheme_is netloc_ok (py ''https'') (the (cfg_policy_repository_base_url p)),
               py ''POLICY_REPOSITORY_BASE_URL must use HTTPS in production'')] @
             production_provider_checks table s @
             [(\<not> as_auth_enabled (cfg_auth s), py ''AUTH_ENABLED must be true in production'')])
      in case early of
           Some message \<Rightarrow> Some message
         | None \<Rightarrow>
             (case validate_auth_settings netloc_ok (cfg_auth s) of
                Some message \<Rightarrow> Some message
              | None \<Rightarrow> first_raise (production_auth_checks netloc_ok table (cfg_auth s))))"

definition policy_repository_checks :: "(pystr \<Rightarrow> bool) \<Rightarrow> PolicyRepositorySettings \<Rightarrow> (bool \<times> pystr) list" where
  "policy_repository_checks netloc_ok p =
     (if \<not> cfg_policy_repository_enabled p then []
      else
        [(\<not> str_truthy (cfg_policy_repository_base_url p) \<or> \<not> secret_set (cfg_policy_repository_token p),
          py ''POLICY_REPOSITORY_BASE_URL and POLICY_REPOSITORY_TOKEN are required when the connector is enabled''),
         (\<not> http_url netloc_ok (the (cfg_policy_repository_base_url p)),
          py ''POLICY_REPOSITORY_BASE_URL must be a valid HTTP(S) URL''),
         (\<not> absolute_path netloc_ok (cfg_policy_repository_documents_path p),
          py ''POLICY_REPOSITORY_DOCUMENTS_PATH must be one absolute path'')])"

definition observability_checks :: "(pystr \<Rightarrow> bool) \<Rightarrow> ObservabilitySettings \<Rightarrow> (bool \<times> pystr) list" where
  "observability_checks netloc_ok q =
     [(cfg_observability_exporter q = Exporter_OTLP \<and> \<not> str_truthy (cfg_otel_exporter_otlp_endpoint q),
       py ''OTEL_EXPORTER_OTLP_ENDPOINT is required for the OTLP exporter''),
      (str_truthy (cfg_otel_exporter_otlp_endpoint q) \<and> \<not> http_url netloc_ok (the (cfg_otel_exporter_otlp_endpoint q)),
       py ''OTEL_EXPORTER_OTLP_ENDPOINT must be a valid HTTP(S) URL'')]"

text \<open>\<open>validate_chunk_settings\<close>. The address of an origin is split before the test for \<open>*\<close>.\<close>

definition validate_chunk_settings :: "(pystr \<Rightarrow> bool) \<Rightarrow> fold_table \<Rightarrow> Settings \<Rightarrow> pystr option" where
  "validate_chunk_settings netloc_ok table s =
     (let k = cfg_knowledge s; a = cfg_agents s; r = cfg_resilience s
      in case first_raise
          ([(cfg_rag_chunk_overlap k \<ge> cfg_rag_chunk_size k, py ''RAG_CHUNK_OVERLAP must be smaller than RAG_CHUNK_SIZE''),
            (cfg_agentic_workflow_enabled a \<and> cfg_langgraph_recursion_limit a < cfg_agent_max_steps a * 2 + 3,
             py ''LANGGRAPH_RECURSION_LIMIT must be at least 2 * AGENT_MAX_STEPS + 3 when AGENTIC_WORKFLOW_ENABLED is true''),
            ((cfg_model_input_cost_per_1m_tokens r = None) \<noteq> (cfg_model_output_cost_per_1m_tokens r = None),
             py ''MODEL_INPUT_COST_PER_1M_TOKENS and MODEL_OUTPUT_COST_PER_1M_TOKENS must be configured together'')] @
           observability_checks netloc_ok (cfg_observability s) @
           policy_repository_checks netloc_ok (cfg_policy_repository s) @
           map (\<lambda>origin. (urlsplit netloc_ok origin = None \<or> origin \<noteq> py ''*'' \<and> \<not> http_url netloc_ok origin,
                          py ''CORS_ALLOWED_ORIGINS must contain valid HTTP(S) origins''))
             (parsed_cors_allowed_origins s))
        of Some message \<Rightarrow> Some message
         | None \<Rightarrow>
             if cfg_environment (cfg_app s) = Env_PRODUCTION then validate_production_settings netloc_ok table s
             else if as_auth_enabled (cfg_auth s) then validate_auth_settings netloc_ok (cfg_auth s)
             else None)"

definition load_settings :: "(pystr \<Rightarrow> bool) \<Rightarrow> fold_table \<Rightarrow> Settings \<Rightarrow> py_exc + Settings" where
  "load_settings netloc_ok table s =
     (if settings_fields_ok s \<and> validate_chunk_settings netloc_ok table s = None then Inr s
      else Inl ValidationExc)"

text \<open>\<open>RetryPolicy(max_retries=..., base_delay_ms=...)\<close> of the provider factory, with the
  defaults of the other two fields.\<close>

definition configured_retry_policy :: "Settings \<Rightarrow> py_exc + RetryPolicy" where
  "configured_retry_policy s =
     (let p = \<lparr>rp_max_retries = nat (cfg_provider_max_retries (cfg_resilience s)),
               rp_base_delay_ms = cfg_provider_retry_base_delay_ms (cfg_resilience s),
               rp_max_delay_ms = 4000, rp_jitter_ratio = 1 / 10\<rparr>
      in if retry_policy_ok p then Inr p else Inl ValidationExc)"

section \<open>What validated settings guarantee\<close>

lemma first_raise_None: "first_raise checks = None \<longleftrightarrow> list_all (\<lambda>(bad, _). \<not> bad) checks"
  by (induction checks rule: first_raise.induct) auto

declare first_raise.simps [simp del]

lemma load_settings_Inr:
  "load_settings netloc_ok table s = Inr s' \<longleftrightarrow>
     s' = s \<and> settings_fields_ok s \<and> validate_chunk_settings netloc_ok table s = None"
  by (auto simp: load_settings_def)

lemma str_truthy_iff: "str_truthy v \<longleftrightarrow> (\<exists>s. v = Some s \<and> s \<noteq> [])"
  by (auto simp: str_truthy_def split: option.split)

lemma startswith_shorter: "py_startswith s (p @ q) \<Longrightarrow> py_startswith s p"
proof -
  assume "py_startswith s (p @ q)"
  then have "take (length p) (take (length p + length q) s) = take (length p) (p @ q)" by (simp add: py_startswith_def)
  then show ?thesis by (simp add: py_startswith_def min_def)
qed

lemma auth_settings_validated:
  assumes "load_settings netloc_ok table s = Inr s'" and "as_auth_enabled (cfg_auth s)"
  shows "validate_auth_settings netloc_ok (cfg_auth s) = None"
  using assms
  by (auto simp: load_settings_Inr validate_chunk_settings_def validate_production_settings_def Let_def
      split: option.splits if_splits)

text \<open>A validated authentication configuration always gives a verifier, and the one of its key source.\<close>

lemma validated_verifier:
  assumes "validate_auth_settings netloc_ok a = None" and "as_auth_enabled a"
  shows "\<exists>v. get_token_verifier a = Inr (Some v) \<and>
    (case v of OIDCVerifier w \<Rightarrow> as_jwks_url a = Some (ov_jwks_url w) \<and> as_jwt_verification_key a = None
               \<and> as_jwt_algorithm a = py ''RS256''
             | LocalVerifier l \<Rightarrow> as_jwt_verification_key a = Some (lv_verification_key l) \<and> \<not> str_truthy (as_jwks_url a))"
proof -
  have checks: "as_jwt_verification_key a \<noteq> None \<or> str_truthy (as_jwks_url a)"
    "as_jwt_verification_key a = None \<or> \<not> str_truthy (as_jwks_url a)"
    "str_truthy (as_jwks_url a) \<longrightarrow> as_jwt_algorithm a = py ''RS256''"
    "str_truthy (as_jwt_issuer a)" "str_truthy (as_jwt_audience a)"
    using assms(1) by (auto simp: validate_auth_settings_def first_raise_None)
  obtain issuer audience where "as_jwt_issuer a = Some issuer" "as_jwt_audience a = Some audience"
    using checks(4,5) by (auto simp: str_truthy_iff)
  then show ?thesis
    using checks(1-3) assms(2)
    by (cases "str_truthy (as_jwks_url a)"; cases "as_jwks_url a"; cases "as_jwt_verification_key a")
       (auto simp: get_token_verifier_def str_truthy_iff)
qed

lemma production_checks:
  assumes "load_settings netloc_ok table s = Inr s'" and "cfg_environment (cfg_app s) = Env_PRODUCTION"
  shows "list_all (\<lambda>(bad, _). \<not> bad) (production_app_checks s)"
    "list_all (\<lambda>(bad, _). \<not> bad) (production_database_checks table (cfg_database_url (cfg_app s)))"
    "list_all (\<lambda>(bad, _). \<not> bad) (production_provider_checks table s)"
    "list_all (\<lambda>(bad, _). \<not> bad) (production_auth_checks netloc_ok table (cfg_auth s))"
    "as_auth_enabled (cfg_auth s)" "validate_auth_settings netloc_ok (cfg_auth s) = None"
    "cfg_policy_repository_enabled (cfg_policy_repository s) \<longrightarrow>
       url_scheme_is netloc_ok (py ''https'') (the (cfg_policy_repository_base_url (cfg_policy_repository s)))"
  using assms
  by (auto simp: load_settings_Inr validate_chunk_settings_def validate_production_settings_def Let_def
      first_raise_None split: option.splits)

text \<open>C23: Settings that load in production are safe. Debugging and tracebacks are off, origins and hosts
  are explicit, the database is PostgreSQL, authentication is on with exactly one key source whose key is
  long enough and no placeholder or comes over HTTPS, a needed provider has a credential that is no
  placeholder, and the composition with the identity layer closes the door: a verifier exists, and a
  request without a bearer token is refused on every reviewer route.\<close>

theorem production_settings_safe:
  assumes load: "load_settings netloc_ok table s = Inr s'" and env: "cfg_environment (cfg_app s) = Env_PRODUCTION"
  shows "\<not> cfg_debug (cfg_app s) \<and> \<not> cfg_log_exception_tracebacks (cfg_app s) \<and>
    py ''*'' \<notin> set (parsed_cors_allowed_origins s) \<and>
    parsed_trusted_hosts s \<noteq> [] \<and> py ''*'' \<notin> set (parsed_trusted_hosts s) \<and>
    (\<exists>url. cfg_database_url (cfg_app s) = Some url \<and> py_startswith (py_strip url) (py ''postgresql'') \<and>
       \<not> has_placeholder table (py_strip url)) \<and>
    (provider_needed s \<longrightarrow> (\<exists>key. selected_key (cfg_provider s) = Some key \<and> \<not> has_placeholder table key)) \<and>
    (\<exists>v. get_token_verifier (cfg_auth s) = Inr (Some v) \<and>
       (case v of OIDCVerifier w \<Rightarrow> url_scheme_is netloc_ok (py ''https'') (ov_jwks_url w)
                | LocalVerifier l \<Rightarrow> 32 \<le> length (py_strip (lv_verification_key l)) \<and>
                    \<not> has_placeholder table (py_strip (lv_verification_key l)))) \<and>
    authorize_reviewer lib (cfg_auth s) None = Inl (AppExc AuthenticationRequiredError)"
proof -
  note checks = production_checks[OF load env]
  obtain v where v: "get_token_verifier (cfg_auth s) = Inr (Some v)"
    "case v of OIDCVerifier w \<Rightarrow> as_jwks_url (cfg_auth s) = Some (ov_jwks_url w) \<and> as_jwt_verification_key (cfg_auth s) = None
               \<and> as_jwt_algorithm (cfg_auth s) = py ''RS256''
             | LocalVerifier l \<Rightarrow> as_jwt_verification_key (cfg_auth s) = Some (lv_verification_key l) \<and> \<not> str_truthy (as_jwks_url (cfg_auth s))"
    using validated_verifier[OF checks(6,5)] by blast
  have key: "case v of OIDCVerifier w \<Rightarrow> url_scheme_is netloc_ok (py ''https'') (ov_jwks_url w)
      | LocalVerifier l \<Rightarrow> 32 \<le> length (py_strip (lv_verification_key l)) \<and> \<not> has_placeholder table (py_strip (lv_verification_key l))"
    using v checks(4,6) by (cases v)
      (auto simp: production_auth_checks_def validate_auth_settings_def first_raise_None Let_def)
  have prefix: "py_startswith u (py ''postgresql'')"
    if "py_startswith u (py ''postgresql://'') \<or> py_startswith u (py ''postgresql+psycopg://'')" for u
  proof -
    have "py ''postgresql://'' = py ''postgresql'' @ py ''://''"
      "py ''postgresql+psycopg://'' = py ''postgresql'' @ py ''+psycopg://''" by (simp_all add: py_def)
    with that show ?thesis using startswith_shorter by metis
  qed
  obtain url where url: "cfg_database_url (cfg_app s) = Some url"
    using checks(2) by (auto simp: production_database_checks_def)
  have db: "py_startswith (py_strip url) (py ''postgresql'')" "\<not> has_placeholder table (py_strip url)"
    using checks(2) prefix[of "py_strip url"] by (auto simp: production_database_checks_def url)
  have provider: "\<exists>key. selected_key (cfg_provider s) = Some key \<and> \<not> has_placeholder table key" if "provider_needed s"
    using checks(3) that
    by (auto simp: production_provider_checks_def provider_is_configured_def secret_set_def split: option.splits)
  have "authorize_reviewer lib (cfg_auth s) None = Inl (AppExc AuthenticationRequiredError)"
    using v(1) checks(5) by (simp add: authorize_reviewer_def get_authenticated_principal_def)
  then show ?thesis
    using checks(1) url db provider v(1) key by (auto simp: production_app_checks_def)
qed


section \<open>An instance\<close>

definition sample_production :: Settings where
  "sample_production =
     \<lparr>cfg_app = \<lparr>cfg_app_name = py ''app'', cfg_environment = Env_PRODUCTION, cfg_debug = False, cfg_api_v1_prefix = py ''/api/v1'',
        cfg_cors_allowed_origins = py ''https://a'', cfg_cors_allow_credentials = False, cfg_trusted_hosts = py ''a, b'',
        cfg_max_json_request_size_kb = 256, cfg_request_id_max_length = 64, cfg_log_exception_tracebacks = False,
        cfg_database_url = Some (py ''postgresql://u''), cfg_database_connect_timeout_seconds = 5\<rparr>,
      cfg_provider = \<lparr>cfg_chat_model_provider = Provider_OPENAI, cfg_chat_model_name = py ''m'', cfg_embedding_model = py ''e'',
        cfg_openai_api_key = Some (py ''k''), cfg_anthropic_api_key = None, cfg_openai_timeout_seconds = 30,
        cfg_openai_store_responses = False, cfg_provider_required = True\<rparr>,
      cfg_knowledge = \<lparr>cfg_rag_enabled = True, cfg_openai_embedding_dimension = 1536, cfg_rag_chunk_size = 1200,
        cfg_rag_chunk_overlap = 200, cfg_rag_retrieval_top_k = 5, cfg_rag_similarity_threshold = 0,
        cfg_knowledge_graph_enabled = False, cfg_graph_max_depth = 2, cfg_graph_max_entities = 20, cfg_graph_min_confidence = 0,
        cfg_max_upload_size_mb = 10, cfg_pdf_min_extracted_characters = 100\<rparr>,
      cfg_agents = \<lparr>cfg_execution_mode_override = None, cfg_execution_routing_enabled = True, cfg_agentic_workflow_enabled = True,
        cfg_multi_agent_workflow_enabled = False, cfg_agent_max_steps = 5, cfg_agent_max_tool_calls = 5, cfg_langgraph_recursion_limit = 25\<rparr>,
      cfg_multi_agent = \<lparr>cfg_evidence_agent_max_steps = 4, cfg_evidence_agent_max_tool_calls = 4, cfg_multi_agent_max_failures = 2,
        cfg_specialist_retry_limit = 1\<rparr>,
      cfg_runtime_risk_gate_enabled = True, cfg_runtime_policy = default_policy,
      cfg_resilience = \<lparr>cfg_provider_max_retries = 2, cfg_provider_retry_base_delay_ms = 60000, cfg_model_timeout_seconds = 30,
        cfg_embedding_timeout_seconds = 30, cfg_tool_timeout_seconds = 10, cfg_graph_extraction_timeout_seconds = 30,
        cfg_model_input_cost_per_1m_tokens = None, cfg_model_output_cost_per_1m_tokens = None\<rparr>,
      cfg_evaluation_llm_judge_enabled = False, cfg_evaluation_judge_model = py ''m'',
      cfg_auth = \<lparr>as_auth_enabled = True, as_jwt_algorithm = py ''RS256'', as_jwt_verification_key = None,
        as_jwks_url = Some (py ''https://i/k''), as_jwks_cache_seconds = 300, as_jwks_timeout_seconds = 5,
        as_jwt_issuer = Some (py ''i''), as_jwt_audience = Some (py ''a''), as_jwt_leeway_seconds = 30\<rparr>,
      cfg_observability = \<lparr>cfg_observability_exporter = Exporter_NONE, cfg_otel_exporter_otlp_endpoint = None,
        cfg_otel_service_name = py ''s'', cfg_otel_export_timeout_seconds = 5\<rparr>,
      cfg_policy_repository = \<lparr>cfg_policy_repository_enabled = False, cfg_policy_repository_base_url = None,
        cfg_policy_repository_token = None, cfg_policy_repository_documents_path = py ''/v1/documents'',
        cfg_policy_repository_timeout_seconds = 10, cfg_policy_repository_max_documents = 100,
        cfg_policy_repository_max_response_mb = 5\<rparr>\<rparr>"

lemma sample_fields_ok: "settings_fields_ok sample_production"
  by (simp add: sample_production_def settings_fields_ok_def app_fields_ok_def knowledge_fields_ok_def agent_fields_ok_def
      resilience_fields_ok_def auth_fields_ok_def policy_repository_fields_ok_def in_bounds_def cost_ok_def default_policy_def)

lemmas sample_parts =
  arg_cong[OF sample_production_def, of cfg_app, simplified] arg_cong[OF sample_production_def, of cfg_provider, simplified]
  arg_cong[OF sample_production_def, of cfg_knowledge, simplified] arg_cong[OF sample_production_def, of cfg_agents, simplified]
  arg_cong[OF sample_production_def, of cfg_resilience, simplified] arg_cong[OF sample_production_def, of cfg_auth, simplified]
  arg_cong[OF sample_production_def, of cfg_observability, simplified]
  arg_cong[OF sample_production_def, of cfg_policy_repository, simplified]

lemma sample_validates: "validate_chunk_settings (\<lambda>_. True) ascii_fold sample_production = None"
proof -
  have urls: "http_url (\<lambda>_. True) (py ''https://a'')" "http_url (\<lambda>_. True) (py ''https://i/k'')"
    "url_scheme_is (\<lambda>_. True) (py ''https'') (py ''https://i/k'')" "urlsplit (\<lambda>_. True) (py ''https://a'') \<noteq> None"
    by (simp_all add: http_url_def url_scheme_is_def urlsplit_def split_scheme_def split_netloc_def split_at_def
        ascii_alpha_def scheme_char_def ascii_lower_def py_startswith_def py_def Let_def)
  have lists: "parsed_cors_allowed_origins sample_production = [py ''https://a'']"
    "parsed_trusted_hosts sample_production = [py ''a'', py ''b'']"
    by (simp_all add: parsed_cors_allowed_origins_def parsed_trusted_hosts_def sample_parts csv_values_def
        py_strip_def py_lstrip_def py_rstrip_def py_isspace_def py_def)
  have "\<not> has_placeholder ascii_fold (py ''postgresql://u'')" "\<not> has_placeholder ascii_fold (py ''k'')"
    by (simp_all add: has_placeholder_def UNSAFE_PLACEHOLDER_MARKERS_def py_casefold_def ascii_fold_def py_startswith_def py_def)
  moreover have "py_strip (py ''postgresql://u'') = py ''postgresql://u''" "py_strip (py ''k'') = py ''k''"
    by (simp_all add: py_strip_def py_lstrip_def py_rstrip_def py_isspace_def py_def)
  moreover have "py_startswith (py ''postgresql://u'') (py ''postgresql://'')" by (simp add: py_startswith_def py_def)
  ultimately show ?thesis
    using urls(1-3) lists not_None_eq[THEN iffD1, OF urls(4)]
    by (auto simp: validate_chunk_settings_def validate_production_settings_def validate_auth_settings_def
        production_app_checks_def production_database_checks_def production_provider_checks_def production_auth_checks_def
        policy_repository_checks_def observability_checks_def first_raise.simps Let_def str_truthy_def
        provider_is_configured_def selected_key_def secret_set_def sample_parts)
qed

lemma sample_loads: "load_settings (\<lambda>_. True) ascii_fold sample_production = Inr sample_production"
  by (simp add: load_settings_def sample_fields_ok sample_validates)

theorem production_settings_safe_witness:
  "parsed_trusted_hosts sample_production \<noteq> [] \<and>
   authorize_reviewer sample_library (cfg_auth sample_production) None = Inl (AppExc AuthenticationRequiredError)"
proof -
  have "cfg_environment (cfg_app sample_production) = Env_PRODUCTION" by (simp add: sample_production_def)
  from production_settings_safe[OF sample_loads this, of sample_library] show ?thesis by blast
qed


end
