(* ===== verification/Http_Protocol.thy ===== *)
theory Http_Protocol
  imports Configuration
begin

text \<open>
  The HTTP envelope around every request (\<^verbatim>\<open>app/main.py\<close>, \<^verbatim>\<open>app/core/context.py\<close>,
  \<^verbatim>\<open>app/core/logging.py\<close>, \<^verbatim>\<open>app/server.py\<close>, \<^verbatim>\<open>app/api/routes/health.py\<close>): request identifiers, the error
  envelope with its status codes, the exception handlers, the logging middleware with the size limit,
  the redaction of log records, readiness and the port.

  The framework calls the middleware around the exception handlers and these around the application;
  an exception that no handler takes passes through the middleware to the outermost handler. The
  application is an argument: it gets the request state and the context variable and runs on a state
  of its own. The phrases of \<open>HTTPStatus\<close> (they differ between Python versions), the drawn UUID and
  the answers of the database are arguments; durations in log records are left out.
\<close>

section \<open>Request identifiers\<close>

definition id_start :: "codepoint \<Rightarrow> bool" where
  "id_start c \<longleftrightarrow> 65 \<le> c \<and> c \<le> 90 \<or> 97 \<le> c \<and> c \<le> 122 \<or> 48 \<le> c \<and> c \<le> 57"

definition id_char :: "codepoint \<Rightarrow> bool" where
  "id_char c \<longleftrightarrow> id_start c \<or> c \<in> {45, 46, 95}"

text \<open>\<open>REQUEST_ID_PATTERN.fullmatch\<close>.\<close>

definition request_id_matches :: "pystr \<Rightarrow> bool" where
  "request_id_matches v \<longleftrightarrow> (case v of [] \<Rightarrow> False | c # cs \<Rightarrow> id_start c \<and> list_all id_char cs)"

definition request_id_is_valid :: "pystr option \<Rightarrow> int \<Rightarrow> bool" where
  "request_id_is_valid v max_length \<longleftrightarrow>
     (case v of None \<Rightarrow> False | Some x \<Rightarrow> int (length x) \<le> max_length \<and> request_id_matches x)"

definition safe_request_id :: "pystr option \<Rightarrow> int \<Rightarrow> pystr \<Rightarrow> pystr" where
  "safe_request_id v max_length fresh = (if request_id_is_valid v max_length then the v else fresh)"

section \<open>Integers in texts\<close>

text \<open>\<open>int(s)\<close>: surrounding white space, a sign, digits with single underscores between them, at most 4300 digits.
  \<open>decimal\<close> gives the value of a decimal digit; of the characters a header can hold only the ASCII
  digits are decimal.\<close>

definition ascii_decimal :: "codepoint \<Rightarrow> nat option" where
  "ascii_decimal c = (if 48 \<le> c \<and> c \<le> 57 then Some (c - 48) else None)"

fun int_digits :: "(codepoint \<Rightarrow> nat option) \<Rightarrow> bool \<Rightarrow> pystr \<Rightarrow> nat list option" where
  "int_digits decimal after_digit [] = (if after_digit then Some [] else None)"
| "int_digits decimal after_digit (c # cs) =
     (case decimal c of
        Some d \<Rightarrow> map_option (\<lambda>ds. d # ds) (int_digits decimal True cs)
      | None \<Rightarrow> if c = 95 \<and> after_digit then int_digits decimal False cs else None)"

definition py_int :: "(codepoint \<Rightarrow> nat option) \<Rightarrow> pystr \<Rightarrow> int option" where
  "py_int decimal s =
     (let t = py_strip s;
          (sign, body) = (case t of c # r \<Rightarrow> if c = 45 then (-1, r) else if c = 43 then (1, r) else (1, t) | [] \<Rightarrow> (1, t))
      in case int_digits decimal False body of
           None \<Rightarrow> None
         | Some ds \<Rightarrow> if length ds > 4300 then None else Some (sign * foldl (\<lambda>n d. 10 * n + int d) 0 ds))"

text \<open>\<open>get_port\<close> of \<^verbatim>\<open>app/server.py\<close>; the argument is the environment variable.\<close>

definition get_port :: "(codepoint \<Rightarrow> nat option) \<Rightarrow> pystr option \<Rightarrow> py_exc + int" where
  "get_port decimal raw =
     (case py_int decimal (case raw of None \<Rightarrow> py ''8000'' | Some v \<Rightarrow> v) of
        None \<Rightarrow> Inl RuntimeExc
      | Some port \<Rightarrow> if 1 \<le> port \<and> port \<le> 65535 then Inr port else Inl RuntimeExc)"

section \<open>Responses\<close>

datatype 'a http_body =
    Answer 'a
  | ErrorAnswer pystr pystr "pystr option"
  | DebugTraceback

record 'a http_response =
  ht_status :: nat
  ht_body :: "'a http_body"
  ht_request_id :: "pystr option"
  ht_www_authenticate :: "pystr option"

definition error_response :: "pystr option \<Rightarrow> pystr \<Rightarrow> pystr \<Rightarrow> nat \<Rightarrow> pystr option \<Rightarrow> 'a http_response" where
  "error_response request_id code message status body_request_id =
     \<lparr>ht_status = status, ht_body = ErrorAnswer code message body_request_id, ht_request_id = request_id,
      ht_www_authenticate = None\<rparr>"

text \<open>The table of \<open>handle_application_error\<close>.\<close>

definition status_codes :: "(app_error \<times> nat) list" where
  "status_codes =
     [(AuthenticationRequiredError, 401), (PermissionDeniedError, 403), (ConnectorNotConfiguredError, 503),
      (ConnectorUnavailableError, 503), (InvalidConnectorResponseError, 502), (AssessmentNotFoundError, 404),
      (RuntimeStateNotFoundError, 404), (InvalidReviewTransitionError, 409), (RevisionLimitReachedError, 409),
      (OpenAIClientNotConfiguredError, 503), (ModelProviderNotConfiguredError, 503), (LLMProviderError, 502),
      (InvalidLLMResponseError, 502), (AssessmentGenerationError, 502), (DatabaseNotConfiguredError, 503),
      (DatabaseUnavailableError, 503), (PersistenceError, 503), (EmbeddingNotConfiguredError, 503),
      (EmbeddingProviderError, 502), (InvalidEmbeddingError, 502), (EmptyKnowledgeDocumentError, 422),
      (KnowledgeDocumentNotFoundError, 404), (KnowledgeStoreUnavailableError, 503), (KnowledgePersistenceError, 503),
      (KnowledgeGraphDisabledError, 503), (KnowledgeGraphExtractionError, 502), (KnowledgeGraphPersistenceError, 503),
      (KnowledgeGraphUnavailableError, 503), (UnsupportedFileTypeError, 415), (FileTooLargeError, 413),
      (EmptyFileError, 422), (InvalidUploadMetadataError, 422), (DocumentParseError, 422), (EncryptedPDFError, 422),
      (OCRRequiredError, 422), (TextDecodeError, 422)]"

definition status_code :: "app_error \<Rightarrow> nat" where
  "status_code e = (case map_of status_codes e of None \<Rightarrow> 500 | Some n \<Rightarrow> n)"

record request_state =
  st_request_id :: pystr
  st_request_id_supplied :: bool

definition supplied_id :: "request_state \<Rightarrow> pystr option" where
  "supplied_id st = (if st_request_id_supplied st then Some (st_request_id st) else None)"

definition handle_application_error :: "request_state \<Rightarrow> app_error \<Rightarrow> 'a http_response" where
  "handle_application_error st e =
     (error_response (Some (st_request_id st)) (error_code e) (public_message e) (status_code e)
        (if e \<in> {AuthenticationRequiredError, PermissionDeniedError} then Some (st_request_id st) else supplied_id st))
      \<lparr>ht_www_authenticate := (if e = AuthenticationRequiredError then Some (py ''Bearer'') else None)\<rparr>"

definition handle_request_validation_error :: "request_state \<Rightarrow> 'a http_response" where
  "handle_request_validation_error st =
     error_response (Some (st_request_id st)) (py ''request_validation_error'')
       (py ''The request did not satisfy the API schema.'') 422 (supplied_id st)"

definition handle_http_error :: "(nat \<Rightarrow> pystr option) \<Rightarrow> request_state \<Rightarrow> nat \<Rightarrow> 'a http_response" where
  "handle_http_error phrase st status =
     error_response (Some (st_request_id st)) (py ''http_error'')
       (case phrase status of Some p \<Rightarrow> p | None \<Rightarrow> py ''HTTP error'') status (supplied_id st)"

definition handle_unexpected_error :: "request_state \<Rightarrow> 'a http_response" where
  "handle_unexpected_error st =
     error_response (Some (st_request_id st)) (py ''internal_server_error'')
       (py ''The request could not be completed.'') 500 (supplied_id st)"

section \<open>The middleware\<close>

record http_request =
  rq_headers :: "(pystr, pystr) dict"

datatype route_error = Raised py_exc | RequestInvalid | HttpError nat

datatype log_event = RequestFailed pystr | RequestCompleted pystr nat | UnhandledRequestError

record 's http_world =
  hw_context :: "pystr option"
  hw_log :: "log_event list"
  hw_state :: 's

type_synonym ('s, 'a) application = "request_state \<Rightarrow> pystr option \<Rightarrow> 's \<Rightarrow> (route_error + 'a http_response) \<times> 's"

definition incoming_id :: "http_request \<Rightarrow> pystr option" where
  "incoming_id rq = map_of (rq_headers rq) (py ''x-request-id'')"

definition request_state_of :: "Settings \<Rightarrow> http_request \<Rightarrow> pystr \<Rightarrow> request_state" where
  "request_state_of s rq fresh =
     (let n = cfg_request_id_max_length (cfg_app s)
      in \<lparr>st_request_id = safe_request_id (incoming_id rq) n fresh, st_request_id_supplied = request_id_is_valid (incoming_id rq) n\<rparr>)"

definition exceeds_json_limit :: "Settings \<Rightarrow> http_request \<Rightarrow> bool" where
  "exceeds_json_limit s rq \<longleftrightarrow>
     (let content_type = py_strip (fst (split_at 59 (case map_of (rq_headers rq) (py ''content-type'') of None \<Rightarrow> [] | Some v \<Rightarrow> v)))
      in case map_of (rq_headers rq) (py ''content-length'') of
           None \<Rightarrow> False
         | Some content_length \<Rightarrow>
             content_type = py ''application/json'' \<and>
             (case py_int ascii_decimal content_length of
                None \<Rightarrow> True
              | Some n \<Rightarrow> n > cfg_max_json_request_size_kb (cfg_app s) * 1024))"

definition request_too_large :: "request_state \<Rightarrow> 'a http_response" where
  "request_too_large st =
     error_response (Some (st_request_id st)) (py ''request_too_large'')
       (py ''The JSON request exceeds the configured size limit.'') 413 (supplied_id st)"

text \<open>\<open>call_next\<close>: the application inside the exception handlers.\<close>

definition handled ::
  "(nat \<Rightarrow> pystr option) \<Rightarrow> request_state \<Rightarrow> route_error + 'a http_response \<Rightarrow> py_exc + 'a http_response" where
  "handled phrase st outcome =
     (case outcome of
        Inr response \<Rightarrow> Inr response
      | Inl RequestInvalid \<Rightarrow> Inr (handle_request_validation_error st)
      | Inl (HttpError status) \<Rightarrow> Inr (handle_http_error phrase st status)
      | Inl (Raised e) \<Rightarrow> (case e of AppExc a \<Rightarrow> Inr (handle_application_error st a) | _ \<Rightarrow> Inl e))"

definition log_requests ::
  "Settings \<Rightarrow> (nat \<Rightarrow> pystr option) \<Rightarrow> http_request \<Rightarrow> pystr \<Rightarrow> ('s, 'a) application \<Rightarrow>
     ('s http_world, py_exc, 'a http_response) eff" where
  "log_requests s phrase rq fresh app =
     (\<lambda>w. let st = request_state_of s rq fresh;
              request_id = st_request_id st;
              token = hw_context w;
              inside = w\<lparr>hw_context := Some request_id\<rparr>;
              (outcome, after) =
                (if exceeds_json_limit s rq then (Inr (request_too_large st), inside)
                 else case app st (hw_context inside) (hw_state inside) of
                        (r, x) \<Rightarrow> (handled phrase st r, inside\<lparr>hw_state := x\<rparr>))
          in case outcome of
               Inl e \<Rightarrow> (Inl e, after\<lparr>hw_log := hw_log after @ [RequestFailed request_id], hw_context := token\<rparr>)
             | Inr response \<Rightarrow>
                 (Inr (response\<lparr>ht_request_id := Some request_id\<rparr>),
                  after\<lparr>hw_log := hw_log after @ [RequestCompleted request_id (ht_status response)], hw_context := token\<rparr>))"

text \<open>The outermost handler; in debug mode the framework answers with a traceback instead.\<close>

definition serve ::
  "Settings \<Rightarrow> (nat \<Rightarrow> pystr option) \<Rightarrow> http_request \<Rightarrow> pystr \<Rightarrow> ('s, 'a) application \<Rightarrow> 's http_world \<Rightarrow>
     'a http_response \<times> 's http_world" where
  "serve s phrase rq fresh app w =
     (case log_requests s phrase rq fresh app w of
        (Inr response, w') \<Rightarrow> (response, w')
      | (Inl e, w') \<Rightarrow>
          if cfg_debug (cfg_app s)
          then (\<lparr>ht_status = 500, ht_body = DebugTraceback, ht_request_id = None, ht_www_authenticate = None\<rparr>, w')
          else (handle_unexpected_error (request_state_of s rq fresh), w'\<lparr>hw_log := hw_log w' @ [UnhandledRequestError]\<rparr>))"

section \<open>Log records\<close>

definition reserved_fields :: "pystr list" where
  "reserved_fields = map py
     [''name'', ''msg'', ''args'', ''levelname'', ''levelno'', ''pathname'', ''filename'', ''module'', ''exc_info'',
      ''exc_text'', ''stack_info'', ''lineno'', ''funcName'', ''created'', ''msecs'', ''relativeCreated'', ''thread'',
      ''threadName'', ''processName'', ''process'', ''taskName'']"

definition sensitive_fields :: "pystr list" where
  "sensitive_fields = map py
     [''authorization'', ''authorization_header'', ''api_key'', ''database_url'', ''document'', ''document_content'',
      ''embedding'', ''embeddings'', ''password'', ''claims'', ''prompt'', ''provider_message'', ''reasoning'',
      ''secret'', ''token'', ''jwt'', ''system_prompt'', ''tool_arguments'', ''user_prompt'']"

definition sensitive_suffixes :: "pystr list" where
  "sensitive_suffixes = map py [''_password'', ''_secret'', ''_api_key'', ''_token'', ''_jwt'', ''_claims'']"

definition py_endswith :: "pystr \<Rightarrow> pystr \<Rightarrow> bool" where
  "py_endswith s p \<longleftrightarrow> length p \<le> length s \<and> drop (length s - length p) s = p"

definition sensitive_key :: "fold_table \<Rightarrow> pystr \<Rightarrow> bool" where
  "sensitive_key table key \<longleftrightarrow>
     py_casefold table key \<in> set sensitive_fields \<or> list_ex (py_endswith (py_casefold table key)) sensitive_suffixes"

text \<open>The attributes of a record, its exception (class name and formatted traceback) and the context variable.\<close>

record LogRecord =
  lg_timestamp :: pystr
  lg_levelname :: pystr
  lg_name :: pystr
  lg_message :: pystr
  lg_attributes :: json_object
  lg_exception :: "(pystr \<times> pystr) option"

text \<open>\<open>getattr(record, "request_id", None) or get_request_id()\<close>.\<close>

definition log_request_id :: "LogRecord \<Rightarrow> pystr option \<Rightarrow> json option" where
  "log_request_id r context =
     (case map_of (lg_attributes r) (py ''request_id'') of
        Some v \<Rightarrow> if v \<in> {JNull, JStr [], JBool False, JInt 0, JArr [], JObj []} \<or> v = JFloat 0 then map_option JStr context else Some v
      | None \<Rightarrow> map_option JStr context)"

definition log_payload :: "fold_table \<Rightarrow> bool \<Rightarrow> LogRecord \<Rightarrow> pystr option \<Rightarrow> json_object" where
  "log_payload table include_tracebacks r context =
     (let base = [(py ''timestamp'', JStr (lg_timestamp r)), (py ''level'', JStr (lg_levelname r)),
                  (py ''logger'', JStr (lg_name r)), (py ''event'', JStr (lg_message r)), (py ''message'', JStr (lg_message r))];
          with_id = (case log_request_id r context of None \<Rightarrow> base | Some v \<Rightarrow> AList.update (py ''request_id'') v base);
          extras = filter (\<lambda>(k, v). k \<notin> set reserved_fields \<and> k \<notin> {py ''message'', py ''asctime'', py ''request_id''} \<and>
                     \<not> sensitive_key table k) (lg_attributes r);
          with_extras = fold (\<lambda>(k, v). AList.update k v) extras with_id
      in case lg_exception r of
           None \<Rightarrow> with_extras
         | Some (name, traceback) \<Rightarrow>
             (let typed = AList.update (py ''exception_type'') (JStr name) with_extras
              in if include_tracebacks then AList.update (py ''exception'') (JStr traceback) typed else typed))"

section \<open>Readiness\<close>

definition ALEMBIC_HEAD_REVISION :: pystr where "ALEMBIC_HEAD_REVISION = py ''20260911_0006''"

definition REQUIRED_TABLES :: "pystr list" where
  "REQUIRED_TABLES = map py
     [''assessments'', ''knowledge_documents'', ''knowledge_chunks'', ''knowledge_entities'', ''knowledge_entity_mentions'',
      ''knowledge_relationships'', ''assessment_runtime_states'', ''human_review_events'']"

definition get_database_url :: "Settings \<Rightarrow> py_exc + pystr" where
  "get_database_url s =
     (case cfg_database_url (cfg_app s) of
        None \<Rightarrow> Inl (AppExc DatabaseNotConfiguredError)
      | Some raw \<Rightarrow>
          (let url = py_strip raw
           in if url = [] then Inl (AppExc DatabaseNotConfiguredError)
              else if py_startswith url (py ''postgresql://'')
              then Inr (py ''postgresql+psycopg://'' @ drop (length (py ''postgresql://'')) url)
              else Inr url))"

record ReadinessResponse =
  rd_ready :: bool
  rd_database :: bool
  rd_schema :: bool
  rd_configuration :: bool

text \<open>\<open>probe\<close>: connecting to an address, \<open>SELECT 1\<close> and the table names; the revision is read only when its table
  exists.\<close>

definition readiness_check ::
  "Settings \<Rightarrow> (pystr \<Rightarrow> py_exc + pystr list \<times> (py_exc + pystr option)) \<Rightarrow> nat \<times> ReadinessResponse" where
  "readiness_check s probe =
     (let configuration_ready = (\<not> cfg_provider_required (cfg_provider s) \<or> provider_is_configured s);
          (database_ready, schema_ready) =
            (case (case get_database_url s of Inl e \<Rightarrow> Inl e | Inr url \<Rightarrow> probe url) of
               Inl e \<Rightarrow> (False, False)
             | Inr (table_names, revision) \<Rightarrow>
                 if py ''alembic_version'' \<in> set table_names
                 then (case revision of
                         Inl e \<Rightarrow> (False, False)
                       | Inr v \<Rightarrow> (True, v = Some ALEMBIC_HEAD_REVISION \<and> set REQUIRED_TABLES \<subseteq> set table_names))
                 else (True, False));
          ready = (configuration_ready \<and> database_ready \<and> schema_ready)
      in (if ready then 200 else 503,
          \<lparr>rd_ready = ready, rd_database = database_ready, rd_schema = schema_ready, rd_configuration = configuration_ready\<rparr>))"

section \<open>Facts\<close>

lemma status_code_range: "status_code e \<in> {401, 403, 404, 409, 413, 415, 422, 500, 502, 503}" "status_code e = 500 \<longleftrightarrow> e = ApplicationError"
  by (cases e; simp add: status_code_def status_codes_def)+

lemma status_code_authentication: "status_code e = 401 \<longleftrightarrow> e = AuthenticationRequiredError"
  by (cases e) (simp_all add: status_code_def status_codes_def)

lemma get_port_range: "get_port decimal raw = Inr port \<Longrightarrow> 1 \<le> port \<and> port \<le> 65535"
  by (auto simp: get_port_def split: option.splits if_splits)

lemma readiness_status: "fst (readiness_check s probe) = 200 \<longleftrightarrow> rd_ready (snd (readiness_check s probe))"
  by (simp add: readiness_check_def Let_def split: prod.split)

lemma readiness_ready:
  assumes "rd_ready (snd (readiness_check s probe))"
  shows "\<exists>url tables. get_database_url s = Inr url \<and> probe url = Inr (tables, Inr (Some ALEMBIC_HEAD_REVISION)) \<and>
    set REQUIRED_TABLES \<subseteq> set tables \<and> (cfg_provider_required (cfg_provider s) \<longrightarrow> provider_is_configured s)"
  using assms by (auto simp: readiness_check_def Let_def split: sum.splits prod.splits if_splits)

text \<open>The size limit looks for the lower-case media type only.\<close>

lemma upper_case_json_passes_limit:
  "\<not> exceeds_json_limit s \<lparr>rq_headers = [(py ''content-type'', py ''Application/JSON''), (py ''content-length'', py ''999999999999'')]\<rparr>"
proof -
  have "py_strip (fst (split_at 59 (py ''Application/JSON''))) \<noteq> py ''application/json''" by code_simp
  then show ?thesis by (simp add: exceeds_json_limit_def py_def)
qed

lemma fold_update_keys: "fst ` set (fold (\<lambda>(k, v). AList.update k v) extras d) = fst ` set d \<union> fst ` set extras"
proof (induction extras arbitrary: d)
  case (Cons p extras)
  then show ?case by (cases p) (simp add: dom_update Un_commute Un_left_commute)
qed simp

definition log_extras :: "fold_table \<Rightarrow> LogRecord \<Rightarrow> json_object" where
  "log_extras table r = filter (\<lambda>(k, v). k \<notin> set reserved_fields \<and> k \<notin> {py ''message'', py ''asctime'', py ''request_id''} \<and>
     \<not> sensitive_key table k) (lg_attributes r)"

lemma log_payload_keys:
  assumes "k \<in> fst ` set (log_payload table tracebacks r context)"
  shows "k \<in> set (map py [''timestamp'', ''level'', ''logger'', ''event'', ''message'', ''request_id'', ''exception_type'']) \<or>
      k \<in> fst ` set (log_extras table r) \<or> tracebacks \<and> k = py ''exception''"
proof -
  define base where "base = [(py ''timestamp'', JStr (lg_timestamp r)), (py ''level'', JStr (lg_levelname r)),
      (py ''logger'', JStr (lg_name r)), (py ''event'', JStr (lg_message r)), (py ''message'', JStr (lg_message r))]"
  define with_id where "with_id = (case log_request_id r context of None \<Rightarrow> base | Some v \<Rightarrow> AList.update (py ''request_id'') v base)"
  define with_extras where "with_extras = fold (\<lambda>(k, v). AList.update k v) (log_extras table r) with_id"
  have payload: "log_payload table tracebacks r context = (case lg_exception r of
        None \<Rightarrow> with_extras
      | Some (name, traceback) \<Rightarrow>
          (let typed = AList.update (py ''exception_type'') (JStr name) with_extras
           in if tracebacks then AList.update (py ''exception'') (JStr traceback) typed else typed))"
    unfolding log_payload_def Let_def log_extras_def[symmetric] base_def[symmetric] with_id_def[symmetric]
      with_extras_def[symmetric] ..
  have "fst ` set base = set (map py [''timestamp'', ''level'', ''logger'', ''event'', ''message''])"
    unfolding base_def by simp
  then have "fst ` set with_id \<subseteq> set (map py [''timestamp'', ''level'', ''logger'', ''event'', ''message'', ''request_id''])"
    unfolding with_id_def by (cases "log_request_id r context") (simp_all add: dom_update)
  moreover have "fst ` set with_extras = fst ` set with_id \<union> fst ` set (log_extras table r)"
    unfolding with_extras_def by (rule fold_update_keys)
  moreover have "k = py ''exception'' \<and> tracebacks \<or> k = py ''exception_type'' \<or> k \<in> fst ` set with_extras"
  proof (cases "lg_exception r")
    case (Some p)
    with assms show ?thesis unfolding payload by (cases p) (auto simp only: Let_def dom_update option.case prod.case split: if_splits)
  qed (use assms payload in simp)
  ultimately show ?thesis by auto
qed

section \<open>Properties\<close>

text \<open>C20: Every request gets one answer, and it says only what is public. Outside debug mode the response
  carries the identifier of the request, which is the client's when it is well formed and otherwise a
  fresh one, the context variable is back at its old value, and exactly one log event closes the request. An
  oversized JSON request is refused with 413 before the application runs. Otherwise an application error
  gives its status code, public code and public message, and any other exception the fixed internal
  error, whatever it was.\<close>

theorem every_request_answered:
  assumes "\<not> cfg_debug (cfg_app s)" and "serve s phrase rq fresh app w = (response, w')"
    and "st = request_state_of s rq fresh"
  shows "ht_request_id response = Some (safe_request_id (incoming_id rq) (cfg_request_id_max_length (cfg_app s)) fresh) \<and>
    hw_context w' = hw_context w \<and>
    (if exceeds_json_limit s rq
     then ht_status response = 413 \<and> hw_state w' = hw_state w \<and> hw_log w' = hw_log w @ [RequestCompleted (st_request_id st) 413]
     else case app st (Some (st_request_id st)) (hw_state w) of (r, x) \<Rightarrow>
       hw_state w' = x \<and>
       (case r of
          Inr answer \<Rightarrow> response = answer\<lparr>ht_request_id := Some (st_request_id st)\<rparr> \<and>
            hw_log w' = hw_log w @ [RequestCompleted (st_request_id st) (ht_status answer)]
        | Inl RequestInvalid \<Rightarrow> ht_status response = 422 \<and> hw_log w' = hw_log w @ [RequestCompleted (st_request_id st) 422]
        | Inl (HttpError n) \<Rightarrow> ht_status response = n \<and> hw_log w' = hw_log w @ [RequestCompleted (st_request_id st) n]
        | Inl (Raised e) \<Rightarrow>
            (case e of
               AppExc a \<Rightarrow> ht_status response = status_code a \<and>
                 (\<exists>i. ht_body response = ErrorAnswer (error_code a) (public_message a) i) \<and>
                 (ht_www_authenticate response \<noteq> None \<longleftrightarrow> ht_status response = 401) \<and>
                 hw_log w' = hw_log w @ [RequestCompleted (st_request_id st) (status_code a)]
             | _ \<Rightarrow> ht_status response = 500 \<and>
                 (\<exists>i. ht_body response = ErrorAnswer (py ''internal_server_error'') (py ''The request could not be completed.'') i) \<and>
                 hw_log w' = hw_log w @ [RequestFailed (st_request_id st), UnhandledRequestError])))"
proof (cases "exceeds_json_limit s rq")
  case True
  with assms show ?thesis
    by (auto simp: serve_def log_requests_def Let_def request_too_large_def error_response_def request_state_of_def)
next
  case False
  obtain r x where run: "app st (Some (st_request_id st)) (hw_state w) = (r, x)" by fastforce
  have id: "st_request_id st = safe_request_id (incoming_id rq) (cfg_request_id_max_length (cfg_app s)) fresh"
    by (simp add: assms(3) request_state_of_def Let_def)
  note defs = serve_def log_requests_def Let_def handled_def error_response_def assms(3)[symmetric] run False
    handle_application_error_def handle_request_validation_error_def handle_http_error_def handle_unexpected_error_def
    status_code_authentication
  show ?thesis
  proof (cases r)
    case (Inr answer)
    with assms(1,2) run False id show ?thesis by (auto simp: defs)
  next
    case (Inl e)
    show ?thesis
    proof (cases e)
      case (Raised x)
      show ?thesis
      proof (cases "\<exists>a. x = AppExc a")
        case True
        with Inl Raised assms(1,2) run False id show ?thesis by (auto simp: defs split: if_splits)
      next
        case False
        with Inl Raised assms(1,2) run \<open>\<not> exceeds_json_limit s rq\<close> id show ?thesis by (cases x) (simp_all add: defs, auto)
      qed
    qed (use Inl assms(1,2) run False id in \<open>auto simp: defs\<close>)
  qed
qed

text \<open>Log lines hold no secrets under the names the formatter knows: a key of a formatted record that is
  sensitive under case folding is one of the formatter's own keys, and the traceback of an exception
  appears only when the settings ask for it or under a key that the caller chose.\<close>

theorem log_payload_redacted:
  assumes "(k, v) \<in> set (log_payload table tracebacks r context)"
  shows "(sensitive_key table k \<longrightarrow> k \<in> set (map py [''timestamp'', ''level'', ''logger'', ''event'', ''message'', ''request_id'',
      ''exception_type'', ''exception''])) \<and>
    (k = py ''exception'' \<and> \<not> tracebacks \<longrightarrow> k \<in> fst ` set (lg_attributes r))"
proof -
  have "k \<in> fst ` set (log_payload table tracebacks r context)" using assms by force
  moreover have "k \<in> fst ` set (lg_attributes r) \<and> \<not> sensitive_key table k" if "k \<in> fst ` set (log_extras table r)"
    using that by (force simp: log_extras_def)
  moreover have "py ''exception'' \<notin> set (map py [''timestamp'', ''level'', ''logger'', ''event'', ''message'', ''request_id'', ''exception_type''])"
    by (simp add: py_def)
  ultimately have keys: "k \<in> set (map py [''timestamp'', ''level'', ''logger'', ''event'', ''message'', ''request_id'', ''exception_type'']) \<or>
      k \<in> fst ` set (lg_attributes r) \<and> \<not> sensitive_key table k \<or> tracebacks \<and> k = py ''exception''"
    and no: "py ''exception'' \<notin> set (map py [''timestamp'', ''level'', ''logger'', ''event'', ''message'', ''request_id'', ''exception_type''])"
    using log_payload_keys[of k table tracebacks r "context"] by blast+
  have "set (map py [''timestamp'', ''level'', ''logger'', ''event'', ''message'', ''request_id'', ''exception_type'', ''exception'']) =
      insert (py ''exception'') (set (map py [''timestamp'', ''level'', ''logger'', ''event'', ''message'', ''request_id'', ''exception_type'']))"
    by auto
  with keys no show ?thesis by (metis insertCI)
qed

section \<open>Instances\<close>

definition sample_http_request :: http_request where
  "sample_http_request = \<lparr>rq_headers = [(py ''x-request-id'', py ''r-1'')]\<rparr>"

theorem every_request_answered_witness:
  "\<exists>response w'. serve sample_production (\<lambda>_. None) sample_http_request (py ''f'')
       (\<lambda>st i x. (Inl (Raised (AppExc AssessmentNotFoundError)) :: route_error + nat http_response, x + 1))
       \<lparr>hw_context = None, hw_log = [], hw_state = (0 :: nat)\<rparr> = (response, w') \<and>
     ht_request_id response = Some (py ''r-1'') \<and> ht_status response = 404 \<and> hw_state w' = 1"
proof -
  let ?app = "\<lambda>st i x. (Inl (Raised (AppExc AssessmentNotFoundError)) :: route_error + nat http_response, x + (1 :: nat))"
  obtain response w' where run: "serve sample_production (\<lambda>_. None) sample_http_request (py ''f'') ?app
      \<lparr>hw_context = None, hw_log = [], hw_state = 0\<rparr> = (response, w')" by fastforce
  have "\<not> cfg_debug (cfg_app sample_production)" "cfg_request_id_max_length (cfg_app sample_production) = 64"
    by (simp_all add: sample_production_def)
  moreover have "\<not> exceeds_json_limit sample_production sample_http_request"
    by (simp add: exceeds_json_limit_def sample_http_request_def py_def)
  moreover have "safe_request_id (incoming_id sample_http_request) 64 (py ''f'') = py ''r-1''"
    by (simp add: safe_request_id_def request_id_is_valid_def request_id_matches_def incoming_id_def sample_http_request_def
        id_start_def id_char_def py_def)
  moreover have "status_code AssessmentNotFoundError = 404" by (simp add: status_code_def status_codes_def)
  ultimately show ?thesis using every_request_answered[OF _ run refl] run by simp
qed

definition sample_log_record :: LogRecord where
  "sample_log_record =
     \<lparr>lg_timestamp = py ''t'', lg_levelname = py ''INFO'', lg_name = py ''n'', lg_message = py ''m'',
      lg_attributes = [(py ''Access_Token'', JStr (py ''s'')), (py ''path'', JStr (py ''/p''))], lg_exception = None\<rparr>"

theorem log_payload_redacted_witness:
  "py ''path'' \<in> fst ` set (log_payload ascii_fold False sample_log_record None) \<and>
   py ''Access_Token'' \<notin> fst ` set (log_payload ascii_fold False sample_log_record None)"
proof -
  have "py ''path'' \<in> fst ` set (log_payload ascii_fold False sample_log_record None)"
    "sensitive_key ascii_fold (py ''Access_Token'')" by code_simp+
  moreover have "py ''Access_Token'' \<notin> set (map py [''timestamp'', ''level'', ''logger'', ''event'', ''message'', ''request_id'',
      ''exception_type'', ''exception''])" by (simp add: py_def)
  ultimately show ?thesis using log_payload_redacted[of "py ''Access_Token''" _ ascii_fold False sample_log_record None] by auto
qed

end
