(* ===== verification/Knowledge_Store.thy ===== *)
theory Knowledge_Store
  imports Knowledge_Model "HOL-Library.Product_Lexorder"
begin

text \<open>
  The knowledge tables (\<^verbatim>\<open>app/db/models/knowledge_document.py\<close>, \<^verbatim>\<open>knowledge_chunk.py\<close>,
  \<^verbatim>\<open>knowledge_entity.py\<close>, \<^verbatim>\<open>knowledge_relationship.py\<close>) and the document and chunk repositories
  (\<^verbatim>\<open>app/repositories/knowledge_documents.py\<close>, \<^verbatim>\<open>app/repositories/knowledge_chunks.py\<close>).

  A knowledge session is the view inside the open transaction, the committed tables and a script of
  database faults, clock readings and identifiers, as for assessments. Two database functions are
  parameters: pgvector's cosine distance, and which of the qualifying rows a similarity scan visits
  (all of them, or what the approximate HNSW index yields).
\<close>

section \<open>Tables and sessions\<close>

record knowledge_tables =
  kt_documents :: "KnowledgeDocumentRecord list"
  kt_chunks :: "KnowledgeChunkRecord list"
  kt_entities :: "KnowledgeEntityRecord list"
  kt_mentions :: "KnowledgeEntityMentionRecord list"
  kt_relationships :: "KnowledgeRelationshipRecord list"

record knowledge_session =
  k_live :: knowledge_tables
  k_durable :: knowledge_tables
  k_faults :: "sql_error option list"
  k_clock :: "nat \<Rightarrow> instant"
  k_uuids :: "nat \<Rightarrow> uuid"
  k_ticks :: nat
  k_drawn :: nat

type_synonym 'a kdb = "(knowledge_session, py_exc, 'a) eff"

definition k_call :: "unit kdb" where
  "k_call = (\<lambda>s. case k_faults s of
       [] \<Rightarrow> (Inr (), s)
     | None # fs \<Rightarrow> (Inr (), s\<lparr>k_faults := fs\<rparr>)
     | Some e # fs \<Rightarrow> (Inl (SqlExc e), s\<lparr>k_faults := fs\<rparr>))"

definition k_now :: "instant kdb" where
  "k_now = (\<lambda>s. (Inr (k_clock s (k_ticks s)), s\<lparr>k_ticks := Suc (k_ticks s)\<rparr>))"

definition k_uuid4 :: "uuid kdb" where
  "k_uuid4 = (\<lambda>s. (Inr (k_uuids s (k_drawn s)), s\<lparr>k_drawn := Suc (k_drawn s)\<rparr>))"

text \<open>A query: one round trip, then the rows of the open transaction.\<close>

definition k_query :: "(knowledge_tables \<Rightarrow> 'a) \<Rightarrow> 'a kdb" where
  "k_query f = bindE k_call (\<lambda>_. getE (\<lambda>s. f (k_live s)))"

text \<open>A flush: the statement is sent, a violated constraint raises, otherwise the change is visible
  in the transaction.\<close>

definition k_flush ::
  "(knowledge_tables \<Rightarrow> sql_error option) \<Rightarrow> (knowledge_tables \<Rightarrow> knowledge_tables) \<Rightarrow> unit kdb" where
  "k_flush violation f =
     bindE k_call (\<lambda>_.
     bindE (getE (\<lambda>s. violation (k_live s))) (\<lambda>v.
       case v of
         Some e \<Rightarrow> raiseE (SqlExc e)
       | None \<Rightarrow> modifyE (\<lambda>s. s\<lparr>k_live := f (k_live s)\<rparr>)))"

definition k_commit :: "unit kdb" where
  "k_commit = bindE k_call (\<lambda>_. modifyE (\<lambda>s. s\<lparr>k_durable := k_live s\<rparr>))"

definition k_rollback :: "unit kdb" where
  "k_rollback = bindE k_call (\<lambda>_. modifyE (\<lambda>s. s\<lparr>k_live := k_durable s\<rparr>))"

section \<open>Documents\<close>

record document_args =
  da_document_id :: uuid
  da_title :: pystr
  da_source_type :: KnowledgeSourceType
  da_source_uri :: "pystr option"
  da_external_id :: "pystr option"
  da_content :: pystr
  da_metadata :: json_object
  da_content_hash :: pystr

definition document_row :: "document_args \<Rightarrow> instant \<Rightarrow> instant \<Rightarrow> KnowledgeDocumentRecord" where
  "document_row a created updated =
     \<lparr>kd_document_id = da_document_id a, kd_title = da_title a,
      kd_source_type = da_source_type a, kd_source_uri = da_source_uri a,
      kd_external_id = da_external_id a, kd_content = da_content a, kd_metadata = da_metadata a,
      kd_content_hash = da_content_hash a, kd_created_at = created, kd_updated_at = updated\<rparr>"

text \<open>The column widths and the primary key of \<open>knowledge_documents\<close>.\<close>

definition document_violation :: "KnowledgeDocumentRecord \<Rightarrow> knowledge_tables \<Rightarrow> sql_error option" where
  "document_violation d t =
     (if length (kd_title d) > 300 \<or> \<not> opt_len_ok (kd_source_uri d) 2000 \<or>
         \<not> opt_len_ok (kd_external_id d) 300 \<or> length (kd_content_hash d) > 64
      then Some OtherSQLError
      else if kd_document_id d \<in> kd_document_id ` set (kt_documents t) then Some IntegrityError
      else None)"

definition document_create :: "document_args \<Rightarrow> KnowledgeDocumentRecord kdb" where
  "document_create a =
     bindE k_now (\<lambda>created.
     bindE k_now (\<lambda>updated.
       let row = document_row a created updated
       in bindE (k_flush (document_violation row) (\<lambda>t. t\<lparr>kt_documents := kt_documents t @ [row]\<rparr>))
                (\<lambda>_. returnE row)))"

definition document_get_by_id :: "uuid \<Rightarrow> KnowledgeDocumentRecord option kdb" where
  "document_get_by_id i = k_query (\<lambda>t. find (\<lambda>d. kd_document_id d = i) (kt_documents t))"

text \<open>\<open>ORDER BY created_at, id\<close>.\<close>

definition documents_in_order :: "knowledge_tables \<Rightarrow> KnowledgeDocumentRecord list" where
  "documents_in_order t = sort_key (\<lambda>d. (kd_created_at d, kd_document_id d)) (kt_documents t)"

definition find_by_content_hash :: "pystr \<Rightarrow> KnowledgeDocumentRecord option kdb" where
  "find_by_content_hash h =
     k_query (\<lambda>t. find (\<lambda>d. kd_content_hash d = h) (documents_in_order t))"

definition document_list :: "nat \<Rightarrow> KnowledgeDocumentRecord list kdb" where
  "document_list limit = k_query (\<lambda>t. take limit (documents_in_order t))"

section \<open>Chunks\<close>

definition KNOWLEDGE_EMBEDDING_DIMENSION :: nat where
  "KNOWLEDGE_EMBEDDING_DIMENSION = 1536"

definition chunk_row :: "uuid \<Rightarrow> uuid \<Rightarrow> EmbeddedChunk \<Rightarrow> instant \<Rightarrow> KnowledgeChunkRecord" where
  "chunk_row chunk_id document_id c created =
     \<lparr>kc_chunk_id = chunk_id, kc_document_id = document_id, kc_chunk_index = ec_chunk_index c,
      kc_content = ec_content c, kc_embedding = ec_embedding c, kc_metadata = ec_metadata c,
      kc_created_at = created\<rparr>"

fun draw_ids :: "nat \<Rightarrow> uuid list kdb" where
  "draw_ids 0 = returnE []"
| "draw_ids (Suc n) = bindE k_uuid4 (\<lambda>u. bindE (draw_ids n) (\<lambda>us. returnE (u # us)))"

fun read_clocks :: "nat \<Rightarrow> instant list kdb" where
  "read_clocks 0 = returnE []"
| "read_clocks (Suc n) = bindE k_now (\<lambda>x. bindE (read_clocks n) (\<lambda>xs. returnE (x # xs)))"

text \<open>The constraints of \<open>knowledge_chunks\<close>: vector dimension, foreign key, primary key and
  the unique pair of document and index.\<close>

definition chunk_violation ::
  "KnowledgeChunkRecord list \<Rightarrow> knowledge_tables \<Rightarrow> sql_error option" where
  "chunk_violation rows t =
     (if list_ex (\<lambda>c. length (kc_embedding c) \<noteq> KNOWLEDGE_EMBEDDING_DIMENSION) rows
      then Some OtherSQLError
      else if \<not> distinct (map kc_chunk_id (kt_chunks t @ rows)) \<or>
              \<not> distinct (map (\<lambda>c. (kc_document_id c, kc_chunk_index c)) (kt_chunks t @ rows)) \<or>
              \<not> list_all (\<lambda>c. kc_document_id c \<in> kd_document_id ` set (kt_documents t)) rows
      then Some IntegrityError
      else None)"

definition bulk_create :: "uuid \<Rightarrow> EmbeddedChunk list \<Rightarrow> KnowledgeChunkRecord list kdb" where
  "bulk_create document_id chunks =
     bindE (draw_ids (length chunks)) (\<lambda>ids.
     bindE (read_clocks (length chunks)) (\<lambda>times.
       let rows = map (\<lambda>(u, c, now). chunk_row u document_id c now) (zip ids (zip chunks times))
       in bindE (k_flush (chunk_violation rows) (\<lambda>t. t\<lparr>kt_chunks := kt_chunks t @ rows\<rparr>))
                (\<lambda>_. returnE rows)))"

definition list_by_document :: "uuid \<Rightarrow> KnowledgeChunkRecord list kdb" where
  "list_by_document i =
     k_query (\<lambda>t. sort_key kc_chunk_index (filter (\<lambda>c. kc_document_id c = i) (kt_chunks t)))"

section \<open>Similarity search\<close>

record vector_database =
  vd_cosine_distance :: "rat list \<Rightarrow> rat list \<Rightarrow> rat"
  vd_scan :: "(KnowledgeChunkRecord \<times> KnowledgeDocumentRecord \<times> rat) list \<Rightarrow>
              (KnowledgeChunkRecord \<times> KnowledgeDocumentRecord \<times> rat) list"

definition chunk_evidence ::
  "KnowledgeChunkRecord \<Rightarrow> KnowledgeDocumentRecord \<Rightarrow> rat option \<Rightarrow> RetrievalSource \<Rightarrow>
     RetrievedEvidence" where
  "chunk_evidence c d score source =
     \<lparr>ev_chunk_id = kc_chunk_id c, ev_document_id = kd_document_id d,
      ev_document_title = kd_title d, ev_content = kc_content c, ev_similarity_score = score,
      ev_source_type = kd_source_type d,
      ev_metadata = [(py ''document'', JObj (kd_metadata d)), (py ''chunk'', JObj (kc_metadata c))],
      ev_retrieval_source = source\<rparr>"

text \<open>The join of chunks with their documents.\<close>

definition chunk_join ::
  "knowledge_tables \<Rightarrow> (KnowledgeChunkRecord \<times> KnowledgeDocumentRecord) list" where
  "chunk_join t =
     concat (map (\<lambda>c. map (Pair c) (filter (\<lambda>d. kd_document_id d = kc_document_id c) (kt_documents t)))
       (kt_chunks t))"

definition qualifying_rows ::
  "vector_database \<Rightarrow> rat list \<Rightarrow> rat \<Rightarrow> KnowledgeSourceType option \<Rightarrow> uuid option \<Rightarrow>
     knowledge_tables \<Rightarrow> (KnowledgeChunkRecord \<times> KnowledgeDocumentRecord \<times> rat) list" where
  "qualifying_rows db query threshold source_type document_id t =
     filter (\<lambda>(c, d, gap). gap \<le> 1 - threshold \<and>
         (case source_type of None \<Rightarrow> True | Some st \<Rightarrow> kd_source_type d = st) \<and>
         (case document_id of None \<Rightarrow> True | Some i \<Rightarrow> kc_document_id c = i))
       (map (\<lambda>(c, d). (c, d, vd_cosine_distance db (kc_embedding c) query)) (chunk_join t))"

fun first_per_chunk ::
  "uuid set \<Rightarrow> (KnowledgeChunkRecord \<times> KnowledgeDocumentRecord \<times> rat) list \<Rightarrow>
     RetrievedEvidence list" where
  "first_per_chunk seen [] = []"
| "first_per_chunk seen ((c, d, gap) # rows) =
     (if kc_chunk_id c \<in> seen then first_per_chunk seen rows
      else chunk_evidence c d (Some (1 - gap)) Retrieval_VECTOR #
           first_per_chunk (insert (kc_chunk_id c) seen) rows)"

definition search_similar ::
  "vector_database \<Rightarrow> rat list \<Rightarrow> int \<Rightarrow> rat \<Rightarrow> KnowledgeSourceType option \<Rightarrow> uuid option \<Rightarrow>
     RetrievedEvidence list kdb" where
  "search_similar db query limit threshold source_type document_id =
     bindE k_call (\<lambda>_.
       if limit < 0 then raiseE (SqlExc OtherSQLError)
       else getE (\<lambda>s. first_per_chunk {}
              (take (nat limit)
                (sort_key (\<lambda>(c, d, gap). (gap, kc_chunk_id c))
                  (vd_scan db (qualifying_rows db query threshold source_type document_id (k_live s)))))))"

section \<open>What the calls do to the session\<close>

lemma k_call_frame: "k_call s = (r, s') \<Longrightarrow> k_live s' = k_live s \<and> k_durable s' = k_durable s"
  by (auto simp: k_call_def split: list.splits option.splits)

lemma k_call_Inl: "k_call s = (Inl e, s') \<Longrightarrow> \<exists>q. e = SqlExc q"
  by (auto simp: k_call_def split: list.splits option.splits)

lemma k_query_run:
  "k_query f s = (r, s') \<Longrightarrow> k_live s' = k_live s \<and> k_durable s' = k_durable s \<and>
     (r = Inr (f (k_live s)) \<or> (\<exists>q. r = Inl (SqlExc q)))"
  by (auto simp: k_query_def bindE_def getE_def dest: k_call_frame k_call_Inl split: prod.splits sum.splits)

text \<open>\<open>k_reads m\<close>: \<open>m\<close> changes neither the tables of the transaction nor the committed ones;
  \<open>k_keeps m\<close>: it leaves the committed ones alone; \<open>k_atomic m\<close>: it does when it raises.\<close>

definition k_reads :: "'a kdb \<Rightarrow> bool" where
  "k_reads m \<longleftrightarrow> (\<forall>live durable. keepsE (\<lambda>s. k_live s = live \<and> k_durable s = durable) m)"

definition k_keeps :: "'a kdb \<Rightarrow> bool" where
  "k_keeps m \<longleftrightarrow> (\<forall>durable. keepsE (\<lambda>s. k_durable s = durable) m)"

definition k_atomic :: "'a kdb \<Rightarrow> bool" where
  "k_atomic m \<longleftrightarrow> (\<forall>s e s'. m s = (Inl e, s') \<longrightarrow> k_durable s' = k_durable s)"

lemma k_readsI:
  "(\<And>s r s'. m s = (r, s') \<Longrightarrow> k_live s' = k_live s \<and> k_durable s' = k_durable s) \<Longrightarrow> k_reads m"
  unfolding k_reads_def keepsE_def by (metis surjective_pairing)

lemma k_readsD: "k_reads m \<Longrightarrow> m s = (r, s') \<Longrightarrow> k_live s' = k_live s \<and> k_durable s' = k_durable s"
  by (auto simp: k_reads_def dest: keepsED)

lemma k_keepsI: "(\<And>s r s'. m s = (r, s') \<Longrightarrow> k_durable s' = k_durable s) \<Longrightarrow> k_keeps m"
  unfolding k_keeps_def keepsE_def by (metis surjective_pairing)

lemma k_keepsD: "k_keeps m \<Longrightarrow> m s = (r, s') \<Longrightarrow> k_durable s' = k_durable s"
  by (auto simp: k_keeps_def dest: keepsED)

lemma k_atomicD: "k_atomic m \<Longrightarrow> m s = (Inl e, s') \<Longrightarrow> k_durable s' = k_durable s"
  by (auto simp: k_atomic_def)

lemma k_reads_keeps: "k_reads m \<Longrightarrow> k_keeps m"
  by (blast intro: k_keepsI dest: k_readsD)

lemma k_keeps_atomic: "k_keeps m \<Longrightarrow> k_atomic m"
  by (auto simp: k_atomic_def dest: k_keepsD)

lemma k_reads_bind [intro!]: "k_reads m \<Longrightarrow> (\<And>x. k_reads (f x)) \<Longrightarrow> k_reads (bindE m f)"
  by (auto simp: k_reads_def)

lemma k_keeps_bind [intro!]: "k_keeps m \<Longrightarrow> (\<And>x. k_keeps (f x)) \<Longrightarrow> k_keeps (bindE m f)"
  by (auto simp: k_keeps_def)

lemma k_keeps_catch [intro!]: "k_keeps m \<Longrightarrow> (\<And>e. k_keeps (h e)) \<Longrightarrow> k_keeps (catchE m h)"
  by (auto simp: k_keeps_def)

lemma k_reads_basic [intro!, simp]:
  "k_reads (returnE x)" "k_reads (raiseE e)" "k_reads (getE g)" "k_reads (liftE r)"
  "k_reads (requireE e v)" "k_reads (guardE b e)" "k_reads k_call" "k_reads k_now" "k_reads k_uuid4"
  by (auto simp: k_reads_def intro: k_readsI[unfolded k_reads_def] k_call_frame)
     (auto simp: keepsE_def k_now_def k_uuid4_def k_call_def split: list.splits option.splits)

lemma k_reads_query [intro!, simp]: "k_reads (k_query f)"
  unfolding k_query_def by (intro k_reads_bind k_reads_basic)

lemma k_keeps_basic [intro!, simp]:
  "k_keeps (returnE x)" "k_keeps (raiseE e)" "k_keeps (getE g)" "k_keeps (liftE r)"
  "k_keeps (requireE e v)" "k_keeps (guardE b e)" "k_keeps k_call" "k_keeps k_now" "k_keeps k_uuid4"
  "k_keeps (k_query f)"
  by (rule k_reads_keeps, simp)+

lemma k_keeps_if [intro!]: "k_keeps a \<Longrightarrow> k_keeps b \<Longrightarrow> k_keeps (if c then a else b)"
  by simp

lemma k_keeps_flush [intro!, simp]: "k_keeps (k_flush v f)"
  unfolding k_flush_def
  by (intro k_keeps_bind k_keeps_basic)
     (auto simp: k_keeps_def keepsE_def modifyE_def raiseE_def split: option.split)

lemma k_flush_Inr:
  "k_flush v f s = (Inr x, s') \<Longrightarrow>
     v (k_live s) = None \<and> k_live s' = f (k_live s) \<and> k_durable s' = k_durable s"
  by (auto simp: k_flush_def eff_simps dest!: k_call_frame split: option.splits)

lemma k_commit_Inr:
  "k_commit s = (Inr x, s') \<Longrightarrow> k_live s' = k_live s \<and> k_durable s' = k_live s"
  by (auto simp: k_commit_def eff_simps dest!: k_call_frame)

lemma k_commit_atomic: "k_atomic k_commit"
  by (auto simp: k_atomic_def k_commit_def eff_simps dest!: k_call_frame)

lemma k_rollback_run:
  "k_rollback s = (r, s') \<Longrightarrow> k_durable s' = k_durable s"
  by (auto simp: k_rollback_def bindE_def modifyE_def dest!: k_call_frame split: prod.splits sum.splits)

lemma k_keeps_rollback [intro!, simp]: "k_keeps k_rollback"
  by (rule k_keepsI) (rule k_rollback_run)

text \<open>Work that only flushes, then a commit, then nothing that can raise: all or nothing.\<close>

lemma k_atomic_bind: "k_keeps m \<Longrightarrow> (\<And>x. k_atomic (f x)) \<Longrightarrow> k_atomic (bindE m f)"
  by (auto simp: k_atomic_def bindE_eq_Inl dest: k_keepsD)

lemma k_atomic_commit_return: "k_atomic (bindE k_commit (\<lambda>_. returnE x))"
  using k_commit_atomic by (auto simp: k_atomic_def bindE_eq_Inl returnE_def)

lemma k_atomic_catch: "k_atomic m \<Longrightarrow> (\<And>e. k_keeps (h e)) \<Longrightarrow> k_atomic (catchE m h)"
  by (auto simp: k_atomic_def catchE_def split: prod.splits sum.splits) (metis k_keepsD)

text \<open>\<open>raises_only P m\<close>: what \<open>m\<close> raises satisfies \<open>P\<close>.\<close>

definition raises_only :: "('e \<Rightarrow> bool) \<Rightarrow> ('s, 'e, 'a) eff \<Rightarrow> bool" where
  "raises_only P m \<longleftrightarrow> (\<forall>s e s'. m s = (Inl e, s') \<longrightarrow> P e)"

definition sql_raised :: "py_exc \<Rightarrow> bool" where
  "sql_raised e \<longleftrightarrow> (\<exists>q. e = SqlExc q)"

lemma sql_raised_simps [simp]: "sql_raised (SqlExc q)" "\<not> sql_raised (AppExc a)" "\<not> sql_raised ValueExc"
  by (simp_all add: sql_raised_def)

lemma raises_onlyD: "raises_only P m \<Longrightarrow> m s = (Inl e, s') \<Longrightarrow> P e"
  by (auto simp: raises_only_def)

lemma raises_only_bind [intro]: "raises_only P m \<Longrightarrow> (\<And>x. raises_only P (f x)) \<Longrightarrow> raises_only P (bindE m f)"
  by (fastforce simp: raises_only_def bindE_eq_Inl)

lemma raises_only_catch: "(\<And>e. raises_only P (h e)) \<Longrightarrow> raises_only P (catchE m h)"
  by (auto simp: raises_only_def catchE_def split: prod.splits sum.splits)

lemma raises_only_mono: "raises_only P m \<Longrightarrow> (\<And>e. P e \<Longrightarrow> Q e) \<Longrightarrow> raises_only Q m"
  by (auto simp: raises_only_def)

lemma raises_only_basic [intro!, simp]:
  "raises_only P (returnE x)" "raises_only P (getE g)" "raises_only P (modifyE h)"
  "raises_only P k_now" "raises_only P k_uuid4"
  "raises_only P (raiseE e) \<longleftrightarrow> P e"
  by (simp_all add: raises_only_def returnE_def getE_def modifyE_def k_now_def k_uuid4_def raiseE_def)

lemma raises_sql [intro!, simp]:
  "raises_only sql_raised k_call" "raises_only sql_raised (k_query f)" "raises_only sql_raised (k_flush v g)"
  "raises_only sql_raised k_commit" "raises_only sql_raised k_rollback"
proof -
  show call: "raises_only sql_raised k_call" by (auto simp: raises_only_def sql_raised_def dest: k_call_Inl)
  show "raises_only sql_raised (k_query f)" "raises_only sql_raised k_commit" "raises_only sql_raised k_rollback"
    unfolding k_query_def k_commit_def k_rollback_def by (intro raises_only_bind call raises_only_basic)+
  show "raises_only sql_raised (k_flush v g)"
    unfolding k_flush_def
    by (intro raises_only_bind call raises_only_basic) (simp split: option.split)
qed

section \<open>Writing documents and chunks\<close>

text \<open>Keys, foreign keys, uniqueness and check constraints of the five tables.\<close>

definition confidence_ok :: "rat \<Rightarrow> bool" where
  "confidence_ok x \<longleftrightarrow> 0 \<le> x \<and> x \<le> 1"

definition documents_wf :: "knowledge_tables \<Rightarrow> bool" where
  "documents_wf t \<longleftrightarrow>
     distinct (map kd_document_id (kt_documents t)) \<and> distinct (map kc_chunk_id (kt_chunks t)) \<and>
     distinct (map (\<lambda>c. (kc_document_id c, kc_chunk_index c)) (kt_chunks t)) \<and>
     kc_document_id ` set (kt_chunks t) \<subseteq> kd_document_id ` set (kt_documents t)"

definition entities_wf :: "knowledge_tables \<Rightarrow> bool" where
  "entities_wf t \<longleftrightarrow>
     distinct (map ken_entity_id (kt_entities t)) \<and>
     distinct (map (\<lambda>e. (ken_entity_type e, ken_normalized_name e)) (kt_entities t))"

definition mentions_wf :: "knowledge_tables \<Rightarrow> bool" where
  "mentions_wf t \<longleftrightarrow>
     distinct (map kme_mention_id (kt_mentions t)) \<and>
     distinct (map (\<lambda>m. (kme_entity_id m, kme_chunk_id m)) (kt_mentions t)) \<and>
     (\<forall>m \<in> set (kt_mentions t). confidence_ok (kme_confidence m) \<and>
        kme_entity_id m \<in> ken_entity_id ` set (kt_entities t) \<and>
        (\<exists>c \<in> set (kt_chunks t). kc_chunk_id c = kme_chunk_id m \<and> kc_document_id c = kme_document_id m))"

definition relationships_wf :: "knowledge_tables \<Rightarrow> bool" where
  "relationships_wf t \<longleftrightarrow>
     distinct (map krl_relationship_id (kt_relationships t)) \<and>
     (\<forall>r \<in> set (kt_relationships t). confidence_ok (krl_confidence r) \<and>
        krl_source_entity_id r \<noteq> krl_target_entity_id r \<and>
        {krl_source_entity_id r, krl_target_entity_id r} \<subseteq> ken_entity_id ` set (kt_entities t) \<and>
        krl_source_chunk_id r \<in> kc_chunk_id ` set (kt_chunks t))"

definition knowledge_wf :: "knowledge_tables \<Rightarrow> bool" where
  "knowledge_wf t \<longleftrightarrow> documents_wf t \<and> entities_wf t \<and> mentions_wf t \<and> relationships_wf t"

lemmas knowledge_wf_defs =
  knowledge_wf_def documents_wf_def entities_wf_def mentions_wf_def relationships_wf_def

lemma document_create_Inr:
  "document_create a s = (Inr d, s') \<Longrightarrow>
     da_document_id a \<notin> kd_document_id ` set (kt_documents (k_live s)) \<and>
     (\<exists>x y. d = document_row a x y) \<and>
     k_live s' = (k_live s)\<lparr>kt_documents := kt_documents (k_live s) @ [d]\<rparr> \<and> k_durable s' = k_durable s"
  by (auto simp: document_create_def document_violation_def document_row_def Let_def bindE_eq_Inr k_now_def
      returnE_def dest!: k_flush_Inr split: if_splits)

lemma draw_ids_run:
  "\<exists>ids s'. draw_ids n s = (Inr ids, s') \<and> length ids = n \<and> k_live s' = k_live s \<and> k_durable s' = k_durable s"
proof (induction n arbitrary: s)
  case (Suc n)
  obtain u s1 where u: "k_uuid4 s = (Inr u, s1)" "k_live s1 = k_live s" "k_durable s1 = k_durable s"
    by (simp add: k_uuid4_def)
  with Suc[of s1] show ?case by (auto simp: bindE_def returnE_def)
qed (simp add: returnE_def)

lemma read_clocks_run:
  "\<exists>xs s'. read_clocks n s = (Inr xs, s') \<and> length xs = n \<and> k_live s' = k_live s \<and> k_durable s' = k_durable s"
proof (induction n arbitrary: s)
  case (Suc n)
  obtain x s1 where x: "k_now s = (Inr x, s1)" "k_live s1 = k_live s" "k_durable s1 = k_durable s"
    by (simp add: k_now_def)
  with Suc[of s1] show ?case by (auto simp: bindE_def returnE_def)
qed (simp add: returnE_def)

text \<open>What a stored chunk holds of the embedded chunk it was made from.\<close>

definition chunk_payload :: "KnowledgeChunkRecord \<Rightarrow> EmbeddedChunk" where
  "chunk_payload c =
     \<lparr>ec_chunk_index = kc_chunk_index c, ec_content = kc_content c, ec_embedding = kc_embedding c,
      ec_metadata = kc_metadata c\<rparr>"

lemma payload_chunk_row [simp]: "chunk_payload (chunk_row u d c now) = c"
  by (simp add: chunk_payload_def chunk_row_def)

lemma bulk_create_Inr:
  assumes "bulk_create d cs s = (Inr rows, s')"
  shows "map chunk_payload rows = cs" "list_all (\<lambda>r. kc_document_id r = d) rows"
    "chunk_violation rows (k_live s) = None"
    "k_live s' = (k_live s)\<lparr>kt_chunks := kt_chunks (k_live s) @ rows\<rparr>" "k_durable s' = k_durable s"
proof -
  obtain ids s1 where ids: "draw_ids (length cs) s = (Inr ids, s1)" "length ids = length cs"
    "k_live s1 = k_live s" "k_durable s1 = k_durable s" using draw_ids_run by blast
  obtain xs s2 where xs: "read_clocks (length cs) s1 = (Inr xs, s2)" "length xs = length cs"
    "k_live s2 = k_live s1" "k_durable s2 = k_durable s1" using read_clocks_run by blast
  let ?rows = "map (\<lambda>(u, c, now). chunk_row u d c now) (zip ids (zip cs xs))"
  from assms ids xs have rows: "rows = ?rows" and
    flush: "k_flush (chunk_violation ?rows) (\<lambda>t. t\<lparr>kt_chunks := kt_chunks t @ ?rows\<rparr>) s2 = (Inr (), s')"
    by (auto simp: bulk_create_def Let_def bindE_def returnE_def split: prod.splits sum.splits)
  have "map chunk_payload ?rows = map (\<lambda>(u, c, now). c) (zip ids (zip cs xs))"
    by (simp add: case_prod_beta)
  also have "\<dots> = cs" using ids(2) xs(2) by (simp add: map_snd_zip_take case_prod_unfold map_fst_zip_take
      flip: map_map[of fst snd, unfolded comp_def])
  finally show "map chunk_payload rows = cs" by (simp add: rows)
  show "list_all (\<lambda>r. kc_document_id r = d) rows"
    by (auto simp: rows list_all_iff chunk_row_def)
  from k_flush_Inr[OF flush] ids xs show "chunk_violation rows (k_live s) = None"
    "k_live s' = (k_live s)\<lparr>kt_chunks := kt_chunks (k_live s) @ rows\<rparr>" "k_durable s' = k_durable s"
    by (simp_all add: rows)
qed

lemma k_keeps_document_create [intro!, simp]: "k_keeps (document_create a)"
  unfolding document_create_def Let_def by (intro k_keeps_bind k_keeps_flush k_keeps_basic)

lemma k_keeps_draws [intro!, simp]: "k_keeps (draw_ids n)" "k_keeps (read_clocks n)"
  by (induction n) (auto simp del: k_keeps_basic intro!: k_keeps_basic)

lemma k_keeps_bulk_create [intro!, simp]: "k_keeps (bulk_create d cs)"
  unfolding bulk_create_def Let_def by (intro k_keeps_bind k_keeps_flush k_keeps_basic k_keeps_draws)

lemma raises_sql_documents [intro!, simp]:
  "raises_only sql_raised (document_create a)" "raises_only sql_raised (find_by_content_hash h)"
  "raises_only sql_raised (list_by_document i)" "raises_only sql_raised (document_get_by_id i)"
  unfolding document_create_def find_by_content_hash_def list_by_document_def document_get_by_id_def Let_def
  by (intro raises_only_bind raises_sql raises_only_basic)+

lemma raises_sql_bulk_create [intro!, simp]: "raises_only sql_raised (bulk_create d cs)"
proof -
  have "raises_only sql_raised (draw_ids n)" "raises_only sql_raised (read_clocks n)" for n
    by (induction n) (auto intro!: raises_only_bind)
  then show ?thesis
    unfolding bulk_create_def Let_def by (intro raises_only_bind raises_sql raises_only_basic)
qed

lemma documents_wf_append:
  assumes "documents_wf t" and "kd_document_id d \<notin> kd_document_id ` set (kt_documents t)"
  shows "documents_wf (t\<lparr>kt_documents := kt_documents t @ [d]\<rparr>)"
  using assms by (auto simp: documents_wf_def)

lemma chunks_wf_append:
  assumes "documents_wf t" and "chunk_violation rows t = None"
  shows "documents_wf (t\<lparr>kt_chunks := kt_chunks t @ rows\<rparr>)"
  using assms by (auto simp: documents_wf_def chunk_violation_def list_all_iff split: if_splits)

lemma knowledge_wf_more_documents:
  "knowledge_wf t \<Longrightarrow> documents_wf (t\<lparr>kt_documents := ds, kt_chunks := kt_chunks t @ rows\<rparr>) \<Longrightarrow>
     knowledge_wf (t\<lparr>kt_documents := ds, kt_chunks := kt_chunks t @ rows\<rparr>)"
  by (fastforce simp: knowledge_wf_def entities_wf_def mentions_wf_def relationships_wf_def)

section \<open>A small store\<close>

text \<open>One document with two chunks, for the concrete instances.\<close>

definition sample_document :: KnowledgeDocumentRecord where
  "sample_document =
     \<lparr>kd_document_id = 1, kd_title = py ''Policy'', kd_source_type = Source_POLICY,
      kd_source_uri = None, kd_external_id = None, kd_content = py ''ab'', kd_metadata = [],
      kd_content_hash = py ''h'', kd_created_at = 0, kd_updated_at = 0\<rparr>"

definition sample_chunk :: "uuid \<Rightarrow> int \<Rightarrow> rat \<Rightarrow> KnowledgeChunkRecord" where
  "sample_chunk i index x =
     \<lparr>kc_chunk_id = i, kc_document_id = 1, kc_chunk_index = index, kc_content = py ''a'',
      kc_embedding = [x], kc_metadata = [], kc_created_at = 0\<rparr>"

definition sample_knowledge :: knowledge_tables where
  "sample_knowledge =
     \<lparr>kt_documents = [sample_document], kt_chunks = [sample_chunk 2 0 1, sample_chunk 3 1 0],
      kt_entities = [], kt_mentions = [], kt_relationships = []\<rparr>"

definition knowledge_session_of :: "knowledge_tables \<Rightarrow> sql_error option list \<Rightarrow> knowledge_session" where
  "knowledge_session_of t faults =
     \<lparr>k_live = t, k_durable = t, k_faults = faults, k_clock = (\<lambda>n. int n), k_uuids = (\<lambda>n. 100 + n),
      k_ticks = 0, k_drawn = 0\<rparr>"

end
