(* ===== verification/Retrieval.thy ===== *)
theory Retrieval
  imports Knowledge_Store
begin

text \<open>
  Vector retrieval and the context handed to the model (\<^verbatim>\<open>app/rag/retrieval.py\<close>,
  \<^verbatim>\<open>app/rag/context.py\<close>, \<^verbatim>\<open>app/rag/service.py\<close>). The embedding provider is a constructor argument.
  Scores are exact rationals.
\<close>

section \<open>The query\<close>

definition query_fields :: "AssessmentRequest \<Rightarrow> (string \<times> pystr option) list" where
  "query_fields r =
     [(''Company'', Some (req_company_name r)),
      (''Organization'', req_organization_description r),
      (''Industry'', Some (req_industry r)),
      (''Business problem'', Some (req_business_problem r)),
      (''Current process'', req_current_process r),
      (''Pain points'',
        if req_pain_points r = [] then None else Some (py_join (py ''; '') (req_pain_points r))),
      (''Desired outcome'', Some (req_desired_outcome r)),
      (''Constraints'',
        if req_constraints r = [] then None else Some (py_join (py ''; '') (req_constraints r)))]"

definition build_retrieval_query :: "AssessmentRequest \<Rightarrow> pystr" where
  "build_retrieval_query r =
     py_join [10] (map (\<lambda>(label, value). py label @ py '': '' @ str_or value [])
       (filter (\<lambda>f. str_truthy (snd f)) (query_fields r)))"

section \<open>The retrieval service\<close>

record RetrievalService =
  rs_database :: vector_database
  rs_embed_texts :: "pystr list \<Rightarrow> py_exc + rat list list"
  rs_top_k :: int
  rs_similarity_threshold :: rat

definition index_error :: py_exc where
  "index_error = OtherExc (py ''IndexError'')"

text \<open>\<open>with suppress(SQLAlchemyError): rollback()\<close>.\<close>

definition k_rollback_suppressed :: "unit kdb" where
  "k_rollback_suppressed =
     catchE k_rollback (\<lambda>e. case e of SqlExc q \<Rightarrow> returnE () | _ \<Rightarrow> raiseE e)"

definition knowledge_error :: "sql_error \<Rightarrow> app_error" where
  "knowledge_error q =
     (if q = OperationalError \<or> q = ProgrammingError then KnowledgeStoreUnavailableError
      else KnowledgePersistenceError)"

text \<open>\<open>sorted(..., key=(-score, str(chunk_id)))[:top_k]\<close> over the first item per chunk that meets
  the threshold.\<close>

definition score_of :: "RetrievedEvidence \<Rightarrow> rat" where
  "score_of e = (case ev_similarity_score e of None \<Rightarrow> 0 | Some x \<Rightarrow> x)"

definition rank_evidence :: "rat \<Rightarrow> int \<Rightarrow> RetrievedEvidence list \<Rightarrow> RetrievedEvidence list" where
  "rank_evidence threshold top_k evidence =
     take (nat top_k)
       (sort_key (\<lambda>e. (- score_of e, uuid_str (ev_chunk_id e)))
         (dict_values (index_by ev_chunk_id []
           (filter (\<lambda>e. threshold \<le> score_of e) evidence))))"

definition retrieval_search ::
  "RetrievalService \<Rightarrow> pystr \<Rightarrow> int option \<Rightarrow> rat option \<Rightarrow> KnowledgeSourceType option \<Rightarrow>
     uuid option \<Rightarrow> RetrievedEvidence list kdb" where
  "retrieval_search svc query top_k similarity_threshold source_type document_id =
     bindE (liftE (rs_embed_texts svc [query])) (\<lambda>vectors.
       case vectors of
         [] \<Rightarrow> raiseE index_error
       | query_embedding # _ \<Rightarrow>
           (let resolved_top_k = (case top_k of None \<Rightarrow> rs_top_k svc
                                  | Some k \<Rightarrow> if k = 0 then rs_top_k svc else k);
                resolved_threshold = (case similarity_threshold of
                    None \<Rightarrow> rs_similarity_threshold svc | Some x \<Rightarrow> x)
            in bindE (catchE (search_similar (rs_database svc) query_embedding resolved_top_k
                                resolved_threshold source_type document_id)
                        (\<lambda>e. case e of
                           SqlExc q \<Rightarrow> bindE k_rollback_suppressed
                                         (\<lambda>_. raiseE (AppExc (knowledge_error q)))
                         | _ \<Rightarrow> raiseE e)) (\<lambda>evidence.
               if list_ex (\<lambda>e. ev_similarity_score e = None) evidence then raiseE TypeExc
               else returnE (rank_evidence resolved_threshold resolved_top_k evidence))))"

section \<open>The context\<close>

text \<open>\<open>f"{x:.6f}"\<close>: the sign, the integer part and \<open>d\<close> decimals, ties to even.\<close>

definition pad_left :: "nat \<Rightarrow> pystr \<Rightarrow> pystr" where
  "pad_left n s = replicate (n - length s) 48 @ s"

definition fixed_decimals :: "nat \<Rightarrow> rat \<Rightarrow> pystr" where
  "fixed_decimals d x =
     (let n = nat (py_round (\<bar>x\<bar> * 10 ^ d))
      in (if x < 0 then [45] else []) @ nat_digits (n div 10 ^ d) @ [46] @
         pad_left d (nat_digits (n mod 10 ^ d)))"

primrec retrieval_source_value :: "RetrievalSource \<Rightarrow> pystr" where
  "retrieval_source_value Retrieval_VECTOR = py ''vector''"
| "retrieval_source_value Retrieval_GRAPH = py ''graph''"
| "retrieval_source_value Retrieval_BOTH = py ''both''"

definition NO_EVIDENCE_CONTEXT :: pystr where
  "NO_EVIDENCE_CONTEXT = py ''EXTERNAL_KNOWLEDGE_STATUS: NO_RELEVANT_EXTERNAL_EVIDENCE_RETRIEVED''"

definition source_section :: "nat \<Rightarrow> RetrievedEvidence \<Rightarrow> pystr" where
  "source_section rank item =
     py_join [10]
       [py ''BEGIN_SOURCE_'' @ nat_digits rank,
        py ''Rank: '' @ nat_digits rank,
        py ''Document: '' @ ev_document_title item,
        py ''Document ID: '' @ uuid_str (ev_document_id item),
        py ''Chunk ID: '' @ uuid_str (ev_chunk_id item),
        py ''Source type: '' @ source_type_value (ev_source_type item),
        py ''Retrieval source: '' @ retrieval_source_value (ev_retrieval_source item),
        py ''Similarity: '' @ (case ev_similarity_score item of
            Some x \<Rightarrow> fixed_decimals 6 x | None \<Rightarrow> py ''not_applicable''),
        py ''Content:'',
        ev_content item,
        py ''END_SOURCE_'' @ nat_digits rank]"

text \<open>\<open>enumerate(items, start=1)\<close>.\<close>

definition numbered :: "'a list \<Rightarrow> (nat \<times> 'a) list" where
  "numbered xs = zip [1..<Suc (length xs)] xs"

definition build_rag_context :: "RetrievedEvidence list \<Rightarrow> pystr" where
  "build_rag_context evidence =
     (if evidence = [] then NO_EVIDENCE_CONTEXT
      else py_join [10, 10]
        (py ''EXTERNAL_KNOWLEDGE_STATUS: RELEVANT_EVIDENCE_RETRIEVED'' #
         map (\<lambda>(rank, item). source_section rank item) (numbered evidence)))"

record RAGPreparation =
  rp_query :: pystr
  rp_evidence :: "RetrievedEvidence list"
  rp_context :: pystr

definition rag_prepare :: "RetrievalService \<Rightarrow> AssessmentRequest \<Rightarrow> RAGPreparation kdb" where
  "rag_prepare svc request =
     (let query = build_retrieval_query request
      in bindE (retrieval_search svc query None None None None) (\<lambda>evidence.
         returnE \<lparr>rp_query = query, rp_evidence = evidence,
                  rp_context = build_rag_context evidence\<rparr>))"

section \<open>Ranking\<close>

definition rank_key :: "RetrievedEvidence \<Rightarrow> rat \<times> pystr" where
  "rank_key e = (- score_of e, uuid_str (ev_chunk_id e))"

lemma rank_evidence_alt:
  "rank_evidence threshold top_k evidence =
     take (nat top_k) (sort_key rank_key
       (dict_values (index_by ev_chunk_id [] (filter (\<lambda>e. threshold \<le> score_of e) evidence))))"
  by (simp add: rank_evidence_def rank_key_def[abs_def])

lemma index_by_values_distinct: "distinct (map key (dict_values (index_by key [] xs)))"
  by (rule keyed_distinct[OF keyed_index_by]) simp

lemma rank_evidence_facts:
  shows "length (rank_evidence threshold top_k evidence) \<le> nat top_k"
    and "sorted (map rank_key (rank_evidence threshold top_k evidence))"
    and "distinct (map ev_chunk_id (rank_evidence threshold top_k evidence))"
    and "set (rank_evidence threshold top_k evidence) \<subseteq> {e \<in> set evidence. threshold \<le> score_of e}"
proof -
  let ?vs = "dict_values (index_by ev_chunk_id [] (filter (\<lambda>e. threshold \<le> score_of e) evidence))"
  let ?s = "sort_key rank_key ?vs"
  show "length (rank_evidence threshold top_k evidence) \<le> nat top_k"
    by (simp add: rank_evidence_alt)
  show "sorted (map rank_key (rank_evidence threshold top_k evidence))"
    unfolding rank_evidence_alt by (simp add: take_map[symmetric] sorted_wrt_take)
  have "distinct (map ev_chunk_id ?s)"
    using index_by_values_distinct[of ev_chunk_id] by (simp add: distinct_map)
  then show "distinct (map ev_chunk_id (rank_evidence threshold top_k evidence))"
    unfolding rank_evidence_alt by (simp add: take_map[symmetric])
  have "set ?vs \<subseteq> set (filter (\<lambda>e. threshold \<le> score_of e) evidence)"
    using values_index_by_subset[of ev_chunk_id "[]" "filter (\<lambda>e. threshold \<le> score_of e) evidence"]
    by (auto simp: dict_values_def)
  then show "set (rank_evidence threshold top_k evidence) \<subseteq> {e \<in> set evidence. threshold \<le> score_of e}"
    unfolding rank_evidence_alt by (auto dest!: in_set_takeD)
qed

lemma first_per_chunk_set:
  "e \<in> set (first_per_chunk seen rows) \<Longrightarrow>
     \<exists>c d gap. (c, d, gap) \<in> set rows \<and> e = chunk_evidence c d (Some (1 - gap)) Retrieval_VECTOR"
  by (induction seen rows rule: first_per_chunk.induct) (auto split: if_splits)

lemma qualifying_rowsD:
  "(c, d, gap) \<in> set (qualifying_rows db query threshold source_type document_id t) \<Longrightarrow>
     c \<in> set (kt_chunks t) \<and> d \<in> set (kt_documents t) \<and> kd_document_id d = kc_document_id c \<and>
     gap = vd_cosine_distance db (kc_embedding c) query \<and>
     (source_type = None \<or> source_type = Some (kd_source_type d)) \<and>
     (document_id = None \<or> document_id = Some (kd_document_id d))"
  by (auto simp: qualifying_rows_def chunk_join_def split: option.splits)

lemma search_similar_Inr:
  assumes "search_similar db query limit threshold source_type document_id s = (Inr ev, s')"
    and "\<forall>rows. set (vd_scan db rows) \<subseteq> set rows" and "e \<in> set ev"
  shows "\<exists>c d gap. (c, d, gap) \<in> set (qualifying_rows db query threshold source_type document_id (k_live s)) \<and>
           e = chunk_evidence c d (Some (1 - gap)) Retrieval_VECTOR"
proof -
  let ?q = "qualifying_rows db query threshold source_type document_id"
  let ?row = "\<lambda>(c, d, gap). (gap, kc_chunk_id c)"
  from assms(1) obtain s1 where "k_call s = (Inr (), s1)"
    and ev: "ev = first_per_chunk {} (take (nat limit) (sort_key ?row (vd_scan db (?q (k_live s1)))))"
    by (auto simp: search_similar_def eff_simps split: if_splits)
  then have live: "k_live s1 = k_live s" using k_call_frame by blast
  from assms(3) obtain c d gap where row:
    "(c, d, gap) \<in> set (take (nat limit) (sort_key ?row (vd_scan db (?q (k_live s1)))))"
    "e = chunk_evidence c d (Some (1 - gap)) Retrieval_VECTOR"
    unfolding ev using first_per_chunk_set by blast
  from in_set_takeD[OF row(1)] have "(c, d, gap) \<in> set (vd_scan db (?q (k_live s1)))" by simp
  with assms(2) live row(2) show ?thesis by (metis subsetD)
qed

lemma search_similar_frame:
  "search_similar db query limit threshold source_type document_id s = (r, s') \<Longrightarrow>
     k_live s' = k_live s \<and> k_durable s' = k_durable s"
  by (auto simp: search_similar_def bindE_def raiseE_def getE_def dest!: k_call_frame
      split: prod.splits sum.splits if_splits)

lemma search_similar_Inl:
  "search_similar db query limit threshold source_type document_id s = (Inl e, s') \<Longrightarrow> \<exists>q. e = SqlExc q"
  by (auto simp: search_similar_def eff_simps dest: k_call_Inl split: if_splits)

lemma rollback_suppressed: "\<exists>s'. k_rollback_suppressed s = (Inr (), s') \<and> k_durable s' = k_durable s"
proof -
  obtain r s1 where run: "k_rollback s = (r, s1)" by (cases "k_rollback s")
  then have "r = Inr () \<or> (\<exists>q. r = Inl (SqlExc q))"
    by (auto simp: k_rollback_def bindE_def modifyE_def dest: k_call_Inl split: prod.splits sum.splits)
  with run k_rollback_run[OF run] show ?thesis
    by (auto simp: k_rollback_suppressed_def catchE_def returnE_def)
qed

section \<open>Properties\<close>

text \<open>C37: a vector search returns at most the requested number of chunks, each once, best score
  first with ties broken by identifier; every item is a stored chunk with its own document, its
  score is the cosine similarity, and it meets the threshold and the filters, whichever rows an
  approximate index visits. A search never changes the store and fails only with the provider's
  error or one of the two public knowledge-store errors.\<close>

theorem retrieval_search_contract:
  assumes "retrieval_search svc query top_k similarity_threshold source_type document_id s = (out, s')"
    and "\<forall>rows. set (vd_scan (rs_database svc) rows) \<subseteq> set rows"
  shows "k_durable s' = k_durable s \<and>
    (case out of
       Inl e \<Rightarrow> e \<in> {AppExc KnowledgeStoreUnavailableError, AppExc KnowledgePersistenceError} \<or>
         rs_embed_texts svc [query] = Inl e \<or> rs_embed_texts svc [query] = Inr [] \<and> e = index_error
     | Inr evidence \<Rightarrow>
         (let k = (case top_k of None \<Rightarrow> rs_top_k svc | Some k \<Rightarrow> if k = 0 then rs_top_k svc else k);
              threshold = (case similarity_threshold of None \<Rightarrow> rs_similarity_threshold svc | Some x \<Rightarrow> x)
          in k_live s' = k_live s \<and> length evidence \<le> nat k \<and>
             sorted (map rank_key evidence) \<and> distinct (map ev_chunk_id evidence) \<and>
             list_all (\<lambda>e. threshold \<le> score_of e \<and>
               (\<exists>c d v vs. rs_embed_texts svc [query] = Inr (v # vs) \<and>
                  c \<in> set (kt_chunks (k_live s)) \<and> d \<in> set (kt_documents (k_live s)) \<and>
                  kd_document_id d = kc_document_id c \<and>
                  e = chunk_evidence c d (Some (1 - vd_cosine_distance (rs_database svc) (kc_embedding c) v))
                        Retrieval_VECTOR \<and>
                  (source_type = None \<or> source_type = Some (ev_source_type e)) \<and>
                  (document_id = None \<or> document_id = Some (ev_document_id e)))) evidence))"
proof (cases "rs_embed_texts svc [query]")
  case (Inl e)
  with assms(1) show ?thesis by (auto simp: retrieval_search_def bindE_def liftE_def)
next
  case (Inr vectors)
  show ?thesis
  proof (cases vectors)
    case Nil
    with Inr assms(1) show ?thesis
      by (auto simp: retrieval_search_def bindE_def liftE_def raiseE_def)
  next
    case (Cons v vs)
    let ?k = "case top_k of None \<Rightarrow> rs_top_k svc | Some k \<Rightarrow> if k = 0 then rs_top_k svc else k"
    let ?t = "case similarity_threshold of None \<Rightarrow> rs_similarity_threshold svc | Some x \<Rightarrow> x"
    let ?search = "search_similar (rs_database svc) v ?k ?t source_type document_id"
    obtain r s1 where run: "?search s = (r, s1)" by (cases "?search s")
    note frame = search_similar_frame[OF run]
    show ?thesis
    proof (cases r)
      case l: (Inl e)
      with run search_similar_Inl obtain q where q: "e = SqlExc q" by blast
      obtain s2 where "k_rollback_suppressed s1 = (Inr (), s2)" "k_durable s2 = k_durable s1"
        using rollback_suppressed by blast
      with assms(1) Inr Cons run l q frame show ?thesis
        by (auto simp: retrieval_search_def bindE_def liftE_def raiseE_def catchE_def Let_def knowledge_error_def)
    next
      case r: (Inr ev)
      have all: "\<exists>c d gap. (c, d, gap) \<in> set (qualifying_rows (rs_database svc) v ?t source_type document_id (k_live s)) \<and>
           e = chunk_evidence c d (Some (1 - gap)) Retrieval_VECTOR" if "e \<in> set ev" for e
        using search_similar_Inr[OF run[unfolded r] assms(2) that] .
      then have "\<not> list_ex (\<lambda>e. ev_similarity_score e = None) ev"
        by (fastforce simp: list_ex_iff chunk_evidence_def)
      with assms(1) Inr Cons run r have out: "out = Inr (rank_evidence ?t ?k ev)" "s' = s1"
        by (auto simp: retrieval_search_def bindE_def liftE_def catchE_def returnE_def Let_def)
      have item: "?t \<le> score_of e \<and>
               (\<exists>c d v' vs'. rs_embed_texts svc [query] = Inr (v' # vs') \<and>
                  c \<in> set (kt_chunks (k_live s)) \<and> d \<in> set (kt_documents (k_live s)) \<and>
                  kd_document_id d = kc_document_id c \<and>
                  e = chunk_evidence c d (Some (1 - vd_cosine_distance (rs_database svc) (kc_embedding c) v'))
                        Retrieval_VECTOR \<and>
                  (source_type = None \<or> source_type = Some (ev_source_type e)) \<and>
                  (document_id = None \<or> document_id = Some (ev_document_id e)))"
        if e: "e \<in> set (rank_evidence ?t ?k ev)" for e
      proof -
        from rank_evidence_facts(4) e have "e \<in> set ev" "?t \<le> score_of e" by blast+
        with all obtain c d gap where row:
          "(c, d, gap) \<in> set (qualifying_rows (rs_database svc) v ?t source_type document_id (k_live s))"
          and ev: "e = chunk_evidence c d (Some (1 - gap)) Retrieval_VECTOR" by blast
        note q = qualifying_rowsD[OF row]
        from ev have "ev_source_type e = kd_source_type d" "ev_document_id e = kd_document_id d"
          by (simp_all add: chunk_evidence_def)
        with q ev \<open>?t \<le> score_of e\<close> Inr Cons show ?thesis by (metis option.collapse)
      qed
      then show ?thesis
        using out frame rank_evidence_facts(1-3)[of ?t ?k ev] by (simp add: list_all_iff Let_def)
    qed
  qed
qed

definition sample_retrieval :: RetrievalService where
  "sample_retrieval =
     \<lparr>rs_database = \<lparr>vd_cosine_distance = (\<lambda>a b. if a = b then 0 else 1), vd_scan = (\<lambda>rows. rows)\<rparr>,
      rs_embed_texts = (\<lambda>xs. Inr (map (\<lambda>_. [1]) xs)), rs_top_k = 5,
      rs_similarity_threshold = 1 / 2\<rparr>"

lemma sample_search:
  "retrieval_search sample_retrieval (py ''q'') None None None None (knowledge_session_of sample_knowledge []) =
     (Inr [chunk_evidence (sample_chunk 2 0 1) sample_document (Some 1) Retrieval_VECTOR],
      knowledge_session_of sample_knowledge [])"
  by (simp add: retrieval_search_def sample_retrieval_def knowledge_session_of_def sample_knowledge_def
      bindE_def catchE_def liftE_def returnE_def getE_def search_similar_def k_call_def Let_def
      qualifying_rows_def chunk_join_def sample_chunk_def sample_document_def chunk_evidence_def
      rank_evidence_def score_of_def index_by_def dict_values_def
      dict_setdefault_def)

theorem retrieval_search_contract_witness:
  "\<exists>evidence s'. retrieval_search sample_retrieval (py ''q'') None None None None
      (knowledge_session_of sample_knowledge []) = (Inr evidence, s') \<and>
     evidence \<noteq> [] \<and> length evidence \<le> 5 \<and> sorted (map rank_key evidence) \<and>
     distinct (map ev_chunk_id evidence) \<and> list_all (\<lambda>e. 1 / 2 \<le> score_of e) evidence \<and>
     k_durable s' = sample_knowledge"
proof -
  have scan: "\<forall>rows. set (vd_scan (rs_database sample_retrieval) rows) \<subseteq> set rows"
    by (simp add: sample_retrieval_def)
  from retrieval_search_contract[OF sample_search scan] show ?thesis
    unfolding sample_search by (simp add: Let_def sample_retrieval_def knowledge_session_of_def)
qed

end
