(* ===== verification/Specialist_Model.thy ===== *)
theory Specialist_Model
  imports Tools Retrieval
begin

text \<open>
  The typed handoffs between the specialists (\<^verbatim>\<open>app/agents/multi_agent_models.py\<close>): evidence brief,
  architecture recommendation, governance review, and what \<open>model_dump(mode="json")\<close> makes of them.
  Every handoff has \<open>str_strip_whitespace\<close>; Pydantic's stripping is a parameter of the constructors,
  and \<open>strip_documented\<close> says that it removes white space at both ends and nothing else.
\<close>

section \<open>Stripping\<close>

type_synonym stripper = "pystr \<Rightarrow> pystr"

definition strip_documented :: "stripper \<Rightarrow> bool" where
  "strip_documented strip \<longleftrightarrow>
     (\<forall>s. \<exists>u v. s = u @ strip s @ v \<and> (\<forall>c \<in> set u \<union> set v. py_isspace c))"

lemma strip_length: "strip_documented strip \<Longrightarrow> length (strip s) \<le> length s"
proof -
  assume "strip_documented strip"
  then obtain u v where "s = u @ strip s @ v" unfolding strip_documented_def by blast
  then have "length s = length (u @ strip s @ v)" by simp
  then show ?thesis by simp
qed

lemma strip_tight:
  assumes "strip_documented strip" and "s \<noteq> []" and "\<not> py_isspace (hd s)" and "\<not> py_isspace (last s)"
  shows "strip s = s"
proof -
  obtain u v where s: "s = u @ strip s @ v" and sp: "\<forall>c \<in> set u \<union> set v. py_isspace c"
    using assms(1) unfolding strip_documented_def by blast
  have "u = []"
  proof (rule ccontr)
    assume "u \<noteq> []"
    then have "hd s \<in> set u" using s by (metis hd_append2 list.set_sel(1))
    then show False using sp assms(3) by blast
  qed
  moreover have "v = []"
  proof (rule ccontr)
    assume "v \<noteq> []"
    then have "last s \<in> set v" using s by (metis append_is_Nil_conv last_append last_in_set)
    then show False using sp assms(4) by blast
  qed
  ultimately show ?thesis using s by simp
qed

lemma strip_documented_py_strip: "strip_documented py_strip"
  unfolding strip_documented_def
proof
  fix s
  let ?u = "takeWhile py_isspace s" and ?v = "rev (takeWhile py_isspace (rev (dropWhile py_isspace s)))"
  have "dropWhile py_isspace s = py_strip s @ ?v"
    unfolding py_strip_def py_rstrip_def py_lstrip_def
    by (metis rev_append rev_rev_ident takeWhile_dropWhile_id)
  then have "s = ?u @ py_strip s @ ?v" by (metis takeWhile_dropWhile_id)
  moreover have "\<forall>c \<in> set ?u \<union> set ?v. py_isspace c" by (auto dest: set_takeWhileD)
  ultimately show "\<exists>u v. s = u @ py_strip s @ v \<and> (\<forall>c \<in> set u \<union> set v. py_isspace c)" by blast
qed

section \<open>The evidence brief\<close>

record EvidenceItem =
  ei_claim :: pystr
  ei_supporting_document_ids :: "uuid list"
  ei_supporting_chunk_ids :: "uuid list"
  ei_relevance :: pystr
  ei_notes :: "pystr option"

definition evidence_item_ok :: "EvidenceItem \<Rightarrow> bool" where
  "evidence_item_ok i \<longleftrightarrow>
     len_between 1 1000 (ei_claim i) \<and> length (ei_supporting_document_ids i) \<le> 20 \<and>
     length (ei_supporting_chunk_ids i) \<le> 20 \<and> len_between 1 1000 (ei_relevance i) \<and>
     opt_len_ok (ei_notes i) 1000"

text \<open>The constructor: strip every string, then check the bounds.\<close>

definition mk_evidence_item ::
  "stripper \<Rightarrow> pystr \<Rightarrow> uuid list \<Rightarrow> uuid list \<Rightarrow> pystr \<Rightarrow> pystr option \<Rightarrow> py_exc + EvidenceItem" where
  "mk_evidence_item strip claim document_ids chunk_ids relevance notes =
     (let i = \<lparr>ei_claim = strip claim, ei_supporting_document_ids = document_ids,
               ei_supporting_chunk_ids = chunk_ids, ei_relevance = strip relevance,
               ei_notes = map_option strip notes\<rparr>
      in if evidence_item_ok i then Inr i else Inl ValidationExc)"

record EvidenceBrief =
  eb_summary :: pystr
  eb_evidence_items :: "EvidenceItem list"
  eb_evidence_gaps :: "pystr list"
  eb_confidence :: SpecialistConfidence
  eb_retrieved_document_ids :: "uuid list"
  eb_retrieved_chunk_ids :: "uuid list"

text \<open>The validator \<open>EvidenceBrief.validate_item_provenance\<close>.\<close>

definition validate_item_provenance :: "EvidenceBrief \<Rightarrow> bool" where
  "validate_item_provenance b \<longleftrightarrow>
     (\<forall>i \<in> set (eb_evidence_items b).
        set (ei_supporting_document_ids i) \<subseteq> set (eb_retrieved_document_ids b) \<and>
        set (ei_supporting_chunk_ids i) \<subseteq> set (eb_retrieved_chunk_ids b))"

definition evidence_brief_ok :: "EvidenceBrief \<Rightarrow> bool" where
  "evidence_brief_ok b \<longleftrightarrow>
     len_between 1 4000 (eb_summary b) \<and> length (eb_evidence_items b) \<le> 50 \<and>
     (\<forall>i \<in> set (eb_evidence_items b). evidence_item_ok i) \<and> length (eb_evidence_gaps b) \<le> 50 \<and>
     length (eb_retrieved_document_ids b) \<le> 100 \<and> length (eb_retrieved_chunk_ids b) \<le> 100 \<and>
     validate_item_provenance b"

definition unavailable :: EvidenceBrief where
  "unavailable =
     \<lparr>eb_summary = py ''External evidence analysis was unavailable; use assessment input only.'',
      eb_evidence_items = [],
      eb_evidence_gaps = [py ''External evidence retrieval and analysis did not complete.''],
      eb_confidence = Confidence_LOW,
      eb_retrieved_document_ids = [], eb_retrieved_chunk_ids = []\<rparr>"

lemma unavailable_ok: "evidence_brief_ok unavailable"
  by (simp add: evidence_brief_ok_def unavailable_def validate_item_provenance_def)

section \<open>Architecture recommendation and governance review\<close>

record ArchitectureRecommendation =
  ar_recommended_pattern :: SolutionPattern
  ar_architecture_summary :: pystr
  ar_components :: "pystr list"
  ar_data_flow :: "pystr list"
  ar_integrations :: "pystr list"
  ar_complexity :: ComplexityLevel
  ar_implementation_assumptions :: "pystr list"
  ar_alternatives_considered :: "pystr list"
  ar_why_simpler_options_are_or_are_not_sufficient :: pystr
  ar_confidence :: SpecialistConfidence

record GovernanceRisk =
  gr_category :: RiskCategory
  gr_description :: pystr
  gr_severity :: RiskSeverity
  gr_mitigation :: pystr

record GovernanceOversight =
  go_review_required :: bool
  go_decisions_requiring_review :: "pystr list"
  go_rationale :: pystr

record RiskGovernanceReview =
  rr_overall_risk :: RiskSeverity
  rr_risks :: "GovernanceRisk list"
  rr_required_controls :: "pystr list"
  rr_human_oversight :: GovernanceOversight
  rr_auditability_requirements :: "pystr list"
  rr_unresolved_questions :: "pystr list"
  rr_confidence :: SpecialistConfidence

section \<open>JSON dumps\<close>

primrec confidence_value :: "SpecialistConfidence \<Rightarrow> pystr" where
  "confidence_value Confidence_LOW = py ''low''"
| "confidence_value Confidence_MEDIUM = py ''medium''"
| "confidence_value Confidence_HIGH = py ''high''"

primrec pattern_value :: "SolutionPattern \<Rightarrow> pystr" where
  "pattern_value DETERMINISTIC_AUTOMATION = py ''deterministic_automation''"
| "pattern_value LLM_ASSISTED_WORKFLOW = py ''llm_assisted_workflow''"
| "pattern_value RAG_DECISION_SUPPORT = py ''rag_decision_support''"
| "pattern_value TOOL_USING_AGENT = py ''tool_using_agent''"
| "pattern_value AGENTIC_WORKFLOW = py ''agentic_workflow''"

primrec complexity_value :: "ComplexityLevel \<Rightarrow> pystr" where
  "complexity_value Complexity_LOW = py ''low''"
| "complexity_value Complexity_MEDIUM = py ''medium''"
| "complexity_value Complexity_HIGH = py ''high''"

primrec category_value :: "RiskCategory \<Rightarrow> pystr" where
  "category_value Category_PRIVACY = py ''privacy''"
| "category_value Category_SECURITY = py ''security''"
| "category_value Category_HALLUCINATION = py ''hallucination''"
| "category_value Category_COMPLIANCE = py ''compliance''"
| "category_value Category_DATA_QUALITY = py ''data_quality''"
| "category_value Category_EXPLAINABILITY = py ''explainability''"
| "category_value Category_OPERATIONAL = py ''operational''"

primrec severity_value :: "RiskSeverity \<Rightarrow> pystr" where
  "severity_value Severity_LOW = py ''low''"
| "severity_value Severity_MEDIUM = py ''medium''"
| "severity_value Severity_HIGH = py ''high''"
| "severity_value Severity_CRITICAL = py ''critical''"

definition json_opt :: "('a \<Rightarrow> json) \<Rightarrow> 'a option \<Rightarrow> json" where
  "json_opt f v = (case v of None \<Rightarrow> JNull | Some x \<Rightarrow> f x)"

definition json_strs :: "pystr list \<Rightarrow> json" where
  "json_strs xs = JArr (map JStr xs)"

definition json_ids :: "uuid list \<Rightarrow> json" where
  "json_ids xs = JArr (map (\<lambda>u. JStr (uuid_str u)) xs)"

text \<open>\<open>request.model_dump(mode="json", exclude_none=True)\<close>.\<close>

definition dump_optional :: "string \<Rightarrow> pystr option \<Rightarrow> json_object" where
  "dump_optional key v = (case v of None \<Rightarrow> [] | Some s \<Rightarrow> [(py key, JStr s)])"

definition dump_request :: "AssessmentRequest \<Rightarrow> json_object" where
  "dump_request r =
     [(py ''company_name'', JStr (req_company_name r))] @
     dump_optional ''organization_description'' (req_organization_description r) @
     [(py ''industry'', JStr (req_industry r)),
      (py ''business_problem'', JStr (req_business_problem r))] @
     dump_optional ''current_process'' (req_current_process r) @
     [(py ''pain_points'', json_strs (req_pain_points r)),
      (py ''desired_outcome'', JStr (req_desired_outcome r)),
      (py ''constraints'', json_strs (req_constraints r))] @
     dump_optional ''additional_context'' (req_additional_context r)"

definition dump_evidence_item :: "EvidenceItem \<Rightarrow> json" where
  "dump_evidence_item i = JObj
     [(py ''claim'', JStr (ei_claim i)),
      (py ''supporting_document_ids'', json_ids (ei_supporting_document_ids i)),
      (py ''supporting_chunk_ids'', json_ids (ei_supporting_chunk_ids i)),
      (py ''relevance'', JStr (ei_relevance i)),
      (py ''notes'', json_opt JStr (ei_notes i))]"

definition dump_evidence_brief :: "EvidenceBrief \<Rightarrow> json" where
  "dump_evidence_brief b = JObj
     [(py ''summary'', JStr (eb_summary b)),
      (py ''evidence_items'', JArr (map dump_evidence_item (eb_evidence_items b))),
      (py ''evidence_gaps'', json_strs (eb_evidence_gaps b)),
      (py ''confidence'', JStr (confidence_value (eb_confidence b))),
      (py ''retrieved_document_ids'', json_ids (eb_retrieved_document_ids b)),
      (py ''retrieved_chunk_ids'', json_ids (eb_retrieved_chunk_ids b))]"

definition dump_architecture :: "ArchitectureRecommendation \<Rightarrow> json" where
  "dump_architecture a = JObj
     [(py ''recommended_pattern'', JStr (pattern_value (ar_recommended_pattern a))),
      (py ''architecture_summary'', JStr (ar_architecture_summary a)),
      (py ''components'', json_strs (ar_components a)),
      (py ''data_flow'', json_strs (ar_data_flow a)),
      (py ''integrations'', json_strs (ar_integrations a)),
      (py ''complexity'', JStr (complexity_value (ar_complexity a))),
      (py ''implementation_assumptions'', json_strs (ar_implementation_assumptions a)),
      (py ''alternatives_considered'', json_strs (ar_alternatives_considered a)),
      (py ''why_simpler_options_are_or_are_not_sufficient'',
         JStr (ar_why_simpler_options_are_or_are_not_sufficient a)),
      (py ''confidence'', JStr (confidence_value (ar_confidence a)))]"

definition dump_governance_risk :: "GovernanceRisk \<Rightarrow> json" where
  "dump_governance_risk r = JObj
     [(py ''category'', JStr (category_value (gr_category r))),
      (py ''description'', JStr (gr_description r)),
      (py ''severity'', JStr (severity_value (gr_severity r))),
      (py ''mitigation'', JStr (gr_mitigation r))]"

definition dump_governance_oversight :: "GovernanceOversight \<Rightarrow> json" where
  "dump_governance_oversight g = JObj
     [(py ''review_required'', JBool (go_review_required g)),
      (py ''decisions_requiring_review'', json_strs (go_decisions_requiring_review g)),
      (py ''rationale'', JStr (go_rationale g))]"

definition dump_review :: "RiskGovernanceReview \<Rightarrow> json" where
  "dump_review r = JObj
     [(py ''overall_risk'', JStr (severity_value (rr_overall_risk r))),
      (py ''risks'', JArr (map dump_governance_risk (rr_risks r))),
      (py ''required_controls'', json_strs (rr_required_controls r)),
      (py ''human_oversight'', dump_governance_oversight (rr_human_oversight r)),
      (py ''auditability_requirements'', json_strs (rr_auditability_requirements r)),
      (py ''unresolved_questions'', json_strs (rr_unresolved_questions r)),
      (py ''confidence'', JStr (confidence_value (rr_confidence r)))]"

definition dump_retrieved_evidence :: "RetrievedEvidence \<Rightarrow> json" where
  "dump_retrieved_evidence e = JObj
     [(py ''chunk_id'', JStr (uuid_str (ev_chunk_id e))),
      (py ''document_id'', JStr (uuid_str (ev_document_id e))),
      (py ''document_title'', JStr (ev_document_title e)),
      (py ''content'', JStr (ev_content e)),
      (py ''similarity_score'', json_opt JFloat (ev_similarity_score e)),
      (py ''source_type'', JStr (source_type_value (ev_source_type e))),
      (py ''metadata'', JObj (ev_metadata e)),
      (py ''retrieval_source'', JStr (retrieval_source_value (ev_retrieval_source e)))]"

definition dump_graph_entity :: "GraphEntityResult \<Rightarrow> json" where
  "dump_graph_entity e = JObj
     [(py ''entity_id'', JStr (uuid_str (ge_entity_id e))),
      (py ''entity_type'', JStr (entity_type_value (ge_entity_type e))),
      (py ''canonical_name'', JStr (ge_canonical_name e)),
      (py ''normalized_name'', JStr (ge_normalized_name e)),
      (py ''description'', json_opt JStr (ge_description e))]"

definition dump_graph_relationship :: "GraphRelationshipResult \<Rightarrow> json" where
  "dump_graph_relationship r = JObj
     [(py ''relationship_id'', JStr (uuid_str (gl_relationship_id r))),
      (py ''source_entity_id'', JStr (uuid_str (gl_source_entity_id r))),
      (py ''source_entity_name'', JStr (gl_source_entity_name r)),
      (py ''target_entity_id'', JStr (uuid_str (gl_target_entity_id r))),
      (py ''target_entity_name'', JStr (gl_target_entity_name r)),
      (py ''relationship_type'', JStr (relationship_type_value (gl_relationship_type r))),
      (py ''description'', json_opt JStr (gl_description r)),
      (py ''confidence'', JFloat (gl_confidence r)),
      (py ''source_document_id'', JStr (uuid_str (gl_source_document_id r))),
      (py ''source_chunk_id'', JStr (uuid_str (gl_source_chunk_id r)))]"

definition dump_neighborhood :: "GraphNeighborhood \<Rightarrow> json" where
  "dump_neighborhood n = JObj
     [(py ''query'', JStr (gn_query n)),
      (py ''matched_entities'', JArr (map dump_graph_entity (gn_matched_entities n))),
      (py ''related_entities'', JArr (map dump_graph_entity (gn_related_entities n))),
      (py ''relationships'', JArr (map dump_graph_relationship (gn_relationships n))),
      (py ''source_document_ids'', json_ids (gn_source_document_ids n)),
      (py ''source_chunk_ids'', json_ids (gn_source_chunk_ids n)),
      (py ''depth_used'', JInt (gn_depth_used n)),
      (py ''evidence'', JArr (map dump_retrieved_evidence (gn_evidence n)))]"

end
