(* ===== verification/File_Parsing.thy ===== *)
theory File_Parsing
  imports Specialist_Model
begin

text \<open>
  Uploaded files before they reach the knowledge base: file names and the choice of a parser
  (\<^verbatim>\<open>app/ingestion/router.py\<close>), the parsed document (\<^verbatim>\<open>app/ingestion/models.py\<close>) and the four
  parsers (\<^verbatim>\<open>app/ingestion/parsers/\<close>).

  Bytes are natural numbers. UTF-8 decoding, \<open>str.splitlines\<close>, \<open>PurePath.suffix\<close> and the heading
  pattern are defined; pypdf, python-docx, the ZIP directory and Pydantic's stripping are
  parameters.
\<close>

section \<open>Parsed documents\<close>

type_synonym bytes = "nat list"

datatype FileFormat = Format_PDF | Format_DOCX | Format_TXT | Format_MARKDOWN

primrec file_format_value :: "FileFormat \<Rightarrow> pystr" where
  "file_format_value Format_PDF = py ''pdf''"
| "file_format_value Format_DOCX = py ''docx''"
| "file_format_value Format_TXT = py ''txt''"
| "file_format_value Format_MARKDOWN = py ''markdown''"

record ParsedDocumentSegment =
  ps_text :: pystr
  ps_page_number :: "int option"
  ps_section_heading :: "pystr option"

definition mk_segment ::
  "stripper \<Rightarrow> pystr \<Rightarrow> int option \<Rightarrow> pystr option \<Rightarrow> py_exc + ParsedDocumentSegment" where
  "mk_segment strip txt page heading =
     (let g = \<lparr>ps_text = strip txt, ps_page_number = page, ps_section_heading = map_option strip heading\<rparr>
      in if ps_text g \<noteq> [] \<and> (case page of None \<Rightarrow> True | Some n \<Rightarrow> 1 \<le> n) \<and>
            opt_len_ok (ps_section_heading g) 500
         then Inr g else Inl ValidationExc)"

record ParsedDocument =
  pd_text :: pystr
  pd_title :: pystr
  pd_filename :: pystr
  pd_mime_type :: pystr
  pd_file_format :: FileFormat
  pd_source_type :: KnowledgeSourceType
  pd_page_count :: "int option"
  pd_sections :: "pystr list"
  pd_parser_name :: pystr
  pd_parser_version :: "pystr option"
  pd_extraction_method :: pystr
  pd_metadata :: json_object
  pd_segments :: "ParsedDocumentSegment list"

definition parsed_document_ok :: "ParsedDocument \<Rightarrow> bool" where
  "parsed_document_ok p \<longleftrightarrow>
     pd_text p \<noteq> [] \<and> len_between 1 300 (pd_title p) \<and> len_between 1 255 (pd_filename p) \<and>
     len_between 1 200 (pd_mime_type p) \<and>
     (case pd_page_count p of None \<Rightarrow> True | Some n \<Rightarrow> 1 \<le> n) \<and> length (pd_sections p) \<le> 1000 \<and>
     len_between 1 100 (pd_parser_name p) \<and> opt_len_ok (pd_parser_version p) 100 \<and>
     len_between 1 100 (pd_extraction_method p) \<and> length (pd_segments p) \<le> 10000"

text \<open>The constructor strips every string field and every section, then checks the bounds.\<close>

definition mk_parsed_document :: "stripper \<Rightarrow> ParsedDocument \<Rightarrow> py_exc + ParsedDocument" where
  "mk_parsed_document strip p =
     (let q = p\<lparr>pd_text := strip (pd_text p), pd_title := strip (pd_title p),
                pd_filename := strip (pd_filename p), pd_mime_type := strip (pd_mime_type p),
                pd_sections := map strip (pd_sections p),
                pd_parser_name := strip (pd_parser_name p),
                pd_parser_version := map_option strip (pd_parser_version p),
                pd_extraction_method := strip (pd_extraction_method p)\<rparr>
      in if parsed_document_ok q then Inr q else Inl ValidationExc)"

section \<open>File names\<close>

definition is_control :: "codepoint \<Rightarrow> bool" where
  "is_control c \<longleftrightarrow> c \<le> 31 \<or> c = 127"

definition MAX_FILENAME_LENGTH :: nat where
  "MAX_FILENAME_LENGTH = 255"

text \<open>\<open>s.rsplit(sep, 1)[-1]\<close> and \<open>s.split(sep, 1)[0]\<close> for one character.\<close>

definition after_last :: "codepoint \<Rightarrow> pystr \<Rightarrow> pystr" where
  "after_last sep s = rev (takeWhile (\<lambda>c. c \<noteq> sep) (rev s))"

definition before_first :: "codepoint \<Rightarrow> pystr \<Rightarrow> pystr" where
  "before_first sep s = takeWhile (\<lambda>c. c \<noteq> sep) s"

text \<open>
  \<open>PurePath(name).suffix\<close> and \<open>.stem\<close> of a name without a slash (Python 3.12): the last dot counts
  unless it is the first or the last character.
\<close>

definition path_suffix :: "pystr \<Rightarrow> pystr" where
  "path_suffix name =
     (let ext = after_last 46 name; i = length name - Suc (length ext)
      in if 46 \<in> set name \<and> 0 < i \<and> ext \<noteq> [] then 46 # ext else [])"

definition path_stem :: "pystr \<Rightarrow> pystr" where
  "path_stem name = take (length name - length (path_suffix name)) name"

definition filename_candidate :: "pystr option \<Rightarrow> pystr" where
  "filename_candidate v =
     filter (\<lambda>c. \<not> is_control c)
       (py_strip (after_last 47 (map (\<lambda>c. if c = 92 then 47 else c) (str_or v []))))"

definition bounded_filename :: "pystr \<Rightarrow> pystr" where
  "bounded_filename candidate =
     (let full = path_suffix candidate; suffix = drop (length full - 20) full
      in if length candidate > MAX_FILENAME_LENGTH
         then take (MAX_FILENAME_LENGTH - length suffix) (path_stem candidate) @ suffix
         else candidate)"

definition sanitize_filename :: "pystr option \<Rightarrow> py_exc + pystr" where
  "sanitize_filename v =
     (let candidate = filename_candidate v
      in if candidate = [] \<or> candidate = py ''.'' \<or> candidate = py ''..''
         then Inl (AppExc UnsupportedFileTypeError)
         else Inr (bounded_filename candidate))"

section \<open>Parsers and their choice\<close>

text \<open>A parser: its format and what it makes of bytes, file name and MIME type.\<close>

record DocumentParser =
  dp_file_format :: FileFormat
  dp_parse :: "bytes \<Rightarrow> pystr \<Rightarrow> pystr \<Rightarrow> py_exc + ParsedDocument"

definition MIME_TYPES :: "(pystr \<times> pystr list) list" where
  "MIME_TYPES =
     [(py ''.pdf'', [py ''application/pdf'', py ''application/x-pdf'']),
      (py ''.docx'',
        [py ''application/vnd.openxmlformats-officedocument.wordprocessingml.document'']),
      (py ''.txt'', [py ''text/plain'']),
      (py ''.md'', [py ''text/markdown'', py ''text/x-markdown'', py ''text/plain'']),
      (py ''.markdown'', [py ''text/markdown'', py ''text/x-markdown'', py ''text/plain''])]"

definition FORMAT_BY_EXTENSION :: "(pystr \<times> FileFormat) list" where
  "FORMAT_BY_EXTENSION =
     [(py ''.pdf'', Format_PDF), (py ''.docx'', Format_DOCX), (py ''.txt'', Format_TXT),
      (py ''.md'', Format_MARKDOWN), (py ''.markdown'', Format_MARKDOWN)]"

text \<open>\<open>zip_names\<close> is the member list of the ZIP archive, none for a broken one.\<close>

definition is_docx_package :: "(bytes \<Rightarrow> pystr list option) \<Rightarrow> bytes \<Rightarrow> bool" where
  "is_docx_package zip_names data \<longleftrightarrow>
     take 2 data = py ''PK'' \<and>
     (case zip_names data of
        None \<Rightarrow> False
      | Some names \<Rightarrow> py ''[Content_Types].xml'' \<in> set names \<and> py ''word/document.xml'' \<in> set names)"

record DocumentParserRouter =
  pr_parsers :: "DocumentParser list"
  pr_zip_names :: "bytes \<Rightarrow> pystr list option"
  pr_fold :: fold_table

definition parser_for :: "DocumentParserRouter \<Rightarrow> FileFormat \<Rightarrow> DocumentParser option" where
  "parser_for router f = map_of (dict_of dp_file_format (pr_parsers router)) f"

definition normalized_mime :: "fold_table \<Rightarrow> pystr option \<Rightarrow> pystr" where
  "normalized_mime table mime = py_casefold table (py_strip (before_first 59 (str_or mime [])))"

text \<open>The signature that a format requires.\<close>

primrec signature_ok :: "(bytes \<Rightarrow> pystr list option) \<Rightarrow> bytes \<Rightarrow> FileFormat \<Rightarrow> bool" where
  "signature_ok zip_names data Format_PDF \<longleftrightarrow> take 5 data = py ''%PDF-''"
| "signature_ok zip_names data Format_DOCX \<longleftrightarrow> is_docx_package zip_names data"
| "signature_ok zip_names data Format_TXT \<longleftrightarrow> 0 \<notin> set data"
| "signature_ok zip_names data Format_MARKDOWN \<longleftrightarrow> 0 \<notin> set data"

definition select_parser ::
  "DocumentParserRouter \<Rightarrow> pystr \<Rightarrow> pystr option \<Rightarrow> bytes \<Rightarrow> py_exc + DocumentParser" where
  "select_parser router filename mime_type data =
     (if data = [] then Inl (AppExc EmptyFileError)
      else let extension = py_casefold (pr_fold router) (path_suffix filename)
        in case map_of FORMAT_BY_EXTENSION extension of
             None \<Rightarrow> Inl (AppExc UnsupportedFileTypeError)
           | Some f \<Rightarrow>
               if normalized_mime (pr_fold router) mime_type \<notin>
                    set (case map_of MIME_TYPES extension of None \<Rightarrow> [] | Some ms \<Rightarrow> ms)
               then Inl (AppExc UnsupportedFileTypeError)
               else if \<not> signature_ok (pr_zip_names router) data f
               then Inl (AppExc UnsupportedFileTypeError)
               else (case parser_for router f of
                   None \<Rightarrow> Inl (AppExc UnsupportedFileTypeError)
                 | Some parser \<Rightarrow> Inr parser))"

section \<open>UTF-8\<close>

definition continuation :: "nat \<Rightarrow> bool" where
  "continuation b \<longleftrightarrow> 128 \<le> b \<and> b \<le> 191"

text \<open>One character of strict UTF-8: no overlong forms, no surrogates, nothing above U+10FFFF.\<close>

definition utf8_two :: "nat \<Rightarrow> bytes \<Rightarrow> (codepoint \<times> bytes) option" where
  "utf8_two b bs =
     (case bs of
        c # rest \<Rightarrow> if continuation c then Some ((b - 192) * 64 + (c - 128), rest) else None
      | _ \<Rightarrow> None)"

definition utf8_three :: "nat \<Rightarrow> bytes \<Rightarrow> (codepoint \<times> bytes) option" where
  "utf8_three b bs =
     (case bs of
        c # d # rest \<Rightarrow>
          if continuation c \<and> continuation d \<and> (b = 224 \<longrightarrow> 160 \<le> c) \<and> (b = 237 \<longrightarrow> c \<le> 159)
          then Some ((b - 224) * 4096 + (c - 128) * 64 + (d - 128), rest) else None
      | _ \<Rightarrow> None)"

definition utf8_four :: "nat \<Rightarrow> bytes \<Rightarrow> (codepoint \<times> bytes) option" where
  "utf8_four b bs =
     (case bs of
        c # d # e # rest \<Rightarrow>
          if continuation c \<and> continuation d \<and> continuation e \<and> (b = 240 \<longrightarrow> 144 \<le> c) \<and>
             (b = 244 \<longrightarrow> c \<le> 143)
          then Some ((b - 240) * 262144 + (c - 128) * 4096 + (d - 128) * 64 + (e - 128), rest) else None
      | _ \<Rightarrow> None)"

definition utf8_step :: "nat \<Rightarrow> bytes \<Rightarrow> (codepoint \<times> bytes) option" where
  "utf8_step b bs =
     (if b < 128 then Some (b, bs)
      else if 194 \<le> b \<and> b \<le> 223 then utf8_two b bs
      else if 224 \<le> b \<and> b \<le> 239 then utf8_three b bs
      else if 240 \<le> b \<and> b \<le> 244 then utf8_four b bs
      else None)"

lemma utf8_step_shorter: "utf8_step b bs = Some (c, rest) \<Longrightarrow> length rest \<le> length bs"
  by (auto simp: utf8_step_def utf8_two_def utf8_three_def utf8_four_def split: if_splits list.splits)

function utf8_decode :: "bytes \<Rightarrow> pystr option" where
  "utf8_decode [] = Some []"
| "utf8_decode (b # bs) =
     (case utf8_step b bs of
        None \<Rightarrow> None
      | Some (c, rest) \<Rightarrow> map_option (Cons c) (utf8_decode rest))"
  by pat_completeness auto
termination by (relation "measure length") (auto dest: utf8_step_shorter simp: less_Suc_eq_le)

text \<open>\<open>data.decode("utf-8-sig")\<close>: one leading byte order mark is dropped.\<close>

definition decode_utf8_sig :: "bytes \<Rightarrow> py_exc + pystr" where
  "decode_utf8_sig data =
     (case utf8_decode (if take 3 data = [239, 187, 191] then drop 3 data else data) of
        None \<Rightarrow> Inl ValueExc
      | Some s \<Rightarrow> Inr s)"

section \<open>The text parser\<close>

definition parse_text :: "stripper \<Rightarrow> bytes \<Rightarrow> pystr \<Rightarrow> pystr \<Rightarrow> py_exc + ParsedDocument" where
  "parse_text strip data filename mime_type =
     (case decode_utf8_sig data of
        Inl e \<Rightarrow> Inl (AppExc TextDecodeError)
      | Inr txt \<Rightarrow>
          if py_strip txt = [] then Inl (AppExc DocumentParseError)
          else (case mk_segment strip txt None None of
              Inl e \<Rightarrow> Inl e
            | Inr segment \<Rightarrow>
                mk_parsed_document strip
                  \<lparr>pd_text = txt, pd_title = path_stem filename, pd_filename = filename,
                   pd_mime_type = mime_type, pd_file_format = Format_TXT,
                   pd_source_type = Source_TEXT, pd_page_count = None, pd_sections = [],
                   pd_parser_name = py ''utf8_text'', pd_parser_version = Some (py ''1''),
                   pd_extraction_method = py ''utf8_decode'', pd_metadata = [],
                   pd_segments = [segment]\<rparr>))"

section \<open>The Markdown parser\<close>

text \<open>\<open>str.splitlines()\<close>: CR LF is one boundary, and there is no empty last line.\<close>

definition line_break :: "codepoint \<Rightarrow> bool" where
  "line_break c \<longleftrightarrow> 10 \<le> c \<and> c \<le> 13 \<or> 28 \<le> c \<and> c \<le> 30 \<or> c = 133 \<or> c = 8232 \<or> c = 8233"

fun split_lines_from :: "bool \<Rightarrow> pystr \<Rightarrow> pystr \<Rightarrow> pystr list" where
  "split_lines_from after_cr acc [] = (if acc = [] then [] else [rev acc])"
| "split_lines_from after_cr acc (c # s) =
     (if after_cr \<and> c = 10 then split_lines_from False acc s
      else if line_break c then rev acc # split_lines_from (c = 13) [] s
      else split_lines_from False (c # acc) s)"

definition splitlines :: "pystr \<Rightarrow> pystr list" where
  "splitlines s = split_lines_from False [] s"

text \<open>
  The match of \<^verbatim>\<open>^#{1,6}\s+(.+?)\s*#*\s*$\<close> on one line: the white space after the hash signs is
  taken greedily but leaves at least one character for the group, and the group is the shortest
  prefix that leaves white space, hash signs and white space.
\<close>

definition heading_tail :: "pystr \<Rightarrow> bool" where
  "heading_tail u \<longleftrightarrow>
     dropWhile py_isspace (dropWhile (\<lambda>c. c = 35) (dropWhile py_isspace u)) = []"

definition heading_group :: "pystr \<Rightarrow> pystr" where
  "heading_group t = (case find (\<lambda>j. heading_tail (drop j t)) [1..<length t] of
       Some j \<Rightarrow> take j t | None \<Rightarrow> t)"

definition heading_match :: "pystr \<Rightarrow> pystr option" where
  "heading_match line =
     (let hashes = takeWhile (\<lambda>c. c = 35) line;
          rest = dropWhile (\<lambda>c. c = 35) line;
          blanks = takeWhile py_isspace rest;
          t = dropWhile py_isspace rest
      in if hashes = [] \<or> length hashes > 6 \<or> blanks = [] then None
         else if t \<noteq> [] then Some (heading_group t)
         else if length blanks \<ge> 2 then Some [last blanks]
         else None)"

record markdown_state =
  mk_sections :: "pystr list"
  mk_segments :: "ParsedDocumentSegment list"
  mk_block :: "pystr list"
  mk_heading :: "pystr option"

definition markdown_flush :: "stripper \<Rightarrow> markdown_state \<Rightarrow> py_exc + markdown_state" where
  "markdown_flush strip m =
     (let txt = py_strip (py_join [10] (mk_block m))
      in if txt = [] then Inr (m\<lparr>mk_block := []\<rparr>)
         else (case mk_segment strip txt None (mk_heading m) of
             Inl e \<Rightarrow> Inl e
           | Inr g \<Rightarrow> Inr (m\<lparr>mk_segments := mk_segments m @ [g], mk_block := []\<rparr>)))"

fun markdown_lines :: "stripper \<Rightarrow> pystr list \<Rightarrow> markdown_state \<Rightarrow> py_exc + markdown_state" where
  "markdown_lines strip [] m = markdown_flush strip m"
| "markdown_lines strip (line # rest) m =
     (case heading_match line of
        None \<Rightarrow> markdown_lines strip rest (m\<lparr>mk_block := mk_block m @ [line]\<rparr>)
      | Some title \<Rightarrow>
          (case markdown_flush strip m of
             Inl e \<Rightarrow> Inl e
           | Inr m' \<Rightarrow>
               markdown_lines strip rest
                 (m'\<lparr>mk_heading := Some (py_strip title),
                     mk_sections := mk_sections m' @ [py_strip title],
                     mk_block := [line]\<rparr>)))"

definition parse_markdown :: "stripper \<Rightarrow> bytes \<Rightarrow> pystr \<Rightarrow> pystr \<Rightarrow> py_exc + ParsedDocument" where
  "parse_markdown strip data filename mime_type =
     (case parse_text strip data filename mime_type of
        Inl e \<Rightarrow> Inl e
      | Inr decoded \<Rightarrow>
          (case markdown_lines strip (splitlines (pd_text decoded))
                  \<lparr>mk_sections = [], mk_segments = [], mk_block = [], mk_heading = None\<rparr> of
             Inl e \<Rightarrow> Inl e
           | Inr m \<Rightarrow>
               mk_parsed_document strip
                 \<lparr>pd_text = py_join [10, 10] (map ps_text (mk_segments m)),
                  pd_title = (case mk_sections m of [] \<Rightarrow> path_stem filename | t # _ \<Rightarrow> t),
                  pd_filename = filename, pd_mime_type = mime_type,
                  pd_file_format = Format_MARKDOWN, pd_source_type = Source_MARKDOWN,
                  pd_page_count = None, pd_sections = mk_sections m,
                  pd_parser_name = py ''markdown_text'', pd_parser_version = Some (py ''1''),
                  pd_extraction_method = py ''utf8_markdown_preserved'',
                  pd_metadata = [(py ''heading_count'', JInt (int (length (mk_sections m))))],
                  pd_segments = mk_segments m\<rparr>))"

section \<open>The PDF and DOCX parsers\<close>

text \<open>What pypdf finds in a file: the encryption flag, the text of every page, the title.\<close>

record pdf_contents =
  pc_is_encrypted :: bool
  pc_pages :: "pystr list"
  pc_title :: "pystr option"

record pdf_library =
  pl_read :: "bytes \<Rightarrow> py_exc + pdf_contents"
  pl_version :: pystr

fun pdf_segments :: "stripper \<Rightarrow> int \<Rightarrow> pystr list \<Rightarrow> py_exc + ParsedDocumentSegment list" where
  "pdf_segments strip n [] = Inr []"
| "pdf_segments strip n (page # pages) =
     (if py_strip page = [] then pdf_segments strip (n + 1) pages
      else (case mk_segment strip page (Some n) None of
          Inl e \<Rightarrow> Inl e
        | Inr g \<Rightarrow> map_sum id (Cons g) (pdf_segments strip (n + 1) pages)))"

text \<open>\<open>except (PdfReadError, OSError, TypeError, ValueError, KeyError)\<close>; a \<open>ValidationError\<close> is a
  \<open>ValueError\<close>.\<close>

definition pdf_read_error :: "py_exc \<Rightarrow> bool" where
  "pdf_read_error e \<longleftrightarrow>
     e \<in> {TypeExc, ValueExc, ValidationExc, KeyExc, OtherExc (py ''PdfReadError''), OtherExc (py ''OSError'')}"

definition parse_pdf ::
  "stripper \<Rightarrow> pdf_library \<Rightarrow> int \<Rightarrow> bytes \<Rightarrow> pystr \<Rightarrow> pystr \<Rightarrow> py_exc + ParsedDocument" where
  "parse_pdf strip lib minimum_characters data filename mime_type =
     (case pl_read lib data of
        Inl e \<Rightarrow> Inl (if pdf_read_error e then AppExc DocumentParseError else e)
      | Inr contents \<Rightarrow>
          if pc_is_encrypted contents then Inl (AppExc EncryptedPDFError)
          else (case pdf_segments strip 1 (pc_pages contents) of
              Inl e \<Rightarrow> Inl (if pdf_read_error e then AppExc DocumentParseError else e)
            | Inr segments \<Rightarrow>
                (let txt = py_join [10, 10] (map ps_text segments)
                 in if int (length (filter (\<lambda>c. \<not> py_isspace c) txt)) < minimum_characters
                    then Inl (AppExc OCRRequiredError)
                    else mk_parsed_document strip
                      \<lparr>pd_text = txt,
                       pd_title = take 300 (if str_truthy (pc_title contents)
                                            then py_strip (str_or (pc_title contents) [])
                                            else path_stem filename),
                       pd_filename = filename, pd_mime_type = mime_type,
                       pd_file_format = Format_PDF, pd_source_type = Source_TEXT,
                       pd_page_count = Some (int (length (pc_pages contents))), pd_sections = [],
                       pd_parser_name = py ''pypdf'', pd_parser_version = Some (pl_version lib),
                       pd_extraction_method = py ''digital_text_per_page'',
                       pd_metadata = [(py ''page_count'', JInt (int (length (pc_pages contents)))),
                                      (py ''ocr_used'', JBool False)],
                       pd_segments = segments\<rparr>)))"

text \<open>What python-docx finds: paragraphs with their style and tables with their cells, in order.\<close>

datatype docx_block = Docx_paragraph pystr pystr | Docx_table "pystr list list"

record docx_contents =
  xc_blocks :: "docx_block list"
  xc_title :: "pystr option"

record docx_library =
  xl_read :: "bytes \<Rightarrow> py_exc + docx_contents"
  xl_version :: pystr

text \<open>\<open>row.strip(" |")\<close> is not empty.\<close>

definition row_has_text :: "pystr \<Rightarrow> bool" where
  "row_has_text row \<longleftrightarrow> (\<exists>c \<in> set row. c \<noteq> 32 \<and> c \<noteq> 124)"

definition table_text :: "pystr list list \<Rightarrow> pystr" where
  "table_text rows =
     py_join [10] (filter row_has_text (map (\<lambda>cells. py_join (py '' | '') (map py_strip cells)) rows))"

fun docx_extract ::
  "stripper \<Rightarrow> docx_block list \<Rightarrow> pystr option \<Rightarrow>
     py_exc + (ParsedDocumentSegment list \<times> pystr list)" where
  "docx_extract strip [] heading = Inr ([], [])"
| "docx_extract strip (Docx_paragraph t style # blocks) heading =
     (let txt = py_strip t
      in if txt = [] then docx_extract strip blocks heading
         else let is_heading = (take 7 style = py ''Heading'');
                  heading' = (if is_heading then Some txt else heading)
           in case mk_segment strip txt None heading' of
                Inl e \<Rightarrow> Inl e
              | Inr g \<Rightarrow>
                  map_sum id (\<lambda>(segments, sections).
                      (g # segments, if is_heading then txt # sections else sections))
                    (docx_extract strip blocks heading'))"
| "docx_extract strip (Docx_table rows # blocks) heading =
     (let txt = table_text rows
      in if txt = [] then docx_extract strip blocks heading
         else case mk_segment strip txt None heading of
                Inl e \<Rightarrow> Inl e
              | Inr g \<Rightarrow>
                  map_sum id (\<lambda>(segments, sections). (g # segments, sections))
                    (docx_extract strip blocks heading))"

definition docx_read_error :: "py_exc \<Rightarrow> bool" where
  "docx_read_error e \<longleftrightarrow>
     e \<in> {TypeExc, ValueExc, ValidationExc, KeyExc, OtherExc (py ''PackageNotFoundError''),
          OtherExc (py ''BadZipFile''), OtherExc (py ''XMLSyntaxError'')}"

definition parse_docx ::
  "stripper \<Rightarrow> docx_library \<Rightarrow> bytes \<Rightarrow> pystr \<Rightarrow> pystr \<Rightarrow> py_exc + ParsedDocument" where
  "parse_docx strip lib data filename mime_type =
     (case xl_read lib data of
        Inl e \<Rightarrow> Inl (if docx_read_error e then AppExc DocumentParseError else e)
      | Inr contents \<Rightarrow>
          (case docx_extract strip (xc_blocks contents) None of
             Inl e \<Rightarrow> Inl (if docx_read_error e then AppExc DocumentParseError else e)
           | Inr (segments, sections) \<Rightarrow>
               (let core_title = py_strip (str_or (xc_title contents) []);
                    txt = py_join [10, 10] (map ps_text segments)
                in if py_strip txt = [] then Inl (AppExc DocumentParseError)
                   else mk_parsed_document strip
                     \<lparr>pd_text = txt,
                      pd_title = take 300
                        (if core_title \<noteq> [] then core_title
                         else case sections of [] \<Rightarrow> path_stem filename | t # _ \<Rightarrow> t),
                      pd_filename = filename, pd_mime_type = mime_type,
                      pd_file_format = Format_DOCX, pd_source_type = Source_TEXT,
                      pd_page_count = None, pd_sections = sections,
                      pd_parser_name = py ''python-docx'', pd_parser_version = Some (xl_version lib),
                      pd_extraction_method = py ''ooxml_reading_order'',
                      pd_metadata = [(py ''heading_count'', JInt (int (length sections)))],
                      pd_segments = segments\<rparr>)))"

text \<open>\<open>get_file_parser_router\<close>.\<close>

definition file_parsers :: "stripper \<Rightarrow> pdf_library \<Rightarrow> docx_library \<Rightarrow> int \<Rightarrow> DocumentParser list" where
  "file_parsers strip pdf docx minimum_characters =
     [\<lparr>dp_file_format = Format_PDF, dp_parse = parse_pdf strip pdf minimum_characters\<rparr>,
      \<lparr>dp_file_format = Format_DOCX, dp_parse = parse_docx strip docx\<rparr>,
      \<lparr>dp_file_format = Format_TXT, dp_parse = parse_text strip\<rparr>,
      \<lparr>dp_file_format = Format_MARKDOWN, dp_parse = parse_markdown strip\<rparr>]"

section \<open>UTF-8 round trip\<close>

definition scalar :: "codepoint \<Rightarrow> bool" where
  "scalar c \<longleftrightarrow> c \<le> 1114111 \<and> \<not> (55296 \<le> c \<and> c \<le> 57343)"

definition utf8_encode_char :: "codepoint \<Rightarrow> bytes" where
  "utf8_encode_char c =
     (if c < 128 then [c]
      else if c < 2048 then [192 + c div 64, 128 + c mod 64]
      else if c < 65536 then [224 + c div 4096, 128 + c div 64 mod 64, 128 + c mod 64]
      else [240 + c div 262144, 128 + c div 4096 mod 64, 128 + c div 64 mod 64, 128 + c mod 64])"

definition utf8_encode :: "pystr \<Rightarrow> bytes" where
  "utf8_encode s = concat (map utf8_encode_char s)"

lemma continuation_mod: "continuation (128 + n mod 64)"
  using mod_less_divisor[of 64 n] unfolding continuation_def by linarith

lemma sextets:
  fixes u v w x :: nat
  assumes "v < 64"
  shows "(u * 64 + v) div 64 = u" and "(u * 64 + v) mod 64 = v"
    and "w < 64 \<Longrightarrow> ((u * 64 + v) * 64 + w) div 4096 = u"
    and "w < 64 \<Longrightarrow> x < 64 \<Longrightarrow> (((u * 64 + v) * 64 + w) * 64 + x) div 262144 = u"
    and "w < 64 \<Longrightarrow> x < 64 \<Longrightarrow> (((u * 64 + v) * 64 + w) * 64 + x) div 4096 = u * 64 + v"
proof -
  have d: "(a * 64 + b) div 64 = a" if "b < 64" for a b :: nat using that by simp
  show "(u * 64 + v) div 64 = u" "(u * 64 + v) mod 64 = v" using assms by simp_all
  show "((u * 64 + v) * 64 + w) div 4096 = u" if "w < 64"
    using div_mult2_eq[of "(u * 64 + v) * 64 + w" 64 64] d[OF that, of "u * 64 + v"] d[OF assms, of u] by simp
  show x: "(((u * 64 + v) * 64 + w) * 64 + x) div 4096 = u * 64 + v" if "w < 64" "x < 64"
    using div_mult2_eq[of "((u * 64 + v) * 64 + w) * 64 + x" 64 64] d[OF that(2), of "(u * 64 + v) * 64 + w"]
      d[OF that(1), of "u * 64 + v"] by simp
  show "(((u * 64 + v) * 64 + w) * 64 + x) div 262144 = u" if "w < 64" "x < 64"
    using div_mult2_eq[of "((u * 64 + v) * 64 + w) * 64 + x" 4096 64] x[OF that] d[OF assms, of u] by simp
qed

lemma utf8_step_encode:
  assumes "scalar c"
  shows "\<exists>b bs. utf8_encode_char c = b # bs \<and> utf8_step b (bs @ rest) = Some (c, rest)"
proof -
  consider "c < 128" | "128 \<le> c" "c < 2048" | "2048 \<le> c" "c < 65536" | "65536 \<le> c" by linarith
  then show ?thesis
  proof cases
    case 1
    then show ?thesis by (simp add: utf8_encode_char_def utf8_step_def)
  next
    case 2
    have "194 \<le> 192 + c div 64 \<and> 192 + c div 64 \<le> 223" using 2 by linarith
    moreover have "c div 64 * 64 + c mod 64 = c" by simp
    ultimately show ?thesis using 2
      by (simp add: utf8_encode_char_def utf8_step_def utf8_two_def continuation_mod)
  next
    case 3
    define u v w where "u = c div 64 div 64" and "v = c div 64 mod 64" and "w = c mod 64"
    have c: "c = (u * 64 + v) * 64 + w" "v < 64" "w < 64" unfolding u_def v_def w_def by simp_all
    have u: "c div 4096 = u" using sextets(3)[OF c(2,3), of u] c(1) by simp
    have flat: "c = u * 4096 + v * 64 + w" using c(1) by (simp add: algebra_simps)
    have s: "c \<le> 55295 \<or> 57344 \<le> c" using assms unfolding scalar_def by auto
    have "u \<le> 15" using 3(2) flat by linarith
    moreover have "32 \<le> v" if "u = 0" using that 3(1) flat c(3) by linarith
    moreover have "v \<le> 31" if "u = 13" using s by (rule disjE) (use that flat c(2,3) in linarith)+
    ultimately have r: "u \<le> 15" "u = 0 \<longrightarrow> 32 \<le> v" "u = 13 \<longrightarrow> v \<le> 31" by blast+
    have enc: "utf8_encode_char c = [224 + u, 128 + v, 128 + w]"
      using 3 u by (simp add: utf8_encode_char_def v_def w_def)
    have "u * 4096 + v * 64 + w = c" using c(1) by simp
    then show ?thesis using r c unfolding enc
      by (simp add: utf8_step_def utf8_three_def continuation_def)
  next
    case 4
    define u v w x where "u = c div 64 div 64 div 64" and "v = c div 64 div 64 mod 64" and "w = c div 64 mod 64"
      and "x = c mod 64"
    have c: "c = ((u * 64 + v) * 64 + w) * 64 + x" "v < 64" "w < 64" "x < 64"
      unfolding u_def v_def w_def x_def by simp_all
    have u: "c div 262144 = u" using sextets(4)[OF c(2,3,4), of u] c(1) by simp
    have v: "c div 4096 mod 64 = v" using sextets(5)[OF c(2,3,4), of u] sextets(2)[OF c(2), of u] c(1) by simp
    have flat: "c = u * 262144 + v * 4096 + w * 64 + x" using c(1) by (simp add: algebra_simps)
    have top: "c \<le> 1114111" using assms by (simp add: scalar_def)
    have "u \<le> 4" using top flat by linarith
    moreover have "16 \<le> v" if "u = 0" using that 4 flat c(3,4) by linarith
    moreover have "v \<le> 15" if "u = 4" using that top flat by linarith
    ultimately have r: "u \<le> 4" "u = 0 \<longrightarrow> 16 \<le> v" "u = 4 \<longrightarrow> v \<le> 15" by blast+
    have enc: "utf8_encode_char c = [240 + u, 128 + v, 128 + w, 128 + x]"
      using 4 u v by (simp add: utf8_encode_char_def w_def x_def)
    have "u * 262144 + v * 4096 + w * 64 + x = c" using c(1) by simp
    then show ?thesis using r c unfolding enc
      by (simp add: utf8_step_def utf8_four_def continuation_def)
  qed
qed

lemma utf8_decode_encode:
  assumes "list_all scalar s"
  shows "utf8_decode (utf8_encode s) = Some s"
  using assms
proof (induction s)
  case (Cons c s)
  obtain b bs where "utf8_encode_char c = b # bs" "utf8_step b (bs @ utf8_encode s) = Some (c, utf8_encode s)"
    using utf8_step_encode[of c "utf8_encode s"] Cons.prems by auto
  then show ?case using Cons by (simp add: utf8_encode_def)
qed (simp add: utf8_encode_def)

lemma utf8_step_canonical:
  assumes "utf8_step b bs = Some (c, rest)"
  shows "scalar c \<and> b # bs = utf8_encode_char c @ rest"
proof -
  consider "b < 128" | "194 \<le> b" "b \<le> 223" | "224 \<le> b" "b \<le> 239" | "240 \<le> b" "b \<le> 244"
    using assms by (fastforce simp: utf8_step_def split: if_splits)
  then show ?thesis
  proof cases
    case 1
    then show ?thesis using assms by (auto simp: utf8_step_def scalar_def utf8_encode_char_def)
  next
    case 2
    then obtain d where d: "bs = d # rest" "continuation d" "c = (b - 192) * 64 + (d - 128)"
      using assms by (auto simp: utf8_step_def utf8_two_def split: if_splits list.splits)
    define u v where "u = b - 192" and "v = d - 128"
    have uv: "b = 192 + u" "d = 128 + v" "2 \<le> u" "u \<le> 31" "v < 64" "c = u * 64 + v"
      using 2 d unfolding u_def v_def continuation_def by auto
    have "c div 64 = u" "c mod 64 = v" using uv by (simp_all add: div_mult_self3)
    moreover have "128 \<le> c" "c < 2048" using uv by linarith+
    ultimately show ?thesis using uv d by (simp add: scalar_def utf8_encode_char_def)
  next
    case 3
    then obtain d e where d: "bs = d # e # rest" "continuation d" "continuation e"
      "b = 224 \<longrightarrow> 160 \<le> d" "b = 237 \<longrightarrow> d \<le> 159" "c = (b - 224) * 4096 + (d - 128) * 64 + (e - 128)"
      using assms by (auto simp: utf8_step_def utf8_three_def split: if_splits list.splits)
    define u v w where "u = b - 224" and "v = d - 128" and "w = e - 128"
    have uv: "b = 224 + u" "d = 128 + v" "e = 128 + w" "u \<le> 15" "v < 64" "w < 64" "c = (u * 64 + v) * 64 + w"
      "u = 0 \<longrightarrow> 32 \<le> v" "u = 13 \<longrightarrow> v \<le> 31"
      using 3 d unfolding u_def v_def w_def continuation_def by auto
    have flat: "c = u * 4096 + v * 64 + w" using uv(7) by (simp add: algebra_simps)
    have "c div 4096 = u" "c div 64 = u * 64 + v" "c mod 64 = w" "(u * 64 + v) mod 64 = v"
      unfolding uv(7) using sextets[OF uv(5)] sextets[OF uv(6)] uv(6) by blast+
    moreover have "2048 \<le> c"
    proof (cases "u = 0")
      case True
      then show ?thesis using uv(8) flat by linarith
    next
      case False
      then have "1 \<le> u" by simp
      then show ?thesis using flat by linarith
    qed
    moreover have "c < 65536" using uv(4-6) flat by linarith
    moreover have "\<not> (55296 \<le> c \<and> c \<le> 57343)"
    proof
      assume "55296 \<le> c \<and> c \<le> 57343"
      then have "u = 13" using uv(4-6) flat by linarith
      then show False using \<open>55296 \<le> c \<and> c \<le> 57343\<close> uv(6,9) flat by linarith
    qed
    ultimately show ?thesis using uv(1-3) d(1) by (simp add: scalar_def utf8_encode_char_def)
  next
    case 4
    then obtain d e f where d: "bs = d # e # f # rest" "continuation d" "continuation e" "continuation f"
      "b = 240 \<longrightarrow> 144 \<le> d" "b = 244 \<longrightarrow> d \<le> 143"
      "c = (b - 240) * 262144 + (d - 128) * 4096 + (e - 128) * 64 + (f - 128)"
      using assms by (auto simp: utf8_step_def utf8_four_def split: if_splits list.splits)
    define u v w x where "u = b - 240" and "v = d - 128" and "w = e - 128" and "x = f - 128"
    have uv: "b = 240 + u" "d = 128 + v" "e = 128 + w" "f = 128 + x" "u \<le> 4" "v < 64" "w < 64" "x < 64"
      "u = 0 \<longrightarrow> 16 \<le> v" "u = 4 \<longrightarrow> v \<le> 15"
      using 4 d unfolding u_def v_def w_def x_def continuation_def by auto
    have flat: "c = u * 262144 + v * 4096 + w * 64 + x"
      using d(7) unfolding u_def v_def w_def x_def .
    have nested: "c = ((u * 64 + v) * 64 + w) * 64 + x" using flat by (simp add: algebra_simps)
    have "c div 262144 = u" unfolding nested using uv(6-8) by (rule sextets(4))
    moreover have "c div 4096 = u * 64 + v" unfolding nested using uv(6-8) by (rule sextets(5))
    moreover have "c div 64 = (u * 64 + v) * 64 + w" unfolding nested using uv(8) by (rule sextets(1))
    moreover have "c mod 64 = x" unfolding nested using uv(8) by (rule sextets(2))
    moreover have "(u * 64 + v) mod 64 = v" using uv(6) by (rule sextets(2))
    moreover have "((u * 64 + v) * 64 + w) mod 64 = w" using uv(7) by (rule sextets(2))
    moreover have "65536 \<le> c"
    proof (cases "u = 0")
      case True
      then show ?thesis using uv(9) flat by linarith
    next
      case False
      then have "1 \<le> u" by simp
      then show ?thesis using flat by linarith
    qed
    moreover have "c \<le> 1114111"
    proof (cases "u = 4")
      case True
      then show ?thesis using uv(7,8,10) flat by linarith
    next
      case False
      then have "u \<le> 3" using uv(5) by simp
      then show ?thesis using uv(6-8) flat by linarith
    qed
    ultimately show ?thesis using uv(1-4) d(1) by (simp add: scalar_def utf8_encode_char_def)
  qed
qed

lemma utf8_decode_canonical:
  "utf8_decode bs = Some s \<Longrightarrow> list_all scalar s \<and> bs = utf8_encode s"
proof (induction bs arbitrary: s rule: utf8_decode.induct)
  case 1
  then show ?case by (simp add: utf8_encode_def)
next
  case (2 b bs)
  then obtain c rest t where step: "utf8_step b bs = Some (c, rest)" and t: "utf8_decode rest = Some t" "s = c # t"
    by (auto split: option.splits prod.splits)
  have "list_all scalar t \<and> rest = utf8_encode t" using 2(1)[OF step refl t(1)] .
  then show ?case using utf8_step_canonical[OF step] t(2) by (simp add: utf8_encode_def)
qed

section \<open>File names\<close>

lemma after_last_absent: "sep \<notin> set (after_last sep s)"
  by (auto simp: after_last_def dest: set_takeWhileD)

lemma after_last_subset: "set (after_last sep s) \<subseteq> set s"
  by (auto simp: after_last_def dest: set_takeWhileD)

lemma py_strip_subset: "set (py_strip s) \<subseteq> set s"
  by (auto simp: py_strip_def py_rstrip_def py_lstrip_def dest!: set_dropWhileD)

lemma after_last_split: "sep \<in> set s \<Longrightarrow> \<exists>u. s = u @ sep # after_last sep s"
proof -
  assume "sep \<in> set s"
  then obtain u v where s: "s = u @ sep # v" "sep \<notin> set v" by (meson split_list_last)
  have "takeWhile (\<lambda>c. c \<noteq> sep) (rev v @ sep # rev u) = rev v" using s(2) by (subst takeWhile_append2) auto
  then have "after_last sep s = v" by (simp add: after_last_def s(1))
  with s(1) have "s = u @ sep # after_last sep s" by simp
  then show ?thesis ..
qed

lemma path_suffix_split: "\<exists>u. name = u @ path_suffix name \<and> (path_suffix name \<noteq> [] \<longrightarrow> u \<noteq> [])"
proof (cases "path_suffix name = []")
  case False
  then have dot: "46 \<in> set name" and i: "0 < length name - Suc (length (after_last 46 name))"
    and suf: "path_suffix name = 46 # after_last 46 name"
    by (auto simp: path_suffix_def Let_def split: if_splits)
  obtain u where u: "name = u @ 46 # after_last 46 name" using after_last_split[OF dot] by blast
  have "u \<noteq> []" using i u by (metis append_Nil diff_self_eq_0 length_Cons less_numeral_extra(3))
  then show ?thesis using u suf by metis
qed simp

lemma path_stem_append: "path_stem name @ path_suffix name = name"
proof -
  obtain u where u: "name = u @ path_suffix name" using path_suffix_split[of name] by blast
  have "length name - length (path_suffix name) = length u" using arg_cong[OF u, of length] by simp
  then have "path_stem name = u" unfolding path_stem_def using u by (metis append_eq_conv_conj)
  then show ?thesis using u by simp
qed

text \<open>What an accepted file name looks like.\<close>

definition filename_ok :: "pystr \<Rightarrow> bool" where
  "filename_ok n \<longleftrightarrow>
     n \<noteq> [] \<and> length n \<le> MAX_FILENAME_LENGTH \<and> n \<noteq> py ''.'' \<and> n \<noteq> py ''..'' \<and>
     list_all (\<lambda>c. \<not> is_control c \<and> c \<noteq> 47 \<and> c \<noteq> 92) n"

lemma sanitize_filename_ok:
  assumes "sanitize_filename v = Inr name"
  shows "filename_ok name"
proof -
  let ?slashed = "map (\<lambda>c. if c = 92 then 47 else c) (str_or v [])"
  define candidate where "candidate = filename_candidate v"
  have c: "candidate \<noteq> []" "candidate \<noteq> py ''.''" "candidate \<noteq> py ''..''"
    and bounded: "name = bounded_filename candidate"
    using assms unfolding sanitize_filename_def candidate_def Let_def by (auto split: if_splits)
  have chars: "list_all (\<lambda>c. \<not> is_control c \<and> c \<noteq> 47 \<and> c \<noteq> 92) candidate"
  proof -
    have "47 \<notin> set (after_last 47 ?slashed)" by (rule after_last_absent)
    moreover have "92 \<notin> set (after_last 47 ?slashed)" using after_last_subset[of 47 ?slashed] by auto
    ultimately have "47 \<notin> set (py_strip (after_last 47 ?slashed))" "92 \<notin> set (py_strip (after_last 47 ?slashed))"
      using py_strip_subset[of "after_last 47 ?slashed"] by auto
    then show ?thesis unfolding list_all_iff candidate_def filename_candidate_def set_filter by blast
  qed
  let ?full = "path_suffix candidate"
  let ?suffix = "drop (length ?full - 20) ?full"
  have name: "name = (if length candidate > MAX_FILENAME_LENGTH
      then take (MAX_FILENAME_LENGTH - length ?suffix) (path_stem candidate) @ ?suffix else candidate)"
    unfolding bounded bounded_filename_def Let_def ..
  show ?thesis
  proof (cases "length candidate > MAX_FILENAME_LENGTH")
    case False
    then show ?thesis using name c chars by (simp add: filename_ok_def)
  next
    case True
    have suf: "length ?suffix \<le> 20" by simp
    have parts: "candidate = path_stem candidate @ ?full" by (simp add: path_stem_append)
    have sub: "set name \<subseteq> set candidate"
    proof -
      have "set (path_stem candidate) \<union> set ?full = set candidate" using parts by (metis set_append)
      then show ?thesis unfolding name using True by (auto dest: in_set_takeD in_set_dropD)
    qed
    have len: "length name \<le> MAX_FILENAME_LENGTH" "2 < length name"
    proof -
      define k where "k = length ?suffix"
      have k: "k \<le> 20" unfolding k_def by simp
      have n: "length name = min (length (path_stem candidate)) (MAX_FILENAME_LENGTH - length ?suffix) + length ?suffix"
        unfolding name using True by simp
      show "length name \<le> MAX_FILENAME_LENGTH"
        using n k unfolding k_def[symmetric] MAX_FILENAME_LENGTH_def by linarith
      have big: "length (path_stem candidate) + length ?full > 255"
        using True arg_cong[OF parts, of length] by (simp add: MAX_FILENAME_LENGTH_def)
      have "k = min 20 (length ?full)" unfolding k_def by simp
      then show "2 < length name" using n k big unfolding k_def[symmetric] MAX_FILENAME_LENGTH_def by linarith
    qed
    then have "name \<noteq> []" "name \<noteq> py ''.''" "name \<noteq> py ''..''" by (auto simp: py_def)
    then show ?thesis using len chars sub unfolding filename_ok_def list_all_iff by blast
  qed
qed

section \<open>What every parser promises\<close>

text \<open>The characters of a text that are not white space: what stripping never touches.\<close>

definition ink :: "pystr \<Rightarrow> pystr" where
  "ink s = filter (\<lambda>c. \<not> py_isspace c) s"

lemma ink_append [simp]: "ink (a @ b) = ink a @ ink b"
  by (simp add: ink_def)

lemma ink_blank: "\<forall>c \<in> set s. py_isspace c \<Longrightarrow> ink s = []"
  by (simp add: ink_def)

lemma ink_strip:
  assumes "strip_documented strip"
  shows "ink (strip s) = ink s"
proof -
  obtain u v where s: "s = u @ strip s @ v" and sp: "\<forall>c \<in> set u \<union> set v. py_isspace c"
    using assms unfolding strip_documented_def by blast
  have "ink s = ink u @ ink (strip s) @ ink v" by (subst s) (simp only: ink_append)
  then show ?thesis using sp by (simp add: ink_blank)
qed

lemma ink_join: "ink sep = [] \<Longrightarrow> ink (py_join sep xs) = concat (map ink xs)"
  by (induction sep xs rule: py_join.induct) (simp_all add: ink_def)

lemma ink_newlines [simp]: "ink [10] = []" "ink [10, 10] = []"
  by (simp_all add: ink_def py_isspace_def)

definition segment_ok :: "ParsedDocumentSegment \<Rightarrow> bool" where
  "segment_ok g \<longleftrightarrow> ps_text g \<noteq> [] \<and> (case ps_page_number g of None \<Rightarrow> True | Some n \<Rightarrow> 1 \<le> n) \<and>
     opt_len_ok (ps_section_heading g) 500"

lemma mk_segment_Inr:
  "mk_segment strip txt page heading = Inr g \<Longrightarrow>
     segment_ok g \<and> ps_text g = strip txt \<and> ps_page_number g = page"
  by (auto simp: mk_segment_def segment_ok_def Let_def split: if_splits)

text \<open>The fields that every parser fills the same way, and that no character is lost or reordered
  between the document's text and its segments.\<close>

definition parsed_from :: "stripper \<Rightarrow> FileFormat \<Rightarrow> pystr \<Rightarrow> pystr \<Rightarrow> ParsedDocument \<Rightarrow> bool" where
  "parsed_from strip fmt filename mime_type p \<longleftrightarrow>
     parsed_document_ok p \<and> pd_file_format p = fmt \<and> pd_filename p = strip filename \<and>
     pd_mime_type p = strip mime_type \<and> list_all segment_ok (pd_segments p)"

locale document_parser =
  fixes strip :: stripper and parse :: "bytes \<Rightarrow> pystr \<Rightarrow> pystr \<Rightarrow> py_exc + ParsedDocument"
    and fmt :: FileFormat
  assumes parsed: "parse data filename mime_type = Inr p \<Longrightarrow> parsed_from strip fmt filename mime_type p"
    and conserved: "strip_documented strip \<Longrightarrow> parse data filename mime_type = Inr p \<Longrightarrow>
      ink (pd_text p) = concat (map (\<lambda>g. ink (ps_text g)) (pd_segments p))"
begin

lemma field_bounds:
  assumes "parse data filename mime_type = Inr p"
  shows "pd_text p \<noteq> []" and "len_between 1 300 (pd_title p)" and "len_between 1 255 (pd_filename p)"
    and "length (pd_sections p) \<le> 1000" and "length (pd_segments p) \<le> 10000"
  using parsed[OF assms] unfolding parsed_from_def parsed_document_ok_def by blast+

lemma inked_segment:
  assumes "strip_documented strip" and "parse data filename mime_type = Inr p"
    and "\<not> (\<forall>c \<in> set (pd_text p). py_isspace c)"
  shows "\<exists>g \<in> set (pd_segments p). segment_ok g \<and> ink (ps_text g) \<noteq> []"
proof -
  have "ink (pd_text p) \<noteq> []" using assms(3) by (auto simp: ink_def filter_empty_conv)
  then have "\<exists>g \<in> set (pd_segments p). ink (ps_text g) \<noteq> []" using conserved[OF assms(1,2)] by auto
  then show ?thesis using parsed[OF assms(2)] by (auto simp: parsed_from_def list_all_iff)
qed

end

lemma mk_parsed_document_from:
  "mk_parsed_document strip q = Inr p \<Longrightarrow>
     parsed_document_ok p \<and> pd_file_format p = pd_file_format q \<and> pd_filename p = strip (pd_filename q) \<and>
     pd_mime_type p = strip (pd_mime_type q) \<and> pd_text p = strip (pd_text q) \<and> pd_segments p = pd_segments q"
  by (auto simp: mk_parsed_document_def Let_def split: if_splits)

lemma joined_conserved:
  assumes "strip_documented strip" and "pd_text p = strip (py_join [10, 10] (map ps_text gs))"
  shows "ink (pd_text p) = concat (map (\<lambda>g. ink (ps_text g)) gs)"
  using assms by (simp add: ink_strip ink_join comp_def)

lemma parse_text_Inr:
  assumes "parse_text strip data filename mime_type = Inr p"
  shows "\<exists>txt. decode_utf8_sig data = Inr txt \<and> py_strip txt \<noteq> [] \<and>
    parsed_from strip Format_TXT filename mime_type p \<and> pd_text p = strip txt \<and>
    map ps_text (pd_segments p) = [strip txt]"
proof -
  obtain body g where t: "decode_utf8_sig data = Inr body" "py_strip body \<noteq> []"
    "mk_segment strip body None None = Inr g"
    using assms by (auto simp: parse_text_def split: sum.splits if_splits)
  with assms have "parsed_from strip Format_TXT filename mime_type p \<and> pd_text p = strip body \<and> pd_segments p = [g]"
    using mk_segment_Inr[OF t(3)]
    by (auto simp: parse_text_def parsed_from_def dest: mk_parsed_document_from)
  with t mk_segment_Inr[OF t(3)] show ?thesis by auto
qed

lemma markdown_flush_Inr:
  "markdown_flush strip m = Inr m' \<Longrightarrow> list_all segment_ok (mk_segments m) \<Longrightarrow> list_all segment_ok (mk_segments m')"
  by (auto simp: markdown_flush_def Let_def dest: mk_segment_Inr split: if_splits sum.splits)

lemma markdown_lines_Inr:
  "markdown_lines strip ls m = Inr m' \<Longrightarrow> list_all segment_ok (mk_segments m) \<Longrightarrow> list_all segment_ok (mk_segments m')"
proof (induction strip ls m rule: markdown_lines.induct)
  case (2 strip line rest m)
  then show ?case by (auto dest: markdown_flush_Inr split: option.splits sum.splits)
qed (simp add: markdown_flush_Inr)

lemma parse_markdown_Inr:
  assumes "parse_markdown strip data filename mime_type = Inr p"
  shows "parsed_from strip Format_MARKDOWN filename mime_type p \<and>
    pd_text p = strip (py_join [10, 10] (map ps_text (pd_segments p)))"
proof -
  obtain decoded m where "parse_text strip data filename mime_type = Inr decoded"
    and "markdown_lines strip (splitlines (pd_text decoded))
        \<lparr>mk_sections = [], mk_segments = [], mk_block = [], mk_heading = None\<rparr> = Inr m"
    using assms by (auto simp: parse_markdown_def split: sum.splits)
  moreover from markdown_lines_Inr[OF this(2)] have "list_all segment_ok (mk_segments m)" by simp
  ultimately show ?thesis using assms
    by (auto simp: parse_markdown_def parsed_from_def dest: mk_parsed_document_from)
qed

lemma pdf_segments_Inr: "pdf_segments strip n pages = Inr gs \<Longrightarrow> list_all segment_ok gs"
  by (induction strip n pages arbitrary: gs rule: pdf_segments.induct)
     (auto simp: map_sum_eq_Inr dest: mk_segment_Inr split: if_splits sum.splits)

lemma parse_pdf_Inr:
  assumes "parse_pdf strip lib n data filename mime_type = Inr p"
  shows "parsed_from strip Format_PDF filename mime_type p \<and>
    pd_text p = strip (py_join [10, 10] (map ps_text (pd_segments p)))"
  using assms
  by (auto simp: parse_pdf_def parsed_from_def Let_def dest!: mk_parsed_document_from pdf_segments_Inr split: sum.splits if_splits)

lemma docx_extract_Inr: "docx_extract strip blocks heading = Inr (gs, hs) \<Longrightarrow> list_all segment_ok gs"
  by (induction strip blocks heading arbitrary: gs hs rule: docx_extract.induct)
     (auto simp: Let_def map_sum_eq_Inr dest: mk_segment_Inr split: if_splits sum.splits)

lemma parse_docx_Inr:
  assumes "parse_docx strip lib data filename mime_type = Inr p"
  shows "parsed_from strip Format_DOCX filename mime_type p \<and>
    pd_text p = strip (py_join [10, 10] (map ps_text (pd_segments p)))"
proof -
  obtain contents segments sections where r: "xl_read lib data = Inr contents"
    and x: "docx_extract strip (xc_blocks contents) None = Inr (segments, sections)"
    using assms by (auto simp: parse_docx_def split: sum.splits)
  have "py_strip (py_join [10, 10] (map ps_text segments)) \<noteq> []"
    using assms by (auto simp: parse_docx_def r x Let_def split: if_splits)
  with assms docx_extract_Inr[OF x] show ?thesis
    by (auto simp: parse_docx_def r x Let_def parsed_from_def simp del: split_paired_Ex dest: mk_parsed_document_from)
qed

interpretation text_parser: document_parser strip "parse_text strip" Format_TXT
proof unfold_locales
  fix data filename mime_type p
  assume run: "parse_text strip data filename mime_type = Inr p"
  obtain body where t: "parsed_from strip Format_TXT filename mime_type p" "pd_text p = strip body"
    "map ps_text (pd_segments p) = [strip body]" using parse_text_Inr[OF run] by (elim exE conjE) (rule that)
  show "parsed_from strip Format_TXT filename mime_type p" by (rule t(1))
  have "map (\<lambda>g. ink (ps_text g)) (pd_segments p) = [ink (strip body)]"
    using arg_cong[OF t(3), of "map ink"] by (simp add: comp_def)
  then show "ink (pd_text p) = concat (map (\<lambda>g. ink (ps_text g)) (pd_segments p))" using t(2) by simp
qed

interpretation markdown_parser: document_parser strip "parse_markdown strip" Format_MARKDOWN
  by unfold_locales (auto dest: parse_markdown_Inr intro: joined_conserved)

interpretation pdf_parser: document_parser strip "parse_pdf strip lib n" Format_PDF
  by unfold_locales (auto dest: parse_pdf_Inr intro: joined_conserved)

interpretation docx_parser: document_parser strip "parse_docx strip lib" Format_DOCX
  by unfold_locales (auto dest: parse_docx_Inr intro: joined_conserved)

lemmas parser_contracts =
  text_parser.document_parser_axioms markdown_parser.document_parser_axioms
  pdf_parser.document_parser_axioms docx_parser.document_parser_axioms

text \<open>Whatever parser is selected from \<open>get_file_parser_router\<close> keeps the contract for its format.\<close>

lemma select_parser_Inr:
  assumes "select_parser router filename mime data = Inr parser"
    and "pr_parsers router = file_parsers strip pdf docx n"
  shows "document_parser strip (dp_parse parser) (dp_file_format parser) \<and>
    signature_ok (pr_zip_names router) data (dp_file_format parser) \<and>
    map_of FORMAT_BY_EXTENSION (py_casefold (pr_fold router) (path_suffix filename)) = Some (dp_file_format parser)"
proof -
  obtain f where f: "map_of FORMAT_BY_EXTENSION (py_casefold (pr_fold router) (path_suffix filename)) = Some f"
    "signature_ok (pr_zip_names router) data f" "parser_for router f = Some parser"
    using assms(1) by (auto simp: select_parser_def Let_def split: if_splits option.splits)
  have "distinct (map dp_file_format (file_parsers strip pdf docx n))" by (simp add: file_parsers_def)
  then have "(f, parser) \<in> set (map (\<lambda>p. (dp_file_format p, p)) (file_parsers strip pdf docx n))"
    using map_of_SomeD[OF f(3)[unfolded parser_for_def assms(2)]] by (simp add: dict_of_distinct)
  then have "dp_file_format parser = f \<and> document_parser strip (dp_parse parser) f"
    by (auto simp: file_parsers_def parser_contracts)
  with f show ?thesis by simp
qed

section \<open>Text files\<close>

text \<open>The files that hold the text \<open>s\<close>: its UTF-8 encoding, with or without a byte order mark in front.\<close>

definition utf8_text :: "bytes \<Rightarrow> pystr \<Rightarrow> bool" where
  "utf8_text data s \<longleftrightarrow>
     list_all scalar s \<and>
     (data = utf8_encode (65279 # s) \<or> data = utf8_encode s \<and> \<not> (\<exists>t. s = 65279 # t))"

lemma bom_bytes: "utf8_encode_char 65279 = [239, 187, 191]"
  by (simp add: utf8_encode_char_def)

lemma utf8_decode_iff: "utf8_decode bs = Some s \<longleftrightarrow> list_all scalar s \<and> bs = utf8_encode s"
  using utf8_decode_canonical utf8_decode_encode by blast

lemma utf8_encode_Cons: "utf8_encode (c # s) = utf8_encode_char c @ utf8_encode s"
  by (simp add: utf8_encode_def)

lemma bom_prefix:
  assumes "list_all scalar s"
  shows "take 3 (utf8_encode s) = [239, 187, 191] \<longleftrightarrow> (\<exists>t. s = 65279 # t)"
proof
  assume "\<exists>t. s = 65279 # t"
  then show "take 3 (utf8_encode s) = [239, 187, 191]" by (auto simp: utf8_encode_Cons bom_bytes)
next
  assume bom: "take 3 (utf8_encode s) = [239, 187, 191]"
  then have e: "utf8_encode s = 239 # [187, 191] @ drop 3 (utf8_encode s)"
    by (metis append_Cons append_take_drop_id)
  have "utf8_step 239 ([187, 191] @ drop 3 (utf8_encode s)) = Some (65279, drop 3 (utf8_encode s))"
    by (simp add: utf8_step_def utf8_three_def continuation_def)
  moreover have "utf8_decode (239 # [187, 191] @ drop 3 (utf8_encode s)) = Some s"
    using utf8_decode_encode[OF assms] e by metis
  ultimately show "\<exists>t. s = 65279 # t" by auto
qed

lemma decode_utf8_sig_iff: "decode_utf8_sig data = Inr s \<longleftrightarrow> utf8_text data s"
proof (cases "take 3 data = [239, 187, 191]")
  case True
  then have d: "data = [239, 187, 191] @ drop 3 data" by (metis append_take_drop_id)
  have "decode_utf8_sig data = Inr s \<longleftrightarrow> utf8_decode (drop 3 data) = Some s"
    using True by (simp add: decode_utf8_sig_def split: option.split)
  also have "\<dots> \<longleftrightarrow> list_all scalar s \<and> drop 3 data = utf8_encode s" by (rule utf8_decode_iff)
  also have "\<dots> \<longleftrightarrow> list_all scalar s \<and> data = utf8_encode (65279 # s)"
    unfolding utf8_encode_Cons bom_bytes by (subst (2) d) simp
  also have "\<dots> \<longleftrightarrow> utf8_text data s" using True bom_prefix[of s] by (auto simp: utf8_text_def)
  finally show ?thesis .
next
  case False
  then have "decode_utf8_sig data = Inr s \<longleftrightarrow> utf8_decode data = Some s"
    by (simp add: decode_utf8_sig_def split: option.split)
  also have "\<dots> \<longleftrightarrow> list_all scalar s \<and> data = utf8_encode s" by (rule utf8_decode_iff)
  also have "\<dots> \<longleftrightarrow> utf8_text data s"
    using False bom_prefix[of s] by (auto simp: utf8_text_def utf8_encode_Cons bom_bytes)
  finally show ?thesis .
qed

lemma strip_blank:
  assumes "strip_documented strip"
  shows "strip s = [] \<Longrightarrow> py_strip s = []"
  using ink_strip[OF assms, of s] by (simp add: py_strip_Nil_iff ink_def empty_filter_conv)

lemma strip_constant:
  "strip_documented strip \<Longrightarrow> s \<in> {py ''1'', py ''utf8_text'', py ''utf8_decode''} \<Longrightarrow> strip s = s"
  by (rule strip_tight) (auto simp: py_def py_isspace_def)

text \<open>A text file is read as UTF-8 and nothing else: when the bytes encode the text \<open>s\<close>, with or
  without a byte order mark, the parser returns a document whose text and only segment are \<open>s\<close> without
  its outer white space, or reports an unusable document when \<open>s\<close> is blank; bytes that encode no text
  (truncated or overlong sequences, surrogates, values above U+10FFFF) are a decode error.\<close>

theorem text_file_round_trip:
  assumes strip: "strip_documented strip" and title: "len_between 1 300 (strip (path_stem filename))"
    and name: "len_between 1 255 (strip filename)" and mime: "len_between 1 200 (strip mime_type)"
  shows "(\<forall>s. utf8_text data s \<and> py_strip s \<noteq> [] \<longrightarrow>
       (\<exists>p. parse_text strip data filename mime_type = Inr p \<and> pd_text p = strip s \<and>
            map ps_text (pd_segments p) = [strip s])) \<and>
    (\<forall>s. utf8_text data s \<and> py_strip s = [] \<longrightarrow>
       parse_text strip data filename mime_type = Inl (AppExc DocumentParseError)) \<and>
    ((\<nexists>s. utf8_text data s) \<longrightarrow> parse_text strip data filename mime_type = Inl (AppExc TextDecodeError))"
proof (intro conjI allI impI)
  fix s assume s: "utf8_text data s \<and> py_strip s \<noteq> []"
  then have d: "decode_utf8_sig data = Inr s" by (simp add: decode_utf8_sig_iff)
  have ne: "strip s \<noteq> []" using strip_blank[OF strip] s by blast
  have c: "strip (py ''1'') = py ''1''" "strip (py ''utf8_text'') = py ''utf8_text''"
    "strip (py ''utf8_decode'') = py ''utf8_decode''" using strip_constant[OF strip] by simp_all
  have segment: "mk_segment strip s None None = Inr \<lparr>ps_text = strip s, ps_page_number = None, ps_section_heading = None\<rparr>"
    using ne by (simp add: mk_segment_def opt_len_ok_def)
  show "\<exists>p. parse_text strip data filename mime_type = Inr p \<and> pd_text p = strip s \<and>
      map ps_text (pd_segments p) = [strip s]"
    using ne title name mime s unfolding parse_text_def d
    by (simp add: segment mk_parsed_document_def parsed_document_ok_def c opt_len_ok_def len_between_def)
next
  fix s assume "utf8_text data s \<and> py_strip s = []"
  then show "parse_text strip data filename mime_type = Inl (AppExc DocumentParseError)"
    by (simp add: parse_text_def decode_utf8_sig_iff[symmetric])
next
  assume "\<nexists>s. utf8_text data s"
  then obtain e where "decode_utf8_sig data = Inl e" by (metis decode_utf8_sig_iff sum.exhaust)
  then show "parse_text strip data filename mime_type = Inl (AppExc TextDecodeError)" by (simp add: parse_text_def)
qed

theorem text_file_round_trip_witness:
  "\<exists>p. parse_text py_strip [239, 187, 191, 32, 195, 169, 10] (py ''a.txt'') (py ''text/plain'') = Inr p \<and> pd_text p = [233]"
proof -
  have "utf8_text [239, 187, 191, 32, 195, 169, 10] [32, 233, 10]"
    by (simp add: utf8_text_def scalar_def utf8_encode_def utf8_encode_char_def)
  moreover have "py_strip [32, 233, 10] = [233]"
    by (simp add: py_strip_def py_rstrip_def py_lstrip_def py_isspace_def)
  moreover have "len_between 1 300 (py_strip (path_stem (py ''a.txt'')))" "len_between 1 255 (py_strip (py ''a.txt''))"
    "len_between 1 200 (py_strip (py ''text/plain''))"
  proof -
    have stem: "path_stem (py ''a.txt'') = py ''a''" by code_simp
    show "len_between 1 300 (py_strip (path_stem (py ''a.txt'')))" "len_between 1 255 (py_strip (py ''a.txt''))"
      "len_between 1 200 (py_strip (py ''text/plain''))"
      unfolding stem by (simp_all add: len_between_def py_def py_strip_def py_rstrip_def py_lstrip_def py_isspace_def)
  qed
  ultimately show ?thesis
    using text_file_round_trip[OF strip_documented_py_strip, of "py ''a.txt''" "py ''text/plain''" "[239, 187, 191, 32, 195, 169, 10]"]
    by fastforce
qed

section \<open>Markdown headings\<close>

text \<open>The lines that \<^verbatim>\<open>^#{1,6}\s+(.+?)\s*#*\s*$\<close> matches, with \<open>g\<close> a possible value of the group.\<close>

definition all_hash :: "pystr \<Rightarrow> bool" where
  "all_hash s \<longleftrightarrow> (\<forall>c \<in> set s. c = 35)"

definition all_space :: "pystr \<Rightarrow> bool" where
  "all_space s \<longleftrightarrow> (\<forall>c \<in> set s. py_isspace c)"

definition heading_line :: "pystr \<Rightarrow> pystr \<Rightarrow> bool" where
  "heading_line line g \<longleftrightarrow>
     (\<exists>h b w k w'. line = h @ b @ g @ w @ k @ w' \<and> all_hash h \<and> h \<noteq> [] \<and> length h \<le> 6 \<and>
        all_space b \<and> b \<noteq> [] \<and> g \<noteq> [] \<and> all_space w \<and> all_hash k \<and> all_space w')"

lemma space_not_hash: "py_isspace c \<Longrightarrow> c \<noteq> 35"
  by (auto simp: py_isspace_def)

lemma all_space_takeWhile: "all_space (takeWhile py_isspace s)"
  by (auto simp: all_space_def dest: set_takeWhileD)

lemma all_hash_takeWhile: "all_hash (takeWhile (\<lambda>c. c = 35) s)"
  by (auto simp: all_hash_def dest: set_takeWhileD)

lemma heading_tail_split: "heading_tail u \<Longrightarrow> \<exists>w k w'. u = w @ k @ w' \<and> all_space w \<and> all_hash k \<and> all_space w'"
proof -
  assume tail: "heading_tail u"
  let ?v = "dropWhile py_isspace u"
  let ?x = "dropWhile (\<lambda>c. c = 35) ?v"
  have "all_space ?x" using tail by (simp add: heading_tail_def all_space_def)
  moreover have "u = takeWhile py_isspace u @ takeWhile (\<lambda>c. c = 35) ?v @ ?x" by simp
  ultimately show ?thesis using all_space_takeWhile all_hash_takeWhile by metis
qed

lemma heading_group_split:
  assumes "t \<noteq> []"
  shows "heading_group t \<noteq> [] \<and> (\<exists>u. t = heading_group t @ u \<and> heading_tail u)"
proof (cases "find (\<lambda>j. heading_tail (drop j t)) [1..<length t]")
  case None
  then have "heading_group t = t" by (simp add: heading_group_def)
  then show ?thesis using assms by (simp add: heading_tail_def)
next
  case (Some j)
  then have "heading_tail (drop j t)" "j \<in> set [1..<length t]" by (auto dest: find_SomeD)
  with Some show ?thesis
    by (auto simp: heading_group_def intro!: exI[of _ "drop j t"])
qed

lemma heading_match_sound:
  assumes "heading_match line = Some g"
  shows "heading_line line g"
proof -
  define rest where "rest = dropWhile (\<lambda>c. c = 35) line"
  define h where "h = takeWhile (\<lambda>c. c = 35) line"
  define b where "b = takeWhile py_isspace rest"
  define t where "t = dropWhile py_isspace rest"
  have line: "line = h @ b @ t" unfolding h_def b_def t_def rest_def by simp
  have h: "all_hash h" "h \<noteq> []" "length h \<le> 6" and b: "all_space b" "b \<noteq> []"
    using assms all_hash_takeWhile all_space_takeWhile
    by (auto simp: heading_match_def Let_def h_def b_def rest_def not_less split: if_splits)
  show ?thesis
  proof (cases "t = []")
    case False
    then have "g = heading_group t" using assms b h
      by (auto simp: heading_match_def Let_def h_def b_def t_def rest_def split: if_splits)
    then obtain u where "t = g @ u" "g \<noteq> []" "heading_tail u" using heading_group_split[OF False] by blast
    moreover obtain w k w' where "u = w @ k @ w'" "all_space w" "all_hash k" "all_space w'"
      using heading_tail_split[OF \<open>heading_tail u\<close>] by blast
    ultimately show ?thesis unfolding heading_line_def line using h b by blast
  next
    case True
    then have g: "g = [last b]" "2 \<le> length b" using assms b h
      by (auto simp: heading_match_def Let_def h_def b_def t_def rest_def split: if_splits)
    then have "b = butlast b @ g" using b(2) by simp
    moreover have "butlast b \<noteq> []" using g(2) by (cases b rule: rev_cases) auto
    moreover have "all_space (butlast b)" using b(1) by (auto simp: all_space_def dest: in_set_butlastD)
    ultimately have "line = h @ butlast b @ g @ [] @ [] @ []" "g \<noteq> []" using line True g by auto
    then show ?thesis unfolding heading_line_def
      using h \<open>all_space (butlast b)\<close> \<open>butlast b \<noteq> []\<close> by (metis all_hash_def all_space_def empty_iff list.set(1))
  qed
qed

lemma takeWhile_run: "\<forall>c \<in> set a. P c \<Longrightarrow> b = [] \<or> \<not> P (hd b) \<Longrightarrow> takeWhile P (a @ b) = a \<and> dropWhile P (a @ b) = b"
  by (induction a) (simp, cases b, simp_all)

lemma heading_match_complete:
  assumes "heading_line line g"
  shows "heading_match line \<noteq> None"
proof -
  obtain h b u where line: "line = h @ b @ g @ u" and h: "all_hash h" "h \<noteq> []" "length h \<le> 6"
    and b: "all_space b" "b \<noteq> []" and g: "g \<noteq> []"
    using assms unfolding heading_line_def by blast
  have "\<not> hd (b @ g @ u) = 35" using b space_not_hash[of "hd b"] by (simp add: all_space_def)
  then have run: "takeWhile (\<lambda>c. c = 35) line = h" "dropWhile (\<lambda>c. c = 35) line = b @ g @ u"
    using takeWhile_run[of h "\<lambda>c. c = 35" "b @ g @ u"] h line by (auto simp: all_hash_def)
  define r where "r = b @ g @ u"
  have "takeWhile py_isspace r \<noteq> []" using b by (simp add: r_def all_space_def)
  moreover have "2 \<le> length r" using b(2) g by (cases b; cases g) (auto simp: r_def)
  moreover have "takeWhile py_isspace r = r" if "dropWhile py_isspace r = []"
    using that by (metis append_Nil2 takeWhile_dropWhile_id)
  ultimately show ?thesis using h(2,3) unfolding heading_match_def run r_def[symmetric] Let_def by (cases "dropWhile py_isspace r = []") (simp_all del: dropWhile_eq_Nil_conv takeWhile_eq_all_conv)
qed

end
