(* ===== verification/Chunking.thy ===== *)
theory Chunking
  imports Errors
begin

text \<open>
  Text normalisation and chunking (\<^verbatim>\<open>app/rag/chunking.py\<close>): total, bounded and lossless. Offsets are
  natural numbers; \<open>chunk_size\<close> and \<open>overlap\<close> are the unbounded integers of the source until the
  argument checks have passed.
\<close>

section \<open>String primitives\<close>

fun replace_crlf :: "pystr \<Rightarrow> pystr" where
  "replace_crlf [] = []"
| "replace_crlf [c] = [c]"
| "replace_crlf (c # d # cs) =
     (if c = 13 \<and> d = 10 then 10 # replace_crlf cs else c # replace_crlf (d # cs))"

definition replace_cr :: "pystr \<Rightarrow> pystr" where
  "replace_cr s = map (\<lambda>c. if c = 13 then 10 else c) s"

fun split_nl :: "pystr \<Rightarrow> pystr list" where
  "split_nl [] = [ [] ]"
| "split_nl (c # cs) =
     (if c = 10 then [] # split_nl cs
      else (case split_nl cs of [] \<Rightarrow> [ [c] ] | l # ls \<Rightarrow> (c # l) # ls))"

text \<open>\<open>s[a:b]\<close>.\<close>

definition slice :: "nat \<Rightarrow> nat \<Rightarrow> 'a list \<Rightarrow> 'a list" where
  "slice a b s = take (b - a) (drop a s)"

text \<open>\<open>s.rfind(sub, lo, hi)\<close>: the highest position of \<open>sub\<close> inside \<open>s[lo:hi]\<close>.\<close>

definition rfind :: "pystr \<Rightarrow> pystr \<Rightarrow> nat \<Rightarrow> nat \<Rightarrow> nat option" where
  "rfind sub s lo hi =
     (case filter (\<lambda>i. take (length sub) (drop i s) = sub) [lo..<Suc hi - length sub] of
        [] \<Rightarrow> None
      | is \<Rightarrow> Some (last is))"

section \<open>Normalisation\<close>

fun norm_lines :: "bool \<Rightarrow> bool \<Rightarrow> pystr list \<Rightarrow> pystr list" where
  "norm_lines started previous_blank [] = []"
| "norm_lines started previous_blank (line # rest) =
     (let cleaned = py_rstrip line
      in if py_strip cleaned = []
         then (if started \<and> \<not> previous_blank then [] # norm_lines True True rest
               else norm_lines started True rest)
         else cleaned # norm_lines True False rest)"

definition normalize_text :: "pystr \<Rightarrow> pystr" where
  "normalize_text raw_text =
     py_strip (py_join [10]
       (norm_lines False False (split_nl (replace_cr (replace_crlf raw_text)))))"

section \<open>Chunking\<close>

record TextChunk =
  ck_index :: nat
  ck_content :: pystr
  ck_start_offset :: nat
  ck_end_offset :: nat

text \<open>The natural boundary of one window: blank line, line, space, else the full window.\<close>

definition window_end :: "pystr \<Rightarrow> nat \<Rightarrow> nat \<Rightarrow> nat" where
  "window_end s width start =
     (let end0 = min (start + width) (length s)
      in if end0 < length s
         then (let search_start = min (start + width div 2) end0;
                   boundary = (case rfind [10, 10] s search_start end0 of
                       Some b \<Rightarrow> Some b
                     | None \<Rightarrow> (case rfind [10] s search_start end0 of
                         Some b \<Rightarrow> Some b
                       | None \<Rightarrow> rfind [32] s search_start end0))
               in case boundary of None \<Rightarrow> end0 | Some b \<Rightarrow> b)
         else end0)"

definition window_content :: "pystr \<Rightarrow> nat \<Rightarrow> nat \<Rightarrow> nat \<times> nat \<times> pystr" where
  "window_content s start fin =
     (let candidate = slice start fin s;
          leading = length candidate - length (py_lstrip candidate);
          trailing = length candidate - length (py_rstrip candidate);
          content_start = start + leading;
          content_end = fin - trailing
      in (content_start, content_end, slice content_start content_end s))"

function chunk_loop :: "pystr \<Rightarrow> nat \<Rightarrow> nat \<Rightarrow> nat \<Rightarrow> nat \<Rightarrow> TextChunk list" where
  "chunk_loop s width overlap start count =
     (if start < length s
      then (let fin = window_end s width start;
                (content_start, content_end, content) = window_content s start fin;
                new = (if content \<noteq> []
                       then [\<lparr>ck_index = count, ck_content = content,
                              ck_start_offset = content_start, ck_end_offset = content_end\<rparr>]
                       else [])
            in new @ (if fin \<ge> length s then []
                      else chunk_loop s width overlap (max (fin - overlap) (start + 1))
                             (count + length new)))
      else [])"
  by pat_completeness auto
termination
  by (relation "measure (\<lambda>(s, width, overlap, start, count). length s - start)") auto

declare chunk_loop.simps [simp del]

definition chunk_text :: "pystr \<Rightarrow> int \<Rightarrow> int \<Rightarrow> py_exc + TextChunk list" where
  "chunk_text str chunk_size overlap =
     (if chunk_size \<le> 0 then Inl ValueExc
      else if overlap < 0 \<or> overlap \<ge> chunk_size then Inl ValueExc
      else (let normalized = normalize_text str
            in if normalized = [] then Inr []
               else Inr (chunk_loop normalized (nat chunk_size) (nat overlap) 0 0)))"

section \<open>Facts about strings\<close>

lemma py_rstrip_append_space: "\<exists>w. s = py_rstrip s @ w \<and> (\<forall>c \<in> set w. py_isspace c)"
proof -
  have "rev s = takeWhile py_isspace (rev s) @ dropWhile py_isspace (rev s)" by simp
  then have "s = py_rstrip s @ rev (takeWhile py_isspace (rev s))"
    unfolding py_rstrip_def by (metis rev_append rev_rev_ident)
  moreover have "\<forall>c \<in> set (rev (takeWhile py_isspace (rev s))). py_isspace c"
    by (auto dest: set_takeWhileD)
  ultimately show ?thesis by blast
qed

lemma py_lstrip_append_space: "\<exists>w. s = w @ py_lstrip s \<and> (\<forall>c \<in> set w. py_isspace c)"
  unfolding py_lstrip_def
  by (intro exI[of _ "takeWhile py_isspace s"]) (auto dest: set_takeWhileD)

lemma py_rstrip_last: "py_rstrip s \<noteq> [] \<Longrightarrow> \<not> py_isspace (last (py_rstrip s))"
  unfolding py_rstrip_def by (simp add: last_rev hd_dropWhile)

lemma py_lstrip_hd: "py_lstrip s \<noteq> [] \<Longrightarrow> \<not> py_isspace (hd (py_lstrip s))"
  unfolding py_lstrip_def by (simp add: hd_dropWhile)

lemma py_rstrip_id: "s = [] \<or> \<not> py_isspace (last s) \<Longrightarrow> py_rstrip s = s"
  unfolding py_rstrip_def by (cases s rule: rev_cases) auto

lemma py_lstrip_id: "s = [] \<or> \<not> py_isspace (hd s) \<Longrightarrow> py_lstrip s = s"
  unfolding py_lstrip_def by (cases s) auto

lemma rfind_Some:
  assumes "rfind sub s lo hi = Some b" and "sub \<noteq> []"
  shows "lo \<le> b \<and> b + length sub \<le> hi \<and> take (length sub) (drop b s) = sub"
proof -
  let ?is = "filter (\<lambda>i. take (length sub) (drop i s) = sub) [lo..<Suc hi - length sub]"
  from assms(1) have "?is \<noteq> []" "b = last ?is"
    by (auto simp: rfind_def split: list.splits)
  then have "b \<in> set ?is" using last_in_set by blast
  with assms(2) show ?thesis by auto
qed

lemma window_end_facts:
  assumes "start < length s" and "0 < width"
  shows "start \<le> window_end s width start" "window_end s width start \<le> length s"
    "window_end s width start \<le> start + width"
    "window_end s width start = start \<Longrightarrow> py_isspace (s ! start)"
proof -
  let ?e = "min (start + width) (length s)" and ?l = "min (start + width div 2) (min (start + width) (length s))"
  consider (full) "window_end s width start = ?e"
    | (cut) b c where "window_end s width start = b" "?l \<le> b" "b < ?e" "s ! b = c" "c = 10 \<or> c = 32"
  proof (cases "?e < length s \<and> window_end s width start \<noteq> ?e")
    case True
    then obtain b where b: "window_end s width start = b"
      "rfind [10, 10] s ?l ?e = Some b \<or> rfind [10] s ?l ?e = Some b \<or> rfind [32] s ?l ?e = Some b"
      unfolding window_end_def Let_def by (auto split: option.splits)
    have "?l \<le> b \<and> b < ?e \<and> (s ! b = 10 \<or> s ! b = 32)"
      using b(2)
    proof (elim disjE)
      assume "rfind [10, 10] s ?l ?e = Some b"
      from rfind_Some[OF this] show ?thesis by (cases "drop b s") (auto simp: nth_via_drop)
    next
      assume "rfind [10] s ?l ?e = Some b"
      from rfind_Some[OF this] show ?thesis by (cases "drop b s") (auto simp: nth_via_drop)
    next
      assume "rfind [32] s ?l ?e = Some b"
      from rfind_Some[OF this] show ?thesis by (cases "drop b s") (auto simp: nth_via_drop)
    qed
    with b(1) cut show ?thesis by blast
  next
    case False
    then have "window_end s width start = ?e"
      using window_end_def[of s width start] by (cases "?e < length s") (auto simp: Let_def)
    then show ?thesis by (rule full)
  qed
  then have "start \<le> window_end s width start \<and> window_end s width start \<le> length s \<and>
    window_end s width start \<le> start + width \<and>
    (window_end s width start = start \<longrightarrow> py_isspace (s ! start))" (is ?goal)
  proof cases
    case full
    then show ?goal using assms by (simp add: min_def)
  next
    case (cut b c)
    from cut(2,3) have "start \<le> b" "b \<le> length s" "b \<le> start + width" by linarith+
    moreover have "py_isspace c" using cut(5) by (auto simp: py_isspace_def)
    ultimately show ?goal using cut(1,4) by auto
  qed
  then show "start \<le> window_end s width start" "window_end s width start \<le> length s"
    "window_end s width start \<le> start + width"
    "window_end s width start = start \<Longrightarrow> py_isspace (s ! start)" by simp_all
qed

lemma lstrip_bound:
  assumes "i < length s" and "\<not> py_isspace (s ! i)"
  shows "length s - length (py_lstrip s) \<le> i"
proof -
  from py_lstrip_append_space obtain w where w: "s = w @ py_lstrip s" "\<forall>c \<in> set w. py_isspace c" by blast
  have "\<not> i < length w" using w assms(2) by (metis nth_append nth_mem)
  moreover have "length s - length (py_lstrip s) = length w"
    using arg_cong[OF w(1), of length] by simp
  ultimately show ?thesis by simp
qed

lemma rstrip_bound:
  assumes "i < length s" and "\<not> py_isspace (s ! i)"
  shows "i < length (py_rstrip s)"
proof (rule ccontr)
  assume n: "\<not> i < length (py_rstrip s)"
  from py_rstrip_append_space obtain w where w: "s = py_rstrip s @ w" "\<forall>c \<in> set w. py_isspace c" by blast
  have "s ! i = w ! (i - length (py_rstrip s))" using w(1) n by (metis nth_append)
  moreover have "i - length (py_rstrip s) < length w"
    using arg_cong[OF w(1), of length] assms(1) n by simp
  ultimately show False using w(2) assms(2) by simp
qed

lemma strip_lengths: "length (py_lstrip s) \<le> length s" "length (py_rstrip s) \<le> length s"
  using py_lstrip_append_space[of s] py_rstrip_append_space[of s]
  by (metis le_add2 length_append, metis le_add1 length_append)

lemma py_rstrip_nth: "i < length (py_rstrip s) \<Longrightarrow> py_rstrip s ! i = s ! i"
  using py_rstrip_append_space[of s] by (metis nth_append)

lemma py_lstrip_nth0:
  assumes "py_lstrip s \<noteq> []"
  shows "\<not> py_isspace (s ! (length s - length (py_lstrip s)))"
proof -
  from py_lstrip_append_space obtain w where w: "s = w @ py_lstrip s" by blast
  have "length s - length (py_lstrip s) = length w" using arg_cong[OF w, of length] by simp
  moreover have "s ! length w = hd (py_lstrip s)"
    using w assms by (metis hd_conv_nth nth_append_length list.collapse)
  ultimately show ?thesis using py_lstrip_hd[OF assms] by simp
qed

lemma length_slice [simp]: "b \<le> length s \<Longrightarrow> length (slice a b s) = b - a"
  by (simp add: slice_def)

lemma slice_nth: "a \<le> i \<Longrightarrow> i < b \<Longrightarrow> b \<le> length s \<Longrightarrow> slice a b s ! (i - a) = s ! i"
  by (simp add: slice_def)

lemma window_content_facts:
  assumes "window_content s start fin = (cs, ce, content)" and "start \<le> fin" and "fin \<le> length s"
  shows "content = slice cs ce s"
    and "content \<noteq> [] \<Longrightarrow> start \<le> cs \<and> cs < ce \<and> ce \<le> fin \<and> length content = ce - cs \<and>
           \<not> py_isspace (hd content) \<and> \<not> py_isspace (last content)"
    and "start \<le> i \<Longrightarrow> i < fin \<Longrightarrow> \<not> py_isspace (s ! i) \<Longrightarrow> content \<noteq> [] \<and> cs \<le> i \<and> i < ce"
proof -
  define cand where "cand = slice start fin s"
  have len: "length cand = fin - start" using assms(3) by (simp add: cand_def)
  have nth: "cand ! (j - start) = s ! j" if "start \<le> j" "j < fin" for j
    using slice_nth[OF that assms(3)] by (simp add: cand_def)
  have cs: "cs = start + (length cand - length (py_lstrip cand))"
    and ce: "ce = fin - (length cand - length (py_rstrip cand))"
    and content: "content = slice cs ce s"
    using assms(1) by (auto simp: window_content_def Let_def cand_def)
  have ce': "ce = start + length (py_rstrip cand)"
    using ce len strip_lengths(2)[of cand] assms(2) by simp
  have ce_fin: "ce \<le> fin" using ce by simp
  show "content = slice cs ce s" by (rule content)
  have lc: "length content = ce - cs" unfolding content using ce_fin assms(3) by simp
  show "start \<le> cs \<and> cs < ce \<and> ce \<le> fin \<and> length content = ce - cs \<and>
           \<not> py_isspace (hd content) \<and> \<not> py_isspace (last content)" if ne: "content \<noteq> []"
  proof -
    have lt: "cs < ce" using ne lc by (metis length_greater_0_conv zero_less_diff)
    have start: "start \<le> cs" using cs by simp
    have "py_lstrip cand \<noteq> []"
    proof
      assume "py_lstrip cand = []"
      then have "cs = fin" using cs len assms(2) by simp
      with lt ce_fin show False by simp
    qed
    from py_lstrip_nth0[OF this] have "\<not> py_isspace (cand ! (cs - start))" using cs by simp
    then have "\<not> py_isspace (s ! cs)" using nth[of cs] start lt ce_fin by simp
    moreover have "hd content = s ! cs"
      unfolding content using ne content lt ce_fin assms(3) slice_nth[of cs cs ce s] by (simp add: hd_conv_nth)
    moreover have "last content = s ! (ce - 1)"
      unfolding content using ne content lt ce_fin assms(3) slice_nth[of cs "ce - 1" ce s]
      by (simp add: last_conv_nth)
    moreover have "\<not> py_isspace (s ! (ce - 1))"
    proof -
      have ne_r: "py_rstrip cand \<noteq> []" using ce' lt start by auto
      then have "last (py_rstrip cand) = cand ! (ce - 1 - start)"
        using py_rstrip_nth[of "length (py_rstrip cand) - 1" cand] ce' by (simp add: last_conv_nth)
      also have "\<dots> = s ! (ce - 1)" using nth[of "ce - 1"] start lt ce_fin by simp
      finally show ?thesis using py_rstrip_last[OF ne_r] by simp
    qed
    ultimately show ?thesis using start lt ce_fin lc by simp
  qed
  show "content \<noteq> [] \<and> cs \<le> i \<and> i < ce" if i: "start \<le> i" "i < fin" "\<not> py_isspace (s ! i)"
  proof -
    have k: "i - start < length cand" "\<not> py_isspace (cand ! (i - start))"
      using i len nth[OF i(1,2)] by auto
    have "cs \<le> i" using lstrip_bound[OF k] cs i(1) by simp
    moreover have "i < ce" using rstrip_bound[OF k] ce' i(1) by simp
    ultimately show ?thesis using lc by (metis le_less_trans length_0_conv less_numeral_extra(3) zero_less_diff)
  qed
qed

section \<open>The loop\<close>

definition chunk_ok :: "pystr \<Rightarrow> nat \<Rightarrow> TextChunk \<Rightarrow> bool" where
  "chunk_ok s width c \<longleftrightarrow>
     ck_content c = slice (ck_start_offset c) (ck_end_offset c) s \<and>
     ck_start_offset c < ck_end_offset c \<and> ck_end_offset c \<le> length s \<and>
     0 < length (ck_content c) \<and> length (ck_content c) \<le> width \<and>
     \<not> py_isspace (hd (ck_content c)) \<and> \<not> py_isspace (last (ck_content c))"

lemma chunk_loop_ok:
  assumes "0 < width"
  shows "list_all (chunk_ok s width) (chunk_loop s width overlap start count) \<and>
         map ck_index (chunk_loop s width overlap start count) =
           [count..<count + length (chunk_loop s width overlap start count)]"
  using assms
proof (induction s width overlap start count rule: chunk_loop.induct)
  case (1 s width overlap start count)
  show ?case
  proof (cases "start < length s")
    case True
    let ?fin = "window_end s width start"
    obtain cs ce content where w: "window_content s start ?fin = (cs, ce, content)"
      by (cases "window_content s start ?fin") auto
    define new where "new = (if content \<noteq> []
       then [\<lparr>ck_index = count, ck_content = content, ck_start_offset = cs, ck_end_offset = ce\<rparr>] else [])"
    define rest where "rest = (if ?fin \<ge> length s then []
       else chunk_loop s width overlap (max (?fin - overlap) (start + 1)) (count + length new))"
    have run: "chunk_loop s width overlap start count = new @ rest"
      by (subst chunk_loop.simps) (simp add: True w new_def rest_def Let_def)
    note f = window_content_facts[OF w window_end_facts(1,2)[OF True "1.prems"]]
    have "list_all (chunk_ok s width) new"
      using f(1,2) window_end_facts(2,3)[OF True "1.prems"] by (auto simp: new_def chunk_ok_def)
    moreover have "list_all (chunk_ok s width) rest \<and> map ck_index rest = [count + length new..<count + length new + length rest]"
      using "1.IH"[OF True refl w[symmetric] refl refl, folded new_def] "1.prems" by (auto simp: rest_def)
    moreover have "map ck_index new = [count..<count + length new]" by (simp add: new_def)
    ultimately show ?thesis
      unfolding run using upt_add_eq_append[of count "count + length new" "length rest"]
      by (simp add: add.assoc)
  next
    case False
    then show ?thesis by (simp add: chunk_loop.simps)
  qed
qed

lemma chunk_loop_covers:
  assumes "0 < width" and "start \<le> i" and "i < length s" and "\<not> py_isspace (s ! i)"
  shows "\<exists>c \<in> set (chunk_loop s width overlap start count). ck_start_offset c \<le> i \<and> i < ck_end_offset c"
  using assms
proof (induction s width overlap start count rule: chunk_loop.induct)
  case (1 s width overlap start count)
  then have True: "start < length s" by simp
  let ?fin = "window_end s width start"
  obtain cs ce content where w: "window_content s start ?fin = (cs, ce, content)"
    by (cases "window_content s start ?fin") auto
  define new where "new = (if content \<noteq> []
     then [\<lparr>ck_index = count, ck_content = content, ck_start_offset = cs, ck_end_offset = ce\<rparr>] else [])"
  have run: "chunk_loop s width overlap start count = new @ (if ?fin \<ge> length s then []
     else chunk_loop s width overlap (max (?fin - overlap) (start + 1)) (count + length new))"
    by (subst chunk_loop.simps) (simp add: True w new_def Let_def)
  note e = window_end_facts[OF True "1.prems"(1)]
  note f = window_content_facts[OF w e(1,2)]
  show ?case
  proof (cases "i < ?fin")
    case True
    with f(3)[OF "1.prems"(2) True "1.prems"(4)] show ?thesis unfolding run by (auto simp: new_def)
  next
    case False
    have "max (?fin - overlap) (start + 1) \<le> i"
    proof -
      have "start \<noteq> i" using False e(1) e(4) "1.prems"(4) by (metis le_neq_implies_less)
      with "1.prems"(2) False show ?thesis by simp
    qed
    moreover have "\<not> ?fin \<ge> length s" using False "1.prems"(3) by simp
    ultimately show ?thesis
      using "1.IH"[OF True refl w[symmetric] refl refl, folded new_def] "1.prems" unfolding run by auto
  qed
qed

section \<open>Properties\<close>

text \<open>chunking raises exactly for a non-positive chunk size or an overlap outside
  \<open>[0, chunk_size)\<close> and terminates otherwise; every chunk is the slice of the normalised text its
  offsets name, non-empty, no longer than the chunk size, without leading or trailing white space,
  and the chunks are numbered from zero.\<close>

theorem chunk_text_shape:
  "case chunk_text str chunk_size overlap of
     Inl e \<Rightarrow> e = ValueExc \<and> (chunk_size \<le> 0 \<or> overlap < 0 \<or> chunk_size \<le> overlap)
   | Inr cs \<Rightarrow> 0 \<le> overlap \<and> overlap < chunk_size \<and>
       list_all (chunk_ok (normalize_text str) (nat chunk_size)) cs \<and> map ck_index cs = [0..<length cs]"
  using chunk_loop_ok[of "nat chunk_size" "normalize_text str" "nat overlap" 0 0]
  by (auto simp: chunk_text_def Let_def)

text \<open>chunking loses nothing: every character of the normalised text that is not white space
  lies inside some chunk, whatever the chunk size and overlap.\<close>

theorem chunk_text_covers:
  assumes "chunk_text str chunk_size overlap = Inr cs" and "i < length (normalize_text str)"
    and "\<not> py_isspace (normalize_text str ! i)"
  shows "\<exists>c. c \<in> set cs \<and> ck_start_offset c \<le> i \<and> i < ck_end_offset c"
proof -
  from assms(1,2) have "cs = chunk_loop (normalize_text str) (nat chunk_size) (nat overlap) 0 0"
    "0 < nat chunk_size"
    by (auto simp: chunk_text_def Let_def split: if_splits)
  with chunk_loop_covers[of "nat chunk_size" 0 i "normalize_text str" "nat overlap" 0] assms(2,3)
  show ?thesis by auto
qed

lemma sample_normalize: "normalize_text [97, 98, 32, 13, 10, 99] = [97, 98, 10, 99]"
  by (simp add: normalize_text_def replace_cr_def Let_def py_strip_def py_rstrip_def py_lstrip_def py_isspace_def)

theorem chunk_text_covers_witness:
  "\<exists>cs c. chunk_text [97, 98, 32, 13, 10, 99] 2 1 = Inr cs \<and> c \<in> set cs \<and>
     ck_start_offset c \<le> 3 \<and> 3 < ck_end_offset c"
proof -
  obtain cs where run: "chunk_text [97, 98, 32, 13, 10, 99] 2 1 = Inr cs"
    by (auto simp: chunk_text_def Let_def sample_normalize)
  from chunk_text_covers[OF run, of 3] run show ?thesis
    unfolding sample_normalize by (auto simp: py_isspace_def)
qed

section \<open>Normalisation is idempotent\<close>

text \<open>Lines as normalisation leaves them: no line breaks inside, no trailing white space, no two
  blank lines in a row.\<close>

definition clean_line :: "pystr \<Rightarrow> bool" where
  "clean_line l \<longleftrightarrow> 10 \<notin> set l \<and> 13 \<notin> set l \<and> py_rstrip l = l"

fun tidy :: "pystr list \<Rightarrow> bool" where
  "tidy [] = True"
| "tidy [l] = True"
| "tidy (l # k # ls) \<longleftrightarrow> \<not> (l = [] \<and> k = []) \<and> tidy (k # ls)"

lemma py_join_split: "list_all (\<lambda>l. 10 \<notin> set l) ls \<Longrightarrow> ls \<noteq> [] \<Longrightarrow> split_nl (py_join [10] ls) = ls"
proof (induction "[10] :: pystr" ls rule: py_join.induct)
  have one: "10 \<notin> set l \<Longrightarrow> split_nl l = [l]" for l by (induction l) auto
  have more: "10 \<notin> set l \<Longrightarrow> split_nl (l @ 10 # s) = l # split_nl s" for l s by (induction l) auto
  case (2 x)
  then show ?case using one by simp
next
  have more: "10 \<notin> set l \<Longrightarrow> split_nl (l @ 10 # s) = l # split_nl s" for l s by (induction l) auto
  case (3 x y ys)
  then show ?case using more by simp
qed simp

lemma split_nl_no_newline: "list_all (\<lambda>l. 10 \<notin> set l \<and> set l \<subseteq> set s) (split_nl s) \<and> split_nl s \<noteq> []"
  by (induction s) (auto split: list.splits simp: list_all_iff)

lemma no_cr: "13 \<notin> set (replace_cr s)"
  by (auto simp: replace_cr_def)

lemma replace_id: "13 \<notin> set s \<Longrightarrow> replace_cr (replace_crlf s) = s"
proof -
  have "13 \<notin> set s \<Longrightarrow> replace_crlf s = s" by (induction s rule: replace_crlf.induct) auto
  moreover have "13 \<notin> set s \<Longrightarrow> replace_cr s = s" by (auto simp: replace_cr_def intro: map_idI)
  ultimately show "13 \<notin> set s \<Longrightarrow> replace_cr (replace_crlf s) = s" by simp
qed

lemma set_py_rstrip: "set (py_rstrip s) \<subseteq> set s"
  unfolding py_rstrip_def by (auto dest: set_dropWhileD)

lemma py_rstrip_idem [simp]: "py_rstrip (py_rstrip s) = py_rstrip s"
  using py_rstrip_last[of s] by (intro py_rstrip_id) auto

lemma py_strip_Nil [simp]: "py_strip [] = []" "py_rstrip [] = []" "py_lstrip [] = []"
  by (simp_all add: py_strip_def py_rstrip_def py_lstrip_def)

lemma blank_rstrip: "py_strip (py_rstrip l) = [] \<longleftrightarrow> py_rstrip l = []"
proof
  assume a: "py_strip (py_rstrip l) = []"
  show "py_rstrip l = []"
  proof (rule ccontr)
    assume "py_rstrip l \<noteq> []"
    then have "last (py_rstrip l) \<in> set (py_rstrip l)" "\<not> py_isspace (last (py_rstrip l))"
      using py_rstrip_last by auto
    with a show False unfolding py_strip_Nil_iff by blast
  qed
qed simp

lemma norm_lines_clean:
  "list_all (\<lambda>l. 10 \<notin> set l \<and> 13 \<notin> set l) ls \<Longrightarrow> list_all clean_line (norm_lines st pb ls)"
proof (induction st pb ls rule: norm_lines.induct)
  case (2 st pb line rest)
  have "clean_line []" by (simp add: clean_line_def py_rstrip_def)
  moreover have "clean_line (py_rstrip line)"
    using "2.prems" set_py_rstrip[of line] by (auto simp: clean_line_def)
  ultimately show ?case using 2 by (auto simp: Let_def)
qed simp

lemma norm_lines_hd:
  "norm_lines False pb ls \<noteq> [] \<Longrightarrow> hd (norm_lines False pb ls) \<noteq> []"
  by (induction "False" pb ls rule: norm_lines.induct) (auto simp: Let_def blank_rstrip)

lemma norm_lines_tidy: "tidy (norm_lines st pb ls) \<and> (pb \<longrightarrow> norm_lines st pb ls \<noteq> [] \<longrightarrow> hd (norm_lines st pb ls) \<noteq> [])"
proof (induction st pb ls rule: norm_lines.induct)
  case (2 st pb line rest)
  let ?blank = "py_strip (py_rstrip line) = []"
  consider (skip) "?blank" "\<not> (st \<and> \<not> pb)" | (blank) "?blank" "st \<and> \<not> pb" | (keep) "\<not> ?blank" by blast
  then show ?case
  proof cases
    case skip
    with 2 show ?thesis by (auto simp: Let_def)
  next
    case blank
    then have "norm_lines st pb (line # rest) = [] # norm_lines True True rest" by (simp add: Let_def)
    with "2.IH"(1)[OF refl blank] blank show ?thesis by (cases "norm_lines True True rest") auto
  next
    case keep
    then have "norm_lines st pb (line # rest) = py_rstrip line # norm_lines True False rest" by (simp add: Let_def)
    with "2.IH"(3)[OF refl keep] keep show ?thesis
      by (cases "norm_lines True False rest") (auto simp: blank_rstrip)
  qed
qed simp

lemma norm_lines_id:
  assumes "list_all clean_line ls" and "tidy ls" and "ls \<noteq> [] \<Longrightarrow> hd ls = [] \<Longrightarrow> st \<and> \<not> pb"
  shows "norm_lines st pb ls = ls"
  using assms
proof (induction st pb ls rule: norm_lines.induct)
  case (2 st pb line rest)
  have l: "py_rstrip line = line" using "2.prems"(1) by (simp add: clean_line_def)
  show ?case
  proof (cases "line = []")
    case True
    have "rest = [] \<or> hd rest \<noteq> []" using "2.prems"(2) True by (cases rest) auto
    moreover have "tidy rest" using "2.prems"(2) by (cases rest) auto
    ultimately have "norm_lines True True rest = rest"
      using "2.IH"(1)[OF refl] "2.prems"(1,3) True l by (auto simp: blank_rstrip[of line, unfolded l])
    then show ?thesis using True "2.prems"(3) l by (simp add: Let_def blank_rstrip[of line, unfolded l])
  next
    case False
    have "tidy rest" using "2.prems"(2) by (cases rest) auto
    then have "norm_lines True False rest = rest"
      using "2.IH"(3)[OF refl] "2.prems"(1) False l by (auto simp: blank_rstrip[of line, unfolded l])
    then show ?thesis using False l by (simp add: Let_def blank_rstrip[of line, unfolded l])
  qed
qed simp

lemma py_join_Cons: "ls \<noteq> [] \<Longrightarrow> py_join sep (l # ls) = l @ sep @ py_join sep ls"
  by (cases ls) simp_all

lemma py_join_snoc: "ls \<noteq> [] \<Longrightarrow> py_join sep (ls @ [l]) = py_join sep ls @ sep @ l"
  by (induction sep ls rule: py_join.induct) (simp_all add: py_join_Cons)

lemma set_py_join: "set (py_join sep ls) \<subseteq> set sep \<union> \<Union> (set ` set ls)"
  by (induction sep ls rule: py_join.induct) auto

lemma py_lstrip_append: "\<exists>c \<in> set l. \<not> py_isspace c \<Longrightarrow> py_lstrip (l @ t) = py_lstrip l @ t"
  unfolding py_lstrip_def by (auto simp: dropWhile_append1)

lemma py_rstrip_append_blank: "py_isspace c \<Longrightarrow> py_rstrip (s @ [c]) = py_rstrip s"
  by (simp add: py_rstrip_def)

lemma clean_last: "clean_line l \<Longrightarrow> l \<noteq> [] \<Longrightarrow> \<not> py_isspace (last l)"
  using py_rstrip_last[of l] by (simp add: clean_line_def)

lemma clean_lstrip:
  assumes "clean_line l" and "l \<noteq> []"
  shows "clean_line (py_lstrip l) \<and> py_lstrip l \<noteq> []"
proof -
  from py_lstrip_append_space obtain w where w: "l = w @ py_lstrip l" "\<forall>c \<in> set w. py_isspace c" by blast
  have last: "\<not> py_isspace (last l)" by (rule clean_last[OF assms])
  have ne: "py_lstrip l \<noteq> []"
  proof
    assume "py_lstrip l = []"
    with w have "\<forall>c \<in> set l. py_isspace c" by simp
    with last assms(2) show False by simp
  qed
  then have "last (py_lstrip l) = last l" using w(1) by (metis last_appendR)
  then have "py_rstrip (py_lstrip l) = py_lstrip l" using last by (intro py_rstrip_id) simp
  moreover have "set (py_lstrip l) \<subseteq> set l" unfolding py_lstrip_def by (auto dest: set_dropWhileD)
  ultimately show ?thesis using assms(1) ne by (auto simp: clean_line_def)
qed

lemma tidy_snoc: "tidy (ls @ [l]) \<longleftrightarrow> tidy ls \<and> (ls \<noteq> [] \<longrightarrow> \<not> (last ls = [] \<and> l = []))"
  by (induction ls rule: tidy.induct) auto

lemma rstrip_join:
  assumes "list_all clean_line ls" and "tidy ls" and "ls \<noteq> []" and "hd ls \<noteq> []"
  shows "\<exists>ks. py_rstrip (py_join [10] ls) = py_join [10] ks \<and> list_all clean_line ks \<and> tidy ks \<and>
           ks \<noteq> [] \<and> hd ks \<noteq> []"
proof -
  have keep: "py_rstrip (py_join [10] ks) = py_join [10] ks"
    if k: "list_all clean_line ks" "ks \<noteq> []" "last ks \<noteq> []" for ks
  proof -
    obtain bs y where y: "ks = bs @ [y]" using k(2) by (cases ks rule: rev_cases) auto
    then have "y \<noteq> []" using k(3) by simp
    then have "py_join [10] ks \<noteq> [] \<and> last (py_join [10] ks) = last (last ks)"
      unfolding y by (cases "bs = []") (simp_all add: py_join_snoc)
    moreover have "clean_line (last ks)" using k(1,2) by (simp add: list_all_iff)
    ultimately show ?thesis using clean_last k(3) by (intro py_rstrip_id) auto
  qed
  show ?thesis
  proof (cases "last ls = []")
    case True
    let ?k = "butlast ls"
    have ls: "ls = ?k @ [ [] ]" using True assms(3) by (metis append_butlast_last_id)
    have k: "?k \<noteq> []" using ls assms(4) by (metis append_Nil list.sel(1))
    have "tidy ?k" "last ?k \<noteq> []" using assms(2) ls k by (metis tidy_snoc)+
    moreover have c: "list_all clean_line ?k" using assms(1) ls by (metis list_all_append)
    moreover have "py_rstrip (py_join [10] ls) = py_rstrip (py_join [10] ?k)"
    proof -
      have "py_join [10] ls = py_join [10] ?k @ [10]"
        using py_join_snoc[OF k, of "[10]" "[]"] ls by simp
      then show ?thesis by (simp add: py_rstrip_append_blank py_isspace_def)
    qed
    moreover have "hd ?k = hd ls" using ls k by (metis hd_append2)
    ultimately show ?thesis using keep[OF c k] k assms(4) by (intro exI[of _ ?k]) simp
  next
    case False
    with keep[OF assms(1,3)] assms show ?thesis by blast
  qed
qed

lemma strip_join:
  assumes "list_all clean_line ls" and "tidy ls" and "ls \<noteq> []" and "hd ls \<noteq> []"
  shows "\<exists>ks. py_strip (py_join [10] ls) = py_join [10] ks \<and> list_all clean_line ks \<and> tidy ks \<and>
           ks \<noteq> [] \<and> hd ks \<noteq> []"
proof -
  obtain l rest where ls: "ls = l # rest" using assms(3) by (cases ls) auto
  have l: "clean_line l" "l \<noteq> []" using assms ls by auto
  then have "\<exists>c \<in> set l. \<not> py_isspace c" using clean_last by (intro bexI[of _ "last l"]) auto
  then have "py_lstrip (py_join [10] ls) = py_join [10] (py_lstrip l # rest)"
    unfolding ls by (cases "rest = []") (simp_all add: py_join_Cons py_lstrip_append)
  moreover have "tidy (py_lstrip l # rest)"
    using assms(2) ls clean_lstrip[OF l] l(2) by (cases rest) auto
  ultimately show ?thesis
    unfolding py_strip_def using rstrip_join[of "py_lstrip l # rest"] clean_lstrip[OF l] assms(1) ls by auto
qed

lemma py_strip_idem: "py_strip (py_strip s) = py_strip s"
proof -
  have l: "py_lstrip (py_strip s) = py_strip s"
  proof (cases "py_strip s = []")
    case False
    from py_rstrip_append_space[of "py_lstrip s"] obtain w where "py_lstrip s = py_strip s @ w"
      unfolding py_strip_def by blast
    then have "hd (py_strip s) = hd (py_lstrip s)" "py_lstrip s \<noteq> []" using False by (metis hd_append2, force)
    then show ?thesis using py_lstrip_hd[of s] by (intro py_lstrip_id) simp
  qed simp
  show ?thesis using l by (subst py_strip_def) (simp add: py_strip_def)
qed

text \<open>Normalisation is idempotent, so the offsets the ingestion computes on its own normalised
  text are offsets of the text that chunking normalises again.\<close>

theorem normalize_text_idempotent: "normalize_text (normalize_text str) = normalize_text str"
proof -
  let ?in = "split_nl (replace_cr (replace_crlf str))"
  define ls where "ls = norm_lines False False ?in"
  have "list_all (\<lambda>l. 10 \<notin> set l \<and> 13 \<notin> set l) ?in"
    using split_nl_no_newline[of "replace_cr (replace_crlf str)"] no_cr[of "replace_crlf str"]
    by (auto simp: list_all_iff)
  then have clean: "list_all clean_line ls" unfolding ls_def by (rule norm_lines_clean)
  have norm: "normalize_text str = py_strip (py_join [10] ls)" by (simp add: normalize_text_def ls_def)
  show ?thesis
  proof (cases "ls = []")
    case True
    then show ?thesis unfolding norm by (simp add: normalize_text_def replace_cr_def Let_def)
  next
    case False
    from strip_join[OF clean _ False] norm_lines_tidy norm_lines_hd False obtain ks where
      ks: "normalize_text str = py_join [10] ks" "list_all clean_line ks" "tidy ks" "ks \<noteq> []" "hd ks \<noteq> []"
      unfolding norm ls_def by blast
    have "13 \<notin> set (py_join [10] ks)"
      using set_py_join[of "[10]" ks] ks(2) by (auto simp: list_all_iff clean_line_def)
    then have "replace_cr (replace_crlf (py_join [10] ks)) = py_join [10] ks" by (rule replace_id)
    moreover have "split_nl (py_join [10] ks) = ks"
      using ks(2,4) by (intro py_join_split) (auto simp: list_all_iff clean_line_def)
    moreover have "norm_lines False False ks = ks" using ks by (intro norm_lines_id) auto
    ultimately have "normalize_text (py_join [10] ks) = py_strip (py_join [10] ks)"
      by (simp add: normalize_text_def)
    then show ?thesis using ks(1) norm py_strip_idem by metis
  qed
qed

end
