(* ===== verification/Ingestion.thy ===== *)
theory Ingestion
  imports Retrieval Chunking
begin

text \<open>
  Document ingestion (\<^verbatim>\<open>app/rag/ingestion.py\<close>): normalise, deduplicate, store the document, chunk,
  embed, store the chunks and commit, as one transaction. The embedding provider and SHA-256 are
  constructor arguments.
\<close>

section \<open>The service\<close>

record KnowledgeIngestionService =
  is_embed_texts :: "pystr list \<Rightarrow> py_exc + rat list list"
  is_sha256_hex :: "pystr \<Rightarrow> pystr"
  is_chunk_size :: int
  is_chunk_overlap :: int

record KnowledgeDocumentCreate =
  dc_title :: pystr
  dc_source_type :: KnowledgeSourceType
  dc_source_uri :: "pystr option"
  dc_external_id :: "pystr option"
  dc_content :: pystr
  dc_metadata :: json_object

section \<open>Provenance\<close>

text \<open>\<open>s.find(sub, lo)\<close>.\<close>

definition find_from :: "pystr \<Rightarrow> pystr \<Rightarrow> nat \<Rightarrow> nat option" where
  "find_from sub s lo =
     find (\<lambda>i. take (length sub) (drop i s) = sub) [lo..<Suc (length s) - length sub]"

type_synonym span = "nat \<times> nat \<times> KnowledgeSourceSegment"

fun provenance_spans :: "pystr \<Rightarrow> nat \<Rightarrow> KnowledgeSourceSegment list \<Rightarrow> span list" where
  "provenance_spans normalized cursor [] = []"
| "provenance_spans normalized cursor (segment # rest) =
     (let segment_text = normalize_text (seg_text segment)
      in if segment_text = [] then provenance_spans normalized cursor rest
         else case find_from segment_text normalized cursor of
                None \<Rightarrow> provenance_spans normalized cursor rest
              | Some start \<Rightarrow>
                  (start, start + length segment_text, segment) #
                  provenance_spans normalized (start + length segment_text) rest)"

definition build_provenance_spans :: "pystr \<Rightarrow> KnowledgeSourceSegment list \<Rightarrow> span list" where
  "build_provenance_spans normalized segments = provenance_spans normalized 0 segments"

definition chunk_provenance :: "nat \<Rightarrow> nat \<Rightarrow> span list \<Rightarrow> json_object" where
  "chunk_provenance chunk_start chunk_end spans =
     (let overlapping = map (\<lambda>(_, _, m). m)
            (filter (\<lambda>(start, fin, _). chunk_start < fin \<and> chunk_end > start) spans);
          pages = sort (remdups (List.map_filter seg_page_number overlapping));
          sections = dedup (filter (\<lambda>x. x \<noteq> []) (List.map_filter seg_section_heading overlapping))
      in (if pages = [] then []
          else [(py ''source_pages'', JArr (map JInt pages)),
                (py ''source_page_start'', JInt (hd pages)),
                (py ''source_page_end'', JInt (last pages))]) @
         (if sections = [] then [] else [(py ''source_sections'', JArr (map JStr sections))]))"

section \<open>Ingestion\<close>

definition embedded_chunk ::
  "KnowledgeIngestionService \<Rightarrow> span list \<Rightarrow> TextChunk \<Rightarrow> rat list \<Rightarrow> EmbeddedChunk" where
  "embedded_chunk svc spans chunk vector =
     \<lparr>ec_chunk_index = int (ck_index chunk), ec_content = ck_content chunk, ec_embedding = vector,
      ec_metadata = (py ''content_hash'', JStr (is_sha256_hex svc (ck_content chunk))) #
        chunk_provenance (ck_start_offset chunk) (ck_end_offset chunk) spans\<rparr>"

text \<open>What is built between storing the document and storing its chunks.\<close>

definition embed_document ::
  "KnowledgeIngestionService \<Rightarrow> pystr \<Rightarrow> KnowledgeSourceSegment list \<Rightarrow> py_exc + EmbeddedChunk list" where
  "embed_document svc normalized source_segments =
     (case chunk_text normalized (is_chunk_size svc) (is_chunk_overlap svc) of
        Inl e \<Rightarrow> Inl e
      | Inr text_chunks \<Rightarrow>
          if text_chunks = [] then Inl (AppExc EmptyKnowledgeDocumentError)
          else case is_embed_texts svc (map ck_content text_chunks) of
                 Inl e \<Rightarrow> Inl e
               | Inr vectors \<Rightarrow>
                   if length vectors \<noteq> length text_chunks then Inl (AppExc InvalidEmbeddingError)
                   else if \<not> list_all (\<lambda>c. encodable (ck_content c)) text_chunks then Inl ValueExc
                   else Inr (map (\<lambda>(c, v). embedded_chunk svc
                               (build_provenance_spans normalized source_segments) c v)
                             (zip text_chunks vectors)))"

definition ingest_new ::
  "KnowledgeIngestionService \<Rightarrow> KnowledgeDocumentCreate \<Rightarrow> uuid \<Rightarrow> pystr \<Rightarrow> pystr \<Rightarrow>
     KnowledgeSourceSegment list \<Rightarrow> KnowledgeIngestionResult kdb" where
  "ingest_new svc request document_id normalized content_hash source_segments =
     bindE (document_create
       \<lparr>da_document_id = document_id, da_title = dc_title request,
        da_source_type = dc_source_type request, da_source_uri = dc_source_uri request,
        da_external_id = dc_external_id request, da_content = normalized,
        da_metadata = dc_metadata request, da_content_hash = content_hash\<rparr>) (\<lambda>document.
     bindE (liftE (embed_document svc normalized source_segments)) (\<lambda>embedded_chunks.
     bindE (bulk_create document_id embedded_chunks) (\<lambda>_.
     bindE k_commit (\<lambda>_.
     returnE \<lparr>ki_document = document, ki_chunk_count = length embedded_chunks,
              ki_duplicate = False\<rparr>))))"

definition ingest_body ::
  "KnowledgeIngestionService \<Rightarrow> KnowledgeDocumentCreate \<Rightarrow> bool \<Rightarrow> uuid \<Rightarrow> pystr \<Rightarrow> pystr \<Rightarrow>
     KnowledgeSourceSegment list \<Rightarrow> KnowledgeIngestionResult kdb" where
  "ingest_body svc request deduplicate document_id normalized content_hash source_segments =
     bindE (if deduplicate then find_by_content_hash content_hash else returnE None) (\<lambda>existing.
       case existing of
         Some d \<Rightarrow> bindE (list_by_document (kd_document_id d)) (\<lambda>existing_chunks.
           returnE \<lparr>ki_document = d, ki_chunk_count = length existing_chunks, ki_duplicate = True\<rparr>)
       | None \<Rightarrow> ingest_new svc request document_id normalized content_hash source_segments)"

text \<open>The two \<open>except\<close> clauses.\<close>

definition ingest_failed :: "py_exc \<Rightarrow> KnowledgeIngestionResult kdb" where
  "ingest_failed e =
     (case e of
        AppExc a \<Rightarrow> bindE k_rollback (\<lambda>_. raiseE e)
      | SqlExc q \<Rightarrow> bindE k_rollback (\<lambda>_. raiseE (AppExc (knowledge_error q)))
      | _ \<Rightarrow> raiseE e)"

definition ingest ::
  "KnowledgeIngestionService \<Rightarrow> KnowledgeDocumentCreate \<Rightarrow> bool \<Rightarrow> KnowledgeSourceSegment list \<Rightarrow>
     KnowledgeIngestionResult kdb" where
  "ingest svc request deduplicate source_segments =
     bindE k_uuid4 (\<lambda>document_id.
       let normalized = normalize_text (dc_content request)
       in if normalized = [] then raiseE (AppExc EmptyKnowledgeDocumentError)
          else if \<not> encodable normalized then raiseE ValueExc
          else catchE
            (ingest_body svc request deduplicate document_id normalized
               (is_sha256_hex svc normalized) source_segments)
            ingest_failed)"

definition get_document :: "uuid \<Rightarrow> KnowledgeDocumentRecord kdb" where
  "get_document document_id =
     bindE (catchE (document_get_by_id document_id)
              (\<lambda>e. case e of SqlExc q \<Rightarrow> raiseE (AppExc (knowledge_error q)) | _ \<Rightarrow> raiseE e))
       (requireE (AppExc KnowledgeDocumentNotFoundError))"

section \<open>What ingestion writes\<close>

lemma embed_document_Inr:
  assumes "embed_document svc normalized segments = Inr embedded"
  shows "\<exists>cs. chunk_text normalized (is_chunk_size svc) (is_chunk_overlap svc) = Inr cs \<and> cs \<noteq> [] \<and>
           map ec_content embedded = map ck_content cs \<and>
           map ec_chunk_index embedded = map (\<lambda>c. int (ck_index c)) cs \<and> length embedded = length cs"
proof -
  from assms obtain cs vs where cs: "chunk_text normalized (is_chunk_size svc) (is_chunk_overlap svc) = Inr cs"
    "cs \<noteq> []" "length vs = length cs"
    "embedded = map (\<lambda>(c, v). embedded_chunk svc (build_provenance_spans normalized segments) c v) (zip cs vs)"
    by (auto simp: embed_document_def split: sum.splits if_splits)
  have "map f embedded = map g cs"
    if "\<And>c v. f (embedded_chunk svc (build_provenance_spans normalized segments) c v) = g c" for f :: "EmbeddedChunk \<Rightarrow> 'a" and g
  proof -
    have "map f embedded = map (\<lambda>p. g (fst p)) (zip cs vs)" by (simp add: cs(4) that case_prod_beta)
    also have "\<dots> = map g (map fst (zip cs vs))" by simp
    also have "\<dots> = map g cs" using cs(3) by simp
    finally show ?thesis .
  qed
  from this[of ec_content ck_content] this[of ec_chunk_index "\<lambda>c. int (ck_index c)"] cs show ?thesis
    by (simp add: embedded_chunk_def)
qed

lemma ingest_new_Inr:
  assumes "ingest_new svc request i normalized h segments s = (Inr result, s')"
  shows "\<exists>embedded rows. embed_document svc normalized segments = Inr embedded \<and>
      map chunk_payload rows = embedded \<and> list_all (\<lambda>r. kc_document_id r = i) rows \<and>
      i \<notin> kd_document_id ` set (kt_documents (k_live s)) \<and>
      kd_document_id (ki_document result) = i \<and> kd_content (ki_document result) = normalized \<and>
      kd_content_hash (ki_document result) = h \<and> kd_title (ki_document result) = dc_title request \<and>
      kd_source_type (ki_document result) = dc_source_type request \<and>
      kd_metadata (ki_document result) = dc_metadata request \<and>
      ki_chunk_count result = length rows \<and> \<not> ki_duplicate result \<and>
      chunk_violation rows ((k_live s)\<lparr>kt_documents := kt_documents (k_live s) @ [ki_document result]\<rparr>) = None \<and>
      k_live s' = (k_live s)\<lparr>kt_documents := kt_documents (k_live s) @ [ki_document result],
                             kt_chunks := kt_chunks (k_live s) @ rows\<rparr> \<and>
      k_durable s' = k_live s'"
proof -
  from assms obtain d s1 embedded rows s2 where
    run: "document_create \<lparr>da_document_id = i, da_title = dc_title request,
        da_source_type = dc_source_type request, da_source_uri = dc_source_uri request,
        da_external_id = dc_external_id request, da_content = normalized,
        da_metadata = dc_metadata request, da_content_hash = h\<rparr> s = (Inr d, s1)"
      "embed_document svc normalized segments = Inr embedded"
      "bulk_create i embedded s1 = (Inr rows, s2)" "k_commit s2 = (Inr (), s')"
      "result = \<lparr>ki_document = d, ki_chunk_count = length embedded, ki_duplicate = False\<rparr>"
    by (auto simp: ingest_new_def bindE_eq_Inr liftE_def returnE_def)
  note doc = document_create_Inr[OF run(1)] and bulk = bulk_create_Inr[OF run(3)]
  from bulk(1) have n: "length rows = length embedded" by auto
  from doc obtain x y where d: "d = document_row \<lparr>da_document_id = i, da_title = dc_title request,
        da_source_type = dc_source_type request, da_source_uri = dc_source_uri request,
        da_external_id = dc_external_id request, da_content = normalized,
        da_metadata = dc_metadata request, da_content_hash = h\<rparr> x y" by blast
  have fields: "kd_document_id d = i" "kd_content d = normalized" "kd_content_hash d = h"
    "kd_title d = dc_title request" "kd_source_type d = dc_source_type request"
    "kd_metadata d = dc_metadata request" by (simp_all add: d document_row_def)
  have live: "k_live s2 = (k_live s)\<lparr>kt_documents := kt_documents (k_live s) @ [d], kt_chunks := kt_chunks (k_live s) @ rows\<rparr>"
    using doc bulk(4) by simp
  show ?thesis
    using doc bulk(1-3) n fields live k_commit_Inr[OF run(4)] run(2)
    by (intro exI[of _ embedded] exI[of _ rows]) (simp add: run(5))
qed

lemma k_atomic_ingest_body: "k_atomic (ingest_body svc request deduplicate i normalized h segments)"
proof -
  have new: "k_atomic (ingest_new svc request i normalized h segments)"
    unfolding ingest_new_def
    by (intro k_atomic_bind k_atomic_commit_return k_keeps_document_create k_keeps_bulk_create k_keeps_basic)
  have dup: "k_atomic (bindE (list_by_document j) f)" if "\<And>x. k_keeps (f x)" for j and f :: "_ \<Rightarrow> KnowledgeIngestionResult kdb"
    unfolding list_by_document_def by (intro k_keeps_atomic k_keeps_bind k_keeps_basic that)
  show ?thesis
    unfolding ingest_body_def
    by (rule k_atomic_bind) (auto simp: find_by_content_hash_def new intro!: dup split: option.split)
qed

lemma ingest_body_raises:
  "raises_only (\<lambda>e. sql_raised e \<or> embed_document svc normalized segments = Inl e)
     (ingest_body svc request deduplicate i normalized h segments)"
proof -
  let ?P = "\<lambda>e. sql_raised e \<or> embed_document svc normalized segments = Inl e"
  have sql: "raises_only ?P m" if "raises_only sql_raised m" for m :: "'a kdb"
    using that by (rule raises_only_mono) simp
  have embed: "raises_only ?P (liftE (embed_document svc normalized segments))"
    by (simp add: raises_only_def liftE_def)
  have "raises_only ?P (ingest_new svc request i normalized h segments)"
    unfolding ingest_new_def by (intro raises_only_bind embed sql raises_only_basic raises_sql
      raises_sql_documents raises_sql_bulk_create)
  then show ?thesis
    unfolding ingest_body_def
    by (intro raises_only_bind) (auto intro!: sql split: option.split)
qed

lemma find_last: "(\<forall>x \<in> set xs. \<not> P x) \<Longrightarrow> P y \<Longrightarrow> find P (xs @ [y]) = Some y"
  by (induction xs) auto

lemma catch_rollback:
  assumes "catchE m ingest_failed s = (Inl e, s')" and "k_atomic m" and "raises_only P m"
  shows "k_durable s' = k_durable s \<and> (P e \<or> sql_raised e \<or> (\<exists>q. e = AppExc (knowledge_error q)))"
proof -
  from assms(1) obtain e1 s1 where m: "m s = (Inl e1, s1)" and h: "ingest_failed e1 s1 = (Inl e, s')"
    by (auto simp: catchE_def split: prod.splits sum.splits)
  from assms(3) m have "P e1" by (rule raises_onlyD)
  moreover have "e = e1 \<and> s' = s1 \<or> k_rollback s1 = (Inl e, s') \<or>
      (\<exists>x. k_rollback s1 = (Inr x, s') \<and> (e = e1 \<or> (\<exists>q. e = AppExc (knowledge_error q))))"
    using h by (auto simp: ingest_failed_def bindE_eq_Inl raiseE_def split: py_exc.splits)
  moreover have "k_durable s1 = k_durable s" using assms(2) m by (rule k_atomicD)
  ultimately show ?thesis
    using k_rollback_run raises_onlyD[OF raises_sql(5)] by (metis (full_types))
qed

lemma ingest_failed_raises: "ingest_failed e s \<noteq> (Inr result, s')"
  by (auto simp: ingest_failed_def bindE_eq_Inr raiseE_def split: py_exc.splits)

section \<open>Properties\<close>


lemma ingest_Inr:
  assumes "ingest svc request deduplicate segments s = (Inr result, s')"
  shows "\<exists>i s1. k_live s1 = k_live s \<and> k_durable s1 = k_durable s \<and>
     ingest_body svc request deduplicate i (normalize_text (dc_content request))
       (is_sha256_hex svc (normalize_text (dc_content request))) segments s1 = (Inr result, s')"
proof -
  obtain i s1 where draw: "k_uuid4 s = (Inr i, s1)" "k_live s1 = k_live s" "k_durable s1 = k_durable s"
    by (simp add: k_uuid4_def)
  with assms have "ingest_body svc request deduplicate i (normalize_text (dc_content request))
       (is_sha256_hex svc (normalize_text (dc_content request))) segments s1 = (Inr result, s')"
    by (auto simp: ingest_def Let_def bindE_def raiseE_def catchE_def ingest_failed_raises
        split: if_splits prod.splits sum.splits)
  with draw(2,3) show ?thesis by blast
qed

lemma ingest_body_Inr:
  assumes "ingest_body svc request deduplicate i n h segments s = (Inr result, s')"
  obtains (duplicate) "deduplicate" "ki_duplicate result" "ki_document result \<in> set (kt_documents (k_live s))"
      "kd_content_hash (ki_document result) = h" "k_live s' = k_live s" "k_durable s' = k_durable s"
      "ki_chunk_count result =
         length (filter (\<lambda>c. kc_document_id c = kd_document_id (ki_document result)) (kt_chunks (k_live s)))"
  | (stored) s1 where "ingest_new svc request i n h segments s1 = (Inr result, s')"
      "k_live s1 = k_live s" "k_durable s1 = k_durable s"
      "deduplicate \<Longrightarrow> \<forall>d \<in> set (kt_documents (k_live s)). kd_content_hash d \<noteq> h"
proof -
  let ?f = "if deduplicate then find_by_content_hash h else returnE None"
  from assms obtain existing s1 where f: "?f s = (Inr existing, s1)"
    and rest: "(case existing of
         Some d \<Rightarrow> bindE (list_by_document (kd_document_id d)) (\<lambda>existing_chunks.
           returnE \<lparr>ki_document = d, ki_chunk_count = length existing_chunks, ki_duplicate = True\<rparr>)
       | None \<Rightarrow> ingest_new svc request i n h segments) s1 = (Inr result, s')"
    by (auto simp: ingest_body_def bindE_eq_Inr)
  have q: "k_live s1 = k_live s \<and> k_durable s1 = k_durable s \<and>
      existing = (if deduplicate then find (\<lambda>d. kd_content_hash d = h) (documents_in_order (k_live s)) else None)"
    using f k_query_run[of "\<lambda>t. find (\<lambda>d. kd_content_hash d = h) (documents_in_order t)" s "Inr existing" s1]
    by (auto simp: find_by_content_hash_def returnE_def split: if_splits)
  show thesis
  proof (cases existing)
    case None
    with q have "\<forall>d \<in> set (kt_documents (k_live s)). kd_content_hash d \<noteq> h" if deduplicate
      using that find_None_iff[of "\<lambda>d. kd_content_hash d = h" "documents_in_order (k_live s)"]
      by (auto simp: documents_in_order_def)
    with q rest None show thesis by (intro stored[of s1]) simp_all
  next
    case (Some d)
    with q have "deduplicate" and
      "find (\<lambda>d. kd_content_hash d = h) (documents_in_order (k_live s)) = Some d"
      by (simp_all split: if_splits)
    then have d: "deduplicate" "d \<in> set (kt_documents (k_live s))" "kd_content_hash d = h"
      using find_SomeD by (fastforce simp: documents_in_order_def)+
    from rest Some obtain cs where l: "list_by_document (kd_document_id d) s1 = (Inr cs, s')"
      and r: "result = \<lparr>ki_document = d, ki_chunk_count = length cs, ki_duplicate = True\<rparr>"
      by (auto simp: bindE_eq_Inr returnE_def)
    note k_query_run[OF l[unfolded list_by_document_def]]
    with d q r show thesis by (intro duplicate) simp_all
  qed
qed

lemma k_query_quiet: "k_query f (s\<lparr>k_faults := []\<rparr>) = (Inr (f (k_live s)), s\<lparr>k_faults := []\<rparr>)"
  by (simp add: k_query_def bindE_def k_call_def getE_def)

lemma sorted_map_int: "sorted (map int [0..<n])"
  by (simp add: sorted_iff_nth_mono)

lemma chunk_text_indices: "chunk_text str width overlap = Inr cs \<Longrightarrow> map ck_index cs = [0..<length cs]"
  using chunk_loop_ok[of "nat width" "normalize_text str" "nat overlap" 0 0]
  by (auto simp: chunk_text_def Let_def split: if_splits)

lemma chunks_of_new_document:
  assumes "documents_wf t" and "i \<notin> kd_document_id ` set (kt_documents t)"
    and "list_all (\<lambda>r. kc_document_id r = i) rows" and "sorted (map kc_chunk_index rows)"
  shows "sort_key kc_chunk_index (filter (\<lambda>c. kc_document_id c = i) (kt_chunks t @ rows)) = rows"
proof -
  have "filter (\<lambda>c. kc_document_id c = i) (kt_chunks t) = []"
    using assms(1,2) by (auto simp: documents_wf_def filter_empty_conv)
  moreover have "filter (\<lambda>c. kc_document_id c = i) rows = rows"
    using assms(3) by (simp add: list_all_iff)
  ultimately show ?thesis using assms(4) by (simp add: sort_key_id_if_sorted)
qed

lemma payload_fields:
  "map kc_content rows = map ec_content (map chunk_payload rows)"
  "map kc_chunk_index rows = map ec_chunk_index (map chunk_payload rows)"
  by (simp_all add: chunk_payload_def)

lemma index_of_payloads:
  assumes "map ec_chunk_index (map chunk_payload rows) = map (\<lambda>c. int (ck_index c)) cs"
    and "map ck_index cs = [0..<length cs]" and "length (map chunk_payload rows) = length cs"
  shows "map kc_chunk_index rows = map int [0..<length rows]"
proof -
  have "map kc_chunk_index rows = map int (map ck_index cs)"
    using assms(1) payload_fields(2)[of rows] by simp
  with assms(2,3) show ?thesis by simp
qed

text \<open>C35: after a successful ingestion the new document reads back as it was returned, holding the
  normalised text, and its stored chunks read back in order as exactly the chunks of that text, all
  of them committed; a detected duplicate changes nothing. Keys and references of the knowledge
  tables stay intact, and when every ingestion deduplicates no two documents share a content hash.\<close>

theorem ingestion_round_trip:
  assumes run: "ingest svc request deduplicate segments s = (Inr result, s')" and "knowledge_wf (k_live s)"
  shows "knowledge_wf (k_live s') \<and>
    (deduplicate \<and> distinct (map kd_content_hash (kt_documents (k_live s))) \<longrightarrow>
       distinct (map kd_content_hash (kt_documents (k_live s')))) \<and>
    (if ki_duplicate result
     then deduplicate \<and> k_live s' = k_live s \<and> k_durable s' = k_durable s \<and>
          ki_document result \<in> set (kt_documents (k_live s)) \<and>
          kd_content_hash (ki_document result) = is_sha256_hex svc (normalize_text (dc_content request))
     else k_durable s' = k_live s' \<and>
          kd_content (ki_document result) = normalize_text (dc_content request) \<and>
          (\<exists>chunks rows s1 s2.
             chunk_text (normalize_text (dc_content request)) (is_chunk_size svc) (is_chunk_overlap svc) = Inr chunks \<and>
             get_document (kd_document_id (ki_document result)) (s'\<lparr>k_faults := []\<rparr>) = (Inr (ki_document result), s1) \<and>
             list_by_document (kd_document_id (ki_document result)) s1 = (Inr rows, s2) \<and>
             map kc_content rows = map ck_content chunks \<and>
             map kc_chunk_index rows = map int [0..<ki_chunk_count result]))"
proof -
  let ?n = "normalize_text (dc_content request)"
  let ?h = "is_sha256_hex svc ?n"
  obtain i s1 where start: "k_live s1 = k_live s" "k_durable s1 = k_durable s"
    and body: "ingest_body svc request deduplicate i ?n ?h segments s1 = (Inr result, s')"
    using ingest_Inr[OF run] by blast
  from body show ?thesis
  proof (cases rule: ingest_body_Inr)
    case duplicate
    with start assms(2) show ?thesis by simp
  next
    case (stored s2)
    let ?d = "ki_document result"
    obtain embedded rows where new: "embed_document svc ?n segments = Inr embedded"
      "map chunk_payload rows = embedded" "list_all (\<lambda>r. kc_document_id r = i) rows"
      "i \<notin> kd_document_id ` set (kt_documents (k_live s))" "kd_document_id ?d = i"
      "kd_content ?d = ?n" "kd_content_hash ?d = ?h" "ki_chunk_count result = length rows" "\<not> ki_duplicate result"
      "chunk_violation rows ((k_live s)\<lparr>kt_documents := kt_documents (k_live s) @ [?d]\<rparr>) = None"
      and live: "k_live s' = (k_live s)\<lparr>kt_documents := kt_documents (k_live s) @ [?d],
                             kt_chunks := kt_chunks (k_live s) @ rows\<rparr>" "k_durable s' = k_live s'"
      using ingest_new_Inr[OF stored(1)] stored(2) start(1) by auto
    obtain cs where cs: "chunk_text ?n (is_chunk_size svc) (is_chunk_overlap svc) = Inr cs"
      "map ec_content embedded = map ck_content cs"
      "map ec_chunk_index embedded = map (\<lambda>c. int (ck_index c)) cs" "length embedded = length cs"
      using embed_document_Inr[OF new(1)] by blast
    have "map ck_index cs = [0..<length cs]"
      using cs(1) by (rule chunk_text_indices)
    then have index: "map kc_chunk_index rows = map int [0..<length rows]"
      using index_of_payloads[of rows cs] new(2) cs(3,4) by simp
    have docs: "documents_wf (k_live s)" using assms(2) by (simp add: knowledge_wf_def)
    have "documents_wf (k_live s')"
      using chunks_wf_append[OF documents_wf_append[OF docs, of ?d] new(10)] new(4,5) live by simp
    then have wf: "knowledge_wf (k_live s')"
      using knowledge_wf_more_documents[OF assms(2)] live by simp
    have doc: "find (\<lambda>d. kd_document_id d = i) (kt_documents (k_live s')) = Some ?d"
    proof -
      have "\<forall>d \<in> set (kt_documents (k_live s)). kd_document_id d \<noteq> i" using new(4) by auto
      from find_last[of _ "\<lambda>d. kd_document_id d = i", OF this] new(5) live show ?thesis by simp
    qed
    have chunks: "sort_key kc_chunk_index (filter (\<lambda>c. kc_document_id c = i) (kt_chunks (k_live s'))) = rows"
      using chunks_of_new_document[OF docs new(4,3)] live by (simp add: index sorted_map_int)
    have content: "map kc_content rows = map ck_content cs"
      using payload_fields(1)[of rows] new(2) cs(2) by simp
    have get: "get_document i (s'\<lparr>k_faults := []\<rparr>) = (Inr ?d, s'\<lparr>k_faults := []\<rparr>)"
      by (simp add: get_document_def document_get_by_id_def bindE_def catchE_def k_query_quiet doc
          requireE_def returnE_def)
    have list: "list_by_document i (s'\<lparr>k_faults := []\<rparr>) = (Inr rows, s'\<lparr>k_faults := []\<rparr>)"
      by (simp add: list_by_document_def k_query_quiet chunks)
    have fresh: "deduplicate \<Longrightarrow> ?h \<notin> kd_content_hash ` set (kt_documents (k_live s))"
      using stored(4) start(1) by auto
    show ?thesis
      using wf new live(2) get list content cs(1) index fresh
      by (auto simp: live(1))
  qed
qed

section \<open>An instance\<close>

definition sample_ingestion :: KnowledgeIngestionService where
  "sample_ingestion =
     \<lparr>is_embed_texts = (\<lambda>xs. Inr (map (\<lambda>_. replicate 1536 0) xs)), is_sha256_hex = (\<lambda>x. x),
      is_chunk_size = 10, is_chunk_overlap = 0\<rparr>"

definition sample_upload :: KnowledgeDocumentCreate where
  "sample_upload =
     \<lparr>dc_title = py ''Guide'', dc_source_type = Source_TEXT, dc_source_uri = None,
      dc_external_id = None, dc_content = [97, 98], dc_metadata = []\<rparr>"

lemma sample_normal: "normalize_text [97, 98] = [97, 98]"
  by (simp add: normalize_text_def replace_cr_def Let_def py_strip_def py_rstrip_def py_lstrip_def py_isspace_def)

lemma sample_chunks:
  "chunk_text [97, 98] 10 0 =
     Inr [\<lparr>ck_index = 0, ck_content = [97, 98], ck_start_offset = 0, ck_end_offset = 2\<rparr>]"
  by (simp add: chunk_text_def sample_normal chunk_loop.simps window_end_def window_content_def
      slice_def py_lstrip_def py_rstrip_def py_isspace_def Let_def)

lemma sample_embedded:
  "embed_document sample_ingestion [97, 98] [] =
     Inr [\<lparr>ec_chunk_index = 0, ec_content = [97, 98], ec_embedding = replicate 1536 0,
           ec_metadata = [(py ''content_hash'', JStr [97, 98])]\<rparr>]"
  by (simp add: embed_document_def sample_ingestion_def sample_chunks embedded_chunk_def
      chunk_provenance_def build_provenance_spans_def encodable_def dedup_def map_filter_def)

lemma sample_hash: "is_sha256_hex sample_ingestion x = x" "py ''h'' \<noteq> [97, 98]"
  by (simp_all add: sample_ingestion_def py_def)

lemma sample_ingest:
  "\<exists>result s'. ingest sample_ingestion sample_upload True [] (knowledge_session_of sample_knowledge []) = (Inr result, s') \<and>
     \<not> ki_duplicate result"
  by (simp add: ingest_def sample_hash sample_upload_def sample_normal Let_def encodable_def bindE_def catchE_def
      k_uuid4_def ingest_body_def find_by_content_hash_def k_query_def k_call_def knowledge_session_of_def
      getE_def documents_in_order_def sample_knowledge_def sample_document_def ingest_new_def sample_embedded
      document_create_def k_now_def k_flush_def modifyE_def returnE_def document_row_def liftE_def
      bulk_create_def chunk_row_def chunk_violation_def sample_chunk_def KNOWLEDGE_EMBEDDING_DIMENSION_def
      k_commit_def document_violation_def opt_len_ok_def)

lemma sample_knowledge_wf: "knowledge_wf sample_knowledge"
  by (simp add: knowledge_wf_defs sample_knowledge_def sample_chunk_def sample_document_def)

theorem ingestion_round_trip_witness:
  "\<exists>result s'. ingest sample_ingestion sample_upload True [] (knowledge_session_of sample_knowledge []) = (Inr result, s') \<and>
     knowledge_wf (k_live s') \<and> k_durable s' = k_live s' \<and> kd_content (ki_document result) = [97, 98] \<and>
     distinct (map kd_content_hash (kt_documents (k_live s')))"
proof -
  obtain result s' where run: "ingest sample_ingestion sample_upload True [] (knowledge_session_of sample_knowledge []) = (Inr result, s')"
    "\<not> ki_duplicate result" using sample_ingest by blast
  have live: "k_live (knowledge_session_of sample_knowledge []) = sample_knowledge"
    "distinct (map kd_content_hash (kt_documents sample_knowledge))"
    by (simp_all add: knowledge_session_of_def sample_knowledge_def)
  have n: "normalize_text (dc_content sample_upload) = [97, 98]" by (simp add: sample_upload_def sample_normal)
  from ingestion_round_trip[OF run(1)] live sample_knowledge_wf run show ?thesis by (simp add: n)
qed

text \<open>The first call raises a fault while the document is stored.\<close>

lemma sample_ingest_fault:
  "\<exists>s'. ingest sample_ingestion sample_upload False [] (knowledge_session_of sample_knowledge [Some OperationalError]) =
     (Inl (AppExc KnowledgeStoreUnavailableError), s')"
  by (simp add: ingest_def sample_upload_def sample_normal Let_def encodable_def bindE_def catchE_def
      k_uuid4_def ingest_body_def k_call_def knowledge_session_of_def ingest_new_def returnE_def
      document_create_def k_now_def k_flush_def ingest_failed_def k_rollback_def modifyE_def raiseE_def
      knowledge_error_def)


end
