(* ===== verification/Router.thy ===== *)
theory Router
  imports Domain
begin

text \<open>
  The deterministic execution router (\<^verbatim>\<open>app/services/execution_router.py\<close>). Keyword search is the
  regular expression that finds the term between non-word characters, on the case-folded workload text; which code points
  are word characters and how they fold is the Unicode database, a parameter.
\<close>

section \<open>Vocabulary\<close>

datatype RoutingReasonCode =
  ENVIRONMENT_OVERRIDE | BOUNDED_SCOPE | LOW_COORDINATION_COMPLEXITY | MULTIPLE_PAIN_POINTS
  | MULTIPLE_CONSTRAINTS | MULTIPLE_WORKLOAD_CONCERNS | RICH_PROCESS_CONTEXT
  | SINGLE_REASONING_CONTEXT_SUFFICIENT | CROSS_FUNCTIONAL_COORDINATION
  | SPECIALIST_SEPARATION_BENEFICIAL | LEGACY_FLAG_SELECTION

primrec routing_reason_value :: "RoutingReasonCode \<Rightarrow> pystr" where
  "routing_reason_value ENVIRONMENT_OVERRIDE = py ''environment_override''"
| "routing_reason_value BOUNDED_SCOPE = py ''bounded_scope''"
| "routing_reason_value LOW_COORDINATION_COMPLEXITY = py ''low_coordination_complexity''"
| "routing_reason_value MULTIPLE_PAIN_POINTS = py ''multiple_pain_points''"
| "routing_reason_value MULTIPLE_CONSTRAINTS = py ''multiple_constraints''"
| "routing_reason_value MULTIPLE_WORKLOAD_CONCERNS = py ''multiple_workload_concerns''"
| "routing_reason_value RICH_PROCESS_CONTEXT = py ''rich_process_context''"
| "routing_reason_value SINGLE_REASONING_CONTEXT_SUFFICIENT = py ''single_reasoning_context_sufficient''"
| "routing_reason_value CROSS_FUNCTIONAL_COORDINATION = py ''cross_functional_coordination''"
| "routing_reason_value SPECIALIST_SEPARATION_BENEFICIAL = py ''specialist_separation_beneficial''"
| "routing_reason_value LEGACY_FLAG_SELECTION = py ''legacy_flag_selection''"

datatype FallbackReasonCode =
  MULTI_AGENT_CAPABILITY_UNAVAILABLE | SINGLE_AGENT_CAPABILITY_UNAVAILABLE
  | FALLBACK_TO_SINGLE_AGENT | FALLBACK_TO_DETERMINISTIC

primrec fallback_reason_value :: "FallbackReasonCode \<Rightarrow> pystr" where
  "fallback_reason_value MULTI_AGENT_CAPABILITY_UNAVAILABLE = py ''multi_agent_capability_unavailable''"
| "fallback_reason_value SINGLE_AGENT_CAPABILITY_UNAVAILABLE = py ''single_agent_capability_unavailable''"
| "fallback_reason_value FALLBACK_TO_SINGLE_AGENT = py ''fallback_to_single_agent''"
| "fallback_reason_value FALLBACK_TO_DETERMINISTIC = py ''fallback_to_deterministic''"

record ExecutionRoutingDecision =
  rd_preferred_execution_mode :: ExecutionMode
  rd_reason_codes :: "RoutingReasonCode list"

record ResolvedExecutionRoute =
  rr_preferred_execution_mode :: ExecutionMode
  rr_execution_mode :: ExecutionMode
  rr_routing_reason_codes :: "RoutingReasonCode list"
  rr_fallback_reason_codes :: "FallbackReasonCode list"

text \<open>Construction of a decision: between one and twelve reason codes.\<close>

definition mk_routing_decision ::
  "ExecutionMode \<Rightarrow> RoutingReasonCode list \<Rightarrow> py_exc + ExecutionRoutingDecision" where
  "mk_routing_decision mode reasons =
     (if 1 \<le> length reasons \<and> length reasons \<le> 12
      then Inr \<lparr>rd_preferred_execution_mode = mode, rd_reason_codes = reasons\<rparr>
      else Inl ValidationExc)"

section \<open>Keywords\<close>

definition concern_keywords :: "(string \<times> pystr list) list" where
  "concern_keywords =
     [
      (''data'', map py [
         ''data'', ''record'', ''records'', ''document'', ''documents'', ''information quality'']),
      (''integration'', map py [
         ''integration'', ''integrations'', ''integrate'', ''api'', ''apis'', ''system'',
         ''systems'', ''handoff'', ''handoffs'']),
      (''security_privacy'', map py [
         ''security'', ''privacy'', ''confidential'', ''sensitive'', ''access control'',
         ''permission'']),
      (''governance_risk'', map py [
         ''risk'', ''compliance'', ''audit'', ''policy'', ''regulatory'', ''approval'',
         ''oversight'']),
      (''operations'', map py [
         ''operations'', ''reliability'', ''monitoring'', ''latency'', ''scalability'',
         ''deployment'']),
      (''people_change'', map py [
         ''team'', ''department'', ''stakeholder'', ''training'', ''change management'',
         ''customer'', ''employee''])]"

definition coordination_keywords :: "pystr list" where
  "coordination_keywords = map py [
      ''cross-functional'', ''cross functional'', ''multiple teams'', ''multiple departments'',
      ''across teams'', ''across departments'', ''across systems'', ''end-to-end'',
      ''end to end'', ''multiple stakeholders'', ''parallel workstreams'']"

record unicode_db =
  udb_fold :: fold_table
  udb_word :: "codepoint \<Rightarrow> bool"

definition term_here :: "(codepoint \<Rightarrow> bool) \<Rightarrow> codepoint option \<Rightarrow> pystr \<Rightarrow> pystr \<Rightarrow> bool" where
  "term_here is_word previous text trm \<longleftrightarrow>
     (case previous of None \<Rightarrow> True | Some c \<Rightarrow> \<not> is_word c) \<and>
     take (length trm) text = trm \<and>
     (case drop (length trm) text of [] \<Rightarrow> True | c # _ \<Rightarrow> \<not> is_word c)"

fun search_term :: "(codepoint \<Rightarrow> bool) \<Rightarrow> codepoint option \<Rightarrow> pystr \<Rightarrow> pystr \<Rightarrow> bool" where
  "search_term is_word previous [] trm = term_here is_word previous [] trm"
| "search_term is_word previous (c # cs) trm =
     (term_here is_word previous (c # cs) trm \<or> search_term is_word (Some c) cs trm)"

definition contains_term :: "(codepoint \<Rightarrow> bool) \<Rightarrow> pystr \<Rightarrow> pystr \<Rightarrow> bool" where
  "contains_term is_word text trm = search_term is_word None text trm"

definition workload_text :: "fold_table \<Rightarrow> AssessmentRequest \<Rightarrow> pystr" where
  "workload_text table r =
     py_casefold table
       (py_join (py '' '')
         ([req_business_problem r, req_desired_outcome r, str_or (req_current_process r) []] @
          req_pain_points r @ req_constraints r @ [str_or (req_additional_context r) []]))"

section \<open>Routing\<close>

record ExecutionRouter =
  er_forced_mode :: "ExecutionMode option"
  er_unicode :: unicode_db

definition concern_count :: "unicode_db \<Rightarrow> pystr \<Rightarrow> nat" where
  "concern_count db text =
     length (filter (\<lambda>(_, keywords). list_ex (contains_term (udb_word db) text) keywords) concern_keywords)"

definition has_coordination_signal :: "unicode_db \<Rightarrow> pystr \<Rightarrow> bool" where
  "has_coordination_signal db text = list_ex (contains_term (udb_word db) text) coordination_keywords"

definition workload_reasons :: "AssessmentRequest \<Rightarrow> nat \<Rightarrow> RoutingReasonCode list" where
  "workload_reasons request concerns =
     (if length (req_pain_points request) \<ge> 2 then [MULTIPLE_PAIN_POINTS] else []) @
     (if length (req_constraints request) \<ge> 2 then [MULTIPLE_CONSTRAINTS] else []) @
     (if concerns \<ge> 2 then [MULTIPLE_WORKLOAD_CONCERNS] else []) @
     (if str_truthy (req_current_process request) \<and> str_truthy (req_additional_context request)
      then [RICH_PROCESS_CONTEXT] else [])"

definition route :: "ExecutionRouter \<Rightarrow> AssessmentRequest \<Rightarrow> py_exc + ExecutionRoutingDecision" where
  "route router request =
     (case er_forced_mode router of
        Some mode \<Rightarrow> mk_routing_decision mode [ENVIRONMENT_OVERRIDE]
      | None \<Rightarrow>
          (let text = workload_text (udb_fold (er_unicode router)) request;
               concerns = concern_count (er_unicode router) text;
               coordination = has_coordination_signal (er_unicode router) text;
               reasons = workload_reasons request concerns;
               specialist = (concerns \<ge> 3 \<and>
                 (coordination \<or> length (req_pain_points request) \<ge> 3 \<or>
                  length (req_constraints request) \<ge> 3))
           in if specialist
              then mk_routing_decision Mode_MULTI_AGENT
                     (reasons @ (if coordination then [CROSS_FUNCTIONAL_COORDINATION] else []) @
                      [SPECIALIST_SEPARATION_BENEFICIAL])
              else if reasons \<noteq> []
              then mk_routing_decision Mode_SINGLE_AGENT
                     (reasons @ [SINGLE_REASONING_CONTEXT_SUFFICIENT])
              else mk_routing_decision Mode_DETERMINISTIC
                     [BOUNDED_SCOPE, LOW_COORDINATION_COMPLEXITY]))"

text \<open>
  \<open>AssessmentService._route_execution\<close> (\<^verbatim>\<open>app/services/assessments.py\<close>): the preferred mode,
  and the strongest mode the configured workflows can execute.
\<close>

definition route_execution ::
  "ExecutionRouter option \<Rightarrow> bool \<Rightarrow> bool \<Rightarrow> AssessmentRequest \<Rightarrow> py_exc + ResolvedExecutionRoute" where
  "route_execution router has_single has_multi request =
     (case router of
        None \<Rightarrow>
          (let mode = (if has_multi then Mode_MULTI_AGENT else if has_single then Mode_SINGLE_AGENT
                       else Mode_DETERMINISTIC)
           in Inr \<lparr>rr_preferred_execution_mode = mode, rr_execution_mode = mode,
                   rr_routing_reason_codes = [LEGACY_FLAG_SELECTION],
                   rr_fallback_reason_codes = []\<rparr>)
      | Some r \<Rightarrow>
          (case route r request of
             Inl e \<Rightarrow> Inl e
           | Inr d \<Rightarrow>
               (let preferred = rd_preferred_execution_mode d;
                    resolved =
                      (if preferred = Mode_MULTI_AGENT \<and> \<not> has_multi then
                         (if has_single
                          then (Mode_SINGLE_AGENT,
                                [MULTI_AGENT_CAPABILITY_UNAVAILABLE, FALLBACK_TO_SINGLE_AGENT])
                          else (Mode_DETERMINISTIC,
                                [MULTI_AGENT_CAPABILITY_UNAVAILABLE,
                                 SINGLE_AGENT_CAPABILITY_UNAVAILABLE, FALLBACK_TO_DETERMINISTIC]))
                       else if preferred = Mode_SINGLE_AGENT \<and> \<not> has_single
                       then (Mode_DETERMINISTIC,
                             [SINGLE_AGENT_CAPABILITY_UNAVAILABLE, FALLBACK_TO_DETERMINISTIC])
                       else (preferred, []))
                in Inr \<lparr>rr_preferred_execution_mode = preferred,
                        rr_execution_mode = fst resolved,
                        rr_routing_reason_codes = rd_reason_codes d,
                        rr_fallback_reason_codes = snd resolved\<rparr>)))"

section \<open>Facts\<close>

lemma search_term_iff:
  "search_term w previous str trm \<longleftrightarrow>
     (\<exists>a b. str = a @ trm @ b \<and>
        (if a = [] then (case previous of None \<Rightarrow> True | Some c \<Rightarrow> \<not> w c) else \<not> w (last a)) \<and>
        (b = [] \<or> \<not> w (hd b)))"
proof -
  have here: "term_here w previous str trm \<longleftrightarrow>
      (case previous of None \<Rightarrow> True | Some c \<Rightarrow> \<not> w c) \<and>
      (\<exists>b. str = trm @ b \<and> (b = [] \<or> \<not> w (hd b)))" for previous str
    unfolding term_here_def
    by (auto split: list.splits) (metis append_take_drop_id list.sel(1))+
  show ?thesis
  proof (induction str arbitrary: previous)
    case Nil
    then show ?case by (auto simp: here split: if_splits)
  next
    case (Cons c cs)
    show ?case (is "?l \<longleftrightarrow> ?r")
    proof
      assume ?l
      then consider "term_here w previous (c # cs) trm" | "search_term w (Some c) cs trm" by auto
      then show ?r
      proof cases
        case 1
        then obtain b where "c # cs = trm @ b" "b = [] \<or> \<not> w (hd b)"
          "case previous of None \<Rightarrow> True | Some c \<Rightarrow> \<not> w c"
          unfolding here by blast
        then show ?thesis by (intro exI[of _ "[]"] exI[of _ b]) auto
      next
        case 2
        then obtain a b where "cs = a @ trm @ b" "if a = [] then \<not> w c else \<not> w (last a)"
          "b = [] \<or> \<not> w (hd b)"
          unfolding Cons.IH option.case by blast
        then show ?thesis by (intro exI[of _ "c # a"] exI[of _ b]) (simp split: if_splits)
      qed
    next
      assume ?r
      then obtain a b where ab: "c # cs = a @ trm @ b" "b = [] \<or> \<not> w (hd b)"
        "if a = [] then (case previous of None \<Rightarrow> True | Some c \<Rightarrow> \<not> w c) else \<not> w (last a)" by blast
      show ?l
      proof (cases a)
        case Nil
        with ab have "term_here w previous (c # cs) trm" unfolding here by auto
        then show ?thesis by simp
      next
        case (Cons x a')
        with ab have "search_term w (Some c) cs trm"
          unfolding Cons.IH by (intro exI[of _ a'] exI[of _ b]) (auto split: if_splits)
        then show ?thesis by simp
      qed
    qed
  qed
qed

lemma workload_reasons_facts:
  "distinct (workload_reasons r n)" "length (workload_reasons r n) \<le> 4"
  "set (workload_reasons r n) \<subseteq> {MULTIPLE_PAIN_POINTS, MULTIPLE_CONSTRAINTS, MULTIPLE_WORKLOAD_CONCERNS, RICH_PROCESS_CONTEXT}"
  by (auto simp: workload_reasons_def)

lemma mk_routing_decision_Inr:
  "1 \<le> length rs \<Longrightarrow> length rs \<le> 12 \<Longrightarrow>
     mk_routing_decision m rs = Inr \<lparr>rd_preferred_execution_mode = m, rd_reason_codes = rs\<rparr>"
  by (simp add: mk_routing_decision_def)

lemma route_Inr: "\<exists>d. route router request = Inr d"
proof (cases "er_forced_mode router")
  case None
  have l: "length (workload_reasons request n) \<le> 4" for n by (rule workload_reasons_facts)
  show ?thesis
    using None l[of "concern_count (er_unicode router) (workload_text (udb_fold (er_unicode router)) request)"]
    by (auto simp: route_def Let_def mk_routing_decision_def Suc_le_eq)
qed (simp add: route_def mk_routing_decision_def)

lemma resolved_route_Inr: "\<exists>r. route_execution router has_single has_multi request = Inr r"
proof (cases router)
  case (Some x)
  obtain d where "route x request = Inr d" using route_Inr by blast
  with Some show ?thesis by (simp add: route_execution_def Let_def)
qed (simp add: route_execution_def Let_def)

section \<open>Properties\<close>

text \<open>keyword matching finds exactly the whole-word occurrences: the term occurs in the text
  with no word character directly before or after it.\<close>

theorem keyword_search_whole_words:
  "contains_term w str trm \<longleftrightarrow>
     (\<exists>a b. str = a @ trm @ b \<and> (a = [] \<or> \<not> w (last a)) \<and> (b = [] \<or> \<not> w (hd b)))"
  unfolding contains_term_def search_term_iff by auto

theorem keyword_search_whole_words_witness:
  "contains_term (\<lambda>c. c \<noteq> 32) (py ''an api'') (py ''api'')"
  unfolding keyword_search_whole_words
  by (rule exI[of _ "py ''an ''"], rule exI[of _ "[]"]) (simp add: py_def)

text \<open>C16: routing always returns a decision, with distinct reason codes; a forced mode is obeyed,
  and otherwise the multi-agent workflow is preferred exactly when at least three concern groups
  occur together with a coordination term, three pain points or three constraints, and the
  deterministic one exactly when no workload signal is present.\<close>

theorem routing_decision:
  "\<exists>d. route router request = Inr d \<and> distinct (rd_reason_codes d) \<and> rd_reason_codes d \<noteq> [] \<and>
       (let str = workload_text (udb_fold (er_unicode router)) request;
            n = concern_count (er_unicode router) str;
            useful = (3 \<le> n \<and> (has_coordination_signal (er_unicode router) str \<or>
              3 \<le> length (req_pain_points request) \<or> 3 \<le> length (req_constraints request)))
        in rd_preferred_execution_mode d =
             (case er_forced_mode router of
                Some m \<Rightarrow> m
              | None \<Rightarrow> if useful then Mode_MULTI_AGENT
                        else if length (req_pain_points request) < 2 \<and>
                          length (req_constraints request) < 2 \<and> n < 2 \<and>
                          \<not> (str_truthy (req_current_process request) \<and>
                             str_truthy (req_additional_context request))
                        then Mode_DETERMINISTIC else Mode_SINGLE_AGENT))"
proof (cases "er_forced_mode router")
  case None
  let ?str = "workload_text (udb_fold (er_unicode router)) request"
  let ?n = "concern_count (er_unicode router) ?str"
  note w = workload_reasons_facts[of request ?n]
  have nil: "workload_reasons request ?n = [] \<longleftrightarrow> length (req_pain_points request) < 2 \<and>
      length (req_constraints request) < 2 \<and> ?n < 2 \<and>
      \<not> (str_truthy (req_current_process request) \<and> str_truthy (req_additional_context request))"
    by (auto simp: workload_reasons_def)
  show ?thesis
    using None w nil
    by (auto simp: route_def Let_def mk_routing_decision_def Suc_le_eq)
qed (simp add: route_def mk_routing_decision_def)

text \<open>The decision depends only on the workload fields: company, industry and organisation
  description never influence which workflow is selected.\<close>

theorem routing_ignores_identity_fields:
  "route router (request\<lparr>req_company_name := c, req_industry := ind, req_organization_description := o'\<rparr>) =
   route router request"
  by (cases "er_forced_mode router")
     (simp_all add: route_def workload_text_def workload_reasons_def Let_def)

text \<open>the resolved route is always executable with the workflows that are configured, and records
  fallback reasons exactly when it differs from the preferred mode.\<close>

theorem resolved_route_executable:
  "\<exists>r. route_execution router has_single has_multi request = Inr r \<and>
       (rr_execution_mode r = Mode_MULTI_AGENT \<longrightarrow> has_multi) \<and>
       (rr_execution_mode r = Mode_SINGLE_AGENT \<longrightarrow> has_single) \<and>
       (rr_fallback_reason_codes r = [] \<longleftrightarrow> rr_execution_mode r = rr_preferred_execution_mode r) \<and>
       length (rr_fallback_reason_codes r) \<le> 12"
proof (cases router)
  case None
  then show ?thesis by (simp add: route_execution_def Let_def)
next
  case (Some x)
  obtain d where "route x request = Inr d" using route_Inr by blast
  with Some show ?thesis by (cases "rd_preferred_execution_mode d") (auto simp: route_execution_def Let_def)
qed

theorem resolved_route_executable_witness:
  "\<exists>r. route_execution None True False
     \<lparr>req_company_name = py ''a'', req_organization_description = None, req_industry = py ''b'',
      req_business_problem = py ''c'', req_current_process = None, req_pain_points = [],
      req_desired_outcome = py ''d'', req_constraints = [], req_additional_context = None\<rparr> = Inr r \<and>
     rr_execution_mode r = Mode_SINGLE_AGENT \<and> rr_fallback_reason_codes r = []"
  using resolved_route_executable[of None True False
     "\<lparr>req_company_name = py ''a'', req_organization_description = None, req_industry = py ''b'',
      req_business_problem = py ''c'', req_current_process = None, req_pain_points = [],
      req_desired_outcome = py ''d'', req_constraints = [], req_additional_context = None\<rparr>"]
  by (simp add: route_execution_def Let_def)

end
