(* ===== verification/Graph_Store.thy ===== *)
theory Graph_Store
  imports Retrieval Router
begin

text \<open>
  The knowledge-graph repository (\<^verbatim>\<open>app/repositories/knowledge_graph.py\<close>) and entity-name
  normalisation (\<^verbatim>\<open>app/knowledge_graph/normalization.py\<close>). The Unicode database (NFKC, case
  folding, word characters) and the collation by which the database orders text are parameters.
\<close>

section \<open>Names\<close>

record graph_text =
  gt_nfkc :: "pystr \<Rightarrow> pystr"
  gt_unicode :: unicode_db
  gt_collation_key :: "pystr \<Rightarrow> pystr"

text \<open>\<open>s.split()\<close>.\<close>

fun split_space :: "pystr \<Rightarrow> pystr list" where
  "split_space [] = [ [] ]"
| "split_space (c # cs) =
     (if py_isspace c then [] # split_space cs
      else (case split_space cs of [] \<Rightarrow> [ [c] ] | w # ws \<Rightarrow> (c # w) # ws))"

definition py_words :: "pystr \<Rightarrow> pystr list" where
  "py_words s = filter (\<lambda>w. w \<noteq> []) (split_space s)"

definition canonicalize_entity_name :: "graph_text \<Rightarrow> pystr \<Rightarrow> pystr" where
  "canonicalize_entity_name g s = py_join [32] (py_words (gt_nfkc g s))"

definition normalize_entity_name :: "graph_text \<Rightarrow> pystr \<Rightarrow> pystr" where
  "normalize_entity_name g s =
     py_casefold (udb_fold (gt_unicode g)) (py_join [32] (py_words (gt_nfkc g s)))"

section \<open>Entities\<close>

definition entity_row ::
  "uuid \<Rightarrow> KnowledgeEntityType \<Rightarrow> pystr \<Rightarrow> pystr \<Rightarrow> pystr option \<Rightarrow> json_object \<Rightarrow> instant \<Rightarrow> instant \<Rightarrow>
     KnowledgeEntityRecord" where
  "entity_row i ty canonical normalized description metadata created updated =
     \<lparr>ken_entity_id = i, ken_entity_type = ty, ken_canonical_name = canonical,
      ken_normalized_name = normalized, ken_description = description, ken_metadata = metadata,
      ken_created_at = created, ken_updated_at = updated\<rparr>"

text \<open>The constraints of \<open>knowledge_entities\<close>: two columns of at most 300 characters, the primary
  key and the unique pair of type and normalised name.\<close>

definition entity_violation :: "KnowledgeEntityRecord \<Rightarrow> knowledge_tables \<Rightarrow> sql_error option" where
  "entity_violation e t =
     (if length (ken_canonical_name e) > 300 \<or> length (ken_normalized_name e) > 300 then Some OtherSQLError
      else if list_ex (\<lambda>x. ken_entity_id x = ken_entity_id e \<or>
                (ken_entity_type x = ken_entity_type e \<and> ken_normalized_name x = ken_normalized_name e))
              (kt_entities t)
      then Some IntegrityError
      else None)"

definition entity_lookup ::
  "KnowledgeEntityType \<Rightarrow> pystr \<Rightarrow> knowledge_tables \<Rightarrow> KnowledgeEntityRecord option" where
  "entity_lookup ty normalized t =
     find (\<lambda>e. ken_entity_type e = ty \<and> ken_normalized_name e = normalized) (kt_entities t)"

definition insert_entity ::
  "KnowledgeEntityType \<Rightarrow> pystr \<Rightarrow> pystr \<Rightarrow> pystr option \<Rightarrow> json_object \<Rightarrow> KnowledgeEntityRecord kdb" where
  "insert_entity ty canonical normalized description metadata =
     bindE k_uuid4 (\<lambda>i.
     bindE k_now (\<lambda>created.
     bindE k_now (\<lambda>updated.
       let row = entity_row i ty canonical normalized description metadata created updated
       in bindE (k_flush (entity_violation row) (\<lambda>t. t\<lparr>kt_entities := kt_entities t @ [row]\<rparr>))
            (\<lambda>_. returnE row))))"

definition describe_entity :: "KnowledgeEntityRecord \<Rightarrow> pystr option \<Rightarrow> KnowledgeEntityRecord kdb" where
  "describe_entity e description =
     bindE k_now (\<lambda>updated.
       let row = e\<lparr>ken_description := description, ken_updated_at := updated\<rparr>
       in bindE (k_flush (\<lambda>_. None) (\<lambda>t. t\<lparr>kt_entities :=
              map (\<lambda>x. if ken_entity_id x = ken_entity_id e then row else x) (kt_entities t)\<rparr>))
            (\<lambda>_. returnE row))"

definition upsert_entity ::
  "graph_text \<Rightarrow> KnowledgeEntityType \<Rightarrow> pystr \<Rightarrow> pystr option \<Rightarrow> json_object \<Rightarrow> KnowledgeEntityRecord kdb" where
  "upsert_entity g ty canonical_name description metadata =
     (let canonical = canonicalize_entity_name g canonical_name;
          normalized = normalize_entity_name g canonical
      in if normalized = [] then raiseE ValueExc
         else bindE (k_query (entity_lookup ty normalized)) (\<lambda>model.
           case model of
             None \<Rightarrow> insert_entity ty canonical normalized description metadata
           | Some e \<Rightarrow> if ken_description e = None \<and> str_truthy description
                       then describe_entity e description else returnE e))"

definition get_entity :: "uuid \<Rightarrow> KnowledgeEntityRecord option kdb" where
  "get_entity i = k_query (\<lambda>t. find (\<lambda>e. ken_entity_id e = i) (kt_entities t))"

definition find_entity ::
  "graph_text \<Rightarrow> KnowledgeEntityType \<Rightarrow> pystr \<Rightarrow> KnowledgeEntityRecord option kdb" where
  "find_entity g ty name = k_query (entity_lookup ty (normalize_entity_name g name))"

text \<open>\<open>ORDER BY normalized_name, id\<close>.\<close>

definition entities_in_order :: "graph_text \<Rightarrow> KnowledgeEntityRecord list \<Rightarrow> KnowledgeEntityRecord list" where
  "entities_in_order g es = sort_key (\<lambda>e. (gt_collation_key g (ken_normalized_name e), ken_entity_id e)) es"

definition match_entities ::
  "graph_text \<Rightarrow> pystr \<Rightarrow> nat \<Rightarrow> KnowledgeEntityRecord list \<Rightarrow> KnowledgeEntityRecord list" where
  "match_entities g normalized_query limit candidates =
     take limit
       (sort_key (\<lambda>e. (- int (length (ken_normalized_name e)), uuid_str (ken_entity_id e)))
         (filter (\<lambda>e. contains_term (udb_word (gt_unicode g)) normalized_query (ken_normalized_name e))
           candidates))"

definition find_matching_query ::
  "graph_text \<Rightarrow> pystr \<Rightarrow> nat \<Rightarrow> KnowledgeEntityType list option \<Rightarrow> KnowledgeEntityRecord list kdb" where
  "find_matching_query g query limit entity_types =
     (let normalized_query = normalize_entity_name g query
      in if normalized_query = [] then returnE []
         else bindE (k_query (\<lambda>t. take (max 100 (limit * 50)) (entities_in_order g
                (filter (\<lambda>e. case entity_types of None \<Rightarrow> True
                             | Some tys \<Rightarrow> tys = [] \<or> ken_entity_type e \<in> set tys) (kt_entities t)))))
              (\<lambda>candidates. returnE (match_entities g normalized_query limit candidates)))"

definition list_entities :: "graph_text \<Rightarrow> KnowledgeEntityRecord list kdb" where
  "list_entities g = k_query (\<lambda>t. entities_in_order g (kt_entities t))"

section \<open>Mentions and relationships\<close>

definition mention_violation :: "KnowledgeEntityMentionRecord \<Rightarrow> knowledge_tables \<Rightarrow> sql_error option" where
  "mention_violation m t =
     (if length (kme_mention_text m) > 500 then Some OtherSQLError
      else if list_ex (\<lambda>x. kme_mention_id x = kme_mention_id m \<or>
                (kme_entity_id x = kme_entity_id m \<and> kme_chunk_id x = kme_chunk_id m)) (kt_mentions t)
      then Some IntegrityError
      else None)"

definition insert_mention :: "(uuid \<Rightarrow> instant \<Rightarrow> KnowledgeEntityMentionRecord) \<Rightarrow> KnowledgeEntityMentionRecord kdb" where
  "insert_mention mk =
     bindE k_uuid4 (\<lambda>i.
     bindE k_now (\<lambda>created.
       let row = mk i created
       in bindE (k_flush (mention_violation row) (\<lambda>t. t\<lparr>kt_mentions := kt_mentions t @ [row]\<rparr>))
            (\<lambda>_. returnE row)))"

definition get_chunk :: "uuid \<Rightarrow> KnowledgeChunkRecord option kdb" where
  "get_chunk i = k_query (\<lambda>t. find (\<lambda>c. kc_chunk_id c = i) (kt_chunks t))"

definition require_entity :: "uuid \<Rightarrow> KnowledgeEntityRecord kdb" where
  "require_entity i = bindE (get_entity i) (requireE ValueExc)"

definition require_chunk :: "uuid \<Rightarrow> KnowledgeChunkRecord kdb" where
  "require_chunk i = bindE (get_chunk i) (requireE ValueExc)"

definition add_mention ::
  "graph_text \<Rightarrow> uuid \<Rightarrow> uuid \<Rightarrow> uuid \<Rightarrow> pystr \<Rightarrow> rat \<Rightarrow> json_object \<Rightarrow> KnowledgeEntityMentionRecord kdb" where
  "add_mention g entity_id document_id chunk_id mention_text confidence metadata =
     bindE (guardE (confidence_ok confidence) ValueExc) (\<lambda>_.
     bindE (require_entity entity_id) (\<lambda>_.
     bindE (require_chunk chunk_id) (\<lambda>chunk.
     bindE (guardE (kc_document_id chunk = document_id) ValueExc) (\<lambda>_.
     bindE (k_query (\<lambda>t. find (\<lambda>m. kme_entity_id m = entity_id \<and> kme_chunk_id m = chunk_id)
              (kt_mentions t))) (\<lambda>model.
       case model of
         Some m \<Rightarrow> returnE m
       | None \<Rightarrow> insert_mention (\<lambda>i created.
           \<lparr>kme_mention_id = i, kme_entity_id = entity_id, kme_document_id = document_id,
            kme_chunk_id = chunk_id, kme_mention_text = canonicalize_entity_name g mention_text,
            kme_confidence = confidence, kme_metadata = metadata, kme_created_at = created\<rparr>))))))"

definition same_relationship :: "KnowledgeRelationshipRecord \<Rightarrow> KnowledgeRelationshipRecord \<Rightarrow> bool" where
  "same_relationship a b \<longleftrightarrow>
     krl_source_entity_id a = krl_source_entity_id b \<and> krl_target_entity_id a = krl_target_entity_id b \<and>
     krl_relationship_type a = krl_relationship_type b \<and> krl_source_chunk_id a = krl_source_chunk_id b"

definition relationship_violation :: "KnowledgeRelationshipRecord \<Rightarrow> knowledge_tables \<Rightarrow> sql_error option" where
  "relationship_violation r t =
     (if list_ex (\<lambda>x. krl_relationship_id x = krl_relationship_id r \<or> same_relationship x r) (kt_relationships t)
      then Some IntegrityError else None)"

definition insert_relationship ::
  "(uuid \<Rightarrow> instant \<Rightarrow> KnowledgeRelationshipRecord) \<Rightarrow> KnowledgeRelationshipRecord kdb" where
  "insert_relationship mk =
     bindE k_uuid4 (\<lambda>i.
     bindE k_now (\<lambda>created.
       let row = mk i created
       in bindE (k_flush (relationship_violation row) (\<lambda>t. t\<lparr>kt_relationships := kt_relationships t @ [row]\<rparr>))
            (\<lambda>_. returnE row)))"

definition add_relationship ::
  "uuid \<Rightarrow> uuid \<Rightarrow> KnowledgeRelationshipType \<Rightarrow> pystr option \<Rightarrow> rat \<Rightarrow> uuid \<Rightarrow> json_object \<Rightarrow>
     KnowledgeRelationshipRecord kdb" where
  "add_relationship source_id target_id ty description confidence chunk_id metadata =
     bindE (guardE (confidence_ok confidence) ValueExc) (\<lambda>_.
     bindE (guardE (source_id \<noteq> target_id) ValueExc) (\<lambda>_.
     bindE (require_entity source_id) (\<lambda>_.
     bindE (require_entity target_id) (\<lambda>_.
     bindE (require_chunk chunk_id) (\<lambda>_.
     bindE (k_query (\<lambda>t. find (\<lambda>r. krl_source_entity_id r = source_id \<and> krl_target_entity_id r = target_id \<and>
              krl_relationship_type r = ty \<and> krl_source_chunk_id r = chunk_id) (kt_relationships t))) (\<lambda>model.
       case model of
         Some r \<Rightarrow> returnE r
       | None \<Rightarrow> insert_relationship (\<lambda>i created.
           \<lparr>krl_relationship_id = i, krl_source_entity_id = source_id, krl_target_entity_id = target_id,
            krl_relationship_type = ty, krl_description = description, krl_confidence = confidence,
            krl_source_chunk_id = chunk_id, krl_metadata = metadata, krl_created_at = created\<rparr>)))))))"

definition list_relationships :: "KnowledgeRelationshipRecord list kdb" where
  "list_relationships = k_query (\<lambda>t. sort_key krl_relationship_id (kt_relationships t))"

section \<open>Bounded traversal\<close>

record traversal =
  tv_visited :: "uuid set"
  tv_frontier :: "uuid set"
  tv_relationships :: "(uuid, KnowledgeRelationshipRecord) dict"
  tv_depth_used :: nat

text \<open>The edges of one level: touching the frontier, confident enough, oldest first, at most
  \<open>max_entities * 8\<close>.\<close>

definition frontier_edges ::
  "uuid set \<Rightarrow> rat \<Rightarrow> nat \<Rightarrow> knowledge_tables \<Rightarrow> KnowledgeRelationshipRecord list" where
  "frontier_edges frontier min_confidence max_entities t =
     take (max_entities * 8)
       (sort_key (\<lambda>r. (krl_created_at r, krl_relationship_id r))
         (filter (\<lambda>r. (krl_source_entity_id r \<in> frontier \<or> krl_target_entity_id r \<in> frontier) \<and>
                      krl_confidence r \<ge> min_confidence) (kt_relationships t)))"

definition visit_edge ::
  "nat \<Rightarrow> KnowledgeRelationshipRecord \<Rightarrow> uuid set \<times> uuid set \<times> (uuid, KnowledgeRelationshipRecord) dict \<Rightarrow>
     uuid set \<times> uuid set \<times> (uuid, KnowledgeRelationshipRecord) dict" where
  "visit_edge max_entities edge st =
     (case st of (visited, next, relationships) \<Rightarrow>
        let new_ids = filter (\<lambda>v. v \<notin> visited) [krl_source_entity_id edge, krl_target_entity_id edge]
        in if new_ids \<noteq> [] \<and> card visited + length new_ids > max_entities then st
           else (visited \<union> set new_ids, next \<union> set new_ids,
                 dict_setdefault (krl_relationship_id edge) edge relationships))"

definition visit_level :: "nat \<Rightarrow> nat \<Rightarrow> KnowledgeRelationshipRecord list \<Rightarrow> traversal \<Rightarrow> traversal" where
  "visit_level max_entities depth edges tv =
     (let (visited, next, relationships) =
        fold (visit_edge max_entities) edges (tv_visited tv, {}, tv_relationships tv)
      in \<lparr>tv_visited = visited, tv_frontier = next, tv_relationships = relationships,
          tv_depth_used = depth\<rparr>)"

fun traverse :: "nat \<Rightarrow> nat \<Rightarrow> nat \<Rightarrow> rat \<Rightarrow> traversal \<Rightarrow> traversal kdb" where
  "traverse 0 depth max_entities min_confidence tv = returnE tv"
| "traverse (Suc n) depth max_entities min_confidence tv =
     (if tv_frontier tv = {} then returnE tv
      else bindE (k_query (frontier_edges (tv_frontier tv) min_confidence max_entities)) (\<lambda>edges.
        if edges = [] then returnE tv
        else traverse n (Suc depth) max_entities min_confidence (visit_level max_entities depth edges tv)))"

definition load_graph_evidence :: "uuid set \<Rightarrow> RetrievedEvidence list kdb" where
  "load_graph_evidence chunk_ids =
     (if chunk_ids = {} then returnE []
      else k_query (\<lambda>t. map (\<lambda>(c, d). chunk_evidence c d None Retrieval_GRAPH)
             (sort_key (\<lambda>(c, d). kc_chunk_id c) (filter (\<lambda>(c, d). kc_chunk_id c \<in> chunk_ids) (chunk_join t)))))"

definition start_traversal :: "uuid list \<Rightarrow> traversal" where
  "start_traversal seeds =
     \<lparr>tv_visited = set seeds, tv_frontier = set seeds, tv_relationships = [], tv_depth_used = 0\<rparr>"

definition get_neighborhood ::
  "graph_text \<Rightarrow> uuid list \<Rightarrow> int \<Rightarrow> nat \<Rightarrow> rat \<Rightarrow> GraphTraversalData kdb" where
  "get_neighborhood g seed_entity_ids max_depth max_entities min_confidence =
     (let ordered_seeds = take max_entities (dedup seed_entity_ids)
      in bindE (traverse (nat max_depth) 1 max_entities min_confidence (start_traversal ordered_seeds)) (\<lambda>tv.
         bindE (k_query (\<lambda>t. entities_in_order g
                  (filter (\<lambda>e. ken_entity_id e \<in> tv_visited tv) (kt_entities t)))) (\<lambda>entity_models.
         bindE (k_query (\<lambda>t. sort_key (\<lambda>m. (kme_created_at m, kme_mention_id m))
                  (filter (\<lambda>m. kme_entity_id m \<in> tv_visited tv) (kt_mentions t)))) (\<lambda>mention_models.
         let relationships = dict_values (tv_relationships tv);
             chunk_ids = set (map kme_chunk_id mention_models) \<union> set (map krl_source_chunk_id relationships)
         in bindE (load_graph_evidence chunk_ids) (\<lambda>evidence.
         returnE
           \<lparr>gtd_matched_entities = List.map_filter
              (\<lambda>i. find (\<lambda>e. ken_entity_id e = i) entity_models) ordered_seeds,
            gtd_related_entities = filter (\<lambda>e. ken_entity_id e \<notin> set ordered_seeds) entity_models,
            gtd_relationships = sort_key (\<lambda>r. uuid_str (krl_relationship_id r)) relationships,
            gtd_mentions = mention_models, gtd_evidence = evidence,
            gtd_depth_used = tv_depth_used tv\<rparr>)))))"

section \<open>What the traversal reaches\<close>

text \<open>Entities joined by a stored relationship of sufficient confidence, in either direction, and
  the entities at most \<open>n\<close> such steps from a set.\<close>

definition linked :: "rat \<Rightarrow> knowledge_tables \<Rightarrow> uuid \<Rightarrow> uuid \<Rightarrow> bool" where
  "linked min_confidence t a b \<longleftrightarrow>
     (\<exists>r \<in> set (kt_relationships t). min_confidence \<le> krl_confidence r \<and>
        (krl_source_entity_id r = a \<and> krl_target_entity_id r = b \<or>
         krl_source_entity_id r = b \<and> krl_target_entity_id r = a))"

fun hops :: "('a \<Rightarrow> 'a \<Rightarrow> bool) \<Rightarrow> 'a set \<Rightarrow> nat \<Rightarrow> 'a set" where
  "hops R S 0 = S"
| "hops R S (Suc n) = hops R S n \<union> {b. \<exists>a \<in> hops R S n. R a b}"

lemma hops_mono: "m \<le> n \<Longrightarrow> hops R S m \<subseteq> hops R S n"
  by (induction n) (auto simp: le_Suc_eq)

definition edges_ok :: "rat \<Rightarrow> knowledge_tables \<Rightarrow> uuid set \<Rightarrow> (uuid, KnowledgeRelationshipRecord) dict \<Rightarrow> bool" where
  "edges_ok min_confidence t visited rels \<longleftrightarrow> keyed krl_relationship_id rels \<and>
     (\<forall>r \<in> set (dict_values rels). r \<in> set (kt_relationships t) \<and> min_confidence \<le> krl_confidence r \<and>
        {krl_source_entity_id r, krl_target_entity_id r} \<subseteq> visited)"

lemma edges_ok_mono: "edges_ok c t v rels \<Longrightarrow> v \<subseteq> w \<Longrightarrow> edges_ok c t w rels"
  by (fastforce simp: edges_ok_def)

lemma edges_ok_add:
  assumes "edges_ok c t v rels" and "r \<in> set (kt_relationships t)" and "c \<le> krl_confidence r"
    and "{krl_source_entity_id r, krl_target_entity_id r} \<subseteq> v"
  shows "edges_ok c t v (dict_setdefault (krl_relationship_id r) r rels)"
proof -
  have "set (dict_values (dict_setdefault (krl_relationship_id r) r rels)) \<subseteq> insert r (set (dict_values rels))"
    by (auto simp: dict_setdefault_def dict_values_def)
  with assms show ?thesis
    by (auto simp: edges_ok_def keyed_setdefault)
qed

definition visit_ok ::
  "rat \<Rightarrow> knowledge_tables \<Rightarrow> nat \<Rightarrow> uuid set \<Rightarrow> uuid set \<times> uuid set \<times> (uuid, KnowledgeRelationshipRecord) dict \<Rightarrow> bool" where
  "visit_ok c t max_entities bound st \<longleftrightarrow>
     (case st of (visited, next, rels) \<Rightarrow>
        finite visited \<and> card visited \<le> max_entities \<and> next \<subseteq> visited \<and> visited \<subseteq> bound \<and> edges_ok c t visited rels)"

lemma visit_edge_ok:
  assumes "visit_ok c t max_entities bound st" and "edge \<in> set (kt_relationships t)"
    and "c \<le> krl_confidence edge" and "{krl_source_entity_id edge, krl_target_entity_id edge} \<subseteq> bound"
  shows "visit_ok c t max_entities bound (visit_edge max_entities edge st) \<and> fst st \<subseteq> fst (visit_edge max_entities edge st)"
proof -
  obtain visited nx rels where st: "st = (visited, nx, rels)" by (cases st)
  let ?new = "filter (\<lambda>v. v \<notin> visited) [krl_source_entity_id edge, krl_target_entity_id edge]"
  have size: "card (visited \<union> set ?new) \<le> card visited + length ?new"
    using card_Un_le[of visited "set ?new"] card_length[of ?new] by linarith
  have ends: "{krl_source_entity_id edge, krl_target_entity_id edge} \<subseteq> visited \<union> set ?new" by auto
  note inv = assms(1)[unfolded visit_ok_def st, simplified]
  show ?thesis
  proof (cases "?new \<noteq> [] \<and> card visited + length ?new > max_entities")
    case True
    with assms(1) show ?thesis unfolding st visit_edge_def by (simp add: Let_def)
  next
    case False
    have step: "visit_edge max_entities edge st = (visited \<union> set ?new, nx \<union> set ?new,
        dict_setdefault (krl_relationship_id edge) edge rels)"
      unfolding st visit_edge_def prod.case Let_def using False by (simp only: if_False)
    have "edges_ok c t (visited \<union> set ?new) (dict_setdefault (krl_relationship_id edge) edge rels)"
      using edges_ok_mono[of c t visited rels "visited \<union> set ?new"] inv assms(2,3) ends
      by (intro edges_ok_add) auto
    moreover have "card (visited \<union> set ?new) \<le> max_entities"
    proof (cases "?new = []")
      case True
      then show ?thesis using inv by (simp only: list.set Un_empty_right)
    next
      case n: False
      with False size show ?thesis by linarith
    qed
    moreover have "set ?new \<subseteq> bound" using assms(4) by auto
    ultimately show ?thesis
      unfolding step unfolding visit_ok_def prod.case st fst_conv using inv by (simp only: finite_Un finite_set) blast
  qed
qed

lemma visit_edges_ok:
  assumes "visit_ok c t max_entities bound st"
    and "\<forall>edge \<in> set edges. edge \<in> set (kt_relationships t) \<and> c \<le> krl_confidence edge \<and>
           {krl_source_entity_id edge, krl_target_entity_id edge} \<subseteq> bound"
  shows "visit_ok c t max_entities bound (fold (visit_edge max_entities) edges st) \<and>
     fst st \<subseteq> fst (fold (visit_edge max_entities) edges st)"
  using assms
proof (induction edges arbitrary: st)
  case (Cons e es)
  let ?st = "visit_edge max_entities e st"
  from Cons.prems(2) have e: "e \<in> set (kt_relationships t)" "c \<le> krl_confidence e"
    "{krl_source_entity_id e, krl_target_entity_id e} \<subseteq> bound" by simp_all
  note step = visit_edge_ok[OF Cons.prems(1) e]
  from Cons.IH[of ?st] step Cons.prems(2)
  have "visit_ok c t max_entities bound (fold (visit_edge max_entities) es ?st)"
    "fst ?st \<subseteq> fst (fold (visit_edge max_entities) es ?st)" by simp_all
  with step show ?case by auto
qed simp

definition traversal_ok :: "rat \<Rightarrow> knowledge_tables \<Rightarrow> nat \<Rightarrow> uuid set \<Rightarrow> traversal \<Rightarrow> bool" where
  "traversal_ok c t max_entities seeds tv \<longleftrightarrow>
     seeds \<subseteq> tv_visited tv \<and>
     visit_ok c t max_entities (hops (linked c t) seeds (tv_depth_used tv))
       (tv_visited tv, tv_frontier tv, tv_relationships tv)"

lemma frontier_edges_reach:
  assumes "edge \<in> set (frontier_edges frontier c max_entities t)" and "frontier \<subseteq> hops (linked c t) seeds k"
  shows "edge \<in> set (kt_relationships t) \<and> c \<le> krl_confidence edge \<and>
     {krl_source_entity_id edge, krl_target_entity_id edge} \<subseteq> hops (linked c t) seeds (Suc k)"
proof -
  have e: "edge \<in> set (kt_relationships t)" "c \<le> krl_confidence edge"
    "krl_source_entity_id edge \<in> frontier \<or> krl_target_entity_id edge \<in> frontier"
    using assms(1) by (auto simp: frontier_edges_def dest!: in_set_takeD)
  then have "linked c t (krl_source_entity_id edge) (krl_target_entity_id edge)"
    "linked c t (krl_target_entity_id edge) (krl_source_entity_id edge)" by (auto simp: linked_def)
  with e assms(2) show ?thesis by auto
qed

lemma visit_level_ok:
  assumes "traversal_ok c t max_entities seeds tv" and "tv_depth_used tv < depth"
    and "set edges \<subseteq> set (frontier_edges (tv_frontier tv) c max_entities t)"
  shows "traversal_ok c t max_entities seeds (visit_level max_entities depth edges tv)"
proof -
  let ?W = "hops (linked c t) seeds"
  let ?st = "(tv_visited tv, {}, tv_relationships tv)"
  note inv = assms(1)[unfolded traversal_ok_def visit_ok_def prod.case]
  have up: "?W (Suc (tv_depth_used tv)) \<subseteq> ?W depth" using assms(2) by (intro hops_mono) simp
  have "tv_visited tv \<subseteq> ?W depth" using inv up by auto
  with inv have "visit_ok c t max_entities (?W depth) ?st" by (simp add: visit_ok_def)
  moreover have "\<forall>edge \<in> set edges. edge \<in> set (kt_relationships t) \<and> c \<le> krl_confidence edge \<and>
           {krl_source_entity_id edge, krl_target_entity_id edge} \<subseteq> ?W depth"
    using frontier_edges_reach[of _ "tv_frontier tv" c max_entities t seeds "tv_depth_used tv"] assms(3) inv up
    by (meson subset_iff subset_trans)
  ultimately have "visit_ok c t max_entities (?W depth) (fold (visit_edge max_entities) edges ?st) \<and>
     tv_visited tv \<subseteq> fst (fold (visit_edge max_entities) edges ?st)"
    using visit_edges_ok[of c t max_entities "?W depth" ?st edges] by simp
  with inv show ?thesis
    unfolding traversal_ok_def visit_level_def by (auto simp: Let_def split: prod.splits)
qed

lemma traverse_ok:
  assumes "traverse n depth max_entities c tv s = (Inr tv', s')"
    and "traversal_ok c (k_live s) max_entities seeds tv" and "tv_depth_used tv < depth"
  shows "traversal_ok c (k_live s) max_entities seeds tv' \<and> tv_depth_used tv' < depth + n \<and>
     k_live s' = k_live s \<and> k_durable s' = k_durable s"
  using assms
proof (induction n arbitrary: depth tv s)
  case 0
  then show ?case by (simp add: returnE_def)
next
  case (Suc n)
  let ?edges = "frontier_edges (tv_frontier tv) c max_entities (k_live s)"
  show ?case
  proof (cases "tv_frontier tv = {}")
    case True
    with Suc.prems show ?thesis by (simp add: returnE_def)
  next
    case False
    with Suc.prems(1) obtain es s1 where run: "k_query (frontier_edges (tv_frontier tv) c max_entities) s = (Inr es, s1)"
      and r: "(if es = [] then returnE tv
        else traverse n (Suc depth) max_entities c (visit_level max_entities depth es tv)) s1 = (Inr tv', s')"
      by (auto simp: bindE_eq_Inr)
    from k_query_run[OF run] run r have q: "k_query (frontier_edges (tv_frontier tv) c max_entities) s = (Inr ?edges, s1)"
      "k_live s1 = k_live s" "k_durable s1 = k_durable s"
      and rest: "(if ?edges = [] then returnE tv
        else traverse n (Suc depth) max_entities c (visit_level max_entities depth ?edges tv)) s1 = (Inr tv', s')"
      by auto
    show ?thesis
    proof (cases "?edges = []")
      case True
      with rest q Suc.prems show ?thesis by (simp add: returnE_def)
    next
      case e: False
      have "traversal_ok c (k_live s1) max_entities seeds (visit_level max_entities depth ?edges tv)"
        using visit_level_ok[OF Suc.prems(2,3) order_refl] q(2) by simp
      moreover have "tv_depth_used (visit_level max_entities depth ?edges tv) < Suc depth"
        by (simp add: visit_level_def Let_def split: prod.split)
      ultimately show ?thesis
        using Suc.IH[of "Suc depth" "visit_level max_entities depth ?edges tv" s1] rest e q(2,3) by simp
    qed
  qed
qed

lemma start_traversal_ok:
  assumes "distinct seeds" and "length seeds \<le> max_entities"
  shows "traversal_ok c t max_entities (set seeds) (start_traversal seeds)"
  using assms by (simp add: traversal_ok_def start_traversal_def visit_ok_def edges_ok_def dict_values_def
      distinct_card)

section \<open>A small graph\<close>

text \<open>Two entities, each mentioned in one chunk, and the relationship between them.\<close>

definition sample_text :: graph_text where
  "sample_text =
     \<lparr>gt_nfkc = (\<lambda>s. s), gt_unicode = \<lparr>udb_fold = ascii_fold, udb_word = (\<lambda>c. 97 \<le> c \<and> c \<le> 122)\<rparr>,
      gt_collation_key = (\<lambda>s. s)\<rparr>"

definition sample_entity :: "uuid \<Rightarrow> codepoint \<Rightarrow> KnowledgeEntityRecord" where
  "sample_entity i c = entity_row i Entity_SYSTEM [c] [c] None [] 0 0"

definition sample_mention :: "uuid \<Rightarrow> uuid \<Rightarrow> KnowledgeEntityMentionRecord" where
  "sample_mention i e =
     \<lparr>kme_mention_id = i, kme_entity_id = e, kme_document_id = 1, kme_chunk_id = 2,
      kme_mention_text = [97], kme_confidence = 1, kme_metadata = [], kme_created_at = 0\<rparr>"

definition sample_relationship :: KnowledgeRelationshipRecord where
  "sample_relationship =
     \<lparr>krl_relationship_id = 20, krl_source_entity_id = 10, krl_target_entity_id = 11,
      krl_relationship_type = Rel_USES, krl_description = None, krl_confidence = 1,
      krl_source_chunk_id = 2, krl_metadata = [], krl_created_at = 0\<rparr>"

definition sample_graph :: knowledge_tables where
  "sample_graph = sample_knowledge
     \<lparr>kt_entities := [sample_entity 10 97, sample_entity 11 98],
      kt_mentions := [sample_mention 30 10, sample_mention 31 11],
      kt_relationships := [sample_relationship]\<rparr>"

lemmas sample_graph_defs =
  sample_graph_def sample_knowledge_def sample_chunk_def sample_document_def sample_entity_def
  entity_row_def sample_mention_def sample_relationship_def

lemma sample_graph_wf: "knowledge_wf sample_graph"
  by (simp add: knowledge_wf_defs sample_graph_defs confidence_ok_def)

end
