(* ===== verification/Graph_Retrieval.thy ===== *)
theory Graph_Retrieval
  imports Graph_Store
begin

text \<open>
  Graph retrieval (\<^verbatim>\<open>app/knowledge_graph/retrieval.py\<close>): entities named in the query, their bounded
  neighbourhood and the chunks that support it.
\<close>

section \<open>Graph retrieval\<close>

record GraphRetrievalService =
  gr_text :: graph_text
  gr_max_depth :: int
  gr_max_entities :: nat
  gr_min_confidence :: rat

text \<open>The validated constructor of \<open>GraphNeighborhood\<close>.\<close>

definition neighborhood_ok :: "GraphNeighborhood \<Rightarrow> bool" where
  "neighborhood_ok n \<longleftrightarrow> 1 \<le> length (gn_query n) \<and> length (gn_query n) \<le> 4000 \<and>
     0 \<le> gn_depth_used n \<and> gn_depth_used n \<le> 5"

definition mk_neighborhood :: "GraphNeighborhood \<Rightarrow> GraphNeighborhood kdb" where
  "mk_neighborhood n = (if neighborhood_ok n then returnE n else raiseE ValidationExc)"

definition graph_error :: "sql_error \<Rightarrow> app_error" where
  "graph_error q =
     (if q = OperationalError \<or> q = ProgrammingError then KnowledgeGraphUnavailableError
      else KnowledgeGraphPersistenceError)"

definition entity_result :: "KnowledgeEntityRecord \<Rightarrow> GraphEntityResult" where
  "entity_result e =
     \<lparr>ge_entity_id = ken_entity_id e, ge_entity_type = ken_entity_type e,
      ge_canonical_name = ken_canonical_name e, ge_normalized_name = ken_normalized_name e,
      ge_description = ken_description e\<rparr>"

definition relationship_result ::
  "KnowledgeRelationshipRecord \<Rightarrow> KnowledgeEntityRecord \<Rightarrow> KnowledgeEntityRecord \<Rightarrow> RetrievedEvidence \<Rightarrow>
     GraphRelationshipResult" where
  "relationship_result r source target provenance =
     \<lparr>gl_relationship_id = krl_relationship_id r, gl_source_entity_id = ken_entity_id source,
      gl_source_entity_name = ken_canonical_name source, gl_target_entity_id = ken_entity_id target,
      gl_target_entity_name = ken_canonical_name target, gl_relationship_type = krl_relationship_type r,
      gl_description = krl_description r, gl_confidence = krl_confidence r,
      gl_source_document_id = ev_document_id provenance, gl_source_chunk_id = ev_chunk_id provenance\<rparr>"

text \<open>The relationships whose endpoints and source chunk were loaded; a confidence outside
  \<open>[0, 1]\<close> is refused by the result model.\<close>

fun relationship_results ::
  "(uuid, KnowledgeEntityRecord) dict \<Rightarrow> (uuid, RetrievedEvidence) dict \<Rightarrow> KnowledgeRelationshipRecord list \<Rightarrow>
     py_exc + GraphRelationshipResult list" where
  "relationship_results entities evidence_by_chunk [] = Inr []"
| "relationship_results entities evidence_by_chunk (r # rs) =
     (case (map_of entities (krl_source_entity_id r), map_of entities (krl_target_entity_id r),
            map_of evidence_by_chunk (krl_source_chunk_id r)) of
        (Some source, Some target, Some provenance) \<Rightarrow>
          if \<not> confidence_ok (krl_confidence r) then Inl ValidationExc
          else (case relationship_results entities evidence_by_chunk rs of
                  Inl e \<Rightarrow> Inl e
                | Inr out \<Rightarrow> Inr (relationship_result r source target provenance # out))
      | _ \<Rightarrow> relationship_results entities evidence_by_chunk rs)"

definition sorted_by_str :: "uuid list \<Rightarrow> uuid list" where
  "sorted_by_str ids = sort_key uuid_str (remdups ids)"

definition neighborhood_of :: "pystr \<Rightarrow> GraphTraversalData \<Rightarrow> GraphNeighborhood kdb" where
  "neighborhood_of query data =
     (let entities = dict_of ken_entity_id (gtd_matched_entities data @ gtd_related_entities data);
          evidence_by_chunk = dict_of ev_chunk_id (gtd_evidence data)
      in bindE (liftE (relationship_results entities evidence_by_chunk (gtd_relationships data))) (\<lambda>relationships.
         mk_neighborhood
           \<lparr>gn_query = query, gn_matched_entities = map entity_result (gtd_matched_entities data),
            gn_related_entities = map entity_result (gtd_related_entities data),
            gn_relationships = relationships,
            gn_source_document_ids = sorted_by_str (map ev_document_id (gtd_evidence data)),
            gn_source_chunk_ids = sorted_by_str (map fst evidence_by_chunk),
            gn_depth_used = int (gtd_depth_used data), gn_evidence = gtd_evidence data\<rparr>))"

definition resolve_depth :: "GraphRetrievalService \<Rightarrow> int option \<Rightarrow> int" where
  "resolve_depth svc max_depth =
     min (case max_depth of None \<Rightarrow> gr_max_depth svc
          | Some d \<Rightarrow> if d = 0 then gr_max_depth svc else d) (gr_max_depth svc)"

text \<open>The part inside \<open>try\<close>: no match ends the search with the empty neighbourhood.\<close>

definition graph_lookup ::
  "GraphRetrievalService \<Rightarrow> pystr \<Rightarrow> int option \<Rightarrow> KnowledgeEntityType list option \<Rightarrow>
     (GraphNeighborhood + GraphTraversalData) kdb" where
  "graph_lookup svc query max_depth entity_types =
     bindE (find_matching_query (gr_text svc) query (gr_max_entities svc) entity_types) (\<lambda>matches.
       if matches = [] then bindE (mk_neighborhood (empty_neighborhood query)) (\<lambda>n. returnE (Inl n))
       else bindE (get_neighborhood (gr_text svc) (map ken_entity_id matches) (resolve_depth svc max_depth)
                     (gr_max_entities svc) (gr_min_confidence svc)) (\<lambda>data. returnE (Inr data)))"

definition graph_search ::
  "GraphRetrievalService \<Rightarrow> pystr \<Rightarrow> int option \<Rightarrow> KnowledgeEntityType list option \<Rightarrow> GraphNeighborhood kdb" where
  "graph_search svc query max_depth entity_types =
     bindE (catchE (graph_lookup svc query max_depth entity_types)
              (\<lambda>e. case e of
                 SqlExc q \<Rightarrow> bindE k_rollback_suppressed (\<lambda>_. raiseE (AppExc (graph_error q)))
               | _ \<Rightarrow> raiseE e)) (\<lambda>found.
       case found of Inl n \<Rightarrow> returnE n | Inr data \<Rightarrow> neighborhood_of query data)"

section \<open>What a graph search returns\<close>

lemma chunk_join_iff:
  "(c, d) \<in> set (chunk_join t) \<longleftrightarrow>
     c \<in> set (kt_chunks t) \<and> d \<in> set (kt_documents t) \<and> kd_document_id d = kc_document_id c"
  by (auto simp: chunk_join_def)

text \<open>Evidence that is a stored chunk with its document.\<close>

definition stored_evidence :: "knowledge_tables \<Rightarrow> RetrievedEvidence \<Rightarrow> bool" where
  "stored_evidence t e \<longleftrightarrow>
     (\<exists>p \<in> set (chunk_join t). e = chunk_evidence (fst p) (snd p) None Retrieval_GRAPH)"

lemma stored_evidenceI:
  "(c, d) \<in> set (chunk_join t) \<Longrightarrow> stored_evidence t (chunk_evidence c d None Retrieval_GRAPH)"
  unfolding stored_evidence_def by (rule bexI[of _ "(c, d)"]) simp_all

lemma load_graph_evidence_Inr:
  "load_graph_evidence ids s = (Inr ev, s') \<Longrightarrow>
     k_live s' = k_live s \<and> k_durable s' = k_durable s \<and> (\<forall>e \<in> set ev. stored_evidence (k_live s) e)"
  by (cases "ids = {}")
     (auto simp: load_graph_evidence_def returnE_def dest!: k_query_run intro!: stored_evidenceI)

lemma map_filter_find_ids:
  assumes "set ids \<subseteq> ken_entity_id ` set es"
  shows "map ken_entity_id (List.map_filter (\<lambda>i. find (\<lambda>e. ken_entity_id e = i) es) ids) = ids \<and>
     set (List.map_filter (\<lambda>i. find (\<lambda>e. ken_entity_id e = i) es) ids) \<subseteq> set es"
  using assms
proof (induction ids)
  case Nil
  then show ?case by (simp add: map_filter_def)
next
  case (Cons i ids)
  then obtain e where "find (\<lambda>e. ken_entity_id e = i) es = Some e"
    by (metis (mono_tags, lifting) find_None_iff image_iff list.set_intros(1) option.exhaust subset_iff)
  moreover from this have "ken_entity_id e = i" "e \<in> set es"
    by (auto simp: find_Some_iff)
  ultimately show ?case using Cons by (simp add: map_filter_simps)
qed

lemma get_neighborhood_Inr:
  assumes run: "get_neighborhood g seeds max_depth max_entities c s = (Inr data, s')"
    and seeds: "set seeds \<subseteq> ken_entity_id ` set (kt_entities (k_live s))" and wf: "entities_wf (k_live s)"
  defines "os \<equiv> take max_entities (dedup seeds)"
  shows "k_live s' = k_live s" "k_durable s' = k_durable s" "gtd_depth_used data \<le> nat max_depth"
    "map ken_entity_id (gtd_matched_entities data) = os"
    "distinct (map ken_entity_id (gtd_matched_entities data @ gtd_related_entities data))"
    "length (gtd_matched_entities data) + length (gtd_related_entities data) \<le> max_entities"
    "set (gtd_matched_entities data @ gtd_related_entities data) \<subseteq> set (kt_entities (k_live s))"
    "ken_entity_id ` set (gtd_related_entities data) \<subseteq> hops (linked c (k_live s)) (set os) (gtd_depth_used data)"
    "set (gtd_relationships data) \<subseteq> {r \<in> set (kt_relationships (k_live s)). c \<le> krl_confidence r}"
    "\<forall>e \<in> set (gtd_evidence data). stored_evidence (k_live s) e"
proof -
  obtain tv s1 es s2 ms s3 ev where
    t: "traverse (nat max_depth) 1 max_entities c (start_traversal os) s = (Inr tv, s1)"
    and q1: "k_query (\<lambda>t. entities_in_order g (filter (\<lambda>e. ken_entity_id e \<in> tv_visited tv) (kt_entities t))) s1 = (Inr es, s2)"
    and q2: "k_query (\<lambda>t. sort_key (\<lambda>m. (kme_created_at m, kme_mention_id m))
                  (filter (\<lambda>m. kme_entity_id m \<in> tv_visited tv) (kt_mentions t))) s2 = (Inr ms, s3)"
    and q3: "load_graph_evidence (set (map kme_chunk_id ms) \<union> set (map krl_source_chunk_id (dict_values (tv_relationships tv)))) s3 = (Inr ev, s')"
    and data: "data = \<lparr>gtd_matched_entities = List.map_filter (\<lambda>i. find (\<lambda>e. ken_entity_id e = i) es) os,
            gtd_related_entities = filter (\<lambda>e. ken_entity_id e \<notin> set os) es,
            gtd_relationships = sort_key (\<lambda>r. uuid_str (krl_relationship_id r)) (dict_values (tv_relationships tv)),
            gtd_mentions = ms, gtd_evidence = ev, gtd_depth_used = tv_depth_used tv\<rparr>"
    using run by (auto simp: get_neighborhood_def Let_def bindE_eq_Inr returnE_def os_def)
  have os: "distinct os" "length os \<le> max_entities" "set os \<subseteq> set seeds"
    by (auto simp: os_def dest: in_set_takeD)
  have tr: "traversal_ok c (k_live s) max_entities (set os) tv \<and> tv_depth_used tv < 1 + nat max_depth \<and>
     k_live s1 = k_live s \<and> k_durable s1 = k_durable s"
    by (rule traverse_ok[OF t start_traversal_ok[OF os(1,2)]]) (simp add: start_traversal_def)
  have s2: "k_live s2 = k_live s" "k_durable s2 = k_durable s"
    and es: "es = entities_in_order g (filter (\<lambda>e. ken_entity_id e \<in> tv_visited tv) (kt_entities (k_live s)))"
    using k_query_run[OF q1] tr by auto
  have s3: "k_live s3 = k_live s" "k_durable s3 = k_durable s" using k_query_run[OF q2] s2 by auto
  note le = load_graph_evidence_Inr[OF q3, unfolded s3]
  show "k_live s' = k_live s" "k_durable s' = k_durable s" using le by simp_all
  show "gtd_depth_used data \<le> nat max_depth" using tr by (simp add: data)
  note inv = tr[unfolded traversal_ok_def visit_ok_def prod.case, THEN conjunct1]
  have ids: "set es = {e \<in> set (kt_entities (k_live s)). ken_entity_id e \<in> tv_visited tv}"
    by (auto simp: es entities_in_order_def)
  have dist: "distinct (map ken_entity_id es)"
  proof -
    have "distinct (map ken_entity_id (filter P (kt_entities (k_live s))))" for P
      using wf by (simp add: entities_wf_def distinct_map_filter)
    then show ?thesis by (simp add: es entities_in_order_def distinct_map)
  qed
  have "set os \<subseteq> ken_entity_id ` set es"
  proof
    fix i assume i: "i \<in> set os"
    with os(3) seeds obtain e where "e \<in> set (kt_entities (k_live s))" "ken_entity_id e = i" by blast
    moreover have "i \<in> tv_visited tv" using inv i by blast
    ultimately show "i \<in> ken_entity_id ` set es" unfolding ids by blast
  qed
  note m = map_filter_find_ids[OF this]
  then show matched: "map ken_entity_id (gtd_matched_entities data) = os" by (simp add: data)
  show d: "distinct (map ken_entity_id (gtd_matched_entities data @ gtd_related_entities data))"
  proof -
    have "distinct (map ken_entity_id (gtd_related_entities data))"
      using dist by (simp add: data distinct_map_filter)
    moreover have "set os \<inter> ken_entity_id ` set (gtd_related_entities data) = {}" by (auto simp: data)
    ultimately show ?thesis
      unfolding map_append distinct_append matched set_map using os(1) by simp
  qed
  show sub: "set (gtd_matched_entities data @ gtd_related_entities data) \<subseteq> set (kt_entities (k_live s))"
    using m ids by (auto simp: data)
  have vis: "ken_entity_id ` set (gtd_matched_entities data @ gtd_related_entities data) \<subseteq> tv_visited tv"
    using m ids by (auto simp: data)
  have "length (map ken_entity_id (gtd_matched_entities data @ gtd_related_entities data)) =
      card (ken_entity_id ` set (gtd_matched_entities data @ gtd_related_entities data))"
    using distinct_card[OF d] by (simp only: set_map)
  also have "\<dots> \<le> card (tv_visited tv)" using vis inv by (intro card_mono) auto
  also have "\<dots> \<le> max_entities" using inv by simp
  finally show "length (gtd_matched_entities data) + length (gtd_related_entities data) \<le> max_entities" by simp
  show "ken_entity_id ` set (gtd_related_entities data) \<subseteq> hops (linked c (k_live s)) (set os) (gtd_depth_used data)"
    using vis inv by (auto simp: data)
  show "set (gtd_relationships data) \<subseteq> {r \<in> set (kt_relationships (k_live s)). c \<le> krl_confidence r}"
    using inv by (auto simp: data edges_ok_def)
  show "\<forall>e \<in> set (gtd_evidence data). stored_evidence (k_live s) e"
    using le by (simp add: data)
qed

lemma map_of_dict_of_SomeD: "map_of (dict_of key xs) k = Some x \<Longrightarrow> x \<in> set xs \<and> key x = k"
proof -
  have "map_of (fold (\<lambda>x. AList.update (key x) x) xs d) k = Some x \<Longrightarrow>
      map_of d k = Some x \<or> x \<in> set xs \<and> key x = k" for d
  proof (induction xs arbitrary: d)
    case (Cons y ys)
    from Cons.IH[of "AList.update (key y) y d"] Cons.prems show ?case
      by (auto simp: update_conv' split: if_splits)
  qed simp
  from this[of "[]"] show "map_of (dict_of key xs) k = Some x \<Longrightarrow> x \<in> set xs \<and> key x = k"
    by (simp add: dict_of_def)
qed

lemma relationship_results_Inr:
  "relationship_results entities chunks rs = Inr out \<Longrightarrow> x \<in> set out \<Longrightarrow>
     \<exists>r source target provenance. r \<in> set rs \<and> map_of entities (krl_source_entity_id r) = Some source \<and>
       map_of entities (krl_target_entity_id r) = Some target \<and>
       map_of chunks (krl_source_chunk_id r) = Some provenance \<and>
       x = relationship_result r source target provenance"
proof (induction rs arbitrary: out)
  case (Cons r rs)
  from Cons.prems(1) obtain out' where rest: "relationship_results entities chunks rs = Inr out'"
    and out: "out = out' \<or> (\<exists>source target provenance. map_of entities (krl_source_entity_id r) = Some source \<and>
       map_of entities (krl_target_entity_id r) = Some target \<and>
       map_of chunks (krl_source_chunk_id r) = Some provenance \<and>
       out = relationship_result r source target provenance # out')"
    by (auto split: option.splits if_splits sum.splits)
  show ?case
  proof (cases "x \<in> set out'")
    case True
    with Cons.IH[OF rest] show ?thesis by (meson list.set_intros(2))
  next
    case False
    with out Cons.prems(2) show ?thesis by (metis list.set_intros(1) set_ConsD)
  qed
qed simp

lemma find_matching_query_Inr:
  assumes "find_matching_query g query limit types s = (Inr ms, s')"
  shows "k_live s' = k_live s \<and> k_durable s' = k_durable s \<and> set ms \<subseteq> set (kt_entities (k_live s)) \<and> length ms \<le> limit"
proof (cases "normalize_entity_name g query = []")
  case True
  with assms show ?thesis by (auto simp: find_matching_query_def returnE_def)
next
  case False
  with assms obtain cs where "k_query (\<lambda>t. take (max 100 (limit * 50)) (entities_in_order g
                (filter (\<lambda>e. case types of None \<Rightarrow> True
                             | Some tys \<Rightarrow> tys = [] \<or> ken_entity_type e \<in> set tys) (kt_entities t)))) s = (Inr cs, s')"
    and "ms = match_entities g (normalize_entity_name g query) limit cs"
    by (auto simp: find_matching_query_def Let_def bindE_eq_Inr returnE_def)
  with k_query_run[OF this(1)] show ?thesis
    by (auto simp: match_entities_def entities_in_order_def dest!: in_set_takeD)
qed

lemma mk_neighborhood_Inr [simp]:
  "mk_neighborhood n s = (Inr n', s') \<longleftrightarrow> neighborhood_ok n \<and> n' = n \<and> s' = s"
  by (auto simp: mk_neighborhood_def returnE_def raiseE_def)

text \<open>A relationship result that reports a stored relationship between two returned entities,
  supported by a returned chunk.\<close>

definition grounded_result :: "rat \<Rightarrow> knowledge_tables \<Rightarrow> GraphNeighborhood \<Rightarrow> GraphRelationshipResult \<Rightarrow> bool" where
  "grounded_result c t n x \<longleftrightarrow>
     (\<exists>r \<in> set (kt_relationships t). c \<le> krl_confidence r \<and> gl_relationship_id x = krl_relationship_id r \<and>
        gl_source_entity_id x = krl_source_entity_id r \<and> gl_target_entity_id x = krl_target_entity_id r \<and>
        gl_relationship_type x = krl_relationship_type r \<and> gl_confidence x = krl_confidence r \<and>
        gl_source_chunk_id x = krl_source_chunk_id r) \<and>
     {gl_source_entity_id x, gl_target_entity_id x} \<subseteq> ge_entity_id ` set (gn_matched_entities n @ gn_related_entities n) \<and>
     (\<exists>e \<in> set (gn_evidence n). ev_chunk_id e = gl_source_chunk_id x \<and> ev_document_id e = gl_source_document_id x)"

lemma entity_result_ids: "ge_entity_id ` set (map entity_result xs) = ken_entity_id ` set xs"
  by (simp add: image_image entity_result_def)

lemma neighborhood_of_grounded:
  assumes "neighborhood_of query data s = (Inr n, s')"
    and "set (gtd_relationships data) \<subseteq> {r \<in> set (kt_relationships t). c \<le> krl_confidence r}"
    and "x \<in> set (gn_relationships n)"
  shows "grounded_result c t n x"
proof -
  let ?es = "dict_of ken_entity_id (gtd_matched_entities data @ gtd_related_entities data)"
  let ?cs = "dict_of ev_chunk_id (gtd_evidence data)"
  from assms(1) obtain rs where rs: "relationship_results ?es ?cs (gtd_relationships data) = Inr rs"
    and n: "gn_relationships n = rs" "gn_evidence n = gtd_evidence data"
      "gn_matched_entities n = map entity_result (gtd_matched_entities data)"
      "gn_related_entities n = map entity_result (gtd_related_entities data)"
    by (auto simp: neighborhood_of_def Let_def bindE_eq_Inr liftE_def)
  from relationship_results_Inr[OF rs] assms(3) n(1) obtain r source target provenance where
    r: "r \<in> set (gtd_relationships data)" "map_of ?es (krl_source_entity_id r) = Some source"
      "map_of ?es (krl_target_entity_id r) = Some target" "map_of ?cs (krl_source_chunk_id r) = Some provenance"
      "x = relationship_result r source target provenance" by blast
  note d = r(2-4)[THEN map_of_dict_of_SomeD]
  from r(1) assms(2) have "r \<in> set (kt_relationships t)" "c \<le> krl_confidence r" by auto
  moreover have "{ken_entity_id source, ken_entity_id target} \<subseteq>
      ge_entity_id ` set (gn_matched_entities n @ gn_related_entities n)"
  proof -
    have "ken_entity_id ` {source, target} \<subseteq> ken_entity_id ` set (gtd_matched_entities data @ gtd_related_entities data)"
      by (rule image_mono) (use d in simp)
    then show ?thesis unfolding set_append image_Un n entity_result_ids by simp
  qed
  ultimately show ?thesis
    using d unfolding grounded_result_def r(5) relationship_result_def by (auto simp: n)
qed

text \<open>a graph search stays inside its bounds and inside the stored graph. It returns at most the
  configured number of distinct entities and never goes deeper than the configured depth; every
  related entity is joined to a matched one by at most the reported number of stored relationships of
  sufficient confidence; every reported relationship is a stored one between returned entities and
  supported by a returned chunk; and nothing is written.\<close>

theorem graph_search_bounded:
  assumes run: "graph_search svc query max_depth types s = (Inr n, s')" and wf: "entities_wf (k_live s)"
  shows "k_live s' = k_live s \<and> k_durable s' = k_durable s \<and>
    length (gn_matched_entities n) + length (gn_related_entities n) \<le> gr_max_entities svc \<and>
    distinct (map ge_entity_id (gn_matched_entities n @ gn_related_entities n)) \<and>
    gn_depth_used n \<le> max 0 (gr_max_depth svc) \<and> gn_depth_used n \<le> 5 \<and>
    ge_entity_id ` set (gn_related_entities n) \<subseteq>
      hops (linked (gr_min_confidence svc) (k_live s)) (ge_entity_id ` set (gn_matched_entities n))
        (nat (gn_depth_used n)) \<and>
    (\<forall>x. x \<in> set (gn_relationships n) \<longrightarrow> grounded_result (gr_min_confidence svc) (k_live s) n x) \<and>
    (\<forall>e. e \<in> set (gn_evidence n) \<longrightarrow> stored_evidence (k_live s) e)"
proof -
  let ?h = "\<lambda>e. case e of SqlExc q \<Rightarrow> bindE k_rollback_suppressed (\<lambda>_. raiseE (AppExc (graph_error q))) | _ \<Rightarrow> raiseE e"
  have "?h e s1 \<noteq> (Inr found, s2)" for e s1 s2 and found :: "GraphNeighborhood + GraphTraversalData"
    by (auto simp: bindE_eq_Inr raiseE_def split: py_exc.splits)
  with run obtain found s1 where l: "graph_lookup svc query max_depth types s = (Inr found, s1)"
    and rest: "(case found of Inl n \<Rightarrow> returnE n | Inr data \<Rightarrow> neighborhood_of query data) s1 = (Inr n, s')"
    by (auto simp: graph_search_def bindE_eq_Inr catchE_def split: prod.splits sum.splits)
  from l obtain ms s2 where f: "find_matching_query (gr_text svc) query (gr_max_entities svc) types s = (Inr ms, s2)"
    and k: "(if ms = [] then bindE (mk_neighborhood (empty_neighborhood query)) (\<lambda>n. returnE (Inl n))
       else bindE (get_neighborhood (gr_text svc) (map ken_entity_id ms) (resolve_depth svc max_depth)
                     (gr_max_entities svc) (gr_min_confidence svc)) (\<lambda>data. returnE (Inr data))) s2 = (Inr found, s1)"
    by (auto simp: graph_lookup_def bindE_eq_Inr)
  note m = find_matching_query_Inr[OF f]
  show ?thesis
  proof (cases "ms = []")
    case True
    with k rest m show ?thesis
      by (auto simp: bindE_eq_Inr returnE_def empty_neighborhood_def)
  next
    case False
    with k obtain data where g: "get_neighborhood (gr_text svc) (map ken_entity_id ms) (resolve_depth svc max_depth)
                     (gr_max_entities svc) (gr_min_confidence svc) s2 = (Inr data, s1)" and found: "found = Inr data"
      by (auto simp: bindE_eq_Inr returnE_def)
    have seeds: "set (map ken_entity_id ms) \<subseteq> ken_entity_id ` set (kt_entities (k_live s2))" using m by auto
    have w: "entities_wf (k_live s2)" using wf m by simp
    note d = get_neighborhood_Inr[OF g seeds w]
    from rest found have nb: "neighborhood_of query data s1 = (Inr n, s')" by simp
    then have n: "gn_matched_entities n = map entity_result (gtd_matched_entities data)"
      "gn_related_entities n = map entity_result (gtd_related_entities data)"
      "gn_depth_used n = int (gtd_depth_used data)" "gn_evidence n = gtd_evidence data" "s' = s1"
      "gn_depth_used n \<le> 5"
      by (auto simp: neighborhood_of_def Let_def bindE_eq_Inr liftE_def neighborhood_ok_def)
    have "set (take (gr_max_entities svc) (dedup (map ken_entity_id ms))) = ge_entity_id ` set (gn_matched_entities n)"
      unfolding n entity_result_ids using d(4) by (metis set_map)
    then have "ge_entity_id ` set (gn_related_entities n) \<subseteq>
      hops (linked (gr_min_confidence svc) (k_live s)) (ge_entity_id ` set (gn_matched_entities n))
        (nat (gn_depth_used n))"
      using d(8) m by (simp add: n image_image entity_result_def)
    moreover have "distinct (map ge_entity_id (gn_matched_entities n @ gn_related_entities n))"
      using d(5) by (simp add: n entity_result_def comp_def image_image)
    moreover have "gn_depth_used n \<le> max 0 (gr_max_depth svc)"
      using d(3) by (auto simp: n resolve_depth_def)
    moreover have "grounded_result (gr_min_confidence svc) (k_live s) n x" if "x \<in> set (gn_relationships n)" for x
      using neighborhood_of_grounded[OF nb _ that] d(9) m by simp
    ultimately show ?thesis using d(1,2,6,10) m n by simp
  qed
qed

section \<open>An instance\<close>

definition sample_graph_service :: GraphRetrievalService where
  "sample_graph_service =
     \<lparr>gr_text = sample_text, gr_max_depth = 2, gr_max_entities = 3, gr_min_confidence = 1 / 2\<rparr>"

lemma sample_matches:
  "find_matching_query sample_text [97] 3 None (knowledge_session_of sample_graph []) =
     (Inr [sample_entity 10 97], knowledge_session_of sample_graph [])"
  by (simp add: find_matching_query_def normalize_entity_name_def sample_text_def py_words_def py_isspace_def
      py_casefold_def ascii_fold_def Let_def bindE_def k_query_def k_call_def knowledge_session_of_def getE_def
      returnE_def entities_in_order_def match_entities_def contains_term_def term_here_def sample_graph_defs)

lemma sample_traversal:
  "traverse 2 1 3 (1 / 2) (start_traversal [10]) (knowledge_session_of sample_graph []) =
     (Inr \<lparr>tv_visited = {11, 10}, tv_frontier = {}, tv_relationships = [(20, sample_relationship)],
           tv_depth_used = 2\<rparr>, knowledge_session_of sample_graph [])"
  by (simp add: numeral_2_eq_2 start_traversal_def bindE_def k_query_def k_call_def knowledge_session_of_def getE_def
      returnE_def frontier_edges_def visit_level_def visit_edge_def dict_setdefault_def sample_graph_defs)

lemma sample_evidence:
  "load_graph_evidence {2} (knowledge_session_of sample_graph []) =
     (Inr [chunk_evidence (sample_chunk 2 0 1) sample_document None Retrieval_GRAPH], knowledge_session_of sample_graph [])"
  by (simp add: load_graph_evidence_def bindE_def k_query_def k_call_def knowledge_session_of_def getE_def
      chunk_join_def sample_graph_defs)

lemma sample_neighborhood:
  "\<exists>data. get_neighborhood sample_text [10] 2 3 (1 / 2) (knowledge_session_of sample_graph []) =
     (Inr data, knowledge_session_of sample_graph []) \<and>
     gtd_matched_entities data = [sample_entity 10 97] \<and> gtd_related_entities data = [sample_entity 11 98] \<and>
     gtd_relationships data = [sample_relationship] \<and> gtd_depth_used data = 2 \<and>
     gtd_evidence data = [chunk_evidence (sample_chunk 2 0 1) sample_document None Retrieval_GRAPH]"
proof -
  let ?s = "knowledge_session_of sample_graph []"
  have q1: "k_query (\<lambda>t. entities_in_order sample_text (filter (\<lambda>e. ken_entity_id e \<in> {11, 10}) (kt_entities t))) ?s =
      (Inr [sample_entity 10 97, sample_entity 11 98], ?s)"
    by (simp add: k_query_def bindE_def k_call_def knowledge_session_of_def getE_def entities_in_order_def
        sample_text_def sample_graph_defs)
  have q2: "k_query (\<lambda>t. sort_key (\<lambda>m. (kme_created_at m, kme_mention_id m))
                  (filter (\<lambda>m. kme_entity_id m \<in> {11, 10}) (kt_mentions t))) ?s =
      (Inr [sample_mention 30 10, sample_mention 31 11], ?s)"
    by (simp add: k_query_def bindE_def k_call_def knowledge_session_of_def getE_def sample_graph_defs)
  have id: "ken_entity_id (sample_entity i c) = i" "kme_chunk_id (sample_mention i j) = 2"
    "krl_source_chunk_id sample_relationship = 2" for i j c
    by (simp_all add: sample_entity_def entity_row_def sample_mention_def sample_relationship_def)
  have seeds: "take 3 (dedup [10]) = [10 :: uuid]" by (simp add: dedup_def)
  show ?thesis
    unfolding get_neighborhood_def Let_def seeds
    using q1 q2 by (simp add: bindE_def sample_traversal id sample_evidence returnE_def dict_values_def
        map_filter_simps del: One_nat_def)
qed

lemma sample_graph_search:
  "\<exists>n. graph_search sample_graph_service [97] None None (knowledge_session_of sample_graph []) =
     (Inr n, knowledge_session_of sample_graph []) \<and> length (gn_relationships n) = 1 \<and> gn_depth_used n = 2"
proof -
  obtain data where data: "get_neighborhood sample_text [10] 2 3 (1 / 2) (knowledge_session_of sample_graph []) =
     (Inr data, knowledge_session_of sample_graph [])" "gtd_matched_entities data = [sample_entity 10 97]"
     "gtd_related_entities data = [sample_entity 11 98]" "gtd_relationships data = [sample_relationship]"
     "gtd_depth_used data = 2"
     "gtd_evidence data = [chunk_evidence (sample_chunk 2 0 1) sample_document None Retrieval_GRAPH]"
    using sample_neighborhood by blast
  have lookup: "graph_lookup sample_graph_service [97] None None (knowledge_session_of sample_graph []) =
      (Inr (Inr data), knowledge_session_of sample_graph [])"
    by (simp add: graph_lookup_def sample_graph_service_def sample_matches bindE_def resolve_depth_def data(1)
        returnE_def) (simp add: sample_entity_def entity_row_def data(1))
  show ?thesis
    by (simp add: graph_search_def lookup bindE_def catchE_def neighborhood_of_def data(2-) dict_of_def
        sample_entity_def entity_row_def chunk_evidence_def sample_chunk_def sample_document_def
        sample_relationship_def liftE_def confidence_ok_def mk_neighborhood_def neighborhood_ok_def returnE_def Let_def)
qed

theorem graph_search_bounded_witness:
  "\<exists>n s'. graph_search sample_graph_service [97] None None (knowledge_session_of sample_graph []) = (Inr n, s') \<and>
     length (gn_relationships n) = 1 \<and> gn_depth_used n \<le> 2 \<and>
     length (gn_matched_entities n) + length (gn_related_entities n) \<le> 3 \<and>
     (\<forall>x. x \<in> set (gn_relationships n) \<longrightarrow> grounded_result (1 / 2) sample_graph n x)"
proof -
  let ?s = "knowledge_session_of sample_graph []"
  obtain n where run: "graph_search sample_graph_service [97] None None ?s = (Inr n, ?s)"
    "length (gn_relationships n) = 1" using sample_graph_search by blast
  have "entities_wf (k_live ?s)" using sample_graph_wf by (simp add: knowledge_session_of_def knowledge_wf_def)
  from graph_search_bounded[OF run(1) this] run show ?thesis
    by (simp add: sample_graph_service_def knowledge_session_of_def)
qed

end
