(* ===== verification/Prompt_Text.thy ===== *)
theory Prompt_Text
  imports Json_Text
begin

text \<open>
  \<open>json.dumps(value, ensure_ascii=False, indent=2, sort_keys=True)\<close>, the form in which every
  prompt embeds its payload, and the delimited envelope around it. Line breaks inside a value are
  escaped, so that no value can end the block it is embedded in (\<open>envelope_delimited\<close>).
\<close>

definition indent :: "nat \<Rightarrow> pystr" where
  "indent n = 10 # replicate n 32"

definition bracketed :: "codepoint \<Rightarrow> codepoint \<Rightarrow> nat \<Rightarrow> pystr list \<Rightarrow> pystr" where
  "bracketed opening closing n parts =
     (if parts = [] then [opening, closing]
      else [opening] @ indent (n + 2) @ py_join (44 # indent (n + 2)) parts @ indent n @ [closing])"

definition pretty_member :: "pystr \<times> pystr \<Rightarrow> pystr" where
  "pretty_member m = json_string (fst m) @ [58, 32] @ snd m"

fun json_pretty :: "(rat \<Rightarrow> pystr) \<Rightarrow> nat \<Rightarrow> json \<Rightarrow> pystr" where
  "json_pretty float_repr n JNull = py ''null''"
| "json_pretty float_repr n (JBool b) = (if b then py ''true'' else py ''false'')"
| "json_pretty float_repr n (JInt i) = int_str i"
| "json_pretty float_repr n (JFloat q) = float_repr q"
| "json_pretty float_repr n (JStr s) = json_string s"
| "json_pretty float_repr n (JArr xs) = bracketed 91 93 n (map (json_pretty float_repr (n + 2)) xs)"
| "json_pretty float_repr n (JObj kvs) =
     bracketed 123 125 n (map pretty_member
       (sort_key fst (map (\<lambda>kv. (fst kv, json_pretty float_repr (n + 2) (snd kv))) kvs)))"

text \<open>An instruction, a blank line and the payload between \<open>BEGIN_\<close> and \<open>END_\<close> lines.\<close>

definition envelope :: "(rat \<Rightarrow> pystr) \<Rightarrow> pystr \<Rightarrow> pystr \<Rightarrow> json_object \<Rightarrow> pystr" where
  "envelope float_repr instruction label payload =
     instruction @ [10, 10] @ py ''BEGIN_'' @ label @ [10] @ json_pretty float_repr 0 (JObj payload) @ [10] @
     py ''END_'' @ label"

text \<open>The order in which a payload lists its members does not matter.\<close>

lemma sort_key_perm:
  assumes "mset xs = mset ys" and "distinct (map key xs)"
  shows "sort_key key xs = sort_key key ys"
proof (rule properties_for_sort_key)
  show "mset (sort_key key ys) = mset xs" using assms(1) by simp
  have "distinct xs" using assms(2) by (simp add: distinct_map)
  show "filter (\<lambda>x. key k = key x) (sort_key key ys) = filter (\<lambda>x. key k = key x) xs" if "k \<in> set (sort_key key ys)" for k
  proof -
    have k: "k \<in> set xs" using that assms(1) by (metis set_mset_mset set_sort)
    have *: "filter (\<lambda>x. key k = key x) zs = [k]" if "distinct (map key zs)" "k \<in> set zs" for zs
      using that by (induction zs) (auto simp: filter_empty_conv image_iff)
    have "distinct (map key (sort_key key ys))"
      using assms by (metis distinct_map distinct_sort mset_eq_imp_distinct_iff set_sort mset_eq_setD)
    with * k that assms(2) show ?thesis by simp
  qed
qed simp

lemma json_pretty_order:
  assumes "mset xs = mset ys" and "distinct (map fst xs)"
  shows "json_pretty float_repr n (JObj xs) = json_pretty float_repr n (JObj ys)"
proof -
  let ?f = "\<lambda>kv. (fst kv, json_pretty float_repr (n + 2) (snd kv))"
  have "sort_key fst (map ?f xs) = sort_key fst (map ?f ys)"
    using assms by (intro sort_key_perm) (simp_all add: comp_def)
  then show ?thesis by simp
qed

section \<open>Delimiters\<close>

text \<open>\<open>s.split("\n")\<close>.\<close>

fun py_lines :: "pystr \<Rightarrow> pystr list" where
  "py_lines [] = [ []]"
| "py_lines (c # s) =
     (if c = 10 then [] # py_lines s else (c # hd (py_lines s)) # tl (py_lines s))"

definition well_delimited :: "pystr \<Rightarrow> pystr \<Rightarrow> bool" where
  "well_delimited label s \<longleftrightarrow>
     (\<exists>instruction body.
        py_lines s = [instruction, [], py ''BEGIN_'' @ label] @ body @ [py ''END_'' @ label] \<and>
        py ''BEGIN_'' @ label \<notin> set body \<and> py ''END_'' @ label \<notin> set body)"

text \<open>Every line break is followed by a blank or a closing bracket.\<close>

fun continued :: "pystr \<Rightarrow> bool" where
  "continued [] \<longleftrightarrow> True"
| "continued (c # s) \<longleftrightarrow> (c = 10 \<longrightarrow> s \<noteq> [] \<and> hd s \<in> {32, 93, 125}) \<and> continued s"

lemma py_lines_not_Nil [simp]: "py_lines s \<noteq> []"
  by (cases s) auto

lemma py_lines_single: "10 \<notin> set s \<Longrightarrow> py_lines s = [s]"
  by (induction s) auto

lemma py_lines_append: "py_lines (a @ 10 # b) = py_lines a @ py_lines b"
  by (induction a) (auto simp: tl_append split: list.split)

lemma continued_lines:
  assumes "continued s" and "l \<in> set (tl (py_lines s))"
  shows "l \<noteq> [] \<and> hd l \<in> {32, 93, 125}"
  using assms
proof (induction s)
  case (Cons c s)
  show ?case
  proof (cases "c = 10")
    case True
    then have s: "s \<noteq> []" "hd s \<in> {32, 93, 125}" "continued s" using Cons.prems by auto
    then obtain d t where d: "s = d # t" "d \<noteq> 10" by (cases s) auto
    have "l \<in> set (py_lines s)" using Cons.prems True by simp
    then consider "l = hd (py_lines s)" | "l \<in> set (tl (py_lines s))" by (cases "py_lines s") auto
    then show ?thesis
    proof cases
      case 1
      then show ?thesis using d s by simp
    next
      case 2
      then show ?thesis using Cons.IH s by blast
    qed
  next
    case False
    then show ?thesis using Cons by simp
  qed
qed simp

lemma continued_append: "continued a \<Longrightarrow> continued b \<Longrightarrow> continued (a @ b)"
  by (induction a) auto

lemma continued_plain: "10 \<notin> set s \<Longrightarrow> continued s"
  by (induction s) auto

lemma continued_join: "continued sep \<Longrightarrow> \<forall>x \<in> set xs. continued x \<Longrightarrow> continued (py_join sep xs)"
  by (induction sep xs rule: py_join.induct) (auto intro: continued_append)

lemma continued_indent: "0 < n \<Longrightarrow> continued (indent n)"
  by (cases n) (auto simp: indent_def intro: continued_plain)

lemma continued_closing: "c \<in> {93, 125} \<Longrightarrow> continued (indent n @ [c])"
  by (cases n) (auto simp: indent_def intro: continued_append continued_plain)

lemma continued_bracketed:
  assumes "a \<noteq> 10" and "b \<in> {93, 125}" and "\<forall>x \<in> set parts. continued x"
  shows "continued (bracketed a b n parts)"
proof -
  have "continued (44 # indent (n + 2))" using continued_indent[of "n + 2"] by simp
  then have join: "continued (py_join (44 # indent (n + 2)) parts)" using assms(3) by (rule continued_join)
  have "continued [a]" "continued (indent (n + 2))"
    using assms(1) continued_indent[of "n + 2"] by auto
  note continued_append[OF this(1) continued_append[OF this(2)
         continued_append[OF join continued_closing[OF assms(2), of n]]]]
  then show ?thesis using assms by (auto simp: bracketed_def)
qed

lemma hex_digits_one_line: "10 \<notin> set (hex_digits k n)"
  by (induction k arbitrary: n) (auto simp: hex_digit_def)

lemma escaped_one_line: "10 \<notin> set (escape_char c)"
  using hex_digits_one_line by (auto simp: escape_char_def)

lemma json_string_one_line: "10 \<notin> set (json_string s)"
  using escaped_one_line by (auto simp: json_string_def)

lemma nat_digits_one_line: "10 \<notin> set (nat_digits n)"
  by (induction n rule: nat_digits.induct) (subst nat_digits.simps, auto)

lemma int_str_one_line: "10 \<notin> set (int_str i)"
  using nat_digits_one_line by (auto simp: int_str_def)

lemma py_one_line: "CHR 0x0A \<notin> set s \<Longrightarrow> 10 \<notin> set (py s)"
proof
  assume "CHR 0x0A \<notin> set s" and "10 \<in> set (py s)"
  then obtain c where "c \<in> set s" "(of_char c :: nat) = of_char (CHR 0x0A)" by (auto simp: py_def)
  then show False using \<open>CHR 0x0A \<notin> set s\<close> by (simp only: of_char_eq_iff)
qed

lemma json_pretty_continued:
  assumes "\<And>q. 10 \<notin> set (float_repr q)"
  shows "continued (json_pretty float_repr n v)"
proof (induction v arbitrary: n)
  case (JArr xs)
  then show ?case by (auto intro!: continued_bracketed)
next
  case (JObj kvs)
  have "continued (pretty_member (fst kv, json_pretty float_repr (n + 2) (snd kv)))" if "kv \<in> set kvs" for kv
  proof -
    have "continued (json_pretty float_repr (n + 2) (snd kv))"
      using that by (intro JObj) (auto simp: snds.simps)
    moreover have "continued (json_string (fst kv))" "continued [58, 32]"
      by (simp_all add: continued_plain json_string_one_line)
    ultimately show ?thesis unfolding pretty_member_def by (auto intro!: continued_append)
  qed
  then show ?case by (auto intro!: continued_bracketed)
qed (auto intro!: continued_plain py_one_line simp: assms json_string_one_line int_str_one_line)

lemma bracketed_hd: "\<exists>t. bracketed a b n parts = a # t"
  by (simp add: bracketed_def)

lemma payload_lines:
  assumes "\<And>q. 10 \<notin> set (float_repr q)" and "l \<in> set (py_lines (json_pretty float_repr 0 (JObj payload)))"
  shows "l \<noteq> [] \<and> hd l \<in> {32, 93, 125, 123}"
proof -
  let ?s = "json_pretty float_repr 0 (JObj payload)"
  obtain t where t: "?s = 123 # t" using bracketed_hd unfolding json_pretty.simps by blast
  consider "l = hd (py_lines ?s)" | "l \<in> set (tl (py_lines ?s))"
    using assms(2) by (cases "py_lines ?s") auto
  then show ?thesis
  proof cases
    case 1
    then show ?thesis unfolding t by simp
  next
    case 2
    then show ?thesis using continued_lines[OF json_pretty_continued[OF assms(1)] 2] by blast
  qed
qed

theorem envelope_delimited:
  assumes "\<And>q. 10 \<notin> set (float_repr q)" and "10 \<notin> set instruction" and "10 \<notin> set label"
  shows "well_delimited label (envelope float_repr instruction label payload)"
proof -
  let ?body = "py_lines (json_pretty float_repr 0 (JObj payload))"
  have b: "10 \<notin> set (py ''BEGIN_'' @ label)" and e: "10 \<notin> set (py ''END_'' @ label)"
    using assms(3) by (auto simp: py_one_line)
  have "py_lines (envelope float_repr instruction label payload) =
      py_lines instruction @ py_lines [] @ py_lines (py ''BEGIN_'' @ label) @ ?body @
      py_lines (py ''END_'' @ label)"
    using py_lines_append unfolding envelope_def
    by (metis append.assoc append_Cons append_Nil)
  then have "py_lines (envelope float_repr instruction label payload) =
      [instruction, [], py ''BEGIN_'' @ label] @ ?body @ [py ''END_'' @ label]"
    using assms(2) b e by (simp add: py_lines_single)
  moreover have "py ''BEGIN_'' @ label \<notin> set ?body" "py ''END_'' @ label \<notin> set ?body"
    using payload_lines[OF assms(1)] by (force simp: py_def)+
  ultimately show ?thesis unfolding well_delimited_def by blast
qed

end
