(* ===== verification/File_Ingestion.thy ===== *)
theory File_Ingestion
  imports File_Parsing Ingestion Enrichment
begin

text \<open>
  File uploads end to end (\<^verbatim>\<open>app/ingestion/service.py\<close>): the bounded read, the choice and run of a
  parser, the caller's metadata, the validated request (\<^verbatim>\<open>app/schemas/knowledge.py\<close>), the ingestion
  transaction and the optional graph enrichment after it.

  \<open>UploadFile.read\<close> and \<open>json.loads\<close> are arguments. JSON numbers are integers and rationals, so the
  non-finite values that \<open>json.loads\<close> accepts are outside the model.
\<close>

section \<open>Reading within bounds\<close>

definition READ_SIZE :: nat where
  "READ_SIZE = 64 * 1024"

text \<open>
  The loop stops at the end of the file or as soon as the limit is passed, whatever \<open>read\<close> returns.
\<close>

function read_bounded_from ::
  "(nat \<Rightarrow> 'f \<Rightarrow> bytes \<times> 'f) \<Rightarrow> nat \<Rightarrow> 'f \<Rightarrow> nat \<Rightarrow> bytes list \<Rightarrow> py_exc + bytes" where
  "read_bounded_from read limit handle received chunks =
     (case read (min READ_SIZE (limit - received + 1)) handle of
        (chunk, handle') \<Rightarrow>
          if chunk = [] then Inr (concat chunks)
          else if received + length chunk > limit then Inl (AppExc FileTooLargeError)
          else read_bounded_from read limit handle' (received + length chunk) (chunks @ [chunk]))"
  by pat_completeness auto
termination
  by (relation "measure (\<lambda>(read, limit, handle, received, chunks). limit - received)") (auto simp: neq_Nil_conv)

declare read_bounded_from.simps [simp del]

definition read_bounded :: "(nat \<Rightarrow> 'f \<Rightarrow> bytes \<times> 'f) \<Rightarrow> nat \<Rightarrow> 'f \<Rightarrow> py_exc + bytes" where
  "read_bounded read limit handle = read_bounded_from read limit handle 0 []"

section \<open>Upload metadata and the request\<close>

definition MAX_METADATA_CHARACTERS :: nat where
  "MAX_METADATA_CHARACTERS = 100000"

definition metadata_error :: "py_exc \<Rightarrow> bool" where
  "metadata_error e \<longleftrightarrow> e \<in> {OtherExc (py ''JSONDecodeError''), TypeExc}"

definition parse_upload_metadata :: "(pystr \<Rightarrow> py_exc + json) \<Rightarrow> pystr option \<Rightarrow> py_exc + json_object" where
  "parse_upload_metadata json_loads v =
     (case v of
        None \<Rightarrow> Inr []
      | Some s \<Rightarrow>
          if py_strip s = [] then Inr []
          else if length s > MAX_METADATA_CHARACTERS then Inl (AppExc InvalidUploadMetadataError)
          else (case json_loads s of
              Inl e \<Rightarrow> Inl (if metadata_error e then AppExc InvalidUploadMetadataError else e)
            | Inr (JObj members) \<Rightarrow> Inr members
            | Inr _ \<Rightarrow> Inl (AppExc InvalidUploadMetadataError)))"

text \<open>\<open>json.dumps(value, separators=(",", ":"), ensure_ascii=False)\<close>, keys in their order.\<close>

fun dumps_in_order :: "(rat \<Rightarrow> pystr) \<Rightarrow> json \<Rightarrow> pystr" where
  "dumps_in_order float_repr (JArr xs) = [91] @ py_join [44] (map (dumps_in_order float_repr) xs) @ [93]"
| "dumps_in_order float_repr (JObj kvs) =
     [123] @ py_join [44] (map (\<lambda>kv. json_member (fst kv, dumps_in_order float_repr (snd kv))) kvs) @ [125]"
| "dumps_in_order float_repr v = json_dumps float_repr v"

definition MAX_METADATA_BYTES :: nat where
  "MAX_METADATA_BYTES = 100000"

definition validate_metadata_size :: "(rat \<Rightarrow> pystr) \<Rightarrow> json_object \<Rightarrow> bool" where
  "validate_metadata_size float_repr v =
     (let dumped = dumps_in_order float_repr (JObj v)
      in encodable dumped \<and> length (utf8_encode dumped) \<le> MAX_METADATA_BYTES)"

definition mk_document_create ::
  "stripper \<Rightarrow> (rat \<Rightarrow> pystr) \<Rightarrow> KnowledgeDocumentCreate \<Rightarrow> py_exc + KnowledgeDocumentCreate" where
  "mk_document_create strip float_repr d =
     (let c = d\<lparr>dc_title := strip (dc_title d), dc_source_uri := map_option strip (dc_source_uri d),
                dc_external_id := map_option strip (dc_external_id d), dc_content := strip (dc_content d)\<rparr>
      in if len_between 1 300 (dc_title c) \<and> opt_len_ok (dc_source_uri c) 2000 \<and>
            opt_len_ok (dc_external_id c) 300 \<and> len_between 1 1000000 (dc_content c) \<and>
            validate_metadata_size float_repr (dc_metadata c)
         then Inr c else Inl ValidationExc)"

record FileIngestionService =
  fi_parsers :: DocumentParserRouter
  fi_knowledge :: KnowledgeIngestionService
  fi_graph :: "KnowledgeGraphEnrichmentService option"
  fi_max_upload_size_bytes :: nat
  fi_strip :: stripper
  fi_float_repr :: "rat \<Rightarrow> pystr"
  fi_json_loads :: "pystr \<Rightarrow> py_exc + json"

definition json_opt_str :: "pystr option \<Rightarrow> json" where
  "json_opt_str v = (case v of None \<Rightarrow> JNull | Some s \<Rightarrow> JStr s)"

definition json_opt_int :: "int option \<Rightarrow> json" where
  "json_opt_int v = (case v of None \<Rightarrow> JNull | Some i \<Rightarrow> JInt i)"

definition file_provenance :: "fold_table \<Rightarrow> ParsedDocument \<Rightarrow> json_object" where
  "file_provenance table p =
     [(py ''filename'', JStr (pd_filename p)),
      (py ''mime_type'', JStr (pd_mime_type p)),
      (py ''file_extension'', JStr (py_casefold table (path_suffix (pd_filename p)))),
      (py ''file_format'', JStr (file_format_value (pd_file_format p))),
      (py ''parser_name'', JStr (pd_parser_name p)),
      (py ''parser_version'', json_opt_str (pd_parser_version p)),
      (py ''extraction_method'', JStr (pd_extraction_method p)),
      (py ''page_count'', json_opt_int (pd_page_count p)),
      (py ''sections'', JArr (map JStr (pd_sections p))),
      (py ''raw_binary_retained'', JBool False)]"

definition build_upload_request ::
  "FileIngestionService \<Rightarrow> ParsedDocument \<Rightarrow> pystr option \<Rightarrow> KnowledgeSourceType option \<Rightarrow> json_object \<Rightarrow>
     py_exc + KnowledgeDocumentCreate" where
  "build_upload_request svc p title source_type user_metadata =
     (let resolved_title = py_strip (str_or title (pd_title p))
      in if resolved_title = [] \<or> length resolved_title > 300
         then Inl (AppExc InvalidUploadMetadataError)
         else (case mk_document_create (fi_strip svc) (fi_float_repr svc)
                   \<lparr>dc_title = resolved_title,
                    dc_source_type = (case source_type of None \<Rightarrow> pd_source_type p | Some t \<Rightarrow> t),
                    dc_source_uri = None, dc_external_id = None, dc_content = pd_text p,
                    dc_metadata =
                      [(py ''file'', JObj (file_provenance (pr_fold (fi_parsers svc)) p)),
                       (py ''parser'', JObj (pd_metadata p)),
                       (py ''user'', JObj user_metadata),
                       (py ''content_trust'', JStr (py ''untrusted_evidence''))]\<rparr> of
             Inl ValidationExc \<Rightarrow> Inl (AppExc DocumentParseError)
           | r \<Rightarrow> r))"

section \<open>The upload\<close>

record 'f UploadFile =
  up_filename :: "pystr option"
  up_content_type :: "pystr option"
  up_file :: 'f
  up_read :: "nat \<Rightarrow> 'f \<Rightarrow> bytes \<times> 'f"

datatype GraphEnrichmentStatus =
  Graph_NOT_REQUESTED | Graph_DISABLED | Graph_COMPLETED | Graph_FAILED

record FileIngestionResult =
  fr_document :: KnowledgeDocumentRecord
  fr_filename :: pystr
  fr_mime_type :: pystr
  fr_parser :: pystr
  fr_extraction_method :: pystr
  fr_normalized_character_count :: nat
  fr_chunk_count :: nat
  fr_duplicate :: bool
  fr_graph_enrichment_status :: GraphEnrichmentStatus
  fr_graph_error_code :: "pystr option"

text \<open>Everything up to the parsed document: no state is touched.\<close>

definition parse_upload :: "FileIngestionService \<Rightarrow> 'f UploadFile \<Rightarrow> py_exc + (pystr \<times> ParsedDocument)" where
  "parse_upload svc upload =
     (case sanitize_filename (up_filename upload) of
        Inl e \<Rightarrow> Inl e
      | Inr filename \<Rightarrow>
          (case read_bounded (up_read upload) (fi_max_upload_size_bytes svc) (up_file upload) of
             Inl e \<Rightarrow> Inl e
           | Inr data \<Rightarrow>
               (case select_parser (fi_parsers svc) filename (up_content_type upload) data of
                  Inl e \<Rightarrow> Inl e
                | Inr parser \<Rightarrow>
                    (case dp_parse parser data filename
                            (before_first 59 (str_or (up_content_type upload) (py ''application/octet-stream''))) of
                       Inl (AppExc a) \<Rightarrow> Inl (AppExc a)
                     | Inl _ \<Rightarrow> Inl (AppExc DocumentParseError)
                     | Inr p \<Rightarrow> Inr (filename, p)))))"

definition upload_segments :: "ParsedDocument \<Rightarrow> KnowledgeSourceSegment list" where
  "upload_segments p =
     map (\<lambda>g. \<lparr>seg_text = ps_text g, seg_page_number = ps_page_number g,
                seg_section_heading = ps_section_heading g\<rparr>) (pd_segments p)"

definition enrich_upload ::
  "KnowledgeGraphEnrichmentService option \<Rightarrow> uuid \<Rightarrow> bool \<Rightarrow> (GraphEnrichmentStatus \<times> pystr option) kdb" where
  "enrich_upload graph document_id requested =
     (if \<not> requested then returnE (Graph_NOT_REQUESTED, None)
      else case graph of
             None \<Rightarrow> returnE (Graph_DISABLED, Some (py ''knowledge_graph_disabled''))
           | Some g \<Rightarrow>
               catchE (bindE (enrich g document_id) (\<lambda>_. returnE (Graph_COMPLETED, None)))
                 (\<lambda>e. case e of
                    AppExc a \<Rightarrow> returnE (Graph_FAILED, Some (error_code a))
                  | _ \<Rightarrow> returnE (Graph_FAILED, Some (py ''graph_enrichment_failed''))))"

definition ingest_upload ::
  "FileIngestionService \<Rightarrow> 'f UploadFile \<Rightarrow> pystr option \<Rightarrow> KnowledgeSourceType option \<Rightarrow> pystr option \<Rightarrow>
     bool \<Rightarrow> FileIngestionResult kdb" where
  "ingest_upload svc upload title source_type metadata_json enrich_graph =
     bindE (liftE (parse_upload svc upload)) (\<lambda>(filename, parsed).
     bindE (liftE (parse_upload_metadata (fi_json_loads svc) metadata_json)) (\<lambda>user_metadata.
     bindE (liftE (build_upload_request svc parsed title source_type user_metadata)) (\<lambda>request.
     bindE (ingest (fi_knowledge svc) request True (upload_segments parsed)) (\<lambda>result.
     bindE (enrich_upload (fi_graph svc) (kd_document_id (ki_document result)) enrich_graph) (\<lambda>(status, code).
     returnE \<lparr>fr_document = ki_document result, fr_filename = filename, fr_mime_type = pd_mime_type parsed,
              fr_parser = pd_parser_name parsed, fr_extraction_method = pd_extraction_method parsed,
              fr_normalized_character_count = length (kd_content (ki_document result)),
              fr_chunk_count = ki_chunk_count result, fr_duplicate = ki_duplicate result,
              fr_graph_enrichment_status = status, fr_graph_error_code = code\<rparr>)))))"

section \<open>The bounded read\<close>

text \<open>The documented behaviour of \<open>UploadFile.read(n)\<close>: it returns at most \<open>n\<close> of the bytes that are
  left, and none only at the end of the file.\<close>

definition reads_documented :: "(nat \<Rightarrow> 'f \<Rightarrow> bytes \<times> 'f) \<Rightarrow> ('f \<Rightarrow> bytes) \<Rightarrow> bool" where
  "reads_documented read contents \<longleftrightarrow>
     (\<forall>n handle d handle'. read n handle = (d, handle') \<longrightarrow>
        contents handle = d @ contents handle' \<and> length d \<le> n \<and> (d = [] \<and> 0 < n \<longrightarrow> contents handle = []))"

lemma read_bounded_from_spec:
  assumes "reads_documented read contents" and "received = length (concat chunks)" and "received \<le> limit"
  shows "read_bounded_from read limit handle received chunks =
    (if received + length (contents handle) \<le> limit then Inr (concat chunks @ contents handle)
     else Inl (AppExc FileTooLargeError))"
  using assms
proof (induction read limit handle received chunks rule: read_bounded_from.induct)
  case (1 read limit handle received chunks)
  obtain d handle' where r: "read (min READ_SIZE (limit - received + 1)) handle = (d, handle')"
    by (cases "read (min READ_SIZE (limit - received + 1)) handle")
  have doc: "contents handle = d @ contents handle'" "d = [] \<Longrightarrow> contents handle = []"
    using 1(2)[unfolded reads_documented_def, rule_format, OF r] by (auto simp: READ_SIZE_def)
  show ?case
  proof (cases "d = [] \<or> received + length d > limit")
    case True
    then show ?thesis using doc 1(4) by (subst read_bounded_from.simps, unfold r) auto
  next
    case False
    then have "read_bounded_from read limit handle' (received + length d) (chunks @ [d]) =
      (if received + length d + length (contents handle') \<le> limit then Inr (concat (chunks @ [d]) @ contents handle')
       else Inl (AppExc FileTooLargeError))"
      using 1(2,3) by (intro 1(1)[OF r[symmetric]]) auto
    then show ?thesis using False doc(1) by (subst read_bounded_from.simps, unfold r) (simp add: add.assoc)
  qed
qed

lemma read_bounded_spec:
  "reads_documented read contents \<Longrightarrow>
     read_bounded read limit handle =
       (if length (contents handle) \<le> limit then Inr (contents handle) else Inl (AppExc FileTooLargeError))"
  using read_bounded_from_spec[of read contents 0 "[]" limit handle] by (simp add: read_bounded_def)

section \<open>Validation\<close>

lemma sanitize_filename_Inl: "sanitize_filename v = Inl e \<Longrightarrow> e = AppExc UnsupportedFileTypeError"
  by (auto simp: sanitize_filename_def Let_def split: if_splits)

lemma select_parser_Inl:
  "select_parser router filename mime data = Inl e \<Longrightarrow> e \<in> {AppExc EmptyFileError, AppExc UnsupportedFileTypeError}"
  by (auto simp: select_parser_def Let_def split: if_splits option.splits)

lemma select_parser_nonempty: "select_parser router filename mime data = Inr parser \<Longrightarrow> data \<noteq> []"
  by (auto simp: select_parser_def)

lemma read_bounded_from_Inl: "read_bounded_from read limit handle received chunks = Inl e \<Longrightarrow> e = AppExc FileTooLargeError"
proof (induction read limit handle received chunks rule: read_bounded_from.induct)
  case (1 read limit handle received chunks)
  from 1(2) show ?case by (subst (asm) read_bounded_from.simps) (auto split: prod.splits if_splits dest: 1(1)[rotated -1])
qed

lemma parse_upload_Inl:
  assumes "parse_upload svc upload = Inl e"
  shows "\<exists>a. e = AppExc a"
  using assms
  by (auto simp: parse_upload_def read_bounded_def dest!: sanitize_filename_Inl select_parser_Inl read_bounded_from_Inl
      split: sum.splits py_exc.splits)

lemma parse_upload_Inr:
  assumes "parse_upload svc upload = Inr (filename, p)"
  obtains data parser where "sanitize_filename (up_filename upload) = Inr filename"
    and "read_bounded (up_read upload) (fi_max_upload_size_bytes svc) (up_file upload) = Inr data"
    and "select_parser (fi_parsers svc) filename (up_content_type upload) data = Inr parser"
    and "dp_parse parser data filename
           (before_first 59 (str_or (up_content_type upload) (py ''application/octet-stream''))) = Inr p"
  using assms by (auto simp: parse_upload_def split: sum.splits py_exc.splits)

text \<open>An upload is parsed only after every check: its name is a plain file name of at most 255
  characters, its bytes are present and within the size limit, extension, MIME type and signature agree
  on one format, and the parser of that format returned a well-formed document whose segments hold exactly
  the characters of its text. Whatever is refused, parser faults included, is an application error.\<close>

theorem upload_validated:
  assumes "reads_documented (up_read upload) contents" and "strip_documented strip"
    and "pr_parsers (fi_parsers svc) = file_parsers strip pdf docx n"
  shows "case parse_upload svc upload of
      Inl e \<Rightarrow> \<exists>a. e = AppExc a
    | Inr (filename, p) \<Rightarrow>
        filename_ok filename \<and> contents (up_file upload) \<noteq> [] \<and>
        length (contents (up_file upload)) \<le> fi_max_upload_size_bytes svc \<and>
        map_of FORMAT_BY_EXTENSION (py_casefold (pr_fold (fi_parsers svc)) (path_suffix filename)) =
          Some (pd_file_format p) \<and>
        signature_ok (pr_zip_names (fi_parsers svc)) (contents (up_file upload)) (pd_file_format p) \<and>
        parsed_document_ok p \<and> list_all segment_ok (pd_segments p) \<and>
        ink (pd_text p) = concat (map (\<lambda>g. ink (ps_text g)) (pd_segments p))"
proof (cases "parse_upload svc upload")
  case (Inl e)
  then show ?thesis using parse_upload_Inl[OF Inl] by simp
next
  case (Inr r)
  obtain filename p where r: "r = (filename, p)" by (cases r)
  obtain data parser where name: "sanitize_filename (up_filename upload) = Inr filename"
    and data: "read_bounded (up_read upload) (fi_max_upload_size_bytes svc) (up_file upload) = Inr data"
    and sel: "select_parser (fi_parsers svc) filename (up_content_type upload) data = Inr parser"
    and parse: "dp_parse parser data filename
           (before_first 59 (str_or (up_content_type upload) (py ''application/octet-stream''))) = Inr p"
    using parse_upload_Inr[OF Inr[unfolded r]] .
  note chosen = select_parser_Inr[OF sel assms(3)]
  have whole: "data = contents (up_file upload)" "length data \<le> fi_max_upload_size_bytes svc"
    using data read_bounded_spec[OF assms(1)] by (auto split: if_splits)
  note contract = document_parser.parsed[OF conjunct1[OF chosen] parse] document_parser.conserved[OF conjunct1[OF chosen] assms(2) parse]
  show ?thesis
    using Inr r chosen sanitize_filename_ok[OF name] select_parser_nonempty[OF sel] whole contract
    by (simp add: parsed_from_def)
qed

section \<open>What an upload leaves in the knowledge base\<close>

lemma catch_ingest_atomic:
  assumes "catchE (ingest_body svc request deduplicate i n h segments) ingest_failed s = (Inl e, s')"
  shows "k_durable s' = k_durable s"
  using catch_rollback[OF assms k_atomic_ingest_body ingest_body_raises] by blast

lemma k_atomic_ingest: "k_atomic (ingest svc request deduplicate segments)"
proof -
  have "k_atomic (catchE (ingest_body svc request deduplicate i n h segments) ingest_failed)" for i n h
    unfolding k_atomic_def using catch_ingest_atomic by blast
  then show ?thesis unfolding ingest_def Let_def
    by (intro k_atomic_bind k_keeps_basic) (auto intro: k_keeps_atomic)
qed

lemma k_atomic_enrich: "k_atomic (enrich svc document_id)"
proof -
  have "k_atomic (catchE (enrich_body svc document_id) enrich_failed)"
    by (rule k_atomic_catch[OF k_atomic_enrich_body k_keeps_enrich_failed])
  then show ?thesis unfolding k_atomic_def enrich_def by (auto simp: bindE_eq_Inl returnE_def split: prod.splits)
qed

lemma enrich_Inr:
  assumes "enrich svc document_id s = (Inr result, s')" and "knowledge_wf (k_live s)"
  shows "k_durable s' = k_live s' \<and> knowledge_wf (k_live s') \<and> graph_grows document_id (k_live s) (k_live s')"
proof -
  obtain ids where "enrich_body svc document_id s = (Inr ids, s')"
    using assms(1) by (auto simp: enrich_def bindE_eq_Inr returnE_def catchE_def enrich_failed_raises split: prod.splits sum.splits)
  from enrich_body_Inr[OF this assms(2)] show ?thesis by simp
qed

text \<open>The committed tables after an ingestion that returned.\<close>

lemma ingest_Inr_stored:
  assumes run: "ingest svc request deduplicate segments s = (Inr result, s')"
    and wf: "knowledge_wf (k_live s)" and clean: "k_durable s = k_live s"
  shows "knowledge_wf (k_live s') \<and> k_durable s' = k_live s' \<and>
    (if ki_duplicate result
     then k_live s' = k_live s \<and> ki_document result \<in> set (kt_documents (k_live s)) \<and>
          kd_content_hash (ki_document result) = is_sha256_hex svc (normalize_text (dc_content request))
     else kt_documents (k_live s') = kt_documents (k_live s) @ [ki_document result] \<and>
          kd_content (ki_document result) = normalize_text (dc_content request) \<and>
          kd_metadata (ki_document result) = dc_metadata request)"
proof -
  let ?n = "normalize_text (dc_content request)"
  obtain i s1 where start: "k_live s1 = k_live s" "k_durable s1 = k_durable s"
    and body: "ingest_body svc request deduplicate i ?n (is_sha256_hex svc ?n) segments s1 = (Inr result, s')"
    using ingest_Inr[OF run] by blast
  from body show ?thesis
  proof (cases rule: ingest_body_Inr)
    case duplicate
    with start wf clean show ?thesis by simp
  next
    case (stored s2)
    let ?d = "ki_document result"
    obtain rows where new: "kd_document_id ?d \<notin> kd_document_id ` set (kt_documents (k_live s))"
      "kd_content ?d = ?n" "kd_metadata ?d = dc_metadata request" "\<not> ki_duplicate result"
      "chunk_violation rows ((k_live s)\<lparr>kt_documents := kt_documents (k_live s) @ [?d]\<rparr>) = None"
      and live: "k_live s' = (k_live s)\<lparr>kt_documents := kt_documents (k_live s) @ [?d],
                             kt_chunks := kt_chunks (k_live s) @ rows\<rparr>" "k_durable s' = k_live s'"
      using ingest_new_Inr[OF stored(1)] stored(2) start(1) by auto
    have "documents_wf (k_live s')"
      using chunks_wf_append[OF documents_wf_append[of "k_live s" ?d] new(5)] new(1) live wf by (simp add: knowledge_wf_def)
    then show ?thesis using knowledge_wf_more_documents[OF wf] live new by simp
  qed
qed

text \<open>Enrichment after the commit reports its own failure and never undoes the document.\<close>

lemma enrich_upload_outcome:
  assumes run: "enrich_upload graph document_id requested s = (out, s')"
    and wf: "knowledge_wf (k_live s)" and clean: "k_durable s = k_live s"
  shows "\<exists>status code. out = Inr (status, code) \<and> knowledge_wf (k_durable s') \<and>
    kt_documents (k_durable s') = kt_documents (k_durable s) \<and> kt_chunks (k_durable s') = kt_chunks (k_durable s) \<and>
    (code = None \<longleftrightarrow> status \<in> {Graph_NOT_REQUESTED, Graph_COMPLETED}) \<and>
    (status = Graph_NOT_REQUESTED \<longleftrightarrow> \<not> requested) \<and>
    (status = Graph_DISABLED \<longleftrightarrow> requested \<and> graph = None) \<and>
    (status \<noteq> Graph_COMPLETED \<longrightarrow> k_durable s' = k_durable s)"
proof (cases "requested \<and> graph \<noteq> None")
  case False
  then show ?thesis using run wf clean by (auto simp: enrich_upload_def returnE_def split: option.splits if_splits)
next
  case True
  then obtain g where g: "graph = Some g" "requested" by auto
  obtain r s1 where e: "enrich g document_id s = (r, s1)" by (cases "enrich g document_id s")
  show ?thesis
  proof (cases r)
    case (Inl x)
    then have "k_durable s1 = k_durable s" using k_atomicD[OF k_atomic_enrich] e by blast
    then show ?thesis using run wf clean g e Inl
      by (auto simp: enrich_upload_def catchE_def bindE_def returnE_def split: py_exc.splits)
  next
    case (Inr x)
    have "k_durable s1 = k_live s1 \<and> knowledge_wf (k_live s1) \<and> graph_grows document_id (k_live s) (k_live s1)"
      using enrich_Inr[OF e[unfolded Inr] wf] .
    then show ?thesis using run clean g e Inr
      by (auto simp: enrich_upload_def catchE_def bindE_def returnE_def graph_grows_def)
  qed
qed

lemma build_upload_request_Inr:
  assumes "build_upload_request svc p title source_type user_metadata = Inr request"
  shows "dc_content request = fi_strip svc (pd_text p) \<and>
    dc_metadata request =
      [(py ''file'', JObj (file_provenance (pr_fold (fi_parsers svc)) p)), (py ''parser'', JObj (pd_metadata p)),
       (py ''user'', JObj user_metadata), (py ''content_trust'', JStr (py ''untrusted_evidence''))]"
  using assms by (auto simp: build_upload_request_def mk_document_create_def Let_def split: if_splits)

lemma ingest_upload_Inr:
  assumes "ingest_upload svc upload title source_type metadata_json enrich_graph s = (Inr r, s')"
  obtains p user_metadata request result s1 status code where
    "parse_upload svc upload = Inr (fr_filename r, p)"
    "build_upload_request svc p title source_type user_metadata = Inr request"
    "ingest (fi_knowledge svc) request True (upload_segments p) s = (Inr result, s1)"
    "enrich_upload (fi_graph svc) (kd_document_id (ki_document result)) enrich_graph s1 = (Inr (status, code), s')"
    "fr_document r = ki_document result" "fr_duplicate r = ki_duplicate result"
    "fr_graph_enrichment_status r = status" "fr_graph_error_code r = code"
  using assms by (auto simp: ingest_upload_def bindE_eq_Inr liftE_def returnE_def)

text \<open>C32: A file upload either leaves the committed knowledge base as it was and raises, or commits. A new
  document is appended with the normalised text of the file, marked as untrusted evidence, with the
  caller's metadata confined to its own entry; a duplicate adds nothing and names the document it
  repeats. Graph enrichment runs after that commit: its failure is reported in the status with an error
  code and never undoes or fails the ingestion.\<close>

theorem upload_commits_or_leaves:
  assumes run: "ingest_upload svc upload title source_type metadata_json enrich_graph s = (out, s')"
    and wf: "knowledge_wf (k_live s)" and clean: "k_durable s = k_live s"
  shows "case out of
      Inl e \<Rightarrow> k_durable s' = k_durable s
    | Inr r \<Rightarrow>
        knowledge_wf (k_durable s') \<and> filename_ok (fr_filename r) \<and>
        fr_document r \<in> set (kt_documents (k_durable s')) \<and>
        (if fr_duplicate r then kt_documents (k_durable s') = kt_documents (k_durable s)
         else kt_documents (k_durable s') = kt_documents (k_durable s) @ [fr_document r] \<and>
              (\<exists>p user_metadata. parse_upload svc upload = Inr (fr_filename r, p) \<and>
                 kd_content (fr_document r) = normalize_text (fi_strip svc (pd_text p)) \<and>
                 kd_metadata (fr_document r) =
                   [(py ''file'', JObj (file_provenance (pr_fold (fi_parsers svc)) p)),
                    (py ''parser'', JObj (pd_metadata p)), (py ''user'', JObj user_metadata),
                    (py ''content_trust'', JStr (py ''untrusted_evidence''))])) \<and>
        (fr_graph_error_code r = None \<longleftrightarrow> fr_graph_enrichment_status r \<in> {Graph_NOT_REQUESTED, Graph_COMPLETED}) \<and>
        (fr_graph_enrichment_status r = Graph_NOT_REQUESTED \<longleftrightarrow> \<not> enrich_graph) \<and>
        (fr_graph_enrichment_status r = Graph_DISABLED \<longleftrightarrow> enrich_graph \<and> fi_graph svc = None)"
proof (cases out)
  case (Inl e)
  have after: "\<exists>r. enrich_upload g d b t = (Inr r, t')"
    if "ingest svc' request True segs s = (Inr result, t)" "enrich_upload g d b t = (x, t')" for svc' request segs result t g d b x t'
  proof -
    have "knowledge_wf (k_live t) \<and> k_durable t = k_live t" using ingest_Inr_stored[OF that(1) wf clean] by blast
    then show ?thesis using enrich_upload_outcome[OF that(2)] that(2) by auto
  qed
  from run Inl show ?thesis
    by (auto simp: ingest_upload_def bindE_eq_Inl liftE_def returnE_def dest: after k_atomicD[OF k_atomic_ingest]
        split: prod.splits)
next
  case (Inr r)
  obtain p user_metadata request result s1 status code where
    steps: "parse_upload svc upload = Inr (fr_filename r, p)"
    "build_upload_request svc p title source_type user_metadata = Inr request"
    "ingest (fi_knowledge svc) request True (upload_segments p) s = (Inr result, s1)"
    "enrich_upload (fi_graph svc) (kd_document_id (ki_document result)) enrich_graph s1 = (Inr (status, code), s')"
    and fields: "fr_document r = ki_document result" "fr_duplicate r = ki_duplicate result"
    "fr_graph_enrichment_status r = status" "fr_graph_error_code r = code"
    using ingest_upload_Inr[OF run[unfolded Inr]] .
  have name: "filename_ok (fr_filename r)"
    by (rule parse_upload_Inr[OF steps(1)]) (rule sanitize_filename_ok)
  note stored = ingest_Inr_stored[OF steps(3) wf clean]
  have mid: "knowledge_wf (k_live s1)" "k_durable s1 = k_live s1" using stored by blast+
  note out = enrich_upload_outcome[OF steps(4) mid]
  have docs: "kt_documents (k_durable s') = kt_documents (k_live s1)" "knowledge_wf (k_durable s')"
    and codes: "code = None \<longleftrightarrow> status \<in> {Graph_NOT_REQUESTED, Graph_COMPLETED}"
      "status = Graph_NOT_REQUESTED \<longleftrightarrow> \<not> enrich_graph"
      "status = Graph_DISABLED \<longleftrightarrow> enrich_graph \<and> fi_graph svc = None"
    using out mid(2) by auto
  note content = build_upload_request_Inr[OF steps(2)]
  show ?thesis
  proof (cases "ki_duplicate result")
    case True
    then show ?thesis using stored docs codes name clean by (simp add: Inr fields)
  next
    case False
    then have "kd_content (ki_document result) = normalize_text (fi_strip svc (pd_text p))"
      "kd_metadata (ki_document result) = dc_metadata request"
      "kt_documents (k_live s1) = kt_documents (k_live s) @ [ki_document result]"
      using stored content by simp_all
    then show ?thesis using False docs codes name clean content steps(1) by (auto simp: Inr fields)
  qed
qed


section \<open>An instance\<close>

definition sample_router :: DocumentParserRouter where
  "sample_router =
     \<lparr>pr_parsers = file_parsers py_strip
        \<lparr>pl_read = (\<lambda>_. Inl (OtherExc (py ''PdfReadError''))), pl_version = py ''1''\<rparr>
        \<lparr>xl_read = (\<lambda>_. Inl (OtherExc (py ''BadZipFile''))), xl_version = py ''1''\<rparr> 20,
      pr_zip_names = (\<lambda>_. None), pr_fold = ascii_fold\<rparr>"

definition sample_file_service :: FileIngestionService where
  "sample_file_service =
     \<lparr>fi_parsers = sample_router, fi_knowledge = sample_ingestion, fi_graph = None,
      fi_max_upload_size_bytes = 5, fi_strip = py_strip, fi_float_repr = (\<lambda>_. []),
      fi_json_loads = (\<lambda>_. Inl (OtherExc (py ''JSONDecodeError'')))\<rparr>"

definition sample_file :: "bytes \<Rightarrow> bytes UploadFile" where
  "sample_file data =
     \<lparr>up_filename = Some (py ''up/a.txt''), up_content_type = Some (py ''text/plain''), up_file = data,
      up_read = (\<lambda>n xs. (take n xs, drop n xs))\<rparr>"

lemma sample_reads: "reads_documented (up_read (sample_file data)) (\<lambda>xs. xs)"
  by (auto simp: reads_documented_def sample_file_def)

definition sample_parsed :: ParsedDocument where
  "sample_parsed =
     \<lparr>pd_text = [97, 98], pd_title = py ''a'', pd_filename = py ''a.txt'', pd_mime_type = py ''text/plain'',
      pd_file_format = Format_TXT, pd_source_type = Source_TEXT, pd_page_count = None, pd_sections = [],
      pd_parser_name = py ''utf8_text'', pd_parser_version = Some (py ''1''),
      pd_extraction_method = py ''utf8_decode'', pd_metadata = [],
      pd_segments = [\<lparr>ps_text = [97, 98], ps_page_number = None, ps_section_heading = None\<rparr>]\<rparr>"

lemma sample_strips:
  "py_strip [97, 98] = [97, 98]" "py_strip (py ''a'') = py ''a''" "py_strip (py ''1'') = py ''1''"
  "py_strip (py ''a.txt'') = py ''a.txt''" "py_strip (py ''text/plain'') = py ''text/plain''"
  "py_strip (py ''utf8_text'') = py ''utf8_text''" "py_strip (py ''utf8_decode'') = py ''utf8_decode''"
  by (simp_all add: py_def py_strip_def py_rstrip_def py_lstrip_def py_isspace_def)

lemma sample_read: "read_bounded (up_read (sample_file [97, 98])) 5 (up_file (sample_file [97, 98])) = Inr [97, 98]"
  using read_bounded_spec[OF sample_reads, of "[97, 98]" 5 "[97, 98]"] by (simp add: sample_file_def)

lemma sample_parse: "parse_upload sample_file_service (sample_file [97, 98]) = Inr (py ''a.txt'', sample_parsed)"
proof -
  have name: "sanitize_filename (Some (py ''up/a.txt'')) = Inr (py ''a.txt'')" by code_simp
  have sel: "select_parser sample_router (py ''a.txt'') (Some (py ''text/plain'')) [97, 98] =
      Inr \<lparr>dp_file_format = Format_TXT, dp_parse = parse_text py_strip\<rparr>"
  proof -
    have ext: "py_casefold ascii_fold (path_suffix (py ''a.txt'')) = py ''.txt''"
      "normalized_mime ascii_fold (Some (py ''text/plain'')) = py ''text/plain''" by code_simp+
    then show ?thesis
      by (simp add: select_parser_def sample_router_def FORMAT_BY_EXTENSION_def MIME_TYPES_def parser_for_def
          file_parsers_def dict_of_def Let_def)
  qed
  have mime: "before_first 59 (str_or (Some (py ''text/plain'')) (py ''application/octet-stream'')) = py ''text/plain''"
    by code_simp
  have parse: "parse_text py_strip [97, 98] (py ''a.txt'') (py ''text/plain'') = Inr sample_parsed"
  proof -
    have "decode_utf8_sig [97, 98] = Inr [97, 98]" by (simp add: decode_utf8_sig_def utf8_step_def)
    moreover have "path_stem (py ''a.txt'') = py ''a''" by code_simp
    ultimately show ?thesis
      by (simp add: parse_text_def sample_strips mk_segment_def mk_parsed_document_def parsed_document_ok_def
          sample_parsed_def len_between_def opt_len_ok_def)
  qed
  have "up_filename (sample_file [97, 98]) = Some (py ''up/a.txt'')"
    "up_content_type (sample_file [97, 98]) = Some (py ''text/plain'')" by (simp_all add: sample_file_def)
  then show ?thesis
    using sample_read name sel mime parse by (simp add: parse_upload_def sample_file_service_def)
qed

theorem upload_validated_witness:
  "parse_upload sample_file_service (sample_file [97, 98]) = Inr (py ''a.txt'', sample_parsed) \<and>
   filename_ok (py ''a.txt'') \<and> ink (pd_text sample_parsed) = [97, 98]"
proof -
  have "pr_parsers (fi_parsers sample_file_service) = file_parsers py_strip
        \<lparr>pl_read = (\<lambda>_. Inl (OtherExc (py ''PdfReadError''))), pl_version = py ''1''\<rparr>
        \<lparr>xl_read = (\<lambda>_. Inl (OtherExc (py ''BadZipFile''))), xl_version = py ''1''\<rparr> 20"
    by (simp add: sample_file_service_def sample_router_def)
  from upload_validated[OF sample_reads strip_documented_py_strip this, of "[97, 98]"] sample_parse
  show ?thesis by (simp add: sample_parsed_def ink_def py_isspace_def)
qed

lemma sample_metadata:
  "validate_metadata_size (\<lambda>_. [])
     [(py ''file'', JObj (file_provenance ascii_fold sample_parsed)), (py ''parser'', JObj []),
      (py ''user'', JObj []), (py ''content_trust'', JStr (py ''untrusted_evidence''))]"
proof -
  have "path_suffix (py ''a.txt'') = py ''.txt''" by code_simp
  then show ?thesis
    by (simp add: validate_metadata_size_def MAX_METADATA_BYTES_def file_provenance_def sample_parsed_def py_def
        py_casefold_def ascii_fold_def json_opt_str_def json_opt_int_def json_member_def json_string_def
        escape_char_def utf8_encode_def utf8_encode_char_def Let_def)
qed

definition sample_file_request :: KnowledgeDocumentCreate where
  "sample_file_request =
     \<lparr>dc_title = py ''a'', dc_source_type = Source_TEXT, dc_source_uri = None, dc_external_id = None,
      dc_content = [97, 98],
      dc_metadata = [(py ''file'', JObj (file_provenance ascii_fold sample_parsed)), (py ''parser'', JObj []),
        (py ''user'', JObj []), (py ''content_trust'', JStr (py ''untrusted_evidence''))]\<rparr>"

lemma sample_upload_request:
  "build_upload_request sample_file_service sample_parsed None None [] = Inr sample_file_request"
proof -
  have fields: "pd_title sample_parsed = py ''a''" "pd_text sample_parsed = [97, 98]" "pd_metadata sample_parsed = []"
    "pd_source_type sample_parsed = Source_TEXT" by (simp_all add: sample_parsed_def)
  have svc: "fi_strip sample_file_service = py_strip" "fi_float_repr sample_file_service = (\<lambda>_. [])"
    "pr_fold (fi_parsers sample_file_service) = ascii_fold" by (simp_all add: sample_file_service_def sample_router_def)
  show ?thesis
    using sample_metadata
    by (simp add: build_upload_request_def fields svc str_or_def sample_strips mk_document_create_def Let_def
        sample_file_request_def len_between_def opt_len_ok_def)
qed

lemma sample_file_embedded:
  "embed_document sample_ingestion [97, 98] (upload_segments sample_parsed) =
     Inr [\<lparr>ec_chunk_index = 0, ec_content = [97, 98], ec_embedding = replicate 1536 0,
           ec_metadata = [(py ''content_hash'', JStr [97, 98])]\<rparr>]"
  by (simp add: embed_document_def sample_ingestion_def sample_chunks embedded_chunk_def upload_segments_def
      sample_parsed_def chunk_provenance_def build_provenance_spans_def sample_normal find_from_def Let_def
      encodable_def dedup_def map_filter_def upt_rec)

lemma sample_file_ingest:
  "\<exists>result s'. ingest sample_ingestion sample_file_request True (upload_segments sample_parsed)
       (knowledge_session_of sample_knowledge []) = (Inr result, s') \<and> \<not> ki_duplicate result"
  by (simp add: ingest_def sample_hash sample_file_request_def sample_normal Let_def encodable_def bindE_def catchE_def
      k_uuid4_def ingest_body_def find_by_content_hash_def k_query_def k_call_def knowledge_session_of_def
      getE_def documents_in_order_def sample_knowledge_def sample_document_def ingest_new_def sample_file_embedded
      document_create_def k_now_def k_flush_def modifyE_def returnE_def document_row_def liftE_def
      bulk_create_def chunk_row_def chunk_violation_def sample_chunk_def KNOWLEDGE_EMBEDDING_DIMENSION_def
      k_commit_def document_violation_def opt_len_ok_def)

lemma sample_upload_run:
  "\<exists>r s'. ingest_upload sample_file_service (sample_file [97, 98]) None None None True
       (knowledge_session_of sample_knowledge []) = (Inr r, s') \<and> \<not> fr_duplicate r \<and> fr_filename r = py ''a.txt''"
proof -
  obtain result s' where "ingest sample_ingestion sample_file_request True (upload_segments sample_parsed)
       (knowledge_session_of sample_knowledge []) = (Inr result, s')" "\<not> ki_duplicate result"
    using sample_file_ingest by blast
  moreover have "fi_knowledge sample_file_service = sample_ingestion" "fi_graph sample_file_service = None"
    by (simp_all add: sample_file_service_def)
  ultimately show ?thesis
    by (simp add: ingest_upload_def sample_parse sample_upload_request parse_upload_metadata_def enrich_upload_def
        bindE_def liftE_def returnE_def)
qed

theorem upload_commits_or_leaves_witness:
  "\<exists>r s'. ingest_upload sample_file_service (sample_file [97, 98]) None None None True
       (knowledge_session_of sample_knowledge []) = (Inr r, s') \<and>
     kt_documents (k_durable s') = kt_documents sample_knowledge @ [fr_document r] \<and>
     kd_content (fr_document r) = [97, 98] \<and> fr_graph_enrichment_status r = Graph_DISABLED"
proof -
  obtain r s' where run: "ingest_upload sample_file_service (sample_file [97, 98]) None None None True
       (knowledge_session_of sample_knowledge []) = (Inr r, s')" "\<not> fr_duplicate r" "fr_filename r = py ''a.txt''"
    using sample_upload_run by blast
  have start: "k_live (knowledge_session_of sample_knowledge []) = sample_knowledge"
    "k_durable (knowledge_session_of sample_knowledge []) = sample_knowledge"
    by (simp_all add: knowledge_session_of_def)
  have svc: "fi_graph sample_file_service = None" "fi_strip sample_file_service = py_strip"
    "pd_text sample_parsed = [97, 98]" by (simp_all add: sample_file_service_def sample_parsed_def)
  show ?thesis
    using upload_commits_or_leaves[OF run(1)] start sample_knowledge_wf run
    by (auto simp: sample_parse svc sample_strips sample_normal)
qed

end
