(* ===== verification/Policy_Connector.thy ===== *)
theory Policy_Connector
  imports File_Ingestion Configuration
begin

text \<open>
  The read-only policy connector (\<^verbatim>\<open>app/connectors/policy_repository.py\<close>): one bounded download, its
  validation, and the ingestion of every document, with optional graph enrichment whose failures
  are only counted.

  httpx, \<open>json.loads\<close> of the body and the Pydantic parsing of the page into typed fields are arguments;
  the constraints of the fields are defined here. The stream is the list of what its iteration
  yields or raises.
\<close>

section \<open>The download\<close>

record http_stream =
  hs_status :: "py_exc option"
  hs_chunks :: "(py_exc + bytes) list"

record PolicyDocument =
  po_external_id :: pystr
  po_title :: pystr
  po_content :: pystr
  po_source_uri :: "pystr option"
  po_updated_at :: "pystr option"
  po_metadata :: json_object

definition stripped_document :: "stripper \<Rightarrow> PolicyDocument \<Rightarrow> PolicyDocument" where
  "stripped_document strip d =
     d\<lparr>po_external_id := strip (po_external_id d), po_title := strip (po_title d), po_content := strip (po_content d),
       po_source_uri := map_option strip (po_source_uri d)\<rparr>"

definition policy_document_ok :: "PolicyDocument \<Rightarrow> bool" where
  "policy_document_ok d \<longleftrightarrow>
     len_between 1 300 (po_external_id d) \<and> len_between 1 300 (po_title d) \<and> len_between 1 1000000 (po_content d) \<and>
     opt_len_ok (po_source_uri d) 2000"

text \<open>The validation of a parsed \<open>PolicyDocumentPage\<close>.\<close>

definition mk_policy_page :: "stripper \<Rightarrow> PolicyDocument list \<Rightarrow> py_exc + PolicyDocument list" where
  "mk_policy_page strip documents =
     (let stripped = map (stripped_document strip) documents
      in if list_all policy_document_ok stripped then Inr stripped else Inl ValidationExc)"

text \<open>\<open>pc_open\<close> is what \<open>client.stream("GET", path, params)\<close> gives for a path and a limit;
  \<open>po_updated_at\<close> is the ISO form of the time stamp.\<close>

record PolicyRepositoryConnector =
  pc_base_url :: pystr
  pc_documents_path :: pystr
  pc_knowledge :: KnowledgeIngestionService
  pc_graph :: "KnowledgeGraphEnrichmentService option"
  pc_max_documents :: nat
  pc_max_response_bytes :: nat
  pc_open :: "pystr \<Rightarrow> nat \<Rightarrow> py_exc + http_stream"
  pc_is_http_error :: "py_exc \<Rightarrow> bool"
  pc_json_loads :: "bytes \<Rightarrow> py_exc + json"
  pc_parse_page :: "json \<Rightarrow> py_exc + PolicyDocument list"
  pc_strip :: stripper
  pc_float_repr :: "rat \<Rightarrow> pystr"
  pc_lower :: "pystr \<Rightarrow> pystr"
  pc_netloc_ok :: "pystr \<Rightarrow> bool"

fun read_chunks :: "nat \<Rightarrow> nat \<Rightarrow> (py_exc + bytes) list \<Rightarrow> py_exc + bytes" where
  "read_chunks limit received [] = Inr []"
| "read_chunks limit received (Inl e # rest) = Inl e"
| "read_chunks limit received (Inr chunk # rest) =
     (if received + length chunk > limit then Inl (AppExc InvalidConnectorResponseError)
      else map_sum id (\<lambda>body. chunk @ body) (read_chunks limit (received + length chunk) rest))"

definition fetch_body :: "PolicyRepositoryConnector \<Rightarrow> py_exc + bytes" where
  "fetch_body c =
     (case (case pc_open c (pc_documents_path c) (pc_max_documents c) of
              Inl e \<Rightarrow> Inl e
            | Inr stream \<Rightarrow>
                (case hs_status stream of
                   Some e \<Rightarrow> Inl e
                 | None \<Rightarrow> read_chunks (pc_max_response_bytes c) 0 (hs_chunks stream))) of
        Inl e \<Rightarrow> Inl (if pc_is_http_error c e then AppExc ConnectorUnavailableError else e)
      | Inr body \<Rightarrow> Inr body)"

definition body_error :: "py_exc \<Rightarrow> bool" where
  "body_error e \<longleftrightarrow>
     e \<in> {ValueExc, ValidationExc, OtherExc (py ''JSONDecodeError''), OtherExc (py ''UnicodeDecodeError'')}"

definition fetch_page :: "PolicyRepositoryConnector \<Rightarrow> py_exc + PolicyDocument list" where
  "fetch_page c =
     (case fetch_body c of
        Inl e \<Rightarrow> Inl e
      | Inr body \<Rightarrow>
          (case (case pc_json_loads c body of
                   Inl e \<Rightarrow> Inl e
                 | Inr v \<Rightarrow> (case pc_parse_page c v of Inl e \<Rightarrow> Inl e | Inr parsed \<Rightarrow> mk_policy_page (pc_strip c) parsed)) of
             Inl e \<Rightarrow> Inl (if body_error e then AppExc InvalidConnectorResponseError else e)
           | Inr documents \<Rightarrow>
               if length documents > pc_max_documents c then Inl (AppExc InvalidConnectorResponseError)
               else Inr documents))"

section \<open>The documents\<close>

text \<open>\<open>SplitResult.hostname\<close>.\<close>

definition url_hostname :: "(pystr \<Rightarrow> pystr) \<Rightarrow> split_url \<Rightarrow> pystr option" where
  "url_hostname lower u =
     (let info = after_last 64 (su_netloc u);
          host = (if 91 \<in> set info then fst (split_at 93 (snd (split_at 91 info))) else fst (split_at 58 info));
          name = takeWhile (\<lambda>d. d \<noteq> 37) host
      in if host = [] then None else Some (lower name @ drop (length name) host))"

definition repository_host :: "PolicyRepositoryConnector \<Rightarrow> py_exc + pystr option" where
  "repository_host c =
     (case urlsplit (pc_netloc_ok c) (rev (dropWhile (\<lambda>d. d = 47) (rev (pc_base_url c)))) of
        None \<Rightarrow> Inl ValueExc
      | Some u \<Rightarrow> Inr (url_hostname (pc_lower c) u))"

definition policy_metadata :: "pystr option \<Rightarrow> PolicyDocument \<Rightarrow> json_object" where
  "policy_metadata host d =
     [(py ''connector'', JObj
        [(py ''type'', JStr (py ''policy_repository'')),
         (py ''repository_host'', json_opt_str host),
         (py ''external_updated_at'', json_opt_str (po_updated_at d))]),
      (py ''upstream'', JObj (po_metadata d)),
      (py ''content_trust'', JStr (py ''untrusted_evidence''))]"

definition policy_request ::
  "PolicyRepositoryConnector \<Rightarrow> pystr option \<Rightarrow> PolicyDocument \<Rightarrow> py_exc + KnowledgeDocumentCreate" where
  "policy_request c host d =
     (case mk_document_create (pc_strip c) (pc_float_repr c)
         \<lparr>dc_title = po_title d, dc_source_type = Source_POLICY, dc_source_uri = po_source_uri d,
          dc_external_id = Some (po_external_id d), dc_content = po_content d,
          dc_metadata = policy_metadata host d\<rparr> of
        Inl ValidationExc \<Rightarrow> Inl (AppExc InvalidConnectorResponseError)
      | r \<Rightarrow> r)"

record sync_counts =
  sy_document_ids :: "uuid list"
  sy_duplicates :: nat
  sy_graph_enriched :: nat
  sy_graph_failed :: nat

definition enrich_policy ::
  "PolicyRepositoryConnector \<Rightarrow> bool \<Rightarrow> KnowledgeIngestionResult \<Rightarrow> sync_counts \<Rightarrow> sync_counts kdb" where
  "enrich_policy c enrich_graph result n =
     (case pc_graph c of
        None \<Rightarrow> returnE n
      | Some g \<Rightarrow>
          if enrich_graph \<and> \<not> ki_duplicate result
          then catchE (bindE (enrich g (kd_document_id (ki_document result)))
                         (\<lambda>_. returnE (n\<lparr>sy_graph_enriched := sy_graph_enriched n + 1\<rparr>)))
                      (\<lambda>_. returnE (n\<lparr>sy_graph_failed := sy_graph_failed n + 1\<rparr>))
          else returnE n)"

fun sync_documents ::
  "PolicyRepositoryConnector \<Rightarrow> bool \<Rightarrow> pystr option \<Rightarrow> PolicyDocument list \<Rightarrow> sync_counts \<Rightarrow> sync_counts kdb" where
  "sync_documents c enrich_graph host [] n = returnE n"
| "sync_documents c enrich_graph host (d # rest) n =
     bindE (liftE (policy_request c host d)) (\<lambda>request.
     bindE (ingest (pc_knowledge c) request True []) (\<lambda>result.
     bindE (enrich_policy c enrich_graph result
              (n\<lparr>sy_document_ids := sy_document_ids n @ [kd_document_id (ki_document result)],
                 sy_duplicates := sy_duplicates n + (if ki_duplicate result then 1 else 0)\<rparr>)) (\<lambda>n'.
     sync_documents c enrich_graph host rest n')))"

record PolicyRepositorySyncResult =
  sr_fetched :: nat
  sr_ingested :: int
  sr_duplicates :: nat
  sr_graph_enriched :: nat
  sr_graph_failed :: nat
  sr_document_ids :: "uuid list"

definition policy_sync :: "PolicyRepositoryConnector \<Rightarrow> bool \<Rightarrow> PolicyRepositorySyncResult kdb" where
  "policy_sync c enrich_graph =
     bindE (liftE (fetch_page c)) (\<lambda>documents.
     bindE (liftE (repository_host c)) (\<lambda>host.
     bindE (sync_documents c enrich_graph host documents
              \<lparr>sy_document_ids = [], sy_duplicates = 0, sy_graph_enriched = 0, sy_graph_failed = 0\<rparr>) (\<lambda>n.
     returnE \<lparr>sr_fetched = length documents, sr_ingested = int (length documents) - int (sy_duplicates n),
              sr_duplicates = sy_duplicates n, sr_graph_enriched = sy_graph_enriched n,
              sr_graph_failed = sy_graph_failed n, sr_document_ids = sy_document_ids n\<rparr>)))"

section \<open>What the steps do to the documents\<close>

definition documents_are :: "KnowledgeDocumentRecord list \<Rightarrow> knowledge_session \<Rightarrow> bool" where
  "documents_are D s \<longleftrightarrow> kt_documents (k_live s) = D \<and> kt_documents (k_durable s) = D"

lemma reads_documents: "k_reads m \<Longrightarrow> keepsE (documents_are D) m"
  unfolding keepsE_def documents_are_def by (metis k_readsD surjective_pairing)

lemma reads_documents_bind:
  "k_reads m \<Longrightarrow> (\<And>x. keepsE (documents_are D) (f x)) \<Longrightarrow> keepsE (documents_are D) (bindE m f)"
  by (rule keepsE_bind[OF reads_documents])

lemma flush_documents:
  assumes "\<And>t. kt_documents (f t) = kt_documents t"
  shows "keepsE (documents_are D) (k_flush v f)"
proof -
  have "keepsE (documents_are D) (case u of None \<Rightarrow> modifyE (\<lambda>s. s\<lparr>k_live := f (k_live s)\<rparr>) | Some x \<Rightarrow> raiseE (SqlExc x))" for u
    using assms by (auto simp: documents_are_def intro: keepsE_modify split: option.split)
  then show ?thesis unfolding k_flush_def by (intro reads_documents_bind k_reads_basic)
qed

lemma commit_documents: "keepsE (documents_are D) k_commit" "keepsE (documents_are D) k_rollback"
  unfolding k_commit_def k_rollback_def
  by (rule reads_documents_bind[OF k_reads_basic(7)], rule keepsE_modify, simp add: documents_are_def)+

lemma query_documents: "keepsE (documents_are D) (get_entity e)" "keepsE (documents_are D) (get_chunk c)"
  by (rule reads_documents, simp add: get_entity_def get_chunk_def)+

lemmas keeps_documents =
  reads_documents[OF k_reads_basic(1)] reads_documents[OF k_reads_basic(2)] reads_documents[OF k_reads_basic(3)]
  reads_documents[OF k_reads_basic(4)] reads_documents[OF k_reads_basic(5)] reads_documents[OF k_reads_basic(6)]
  reads_documents[OF k_reads_basic(7)] reads_documents[OF k_reads_basic(8)] reads_documents[OF k_reads_basic(9)]
  reads_documents[OF k_reads_query] flush_documents commit_documents query_documents

lemma upsert_documents: "keepsE (documents_are D) (upsert_entity g ty name description metadata)"
  unfolding upsert_entity_def insert_entity_def describe_entity_def Let_def
  by (auto intro!: keepsE_bind keeps_documents split: option.split)

lemma mention_documents: "keepsE (documents_are D) (add_mention g e d c t q metadata)"
  unfolding add_mention_def require_entity_def require_chunk_def insert_mention_def Let_def
  by (auto intro!: keepsE_bind keeps_documents split: option.split)

lemma relationship_documents: "keepsE (documents_are D) (add_relationship a b ty description q c metadata)"
  unfolding add_relationship_def require_entity_def require_chunk_def insert_relationship_def Let_def
  by (auto intro!: keepsE_bind keeps_documents split: option.split)

lemma store_entities_documents: "keepsE (documents_are D) (store_entities g d chunk es keys ids)"
  by (induction es arbitrary: keys ids) (auto intro!: keepsE_bind keeps_documents upsert_documents mention_documents)

lemma store_relationships_documents: "keepsE (documents_are D) (store_relationships c keys rs ids)"
  by (induction rs arbitrary: ids) (auto intro!: keepsE_bind keeps_documents relationship_documents split: option.split)

lemma enrich_chunks_documents: "keepsE (documents_are D) (enrich_chunks svc d cs es rs)"
  by (induction cs arbitrary: es rs)
     (auto intro!: keepsE_bind keeps_documents store_entities_documents store_relationships_documents split: prod.split)

lemma enrich_documents: "keepsE (documents_are D) (enrich svc d)"
proof -
  have "keepsE (documents_are D) (enrich_body svc d)"
    unfolding enrich_body_def document_get_by_id_def list_by_document_def
    by (auto intro!: keepsE_bind keeps_documents enrich_chunks_documents)
  moreover have "keepsE (documents_are D) (enrich_failed e)" for e
    unfolding enrich_failed_def by (cases e) (auto intro!: keepsE_bind keeps_documents)
  ultimately show ?thesis
    unfolding enrich_def by (auto intro!: keepsE_bind keepsE_catch keeps_documents split: prod.split)
qed

section \<open>What a synchronisation stores\<close>

lemma ingest_documents:
  assumes run: "ingest svc request True [] s = (r, s')" and D: "documents_are D s"
  shows "case r of
      Inl e \<Rightarrow> kt_documents (k_durable s') = D
    | Inr result \<Rightarrow>
        if ki_duplicate result then documents_are D s'
        else documents_are (D @ [ki_document result]) s' \<and> kd_source_type (ki_document result) = dc_source_type request \<and>
             kd_metadata (ki_document result) = dc_metadata request \<and>
             kd_content (ki_document result) = normalize_text (dc_content request)"
proof (cases r)
  case (Inl e)
  with run D k_atomic_ingest[of svc request True "[]"] show ?thesis
    by (auto simp: k_atomic_def documents_are_def)
next
  case (Inr result)
  let ?n = "normalize_text (dc_content request)"
  obtain i s1 where start: "k_live s1 = k_live s" "k_durable s1 = k_durable s"
    and body: "ingest_body svc request True i ?n (is_sha256_hex svc ?n) [] s1 = (Inr result, s')"
    using ingest_Inr[OF run[unfolded Inr]] by blast
  from body show ?thesis
  proof (cases rule: ingest_body_Inr)
    case duplicate
    with start D Inr show ?thesis by (simp add: documents_are_def)
  next
    case (stored s2)
    from ingest_new_Inr[OF stored(1)] stored(2) start D Inr show ?thesis by (auto simp: documents_are_def)
  qed
qed

lemma enrich_policy_run:
  assumes "enrich_policy c enrich_graph result n s = (r, s')" and "documents_are D s"
  shows "documents_are D s' \<and> (\<exists>n'. r = Inr n' \<and> sy_document_ids n' = sy_document_ids n \<and> sy_duplicates n' = sy_duplicates n \<and>
    sy_graph_enriched n' + sy_graph_failed n' = sy_graph_enriched n + sy_graph_failed n +
      (if enrich_graph \<and> \<not> ki_duplicate result \<and> pc_graph c \<noteq> None then 1 else 0))"
proof -
  have "documents_are D s'"
    using assms enrich_documents keepsED[of "documents_are D" "enrich_policy c enrich_graph result n" s r s']
    unfolding enrich_policy_def by (auto split: option.splits intro!: keepsE_catch keepsE_bind)
  moreover have "\<exists>n'. r = Inr n' \<and> sy_document_ids n' = sy_document_ids n \<and> sy_duplicates n' = sy_duplicates n \<and>
    sy_graph_enriched n' + sy_graph_failed n' = sy_graph_enriched n + sy_graph_failed n +
      (if enrich_graph \<and> \<not> ki_duplicate result \<and> pc_graph c \<noteq> None then 1 else 0)"
    using assms(1) by (auto simp: enrich_policy_def catchE_def bindE_def returnE_def split: option.splits if_splits prod.splits sum.splits)
  ultimately show ?thesis by blast
qed

text \<open>A document that the connector wrote for one of the downloaded documents.\<close>

definition policy_record :: "pystr option \<Rightarrow> stripper \<Rightarrow> PolicyDocument list \<Rightarrow> KnowledgeDocumentRecord \<Rightarrow> bool" where
  "policy_record host strip documents x \<longleftrightarrow> kd_source_type x = Source_POLICY \<and>
     list_ex (\<lambda>d. kd_metadata x = policy_metadata host d \<and> kd_content x = normalize_text (strip (po_content d))) documents"

lemma policy_record_later: "policy_record host strip ds x \<Longrightarrow> policy_record host strip (d # ds) x"
  by (simp add: policy_record_def)

lemma policy_request_Inr:
  assumes "policy_request c host d = Inr request"
  shows "dc_source_type request = Source_POLICY \<and> dc_metadata request = policy_metadata host d \<and>
    dc_content request = pc_strip c (po_content d)"
  using assms by (auto simp: policy_request_def mk_document_create_def Let_def split: if_splits sum.splits py_exc.splits)

lemma sync_documents_contract:
  assumes "sync_documents c enrich_graph host ds n s = (r, s')" and "documents_are D s"
  shows "\<exists>new. kt_documents (k_durable s') = D @ new \<and> length new \<le> length ds \<and>
    list_all (policy_record host (pc_strip c) ds) new \<and>
    (\<forall>n'. r = Inr n' \<longrightarrow> documents_are (D @ new) s' \<and>
       length (sy_document_ids n') = length (sy_document_ids n) + length ds \<and>
       sy_duplicates n' + length new = sy_duplicates n + length ds \<and>
       sy_graph_enriched n' + sy_graph_failed n' = sy_graph_enriched n + sy_graph_failed n +
         (if enrich_graph \<and> pc_graph c \<noteq> None then length new else 0))"
  using assms
proof (induction ds arbitrary: n s D)
  case Nil
  then show ?case by (auto simp: returnE_def documents_are_def)
next
  case (Cons d ds)
  show ?case
  proof (cases "policy_request c host d")
    case (Inl e)
    with Cons.prems show ?thesis by (auto simp: bindE_def liftE_def documents_are_def)
  next
    case (Inr request)
    note req = policy_request_Inr[OF Inr]
    obtain i s1 where ing: "ingest (pc_knowledge c) request True [] s = (i, s1)" by fastforce
    note docs = ingest_documents[OF ing Cons.prems(2)]
    show ?thesis
    proof (cases i)
      case (Inl e)
      with Cons.prems Inr ing docs show ?thesis by (auto simp: bindE_def liftE_def)
    next
      case (Inr result)
      let ?n = "n\<lparr>sy_document_ids := sy_document_ids n @ [kd_document_id (ki_document result)],
                 sy_duplicates := sy_duplicates n + (if ki_duplicate result then 1 else 0)\<rparr>"
      let ?one = "if ki_duplicate result then [] else [ki_document result]"
      have D1: "documents_are (D @ ?one) s1" using docs Inr by simp
      obtain q s2 where enr: "enrich_policy c enrich_graph result ?n s1 = (q, s2)" by fastforce
      from enrich_policy_run[OF enr D1] obtain n1 where n1: "documents_are (D @ ?one) s2" "q = Inr n1"
        "sy_document_ids n1 = sy_document_ids ?n" "sy_duplicates n1 = sy_duplicates ?n"
        "sy_graph_enriched n1 + sy_graph_failed n1 = sy_graph_enriched n + sy_graph_failed n +
          (if enrich_graph \<and> \<not> ki_duplicate result \<and> pc_graph c \<noteq> None then 1 else 0)" by auto
      have rest: "sync_documents c enrich_graph host ds n1 s2 = (r, s')"
        using Cons.prems(1) \<open>policy_request c host d = Inr request\<close> ing Inr enr n1(2) by (simp add: bindE_def liftE_def)
      from Cons.IH[OF rest n1(1)] obtain new where new: "kt_documents (k_durable s') = (D @ ?one) @ new"
        "length new \<le> length ds" "list_all (policy_record host (pc_strip c) ds) new"
        "\<forall>n'. r = Inr n' \<longrightarrow> documents_are ((D @ ?one) @ new) s' \<and>
           length (sy_document_ids n') = length (sy_document_ids n1) + length ds \<and>
           sy_duplicates n' + length new = sy_duplicates n1 + length ds \<and>
           sy_graph_enriched n' + sy_graph_failed n' = sy_graph_enriched n1 + sy_graph_failed n1 +
             (if enrich_graph \<and> pc_graph c \<noteq> None then length new else 0)" by blast
      have one: "list_all (policy_record host (pc_strip c) (d # ds)) ?one"
        using docs Inr req by (simp add: policy_record_def)
      have later: "list_all (policy_record host (pc_strip c) (d # ds)) new"
        using new(3) by (auto simp: list_all_iff intro: policy_record_later)
      show ?thesis
        using new(1,2,4) one later n1(3-5)
        by (intro exI[of _ "?one @ new"]) (cases "ki_duplicate result"; cases enrich_graph; cases "pc_graph c"; simp)
    qed
  qed
qed

section \<open>The download is bounded\<close>

lemma read_chunks_bounded: "read_chunks limit received cs = Inr body \<Longrightarrow> received \<le> limit \<Longrightarrow> received + length body \<le> limit"
proof (induction limit received cs arbitrary: body rule: read_chunks.induct)
  case (3 limit received chunk rest)
  then obtain body' where "read_chunks limit (received + length chunk) rest = Inr body'" "body = chunk @ body'"
    "received + length chunk \<le> limit" by (cases "read_chunks limit (received + length chunk) rest") (auto split: if_splits)
  with "3.IH"[of body'] show ?case by simp
qed simp_all

lemma fetch_body_bounded: "fetch_body c = Inr body \<Longrightarrow> length body \<le> pc_max_response_bytes c"
  using read_chunks_bounded[of "pc_max_response_bytes c" 0] by (auto simp: fetch_body_def split: sum.splits option.splits)

lemma fetch_page_bounded:
  "fetch_page c = Inr documents \<Longrightarrow> length documents \<le> pc_max_documents c \<and> list_all policy_document_ok documents"
  by (auto simp: fetch_page_def mk_policy_page_def Let_def split: sum.splits if_splits)

section \<open>Properties\<close>

text \<open>C33: One synchronisation appends to the committed documents and changes nothing else of them, also when it
  fails half-way: what it appends are policy documents marked as untrusted evidence, at most as many as
  configured. When it returns, its counts are right: every fetched document was ingested or found to
  be a duplicate, and of the ingested ones every one was enriched or counted as failed if enrichment was
  requested and is available, none otherwise. A download that is too large, unavailable or malformed
  touches nothing.\<close>

theorem policy_sync_contract:
  assumes run: "policy_sync c enrich_graph s = (r, s')" and clean: "kt_documents (k_live s) = kt_documents (k_durable s)"
  shows "(\<forall>e. fetch_page c = Inl e \<longrightarrow> r = Inl e \<and> s' = s) \<and>
    (\<exists>new. kt_documents (k_durable s') = kt_documents (k_durable s) @ new \<and> length new \<le> pc_max_documents c \<and>
      list_all (\<lambda>x. kd_source_type x = Source_POLICY \<and>
        map_of (kd_metadata x) (py ''content_trust'') = Some (JStr (py ''untrusted_evidence''))) new \<and>
      (\<forall>res. r = Inr res \<longrightarrow>
         sr_fetched res \<le> pc_max_documents c \<and> length (sr_document_ids res) = sr_fetched res \<and>
         sr_ingested res = int (length new) \<and> sr_duplicates res + length new = sr_fetched res \<and>
         sr_graph_enriched res + sr_graph_failed res =
           (if enrich_graph \<and> pc_graph c \<noteq> None then length new else 0)))"
proof (cases "fetch_page c")
  case (Inl e)
  with run show ?thesis by (auto simp: policy_sync_def bindE_def liftE_def)
next
  case (Inr documents)
  note page = fetch_page_bounded[OF Inr]
  let ?n = "\<lparr>sy_document_ids = [], sy_duplicates = 0, sy_graph_enriched = 0, sy_graph_failed = 0\<rparr>"
  show ?thesis
  proof (cases "repository_host c")
    case (Inl e)
    with run Inr show ?thesis by (auto simp: policy_sync_def bindE_def liftE_def)
  next
    case (Inr host)
    obtain q s1 where loop: "sync_documents c enrich_graph host documents ?n s = (q, s1)" by fastforce
    have "documents_are (kt_documents (k_durable s)) s" using clean by (simp add: documents_are_def)
    from sync_documents_contract[OF loop this] obtain new where new:
      "kt_documents (k_durable s1) = kt_documents (k_durable s) @ new" "length new \<le> length documents"
      "list_all (policy_record host (pc_strip c) documents) new"
      "\<forall>n'. q = Inr n' \<longrightarrow> length (sy_document_ids n') = length documents \<and>
         sy_duplicates n' + length new = length documents \<and>
         sy_graph_enriched n' + sy_graph_failed n' = (if enrich_graph \<and> pc_graph c \<noteq> None then length new else 0)"
      by auto
    have marked: "list_all (\<lambda>x. kd_source_type x = Source_POLICY \<and>
        map_of (kd_metadata x) (py ''content_trust'') = Some (JStr (py ''untrusted_evidence''))) new"
      using new(3) by (auto simp: list_all_iff policy_record_def list_ex_iff policy_metadata_def py_def)
    have "s' = s1" "\<forall>res. r = Inr res \<longrightarrow> (\<exists>n'. q = Inr n' \<and> sr_fetched res = length documents \<and>
        sr_document_ids res = sy_document_ids n' \<and> sr_ingested res = int (length documents) - int (sy_duplicates n') \<and>
        sr_duplicates res = sy_duplicates n' \<and> sr_graph_enriched res = sy_graph_enriched n' \<and>
        sr_graph_failed res = sy_graph_failed n')"
      using run \<open>fetch_page c = Inr documents\<close> Inr loop
      by (auto simp: policy_sync_def bindE_def liftE_def returnE_def split: sum.splits)
    then show ?thesis
      using new marked page \<open>fetch_page c = Inr documents\<close> by (intro conjI exI[of _ new]) fastforce+
  qed
qed

text \<open>An enrichment that raises anything but an application, value or database error is counted as failed and
  its rows stay in the open transaction; the next new document commits them.\<close>

lemma foreign_enrichment_failure_commits:
  assumes g: "pc_graph c = Some g" "\<not> ki_duplicate result"
    and fails: "enrich_body g (kd_document_id (ki_document result)) s = (Inl (OtherExc x), s1)"
    and later: "ingest (pc_knowledge c) request True [] s1 = (Inr result', s2)" "\<not> ki_duplicate result'"
  shows "enrich_policy c True result n s = (Inr (n\<lparr>sy_graph_failed := sy_graph_failed n + 1\<rparr>), s1) \<and>
    kt_entities (k_durable s2) = kt_entities (k_live s1)"
proof -
  have "enrich g (kd_document_id (ki_document result)) s = (Inl (OtherExc x), s1)"
    using fails by (simp add: enrich_def bindE_def catchE_def enrich_failed_def raiseE_def)
  then have "enrich_policy c True result n s = (Inr (n\<lparr>sy_graph_failed := sy_graph_failed n + 1\<rparr>), s1)"
    using g by (simp add: enrich_policy_def catchE_def bindE_def returnE_def)
  moreover obtain i t where start: "k_live t = k_live s1"
    and body: "ingest_body (pc_knowledge c) request True i (normalize_text (dc_content request))
       (is_sha256_hex (pc_knowledge c) (normalize_text (dc_content request))) [] t = (Inr result', s2)"
    using ingest_Inr[OF later(1)] by blast
  from body have "kt_entities (k_durable s2) = kt_entities (k_live s1)"
  proof (cases rule: ingest_body_Inr)
    case duplicate
    with later(2) show ?thesis by simp
  next
    case (stored t1)
    from ingest_new_Inr[OF stored(1)] stored(2) start show ?thesis by auto
  qed
  ultimately show ?thesis by blast
qed

section \<open>An instance\<close>

definition sample_policy_document :: PolicyDocument where
  "sample_policy_document =
     \<lparr>po_external_id = py ''1'', po_title = py ''a'', po_content = [97, 98], po_source_uri = None, po_updated_at = None,
      po_metadata = []\<rparr>"

definition sample_connector :: PolicyRepositoryConnector where
  "sample_connector =
     \<lparr>pc_base_url = py ''https://h/'', pc_documents_path = py ''/d'', pc_knowledge = sample_ingestion, pc_graph = None,
      pc_max_documents = 2, pc_max_response_bytes = 4,
      pc_open = (\<lambda>_ _. Inr \<lparr>hs_status = None, hs_chunks = [Inr [91], Inr [93]]\<rparr>), pc_is_http_error = (\<lambda>_. False),
      pc_json_loads = (\<lambda>_. Inr JNull), pc_parse_page = (\<lambda>_. Inr [sample_policy_document]), pc_strip = py_strip,
      pc_float_repr = (\<lambda>_. []), pc_lower = (\<lambda>x. x), pc_netloc_ok = (\<lambda>_. True)\<rparr>"

definition sample_policy_request :: KnowledgeDocumentCreate where
  "sample_policy_request =
     \<lparr>dc_title = py ''a'', dc_source_type = Source_POLICY, dc_source_uri = None, dc_external_id = Some (py ''1''),
      dc_content = [97, 98], dc_metadata = policy_metadata (Some (py ''h'')) sample_policy_document\<rparr>"

lemma sample_policy_page: "fetch_page sample_connector = Inr [sample_policy_document]"
  by (simp add: fetch_page_def fetch_body_def sample_connector_def mk_policy_page_def stripped_document_def
      sample_policy_document_def sample_strips policy_document_ok_def len_between_def opt_len_ok_def)

lemma sample_policy_host: "repository_host sample_connector = Inr (Some (py ''h''))"
proof -
  have "urlsplit (\<lambda>_. True) (rev (dropWhile (\<lambda>d. d = 47) (rev (py ''https://h/'')))) =
    Some \<lparr>su_scheme = py ''https'', su_netloc = py ''h'', su_path = [], su_query = [], su_fragment = []\<rparr>" by code_simp
  then show ?thesis
    by (simp add: repository_host_def sample_connector_def url_hostname_def after_last_def split_at_def py_def)
qed

lemma sample_policy_valid: "policy_request sample_connector (Some (py ''h'')) sample_policy_document = Inr sample_policy_request"
proof -
  have "validate_metadata_size (\<lambda>_. []) (policy_metadata (Some (py ''h'')) sample_policy_document)"
    by (simp add: validate_metadata_size_def MAX_METADATA_BYTES_def policy_metadata_def sample_policy_document_def py_def
        json_opt_str_def json_member_def json_string_def
        escape_char_def utf8_encode_def utf8_encode_char_def Let_def)
  then show ?thesis
    by (simp add: policy_request_def sample_connector_def mk_document_create_def Let_def sample_policy_document_def
        sample_policy_request_def sample_strips len_between_def opt_len_ok_def)
qed

lemma sample_policy_ingest:
  "\<exists>result s'. ingest sample_ingestion sample_policy_request True [] (knowledge_session_of sample_knowledge []) = (Inr result, s') \<and>
     \<not> ki_duplicate result"
  by (simp add: ingest_def sample_hash sample_policy_request_def sample_normal Let_def encodable_def bindE_def catchE_def
      k_uuid4_def ingest_body_def find_by_content_hash_def k_query_def k_call_def knowledge_session_of_def
      getE_def documents_in_order_def sample_knowledge_def sample_document_def ingest_new_def sample_embedded
      document_create_def k_now_def k_flush_def modifyE_def returnE_def document_row_def liftE_def
      bulk_create_def chunk_row_def chunk_violation_def sample_chunk_def KNOWLEDGE_EMBEDDING_DIMENSION_def
      k_commit_def document_violation_def opt_len_ok_def)

lemma sample_policy_run:
  "\<exists>res s'. policy_sync sample_connector True (knowledge_session_of sample_knowledge []) = (Inr res, s') \<and>
     sr_fetched res = 1 \<and> sr_duplicates res = 0"
proof -
  obtain result s' where "ingest sample_ingestion sample_policy_request True [] (knowledge_session_of sample_knowledge []) = (Inr result, s')"
    "\<not> ki_duplicate result" using sample_policy_ingest by blast
  moreover have "pc_graph sample_connector = None" "pc_knowledge sample_connector = sample_ingestion"
    by (simp_all add: sample_connector_def)
  ultimately show ?thesis
    by (auto simp: policy_sync_def bindE_def liftE_def returnE_def sample_policy_page sample_policy_host
        sample_policy_valid enrich_policy_def)
qed

theorem policy_sync_contract_witness:
  "\<exists>res s' x. policy_sync sample_connector True (knowledge_session_of sample_knowledge []) = (Inr res, s') \<and>
     sr_fetched res = 1 \<and> sr_ingested res = 1 \<and> sr_graph_failed res = 0 \<and>
     kt_documents (k_durable s') = kt_documents sample_knowledge @ [x] \<and> kd_source_type x = Source_POLICY"
proof -
  let ?s = "knowledge_session_of sample_knowledge []"
  obtain res s' where run: "policy_sync sample_connector True ?s = (Inr res, s')" "sr_fetched res = 1" "sr_duplicates res = 0"
    using sample_policy_run by blast
  have clean: "kt_documents (k_live ?s) = kt_documents (k_durable ?s)" "k_durable ?s = sample_knowledge"
    by (simp_all add: knowledge_session_of_def)
  have svc: "pc_graph sample_connector = None" by (simp add: sample_connector_def)
  from policy_sync_contract[OF run(1) clean(1)] obtain new where
    new: "kt_documents (k_durable s') = kt_documents sample_knowledge @ new" "length new = 1"
      "list_all (\<lambda>x. kd_source_type x = Source_POLICY) new" "sr_ingested res = 1" "sr_graph_failed res = 0"
    using run(2,3) clean(2) by (auto simp: svc list_all_iff)
  from new(2,3) obtain x where "new = [x]" "kd_source_type x = Source_POLICY" by (cases new) auto
  with new run show ?thesis by blast
qed

end
