(* ===== verification/Telemetry.thy ===== *)
theory Telemetry
  imports Risk_Gate Resilience
begin

text \<open>
  Operational telemetry: the trace vocabulary and \<open>OperationalTelemetry\<close>
  (\<^verbatim>\<open>app/runtime/models.py\<close>), its construction and the cost estimate
  (\<^verbatim>\<open>app/runtime/telemetry.py\<close>), and the exported attribute allowlist
  (\<^verbatim>\<open>app/observability/exporters.py\<close>). Floats are exact rationals.
\<close>

section \<open>Vocabulary\<close>

datatype HumanReviewStatus =
  Review_NOT_REQUIRED | Review_PENDING | Review_APPROVED | Review_REJECTED
  | Review_REVISION_REQUESTED

primrec review_status_value :: "HumanReviewStatus \<Rightarrow> pystr" where
  "review_status_value Review_NOT_REQUIRED = py ''not_required''"
| "review_status_value Review_PENDING = py ''pending''"
| "review_status_value Review_APPROVED = py ''approved''"
| "review_status_value Review_REJECTED = py ''rejected''"
| "review_status_value Review_REVISION_REQUESTED = py ''revision_requested''"

datatype ExecutionHealth =
  Health_FULL | Health_DEGRADED | Health_BLOCKED | Health_PENDING_HUMAN_REVIEW

primrec health_value :: "ExecutionHealth \<Rightarrow> pystr" where
  "health_value Health_FULL = py ''full''"
| "health_value Health_DEGRADED = py ''degraded''"
| "health_value Health_BLOCKED = py ''blocked''"
| "health_value Health_PENDING_HUMAN_REVIEW = py ''pending_human_review''"

datatype RuntimeTraceEventType =
  RT_ASSESSMENT_STARTED | RT_RETRIEVAL_STARTED | RT_RETRIEVAL_COMPLETED | RT_AGENT_STARTED
  | RT_AGENT_COMPLETED | RT_TOOL_STARTED | RT_TOOL_COMPLETED | RT_RETRY | RT_TIMEOUT
  | RT_QUALITY_GATE_EVALUATED | RT_HUMAN_REVIEW_REQUESTED | RT_HUMAN_REVIEW_RESUMED
  | RT_HUMAN_REVIEW_APPROVED | RT_HUMAN_REVIEW_REJECTED | RT_REVISION_REQUESTED
  | RT_ASSESSMENT_COMPLETED | RT_ASSESSMENT_FAILED

record RuntimeTraceEvent =
  te_timestamp :: instant
  te_request_id :: "pystr option"
  te_event_type :: RuntimeTraceEventType
  te_component :: pystr
  te_status :: pystr
  te_duration_ms :: "int option"
  te_reason_code :: "RuntimeReasonCode option"

record OperationalTelemetry =
  ot_request_id :: "pystr option"
  ot_execution_mode :: pystr
  ot_execution_health :: ExecutionHealth
  ot_total_duration_ms :: int
  ot_execution_duration_ms :: int
  ot_human_wait_duration_ms :: "int option"
  ot_retrieval_duration_ms :: "int option"
  ot_synthesis_duration_ms :: "int option"
  ot_model_call_count :: "int option"
  ot_model_call_durations_ms :: "int list"
  ot_embedding_call_count :: "int option"
  ot_tool_call_count :: int
  ot_graph_retrieval_used :: bool
  ot_vector_retrieval_used :: bool
  ot_specialist_durations_ms :: "(pystr, int option) dict"
  ot_retry_count :: int
  ot_timeout_count :: int
  ot_degraded_state_count :: int
  ot_human_review_status :: HumanReviewStatus
  ot_termination_reason :: pystr
  ot_token_usage :: "ProviderTokenUsage option"
  ot_estimated_cost :: "rat option"
  ot_estimated_cost_currency :: "pystr option"
  ot_events :: "RuntimeTraceEvent list"

definition opt_nonneg :: "int option \<Rightarrow> bool" where
  "opt_nonneg v \<longleftrightarrow> (case v of None \<Rightarrow> True | Some i \<Rightarrow> 0 \<le> i)"

definition trace_event_ok :: "RuntimeTraceEvent \<Rightarrow> bool" where
  "trace_event_ok e \<longleftrightarrow>
     opt_len_ok (te_request_id e) 128 \<and> len_between 1 100 (te_component e) \<and>
     len_between 1 50 (te_status e) \<and> opt_nonneg (te_duration_ms e)"

text \<open>The field bounds of \<open>OperationalTelemetry\<close>, enforced when one is constructed.\<close>

definition telemetry_ok :: "OperationalTelemetry \<Rightarrow> bool" where
  "telemetry_ok t \<longleftrightarrow>
     opt_len_ok (ot_request_id t) 128 \<and> len_between 1 30 (ot_execution_mode t) \<and>
     0 \<le> ot_total_duration_ms t \<and> 0 \<le> ot_execution_duration_ms t \<and>
     opt_nonneg (ot_human_wait_duration_ms t) \<and> opt_nonneg (ot_retrieval_duration_ms t) \<and>
     opt_nonneg (ot_synthesis_duration_ms t) \<and> opt_nonneg (ot_model_call_count t) \<and>
     opt_nonneg (ot_embedding_call_count t) \<and> 0 \<le> ot_tool_call_count t \<and>
     0 \<le> ot_retry_count t \<and> 0 \<le> ot_timeout_count t \<and> 0 \<le> ot_degraded_state_count t \<and>
     len_between 1 100 (ot_termination_reason t) \<and>
     (case ot_token_usage t of None \<Rightarrow> True | Some u \<Rightarrow> usage_record_ok u) \<and>
     (case ot_estimated_cost t of None \<Rightarrow> True | Some c \<Rightarrow> 0 \<le> c) \<and>
     opt_len_ok (ot_estimated_cost_currency t) 10 \<and>
     (\<forall>e \<in> set (ot_events t). trace_event_ok e)"

section \<open>Construction\<close>

definition calculate_estimated_cost ::
  "ProviderTokenUsage option \<Rightarrow> rat option \<Rightarrow> rat option \<Rightarrow> rat option" where
  "calculate_estimated_cost usage input_cost output_cost =
     (case usage of
        None \<Rightarrow> None
      | Some u \<Rightarrow>
          (case (use_input_tokens u, use_output_tokens u, input_cost, output_cost) of
             (Some i, Some k, Some ci, Some co) \<Rightarrow>
               Some ((of_int i * ci + of_int k * co) / 1000000)
           | _ \<Rightarrow> None))"

text \<open>The mode-dependent part: tool calls, model calls, specialist and synthesis durations,
  degradation and termination.\<close>

record mode_summary =
  ms_tool_calls :: int
  ms_model_calls :: "int option"
  ms_specialist_durations :: "(pystr, int option) dict"
  ms_synthesis_duration :: "int option"
  ms_degraded :: bool
  ms_termination :: pystr

definition durations_dict :: "MultiAgentDurations \<Rightarrow> (pystr, int option) dict" where
  "durations_dict d =
     [(py ''evidence'', mad_evidence d), (py ''architecture'', mad_architecture d),
      (py ''risk_governance'', mad_risk_governance d), (py ''synthesis'', mad_synthesis d)]"

definition summarize_mode :: "ExecutionMetadata \<Rightarrow> int option \<Rightarrow> mode_summary" where
  "summarize_mode execution model_call_count =
     (case execution of
        DeterministicExecution c \<Rightarrow>
          \<lparr>ms_tool_calls = 0,
           ms_model_calls = Some (case model_call_count of None \<Rightarrow> 1 | Some n \<Rightarrow> n),
           ms_specialist_durations = [], ms_synthesis_duration = None,
           ms_degraded = False, ms_termination = py ''completed''\<rparr>
      | SingleAgentExecution a \<Rightarrow>
          (let termination = termination_value (ax_termination_reason a) in
           \<lparr>ms_tool_calls = int (length (ax_tools_used a)),
            ms_model_calls =
              Some (case model_call_count of None \<Rightarrow> ax_steps_used a + 1 | Some n \<Rightarrow> n),
            ms_specialist_durations = [], ms_synthesis_duration = None,
            ms_degraded = (termination \<noteq> py ''completed'' \<and> termination \<noteq> py ''agent_stopped''),
            ms_termination = termination\<rparr>)
      | MultiAgentExecution m \<Rightarrow>
          \<lparr>ms_tool_calls = mx_tool_calls m,
           ms_model_calls =
             Some (case model_call_count of
                     None \<Rightarrow> int (length (filter (\<lambda>s. s = MA_COMPLETED)
                                               (statuses_values (mx_agent_statuses m))))
                   | Some n \<Rightarrow> n),
           ms_specialist_durations = durations_dict (mx_agent_durations_ms m),
           ms_synthesis_duration = mad_synthesis (mx_agent_durations_ms m),
           ms_degraded = mx_degraded_mode m,
           ms_termination = multi_termination_value (mx_termination_reason m)\<rparr>)"

definition health_and_review ::
  "RuntimeRiskDecision \<Rightarrow> bool \<Rightarrow> ExecutionHealth \<times> HumanReviewStatus" where
  "health_and_review decision degraded =
     (if decision = REQUIRE_HUMAN_REVIEW then (Health_PENDING_HUMAN_REVIEW, Review_PENDING)
      else if decision = BLOCK_AND_ESCALATE then (Health_BLOCKED, Review_NOT_REQUIRED)
      else if degraded then (Health_DEGRADED, Review_NOT_REQUIRED)
      else (Health_FULL, Review_NOT_REQUIRED))"

record telemetry_args =
  ta_duration_ms :: int
  ta_gate_decision :: RuntimeRiskDecision
  ta_token_usage :: "ProviderTokenUsage option"
  ta_evidence_count :: int
  ta_model_call_count :: "int option"
  ta_input_cost_per_million :: "rat option"
  ta_output_cost_per_million :: "rat option"
  ta_request_id :: "pystr option"
  ta_now :: instant

definition telemetry_of :: "ExecutionMetadata \<Rightarrow> telemetry_args \<Rightarrow> OperationalTelemetry" where
  "telemetry_of execution a =
     (let graph = x_graph_retrieval (exec_common execution);
          graph_used = (case graph of None \<Rightarrow> False | Some g \<Rightarrow> gx_graph_retrieval_used g);
          vector_used = (ta_evidence_count a \<noteq> 0 \<and>
            (case graph of None \<Rightarrow> True
             | Some g \<Rightarrow> gx_vector_evidence_count g > 0 \<or> gx_hybrid_evidence_count g > 0));
          m = summarize_mode execution (ta_model_call_count a);
          hr = health_and_review (ta_gate_decision a) (ms_degraded m);
          cost = calculate_estimated_cost (ta_token_usage a) (ta_input_cost_per_million a)
                   (ta_output_cost_per_million a)
      in \<lparr>ot_request_id = ta_request_id a,
          ot_execution_mode = x_execution_mode (exec_common execution),
          ot_execution_health = fst hr,
          ot_total_duration_ms = ta_duration_ms a,
          ot_execution_duration_ms = ta_duration_ms a,
          ot_human_wait_duration_ms = None,
          ot_retrieval_duration_ms = None,
          ot_synthesis_duration_ms = ms_synthesis_duration m,
          ot_model_call_count = ms_model_calls m,
          ot_model_call_durations_ms = [],
          ot_embedding_call_count = None,
          ot_tool_call_count = ms_tool_calls m,
          ot_graph_retrieval_used = graph_used,
          ot_vector_retrieval_used = vector_used,
          ot_specialist_durations_ms = ms_specialist_durations m,
          ot_retry_count = 0,
          ot_timeout_count = 0,
          ot_degraded_state_count = (if ms_degraded m then 1 else 0),
          ot_human_review_status = snd hr,
          ot_termination_reason = ms_termination m,
          ot_token_usage = ta_token_usage a,
          ot_estimated_cost = cost,
          ot_estimated_cost_currency = (if cost \<noteq> None then Some (py ''USD'') else None),
          ot_events =
            [\<lparr>te_timestamp = ta_now a - 1000 * ta_duration_ms a,
              te_request_id = ta_request_id a,
              te_event_type = RT_ASSESSMENT_STARTED, te_component = py ''assessment'',
              te_status = py ''started'', te_duration_ms = None, te_reason_code = None\<rparr>,
             \<lparr>te_timestamp = ta_now a,
              te_request_id = ta_request_id a,
              te_event_type = RT_QUALITY_GATE_EVALUATED, te_component = py ''runtime_risk_gate'',
              te_status = decision_value (ta_gate_decision a),
              te_duration_ms = Some 0, te_reason_code = None\<rparr>]\<rparr>)"

definition build_operational_telemetry ::
  "ExecutionMetadata \<Rightarrow> telemetry_args \<Rightarrow> py_exc + OperationalTelemetry" where
  "build_operational_telemetry execution a =
     (let t = telemetry_of execution a in if telemetry_ok t then Inr t else Inl ValidationExc)"

section \<open>When construction cannot fail\<close>

text \<open>What the callers guarantee of an execution record.\<close>

definition execution_ok :: "ExecutionMetadata \<Rightarrow> bool" where
  "execution_ok x \<longleftrightarrow>
     x_execution_mode (exec_common x) \<in>
       {py ''deterministic'', py ''single_agent'', py ''agentic'', py ''multi_agent''} \<and>
     opt_len_ok (x_request_id (exec_common x)) 128 \<and>
     (case x of
        DeterministicExecution c \<Rightarrow> True
      | SingleAgentExecution a \<Rightarrow> 0 \<le> ax_steps_used a
      | MultiAgentExecution m \<Rightarrow>
          0 \<le> mx_tool_calls m \<and> opt_nonneg (mad_synthesis (mx_agent_durations_ms m)))"

definition telemetry_args_ok :: "telemetry_args \<Rightarrow> bool" where
  "telemetry_args_ok a \<longleftrightarrow>
     0 \<le> ta_duration_ms a \<and> opt_nonneg (ta_model_call_count a) \<and>
     opt_len_ok (ta_request_id a) 128 \<and>
     (case ta_token_usage a of None \<Rightarrow> True | Some u \<Rightarrow> usage_record_ok u) \<and>
     (case ta_input_cost_per_million a of None \<Rightarrow> True | Some c \<Rightarrow> 0 \<le> c) \<and>
     (case ta_output_cost_per_million a of None \<Rightarrow> True | Some c \<Rightarrow> 0 \<le> c)"

lemma cost_nonneg:
  assumes "telemetry_args_ok a"
    and "calculate_estimated_cost (ta_token_usage a) (ta_input_cost_per_million a)
           (ta_output_cost_per_million a) = Some c"
  shows "0 \<le> c"
proof -
  from assms(2) obtain u i k ci co where
    u: "ta_token_usage a = Some u" "use_input_tokens u = Some i" "use_output_tokens u = Some k"
    and costs: "ta_input_cost_per_million a = Some ci" "ta_output_cost_per_million a = Some co"
    and c: "c = (of_int i * ci + of_int k * co) / 1000000"
    by (auto simp: calculate_estimated_cost_def split: option.splits)
  from assms(1) u costs have "0 \<le> i" "0 \<le> k" "0 \<le> ci" "0 \<le> co"
    by (auto simp: telemetry_args_ok_def usage_record_ok_iff)
  then show ?thesis unfolding c by (intro divide_nonneg_nonneg add_nonneg_nonneg mult_nonneg_nonneg) simp_all
qed

lemma termination_value_length [simp]: "len_between (Suc 0) 100 (termination_value r)"
  by (cases r) simp_all

lemma multi_termination_value_length [simp]: "len_between (Suc 0) 100 (multi_termination_value r)"
  by (cases r) simp_all

lemma decision_value_length [simp]: "len_between (Suc 0) 50 (decision_value d)"
  by (cases d) simp_all

lemma review_status_value_length [simp]: "len_between (Suc 0) 50 (review_status_value d)"
  by (cases d) simp_all

lemma summarize_mode_ok:
  assumes "execution_ok x" and "opt_nonneg n"
  defines "m \<equiv> summarize_mode x n"
  shows "0 \<le> ms_tool_calls m \<and> opt_nonneg (ms_model_calls m) \<and>
         opt_nonneg (ms_synthesis_duration m) \<and> len_between 1 100 (ms_termination m)"
  using assms(1,2) unfolding m_def
  by (cases x; cases n)
     (auto simp: execution_ok_def summarize_mode_def opt_nonneg_def Let_def)

lemma execution_mode_length:
  "execution_ok x \<Longrightarrow> len_between 1 30 (x_execution_mode (exec_common x))"
  by (auto simp: execution_ok_def)

lemma telemetry_of_ok:
  assumes "execution_ok x" and "telemetry_args_ok a"
  shows "telemetry_ok (telemetry_of x a)"
proof -
  have n: "opt_nonneg (ta_model_call_count a)" using assms(2) by (simp add: telemetry_args_ok_def)
  note m = summarize_mode_ok[OF assms(1) n]
  show ?thesis
    using m assms(2) execution_mode_length[OF assms(1)] cost_nonneg[OF assms(2)]
    unfolding telemetry_of_def Let_def
    by (auto simp: telemetry_ok_def telemetry_args_ok_def opt_nonneg_def trace_event_ok_def
          opt_len_ok_def split: option.split)
qed

section \<open>Exported attributes\<close>

datatype attr = AStr pystr | AInt int | ABool bool

definition level_value :: "RuntimeRiskLevel \<Rightarrow> pystr" where
  "level_value l = (case l of Level_LOW \<Rightarrow> py ''low'' | Level_MEDIUM \<Rightarrow> py ''medium''
     | Level_HIGH \<Rightarrow> py ''high'' | Level_CRITICAL \<Rightarrow> py ''critical'')"

definition opt_int_or_zero :: "int option \<Rightarrow> int" where
  "opt_int_or_zero v = (case v of None \<Rightarrow> 0 | Some i \<Rightarrow> i)"

definition safe_span_attributes ::
  "pystr \<Rightarrow> OperationalTelemetry \<Rightarrow> QualityGateResult \<Rightarrow> (pystr, attr) dict" where
  "safe_span_attributes assessment_id t g =
     [(py ''assessment.id'', AStr assessment_id),
      (py ''assessment.execution_mode'', AStr (ot_execution_mode t)),
      (py ''assessment.execution_health'', AStr (health_value (ot_execution_health t))),
      (py ''assessment.duration_ms'', AInt (ot_total_duration_ms t)),
      (py ''assessment.execution_duration_ms'', AInt (ot_execution_duration_ms t)),
      (py ''assessment.model_calls'', AInt (opt_int_or_zero (ot_model_call_count t))),
      (py ''assessment.embedding_calls'', AInt (opt_int_or_zero (ot_embedding_call_count t))),
      (py ''assessment.tool_calls'', AInt (ot_tool_call_count t)),
      (py ''assessment.retry_count'', AInt (ot_retry_count t)),
      (py ''assessment.timeout_count'', AInt (ot_timeout_count t)),
      (py ''assessment.degraded_state_count'', AInt (ot_degraded_state_count t)),
      (py ''assessment.review_status'', AStr (review_status_value (ot_human_review_status t))),
      (py ''assessment.termination_reason'', AStr (ot_termination_reason t)),
      (py ''assessment.gate_decision'', AStr (decision_value (gr_decision g))),
      (py ''assessment.risk_level'', AStr (level_value (gr_risk_level g))),
      (py ''assessment.graph_retrieval_used'', ABool (ot_graph_retrieval_used t)),
      (py ''assessment.vector_retrieval_used'', ABool (ot_vector_retrieval_used t))] @
     (case ot_request_id t of None \<Rightarrow> [] | Some r \<Rightarrow> [(py ''request.id'', AStr r)]) @
     (case ot_token_usage t of
        None \<Rightarrow> []
      | Some u \<Rightarrow>
          (case use_input_tokens u of None \<Rightarrow> []
           | Some i \<Rightarrow> [(py ''gen_ai.usage.input_tokens'', AInt i)]) @
          (case use_output_tokens u of None \<Rightarrow> []
           | Some k \<Rightarrow> [(py ''gen_ai.usage.output_tokens'', AInt k)]))"

section \<open>Properties\<close>

lemma health_pending_iff [simp]:
  "fst (health_and_review d b) = Health_PENDING_HUMAN_REVIEW \<longleftrightarrow> d = REQUIRE_HUMAN_REVIEW"
  "snd (health_and_review d b) = Review_PENDING \<longleftrightarrow> d = REQUIRE_HUMAN_REVIEW"
  "fst (health_and_review d b) = Health_BLOCKED \<longleftrightarrow> d = BLOCK_AND_ESCALATE"
  by (cases d; simp add: health_and_review_def)+

text \<open>for every execution record and arguments the services produce, telemetry construction
  satisfies all field bounds and does not raise, and the reported health and review status follow
  the gate decision.\<close>

theorem telemetry_construction_total:
  assumes "execution_ok x" and "telemetry_args_ok a"
  shows "\<exists>t. build_operational_telemetry x a = Inr t \<and> telemetry_ok t \<and>
             (ot_execution_health t = Health_PENDING_HUMAN_REVIEW \<longleftrightarrow>
                ta_gate_decision a = REQUIRE_HUMAN_REVIEW) \<and>
             (ot_human_review_status t = Review_PENDING \<longleftrightarrow>
                ta_gate_decision a = REQUIRE_HUMAN_REVIEW) \<and>
             (ot_execution_health t = Health_BLOCKED \<longleftrightarrow> ta_gate_decision a = BLOCK_AND_ESCALATE) \<and>
             (ot_estimated_cost t \<noteq> None \<longleftrightarrow> ot_estimated_cost_currency t \<noteq> None)"
  using telemetry_of_ok[OF assms]
  by (simp add: build_operational_telemetry_def Let_def)
     (simp add: telemetry_of_def Let_def)

theorem telemetry_construction_total_witness:
  "\<exists>t. build_operational_telemetry
     (DeterministicExecution
       \<lparr>x_request_id = None, x_execution_mode = py ''deterministic'',
        x_preferred_execution_mode = None, x_routing_reason_codes = [],
        x_fallback_reason_codes = [], x_graph_retrieval = None\<rparr>)
     \<lparr>ta_duration_ms = 12, ta_gate_decision = REQUIRE_HUMAN_REVIEW,
      ta_token_usage = Some \<lparr>use_input_tokens = Some 10, use_output_tokens = Some 5, use_total_tokens = Some 15\<rparr>,
      ta_evidence_count = 1, ta_model_call_count = None, ta_input_cost_per_million = Some 2,
      ta_output_cost_per_million = Some 4, ta_request_id = None, ta_now = 0\<rparr> = Inr t \<and>
     telemetry_ok t \<and> ot_human_review_status t = Review_PENDING"
proof -
  let ?x = "DeterministicExecution
       \<lparr>x_request_id = None, x_execution_mode = py ''deterministic'',
        x_preferred_execution_mode = None, x_routing_reason_codes = [],
        x_fallback_reason_codes = [], x_graph_retrieval = None\<rparr>"
  let ?a = "\<lparr>ta_duration_ms = 12, ta_gate_decision = REQUIRE_HUMAN_REVIEW,
      ta_token_usage = Some \<lparr>use_input_tokens = Some 10, use_output_tokens = Some 5, use_total_tokens = Some 15\<rparr>,
      ta_evidence_count = 1, ta_model_call_count = None, ta_input_cost_per_million = Some 2,
      ta_output_cost_per_million = Some 4, ta_request_id = None, ta_now = 0\<rparr>"
  have "execution_ok ?x" by (simp add: execution_ok_def opt_len_ok_def)
  moreover have "telemetry_args_ok ?a"
    by (simp add: telemetry_args_ok_def opt_nonneg_def opt_len_ok_def usage_record_ok_iff)
  ultimately show ?thesis
    using telemetry_construction_total[of ?x ?a] by auto
qed

text \<open>The exported span attributes are a fixed allowlist: every key is one of twenty names
  and no key appears twice, whatever the telemetry holds.\<close>

definition span_attribute_names :: "pystr list" where
  "span_attribute_names =
     map py [''assessment.id'', ''assessment.execution_mode'', ''assessment.execution_health'',
       ''assessment.duration_ms'', ''assessment.execution_duration_ms'', ''assessment.model_calls'',
       ''assessment.embedding_calls'', ''assessment.tool_calls'', ''assessment.retry_count'',
       ''assessment.timeout_count'', ''assessment.degraded_state_count'',
       ''assessment.review_status'', ''assessment.termination_reason'',
       ''assessment.gate_decision'', ''assessment.risk_level'',
       ''assessment.graph_retrieval_used'', ''assessment.vector_retrieval_used'',
       ''request.id'', ''gen_ai.usage.input_tokens'', ''gen_ai.usage.output_tokens'']"

lemma span_attributes_allowlisted:
  "set (map fst (safe_span_attributes i t g)) \<subseteq> set span_attribute_names \<and>
   distinct (map fst (safe_span_attributes i t g))"
  by (auto simp: safe_span_attributes_def span_attribute_names_def split: option.splits)

end
