(* ===== verification/Store.thy ===== *)
theory Store
  imports Telemetry
begin

text \<open>
  The relational state behind the services: the tables \<open>assessments\<close>,
  \<open>assessment_runtime_states\<close> and \<open>human_review_events\<close>
  (\<^verbatim>\<open>app/db/models/assessment.py\<close>, \<^verbatim>\<open>app/db/models/runtime_review.py\<close>) with their check constraints, and the
  repositories over them (\<^verbatim>\<open>app/repositories/assessments.py\<close>,
  \<^verbatim>\<open>app/repositories/runtime_reviews.py\<close>).

  A session is a view of the tables inside the open transaction (\<open>live\<close>), the committed tables
  (\<open>durable\<close>) and what the environment will do: \<open>faults\<close> says for each coming database
  call whether it raises (and which SQLAlchemy error), \<open>clock\<close> and \<open>uuids\<close> give the values
  of the coming readings of the clock and of \<open>uuid4\<close>. Theorems quantify over all of them.
\<close>

section \<open>Tables\<close>

record assessment_row =
  row_status :: AssessmentStatus
  row_company_name :: pystr
  row_industry :: pystr
  row_business_problem :: pystr
  row_created_by_subject :: "pystr option"
  row_request_payload :: json_object
  row_result_payload :: "json_object option"
  row_execution_metadata :: "json_object option"
  row_error_code :: "pystr option"
  row_error_message :: "pystr option"
  row_created_at :: instant
  row_updated_at :: instant
  row_completed_at :: "instant option"

text \<open>The two check constraints of \<open>AssessmentModel\<close>.\<close>

definition assessment_row_ok :: "assessment_row \<Rightarrow> bool" where
  "assessment_row_ok r \<longleftrightarrow>
     (row_status r \<noteq> Status_COMPLETED \<or>
        row_result_payload r \<noteq> None \<and> row_completed_at r \<noteq> None) \<and>
     (row_status r \<noteq> Status_FAILED \<or>
        row_result_payload r = None \<and> row_error_code r \<noteq> None \<and> row_error_message r \<noteq> None)"

record runtime_row =
  rt_gate_result :: QualityGateResult
  rt_review_status :: HumanReviewStatus
  rt_candidate_result :: "json_object option"
  rt_candidate_execution :: "json_object option"
  rt_telemetry :: OperationalTelemetry
  rt_revision_count :: int
  rt_max_revisions :: int
  rt_created_at :: instant
  rt_updated_at :: instant

text \<open>The check constraint \<open>revision_bounds\<close> of \<open>AssessmentRuntimeStateModel\<close>.\<close>

definition runtime_row_ok :: "runtime_row \<Rightarrow> bool" where
  "runtime_row_ok r \<longleftrightarrow>
     0 \<le> rt_revision_count r \<and> 0 \<le> rt_max_revisions r \<and> rt_revision_count r \<le> rt_max_revisions r"

datatype HumanReviewAction =
  Act_REQUESTED | Act_APPROVED | Act_REJECTED | Act_REVISION_REQUESTED | Act_REVISION_SUBMITTED

record review_event =
  re_id :: uuid
  re_assessment_id :: uuid
  re_action :: HumanReviewAction
  re_previous_status :: HumanReviewStatus
  re_new_status :: HumanReviewStatus
  re_reviewer_id :: "pystr option"
  re_reviewer_subject :: "pystr option"
  re_reviewer_email :: "pystr option"
  re_reviewer_role :: "pystr option"
  re_reviewer_issuer :: "pystr option"
  re_request_id :: "pystr option"
  re_comment :: "pystr option"
  re_reason_codes :: "RuntimeReasonCode list"
  re_revision_number :: int
  re_created_at :: instant

record tables =
  t_assessments :: "(uuid, assessment_row) dict"
  t_runtime_states :: "(uuid, runtime_row) dict"
  t_review_events :: "review_event list"

section \<open>Sessions\<close>

record session =
  live :: tables
  durable :: tables
  faults :: "sql_error option list"
  clock :: "nat \<Rightarrow> instant"
  uuids :: "nat \<Rightarrow> uuid"
  ticks :: nat
  drawn :: nat

type_synonym 'a db = "(session, py_exc, 'a) eff"

text \<open>One round trip to the database: it raises what the environment says.\<close>

definition db_call :: "unit db" where
  "db_call = (\<lambda>s. case faults s of
       [] \<Rightarrow> (Inr (), s)
     | None # fs \<Rightarrow> (Inr (), s\<lparr>faults := fs\<rparr>)
     | Some e # fs \<Rightarrow> (Inl (SqlExc e), s\<lparr>faults := fs\<rparr>))"

definition read_clock :: "instant db" where
  "read_clock = (\<lambda>s. (Inr (clock s (ticks s)), s\<lparr>ticks := Suc (ticks s)\<rparr>))"

definition draw_uuid :: "uuid db" where
  "draw_uuid = (\<lambda>s. (Inr (uuids s (drawn s)), s\<lparr>drawn := Suc (drawn s)\<rparr>))"

text \<open>
  \<open>flush\<close> of a pending change: the statement is sent, a violated constraint is an
  \<open>IntegrityError\<close>, otherwise the change is visible in the transaction.
\<close>

definition flush_with :: "bool \<Rightarrow> (tables \<Rightarrow> tables) \<Rightarrow> unit db" where
  "flush_with ok f =
     bindE db_call (\<lambda>_.
       if ok then modifyE (\<lambda>s. s\<lparr>live := f (live s)\<rparr>) else raiseE (SqlExc IntegrityError))"

definition commit :: "unit db" where
  "commit = bindE db_call (\<lambda>_. modifyE (\<lambda>s. s\<lparr>durable := live s\<rparr>))"

definition rollback :: "unit db" where
  "rollback = bindE db_call (\<lambda>_. modifyE (\<lambda>s. s\<lparr>live := durable s\<rparr>))"

section \<open>Assessment repository\<close>

record PersistedAssessment =
  pa_assessment_id :: uuid
  pa_status :: AssessmentStatus
  pa_request_payload :: json_object
  pa_result_payload :: "json_object option"
  pa_execution_metadata :: "json_object option"
  pa_error_code :: "pystr option"
  pa_error_message :: "pystr option"
  pa_created_at :: instant
  pa_updated_at :: instant
  pa_completed_at :: "instant option"
  pa_created_by_subject :: "pystr option"

definition to_record :: "uuid \<Rightarrow> assessment_row \<Rightarrow> PersistedAssessment" where
  "to_record i r =
     \<lparr>pa_assessment_id = i, pa_status = row_status r,
      pa_request_payload = row_request_payload r, pa_result_payload = row_result_payload r,
      pa_execution_metadata = row_execution_metadata r, pa_error_code = row_error_code r,
      pa_error_message = row_error_message r, pa_created_at = row_created_at r,
      pa_updated_at = row_updated_at r, pa_completed_at = row_completed_at r,
      pa_created_by_subject = row_created_by_subject r\<rparr>"

definition repo_create ::
  "uuid \<Rightarrow> pystr \<Rightarrow> pystr \<Rightarrow> pystr \<Rightarrow> json_object \<Rightarrow> pystr option \<Rightarrow> PersistedAssessment db" where
  "repo_create i company industry problem payload subject =
     bindE read_clock (\<lambda>now.
     bindE (getE (\<lambda>s. map_of (t_assessments (live s)) i)) (\<lambda>existing.
       let row = \<lparr>row_status = Status_PENDING, row_company_name = company, row_industry = industry,
                  row_business_problem = problem, row_created_by_subject = subject,
                  row_request_payload = payload, row_result_payload = None,
                  row_execution_metadata = None, row_error_code = None, row_error_message = None,
                  row_created_at = now, row_updated_at = now, row_completed_at = None\<rparr>
       in bindE (flush_with (existing = None)
                  (\<lambda>t. t\<lparr>t_assessments := AList.update i row (t_assessments t)\<rparr>))
                (\<lambda>_. returnE (to_record i row))))"

definition repo_get_by_id :: "uuid \<Rightarrow> PersistedAssessment option db" where
  "repo_get_by_id i =
     bindE db_call (\<lambda>_. getE (\<lambda>s. map_option (to_record i) (map_of (t_assessments (live s)) i)))"

text \<open>
  The shape all \<open>mark_*\<close> methods share: \<open>session.get\<close>, \<open>None\<close> for an unknown id, the
  clock, the assignments to the row, \<open>flush\<close>.
\<close>

definition repo_update ::
  "uuid \<Rightarrow> (instant \<Rightarrow> assessment_row \<Rightarrow> assessment_row) \<Rightarrow> PersistedAssessment option db" where
  "repo_update i change =
     bindE db_call (\<lambda>_.
     bindE (getE (\<lambda>s. map_of (t_assessments (live s)) i)) (\<lambda>found.
       case found of
         None \<Rightarrow> returnE None
       | Some row \<Rightarrow>
           bindE read_clock (\<lambda>now.
             let row' = change now row
             in bindE (flush_with (assessment_row_ok row')
                        (\<lambda>t. t\<lparr>t_assessments := AList.update i row' (t_assessments t)\<rparr>))
                      (\<lambda>_. returnE (Some (to_record i row'))))))"

definition mark_processing :: "uuid \<Rightarrow> PersistedAssessment option db" where
  "mark_processing i =
     repo_update i (\<lambda>now r. r\<lparr>row_status := Status_PROCESSING, row_updated_at := now\<rparr>)"

definition mark_completed ::
  "uuid \<Rightarrow> json_object \<Rightarrow> json_object option \<Rightarrow> PersistedAssessment option db" where
  "mark_completed i result_payload execution_metadata =
     repo_update i (\<lambda>now r.
       r\<lparr>row_status := Status_COMPLETED,
         row_result_payload := Some result_payload,
         row_execution_metadata := execution_metadata,
         row_error_code := None,
         row_error_message := None,
         row_completed_at := Some now,
         row_updated_at := now\<rparr>)"

definition mark_pending_review ::
  "uuid \<Rightarrow> json_object option \<Rightarrow> PersistedAssessment option db" where
  "mark_pending_review i execution_metadata =
     repo_update i (\<lambda>now r.
       r\<lparr>row_status := Status_PENDING_REVIEW,
         row_result_payload := None,
         row_execution_metadata := execution_metadata,
         row_error_code := None,
         row_error_message := None,
         row_completed_at := None,
         row_updated_at := now\<rparr>)"

definition mark_failed :: "uuid \<Rightarrow> pystr \<Rightarrow> pystr \<Rightarrow> PersistedAssessment option db" where
  "mark_failed i code message =
     repo_update i (\<lambda>now r.
       r\<lparr>row_status := Status_FAILED,
         row_result_payload := None,
         row_execution_metadata := None,
         row_error_code := Some (take 100 code),
         row_error_message := Some (take 500 message),
         row_completed_at := None,
         row_updated_at := now\<rparr>)"

text \<open>Newest first, then by identifier.\<close>

definition page_le :: "uuid \<times> assessment_row \<Rightarrow> uuid \<times> assessment_row \<Rightarrow> bool" where
  "page_le a b \<longleftrightarrow>
     row_created_at (snd b) < row_created_at (snd a) \<or>
     row_created_at (snd a) = row_created_at (snd b) \<and> fst a \<le> fst b"

fun insert_page ::
  "uuid \<times> assessment_row \<Rightarrow> (uuid, assessment_row) dict \<Rightarrow> (uuid, assessment_row) dict" where
  "insert_page x [] = [x]"
| "insert_page x (y # ys) = (if page_le x y then x # y # ys else y # insert_page x ys)"

definition order_page :: "(uuid, assessment_row) dict \<Rightarrow> (uuid, assessment_row) dict" where
  "order_page rows = foldr insert_page rows []"

definition status_filter ::
  "AssessmentStatus option \<Rightarrow> (uuid, assessment_row) dict \<Rightarrow> (uuid, assessment_row) dict" where
  "status_filter status rows =
     (case status of None \<Rightarrow> rows | Some st \<Rightarrow> filter (\<lambda>p. row_status (snd p) = st) rows)"

definition list_page ::
  "AssessmentStatus option \<Rightarrow> nat \<Rightarrow> nat \<Rightarrow> PersistedAssessment list db" where
  "list_page status offset limit =
     bindE db_call (\<lambda>_. getE (\<lambda>s.
       map (\<lambda>p. to_record (fst p) (snd p))
         (take limit (drop offset (order_page (status_filter status (t_assessments (live s))))))))"

definition count_assessments :: "AssessmentStatus option \<Rightarrow> nat db" where
  "count_assessments status =
     bindE db_call (\<lambda>_. getE (\<lambda>s. length (status_filter status (t_assessments (live s)))))"

section \<open>Runtime review repository\<close>

record RuntimeAssessmentState =
  ras_assessment_id :: uuid
  ras_gate_result :: QualityGateResult
  ras_review_status :: HumanReviewStatus
  ras_candidate_result :: "json_object option"
  ras_candidate_execution :: "json_object option"
  ras_telemetry :: OperationalTelemetry
  ras_revision_count :: int
  ras_max_revisions :: int
  ras_created_at :: instant
  ras_updated_at :: instant

text \<open>\<open>dict(payload) if payload else None\<close>: an empty object reads back as \<open>None\<close>.\<close>

definition nonempty_payload :: "json_object option \<Rightarrow> json_object option" where
  "nonempty_payload v = (case v of None \<Rightarrow> None | Some d \<Rightarrow> if d = [] then None else Some d)"

text \<open>
  \<open>_state_from_model\<close>. The gate result and the telemetry are re-validated on every read;
  a failing validator is a \<open>ValidationError\<close>.
\<close>

definition state_from_model :: "uuid \<Rightarrow> runtime_row \<Rightarrow> py_exc + RuntimeAssessmentState" where
  "state_from_model i r =
     (if \<not> gate_result_ok (rt_gate_result r) then Inl ValidationExc
      else if \<not> telemetry_ok (rt_telemetry r) then Inl ValidationExc
      else if \<not> (0 \<le> rt_revision_count r \<and> 0 \<le> rt_max_revisions r) then Inl ValidationExc
      else Inr \<lparr>ras_assessment_id = i, ras_gate_result = rt_gate_result r,
                ras_review_status = rt_review_status r,
                ras_candidate_result = nonempty_payload (rt_candidate_result r),
                ras_candidate_execution = nonempty_payload (rt_candidate_execution r),
                ras_telemetry = rt_telemetry r, ras_revision_count = rt_revision_count r,
                ras_max_revisions = rt_max_revisions r, ras_created_at = rt_created_at r,
                ras_updated_at = rt_updated_at r\<rparr>)"

record save_args =
  sv_gate_result :: QualityGateResult
  sv_review_status :: HumanReviewStatus
  sv_candidate_result :: "json_object option"
  sv_candidate_execution :: "json_object option"
  sv_telemetry :: OperationalTelemetry
  sv_revision_count :: int
  sv_max_revisions :: int

definition saved_row :: "save_args \<Rightarrow> instant \<Rightarrow> instant \<Rightarrow> runtime_row" where
  "saved_row a created now =
     \<lparr>rt_gate_result = sv_gate_result a, rt_review_status = sv_review_status a,
      rt_candidate_result = sv_candidate_result a,
      rt_candidate_execution = sv_candidate_execution a, rt_telemetry = sv_telemetry a,
      rt_revision_count = sv_revision_count a, rt_max_revisions = sv_max_revisions a,
      rt_created_at = created, rt_updated_at = now\<rparr>"

definition save_state :: "uuid \<Rightarrow> save_args \<Rightarrow> RuntimeAssessmentState db" where
  "save_state i a =
     bindE read_clock (\<lambda>now.
     bindE db_call (\<lambda>_.
     bindE (getE (\<lambda>s. map_of (t_runtime_states (live s)) i)) (\<lambda>existing.
       let row = saved_row a (case existing of None \<Rightarrow> now | Some r \<Rightarrow> rt_created_at r) now
       in bindE (flush_with (runtime_row_ok row)
                  (\<lambda>t. t\<lparr>t_runtime_states := AList.update i row (t_runtime_states t)\<rparr>))
                (\<lambda>_. liftE (state_from_model i row)))))"

definition get_state :: "uuid \<Rightarrow> RuntimeAssessmentState option db" where
  "get_state i =
     bindE db_call (\<lambda>_.
     bindE (getE (\<lambda>s. map_of (t_runtime_states (live s)) i)) (\<lambda>found.
       case found of
         None \<Rightarrow> returnE None
       | Some r \<Rightarrow> bindE (liftE (state_from_model i r)) (\<lambda>st. returnE (Some st))))"

record event_args =
  ea_action :: HumanReviewAction
  ea_previous_status :: HumanReviewStatus
  ea_new_status :: HumanReviewStatus
  ea_reviewer_id :: "pystr option"
  ea_comment :: "pystr option"
  ea_reason_codes :: "RuntimeReasonCode list"
  ea_revision_number :: int
  ea_reviewer_subject :: "pystr option"
  ea_reviewer_email :: "pystr option"
  ea_reviewer_role :: "pystr option"
  ea_reviewer_issuer :: "pystr option"
  ea_request_id :: "pystr option"

definition event_row :: "uuid \<Rightarrow> uuid \<Rightarrow> event_args \<Rightarrow> instant \<Rightarrow> review_event" where
  "event_row event_id i a now =
     \<lparr>re_id = event_id, re_assessment_id = i, re_action = ea_action a,
      re_previous_status = ea_previous_status a, re_new_status = ea_new_status a,
      re_reviewer_id = ea_reviewer_id a, re_reviewer_subject = ea_reviewer_subject a,
      re_reviewer_email = ea_reviewer_email a, re_reviewer_role = ea_reviewer_role a,
      re_reviewer_issuer = ea_reviewer_issuer a, re_request_id = ea_request_id a,
      re_comment = ea_comment a, re_reason_codes = ea_reason_codes a,
      re_revision_number = ea_revision_number a, re_created_at = now\<rparr>"

text \<open>The check constraint \<open>revision_nonnegative\<close> is the flush condition; the primary key is a
  fresh random identifier.\<close>

definition add_review_event :: "uuid \<Rightarrow> event_args \<Rightarrow> review_event db" where
  "add_review_event i a =
     bindE draw_uuid (\<lambda>event_id.
     bindE read_clock (\<lambda>now.
       let row = event_row event_id i a now
       in bindE (flush_with (0 \<le> ea_revision_number a)
                  (\<lambda>t. t\<lparr>t_review_events := t_review_events t @ [row]\<rparr>))
                (\<lambda>_. returnE row)))"

definition event_le :: "review_event \<Rightarrow> review_event \<Rightarrow> bool" where
  "event_le a b \<longleftrightarrow>
     re_created_at a < re_created_at b \<or> re_created_at a = re_created_at b \<and> re_id a \<le> re_id b"

fun insert_event :: "review_event \<Rightarrow> review_event list \<Rightarrow> review_event list" where
  "insert_event x [] = [x]"
| "insert_event x (y # ys) = (if event_le x y then x # y # ys else y # insert_event x ys)"

definition list_review_events :: "uuid \<Rightarrow> review_event list db" where
  "list_review_events i =
     bindE db_call (\<lambda>_. getE (\<lambda>s.
       foldr insert_event (filter (\<lambda>e. re_assessment_id e = i) (t_review_events (live s))) []))"

section \<open>What the calls do to the session\<close>

lemma db_call_frame:
  "db_call s = (r, s') \<Longrightarrow> live s' = live s \<and> durable s' = durable s"
  by (auto simp: db_call_def split: list.splits option.splits)

lemma db_call_Inl: "db_call s = (Inl e, s') \<Longrightarrow> \<exists>q. e = SqlExc q"
  by (auto simp: db_call_def split: list.splits option.splits)

lemma db_call_no_fault: "set (faults s) \<subseteq> {None} \<Longrightarrow> \<exists>fs. db_call s = (Inr (), s\<lparr>faults := fs\<rparr>) \<and> set fs \<subseteq> {None}"
  by (cases "faults s") (auto simp: db_call_def intro: exI[of _ "[]"])

lemma read_clock_frame:
  "read_clock s = (r, s') \<Longrightarrow> live s' = live s \<and> durable s' = durable s \<and> (\<exists>now. r = Inr now)"
  by (auto simp: read_clock_def)

lemma draw_uuid_frame:
  "draw_uuid s = (r, s') \<Longrightarrow> live s' = live s \<and> durable s' = durable s \<and> (\<exists>u. r = Inr u)"
  by (auto simp: draw_uuid_def)

lemma flush_with_Inr:
  "flush_with ok f s = (Inr u, s') \<Longrightarrow> ok \<and> live s' = f (live s) \<and> durable s' = durable s"
  by (auto simp: flush_with_def bindE_eq_Inr eff_defs dest!: db_call_frame split: if_splits)

lemma flush_with_Inl:
  "flush_with ok f s = (Inl e, s') \<Longrightarrow> live s' = live s \<and> durable s' = durable s \<and> (\<exists>q. e = SqlExc q)"
  by (auto simp: flush_with_def bindE_eq_Inl eff_defs dest: db_call_frame db_call_Inl split: if_splits)

lemma commit_Inr: "commit s = (Inr u, s') \<Longrightarrow> live s' = live s \<and> durable s' = live s"
  by (auto simp: commit_def bindE_eq_Inr eff_defs dest!: db_call_frame)

lemma commit_Inl: "commit s = (Inl e, s') \<Longrightarrow> durable s' = durable s \<and> (\<exists>q. e = SqlExc q)"
  by (auto simp: commit_def bindE_eq_Inl eff_defs dest: db_call_frame db_call_Inl)

lemma rollback_Inr: "rollback s = (Inr u, s') \<Longrightarrow> live s' = durable s \<and> durable s' = durable s"
  by (auto simp: rollback_def bindE_eq_Inr eff_defs dest!: db_call_frame)

text \<open>Operations that leave the committed tables alone, whatever happens.\<close>

definition keeps_durable :: "'a db \<Rightarrow> bool" where
  "keeps_durable m \<longleftrightarrow> (\<forall>D. keepsE (\<lambda>s. durable s = D) m)"

lemma keeps_durable_iff: "keeps_durable m \<longleftrightarrow> (\<forall>s. durable (snd (m s)) = durable s)"
  by (auto simp: keeps_durable_def keepsE_def)

lemma keeps_durableD: "keeps_durable m \<Longrightarrow> m s = (r, s') \<Longrightarrow> durable s' = durable s"
  by (auto simp: keeps_durable_iff dest!: spec[of _ s])

lemma keeps_durable_basic [intro!, simp]:
  "keeps_durable (returnE x)" "keeps_durable (raiseE e)" "keeps_durable (getE f)"
  "keeps_durable (liftE r)" "keeps_durable (requireE e v)" "keeps_durable (guardE b e)"
  by (simp_all add: keeps_durable_def)

lemma keeps_durable_bind [intro!]:
  "keeps_durable m \<Longrightarrow> (\<And>x. keeps_durable (f x)) \<Longrightarrow> keeps_durable (bindE m f)"
  by (auto simp: keeps_durable_def)

lemma keeps_durable_catch [intro!]:
  "keeps_durable m \<Longrightarrow> (\<And>e. keeps_durable (h e)) \<Longrightarrow> keeps_durable (catchE m h)"
  by (auto simp: keeps_durable_def)

lemma keeps_durable_calls [intro!, simp]:
  "keeps_durable db_call" "keeps_durable read_clock" "keeps_durable draw_uuid"
  "keeps_durable (flush_with ok f)" "keeps_durable rollback"
proof -
  show call: "keeps_durable db_call"
    by (auto simp: keeps_durable_iff db_call_def split: list.split option.split)
  show "keeps_durable read_clock" "keeps_durable draw_uuid"
    by (auto simp: keeps_durable_iff read_clock_def draw_uuid_def)
  have set_live: "keeps_durable (modifyE (\<lambda>s. s\<lparr>live := f (live s)\<rparr>))" for f
    by (auto simp: keeps_durable_iff modifyE_def)
  show "keeps_durable (flush_with ok f)"
    unfolding flush_with_def using call set_live by (cases ok) auto
  show "keeps_durable rollback"
    unfolding rollback_def using call
    by (intro keeps_durable_bind) (simp_all add: keeps_durable_iff modifyE_def)
qed

text \<open>Operations whose failure commits nothing.\<close>

definition atomic :: "'a db \<Rightarrow> bool" where
  "atomic m \<longleftrightarrow> (\<forall>s e s'. m s = (Inl e, s') \<longrightarrow> durable s' = durable s)"

lemma atomicD: "atomic m \<Longrightarrow> m s = (Inl e, s') \<Longrightarrow> durable s' = durable s"
  by (auto simp: atomic_def)

lemma atomic_keeps: "keeps_durable m \<Longrightarrow> atomic m"
  by (auto simp: atomic_def dest: keeps_durableD)

lemma atomic_bind: "keeps_durable m \<Longrightarrow> (\<And>x. atomic (f x)) \<Longrightarrow> atomic (bindE m f)"
  by (fastforce simp: atomic_def bindE_eq_Inl dest: keeps_durableD)

lemma atomic_commit_then:
  assumes "\<And>s e s'. g s \<noteq> (Inl e, s')"
  shows "atomic (bindE commit (\<lambda>_. g))"
  unfolding atomic_def bindE_eq_Inl using assms by (auto dest: commit_Inl)

section \<open>Contract of the lifecycle repository\<close>

text \<open>
  \<open>AssessmentLifecycleRepository\<close> (the protocol runtime governance and the assessment service
  rely on): a \<open>mark\<close> operation either finds nothing and changes nothing, or rewrites exactly
  the addressed row by its \<open>effect\<close> and reports it. Nothing is committed.
\<close>

locale lifecycle_mark =
  fixes mark :: "uuid \<Rightarrow> 'arg \<Rightarrow> PersistedAssessment option db"
    and effect :: "'arg \<Rightarrow> instant \<Rightarrow> assessment_row \<Rightarrow> assessment_row"
  assumes mark_some:
      "mark i a s = (Inr (Some r), s') \<Longrightarrow>
        \<exists>row now. map_of (t_assessments (live s)) i = Some row \<and> assessment_row_ok (effect a now row) \<and>
          r = to_record i (effect a now row) \<and>
          live s' = (live s)\<lparr>t_assessments := AList.update i (effect a now row) (t_assessments (live s))\<rparr>"
    and mark_none:
      "mark i a s = (Inr None, s') \<Longrightarrow> map_of (t_assessments (live s)) i = None \<and> live s' = live s"
    and mark_error: "mark i a s = (Inl e, s') \<Longrightarrow> live s' = live s \<and> (\<exists>q. e = SqlExc q)"
    and mark_durable: "keeps_durable (mark i a)"
begin

lemma mark_only_target:
  assumes "mark i a s = (r, s')" and "j \<noteq> i"
  shows "map_of (t_assessments (live s')) j = map_of (t_assessments (live s)) j"
proof (cases r)
  case (Inl e)
  with assms(1) show ?thesis by (simp add: mark_error)
next
  case (Inr v)
  with assms show ?thesis by (cases v) (auto simp: update_conv' dest!: mark_some mark_none)
qed

lemma mark_other_tables:
  assumes "mark i a s = (r, s')"
  shows "t_runtime_states (live s') = t_runtime_states (live s)"
    and "t_review_events (live s') = t_review_events (live s)"
proof -
  have "t_runtime_states (live s') = t_runtime_states (live s) \<and>
        t_review_events (live s') = t_review_events (live s)"
  proof (cases r)
    case (Inl e)
    with assms show ?thesis by (simp add: mark_error)
  next
    case (Inr v)
    with assms show ?thesis by (cases v) (auto dest!: mark_some mark_none)
  qed
  then show "t_runtime_states (live s') = t_runtime_states (live s)"
    and "t_review_events (live s') = t_review_events (live s)" by simp_all
qed

lemma mark_reports_row:
  assumes "mark i a s = (Inr (Some r), s')"
  shows "map_option (to_record i) (map_of (t_assessments (live s')) i) = Some r"
  using mark_some[OF assms] by (auto simp: update_conv')

end

lemma keeps_durable_repo_update [intro!, simp]: "keeps_durable (repo_update i change)"
  unfolding repo_update_def by (auto simp: Let_def split: option.split)

lemma repo_update_some:
  assumes "repo_update i change s = (Inr (Some r), s')"
  shows "\<exists>row now. map_of (t_assessments (live s)) i = Some row \<and> assessment_row_ok (change now row) \<and>
          r = to_record i (change now row) \<and>
          live s' = (live s)\<lparr>t_assessments := AList.update i (change now row) (t_assessments (live s))\<rparr>"
proof -
  from assms obtain s1 s2 s3 row now where
    "db_call s = (Inr (), s1)" and row: "map_of (t_assessments (live s1)) i = Some row"
    and "read_clock s1 = (Inr now, s2)"
    and flush: "flush_with (assessment_row_ok (change now row))
        (\<lambda>t. t\<lparr>t_assessments := AList.update i (change now row) (t_assessments t)\<rparr>) s2 = (Inr (), s3)"
    and r: "r = to_record i (change now row)" "s' = s3"
    unfolding repo_update_def
    by (auto simp: bindE_eq_Inr eff_defs Let_def split: option.splits)
  then have "live s1 = live s" "live s2 = live s"
    using db_call_frame read_clock_frame by metis+
  with flush_with_Inr[OF flush] row r show ?thesis by auto
qed

lemma repo_update_none:
  assumes "repo_update i change s = (Inr None, s')"
  shows "map_of (t_assessments (live s)) i = None \<and> live s' = live s"
  using assms unfolding repo_update_def
  by (auto simp: bindE_eq_Inr eff_defs Let_def split: option.splits dest!: db_call_frame)

lemma repo_update_error:
  assumes "repo_update i change s = (Inl e, s')"
  shows "live s' = live s \<and> (\<exists>q. e = SqlExc q)"
proof -
  from assms consider "db_call s = (Inl e, s')"
    | s1 now s2 row where "db_call s = (Inr (), s1)" "read_clock s1 = (Inr now, s2)"
        "flush_with (assessment_row_ok (change now row))
           (\<lambda>t. t\<lparr>t_assessments := AList.update i (change now row) (t_assessments t)\<rparr>) s2 = (Inl e, s')"
    unfolding repo_update_def
    by (auto simp: bindE_eq_Inl eff_defs Let_def read_clock_def split: option.splits)
  then show ?thesis
  proof cases
    case 1
    with db_call_frame[OF 1] db_call_Inl[OF 1] show ?thesis by simp
  next
    case 2
    from db_call_frame[OF 2(1)] read_clock_frame[OF 2(2)] flush_with_Inl[OF 2(3)]
    show ?thesis by simp
  qed
qed

definition completed_effect ::
  "json_object \<times> json_object option \<Rightarrow> instant \<Rightarrow> assessment_row \<Rightarrow> assessment_row" where
  "completed_effect a now r =
     r\<lparr>row_status := Status_COMPLETED, row_result_payload := Some (fst a),
       row_execution_metadata := snd a, row_error_code := None, row_error_message := None,
       row_completed_at := Some now, row_updated_at := now\<rparr>"

definition pending_effect :: "json_object option \<Rightarrow> instant \<Rightarrow> assessment_row \<Rightarrow> assessment_row" where
  "pending_effect a now r =
     r\<lparr>row_status := Status_PENDING_REVIEW, row_result_payload := None,
       row_execution_metadata := a, row_error_code := None, row_error_message := None,
       row_completed_at := None, row_updated_at := now\<rparr>"

definition failed_effect :: "pystr \<times> pystr \<Rightarrow> instant \<Rightarrow> assessment_row \<Rightarrow> assessment_row" where
  "failed_effect a now r =
     r\<lparr>row_status := Status_FAILED, row_result_payload := None, row_execution_metadata := None,
       row_error_code := Some (take 100 (fst a)), row_error_message := Some (take 500 (snd a)),
       row_completed_at := None, row_updated_at := now\<rparr>"

lemma marks_as_updates:
  "mark_completed i (fst a) (snd a) = repo_update i (completed_effect a)"
  "mark_pending_review i x = repo_update i (pending_effect x)"
  "mark_failed i (fst c) (snd c) = repo_update i (failed_effect c)"
  unfolding mark_completed_def mark_pending_review_def mark_failed_def
    completed_effect_def[abs_def] pending_effect_def[abs_def] failed_effect_def[abs_def]
  by (rule refl)+

lemma repo_update_contract:
  assumes "\<And>i a. mark i a = repo_update i (effect a)"
  shows "lifecycle_mark mark effect"
  unfolding lifecycle_mark_def assms
  using repo_update_some repo_update_none repo_update_error by simp

interpretation completed: lifecycle_mark "\<lambda>i a. mark_completed i (fst a) (snd a)" completed_effect
  by (rule repo_update_contract) (rule marks_as_updates)

interpretation pending: lifecycle_mark mark_pending_review pending_effect
  by (rule repo_update_contract) (rule marks_as_updates)

interpretation failed: lifecycle_mark "\<lambda>i a. mark_failed i (fst a) (snd a)" failed_effect
  by (rule repo_update_contract) (rule marks_as_updates)

interpretation processing: lifecycle_mark "\<lambda>i (_ :: unit). mark_processing i"
  "\<lambda>_ now r. r\<lparr>row_status := Status_PROCESSING, row_updated_at := now\<rparr>"
  by (rule repo_update_contract) (simp add: mark_processing_def)

lemma effects_ok [simp]:
  "assessment_row_ok (completed_effect a now r)" "assessment_row_ok (pending_effect b now r)"
  "assessment_row_ok (failed_effect c now r)"
  by (simp_all add: assessment_row_ok_def completed_effect_def pending_effect_def failed_effect_def)

section \<open>Contract of the review repository\<close>

lemma get_state_Inr:
  assumes "get_state i s = (Inr v, s')"
  shows "live s' = live s \<and>
         (case v of None \<Rightarrow> map_of (t_runtime_states (live s)) i = None
          | Some st \<Rightarrow> \<exists>r. map_of (t_runtime_states (live s)) i = Some r \<and> state_from_model i r = Inr st)"
  using assms unfolding get_state_def
  by (auto simp: bindE_eq_Inr eff_defs split: option.splits dest!: db_call_frame)

lemma keeps_durable_get_state [intro!, simp]: "keeps_durable (get_state i)"
  unfolding get_state_def by (auto split: option.split)

lemma keeps_durable_repo_get_by_id [intro!, simp]: "keeps_durable (repo_get_by_id i)"
  unfolding repo_get_by_id_def by auto

lemma repo_get_by_id_Inr:
  "repo_get_by_id i s = (Inr v, s') \<Longrightarrow>
     live s' = live s \<and> v = map_option (to_record i) (map_of (t_assessments (live s)) i)"
  unfolding repo_get_by_id_def by (auto simp: bindE_eq_Inr eff_defs dest!: db_call_frame)

lemma save_state_Inr:
  assumes "save_state i a s = (Inr st, s')"
  shows "\<exists>created now. runtime_row_ok (saved_row a created now) \<and>
           state_from_model i (saved_row a created now) = Inr st \<and>
           (\<forall>r. map_of (t_runtime_states (live s)) i = Some r \<longrightarrow> created = rt_created_at r) \<and>
           live s' = (live s)\<lparr>t_runtime_states :=
             AList.update i (saved_row a created now) (t_runtime_states (live s))\<rparr>"
proof -
  from assms obtain s1 s2 s3 now where
    c: "read_clock s = (Inr now, s1)" and d: "db_call s1 = (Inr (), s2)"
    and flush: "\<exists>row. row = saved_row a (case map_of (t_runtime_states (live s2)) i of
           None \<Rightarrow> now | Some r \<Rightarrow> rt_created_at r) now \<and>
        flush_with (runtime_row_ok row)
          (\<lambda>t. t\<lparr>t_runtime_states := AList.update i row (t_runtime_states t)\<rparr>) s2 = (Inr (), s3) \<and>
        state_from_model i row = Inr st"
    and s': "s' = s3"
    unfolding save_state_def by (auto simp: bindE_eq_Inr eff_defs Let_def)
  have l: "live s2 = live s"
    using read_clock_frame[OF c] db_call_frame[OF d] by simp
  from flush obtain created where
    row: "flush_with (runtime_row_ok (saved_row a created now))
          (\<lambda>t. t\<lparr>t_runtime_states := AList.update i (saved_row a created now) (t_runtime_states t)\<rparr>) s2 =
          (Inr (), s3)" "state_from_model i (saved_row a created now) = Inr st"
    and created: "created = (case map_of (t_runtime_states (live s)) i of
           None \<Rightarrow> now | Some r \<Rightarrow> rt_created_at r)"
    unfolding l by blast
  show ?thesis
    using flush_with_Inr[OF row(1)] row(2) created l s'
    by (intro exI[of _ created] exI[of _ now]) auto
qed

lemma keeps_durable_save_state [intro!, simp]: "keeps_durable (save_state i a)"
  unfolding save_state_def by (auto simp: Let_def)

lemma add_review_event_Inr:
  assumes "add_review_event i a s = (Inr ev, s')"
  shows "\<exists>u now. ev = event_row u i a now \<and> 0 \<le> ea_revision_number a \<and>
           live s' = (live s)\<lparr>t_review_events := t_review_events (live s) @ [ev]\<rparr>"
proof -
  from assms obtain u now s1 s2 where
    u: "draw_uuid s = (Inr u, s1)" and c: "read_clock s1 = (Inr now, s2)"
    and flush: "flush_with (0 \<le> ea_revision_number a)
        (\<lambda>t. t\<lparr>t_review_events := t_review_events t @ [event_row u i a now]\<rparr>) s2 = (Inr (), s')"
    and ev: "ev = event_row u i a now"
    unfolding add_review_event_def by (auto simp: bindE_eq_Inr eff_defs Let_def)
  have "live s2 = live s"
    using draw_uuid_frame[OF u] read_clock_frame[OF c] by simp
  with flush_with_Inr[OF flush] ev show ?thesis by auto
qed

lemma keeps_durable_add_review_event [intro!, simp]: "keeps_durable (add_review_event i a)"
  unfolding add_review_event_def by (auto simp: Let_def)

lemma keeps_durable_list_review_events [intro!, simp]: "keeps_durable (list_review_events i)"
  unfolding list_review_events_def by auto

lemma keeps_durable_marks [intro!, simp]:
  "keeps_durable (mark_completed i p x)" "keeps_durable (mark_pending_review i x)"
  "keeps_durable (mark_failed i c m)" "keeps_durable (mark_processing i)"
  unfolding mark_completed_def mark_pending_review_def mark_failed_def mark_processing_def by simp_all

text \<open>The order of the audit history: sorted by creation time, then by identifier.\<close>

lemma set_insert_event [simp]: "set (insert_event x ys) = insert x (set ys)"
  by (induction ys) auto

lemma set_foldr_insert_event [simp]: "set (foldr insert_event xs []) = set xs"
  by (induction xs) auto

end
