(* ===== verification/Governance.thy ===== *)
theory Governance
  imports Store Identity
begin

text \<open>
  \<open>RuntimeGovernanceService\<close> (\<^verbatim>\<open>app/services/runtime_governance.py\<close>): every generated candidate
  passes the gate here, and a candidate that needs a human is persisted as a checkpoint from which
  a reviewer approves it, rejects it or asks for a bounded number of revisions.

  The service's collaborators are the fields of \<open>governance\<close>. Pydantic's \<open>model_dump\<close> and
  \<open>model_validate\<close> of the payloads and the telemetry exporter are parameters. Times are in
  microseconds; the service and the repositories read the same clock.
\<close>

section \<open>The service and its arguments\<close>

record governance =
  gv_policy :: RuntimeRiskPolicy
  gv_input_cost_per_million :: "rat option"
  gv_output_cost_per_million :: "rat option"
  gv_metrics :: "RuntimeMetricsRecorder option"
  gv_exporter :: "uuid \<Rightarrow> OperationalTelemetry \<Rightarrow> QualityGateResult \<Rightarrow> py_exc + unit"
  gv_request_id :: "pystr option"
  gv_dump_result :: "AssessmentResult \<Rightarrow> json_object"
  gv_dump_execution :: "ExecutionMetadata \<Rightarrow> json_object"
  gv_validate_result :: "json_object \<Rightarrow> py_exc + AssessmentResult"

text \<open>The keyword arguments of \<open>process_candidate\<close>. \<open>signal_overrides\<close> is the update that
  \<open>model_copy\<close> applies to the derived signals.\<close>

record candidate_args =
  ca_assessment_id :: uuid
  ca_result :: AssessmentResult
  ca_evidence :: "RetrievedEvidence list"
  ca_execution :: ExecutionMetadata
  ca_duration_ms :: int
  ca_provenance_valid :: bool
  ca_retrieval_duration_ms :: "int option"
  ca_signal_overrides :: "(QualityGateSignals \<Rightarrow> QualityGateSignals) option"
  ca_revision_count :: int
  ca_record_review_request :: bool

record HumanReviewRequest =
  hr_reviewer_id :: "pystr option"
  hr_comment :: "pystr option"

record HumanReviewDecision =
  hd_assessment_id :: uuid
  hd_action :: HumanReviewAction
  hd_review_status :: HumanReviewStatus
  hd_assessment_status :: pystr
  hd_revision_count :: int

record RuntimeStatusResponse =
  rs_assessment_id :: uuid
  rs_gate_result :: QualityGateResult
  rs_review_status :: HumanReviewStatus
  rs_revision_count :: int
  rs_max_revisions :: int
  rs_telemetry :: OperationalTelemetry

record ReviewCandidateResponse =
  rc_assessment_id :: uuid
  rc_result :: AssessmentResult
  rc_execution :: "json_object option"
  rc_gate_result :: QualityGateResult
  rc_review_status :: HumanReviewStatus
  rc_telemetry :: OperationalTelemetry
  rc_revision_count :: int
  rc_max_revisions :: int

section \<open>Signals\<close>

primrec severity_order :: "RiskSeverity \<Rightarrow> RuntimeRiskLevel" where
  "severity_order Severity_LOW = Level_LOW"
| "severity_order Severity_MEDIUM = Level_MEDIUM"
| "severity_order Severity_HIGH = Level_HIGH"
| "severity_order Severity_CRITICAL = Level_CRITICAL"

text \<open>\<open>max(levels, default=LOW, key=index)\<close>: the first of the maximal levels.\<close>

fun max_level_from :: "RuntimeRiskLevel \<Rightarrow> RuntimeRiskLevel list \<Rightarrow> RuntimeRiskLevel" where
  "max_level_from best [] = best"
| "max_level_from best (l # ls) =
     max_level_from (if level_index best < level_index l then l else best) ls"

definition max_level :: "RuntimeRiskLevel list \<Rightarrow> RuntimeRiskLevel" where
  "max_level ls = (case ls of [] \<Rightarrow> Level_LOW | l # rest \<Rightarrow> max_level_from l rest)"

definition derive_signals ::
  "AssessmentResult \<Rightarrow> RetrievedEvidence list \<Rightarrow> ExecutionMetadata \<Rightarrow> bool \<Rightarrow> QualityGateSignals" where
  "derive_signals result evidence execution provenance_valid =
     (let risk_level = max_level (map (\<lambda>r. severity_order (risk_severity r)) (res_risks result));
          graph = x_graph_retrieval (exec_common execution);
          degraded0 = (case graph of None \<Rightarrow> False | Some g \<Rightarrow> gx_degraded_graph_mode g);
          retrieval_failed = (case graph of None \<Rightarrow> False
             | Some g \<Rightarrow> str_truthy (gx_graph_error_code g) \<or> str_truthy (gx_vector_error_code g));
          degraded = (case execution of
               DeterministicExecution c \<Rightarrow> degraded0
             | SingleAgentExecution a \<Rightarrow> degraded0 \<or>
                 termination_value (ax_termination_reason a) \<notin> {py ''completed'', py ''agent_stopped''}
             | MultiAgentExecution m \<Rightarrow> degraded0 \<or> mx_degraded_mode m);
          specialist_unavailable = (case execution of
               MultiAgentExecution m \<Rightarrow>
                 list_ex (\<lambda>st. st \<in> {MA_FAILED, MA_SKIPPED}) (statuses_values (mx_agent_statuses m))
             | _ \<Rightarrow> False);
          tool_failed = (case execution of
               DeterministicExecution c \<Rightarrow> False
             | SingleAgentExecution a \<Rightarrow>
                 list_ex (\<lambda>e. ate_event_type e = AT_TOOL_FAILED) (ax_trace a)
             | MultiAgentExecution m \<Rightarrow>
                 list_ex (\<lambda>e. mte_event_type e = MT_TOOL_FAILED) (mx_trace m));
          evidence_required = (risk_level \<in> {Level_HIGH, Level_CRITICAL})
      in \<lparr>sig_risk_level = risk_level,
          sig_evidence_required = evidence_required,
          sig_evidence_available = (evidence \<noteq> []),
          sig_provenance_valid = provenance_valid,
          sig_unsupported_claims_detected = False,
          sig_degraded_execution = degraded,
          sig_specialist_unavailable = specialist_unavailable,
          sig_retrieval_failed = retrieval_failed,
          sig_tool_failed = tool_failed,
          sig_model_failed = False,
          sig_human_oversight_required = evidence_required,
          sig_human_oversight_present = ho_review_recommended (res_human_oversight result),
          sig_mitigations_complete =
            list_all (\<lambda>r. py_strip (risk_mitigation r) \<noteq> []) (res_risks result)\<rparr>)"

section \<open>Helpers\<close>

text \<open>\<open>_export_telemetry\<close>: whatever the exporter raises is logged and dropped.\<close>

definition export_telemetry ::
  "governance \<Rightarrow> uuid \<Rightarrow> OperationalTelemetry \<Rightarrow> QualityGateResult \<Rightarrow> unit db" where
  "export_telemetry gv i t g = catchE (liftE (gv_exporter gv i t g)) (\<lambda>_. returnE ())"

definition append_event ::
  "OperationalTelemetry \<Rightarrow> RuntimeTraceEventType \<Rightarrow> pystr \<Rightarrow> pystr \<Rightarrow> OperationalTelemetry db" where
  "append_event t event_type status component =
     bindE read_clock (\<lambda>now.
       let e = \<lparr>te_timestamp = now, te_request_id = ot_request_id t, te_event_type = event_type,
                te_component = component, te_status = status, te_duration_ms = None,
                te_reason_code = None\<rparr>
       in if trace_event_ok e then returnE (t\<lparr>ot_events := ot_events t @ [e]\<rparr>)
          else raiseE ValidationExc)"

definition required_assessment :: "uuid \<Rightarrow> PersistedAssessment db" where
  "required_assessment i =
     bindE (repo_get_by_id i) (requireE (AppExc AssessmentNotFoundError))"

definition required_state :: "uuid \<Rightarrow> RuntimeAssessmentState db" where
  "required_state i =
     bindE (required_assessment i) (\<lambda>_.
     bindE (catchE (get_state i)
              (\<lambda>e. if e \<in> {TypeExc, ValueExc, ValidationExc} then raiseE (AppExc PersistenceError)
                    else raiseE e))
           (requireE (AppExc RuntimeStateNotFoundError)))"

definition required_pending_state :: "uuid \<Rightarrow> RuntimeAssessmentState db" where
  "required_pending_state i =
     bindE (required_state i) (\<lambda>st.
       if ras_review_status st \<noteq> Review_PENDING then raiseE (AppExc InvalidReviewTransitionError)
       else returnE st)"

text \<open>\<open>max(0, round((now - updated_at).total_seconds() * 1000))\<close>.\<close>

definition wait_milliseconds :: "instant \<Rightarrow> instant \<Rightarrow> int" where
  "wait_milliseconds now updated = max 0 (py_round (of_int (now - updated) / 1000))"

definition review_telemetry ::
  "RuntimeAssessmentState \<Rightarrow> HumanReviewStatus \<Rightarrow> RuntimeTraceEventType \<Rightarrow>
     OperationalTelemetry db" where
  "review_telemetry st review_status event_type =
     bindE read_clock (\<lambda>now.
       let wait_ms = wait_milliseconds now (ras_updated_at st);
           t = ras_telemetry st;
           updated = t\<lparr>ot_human_review_status := review_status,
                       ot_human_wait_duration_ms := Some wait_ms,
                       ot_total_duration_ms := ot_execution_duration_ms t + wait_ms,
                       ot_execution_health :=
                         (if review_status = Review_APPROVED then Health_FULL
                          else ot_execution_health t)\<rparr>
       in bindE (append_event updated RT_HUMAN_REVIEW_RESUMED (review_status_value review_status)
                   (py ''human_review'')) (\<lambda>updated'.
          append_event updated' event_type (review_status_value review_status)
            (py ''human_review'')))"

text \<open>\<open>_actor_fields\<close> and \<open>_legacy_reviewer\<close>, as the reviewer columns of an event.\<close>

definition with_actor ::
  "governance \<Rightarrow> AuthenticatedPrincipal option \<Rightarrow> HumanReviewRequest \<Rightarrow> event_args \<Rightarrow> event_args" where
  "with_actor gv actor request a =
     (case actor of
        None \<Rightarrow> a\<lparr>ea_reviewer_id := hr_reviewer_id request\<rparr>
      | Some p \<Rightarrow>
          a\<lparr>ea_reviewer_id := Some (pr_subject p), ea_reviewer_subject := Some (pr_subject p),
            ea_reviewer_email := pr_email p,
            ea_reviewer_role := Some (role_value (audit_role p)),
            ea_reviewer_issuer := Some (pr_issuer p), ea_request_id := gv_request_id gv\<rparr>)"

definition plain_event ::
  "HumanReviewAction \<Rightarrow> HumanReviewStatus \<Rightarrow> HumanReviewStatus \<Rightarrow> pystr option \<Rightarrow>
     RuntimeReasonCode list \<Rightarrow> int \<Rightarrow> event_args" where
  "plain_event action previous new comment reasons revision =
     \<lparr>ea_action = action, ea_previous_status = previous, ea_new_status = new,
      ea_reviewer_id = None, ea_comment = comment, ea_reason_codes = reasons,
      ea_revision_number = revision, ea_reviewer_subject = None, ea_reviewer_email = None,
      ea_reviewer_role = None, ea_reviewer_issuer = None, ea_request_id = None\<rparr>"

definition resaved ::
  "RuntimeAssessmentState \<Rightarrow> HumanReviewStatus \<Rightarrow> OperationalTelemetry \<Rightarrow> int \<Rightarrow> save_args" where
  "resaved st new_status t revision =
     \<lparr>sv_gate_result = ras_gate_result st, sv_review_status = new_status,
      sv_candidate_result = ras_candidate_result st,
      sv_candidate_execution = ras_candidate_execution st, sv_telemetry = t,
      sv_revision_count = revision, sv_max_revisions = ras_max_revisions st\<rparr>"

definition persist_transition ::
  "governance \<Rightarrow> RuntimeAssessmentState \<Rightarrow> HumanReviewAction \<Rightarrow> HumanReviewStatus \<Rightarrow>
     HumanReviewRequest \<Rightarrow> OperationalTelemetry \<Rightarrow> AuthenticatedPrincipal option \<Rightarrow> unit db" where
  "persist_transition gv st action new_status request t actor =
     bindE (save_state (ras_assessment_id st) (resaved st new_status t (ras_revision_count st))) (\<lambda>_.
     bindE (add_review_event (ras_assessment_id st)
              (with_actor gv actor request
                (plain_event action Review_PENDING new_status (hr_comment request)
                   (gr_reason_codes (ras_gate_result st)) (ras_revision_count st))))
           (\<lambda>_. returnE ()))"

definition review_decision ::
  "RuntimeAssessmentState \<Rightarrow> HumanReviewAction \<Rightarrow> AssessmentStatus \<Rightarrow> HumanReviewDecision" where
  "review_decision st action assessment_status =
     \<lparr>hd_assessment_id = ras_assessment_id st, hd_action = action,
      hd_review_status = (if action = Act_APPROVED then Review_APPROVED else Review_REJECTED),
      hd_assessment_status = status_value assessment_status,
      hd_revision_count = ras_revision_count st\<rparr>"

section \<open>Processing a candidate\<close>

definition observed_signals :: "candidate_args \<Rightarrow> QualityGateSignals" where
  "observed_signals a =
     (let s = derive_signals (ca_result a) (ca_evidence a) (ca_execution a) (ca_provenance_valid a)
      in case ca_signal_overrides a of None \<Rightarrow> s | Some f \<Rightarrow> f s)"

text \<open>\<open>telemetry.model_copy\<close> with what the metrics recorder observed.\<close>

definition with_metrics ::
  "RuntimeMetricsRecorder option \<Rightarrow> int option \<Rightarrow> OperationalTelemetry \<Rightarrow> OperationalTelemetry" where
  "with_metrics metrics retrieval_duration_ms t =
     (case metrics of
        None \<Rightarrow> t
      | Some m \<Rightarrow>
          (let observed = (if retrieval_duration_ms = None \<and> met_tool_call_durations_ms m \<noteq> []
                           then Some (sum_list (met_tool_call_durations_ms m))
                           else retrieval_duration_ms);
               synthesis = (if ot_synthesis_duration_ms t = None \<and> met_model_call_durations_ms m \<noteq> []
                            then Some (last (met_model_call_durations_ms m))
                            else ot_synthesis_duration_ms t)
           in t\<lparr>ot_model_call_durations_ms := met_model_call_durations_ms m,
                ot_embedding_call_count := Some (int (length (met_embedding_call_durations_ms m))),
                ot_retrieval_duration_ms := observed,
                ot_synthesis_duration_ms := synthesis,
                ot_retry_count := met_retry_count m,
                ot_timeout_count := met_timeout_count m\<rparr>))"

definition candidate_telemetry ::
  "governance \<Rightarrow> candidate_args \<Rightarrow> QualityGateResult \<Rightarrow> OperationalTelemetry db" where
  "candidate_telemetry gv a g =
     bindE read_clock (\<lambda>now.
     bindE (liftE (build_operational_telemetry (ca_execution a)
              \<lparr>ta_duration_ms = ca_duration_ms a, ta_gate_decision = gr_decision g,
               ta_token_usage = (case gv_metrics gv of None \<Rightarrow> None | Some m \<Rightarrow> token_usage m),
               ta_evidence_count = int (length (ca_evidence a)),
               ta_model_call_count =
                 (case gv_metrics gv of None \<Rightarrow> None
                  | Some m \<Rightarrow> Some (int (length (met_model_call_durations_ms m)))),
               ta_input_cost_per_million = gv_input_cost_per_million gv,
               ta_output_cost_per_million = gv_output_cost_per_million gv,
               ta_request_id = gv_request_id gv, ta_now = now\<rparr>)) (\<lambda>t.
     returnE (with_metrics (gv_metrics gv) (ca_retrieval_duration_ms a) t)))"

text \<open>The three outcomes of the gate: what happens to the assessment row and to the trace.\<close>

definition apply_decision ::
  "governance \<Rightarrow> candidate_args \<Rightarrow> QualityGateResult \<Rightarrow> OperationalTelemetry \<Rightarrow>
     (HumanReviewStatus \<times> PersistedAssessment option \<times> OperationalTelemetry) db" where
  "apply_decision gv a g t =
     (let i = ca_assessment_id a;
          result_payload = gv_dump_result gv (ca_result a);
          execution_payload = gv_dump_execution gv (ca_execution a)
      in if gr_decision g = REQUIRE_HUMAN_REVIEW then
           bindE (mark_pending_review i (Some execution_payload)) (\<lambda>record.
           bindE (append_event t RT_HUMAN_REVIEW_REQUESTED (review_status_value Review_PENDING)
                    (py ''human_review'')) (\<lambda>t'.
           returnE (Review_PENDING, record, t')))
         else if gr_decision g = BLOCK_AND_ESCALATE then
           bindE (mark_failed i (py ''runtime_risk_gate_blocked'')
                    (py ''The assessment was blocked by the runtime risk and quality gate.'')) (\<lambda>record.
           bindE (append_event t RT_ASSESSMENT_FAILED (py ''blocked'') (py ''assessment'')) (\<lambda>t'.
           returnE (Review_NOT_REQUIRED, record, t')))
         else
           bindE (mark_completed i result_payload (Some execution_payload)) (\<lambda>record.
           bindE (append_event t RT_ASSESSMENT_COMPLETED (decision_value (gr_decision g))
                    (py ''assessment'')) (\<lambda>t'.
           returnE (Review_NOT_REQUIRED, record, t'))))"

definition checkpoint ::
  "governance \<Rightarrow> candidate_args \<Rightarrow> QualityGateResult \<Rightarrow> HumanReviewStatus \<Rightarrow>
     OperationalTelemetry \<Rightarrow> save_args" where
  "checkpoint gv a g review_status t =
     \<lparr>sv_gate_result = g, sv_review_status = review_status,
      sv_candidate_result = Some (gv_dump_result gv (ca_result a)),
      sv_candidate_execution = Some (gv_dump_execution gv (ca_execution a)),
      sv_telemetry = t, sv_revision_count = ca_revision_count a,
      sv_max_revisions = pol_max_human_revisions (gv_policy gv)\<rparr>"

definition process_candidate :: "governance \<Rightarrow> candidate_args \<Rightarrow> PersistedAssessment db" where
  "process_candidate gv a =
     bindE (liftE (gate_evaluate (gv_policy gv) (observed_signals a))) (\<lambda>g.
     bindE (candidate_telemetry gv a g) (\<lambda>t0.
     bindE (apply_decision gv a g t0) (\<lambda>(review_status, found, t).
     bindE (requireE (AppExc PersistenceError) found) (\<lambda>record.
     bindE (save_state (ca_assessment_id a) (checkpoint gv a g review_status t)) (\<lambda>_.
     bindE (if review_status = Review_PENDING \<and> ca_record_review_request a
            then bindE (add_review_event (ca_assessment_id a)
                         (plain_event Act_REQUESTED Review_NOT_REQUIRED Review_PENDING None
                            (gr_reason_codes g) (ca_revision_count a)))
                       (\<lambda>_. returnE ())
            else returnE ()) (\<lambda>_.
     bindE (export_telemetry gv (ca_assessment_id a) t g) (\<lambda>_.
     returnE record)))))))"

section \<open>Reads\<close>

definition get_runtime_status :: "uuid \<Rightarrow> RuntimeStatusResponse db" where
  "get_runtime_status i =
     bindE (required_state i) (\<lambda>st.
     returnE \<lparr>rs_assessment_id = i, rs_gate_result = ras_gate_result st,
              rs_review_status = ras_review_status st, rs_revision_count = ras_revision_count st,
              rs_max_revisions = ras_max_revisions st, rs_telemetry = ras_telemetry st\<rparr>)"

definition list_reviews :: "uuid \<Rightarrow> review_event list db" where
  "list_reviews i = bindE (required_assessment i) (\<lambda>_. list_review_events i)"

definition get_review_candidate :: "governance \<Rightarrow> uuid \<Rightarrow> ReviewCandidateResponse db" where
  "get_review_candidate gv i =
     bindE (required_assessment i) (\<lambda>_.
     bindE (required_state i) (\<lambda>st.
     bindE (requireE (AppExc PersistenceError) (ras_candidate_result st)) (\<lambda>payload.
     bindE (catchE (liftE (gv_validate_result gv payload))
              (\<lambda>e. if e = ValidationExc then raiseE (AppExc PersistenceError) else raiseE e)) (\<lambda>result.
     returnE \<lparr>rc_assessment_id = i, rc_result = result, rc_execution = ras_candidate_execution st,
              rc_gate_result = ras_gate_result st, rc_review_status = ras_review_status st,
              rc_telemetry = ras_telemetry st, rc_revision_count = ras_revision_count st,
              rc_max_revisions = ras_max_revisions st\<rparr>))))"

section \<open>Reviewer actions\<close>

definition approve ::
  "governance \<Rightarrow> uuid \<Rightarrow> HumanReviewRequest \<Rightarrow> AuthenticatedPrincipal option \<Rightarrow>
     HumanReviewDecision db" where
  "approve gv i request actor =
     bindE (required_pending_state i) (\<lambda>st.
     bindE (requireE (AppExc PersistenceError) (ras_candidate_result st)) (\<lambda>candidate.
     bindE (mark_completed i candidate (ras_candidate_execution st)) (\<lambda>found.
     bindE (requireE (AppExc PersistenceError) found) (\<lambda>record.
     bindE (review_telemetry st Review_APPROVED RT_HUMAN_REVIEW_APPROVED) (\<lambda>t.
     bindE (persist_transition gv st Act_APPROVED Review_APPROVED request t actor) (\<lambda>_.
     bindE commit (\<lambda>_.
     bindE (export_telemetry gv i t (ras_gate_result st)) (\<lambda>_.
     returnE (review_decision st Act_APPROVED (pa_status record))))))))))"

definition reject ::
  "governance \<Rightarrow> uuid \<Rightarrow> HumanReviewRequest \<Rightarrow> AuthenticatedPrincipal option \<Rightarrow>
     HumanReviewDecision db" where
  "reject gv i request actor =
     bindE (required_pending_state i) (\<lambda>st.
     bindE (mark_failed i (py ''human_review_rejected'')
              (py ''The assessment was rejected during human review.'')) (\<lambda>found.
     bindE (requireE (AppExc PersistenceError) found) (\<lambda>record.
     bindE (review_telemetry st Review_REJECTED RT_HUMAN_REVIEW_REJECTED) (\<lambda>t0.
     (let t = t0\<lparr>ot_execution_health := Health_BLOCKED,
                 ot_termination_reason := py ''human_rejection''\<rparr>
      in bindE (persist_transition gv st Act_REJECTED Review_REJECTED request t actor) (\<lambda>_.
         bindE commit (\<lambda>_.
         bindE (export_telemetry gv i t (ras_gate_result st)) (\<lambda>_.
         returnE (review_decision st Act_REJECTED (pa_status record))))))))))"

definition request_revision ::
  "governance \<Rightarrow> uuid \<Rightarrow> HumanReviewRequest \<Rightarrow> AuthenticatedPrincipal option \<Rightarrow>
     HumanReviewDecision db" where
  "request_revision gv i request actor =
     bindE (required_pending_state i) (\<lambda>st.
     if ras_revision_count st \<ge> ras_max_revisions st then raiseE (AppExc RevisionLimitReachedError)
     else
       (let revision = ras_revision_count st + 1
        in bindE (review_telemetry st Review_REVISION_REQUESTED RT_REVISION_REQUESTED) (\<lambda>t.
           bindE (save_state i (resaved st Review_REVISION_REQUESTED t revision)) (\<lambda>_.
           bindE (add_review_event i
                    (with_actor gv actor request
                      (plain_event Act_REVISION_REQUESTED Review_PENDING Review_REVISION_REQUESTED
                         (hr_comment request) (gr_reason_codes (ras_gate_result st)) revision))) (\<lambda>_.
           bindE commit (\<lambda>_.
           bindE (export_telemetry gv i t (ras_gate_result st)) (\<lambda>_.
           returnE \<lparr>hd_assessment_id = i, hd_action = Act_REVISION_REQUESTED,
                    hd_review_status = Review_REVISION_REQUESTED,
                    hd_assessment_status = status_value Status_PENDING_REVIEW,
                    hd_revision_count = revision\<rparr>)))))))"

text \<open>\<open>next(... reversed(events) ..., None)\<close>: the latest matching event.\<close>

definition get_revision_feedback :: "uuid \<Rightarrow> review_event db" where
  "get_revision_feedback i =
     bindE (required_state i) (\<lambda>st.
     if ras_review_status st \<noteq> Review_REVISION_REQUESTED
     then raiseE (AppExc InvalidReviewTransitionError)
     else
       bindE (list_review_events i) (\<lambda>events.
       requireE (AppExc PersistenceError)
         (find (\<lambda>e. re_action e = Act_REVISION_REQUESTED \<and> re_revision_number e = ras_revision_count st)
            (rev events))))"

text \<open>The arguments of the resumed candidate: the caller's, with the stored revision count and
  without a new review request.\<close>

definition resumed_args :: "candidate_args \<Rightarrow> RuntimeAssessmentState \<Rightarrow> candidate_args" where
  "resumed_args a st =
     a\<lparr>ca_retrieval_duration_ms := None, ca_signal_overrides := None,
       ca_revision_count := ras_revision_count st, ca_record_review_request := False\<rparr>"

definition merged_telemetry ::
  "RuntimeAssessmentState \<Rightarrow> RuntimeAssessmentState \<Rightarrow> instant \<Rightarrow> py_exc + OperationalTelemetry" where
  "merged_telemetry st new_st resumed_at =
     (let wait_ms = wait_milliseconds resumed_at (ras_updated_at st);
          t = ras_telemetry new_st;
          e = \<lparr>te_timestamp = resumed_at, te_request_id = ot_request_id t,
               te_event_type = RT_HUMAN_REVIEW_RESUMED, te_component = py ''human_review'',
               te_status = py ''revision_submitted'', te_duration_ms = None, te_reason_code = None\<rparr>
      in if trace_event_ok e
         then Inr (t\<lparr>ot_human_wait_duration_ms := Some wait_ms,
                     ot_total_duration_ms := ot_execution_duration_ms t + wait_ms,
                     ot_events := ot_events (ras_telemetry st) @ [e] @ ot_events t\<rparr>)
         else Inl ValidationExc)"

definition resume_revision :: "governance \<Rightarrow> candidate_args \<Rightarrow> PersistedAssessment db" where
  "resume_revision gv a =
     (let i = ca_assessment_id a
      in bindE (required_state i) (\<lambda>st.
         if ras_review_status st \<noteq> Review_REVISION_REQUESTED
         then raiseE (AppExc InvalidReviewTransitionError)
         else
           bindE (process_candidate gv (resumed_args a st)) (\<lambda>record.
           bindE (required_state i) (\<lambda>new_st.
           bindE read_clock (\<lambda>resumed_at.
           bindE (liftE (merged_telemetry st new_st resumed_at)) (\<lambda>t.
           bindE (save_state i (resaved new_st (ras_review_status new_st) t (ras_revision_count new_st))) (\<lambda>_.
           bindE (add_review_event i
                    (plain_event Act_REVISION_SUBMITTED (ras_review_status st) (ras_review_status new_st)
                       None (gr_reason_codes (ras_gate_result new_st)) (ras_revision_count st))) (\<lambda>_.
           bindE commit (\<lambda>_.
           bindE (export_telemetry gv i t (ras_gate_result new_st)) (\<lambda>_.
           returnE record))))))))))"

end
