(* ===== verification/Review_Lifecycle.thy ===== *)
theory Review_Lifecycle
  imports Governance
begin

text \<open>
  What the governance operations do to one assessment's case file (its row, its checkpoint and
  its audit events), the invariant that ties the three together, and the abstract review protocol
  (\<open>phase_step\<close>) that every operation implements. Sessions run against an arbitrary fault script.
\<close>

section \<open>Case files, the invariant and the abstract protocol\<close>

type_synonym case_file = "assessment_row option \<times> runtime_row option \<times> review_event list"

definition events_of :: "uuid \<Rightarrow> review_event list \<Rightarrow> review_event list" where
  "events_of i es = filter (\<lambda>e. re_assessment_id e = i) es"

definition case_of :: "tables \<Rightarrow> uuid \<Rightarrow> case_file" where
  "case_of T i =
     (map_of (t_assessments T) i, map_of (t_runtime_states T) i, events_of i (t_review_events T))"

text \<open>Replaying an audit trail: every event starts where the previous one ended.\<close>

fun audit_path :: "HumanReviewStatus \<Rightarrow> review_event list \<Rightarrow> HumanReviewStatus option" where
  "audit_path st [] = Some st"
| "audit_path st (e # es) =
     (if re_previous_status e = st then audit_path (re_new_status e) es else None)"

definition revisions_in :: "review_event list \<Rightarrow> int" where
  "revisions_in es = int (length (filter (\<lambda>e. re_action e = Act_REVISION_REQUESTED) es))"

text \<open>How the assessment row must look for each review status of its checkpoint.\<close>

definition row_matches :: "assessment_row \<Rightarrow> runtime_row \<Rightarrow> bool" where
  "row_matches row rt =
     (case rt_review_status rt of
        Review_NOT_REQUIRED \<Rightarrow>
          (gr_decision (rt_gate_result rt) \<in> {AUTO_COMPLETE, COMPLETE_WITH_WARNING} \<and>
             row_status row = Status_COMPLETED \<and> row_result_payload row = rt_candidate_result rt) \<or>
          (gr_decision (rt_gate_result rt) = BLOCK_AND_ESCALATE \<and> row_status row = Status_FAILED \<and>
             row_result_payload row = None)
      | Review_APPROVED \<Rightarrow>
          gr_decision (rt_gate_result rt) = REQUIRE_HUMAN_REVIEW \<and>
          row_status row = Status_COMPLETED \<and> row_result_payload row = rt_candidate_result rt
      | Review_REJECTED \<Rightarrow>
          gr_decision (rt_gate_result rt) = REQUIRE_HUMAN_REVIEW \<and>
          row_status row = Status_FAILED \<and> row_result_payload row = None
      | _ \<Rightarrow>
          gr_decision (rt_gate_result rt) = REQUIRE_HUMAN_REVIEW \<and>
          row_status row = Status_PENDING_REVIEW \<and> row_result_payload row = None)"

definition checkpoint_ok :: "runtime_row \<Rightarrow> bool" where
  "checkpoint_ok rt \<longleftrightarrow>
     runtime_row_ok rt \<and> gate_result_ok (rt_gate_result rt) \<and> telemetry_ok (rt_telemetry rt)"

fun case_ok :: "case_file \<Rightarrow> bool" where
  "case_ok (row, None, es) \<longleftrightarrow>
     es = [] \<and>
     (case row of None \<Rightarrow> True
      | Some r \<Rightarrow> assessment_row_ok r \<and> row_result_payload r = None \<and>
                 row_status r \<notin> {Status_COMPLETED, Status_PENDING_REVIEW})"
| "case_ok (None, Some rt, es) \<longleftrightarrow> False"
| "case_ok (Some row, Some rt, es) \<longleftrightarrow>
     assessment_row_ok row \<and> row_matches row rt \<and> checkpoint_ok rt \<and>
     audit_path Review_NOT_REQUIRED es = Some (rt_review_status rt) \<and>
     revisions_in es = rt_revision_count rt"

definition store_ok :: "tables \<Rightarrow> bool" where
  "store_ok T \<longleftrightarrow> (\<forall>i. case_ok (case_of T i))"

text \<open>The abstract protocol, with the revision count and its limit.\<close>

datatype phase =
    Absent | Open | Failed | Published | Blocked
  | Awaiting int int | Revising int int | Approved | Rejected

inductive phase_step :: "phase \<Rightarrow> phase \<Rightarrow> bool" where
  submit_published: "phase_step Open Published"
| submit_blocked: "phase_step Open Blocked"
| submit_review: "0 \<le> m \<Longrightarrow> phase_step Open (Awaiting 0 m)"
| review_approve: "phase_step (Awaiting n m) Approved"
| review_reject: "phase_step (Awaiting n m) Rejected"
| review_revise: "n < m \<Longrightarrow> phase_step (Awaiting n m) (Revising (n + 1) m)"
| resume_published: "phase_step (Revising n m) Published"
| resume_blocked: "phase_step (Revising n m) Blocked"
| resume_review: "n \<le> k \<Longrightarrow> phase_step (Revising n m) (Awaiting n k)"

inductive_cases phase_step_from: "phase_step p q"

definition phase_of_checkpoint :: "runtime_row \<Rightarrow> phase" where
  "phase_of_checkpoint rt =
     (case rt_review_status rt of
        Review_NOT_REQUIRED \<Rightarrow>
          if gr_decision (rt_gate_result rt) = BLOCK_AND_ESCALATE then Blocked else Published
      | Review_PENDING \<Rightarrow> Awaiting (rt_revision_count rt) (rt_max_revisions rt)
      | Review_APPROVED \<Rightarrow> Approved
      | Review_REJECTED \<Rightarrow> Rejected
      | Review_REVISION_REQUESTED \<Rightarrow> Revising (rt_revision_count rt) (rt_max_revisions rt))"

fun phase_of :: "case_file \<Rightarrow> phase" where
  "phase_of (row, Some rt, es) = phase_of_checkpoint rt"
| "phase_of (None, None, es) = Absent"
| "phase_of (Some row, None, es) = (if row_status row = Status_FAILED then Failed else Open)"

lemma audit_path_snoc:
  "audit_path st (es @ [e]) = Some q \<longleftrightarrow>
     audit_path st es = Some (re_previous_status e) \<and> q = re_new_status e"
  by (induction es arbitrary: st) auto

lemma revisions_in_snoc [simp]:
  "revisions_in (es @ [e]) =
     revisions_in es + (if re_action e = Act_REVISION_REQUESTED then 1 else 0)"
  by (simp add: revisions_in_def)

lemma revisions_in_Nil [simp]: "revisions_in [] = 0"
  by (simp add: revisions_in_def)

lemma events_of_snoc [simp]:
  "events_of i (es @ [e]) = events_of i es @ (if re_assessment_id e = i then [e] else [])"
  by (simp add: events_of_def)

section \<open>Calls that leave the tables alone\<close>

definition keeps_tables :: "'a db \<Rightarrow> bool" where
  "keeps_tables m \<longleftrightarrow> (\<forall>L D. keepsE (\<lambda>s. live s = L \<and> durable s = D) m)"

lemma keeps_tables_iff:
  "keeps_tables m \<longleftrightarrow> (\<forall>s. live (snd (m s)) = live s \<and> durable (snd (m s)) = durable s)"
  by (auto simp: keeps_tables_def keepsE_def)

lemma keeps_tablesD:
  "keeps_tables m \<Longrightarrow> m s = (r, s') \<Longrightarrow> live s' = live s \<and> durable s' = durable s"
  by (auto simp: keeps_tables_iff dest!: spec[of _ s])

lemma keeps_tables_durable: "keeps_tables m \<Longrightarrow> keeps_durable m"
  by (auto simp: keeps_durable_iff keeps_tables_iff)

lemma keeps_tables_basic [intro!, simp]:
  "keeps_tables (returnE x)" "keeps_tables (raiseE e)" "keeps_tables (getE f)"
  "keeps_tables (liftE r)" "keeps_tables (requireE e v)" "keeps_tables (guardE b e)"
  by (simp_all add: keeps_tables_def)

lemma keeps_tables_bind [intro!]:
  "keeps_tables m \<Longrightarrow> (\<And>x. keeps_tables (f x)) \<Longrightarrow> keeps_tables (bindE m f)"
  by (auto simp: keeps_tables_def)

lemma keeps_tables_catch [intro!]:
  "keeps_tables m \<Longrightarrow> (\<And>e. keeps_tables (h e)) \<Longrightarrow> keeps_tables (catchE m h)"
  by (auto simp: keeps_tables_def)

lemma keeps_tables_calls [intro!, simp]:
  "keeps_tables db_call" "keeps_tables read_clock" "keeps_tables draw_uuid"
  by (auto simp: keeps_tables_iff db_call_def read_clock_def draw_uuid_def
      split: list.split option.split)

lemma keeps_tables_reads [intro!, simp]:
  "keeps_tables (repo_get_by_id i)" "keeps_tables (get_state i)" "keeps_tables (list_review_events i)"
  unfolding repo_get_by_id_def get_state_def list_review_events_def by (auto split: option.split)

lemma keeps_tables_helpers [intro!, simp]:
  "keeps_tables (required_assessment i)" "keeps_tables (required_state i)"
  "keeps_tables (required_pending_state i)" "keeps_tables (append_event t ty st c)"
  "keeps_tables (review_telemetry rs hs ty)" "keeps_tables (candidate_telemetry gv a g)"
  "keeps_tables (export_telemetry gv i t g)"
proof -
  show a: "keeps_tables (required_assessment i)" for i unfolding required_assessment_def by auto
  show b: "keeps_tables (required_state i)" for i
    unfolding required_state_def using a by (auto simp: if_split)
  show "keeps_tables (required_pending_state i)"
    unfolding required_pending_state_def using b by auto
  show c: "keeps_tables (append_event t ty st c)" for t ty st c
    unfolding append_event_def by (auto simp: Let_def)
  show "keeps_tables (review_telemetry rs hs ty)"
    unfolding review_telemetry_def Let_def using c by (intro keeps_tables_bind) auto
  show "keeps_tables (candidate_telemetry gv a g)" unfolding candidate_telemetry_def by auto
  show "keeps_tables (export_telemetry gv i t g)" unfolding export_telemetry_def by auto
qed

text \<open>Read-only operations of the service.\<close>

lemma keeps_tables_queries [simp]:
  "keeps_tables (get_runtime_status i)" "keeps_tables (list_reviews i)"
  "keeps_tables (get_review_candidate gv i)" "keeps_tables (get_revision_feedback i)"
  unfolding get_runtime_status_def list_reviews_def get_review_candidate_def
    get_revision_feedback_def
  by (auto simp: if_split)

lemma export_telemetry_total [simp]: "export_telemetry gv i t g s = (Inr (), s)"
  by (cases "gv_exporter gv i t g") (simp_all add: export_telemetry_def catchE_def liftE_def returnE_def)

section \<open>What the writing calls do\<close>

lemma state_from_model_Inr:
  assumes "state_from_model i rt = Inr st"
  shows "ras_assessment_id st = i" "ras_gate_result st = rt_gate_result rt"
    "ras_review_status st = rt_review_status rt" "ras_telemetry st = rt_telemetry rt"
    "ras_candidate_result st = nonempty_payload (rt_candidate_result rt)"
    "ras_revision_count st = rt_revision_count rt" "ras_max_revisions st = rt_max_revisions rt"
    "gate_result_ok (rt_gate_result rt)" "telemetry_ok (rt_telemetry rt)"
  using assms by (auto simp: state_from_model_def split: if_splits)

definition has_state :: "tables \<Rightarrow> uuid \<Rightarrow> RuntimeAssessmentState \<Rightarrow> bool" where
  "has_state T i st \<longleftrightarrow>
     (\<exists>row rt. map_of (t_assessments T) i = Some row \<and> map_of (t_runtime_states T) i = Some rt \<and>
        state_from_model i rt = Inr st)"

lemma requireE_Inr: "requireE e v s = (Inr x, s') \<longleftrightarrow> v = Some x \<and> s' = s"
  by (auto simp: requireE_def raiseE_def returnE_def split: option.splits)

lemma required_assessment_Inr:
  assumes "required_assessment i s = (Inr r, s')"
  shows "live s' = live s \<and> (\<exists>row. map_of (t_assessments (live s)) i = Some row \<and> r = to_record i row)"
proof -
  from assms have g: "repo_get_by_id i s = (Inr (Some r), s')"
    unfolding required_assessment_def bindE_eq_Inr requireE_Inr by blast
  from repo_get_by_id_Inr[OF g] show ?thesis
    by (cases "map_of (t_assessments (live s)) i") simp_all
qed

lemma required_state_Inr:
  assumes "required_state i s = (Inr st, s')"
  shows "live s' = live s \<and> durable s' = durable s \<and> has_state (live s) i st"
proof -
  from assms obtain r s1 st0 s2 where
    a: "required_assessment i s = (Inr r, s1)"
    and g: "catchE (get_state i)
              (\<lambda>e. if e \<in> {TypeExc, ValueExc, ValidationExc} then raiseE (AppExc PersistenceError)
                    else raiseE e) s1 = (Inr st0, s2)"
    and q: "requireE (AppExc RuntimeStateNotFoundError) st0 s2 = (Inr st, s')"
    unfolding required_state_def bindE_eq_Inr by blast
  from q have st0: "st0 = Some st" and s': "s' = s2"
    by (auto simp: requireE_def raiseE_def returnE_def split: option.splits)
  from g have g': "get_state i s1 = (Inr (Some st), s2)"
    unfolding st0 by (auto simp: catchE_def raiseE_def split: prod.splits sum.splits if_splits)
  from required_assessment_Inr[OF a]
  have "live s1 = live s \<and> (\<exists>row. map_of (t_assessments (live s)) i = Some row)" by blast
  with get_state_Inr[OF g'] keeps_tablesD[OF keeps_tables_helpers(2) assms] show ?thesis
    by (auto simp: has_state_def)
qed

lemma required_pending_state_Inr:
  assumes "required_pending_state i s = (Inr st, s')"
  shows "live s' = live s \<and> durable s' = durable s \<and> has_state (live s) i st \<and>
         ras_review_status st = Review_PENDING"
  using assms unfolding required_pending_state_def
  by (auto simp: bindE_eq_Inr raiseE_def returnE_def dest!: required_state_Inr split: if_splits)

text \<open>A checkpoint saved, and one saved together with its audit event.\<close>

definition saved :: "tables \<Rightarrow> uuid \<Rightarrow> save_args \<Rightarrow> tables \<Rightarrow> bool" where
  "saved T i sv T' \<longleftrightarrow>
     (\<exists>created now. runtime_row_ok (saved_row sv created now) \<and>
        (\<exists>st. state_from_model i (saved_row sv created now) = Inr st) \<and>
        T' = T\<lparr>t_runtime_states := AList.update i (saved_row sv created now) (t_runtime_states T)\<rparr>)"

definition logged :: "tables \<Rightarrow> uuid \<Rightarrow> event_args \<Rightarrow> tables \<Rightarrow> bool" where
  "logged T i ea T' \<longleftrightarrow>
     (\<exists>u now. T' = T\<lparr>t_review_events := t_review_events T @ [event_row u i ea now]\<rparr>)"

lemma save_state_saved: "save_state i sv s = (Inr st, s') \<Longrightarrow> saved (live s) i sv (live s')"
  by (auto simp: saved_def dest!: save_state_Inr)

lemma add_review_event_logged:
  "add_review_event i ea s = (Inr ev, s') \<Longrightarrow> logged (live s) i ea (live s')"
  by (auto simp: logged_def dest!: add_review_event_Inr)

lemma persist_transition_Inr:
  assumes "persist_transition gv st action new_status request t actor s = (Inr u, s')"
  shows "\<exists>T. saved (live s) (ras_assessment_id st) (resaved st new_status t (ras_revision_count st)) T \<and>
           logged T (ras_assessment_id st) (with_actor gv actor request
                (plain_event action Review_PENDING new_status (hr_comment request)
                   (gr_reason_codes (ras_gate_result st)) (ras_revision_count st))) (live s')"
  using assms unfolding persist_transition_def
  by (auto simp: bindE_eq_Inr returnE_def dest!: save_state_saved add_review_event_logged)

definition decided_row ::
  "governance \<Rightarrow> candidate_args \<Rightarrow> QualityGateResult \<Rightarrow> instant \<Rightarrow> assessment_row \<Rightarrow> assessment_row" where
  "decided_row gv a g now row =
     (if gr_decision g = REQUIRE_HUMAN_REVIEW
      then pending_effect (Some (gv_dump_execution gv (ca_execution a))) now row
      else if gr_decision g = BLOCK_AND_ESCALATE
      then failed_effect (py ''runtime_risk_gate_blocked'',
             py ''The assessment was blocked by the runtime risk and quality gate.'') now row
      else completed_effect (gv_dump_result gv (ca_result a),
             Some (gv_dump_execution gv (ca_execution a))) now row)"

definition decided_status :: "QualityGateResult \<Rightarrow> HumanReviewStatus" where
  "decided_status g =
     (if gr_decision g = REQUIRE_HUMAN_REVIEW then Review_PENDING else Review_NOT_REQUIRED)"

lemma apply_decision_Inr:
  assumes "apply_decision gv a g t s = (Inr (rv, Some rec, t'), s')"
  defines "i \<equiv> ca_assessment_id a"
  shows "rv = decided_status g \<and>
         (\<exists>row now. map_of (t_assessments (live s)) i = Some row \<and>
            rec = to_record i (decided_row gv a g now row) \<and>
            live s' = (live s)\<lparr>t_assessments :=
              AList.update i (decided_row gv a g now row) (t_assessments (live s))\<rparr>)"
proof -
  let ?x = "Some (gv_dump_execution gv (ca_execution a))"
  let ?c = "(gv_dump_result gv (ca_result a), ?x)"
  let ?f = "(py ''runtime_risk_gate_blocked'',
             py ''The assessment was blocked by the runtime risk and quality gate.'')"
  consider (review) "gr_decision g = REQUIRE_HUMAN_REVIEW"
    | (block) "gr_decision g = BLOCK_AND_ESCALATE"
    | (publish) "gr_decision g \<noteq> REQUIRE_HUMAN_REVIEW" "gr_decision g \<noteq> BLOCK_AND_ESCALATE" by blast
  then show ?thesis
  proof cases
    case review
    with assms(1) obtain s1 where "mark_pending_review i ?x s = (Inr (Some rec), s1)"
      "live s' = live s1" "rv = Review_PENDING"
      unfolding apply_decision_def i_def Let_def
      by (auto simp: bindE_eq_Inr returnE_def dest!: keeps_tablesD[OF keeps_tables_helpers(4)])
    with pending.mark_some[of i ?x s rec s1] review show ?thesis
      by (auto simp: decided_row_def decided_status_def)
  next
    case block
    with assms(1) obtain s1 where "mark_failed i (fst ?f) (snd ?f) s = (Inr (Some rec), s1)"
      "live s' = live s1" "rv = Review_NOT_REQUIRED"
      unfolding apply_decision_def i_def Let_def
      by (auto simp: bindE_eq_Inr returnE_def dest!: keeps_tablesD[OF keeps_tables_helpers(4)])
    with failed.mark_some[of i ?f s rec s1] block show ?thesis
      by (auto simp: decided_row_def decided_status_def)
  next
    case publish
    with assms(1) obtain s1 where "mark_completed i (fst ?c) (snd ?c) s = (Inr (Some rec), s1)"
      "live s' = live s1" "rv = Review_NOT_REQUIRED"
      unfolding apply_decision_def i_def Let_def
      by (auto simp: bindE_eq_Inr returnE_def dest!: keeps_tablesD[OF keeps_tables_helpers(4)])
    with completed.mark_some[of i ?c s rec s1] publish show ?thesis
      by (auto simp: decided_row_def decided_status_def)
  qed
qed

lemma keeps_durable_apply_decision [intro!, simp]: "keeps_durable (apply_decision gv a g t)"
  unfolding apply_decision_def Let_def using keeps_tables_durable by auto

lemma keeps_durable_process_candidate [intro!, simp]: "keeps_durable (process_candidate gv a)"
  unfolding process_candidate_def
  using keeps_tables_durable[OF keeps_tables_helpers(6)] keeps_tables_durable[OF keeps_tables_helpers(7)]
  by (auto split: prod.split)

definition review_request_event :: "candidate_args \<Rightarrow> QualityGateResult \<Rightarrow> event_args" where
  "review_request_event a g =
     plain_event Act_REQUESTED Review_NOT_REQUIRED Review_PENDING None
       (gr_reason_codes g) (ca_revision_count a)"

definition row_set :: "tables \<Rightarrow> uuid \<Rightarrow> assessment_row \<Rightarrow> tables" where
  "row_set T i row = T\<lparr>t_assessments := AList.update i row (t_assessments T)\<rparr>"

lemma process_candidate_Inr:
  assumes "process_candidate gv a s = (Inr rec, s')"
  defines "i \<equiv> ca_assessment_id a"
  shows "\<exists>g row now t T. gate_evaluate (gv_policy gv) (observed_signals a) = Inr g \<and>
           map_of (t_assessments (live s)) i = Some row \<and>
           rec = to_record i (decided_row gv a g now row) \<and>
           saved (row_set (live s) i (decided_row gv a g now row)) i
             (checkpoint gv a g (decided_status g) t) T \<and>
           (if decided_status g = Review_PENDING \<and> ca_record_review_request a
            then logged T i (review_request_event a g) (live s') else live s' = T)"
proof -
  from assms(1) obtain g t0 s1 rv found t s2 st s3 s4 where
    g: "gate_evaluate (gv_policy gv) (observed_signals a) = Inr g"
    and t0: "candidate_telemetry gv a g s = (Inr t0, s1)"
    and ap: "apply_decision gv a g t0 s1 = (Inr (rv, found, t), s2)"
    and found: "found = Some rec"
    and sv: "save_state i (checkpoint gv a g rv t) s2 = (Inr st, s3)"
    and ev: "(if rv = Review_PENDING \<and> ca_record_review_request a
            then bindE (add_review_event i (review_request_event a g)) (\<lambda>_. returnE ())
            else returnE ()) s3 = (Inr (), s4)"
    and s': "s' = s4"
    unfolding process_candidate_def i_def review_request_event_def
    by (auto simp: bindE_eq_Inr liftE_def requireE_Inr returnE_def split: prod.splits)
  have l1: "live s1 = live s"
    using keeps_tablesD[OF keeps_tables_helpers(6) t0] by simp
  from apply_decision_Inr[OF ap[unfolded found]] l1 obtain row now where
    rv: "rv = decided_status g" and row: "map_of (t_assessments (live s)) i = Some row"
    and rec: "rec = to_record i (decided_row gv a g now row)"
    and l2: "live s2 = row_set (live s) i (decided_row gv a g now row)"
    unfolding i_def row_set_def by auto
  have "if decided_status g = Review_PENDING \<and> ca_record_review_request a
            then logged (live s3) i (review_request_event a g) (live s') else live s' = live s3"
    using ev unfolding s' rv
    by (auto simp: bindE_eq_Inr returnE_def split: if_splits dest: add_review_event_logged)
  with g row rec save_state_saved[OF sv] show ?thesis unfolding l2 rv by blast
qed

section \<open>Effects on case files\<close>

definition only :: "uuid \<Rightarrow> tables \<Rightarrow> tables \<Rightarrow> bool" where
  "only i T T' \<longleftrightarrow> (\<forall>j. j \<noteq> i \<longrightarrow> case_of T' j = case_of T j)"

lemma only_refl [simp]: "only i T T"
  by (simp add: only_def)

lemma only_trans: "only i T T1 \<Longrightarrow> only i T1 T2 \<Longrightarrow> only i T T2"
  by (simp add: only_def)

lemma case_of_row_set:
  "case_of (row_set T i row) i = (Some row, snd (case_of T i))" "only i T (row_set T i row)"
  by (auto simp: case_of_def row_set_def only_def update_conv')

lemma case_of_saved:
  assumes "saved T i sv T'"
  shows "only i T T' \<and>
         (\<exists>created now rt. rt = saved_row sv created now \<and> checkpoint_ok rt \<and>
            case_of T' i = (fst (case_of T i), Some rt, snd (snd (case_of T i))))"
proof -
  from assms obtain created now st where ok: "runtime_row_ok (saved_row sv created now)"
    and st: "state_from_model i (saved_row sv created now) = Inr st"
    and T': "T' = T\<lparr>t_runtime_states := AList.update i (saved_row sv created now) (t_runtime_states T)\<rparr>"
    unfolding saved_def by blast
  have "checkpoint_ok (saved_row sv created now)"
    using ok state_from_model_Inr(8,9)[OF st] by (simp add: checkpoint_ok_def)
  then show ?thesis unfolding T' by (auto simp: case_of_def only_def update_conv')
qed

lemma case_of_logged:
  assumes "logged T i ea T'"
  shows "only i T T' \<and>
         (\<exists>u now. case_of T' i =
            (fst (case_of T i), fst (snd (case_of T i)), snd (snd (case_of T i)) @ [event_row u i ea now]))"
  using assms by (auto simp: logged_def case_of_def only_def event_row_def)

lemma event_row_fields [simp]:
  "re_previous_status (event_row u i ea now) = ea_previous_status ea"
  "re_new_status (event_row u i ea now) = ea_new_status ea"
  "re_action (event_row u i ea now) = ea_action ea"
  "re_assessment_id (event_row u i ea now) = i"
  "re_revision_number (event_row u i ea now) = ea_revision_number ea"
  by (simp_all add: event_row_def)

lemma with_actor_fields [simp]:
  "ea_previous_status (with_actor gv actor request a) = ea_previous_status a"
  "ea_new_status (with_actor gv actor request a) = ea_new_status a"
  "ea_action (with_actor gv actor request a) = ea_action a"
  "ea_revision_number (with_actor gv actor request a) = ea_revision_number a"
  by (simp_all add: with_actor_def split: option.split)

lemma saved_row_fields [simp]:
  "rt_gate_result (saved_row sv c n) = sv_gate_result sv"
  "rt_review_status (saved_row sv c n) = sv_review_status sv"
  "rt_candidate_result (saved_row sv c n) = sv_candidate_result sv"
  "rt_revision_count (saved_row sv c n) = sv_revision_count sv"
  "rt_max_revisions (saved_row sv c n) = sv_max_revisions sv"
  "rt_telemetry (saved_row sv c n) = sv_telemetry sv"
  by (simp_all add: saved_row_def)

lemma has_state_case:
  "has_state T i st \<longleftrightarrow>
     (\<exists>row rt es. case_of T i = (Some row, Some rt, es) \<and> state_from_model i rt = Inr st)"
  by (auto simp: has_state_def case_of_def)

text \<open>A reviewer's transition of a checkpoint \<open>rt\<close> to \<open>rt'\<close> with its audit event.\<close>

definition reviewed ::
  "HumanReviewAction \<Rightarrow> HumanReviewStatus \<Rightarrow> int \<Rightarrow> AuthenticatedPrincipal option \<Rightarrow>
     runtime_row \<Rightarrow> runtime_row \<Rightarrow> review_event \<Rightarrow> bool" where
  "reviewed action new_status revision actor rt rt' ev \<longleftrightarrow>
     rt_review_status rt = Review_PENDING \<and> rt_review_status rt' = new_status \<and>
     rt_gate_result rt' = rt_gate_result rt \<and>
     rt_candidate_result rt' = nonempty_payload (rt_candidate_result rt) \<and>
     rt_max_revisions rt' = rt_max_revisions rt \<and> rt_revision_count rt' = revision \<and>
     checkpoint_ok rt' \<and>
     re_action ev = action \<and> re_previous_status ev = Review_PENDING \<and>
     re_new_status ev = new_status \<and> re_revision_number ev = revision \<and>
     re_reviewer_subject ev = map_option pr_subject actor \<and>
     re_reviewer_issuer ev = map_option pr_issuer actor \<and>
     re_reviewer_role ev = map_option (\<lambda>p. role_value (audit_role p)) actor"

lemma reviewed_case:
  assumes st: "state_from_model i rt = Inr st" and pending: "ras_review_status st = Review_PENDING"
    and c: "case_of T i = (row, Some rt, es)"
    and sv: "saved T i (resaved st new_status t revision) T1"
    and lg: "logged T1 i (with_actor gv actor request
           (plain_event action Review_PENDING new_status comment reasons revision)) T2"
  shows "only i T T2 \<and>
         (\<exists>rt' ev. case_of T2 i = (row, Some rt', es @ [ev]) \<and>
            reviewed action new_status revision actor rt rt' ev)"
proof -
  note f = state_from_model_Inr[OF st]
  from case_of_saved[OF sv] c obtain created now where
    o1: "only i T T1" and ok: "checkpoint_ok (saved_row (resaved st new_status t revision) created now)"
    and c1: "case_of T1 i = (row, Some (saved_row (resaved st new_status t revision) created now), es)"
    by auto
  from case_of_logged[OF lg] c1 obtain u stamp where o2: "only i T1 T2"
    and c2: "case_of T2 i = (row, Some (saved_row (resaved st new_status t revision) created now),
       es @ [event_row u i (with_actor gv actor request
           (plain_event action Review_PENDING new_status comment reasons revision)) stamp])"
    by auto
  have "reviewed action new_status revision actor rt
          (saved_row (resaved st new_status t revision) created now)
          (event_row u i (with_actor gv actor request
             (plain_event action Review_PENDING new_status comment reasons revision)) stamp)"
    using f ok pending unfolding reviewed_def
    by (cases actor) (simp_all add: resaved_def plain_event_def event_row_def with_actor_def)
  with c2 only_trans[OF o1 o2] show ?thesis by blast
qed

lemma approve_Inr:
  assumes "approve gv i request actor s = (Inr d, s')"
  shows "\<exists>row rt es candidate execution now rt' ev.
           case_of (live s) i = (Some row, Some rt, es) \<and>
           rt_candidate_result rt = Some candidate \<and> candidate \<noteq> [] \<and>
           case_of (durable s') i =
             (Some (completed_effect (candidate, execution) now row), Some rt', es @ [ev]) \<and>
           reviewed Act_APPROVED Review_APPROVED (rt_revision_count rt) actor rt rt' ev \<and>
           only i (live s) (durable s') \<and> hd_assessment_status d = status_value Status_COMPLETED"
proof -
  from assms obtain st s1 candidate rec s2 t s3 s4 where
    rp: "required_pending_state i s = (Inr st, s1)"
    and cand: "ras_candidate_result st = Some candidate"
    and mk: "mark_completed i candidate (ras_candidate_execution st) s1 = (Inr (Some rec), s2)"
    and tel: "review_telemetry st Review_APPROVED RT_HUMAN_REVIEW_APPROVED s2 = (Inr t, s3)"
    and pt: "persist_transition gv st Act_APPROVED Review_APPROVED request t actor s3 = (Inr (), s4)"
    and cm: "commit s4 = (Inr (), s')"
    and d: "d = review_decision st Act_APPROVED (pa_status rec)"
    unfolding approve_def by (auto simp: bindE_eq_Inr requireE_Inr returnE_def)
  from required_pending_state_Inr[OF rp] obtain row rt es where
    l1: "live s1 = live s" and c: "case_of (live s) i = (Some row, Some rt, es)"
    and st: "state_from_model i rt = Inr st" and pend: "ras_review_status st = Review_PENDING"
    by (auto simp: has_state_case)
  note f = state_from_model_Inr[OF st]
  let ?a = "(candidate, ras_candidate_execution st)"
  from completed.mark_some[of i ?a s1 rec s2] mk l1 c obtain now where
    rec: "rec = to_record i (completed_effect ?a now row)"
    and l2: "live s2 = row_set (live s) i (completed_effect ?a now row)"
    by (auto simp: row_set_def case_of_def)
  have l3: "live s3 = live s2" using keeps_tablesD[OF keeps_tables_helpers(5) tel] by simp
  have c3: "case_of (live s3) i = (Some (completed_effect ?a now row), Some rt, es)"
    and o3: "only i (live s) (live s3)"
    unfolding l3 l2 using c by (simp_all add: case_of_row_set)
  from persist_transition_Inr[OF pt] obtain T where
    sv: "saved (live s3) i (resaved st Review_APPROVED t (ras_revision_count st)) T"
    and lg: "logged T i (with_actor gv actor request (plain_event Act_APPROVED Review_PENDING
        Review_APPROVED (hr_comment request) (gr_reason_codes (ras_gate_result st))
        (ras_revision_count st))) (live s4)"
    unfolding f(1) by blast
  note ev = reviewed_case[OF st pend c3 sv lg]
  from commit_Inr[OF cm] have dur: "durable s' = live s4" by simp
  have "rt_candidate_result rt = Some candidate \<and> candidate \<noteq> []"
    using cand unfolding f(5) by (auto simp: nonempty_payload_def split: option.splits if_splits)
  moreover have "hd_assessment_status d = status_value Status_COMPLETED"
    unfolding d rec by (simp add: review_decision_def to_record_def completed_effect_def)
  ultimately show ?thesis
    using c ev only_trans[OF o3] unfolding dur f(6) by blast
qed

lemma reject_Inr:
  assumes "reject gv i request actor s = (Inr d, s')"
  shows "\<exists>row rt es now rt' ev.
           case_of (live s) i = (Some row, Some rt, es) \<and>
           case_of (durable s') i =
             (Some (failed_effect (py ''human_review_rejected'',
                      py ''The assessment was rejected during human review.'') now row),
              Some rt', es @ [ev]) \<and>
           reviewed Act_REJECTED Review_REJECTED (rt_revision_count rt) actor rt rt' ev \<and>
           only i (live s) (durable s') \<and> hd_assessment_status d = status_value Status_FAILED"
proof -
  let ?a = "(py ''human_review_rejected'', py ''The assessment was rejected during human review.'')"
  let ?t = "\<lambda>t0. t0\<lparr>ot_execution_health := Health_BLOCKED,
                   ot_termination_reason := py ''human_rejection''\<rparr>"
  from assms obtain st s1 rec s2 t s3 s4 where
    rp: "required_pending_state i s = (Inr st, s1)"
    and mk: "mark_failed i (fst ?a) (snd ?a) s1 = (Inr (Some rec), s2)"
    and tel: "review_telemetry st Review_REJECTED RT_HUMAN_REVIEW_REJECTED s2 = (Inr t, s3)"
    and pt: "persist_transition gv st Act_REJECTED Review_REJECTED request (?t t) actor s3 = (Inr (), s4)"
    and cm: "commit s4 = (Inr (), s')"
    and d: "d = review_decision st Act_REJECTED (pa_status rec)"
    unfolding reject_def Let_def by (auto simp: bindE_eq_Inr requireE_Inr returnE_def)
  from required_pending_state_Inr[OF rp] obtain row rt es where
    l1: "live s1 = live s" and c: "case_of (live s) i = (Some row, Some rt, es)"
    and st: "state_from_model i rt = Inr st" and pend: "ras_review_status st = Review_PENDING"
    by (auto simp: has_state_case)
  note f = state_from_model_Inr[OF st]
  from failed.mark_some[of i ?a s1 rec s2] mk l1 c obtain now where
    rec: "rec = to_record i (failed_effect ?a now row)"
    and l2: "live s2 = row_set (live s) i (failed_effect ?a now row)"
    by (auto simp: row_set_def case_of_def)
  have l3: "live s3 = live s2" using keeps_tablesD[OF keeps_tables_helpers(5) tel] by simp
  have c3: "case_of (live s3) i = (Some (failed_effect ?a now row), Some rt, es)"
    and o3: "only i (live s) (live s3)"
    unfolding l3 l2 using c by (simp_all add: case_of_row_set)
  from persist_transition_Inr[OF pt] obtain T where
    sv: "saved (live s3) i (resaved st Review_REJECTED (?t t) (ras_revision_count st)) T"
    and lg: "logged T i (with_actor gv actor request (plain_event Act_REJECTED Review_PENDING
        Review_REJECTED (hr_comment request) (gr_reason_codes (ras_gate_result st))
        (ras_revision_count st))) (live s4)"
    unfolding f(1) by blast
  note ev = reviewed_case[OF st pend c3 sv lg]
  from commit_Inr[OF cm] have dur: "durable s' = live s4" by simp
  have "hd_assessment_status d = status_value Status_FAILED"
    unfolding d rec by (simp add: review_decision_def to_record_def failed_effect_def)
  then show ?thesis
    using c ev only_trans[OF o3] unfolding dur f(6) by blast
qed

lemma request_revision_Inr:
  assumes "request_revision gv i request actor s = (Inr d, s')"
  shows "\<exists>row rt es rt' ev.
           case_of (live s) i = (row, Some rt, es) \<and> rt_revision_count rt < rt_max_revisions rt \<and>
           case_of (durable s') i = (row, Some rt', es @ [ev]) \<and>
           reviewed Act_REVISION_REQUESTED Review_REVISION_REQUESTED (rt_revision_count rt + 1) actor rt rt' ev \<and>
           only i (live s) (durable s') \<and> hd_revision_count d = rt_revision_count rt + 1"
proof -
  from assms obtain st s1 where rp: "required_pending_state i s = (Inr st, s1)"
    and lt: "ras_revision_count st < ras_max_revisions st"
    unfolding request_revision_def by (auto simp: bindE_eq_Inr raiseE_def split: if_splits)
  let ?rev = "ras_revision_count st + 1"
  from assms rp lt obtain t s2 st' s3 ev s4 where
    tel: "review_telemetry st Review_REVISION_REQUESTED RT_REVISION_REQUESTED s1 = (Inr t, s2)"
    and sv: "save_state i (resaved st Review_REVISION_REQUESTED t ?rev) s2 = (Inr st', s3)"
    and lg: "add_review_event i (with_actor gv actor request
        (plain_event Act_REVISION_REQUESTED Review_PENDING Review_REVISION_REQUESTED
           (hr_comment request) (gr_reason_codes (ras_gate_result st)) ?rev)) s3 = (Inr ev, s4)"
    and cm: "commit s4 = (Inr (), s')"
    and d: "hd_revision_count d = ?rev"
    unfolding request_revision_def Let_def by (auto simp: bindE_eq_Inr returnE_def)
  from required_pending_state_Inr[OF rp] obtain row rt es where
    l1: "live s1 = live s" and c: "case_of (live s) i = (Some row, Some rt, es)"
    and st: "state_from_model i rt = Inr st" and pend: "ras_review_status st = Review_PENDING"
    by (auto simp: has_state_case)
  note f = state_from_model_Inr[OF st]
  have l2: "live s2 = live s" using keeps_tablesD[OF keeps_tables_helpers(5) tel] l1 by simp
  from commit_Inr[OF cm] have dur: "durable s' = live s4" by simp
  from reviewed_case[OF st pend c save_state_saved[OF sv, unfolded l2] add_review_event_logged[OF lg]]
  show ?thesis using c lt d unfolding dur f(6,7) by blast
qed

text \<open>A checkpoint freshly written for a candidate.\<close>

definition checkpoint_for :: "governance \<Rightarrow> candidate_args \<Rightarrow> QualityGateResult \<Rightarrow> runtime_row \<Rightarrow> bool" where
  "checkpoint_for gv a g rt \<longleftrightarrow>
     gate_evaluate (gv_policy gv) (observed_signals a) = Inr g \<and> checkpoint_ok rt \<and>
     rt_gate_result rt = g \<and> rt_review_status rt = decided_status g \<and>
     rt_candidate_result rt = Some (gv_dump_result gv (ca_result a)) \<and>
     rt_revision_count rt = ca_revision_count a \<and>
     rt_max_revisions rt = pol_max_human_revisions (gv_policy gv)"

lemma process_candidate_case:
  assumes "process_candidate gv a s = (Inr rec, s')"
  defines "i \<equiv> ca_assessment_id a"
  shows "\<exists>row r es g now rt evs.
           case_of (live s) i = (Some row, r, es) \<and>
           case_of (live s') i = (Some (decided_row gv a g now row), Some rt, es @ evs) \<and>
           only i (live s) (live s') \<and> checkpoint_for gv a g rt \<and>
           rec = to_record i (decided_row gv a g now row) \<and>
           (if decided_status g = Review_PENDING \<and> ca_record_review_request a
            then \<exists>u n. evs = [event_row u i (review_request_event a g) n] else evs = [])"
proof -
  from process_candidate_Inr[OF assms(1)] obtain g row now t T where
    g: "gate_evaluate (gv_policy gv) (observed_signals a) = Inr g"
    and row: "map_of (t_assessments (live s)) i = Some row"
    and rec: "rec = to_record i (decided_row gv a g now row)"
    and sv: "saved (row_set (live s) i (decided_row gv a g now row)) i
       (checkpoint gv a g (decided_status g) t) T"
    and lg: "if decided_status g = Review_PENDING \<and> ca_record_review_request a
       then logged T i (review_request_event a g) (live s') else live s' = T"
    unfolding i_def by blast
  obtain r es where c: "case_of (live s) i = (Some row, r, es)"
    using row by (auto simp: case_of_def)
  let ?rt = "\<lambda>c1 n1. saved_row (checkpoint gv a g (decided_status g) t) c1 n1"
  from case_of_saved[OF sv] c obtain c1 n1 where o: "only i (live s) T"
    and cT: "case_of T i = (Some (decided_row gv a g now row), Some (?rt c1 n1), es)"
    and ok: "checkpoint_ok (?rt c1 n1)"
    using only_trans[OF case_of_row_set(2)] by (fastforce simp: case_of_row_set)
  have ck: "checkpoint_for gv a g (?rt c1 n1)"
    using g ok by (simp add: checkpoint_for_def checkpoint_def)
  show ?thesis
  proof (cases "decided_status g = Review_PENDING \<and> ca_record_review_request a")
    case True
    with lg case_of_logged[of T i "review_request_event a g" "live s'"] cT o ck c rec show ?thesis
      by (fastforce dest: only_trans)
  next
    case False
    with lg cT o ck c rec show ?thesis by fastforce
  qed
qed

lemma resume_revision_Inr:
  assumes "resume_revision gv a s = (Inr rec, s')"
  defines "i \<equiv> ca_assessment_id a"
  shows "\<exists>row rt es g now rt' ev.
           case_of (live s) i = (Some row, Some rt, es) \<and>
           rt_review_status rt = Review_REVISION_REQUESTED \<and>
           case_of (durable s') i = (Some (decided_row gv a g now row), Some rt', es @ [ev]) \<and>
           only i (live s) (durable s') \<and> checkpoint_ok rt' \<and>
           rt_gate_result rt' = g \<and> rt_review_status rt' = decided_status g \<and>
           rt_candidate_result rt' = nonempty_payload (Some (gv_dump_result gv (ca_result a))) \<and>
           rt_revision_count rt' = rt_revision_count rt \<and>
           rt_max_revisions rt' = pol_max_human_revisions (gv_policy gv) \<and>
           re_action ev = Act_REVISION_SUBMITTED \<and>
           re_previous_status ev = Review_REVISION_REQUESTED \<and> re_new_status ev = decided_status g"
proof -
  from assms(1) obtain st s1 where rs: "required_state i s = (Inr st, s1)"
    and rev: "ras_review_status st = Review_REVISION_REQUESTED"
    unfolding resume_revision_def Let_def i_def by (auto simp: bindE_eq_Inr raiseE_def split: if_splits)
  from assms(1) rs rev obtain s2 new_st s3 resumed_at s4 t st2 s5 ev s6 where
    pc: "process_candidate gv (resumed_args a st) s1 = (Inr rec, s2)"
    and rs2: "required_state i s2 = (Inr new_st, s3)"
    and rc: "read_clock s3 = (Inr resumed_at, s4)"
    and sv: "save_state i (resaved new_st (ras_review_status new_st) t (ras_revision_count new_st)) s4 = (Inr st2, s5)"
    and lg: "add_review_event i (plain_event Act_REVISION_SUBMITTED (ras_review_status st)
        (ras_review_status new_st) None (gr_reason_codes (ras_gate_result new_st))
        (ras_revision_count st)) s5 = (Inr ev, s6)"
    and cm: "commit s6 = (Inr (), s')"
    unfolding resume_revision_def Let_def i_def by (auto simp: bindE_eq_Inr returnE_def liftE_def)
  from required_state_Inr[OF rs] obtain row rt es where l1: "live s1 = live s"
    and c: "case_of (live s) i = (Some row, Some rt, es)" and st: "state_from_model i rt = Inr st"
    by (auto simp: has_state_case)
  note f = state_from_model_Inr[OF st]
  have ra: "ca_assessment_id (resumed_args a st) = i" "ca_record_review_request (resumed_args a st) = False"
    "decided_row gv (resumed_args a st) = decided_row gv a" "ca_revision_count (resumed_args a st) = ras_revision_count st"
    "ca_result (resumed_args a st) = ca_result a"
    by (simp_all add: resumed_args_def i_def decided_row_def fun_eq_iff)
  from process_candidate_case[OF pc] c obtain g now rt1 where o2: "only i (live s) (live s2)"
    and c2: "case_of (live s2) i = (Some (decided_row gv a g now row), Some rt1, es)"
    and ck: "checkpoint_for gv (resumed_args a st) g rt1"
    unfolding ra l1 by auto
  from required_state_Inr[OF rs2] c2 have l3: "live s3 = live s2"
    and nst: "state_from_model i rt1 = Inr new_st"
    by (auto simp: has_state_case)
  note h = state_from_model_Inr[OF nst]
  have l4: "live s4 = live s2" using read_clock_frame[OF rc] l3 by simp
  from case_of_saved[OF save_state_saved[OF sv]] c2 obtain c3 n3 where o5: "only i (live s2) (live s5)"
    and ok5: "checkpoint_ok (saved_row (resaved new_st (ras_review_status new_st) t (ras_revision_count new_st)) c3 n3)"
    and c5: "case_of (live s5) i = (Some (decided_row gv a g now row),
       Some (saved_row (resaved new_st (ras_review_status new_st) t (ras_revision_count new_st)) c3 n3), es)"
    unfolding l4 by auto
  from case_of_logged[OF add_review_event_logged[OF lg]] c5 obtain u n6 where o6: "only i (live s5) (live s6)"
    and c6: "case_of (live s6) i = (Some (decided_row gv a g now row),
       Some (saved_row (resaved new_st (ras_review_status new_st) t (ras_revision_count new_st)) c3 n3),
       es @ [event_row u i (plain_event Act_REVISION_SUBMITTED (ras_review_status st)
        (ras_review_status new_st) None (gr_reason_codes (ras_gate_result new_st))
        (ras_revision_count st)) n6])"
    by auto
  from commit_Inr[OF cm] have dur: "durable s' = live s6" by simp
  have o: "only i (live s) (live s6)" using only_trans[OF o2 only_trans[OF o5 o6]] .
  let ?rt = "saved_row (resaved new_st (ras_review_status new_st) t (ras_revision_count new_st)) c3 n3"
  let ?ev = "event_row u i (plain_event Act_REVISION_SUBMITTED (ras_review_status st)
        (ras_review_status new_st) None (gr_reason_codes (ras_gate_result new_st))
        (ras_revision_count st)) n6"
  note k = ck[unfolded checkpoint_for_def ra]
  have "rt_review_status rt = Review_REVISION_REQUESTED" using rev f(3) by simp
  moreover have "rt_gate_result ?rt = g" "rt_review_status ?rt = decided_status g"
    "rt_candidate_result ?rt = nonempty_payload (Some (gv_dump_result gv (ca_result a)))"
    "rt_revision_count ?rt = rt_revision_count rt"
    "rt_max_revisions ?rt = pol_max_human_revisions (gv_policy gv)"
    using k h f(6) by (simp_all add: resaved_def)
  moreover have "re_action ?ev = Act_REVISION_SUBMITTED"
    "re_previous_status ?ev = Review_REVISION_REQUESTED" "re_new_status ?ev = decided_status g"
    using rev k h(3) by (simp_all add: plain_event_def)
  ultimately show ?thesis
    unfolding dur using c c6 ok5 o by blast
qed

section \<open>Failures commit nothing\<close>

lemma keeps_durable_helpers [intro!, simp]:
  "keeps_durable (required_state i)" "keeps_durable (required_pending_state i)"
  "keeps_durable (review_telemetry rs hs ty)"
  by (simp_all add: keeps_tables_durable)

lemma keeps_durable_persist_transition [intro!, simp]:
  "keeps_durable (persist_transition gv st act new request t actor)"
  unfolding persist_transition_def by auto

lemma atomic_finish: "atomic (bindE commit (\<lambda>_. bindE (export_telemetry gv i t g) (\<lambda>_. returnE d)))"
  by (rule atomic_commit_then) (simp add: bindE_def returnE_def)

lemma atomic_raise: "atomic (raiseE e)"
  by (rule atomic_keeps) simp

lemma atomic_if: "atomic a \<Longrightarrow> atomic b \<Longrightarrow> atomic (if c then a else b)"
  by simp

lemmas atomic_intros = atomic_bind atomic_finish atomic_raise atomic_if

lemma atomic_approve: "atomic (approve gv i request actor)"
  unfolding approve_def by (intro atomic_intros) auto

lemma atomic_reject: "atomic (reject gv i request actor)"
  unfolding reject_def Let_def by (intro atomic_intros) auto

lemma atomic_request_revision: "atomic (request_revision gv i request actor)"
  unfolding request_revision_def Let_def by (intro atomic_intros) auto

lemma atomic_resume_revision: "atomic (resume_revision gv a)"
  unfolding resume_revision_def Let_def by (intro atomic_intros) auto

section \<open>The invariant and the protocol, operation by operation\<close>

lemma store_ok_only:
  "store_ok T \<Longrightarrow> only i T T' \<Longrightarrow> case_ok (case_of T' i) \<Longrightarrow> store_ok T'"
  unfolding store_ok_def only_def by (metis (full_types))

lemma nonempty_payload_Some: "x \<noteq> [] \<Longrightarrow> nonempty_payload (Some x) = Some x"
  by (simp add: nonempty_payload_def)

lemma approved_case:
  assumes "case_ok (Some row, Some rt, es)" and "rt_candidate_result rt = Some candidate"
    and "candidate \<noteq> []" and "reviewed Act_APPROVED Review_APPROVED (rt_revision_count rt) actor rt rt' ev"
  shows "case_ok (Some (completed_effect (candidate, x) now row), Some rt', es @ [ev])"
    and "phase_step (phase_of (Some row, Some rt, es))
           (phase_of (Some (completed_effect (candidate, x) now row), Some rt', es @ [ev]))"
proof -
  show "case_ok (Some (completed_effect (candidate, x) now row), Some rt', es @ [ev])"
    using assms unfolding reviewed_def
    by (simp add: row_matches_def audit_path_snoc nonempty_payload_Some completed_effect_def assessment_row_ok_def)
  show "phase_step (phase_of (Some row, Some rt, es))
           (phase_of (Some (completed_effect (candidate, x) now row), Some rt', es @ [ev]))"
    using assms(4) unfolding reviewed_def
    by (simp add: phase_of_checkpoint_def phase_step.intros)
qed

lemma rejected_case:
  assumes "case_ok (Some row, Some rt, es)"
    and "reviewed Act_REJECTED Review_REJECTED (rt_revision_count rt) actor rt rt' ev"
  shows "case_ok (Some (failed_effect a now row), Some rt', es @ [ev])"
    and "phase_step (phase_of (Some row, Some rt, es))
           (phase_of (Some (failed_effect a now row), Some rt', es @ [ev]))"
proof -
  show "case_ok (Some (failed_effect a now row), Some rt', es @ [ev])"
    using assms unfolding reviewed_def
    by (simp add: row_matches_def audit_path_snoc failed_effect_def assessment_row_ok_def)
  show "phase_step (phase_of (Some row, Some rt, es))
           (phase_of (Some (failed_effect a now row), Some rt', es @ [ev]))"
    using assms(2) unfolding reviewed_def
    by (simp add: phase_of_checkpoint_def phase_step.intros)
qed

lemma revised_case:
  assumes "case_ok (row, Some rt, es)" and "rt_revision_count rt < rt_max_revisions rt"
    and "reviewed Act_REVISION_REQUESTED Review_REVISION_REQUESTED (rt_revision_count rt + 1) actor rt rt' ev"
  shows "case_ok (row, Some rt', es @ [ev])"
    and "phase_step (phase_of (row, Some rt, es)) (phase_of (row, Some rt', es @ [ev]))"
proof -
  show "case_ok (row, Some rt', es @ [ev])"
    using assms(1,3) unfolding reviewed_def
    by (cases row) (simp_all add: row_matches_def audit_path_snoc)
  show "phase_step (phase_of (row, Some rt, es)) (phase_of (row, Some rt', es @ [ev]))"
    using assms(2,3) unfolding reviewed_def
    by (simp add: phase_of_checkpoint_def phase_step.intros)
qed

lemma decided_row_matches:
  assumes "rt_review_status rt = decided_status g" and "rt_gate_result rt = g"
    and "rt_candidate_result rt = Some (gv_dump_result gv (ca_result a))"
  shows "row_matches (decided_row gv a g now row) rt"
  using assms
  by (cases "gr_decision g")
     (simp_all add: row_matches_def decided_status_def decided_row_def completed_effect_def
        pending_effect_def failed_effect_def)

lemma decided_row_ok [simp]: "assessment_row_ok (decided_row gv a g now row)"
  by (simp add: decided_row_def)

lemma checkpoint_phase:
  assumes "rt_review_status rt = decided_status (rt_gate_result rt)"
  shows "phase_of_checkpoint rt \<in> {Published, Blocked, Awaiting (rt_revision_count rt) (rt_max_revisions rt)}"
  using assms by (auto simp: phase_of_checkpoint_def decided_status_def)

lemma resumed_case:
  assumes "case_ok (Some row, Some rt, es)" and "rt_review_status rt = Review_REVISION_REQUESTED"
    and ck: "checkpoint_ok rt'" "rt_gate_result rt' = g" "rt_review_status rt' = decided_status g"
      "rt_candidate_result rt' = Some (gv_dump_result gv (ca_result a))"
      "rt_revision_count rt' = rt_revision_count rt"
    and ev: "re_action ev = Act_REVISION_SUBMITTED" "re_previous_status ev = Review_REVISION_REQUESTED"
      "re_new_status ev = decided_status g"
  shows "case_ok (Some (decided_row gv a g now row), Some rt', es @ [ev])"
    and "phase_step (phase_of (Some row, Some rt, es))
           (phase_of (Some (decided_row gv a g now row), Some rt', es @ [ev]))"
proof -
  show "case_ok (Some (decided_row gv a g now row), Some rt', es @ [ev])"
    using assms(1,2) ck ev decided_row_matches[of rt' g gv a now row] by (simp add: audit_path_snoc)
  have "rt_revision_count rt' \<le> rt_max_revisions rt'"
    using ck(1) by (simp add: checkpoint_ok_def runtime_row_ok_def)
  with checkpoint_phase[of rt'] ck assms(2)
  show "phase_step (phase_of (Some row, Some rt, es))
           (phase_of (Some (decided_row gv a g now row), Some rt', es @ [ev]))"
    by (auto simp: phase_of_checkpoint_def[of rt] phase_step.intros)
qed

section \<open>The contract of a review action\<close>

text \<open>
  What the routes rely on of every reviewer action: it commits all or nothing, touches one case
  file, appends one audit event, keeps the invariant and follows the abstract protocol.
\<close>

locale review_action =
  fixes act :: "uuid \<Rightarrow> 'arg \<Rightarrow> 'r db" and valid :: "'arg \<Rightarrow> bool"
  assumes act_atomic: "atomic (act i a)"
    and act_only: "act i a s = (Inr d, s') \<Longrightarrow> only i (live s) (durable s')"
    and act_audit: "act i a s = (Inr d, s') \<Longrightarrow>
      \<exists>ev. snd (snd (case_of (durable s') i)) = snd (snd (case_of (live s) i)) @ [ev]"
    and act_case: "valid a \<Longrightarrow> case_ok (case_of (live s) i) \<Longrightarrow> act i a s = (Inr d, s') \<Longrightarrow>
      case_ok (case_of (durable s') i) \<and>
      phase_step (phase_of (case_of (live s) i)) (phase_of (case_of (durable s') i))"
begin

lemma act_keeps_store:
  assumes "valid a" and "store_ok (durable s)" and "live s = durable s" and "act i a s = (r, s')"
  shows "store_ok (durable s')"
proof (cases r)
  case (Inl e)
  with assms(2,4) show ?thesis by (simp add: atomicD[OF act_atomic])
next
  case (Inr d)
  with assms have "case_ok (case_of (durable s') i)"
    by (intro conjunct1[OF act_case]) (auto simp: store_ok_def)
  with assms act_only[of i a s d s'] Inr show ?thesis by (auto intro: store_ok_only)
qed

lemma act_refused:
  assumes "valid a" and "store_ok (live s)"
    and "\<And>q. \<not> phase_step (phase_of (case_of (live s) i)) q"
  shows "\<exists>e s'. act i a s = (Inl e, s') \<and> durable s' = durable s"
proof (cases "act i a s")
  case (Pair r s')
  with assms act_case[of a s i _ s'] obtain e where "r = Inl e"
    by (cases r) (auto simp: store_ok_def)
  with Pair show ?thesis using atomicD[OF act_atomic] by blast
qed

lemma act_trail:
  assumes "live s = durable s" and "act i a s = (r, s')"
  shows "\<exists>es. snd (snd (case_of (durable s') j)) = snd (snd (case_of (durable s) j)) @ es"
proof (cases r)
  case (Inl e)
  with assms show ?thesis by (simp add: atomicD[OF act_atomic])
next
  case (Inr d)
  with assms act_audit[of i a s d s'] act_only[of i a s d s'] show ?thesis
    by (cases "j = i") (auto simp: only_def)
qed

end

definition codec_ok :: "governance \<Rightarrow> bool" where
  "codec_ok gv \<longleftrightarrow> (\<forall>r. gv_dump_result gv r \<noteq> [])"

interpretation approving: review_action
  "\<lambda>i (gv, request, actor). approve gv i request actor" "\<lambda>_. True"
proof unfold_locales
  fix i a s d s'
  show "atomic (case a of (gv, request, actor) \<Rightarrow> approve gv i request actor)"
    by (simp add: atomic_approve split: prod.split)
  assume "(case a of (gv, request, actor) \<Rightarrow> approve gv i request actor) s = (Inr d, s')"
  then obtain gv request actor where run: "approve gv i request actor s = (Inr d, s')"
    by (cases a) auto
  note e = approve_Inr[OF run]
  from e show "only i (live s) (durable s')" by blast
  from e show "\<exists>ev. snd (snd (case_of (durable s') i)) = snd (snd (case_of (live s) i)) @ [ev]" by auto
  assume "case_ok (case_of (live s) i)"
  with e show "case_ok (case_of (durable s') i) \<and>
      phase_step (phase_of (case_of (live s) i)) (phase_of (case_of (durable s') i))"
    by (elim exE conjE) (simp add: approved_case del: case_ok.simps phase_of.simps)
qed

interpretation rejecting: review_action
  "\<lambda>i (gv, request, actor). reject gv i request actor" "\<lambda>_. True"
proof unfold_locales
  fix i a s d s'
  show "atomic (case a of (gv, request, actor) \<Rightarrow> reject gv i request actor)"
    by (simp add: atomic_reject split: prod.split)
  assume "(case a of (gv, request, actor) \<Rightarrow> reject gv i request actor) s = (Inr d, s')"
  then obtain gv request actor where run: "reject gv i request actor s = (Inr d, s')"
    by (cases a) auto
  note e = reject_Inr[OF run]
  from e show "only i (live s) (durable s')" by blast
  from e show "\<exists>ev. snd (snd (case_of (durable s') i)) = snd (snd (case_of (live s) i)) @ [ev]" by auto
  assume "case_ok (case_of (live s) i)"
  with e show "case_ok (case_of (durable s') i) \<and>
      phase_step (phase_of (case_of (live s) i)) (phase_of (case_of (durable s') i))"
    by (elim exE conjE) (simp add: rejected_case del: case_ok.simps phase_of.simps)
qed

interpretation revising: review_action
  "\<lambda>i (gv, request, actor). request_revision gv i request actor" "\<lambda>_. True"
proof unfold_locales
  fix i a s d s'
  show "atomic (case a of (gv, request, actor) \<Rightarrow> request_revision gv i request actor)"
    by (simp add: atomic_request_revision split: prod.split)
  assume "(case a of (gv, request, actor) \<Rightarrow> request_revision gv i request actor) s = (Inr d, s')"
  then obtain gv request actor where run: "request_revision gv i request actor s = (Inr d, s')"
    by (cases a) auto
  note e = request_revision_Inr[OF run]
  from e show "only i (live s) (durable s')" by blast
  from e show "\<exists>ev. snd (snd (case_of (durable s') i)) = snd (snd (case_of (live s) i)) @ [ev]" by auto
  assume "case_ok (case_of (live s) i)"
  with e show "case_ok (case_of (durable s') i) \<and>
      phase_step (phase_of (case_of (live s) i)) (phase_of (case_of (durable s') i))"
    by (elim exE conjE) (simp add: revised_case del: case_ok.simps phase_of.simps)
qed

interpretation resuming: review_action
  "\<lambda>i (gv, a). resume_revision gv (a\<lparr>ca_assessment_id := i\<rparr>)" "\<lambda>(gv, a). codec_ok gv"
proof unfold_locales
  fix i a s d s'
  show "atomic (case a of (gv, a) \<Rightarrow> resume_revision gv (a\<lparr>ca_assessment_id := i\<rparr>))"
    by (simp add: atomic_resume_revision split: prod.split)
  assume "(case a of (gv, a) \<Rightarrow> resume_revision gv (a\<lparr>ca_assessment_id := i\<rparr>)) s = (Inr d, s')"
  then obtain gv b where a: "a = (gv, b)"
    and run: "resume_revision gv (b\<lparr>ca_assessment_id := i\<rparr>) s = (Inr d, s')"
    by (cases a) auto
  note e = resume_revision_Inr[OF run, simplified]
  from e show "only i (live s) (durable s')" by blast
  from e show "\<exists>ev. snd (snd (case_of (durable s') i)) = snd (snd (case_of (live s) i)) @ [ev]" by auto
  assume "case a of (gv, a) \<Rightarrow> codec_ok gv" and inv: "case_ok (case_of (live s) i)"
  then have "nonempty_payload (Some (gv_dump_result gv (ca_result b))) = Some (gv_dump_result gv (ca_result b))"
    unfolding a by (simp add: codec_ok_def nonempty_payload_Some)
  with e obtain row rt es now rt' ev g where
    c: "case_of (live s) i = (Some row, Some rt, es)"
    and c': "case_of (durable s') i =
      (Some (decided_row gv (b\<lparr>ca_assessment_id := i\<rparr>) g now row), Some rt', es @ [ev])"
    and k: "rt_review_status rt = Review_REVISION_REQUESTED" "checkpoint_ok rt'"
      "rt_gate_result rt' = g" "rt_review_status rt' = decided_status g"
      "rt_candidate_result rt' = Some (gv_dump_result gv (ca_result (b\<lparr>ca_assessment_id := i\<rparr>)))"
      "rt_revision_count rt' = rt_revision_count rt" "re_action ev = Act_REVISION_SUBMITTED"
      "re_previous_status ev = Review_REVISION_REQUESTED" "re_new_status ev = decided_status g"
    by auto
  from resumed_case[OF inv[unfolded c] k] show "case_ok (case_of (durable s') i) \<and>
      phase_step (phase_of (case_of (live s) i)) (phase_of (case_of (durable s') i))"
    unfolding c c' by blast
qed

end
