(* ===== verification/Review_Properties.thy ===== *)
theory Review_Properties
  imports Review_Lifecycle
begin

text \<open>
  The properties of the human-review workflow: what an approval publishes and records, that failed
  actions commit nothing, that decided cases are final, that every action follows the abstract
  protocol, and that a pending review can always be completed when the database answers.
\<close>

section \<open>A concrete store\<close>

definition sample_telemetry :: OperationalTelemetry where
  "sample_telemetry =
     \<lparr>ot_request_id = None, ot_execution_mode = py ''deterministic'',
      ot_execution_health = Health_PENDING_HUMAN_REVIEW, ot_total_duration_ms = 5,
      ot_execution_duration_ms = 5, ot_human_wait_duration_ms = None,
      ot_retrieval_duration_ms = None, ot_synthesis_duration_ms = None,
      ot_model_call_count = None, ot_model_call_durations_ms = [], ot_embedding_call_count = None,
      ot_tool_call_count = 0, ot_graph_retrieval_used = False, ot_vector_retrieval_used = False,
      ot_specialist_durations_ms = [], ot_retry_count = 0, ot_timeout_count = 0,
      ot_degraded_state_count = 0, ot_human_review_status = Review_PENDING,
      ot_termination_reason = py ''completed'', ot_token_usage = None, ot_estimated_cost = None,
      ot_estimated_cost_currency = None, ot_events = []\<rparr>"

definition sample_row :: assessment_row where
  "sample_row =
     \<lparr>row_status = Status_PENDING_REVIEW, row_company_name = py ''a'', row_industry = py ''b'',
      row_business_problem = py ''c'', row_created_by_subject = None, row_request_payload = [],
      row_result_payload = None, row_execution_metadata = None, row_error_code = None,
      row_error_message = None, row_created_at = 0, row_updated_at = 0, row_completed_at = None\<rparr>"

definition sample_checkpoint :: runtime_row where
  "sample_checkpoint =
     \<lparr>rt_gate_result = \<lparr>gr_decision = REQUIRE_HUMAN_REVIEW, gr_risk_level = Level_HIGH,
        gr_reason_codes = [HIGH_RISK], gr_review_required = True, gr_blocked = False\<rparr>,
      rt_review_status = Review_PENDING, rt_candidate_result = Some [(py ''x'', JNull)],
      rt_candidate_execution = None, rt_telemetry = sample_telemetry, rt_revision_count = 0,
      rt_max_revisions = 1, rt_created_at = 0, rt_updated_at = 0\<rparr>"

definition sample_request_event :: review_event where
  "sample_request_event =
     \<lparr>re_id = 9, re_assessment_id = 1, re_action = Act_REQUESTED,
      re_previous_status = Review_NOT_REQUIRED, re_new_status = Review_PENDING,
      re_reviewer_id = None, re_reviewer_subject = None, re_reviewer_email = None,
      re_reviewer_role = None, re_reviewer_issuer = None, re_request_id = None,
      re_comment = None, re_reason_codes = [HIGH_RISK], re_revision_number = 0, re_created_at = 0\<rparr>"

definition sample_store :: tables where
  "sample_store =
     \<lparr>t_assessments = [(1, sample_row), (2, sample_row\<lparr>row_status := Status_FAILED,
        row_error_code := Some (py ''e''), row_error_message := Some (py ''m'')\<rparr>)],
      t_runtime_states = [(1, sample_checkpoint)], t_review_events = [sample_request_event]\<rparr>"

definition sample_session :: "sql_error option list \<Rightarrow> session" where
  "sample_session fs =
     \<lparr>live = sample_store, durable = sample_store, faults = fs, clock = (\<lambda>n. 2000 * int n),
      uuids = (\<lambda>n. 100 + n), ticks = 1, drawn = 0\<rparr>"

definition sample_governance :: governance where
  "sample_governance =
     \<lparr>gv_policy = default_policy, gv_input_cost_per_million = None,
      gv_output_cost_per_million = None, gv_metrics = None,
      gv_exporter = (\<lambda>_ _ _. Inl RuntimeExc), gv_request_id = None,
      gv_dump_result = (\<lambda>_. [(py ''x'', JNull)]), gv_dump_execution = (\<lambda>_. []),
      gv_validate_result = (\<lambda>_. Inl ValidationExc)\<rparr>"

definition sample_review :: HumanReviewRequest where
  "sample_review = \<lparr>hr_reviewer_id = None, hr_comment = Some (py ''ok'')\<rparr>"

lemma sample_telemetry_ok: "telemetry_ok sample_telemetry"
  by (simp add: telemetry_ok_def sample_telemetry_def opt_len_ok_def opt_nonneg_def)

lemma sample_cases:
  "case_of sample_store 1 = (Some sample_row, Some sample_checkpoint, [sample_request_event])"
  by (simp add: case_of_def sample_store_def events_of_def sample_request_event_def)

lemma sample_store_ok: "store_ok sample_store"
proof -
  have "case_ok (case_of sample_store 1)"
    unfolding sample_cases using sample_telemetry_ok
    by (simp add: assessment_row_ok_def row_matches_def checkpoint_ok_def runtime_row_ok_def
        gate_result_ok_def sample_row_def sample_checkpoint_def sample_request_event_def revisions_in_def)
  moreover have "case_ok (case_of sample_store i)" if "i \<noteq> 1" for i
    using that by (auto simp: case_of_def sample_store_def events_of_def sample_request_event_def
        sample_row_def assessment_row_ok_def)
  ultimately show ?thesis unfolding store_ok_def by metis
qed

section \<open>When the database answers\<close>

text \<open>Total correctness: from a session without pending faults the call returns.\<close>

lemma quiet_calls:
  assumes "faults s = []"
  shows "db_call s = (Inr (), s)"
    and "\<exists>now. read_clock s = (Inr now, s\<lparr>ticks := Suc (ticks s)\<rparr>)"
    and "\<exists>u. draw_uuid s = (Inr u, s\<lparr>drawn := Suc (drawn s)\<rparr>)"
    and "commit s = (Inr (), s\<lparr>durable := live s\<rparr>)"
    and "ok \<Longrightarrow> flush_with ok f s = (Inr (), s\<lparr>live := f (live s)\<rparr>)"
  using assms
  by (simp_all add: db_call_def read_clock_def draw_uuid_def commit_def flush_with_def bindE_def modifyE_def)

lemma quiet_required_pending:
  assumes "faults s = []" and "case_of (live s) i = (Some row, Some rt, es)"
    and "checkpoint_ok rt" and "rt_review_status rt = Review_PENDING"
  shows "\<exists>st. required_pending_state i s = (Inr st, s) \<and> state_from_model i rt = Inr st"
proof -
  from assms(3) obtain st where st: "state_from_model i rt = Inr st"
    by (auto simp: state_from_model_def checkpoint_ok_def runtime_row_ok_def)
  then have "required_pending_state i s = (Inr st, s)"
    using assms quiet_calls(1)[OF assms(1)] state_from_model_Inr(3)[OF st]
    by (simp add: case_of_def required_pending_state_def required_state_def required_assessment_def
        repo_get_by_id_def get_state_def bindE_def catchE_def requireE_def getE_def returnE_def liftE_def)
  with st show ?thesis by blast
qed

lemma quiet_mark_completed:
  assumes "faults s = []" and "map_of (t_assessments (live s)) i = Some row"
  shows "\<exists>rec s'. mark_completed i p x s = (Inr (Some rec), s') \<and> faults s' = [] \<and>
           t_runtime_states (live s') = t_runtime_states (live s)"
  using assms quiet_calls(1)[OF assms(1)]
  by (auto simp: mark_completed_def repo_update_def bindE_def getE_def returnE_def read_clock_def
      Let_def flush_with_def db_call_def modifyE_def assessment_row_ok_def)

lemma append_event_run:
  assumes "opt_len_ok (ot_request_id t) 128"
    and "len_between 1 50 st" and "len_between 1 100 c"
  shows "\<exists>e. append_event t ty st c s =
           (Inr (t\<lparr>ot_events := ot_events t @ [e]\<rparr>), s\<lparr>ticks := Suc (ticks s)\<rparr>) \<and> trace_event_ok e"
  using assms
  by (intro exI[of _ "\<lparr>te_timestamp = clock s (ticks s), te_request_id = ot_request_id t,
        te_event_type = ty, te_component = c, te_status = st, te_duration_ms = None,
        te_reason_code = None\<rparr>"])
     (simp add: append_event_def bindE_def read_clock_def Let_def trace_event_ok_def
        opt_nonneg_def returnE_def)

lemma review_telemetry_run:
  assumes "telemetry_ok (ras_telemetry st)"
  shows "\<exists>t s'. review_telemetry st hs ty s = (Inr t, s') \<and> telemetry_ok t \<and>
           faults s' = faults s \<and> live s' = live s"
proof -
  let ?t = "ras_telemetry st" and ?w = "wait_milliseconds (clock s (ticks s)) (ras_updated_at st)"
  let ?u = "?t\<lparr>ot_human_review_status := hs, ot_human_wait_duration_ms := Some ?w,
                ot_total_duration_ms := ot_execution_duration_ms ?t + ?w,
                ot_execution_health := (if hs = Review_APPROVED then Health_FULL
                          else ot_execution_health ?t)\<rparr>"
  let ?v = "review_status_value hs" and ?c = "py ''human_review''"
  have w: "0 \<le> ?w" by (simp add: wait_milliseconds_def)
  have u: "telemetry_ok ?u" using assms w by (simp add: telemetry_ok_def opt_nonneg_def)
  have id: "opt_len_ok (ot_request_id ?u) 128" using assms by (simp add: telemetry_ok_def)
  from append_event_run[OF id, of ?v ?c RT_HUMAN_REVIEW_RESUMED "s\<lparr>ticks := Suc (ticks s)\<rparr>"]
  obtain e1 where e1: "append_event ?u RT_HUMAN_REVIEW_RESUMED ?v ?c (s\<lparr>ticks := Suc (ticks s)\<rparr>) =
      (Inr (?u\<lparr>ot_events := ot_events ?u @ [e1]\<rparr>), s\<lparr>ticks := Suc (Suc (ticks s))\<rparr>)" "trace_event_ok e1"
    by auto
  have id2: "opt_len_ok (ot_request_id (?u\<lparr>ot_events := ot_events ?u @ [e1]\<rparr>)) 128" using id by simp
  from append_event_run[OF id2, of ?v ?c ty "s\<lparr>ticks := Suc (Suc (ticks s))\<rparr>"]
  obtain e2 where e2: "append_event (?u\<lparr>ot_events := ot_events ?u @ [e1]\<rparr>) ty ?v ?c
      (s\<lparr>ticks := Suc (Suc (ticks s))\<rparr>) =
      (Inr (?u\<lparr>ot_events := ot_events ?u @ [e1, e2]\<rparr>), s\<lparr>ticks := Suc (Suc (Suc (ticks s)))\<rparr>)"
      "trace_event_ok e2"
    by auto
  have "review_telemetry st hs ty s =
      (Inr (?u\<lparr>ot_events := ot_events ?u @ [e1, e2]\<rparr>), s\<lparr>ticks := Suc (Suc (Suc (ticks s)))\<rparr>)"
    unfolding review_telemetry_def Let_def using e1(1) e2(1) by (simp add: bindE_def read_clock_def)
  moreover have "telemetry_ok (?u\<lparr>ot_events := ot_events ?u @ [e1, e2]\<rparr>)"
    using u e1(2) e2(2) by (auto simp: telemetry_ok_def)
  ultimately show ?thesis by simp
qed

lemma quiet_save_state:
  assumes "faults s = []" and "gate_result_ok (sv_gate_result a)" and "telemetry_ok (sv_telemetry a)"
    and "0 \<le> sv_revision_count a" and "sv_revision_count a \<le> sv_max_revisions a"
  shows "\<exists>st s'. save_state i a s = (Inr st, s') \<and> faults s' = []"
  using assms
  by (simp add: save_state_def bindE_def read_clock_def db_call_def getE_def Let_def flush_with_def
      modifyE_def liftE_def state_from_model_def runtime_row_ok_def)

lemma quiet_add_review_event:
  assumes "faults s = []" and "0 \<le> ea_revision_number a"
  shows "\<exists>ev s'. add_review_event i a s = (Inr ev, s') \<and> faults s' = []"
  using assms
  by (simp add: add_review_event_def bindE_def read_clock_def draw_uuid_def db_call_def Let_def
      flush_with_def modifyE_def returnE_def)

lemma quiet_persist_transition:
  assumes "faults s = []" and st: "state_from_model i rt = Inr st" and "runtime_row_ok rt"
    and "telemetry_ok t"
  shows "\<exists>s'. persist_transition gv st action new request t actor s = (Inr (), s') \<and> faults s' = []"
proof -
  note f = state_from_model_Inr[OF st]
  have r: "0 \<le> ras_revision_count st" "ras_revision_count st \<le> ras_max_revisions st"
    using assms(3) f by (simp_all add: runtime_row_ok_def)
  from quiet_save_state[OF assms(1), of "resaved st new t (ras_revision_count st)" "ras_assessment_id st"]
  obtain st' s1 where "save_state (ras_assessment_id st) (resaved st new t (ras_revision_count st)) s = (Inr st', s1)"
    and q1: "faults s1 = []"
    using assms(4) f r by (auto simp: resaved_def)
  moreover from quiet_add_review_event[OF q1, of "with_actor gv actor request
      (plain_event action Review_PENDING new (hr_comment request)
         (gr_reason_codes (ras_gate_result st)) (ras_revision_count st))" "ras_assessment_id st"]
  obtain ev s2 where "add_review_event (ras_assessment_id st) (with_actor gv actor request
      (plain_event action Review_PENDING new (hr_comment request)
         (gr_reason_codes (ras_gate_result st)) (ras_revision_count st))) s1 = (Inr ev, s2)"
    and "faults s2 = []"
    using r by (auto simp: plain_event_def)
  ultimately show ?thesis
    by (simp add: persist_transition_def bindE_def returnE_def)
qed

lemma quiet_approve:
  assumes "store_ok (live s)" and "faults s = []"
    and "map_of (t_runtime_states (live s)) i = Some rt" and "rt_review_status rt = Review_PENDING"
    and "rt_candidate_result rt = Some candidate" and "candidate \<noteq> []"
  shows "\<exists>d s'. approve gv i request actor s = (Inr d, s') \<and> hd_review_status d = Review_APPROVED"
proof -
  from assms(1) have "case_ok (case_of (live s) i)" by (simp add: store_ok_def)
  with assms(3) obtain row es where c: "case_of (live s) i = (Some row, Some rt, es)"
    and ok: "checkpoint_ok rt"
    by (cases "map_of (t_assessments (live s)) i") (auto simp: case_of_def)
  from quiet_required_pending[OF assms(2) c ok assms(4)] obtain st where
    st: "state_from_model i rt = Inr st" and rp: "required_pending_state i s = (Inr st, s)" by blast
  note f = state_from_model_Inr[OF st]
  have cand: "ras_candidate_result st = Some candidate"
    using f(5) assms(5,6) by (simp add: nonempty_payload_Some)
  from quiet_mark_completed[OF assms(2)] c obtain rec s1 where
    mk: "mark_completed i candidate (ras_candidate_execution st) s = (Inr (Some rec), s1)"
    and q1: "faults s1 = []" by (fastforce simp: case_of_def)
  from review_telemetry_run[of st Review_APPROVED RT_HUMAN_REVIEW_APPROVED s1] f(4,9) q1 obtain t s2 where
    tel: "review_telemetry st Review_APPROVED RT_HUMAN_REVIEW_APPROVED s1 = (Inr t, s2)"
    and t: "telemetry_ok t" and q2: "faults s2 = []" by auto
  from ok have "runtime_row_ok rt" by (simp add: checkpoint_ok_def)
  from quiet_persist_transition[OF q2 st this t] obtain s3 where
    pt: "persist_transition gv st Act_APPROVED Review_APPROVED request t actor s2 = (Inr (), s3)"
    and q3: "faults s3 = []" by blast
  show ?thesis
    unfolding approve_def using rp cand mk tel pt quiet_calls(4)[OF q3]
    by (simp add: bindE_def requireE_def returnE_def review_decision_def)
qed

section \<open>Properties\<close>

text \<open>a successful approval starts from a pending checkpoint and commits, in one transaction,
  the assessment as completed with exactly the candidate that was under review, the checkpoint as
  approved, and one appended audit event that names the authenticated reviewer, issuer and role;
  no other assessment's row, checkpoint or events change.\<close>

theorem approval_publishes_reviewed_candidate:
  assumes "approve gv i request actor s = (Inr d, s')"
  shows "\<exists>row rt es row' rt' ev candidate.
           case_of (live s) i = (Some row, Some rt, es) \<and>
           rt_review_status rt = Review_PENDING \<and> rt_candidate_result rt = Some candidate \<and>
           case_of (durable s') i = (Some row', Some rt', es @ [ev]) \<and>
           row_status row' = Status_COMPLETED \<and> row_result_payload row' = Some candidate \<and>
           rt_review_status rt' = Review_APPROVED \<and> rt_gate_result rt' = rt_gate_result rt \<and>
           re_action ev = Act_APPROVED \<and> re_reviewer_subject ev = map_option pr_subject actor \<and>
           re_reviewer_issuer ev = map_option pr_issuer actor \<and>
           re_reviewer_role ev = map_option (\<lambda>p. role_value (audit_role p)) actor \<and>
           only i (live s) (durable s')"
  using approve_Inr[OF assms]
  by (elim exE conjE) (simp add: reviewed_def completed_effect_def)

definition sample_reviewer :: AuthenticatedPrincipal where
  "sample_reviewer =
     \<lparr>pr_subject = py ''r'', pr_email = None, pr_display_name = None, pr_roles = [Role_REVIEWER],
      pr_issuer = py ''idp''\<rparr>"



lemma sample_approval_runs:
  "\<exists>d s'. approve sample_governance 1 sample_review (Some sample_reviewer) (sample_session []) = (Inr d, s')"
  using quiet_approve[of "sample_session []" 1 sample_checkpoint "[(py ''x'', JNull)]" sample_governance
      sample_review "Some sample_reviewer"] sample_store_ok
  by (auto simp: sample_session_def sample_store_def sample_checkpoint_def)

theorem approval_publishes_reviewed_candidate_witness:
  "\<exists>d s' row' rt' ev. approve sample_governance 1 sample_review (Some sample_reviewer) (sample_session []) = (Inr d, s') \<and>
     case_of (durable s') 1 = (Some row', Some rt', [sample_request_event, ev]) \<and>
     row_result_payload row' = Some [(py ''x'', JNull)] \<and>
     re_reviewer_subject ev = Some (py ''r'')"
proof -
  obtain d s' where run: "approve sample_governance 1 sample_review (Some sample_reviewer) (sample_session []) = (Inr d, s')"
    using sample_approval_runs by blast
  have c: "case_of (live (sample_session [])) 1 = (Some sample_row, Some sample_checkpoint, [sample_request_event])"
    using sample_cases by (simp add: sample_session_def)
  from approval_publishes_reviewed_candidate[OF run] c run show ?thesis
    by (auto simp: sample_checkpoint_def sample_reviewer_def)
qed

text \<open>C6: review actions are all or nothing under every database failure: when an approval, a
  rejection, a revision request or a resumed revision raises, at whatever call, the committed
  tables are what they were.\<close>

theorem review_actions_atomic:
  assumes "approve gv i request actor s = (Inl e, s') \<or> reject gv i request actor s = (Inl e, s') \<or>
           request_revision gv i request actor s = (Inl e, s') \<or> resume_revision gv a s = (Inl e, s')"
  shows "durable s' = durable s"
  using assms
  by (elim disjE) (erule atomicD[OF atomic_approve] atomicD[OF atomic_reject]
      atomicD[OF atomic_request_revision] atomicD[OF atomic_resume_revision])+

lemma sample_reject_fault:
  "\<exists>s'. reject sample_governance 1 sample_review None
      (sample_session [None, None, None, Some OperationalError]) = (Inl (SqlExc OperationalError), s')"
proof -
  let ?s = "sample_session [None, None, None, Some OperationalError]"
  obtain st where st: "state_from_model 1 sample_checkpoint = Inr st"
    using sample_telemetry_ok
    by (auto simp: state_from_model_def sample_checkpoint_def gate_result_ok_def)
  have "ras_review_status st = Review_PENDING"
    using state_from_model_Inr(3)[OF st] by (simp add: sample_checkpoint_def)
  with st have "required_pending_state 1 ?s = (Inr st, ?s\<lparr>faults := [None, Some OperationalError]\<rparr>)"
    by (simp add: required_pending_state_def required_state_def required_assessment_def
      repo_get_by_id_def get_state_def bindE_def catchE_def requireE_def getE_def returnE_def liftE_def
      db_call_def sample_session_def sample_store_def)
  moreover have "\<exists>s'. mark_failed 1 (py ''human_review_rejected'')
      (py ''The assessment was rejected during human review.'')
      (?s\<lparr>faults := [None, Some OperationalError]\<rparr>) = (Inl (SqlExc OperationalError), s')"
    by (simp add: mark_failed_def repo_update_def bindE_def db_call_def getE_def read_clock_def
      Let_def flush_with_def sample_session_def sample_store_def)
  ultimately show ?thesis by (auto simp: reject_def bindE_step intro: bindE_stop)
qed

theorem review_actions_atomic_witness:
  "\<exists>s'. reject sample_governance 1 sample_review None
      (sample_session [None, None, None, Some OperationalError]) = (Inl (SqlExc OperationalError), s') \<and>
      durable s' = sample_store"
proof -
  obtain s' where run: "reject sample_governance 1 sample_review None
      (sample_session [None, None, None, Some OperationalError]) = (Inl (SqlExc OperationalError), s')"
    using sample_reject_fault by blast
  then have "durable s' = durable (sample_session [None, None, None, Some OperationalError])"
    by (intro review_actions_atomic[of sample_governance 1 sample_review None _ "SqlExc OperationalError"]) blast
  with run show ?thesis by (auto simp: sample_session_def)
qed

text \<open>C5: every successful review action is a step of the abstract review protocol on its own case
  and keeps the consistency invariant (row, checkpoint and audit trail agree, revisions within the
  limit) of the whole store; the codec only has to dump results to non-empty objects.\<close>

theorem review_actions_refine_protocol:
  assumes "codec_ok gv" and "store_ok (live s)" and "ca_assessment_id a = i"
    and "(\<exists>d. approve gv i request actor s = (Inr d, s')) \<or> (\<exists>d. reject gv i request actor s = (Inr d, s')) \<or>
         (\<exists>d. request_revision gv i request actor s = (Inr d, s')) \<or> (\<exists>r. resume_revision gv a s = (Inr r, s'))"
  shows "phase_step (phase_of (case_of (live s) i)) (phase_of (case_of (durable s') i)) \<and>
         only i (live s) (durable s') \<and> store_ok (durable s')"
proof -
  have c: "case_ok (case_of (live s) i)" using assms(2) by (simp add: store_ok_def)
  have a: "a\<lparr>ca_assessment_id := i\<rparr> = a" using assms(3) by simp
  have "(case_ok (case_of (durable s') i) \<and>
         phase_step (phase_of (case_of (live s) i)) (phase_of (case_of (durable s') i))) \<and>
        only i (live s) (durable s')"
    using assms(1,4) approving.act_case[where a = "(gv, request, actor)" and s = s and i = i and s' = s', OF _ c]
      rejecting.act_case[where a = "(gv, request, actor)" and s = s and i = i and s' = s', OF _ c]
      revising.act_case[where a = "(gv, request, actor)" and s = s and i = i and s' = s', OF _ c]
      resuming.act_case[where a = "(gv, a)" and s = s and i = i and s' = s', OF _ c]
      approving.act_only[where a = "(gv, request, actor)" and s = s and i = i and s' = s']
      rejecting.act_only[where a = "(gv, request, actor)" and s = s and i = i and s' = s']
      revising.act_only[where a = "(gv, request, actor)" and s = s and i = i and s' = s']
      resuming.act_only[where a = "(gv, a)" and s = s and i = i and s' = s']
    unfolding prod.case a by blast
  with store_ok_only[OF assms(2)] show ?thesis by blast
qed

definition sample_candidate :: candidate_args where
  "sample_candidate =
     \<lparr>ca_assessment_id = 1,
      ca_result =
        \<lparr>res_executive_summary = [], res_problem_analysis =
           \<lparr>pa_core_problem = [], pa_current_process_weaknesses = [], pa_key_bottlenecks = []\<rparr>,
         res_ai_suitability = \<lparr>suit_level = Suitability_HIGH, suit_rationale = []\<rparr>,
         res_recommended_use_cases = [],
         res_recommended_solution = \<lparr>sol_pattern = DETERMINISTIC_AUTOMATION, sol_description = [], sol_rationale = []\<rparr>,
         res_risks = [],
         res_human_oversight =
           \<lparr>ho_review_recommended = False, ho_decisions_requiring_review = [], ho_rationale = []\<rparr>,
         res_next_steps = [], res_assumptions = [], res_information_gaps = [],
         res_external_evidence_status = Evidence_NOT_RETRIEVED, res_source_references = []\<rparr>,
      ca_evidence = [],
      ca_execution = DeterministicExecution
        \<lparr>x_request_id = None, x_execution_mode = py ''deterministic'',
         x_preferred_execution_mode = None, x_routing_reason_codes = [],
         x_fallback_reason_codes = [], x_graph_retrieval = None\<rparr>,
      ca_duration_ms = 1, ca_provenance_valid = True, ca_retrieval_duration_ms = None,
      ca_signal_overrides = None, ca_revision_count = 0, ca_record_review_request = True\<rparr>"

theorem review_actions_refine_protocol_witness:
  "\<exists>d s'. approve sample_governance 1 sample_review (Some sample_reviewer) (sample_session []) = (Inr d, s') \<and>
     phase_step (Awaiting 0 1) (phase_of (case_of (durable s') 1)) \<and> store_ok (durable s')"
proof -
  obtain d s' where run: "approve sample_governance 1 sample_review (Some sample_reviewer) (sample_session []) = (Inr d, s')"
    using sample_approval_runs by blast
  have "codec_ok sample_governance" by (simp add: codec_ok_def sample_governance_def)
  moreover have l: "live (sample_session []) = sample_store" by (simp add: sample_session_def)
  ultimately have "phase_step (phase_of (case_of sample_store 1)) (phase_of (case_of (durable s') 1)) \<and>
      store_ok (durable s')"
    using review_actions_refine_protocol[of sample_governance "sample_session []" sample_candidate 1
        sample_review "Some sample_reviewer" s'] sample_store_ok run
    by (auto simp: sample_candidate_def)
  moreover have "phase_of (case_of sample_store 1) = Awaiting 0 1"
    unfolding sample_cases by (simp add: phase_of_checkpoint_def sample_checkpoint_def)
  ultimately show ?thesis using run by auto
qed

text \<open>C7: decided cases are final: once an assessment is published, blocked, approved, rejected or
  failed, every further review action on it is refused and commits nothing.\<close>

theorem decided_cases_are_final:
  assumes "codec_ok gv" and "store_ok (live s)" and "ca_assessment_id a = i"
    and "phase_of (case_of (live s) i) \<in> {Absent, Failed, Published, Blocked, Approved, Rejected}"
  shows "(\<exists>e s'. approve gv i request actor s = (Inl e, s') \<and> durable s' = durable s) \<and>
         (\<exists>e s'. reject gv i request actor s = (Inl e, s') \<and> durable s' = durable s) \<and>
         (\<exists>e s'. request_revision gv i request actor s = (Inl e, s') \<and> durable s' = durable s) \<and>
         (\<exists>e s'. resume_revision gv a s = (Inl e, s') \<and> durable s' = durable s)"
proof -
  have stuck: "\<not> phase_step (phase_of (case_of (live s) i)) q" for q
    using assms(4) by (auto elim: phase_step_from)
  have a: "a\<lparr>ca_assessment_id := i\<rparr> = a" using assms(3) by simp
  show ?thesis
    using approving.act_refused[where a = "(gv, request, actor)" and s = s and i = i, OF _ assms(2) stuck]
      rejecting.act_refused[where a = "(gv, request, actor)" and s = s and i = i, OF _ assms(2) stuck]
      revising.act_refused[where a = "(gv, request, actor)" and s = s and i = i, OF _ assms(2) stuck]
      resuming.act_refused[where a = "(gv, a)" and s = s and i = i, OF _ assms(2) stuck] assms(1)
    unfolding prod.case a by blast
qed

theorem decided_cases_are_final_witness:
  "\<exists>e s'. approve sample_governance 2 sample_review None (sample_session []) = (Inl e, s') \<and>
     durable s' = sample_store"
proof -
  have "codec_ok sample_governance" by (simp add: codec_ok_def sample_governance_def)
  moreover have "phase_of (case_of sample_store 2) = Failed"
    by (simp add: case_of_def sample_store_def)
  ultimately show ?thesis
    using decided_cases_are_final[of sample_governance "sample_session []" "sample_candidate\<lparr>ca_assessment_id := 2\<rparr>" 2
       sample_review None] sample_store_ok
    by (auto simp: sample_session_def)
qed

text \<open>The limit that a resumed revision is stored under is the current policy's, with the
  revision count taken from the checkpoint. When the policy has been lowered below the count, the
  regenerated candidate violates the table's revision bounds, so resuming always raises; the
  checkpoint stays in the revision-requested state, in which approval and rejection are refused too.\<close>

theorem lowered_limit_strands_revision:
  assumes "map_of (t_runtime_states (live s)) i = Some rt" and "ca_assessment_id a = i"
    and "rt_review_status rt = Review_REVISION_REQUESTED"
    and "pol_max_human_revisions (gv_policy gv) < rt_revision_count rt"
  shows "(\<exists>e s'. resume_revision gv a s = (Inl e, s') \<and> durable s' = durable s) \<and>
         (\<exists>e s'. approve gv i request actor s = (Inl e, s') \<and> durable s' = durable s) \<and>
         (\<exists>e s'. reject gv i request actor s = (Inl e, s') \<and> durable s' = durable s)"
proof -
  have no_resume: "resume_revision gv a s \<noteq> (Inr r, s')" for r s'
    using resume_revision_Inr[of gv a s r s'] assms
    by (auto simp: case_of_def checkpoint_ok_def runtime_row_ok_def)
  have no_approve: "approve gv i request actor s \<noteq> (Inr d, s')" for d s'
    using approve_Inr[of gv i request actor s d s'] assms(1,3) by (auto simp: case_of_def reviewed_def)
  have no_reject: "reject gv i request actor s \<noteq> (Inr d, s')" for d s'
    using reject_Inr[of gv i request actor s d s'] assms(1,3) by (auto simp: case_of_def reviewed_def)
  have fails: "\<exists>e s'. m s = (Inl e, s') \<and> durable s' = durable s"
    if "\<And>r s'. m s \<noteq> (Inr r, s')" and "atomic m" for m :: "'x db"
  proof (cases "m s")
    case (Pair r s')
    with that(1) obtain e where "m s = (Inl e, s')" by (cases r) auto
    with atomicD[OF that(2)] show ?thesis by blast
  qed
  show ?thesis
    using fails[OF no_resume atomic_resume_revision] fails[OF no_approve atomic_approve]
      fails[OF no_reject atomic_reject] by blast
qed

theorem lowered_limit_strands_revision_witness:
  "\<exists>e s'. resume_revision sample_governance sample_candidate
     ((sample_session [])\<lparr>live := sample_store\<lparr>t_runtime_states :=
        [(1, sample_checkpoint\<lparr>rt_review_status := Review_REVISION_REQUESTED, rt_revision_count := 3,
               rt_max_revisions := 3\<rparr>)]\<rparr>\<rparr>) = (Inl e, s') \<and> durable s' = sample_store"
  using lowered_limit_strands_revision[of "(sample_session [])\<lparr>live := sample_store\<lparr>t_runtime_states :=
        [(1, sample_checkpoint\<lparr>rt_review_status := Review_REVISION_REQUESTED, rt_revision_count := 3,
               rt_max_revisions := 3\<rparr>)]\<rparr>\<rparr>" 1 _ sample_candidate sample_governance]
  by (simp add: sample_session_def sample_candidate_def sample_governance_def default_policy_def)

end
