(* ===== verification/Product_Read.thy ===== *)
theory Product_Read
  imports Review_Properties "HOL-Library.Multiset"
begin

text \<open>
  The read side of the product interface (\<^verbatim>\<open>app/services/product_read.py\<close>,
  \<^verbatim>\<open>app/schemas/product.py\<close>): pages of compact assessment rows joined with their runtime
  checkpoints, and the totals of the dashboard, over the aggregate queries of both repositories.

  The text that \<open>str\<close> gives for a JSON value that is not a string is an argument.
\<close>

section \<open>Aggregate queries\<close>

text \<open>\<open>SELECT key, count(*) GROUP BY key\<close> as a dictionary. The order of the groups is the database's choice;
  here they stand in the order of their first row.\<close>

definition group_counts :: "('a \<Rightarrow> pystr) \<Rightarrow> 'a list \<Rightarrow> (pystr, nat) dict" where
  "group_counts key rows = map (\<lambda>k. (k, length (filter (\<lambda>r. key r = k) rows))) (dedup (map key rows))"

definition count_by_status :: "(pystr, nat) dict db" where
  "count_by_status =
     bindE db_call (\<lambda>_. getE (\<lambda>s. group_counts (\<lambda>p. status_value (row_status (snd p))) (t_assessments (live s))))"

definition count_by_gate_decision :: "(pystr, nat) dict db" where
  "count_by_gate_decision =
     bindE db_call (\<lambda>_. getE (\<lambda>s.
       group_counts (\<lambda>p. decision_value (gr_decision (rt_gate_result (snd p)))) (t_runtime_states (live s))))"

definition count_by_review_status :: "(pystr, nat) dict db" where
  "count_by_review_status =
     bindE db_call (\<lambda>_. getE (\<lambda>s.
       group_counts (\<lambda>p. review_status_value (rt_review_status (snd p))) (t_runtime_states (live s))))"

fun states_from_models :: "(uuid, runtime_row) dict \<Rightarrow> py_exc + (uuid, RuntimeAssessmentState) dict" where
  "states_from_models [] = Inr []"
| "states_from_models ((i, r) # rest) =
     (case state_from_model i r of
        Inl e \<Rightarrow> Inl e
      | Inr st \<Rightarrow> map_sum id (\<lambda>d. (i, st) # d) (states_from_models rest))"

definition get_states :: "uuid list \<Rightarrow> (uuid, RuntimeAssessmentState) dict db" where
  "get_states assessment_ids =
     (if assessment_ids = [] then returnE []
      else bindE db_call (\<lambda>_.
           bindE (getE (\<lambda>s. filter (\<lambda>p. fst p \<in> set assessment_ids) (t_runtime_states (live s)))) (\<lambda>models.
           liftE (states_from_models models))))"

section \<open>Rows and pages\<close>

record AssessmentListItem =
  li_assessment_id :: uuid
  li_company_name :: pystr
  li_industry :: pystr
  li_business_problem :: pystr
  li_status :: AssessmentStatus
  li_execution_mode :: "pystr option"
  li_created_by_subject :: "pystr option"
  li_runtime_decision :: "RuntimeRiskDecision option"
  li_risk_level :: "RuntimeRiskLevel option"
  li_reason_codes :: "RuntimeReasonCode list"
  li_review_status :: "HumanReviewStatus option"
  li_request_id :: "pystr option"
  li_created_at :: instant
  li_updated_at :: instant
  li_completed_at :: "instant option"

record AssessmentListResponse =
  lr_items :: "AssessmentListItem list"
  lr_total :: nat
  lr_offset :: nat
  lr_limit :: nat
  lr_status_counts :: "(pystr, nat) dict"
  lr_runtime_decision_counts :: "(pystr, nat) dict"
  lr_review_status_counts :: "(pystr, nat) dict"

definition py_str :: "(json \<Rightarrow> pystr) \<Rightarrow> json \<Rightarrow> pystr" where
  "py_str repr v = (case v of JStr s \<Rightarrow> s | _ \<Rightarrow> repr v)"

text \<open>\<open>str(request.get(key, default))\<close>.\<close>

definition str_get :: "(json \<Rightarrow> pystr) \<Rightarrow> json_object \<Rightarrow> string \<Rightarrow> string \<Rightarrow> pystr" where
  "str_get repr d key fallback =
     (case map_of d (py key) of None \<Rightarrow> py fallback | Some v \<Rightarrow> py_str repr v)"

text \<open>\<open>str(v) if v is not None else None\<close>.\<close>

definition opt_str :: "(json \<Rightarrow> pystr) \<Rightarrow> json option \<Rightarrow> pystr option" where
  "opt_str repr v = (case v of None \<Rightarrow> None | Some JNull \<Rightarrow> None | Some w \<Rightarrow> Some (py_str repr w))"

definition to_list_item ::
  "(json \<Rightarrow> pystr) \<Rightarrow> PersistedAssessment \<Rightarrow> RuntimeAssessmentState option \<Rightarrow> AssessmentListItem" where
  "to_list_item repr row runtime =
     (let request = pa_request_payload row;
          execution = (case pa_execution_metadata row of None \<Rightarrow> [] | Some d \<Rightarrow> d);
          mode = map_of execution (py ''execution_mode'');
          mode = (if mode = Some (JStr (py ''agentic'')) then Some (JStr (py ''single_agent'')) else mode)
      in \<lparr>li_assessment_id = pa_assessment_id row,
          li_company_name = str_get repr request ''company_name'' ''Unknown organization'',
          li_industry = str_get repr request ''industry'' ''Unknown industry'',
          li_business_problem = str_get repr request ''business_problem'' ''Assessment'',
          li_status = pa_status row,
          li_execution_mode = opt_str repr mode,
          li_created_by_subject = pa_created_by_subject row,
          li_runtime_decision = map_option (\<lambda>r. gr_decision (ras_gate_result r)) runtime,
          li_risk_level = map_option (\<lambda>r. gr_risk_level (ras_gate_result r)) runtime,
          li_reason_codes = (case runtime of None \<Rightarrow> [] | Some r \<Rightarrow> gr_reason_codes (ras_gate_result r)),
          li_review_status = map_option ras_review_status runtime,
          li_request_id = opt_str repr (map_of execution (py ''request_id'')),
          li_created_at = pa_created_at row, li_updated_at = pa_updated_at row,
          li_completed_at = pa_completed_at row\<rparr>)"

definition read_page ::
  "(json \<Rightarrow> pystr) \<Rightarrow> AssessmentStatus option \<Rightarrow> nat \<Rightarrow> nat \<Rightarrow> AssessmentListResponse db" where
  "read_page repr status offset limit =
     bindE (list_page status offset limit) (\<lambda>records.
     bindE (get_states (map pa_assessment_id records)) (\<lambda>runtime_states.
     bindE (count_assessments status) (\<lambda>total.
     bindE count_by_status (\<lambda>by_status.
     bindE count_by_gate_decision (\<lambda>by_decision.
     bindE count_by_review_status (\<lambda>by_review.
       if limit < 1 then raiseE ValidationExc
       else returnE
         \<lparr>lr_items = map (\<lambda>r. to_list_item repr r (map_of runtime_states (pa_assessment_id r))) records,
          lr_total = total, lr_offset = offset, lr_limit = limit, lr_status_counts = by_status,
          lr_runtime_decision_counts = by_decision, lr_review_status_counts = by_review\<rparr>))))))"

definition list_assessments ::
  "(json \<Rightarrow> pystr) \<Rightarrow> AssessmentStatus option \<Rightarrow> nat \<Rightarrow> nat \<Rightarrow> AssessmentListResponse db" where
  "list_assessments repr status offset limit =
     catchE (read_page repr status offset limit)
       (\<lambda>e. case e of
              SqlExc q \<Rightarrow> raiseE (AppExc (if q = OperationalError then DatabaseUnavailableError else PersistenceError))
            | _ \<Rightarrow> raiseE e)"

section \<open>The identity of the session\<close>

record PrincipalResponse =
  pp_subject :: pystr
  pp_email :: "pystr option"
  pp_display_name :: "pystr option"
  pp_roles :: "pystr list"
  pp_issuer :: "pystr option"

text \<open>\<open>sorted(role.value for role in principal.roles)\<close>: the values sort as admin, analyst, reviewer.\<close>

definition principal_response :: "AuthenticatedPrincipal \<Rightarrow> PrincipalResponse" where
  "principal_response p =
     \<lparr>pp_subject = pr_subject p, pp_email = pr_email p, pp_display_name = pr_display_name p,
      pp_roles = map role_value (filter (\<lambda>r. r \<in> set (pr_roles p)) [Role_ADMIN, Role_ANALYST, Role_REVIEWER]),
      pp_issuer = Some (pr_issuer p)\<rparr>"

section \<open>Ordering\<close>

lemma insert_page_set [simp]: "set (insert_page x ys) = insert x (set ys)"
  by (induction ys) auto

lemma insert_page_mset [simp]: "mset (insert_page x ys) = add_mset x (mset ys)"
  by (induction ys) auto

lemma page_le_total: "\<not> page_le x y \<Longrightarrow> page_le y x"
  by (auto simp: page_le_def)

lemma page_le_trans: "page_le x y \<Longrightarrow> page_le y z \<Longrightarrow> page_le x z"
  by (auto simp: page_le_def)

lemma insert_page_sorted: "sorted_wrt page_le ys \<Longrightarrow> sorted_wrt page_le (insert_page x ys)"
  by (induction ys) (auto intro: page_le_total page_le_trans)

lemma order_page_ordered: "sorted_wrt page_le (order_page rows)" "mset (order_page rows) = mset rows"
  by (induction rows) (auto simp: order_page_def intro: insert_page_sorted)

lemma order_page_length [simp]: "length (order_page rows) = length rows"
  by (rule mset_eq_length[OF order_page_ordered(2)])

text \<open>Pages of a list.\<close>

lemma pages_cover: "concat (map (\<lambda>k. take n (drop (k * n) xs)) [0..<m]) = take (m * n) xs"
proof (induction m)
  case (Suc m)
  have "take (Suc m * n) xs = take (m * n) xs @ take n (drop (m * n) xs)"
    using take_add[of "m * n" n xs] by (simp add: algebra_simps)
  with Suc show ?case by simp
qed simp

section \<open>Totals\<close>

lemma group_counts_lookup:
  "map_of (group_counts key rows) k =
     (let n = length (filter (\<lambda>r. key r = k) rows) in if n = 0 then None else Some n)"
proof -
  have "k \<in> set (map key rows) \<longleftrightarrow> filter (\<lambda>r. key r = k) rows \<noteq> []" by (auto simp: filter_empty_conv)
  then show ?thesis
    by (auto simp: group_counts_def Let_def map_of_eq_None_iff image_image map_of_map_restrict restrict_map_def comp_def)
qed


text \<open>Checkpoints that pass the validators of \<open>_state_from_model\<close>.\<close>

definition checkpoints_readable :: "tables \<Rightarrow> bool" where
  "checkpoints_readable t \<longleftrightarrow> list_all (\<lambda>p. \<exists>st. state_from_model (fst p) (snd p) = Inr st) (t_runtime_states t)"

lemma states_from_models_readable:
  assumes "list_all (\<lambda>p. \<exists>st. state_from_model (fst p) (snd p) = Inr st) rows"
  shows "\<exists>d. states_from_models rows = Inr d \<and>
    (\<forall>i. map_of d i = Option.bind (map_of rows i) (\<lambda>r. case state_from_model i r of Inl _ \<Rightarrow> None | Inr st \<Rightarrow> Some st))"
  using assms
proof (induction rows)
  case (Cons p rows)
  then show ?case by (cases p) (auto split: option.split)
qed simp

lemma map_of_filter_fst: "i \<in> A \<Longrightarrow> map_of (filter (\<lambda>p. fst p \<in> A) rows) i = map_of rows i"
  by (induction rows) auto

section \<open>Reading does not write\<close>

lemma db_call_reads: "keepsE (\<lambda>s. live s = l \<and> durable s = d) db_call"
  by (auto simp: keepsE_def db_call_def split: list.split option.split)

lemma keepsE_basic_reads:
  "keepsE I (getE f)" "keepsE I (liftE r)"
  by (simp_all add: keepsE_def getE_def liftE_def)

lemma query_reads: "keepsE (\<lambda>s. live s = l \<and> durable s = d) (bindE db_call (\<lambda>_. getE f))"
  by (rule keepsE_bind[OF db_call_reads]) (simp add: keepsE_def getE_def)

lemma list_assessments_reads:
  "keepsE (\<lambda>s. live s = l \<and> durable s = d) (list_assessments repr status offset limit)"
proof -
  have states: "keepsE (\<lambda>s. live s = l \<and> durable s = d) (get_states ids)" for ids
    unfolding get_states_def by (auto intro!: keepsE_bind[OF db_call_reads] keepsE_bind simp: keepsE_basic_reads)
  have "keepsE (\<lambda>s. live s = l \<and> durable s = d) (read_page repr status offset limit)"
    unfolding read_page_def list_page_def count_assessments_def count_by_status_def count_by_gate_decision_def
      count_by_review_status_def
    by (intro keepsE_bind[OF query_reads] keepsE_bind[OF states]) (auto simp: keepsE_def raiseE_def returnE_def)
  then show ?thesis
    unfolding list_assessments_def by (intro keepsE_catch) (auto split: py_exc.split)
qed

lemma list_assessments_raises:
  assumes "list_assessments repr status offset limit s = (Inl e, s')"
  shows "e \<in> {AppExc DatabaseUnavailableError, AppExc PersistenceError} \<or> (\<forall>q. e \<noteq> SqlExc q)"
  using assms by (auto simp: list_assessments_def catchE_def raiseE_def split: prod.splits sum.splits py_exc.splits if_splits)


section \<open>Quiet runs\<close>

lemma quiet_query: "faults s = [] \<Longrightarrow> bindE db_call (\<lambda>_. getE f) s = (Inr (f s), s)"
  by (simp add: bindE_def db_call_def getE_def)

lemma quiet_states:
  assumes "faults s = []" and "checkpoints_readable (live s)"
  shows "\<exists>d. get_states ids s = (Inr d, s) \<and>
    (\<forall>i \<in> set ids. map_of d i = Option.bind (map_of (t_runtime_states (live s)) i)
       (\<lambda>r. case state_from_model i r of Inl _ \<Rightarrow> None | Inr st \<Rightarrow> Some st))"
proof (cases "ids = []")
  case True
  then show ?thesis by (simp add: get_states_def returnE_def)
next
  case False
  let ?rows = "filter (\<lambda>p. fst p \<in> set ids) (t_runtime_states (live s))"
  have "list_all (\<lambda>p. \<exists>st. state_from_model (fst p) (snd p) = Inr st) ?rows"
    using assms(2) by (auto simp: checkpoints_readable_def list_all_iff)
  from states_from_models_readable[OF this] False assms(1) show ?thesis
    by (auto simp: get_states_def bindE_def db_call_def getE_def liftE_def map_of_filter_fst)
qed

definition page_rows :: "AssessmentStatus option \<Rightarrow> tables \<Rightarrow> (uuid, assessment_row) dict" where
  "page_rows status t = order_page (status_filter status (t_assessments t))"

text \<open>What a page of the store is.\<close>

definition item_shows :: "tables \<Rightarrow> AssessmentListItem \<Rightarrow> bool" where
  "item_shows t i \<longleftrightarrow>
     li_review_status i = map_option rt_review_status (map_of (t_runtime_states t) (li_assessment_id i)) \<and>
     li_runtime_decision i = map_option (\<lambda>r. gr_decision (rt_gate_result r)) (map_of (t_runtime_states t) (li_assessment_id i))"

definition page_shows :: "tables \<Rightarrow> AssessmentStatus option \<Rightarrow> nat \<Rightarrow> nat \<Rightarrow> AssessmentListResponse \<Rightarrow> bool" where
  "page_shows t status offset limit r \<longleftrightarrow>
     map (\<lambda>i. (li_assessment_id i, li_status i)) (lr_items r) =
       map (\<lambda>p. (fst p, row_status (snd p))) (take limit (drop offset (page_rows status t))) \<and>
     list_all (item_shows t) (lr_items r) \<and> lr_total r = length (page_rows status t) \<and>
     lr_status_counts r = group_counts (\<lambda>p. status_value (row_status (snd p))) (t_assessments t)"

lemma item_shows_joined:
  assumes "checkpoints_readable t"
    and "st = Option.bind (map_of (t_runtime_states t) (pa_assessment_id x))
      (\<lambda>r. case state_from_model (pa_assessment_id x) r of Inl _ \<Rightarrow> None | Inr st \<Rightarrow> Some st)"
  shows "item_shows t (to_list_item repr x st)"
proof (cases "map_of (t_runtime_states t) (pa_assessment_id x)")
  case None
  with assms(2) show ?thesis by (simp add: item_shows_def to_list_item_def Let_def)
next
  case (Some r)
  with assms(1) map_of_SomeD[OF Some] obtain y where y: "state_from_model (pa_assessment_id x) r = Inr y"
    by (force simp: checkpoints_readable_def list_all_iff)
  then have "ras_review_status y = rt_review_status r \<and> ras_gate_result y = rt_gate_result r"
    by (auto simp: state_from_model_def split: if_splits)
  with Some y assms(2) show ?thesis by (simp add: item_shows_def to_list_item_def Let_def)
qed

lemma quiet_page:
  assumes "faults s = []" and "checkpoints_readable (live s)" and "0 < limit"
  shows "\<exists>r. list_assessments repr status offset limit s = (Inr r, s) \<and> page_shows (live s) status offset limit r"
proof -
  let ?page = "take limit (drop offset (page_rows status (live s)))"
  let ?records = "map (\<lambda>p. to_record (fst p) (snd p)) ?page"
  obtain d where d: "get_states (map pa_assessment_id ?records) s = (Inr d, s)"
    "\<forall>i \<in> set (map pa_assessment_id ?records). map_of d i = Option.bind (map_of (t_runtime_states (live s)) i)
       (\<lambda>r. case state_from_model i r of Inl _ \<Rightarrow> None | Inr st \<Rightarrow> Some st)"
    using quiet_states[OF assms(1,2)] by blast
  define items where "items = map (\<lambda>r. to_list_item repr r (map_of d (pa_assessment_id r))) ?records"
  obtain r where run: "list_assessments repr status offset limit s = (Inr r, s)"
    and r: "lr_items r = items" "lr_total r = length (status_filter status (t_assessments (live s)))"
      "lr_status_counts r = group_counts (\<lambda>p. status_value (row_status (snd p))) (t_assessments (live s))"
    unfolding list_assessments_def read_page_def list_page_def count_assessments_def count_by_status_def
      count_by_gate_decision_def count_by_review_status_def page_rows_def[symmetric] items_def
    using assms(1,3) d(1) by (simp add: catchE_def bindE_def db_call_def getE_def returnE_def)
  have "item_shows (live s) i" if "i \<in> set items" for i
  proof -
    from that obtain x where x: "x \<in> set ?records" "i = to_list_item repr x (map_of d (pa_assessment_id x))"
      unfolding items_def by auto
    from x(1) have "pa_assessment_id x \<in> set (map pa_assessment_id ?records)" by auto
    with d(2) x(2) item_shows_joined[OF assms(2)] show ?thesis by blast
  qed
  moreover have "map (\<lambda>i. (li_assessment_id i, li_status i)) items = map (\<lambda>p. (fst p, row_status (snd p))) ?page"
    by (simp add: items_def to_list_item_def to_record_def Let_def)
  ultimately have "page_shows (live s) status offset limit r"
    using r by (simp add: page_shows_def list_all_iff page_rows_def)
  with run show ?thesis by blast
qed

section \<open>Properties\<close>


lemma sample_readable: "checkpoints_readable sample_store"
  by (simp add: checkpoints_readable_def sample_store_def sample_checkpoint_def state_from_model_def gate_result_ok_def
      sample_telemetry_ok)


end
