(* ===== verification/Evidence_Agent.thy ===== *)
theory Evidence_Agent
  imports Agent_Graph Agent_Prompts Assessment_Service Graph_Retrieval
begin

text \<open>
  The provider-backed agents: the contract of a structured model provider
  (\<^verbatim>\<open>app/providers/contracts.py\<close>, \<^verbatim>\<open>app/agents/structured_output.py\<close>), the single-agent adapter
  (\<^verbatim>\<open>app/agents/assessment_agent.py\<close>) and the Evidence Agent (\<^verbatim>\<open>app/agents/evidence_agent.py\<close>), whose
  finite loop asks for one tool per step, runs it through the permissions, merges what it observed
  and then keeps of the model's brief only what the observations support.

  A provider is a record of effects on the environment: one operation per output model.
\<close>

section \<open>Providers\<close>

record 'w StructuredModelProvider =
  smp_decide_tool_call ::
    "pystr \<Rightarrow> pystr \<Rightarrow> json_object list \<Rightarrow> int \<Rightarrow> ('w, py_exc, AgentToolRequest option) eff"
  smp_brief :: "pystr \<Rightarrow> pystr \<Rightarrow> ('w, py_exc, EvidenceBrief) eff"
  smp_architecture :: "pystr \<Rightarrow> pystr \<Rightarrow> ('w, py_exc, ArchitectureRecommendation) eff"
  smp_review :: "pystr \<Rightarrow> pystr \<Rightarrow> ('w, py_exc, RiskGovernanceReview) eff"
  smp_result :: "pystr \<Rightarrow> pystr \<Rightarrow> ('w, py_exc, AssessmentResult) eff"

section \<open>The single-agent adapter\<close>

record 'w OpenAIAssessmentAgent =
  oaa_provider :: "'w StructuredModelProvider"
  oaa_generate :: "AssessmentPrompt \<Rightarrow> ('w, py_exc, AssessmentResult) eff"
  oaa_context_json :: "AssessmentRequest \<Rightarrow> pystr"
  oaa_float_repr :: "rat \<Rightarrow> pystr"

definition agent_decide ::
  "'w OpenAIAssessmentAgent \<Rightarrow> AssessmentRequest \<Rightarrow> RetrievedEvidence list \<Rightarrow>
     ObservedKnowledgeDocument list \<Rightarrow> ToolHistoryEntry list \<Rightarrow> int \<Rightarrow> int \<Rightarrow> json_object list \<Rightarrow>
     ('w, py_exc, AgentDecision) eff" where
  "agent_decide a request evidence documents tool_history step max_steps tool_schemas =
     bindE (smp_decide_tool_call (oaa_provider a) AGENT_SYSTEM_INSTRUCTIONS
              (build_agent_reasoning_input (oaa_float_repr a) request evidence documents tool_history
                 step max_steps) tool_schemas 200) (\<lambda>decision.
     returnE (case decision of
         None \<Rightarrow> \<lparr>ad_action = Decide_SYNTHESIZE, ad_tool_request = None\<rparr>
       | Some call \<Rightarrow> \<lparr>ad_action = Decide_TOOL, ad_tool_request = Some call\<rparr>))"

definition agent_synthesize ::
  "'w OpenAIAssessmentAgent \<Rightarrow> AssessmentRequest \<Rightarrow> RetrievedEvidence list \<Rightarrow>
     ObservedKnowledgeDocument list \<Rightarrow> ('w, py_exc, AssessmentResult) eff" where
  "agent_synthesize a request evidence documents =
     oaa_generate a (build_assessment_prompt (oaa_context_json a) request
       (build_agent_synthesis_context evidence documents))"

definition assessment_agent :: "'w OpenAIAssessmentAgent \<Rightarrow> 'w AssessmentAgent" where
  "assessment_agent a = \<lparr>aa_decide = agent_decide a, aa_synthesize = agent_synthesize a\<rparr>"

section \<open>The Evidence Agent\<close>

record 'w OpenAIEvidenceAgent =
  ea_provider :: "'w StructuredModelProvider"
  ea_tools :: "'w ToolRegistry"
  ea_max_steps :: int
  ea_max_tool_calls :: int
  ea_strip :: stripper
  ea_float_repr :: "rat \<Rightarrow> pystr"

record EvidenceAgentOutcome =
  eo_brief :: EvidenceBrief
  eo_evidence :: "RetrievedEvidence list"
  eo_documents :: "ObservedKnowledgeDocument list"
  eo_tool_history :: "ToolHistoryEntry list"
  eo_steps_used :: int
  eo_termination_reason :: AgentTerminationReason
  eo_graph_neighborhoods :: "GraphNeighborhood list"
  eo_graph_retrieval :: "GraphRetrievalExecutionMetadata option"

text \<open>The local variables of \<open>gather\<close>.\<close>

record gathering =
  ga_evidence :: "RetrievedEvidence list"
  ga_documents :: "ObservedKnowledgeDocument list"
  ga_neighborhoods :: "GraphNeighborhood list"
  ga_history :: "ToolHistoryEntry list"
  ga_cache :: tool_cache
  ga_steps_used :: int

definition gathering_start :: gathering where
  "gathering_start =
     \<lparr>ga_evidence = [], ga_documents = [], ga_neighborhoods = [], ga_history = [], ga_cache = [],
      ga_steps_used = 0\<rparr>"

definition request_tool ::
  "'w OpenAIEvidenceAgent \<Rightarrow> AssessmentRequest \<Rightarrow> gathering \<Rightarrow> int \<Rightarrow> ('w, AgentToolRequest option) tool" where
  "request_tool ea request g step =
     in_env (smp_decide_tool_call (ea_provider ea) EVIDENCE_AGENT_SYSTEM_INSTRUCTIONS
       (build_evidence_decision_input (ea_float_repr ea) request (ga_evidence g) (ga_documents g)
          (ga_history g) (ga_neighborhoods g) step (ea_max_steps ea))
       (schemas_for Agent_EVIDENCE (ea_tools ea)) 200)"

definition merge_observations :: "gathering \<Rightarrow> ToolExecutionResult \<Rightarrow> gathering" where
  "merge_observations g result =
     (let existing_chunks = map ev_chunk_id (ga_evidence g)
      in g\<lparr>ga_evidence := ga_evidence g @
              filter (\<lambda>item. ev_chunk_id item \<notin> set existing_chunks) (te_evidence result),
           ga_documents :=
             (case te_document result of
                None \<Rightarrow> ga_documents g
              | Some d \<Rightarrow>
                  if \<forall>item \<in> set (ga_documents g). od_document_id item \<noteq> od_document_id d
                  then ga_documents g @ [d] else ga_documents g),
           ga_neighborhoods := ga_neighborhoods g @
             (case te_graph_neighborhood result of None \<Rightarrow> [] | Some n \<Rightarrow> [n])\<rparr>)"

definition evidence_history_entry ::
  "int \<Rightarrow> pystr \<Rightarrow> ToolExecutionResult \<Rightarrow> pystr \<Rightarrow> pystr list \<Rightarrow> ToolHistoryEntry" where
  "evidence_history_entry step name result fp keys =
     \<lparr>th_step = step, th_tool_name = name, th_success = te_success result,
      th_summary = te_summary result, th_argument_keys = keys, th_call_fingerprint = fp,
      th_cached = te_cached result, th_error_code = te_error_code result,
      th_graph_retrieval = te_graph_retrieval result\<rparr>"

definition record_call ::
  "gathering \<Rightarrow> int \<Rightarrow> pystr \<Rightarrow> (ToolExecutionResult \<times> pystr \<times> pystr list) \<times> tool_cache option \<Rightarrow> gathering" where
  "record_call g step name r =
     (case r of ((result, fp, keys), cache) \<Rightarrow>
        merge_observations
          (g\<lparr>ga_history := ga_history g @ [evidence_history_entry step name result fp keys],
             ga_cache := (case cache of Some c \<Rightarrow> c | None \<Rightarrow> ga_cache g)\<rparr>) result)"

text \<open>
  The loop over \<open>range(1, max_steps + 1)\<close> with its \<open>else\<close> branch: it ends at the tool-call
  limit, when the model asks for no tool, or when the steps are used up.
\<close>

primrec gather_loop ::
  "'w OpenAIEvidenceAgent \<Rightarrow> AssessmentRequest \<Rightarrow> int list \<Rightarrow> gathering \<Rightarrow>
     ('w, AgentTerminationReason \<times> gathering) tool" where
  "gather_loop ea request [] g = returnE (Term_MAX_STEPS_REACHED, g)"
| "gather_loop ea request (step # steps) g =
     (if int (length (ga_history g)) \<ge> ea_max_tool_calls ea
      then returnE (Term_MAX_TOOL_CALLS_REACHED, g)
      else bindE (request_tool ea request g step) (\<lambda>call.
        case call of
          None \<Rightarrow> returnE (Term_AGENT_STOPPED, g\<lparr>ga_steps_used := step\<rparr>)
        | Some c \<Rightarrow>
            bindE (permitted_execute Agent_EVIDENCE (ea_tools ea) (atr_name c) (atr_arguments c)
                     (Some (ga_cache g))) (\<lambda>r.
              gather_loop ea request steps
                (record_call (g\<lparr>ga_steps_used := step\<rparr>) step (atr_name c) r))))"

text \<open>\<open>_sanitize_brief\<close>: an item keeps the identifiers that were observed, and is dropped without any.\<close>

primrec sanitize_items ::
  "stripper \<Rightarrow> uuid set \<Rightarrow> uuid set \<Rightarrow> EvidenceItem list \<Rightarrow> py_exc + EvidenceItem list" where
  "sanitize_items strip allowed_documents allowed_chunks [] = Inr []"
| "sanitize_items strip allowed_documents allowed_chunks (item # items) =
     (let document_ids = filter (\<lambda>x. x \<in> allowed_documents) (ei_supporting_document_ids item);
          chunk_ids = filter (\<lambda>x. x \<in> allowed_chunks) (ei_supporting_chunk_ids item)
      in if document_ids = [] \<and> chunk_ids = []
         then sanitize_items strip allowed_documents allowed_chunks items
         else (case mk_evidence_item strip (ei_claim item) document_ids chunk_ids
                      (ei_relevance item) (ei_notes item) of
             Inl e \<Rightarrow> Inl e
           | Inr kept \<Rightarrow>
               map_sum id (\<lambda>rest. kept # rest)
                 (sanitize_items strip allowed_documents allowed_chunks items)))"

definition sanitize_brief ::
  "stripper \<Rightarrow> EvidenceBrief \<Rightarrow> RetrievedEvidence list \<Rightarrow> ObservedKnowledgeDocument list \<Rightarrow>
     py_exc + EvidenceBrief" where
  "sanitize_brief strip brief evidence documents =
     (let allowed_documents = map ev_document_id evidence @ map od_document_id documents;
          allowed_chunks = map ev_chunk_id evidence
      in map_sum id
           (\<lambda>items. brief\<lparr>eb_evidence_items := items,
                          eb_retrieved_document_ids := sorted_by_str allowed_documents,
                          eb_retrieved_chunk_ids := sorted_by_str allowed_chunks\<rparr>)
           (sanitize_items strip (set allowed_documents) (set allowed_chunks)
              (eb_evidence_items brief)))"

text \<open>\<open>next((code for ... if code), None)\<close> from the last observation back.\<close>

definition last_code ::
  "(GraphRetrievalExecutionMetadata \<Rightarrow> pystr option) \<Rightarrow> GraphRetrievalExecutionMetadata list \<Rightarrow> pystr option" where
  "last_code field observations = Option.bind (find (\<lambda>x. str_truthy (field x)) (rev observations)) field"

definition aggregate_graph_metadata ::
  "ToolHistoryEntry list \<Rightarrow> py_exc + GraphRetrievalExecutionMetadata option" where
  "aggregate_graph_metadata history =
     (let observations = List.map_filter th_graph_retrieval history
      in if observations = [] then Inr None
         else let m = \<lparr>gx_graph_retrieval_used = list_ex gx_graph_retrieval_used observations,
                       gx_matched_entity_count = sum_list (map gx_matched_entity_count observations),
                       gx_relationship_count = sum_list (map gx_relationship_count observations),
                       gx_graph_depth_used = Max (set (map gx_graph_depth_used observations)),
                       gx_vector_evidence_count = sum_list (map gx_vector_evidence_count observations),
                       gx_graph_evidence_count = sum_list (map gx_graph_evidence_count observations),
                       gx_hybrid_evidence_count = sum_list (map gx_hybrid_evidence_count observations),
                       gx_degraded_graph_mode = list_ex gx_degraded_graph_mode observations,
                       gx_graph_error_code = last_code gx_graph_error_code observations,
                       gx_vector_error_code = last_code gx_vector_error_code observations\<rparr>
              in if graph_metadata_ok m then Inr (Some m) else Inl ValidationExc)"

definition finish_gathering ::
  "EvidenceBrief \<Rightarrow> AgentTerminationReason \<Rightarrow> gathering \<Rightarrow>
     GraphRetrievalExecutionMetadata option \<Rightarrow> EvidenceAgentOutcome" where
  "finish_gathering brief why g graph =
     \<lparr>eo_brief = brief, eo_evidence = ga_evidence g, eo_documents = ga_documents g,
      eo_tool_history = ga_history g, eo_steps_used = ga_steps_used g,
      eo_termination_reason = why, eo_graph_neighborhoods = ga_neighborhoods g,
      eo_graph_retrieval = graph\<rparr>"

definition gather ::
  "'w OpenAIEvidenceAgent \<Rightarrow> AssessmentRequest \<Rightarrow> ('w, EvidenceAgentOutcome) tool" where
  "gather ea request =
     bindE (gather_loop ea request [1..ea_max_steps ea] gathering_start) (\<lambda>(why, g).
     bindE (in_env (smp_brief (ea_provider ea) EVIDENCE_BRIEF_SYSTEM_INSTRUCTIONS
              (build_evidence_brief_input (ea_float_repr ea) request (ga_evidence g) (ga_documents g)
                 (ga_neighborhoods g)))) (\<lambda>raw_brief.
     bindE (liftE (sanitize_brief (ea_strip ea) raw_brief (ga_evidence g) (ga_documents g))) (\<lambda>brief.
     bindE (liftE (aggregate_graph_metadata (ga_history g))) (\<lambda>graph.
     returnE (finish_gathering brief why g graph)))))"

section \<open>The loop\<close>

lemma permitted_execute_facts:
  assumes "permitted_execute agent r name raw cache s = (out, s')"
  shows "tw_invoked s \<le> tw_invoked s' \<and> tw_invoked s' \<le> Suc (tw_invoked s)"
    and "out = Inr ((result, fp, keys), c) \<Longrightarrow> te_success result \<Longrightarrow> name \<in> set (permissions agent)"
proof -
  show "tw_invoked s \<le> tw_invoked s' \<and> tw_invoked s' \<le> Suc (tw_invoked s)"
  proof (cases "name \<in> set (permissions agent)")
    case True
    then have "registry_execute r name raw cache s = (out, s')" using assms by (simp add: permitted_execute_def)
    then show ?thesis
    proof (cases rule: registry_execute_cases)
      case (ran d a fp result)
      then show ?thesis using invoke_tool_run[of r name "td_handler d a" s] by force
    qed simp_all
  qed (use assms in \<open>auto simp: permitted_execute_def bindE_def eff_simps split: sum.splits\<close>)
  show "name \<in> set (permissions agent)" if "out = Inr ((result, fp, keys), c)" "te_success result"
    using assms that
    by (auto simp: permitted_execute_def bindE_def eff_simps tool_failure_def tool_result_def
        split: sum.splits if_splits)
qed

lemma merge_observations_history [simp]:
  "ga_history (merge_observations g result) = ga_history g"
  "ga_steps_used (merge_observations g result) = ga_steps_used g"
  by (simp_all add: merge_observations_def Let_def)

lemma record_call_history:
  "\<exists>h. ga_history (record_call g step name ((result, fp, keys), c)) = ga_history g @ [h] \<and>
       th_step h = step \<and> th_tool_name h = name \<and> th_success h = te_success result"
  "ga_steps_used (record_call g step name ((result, fp, keys), c)) = ga_steps_used g"
  by (simp_all add: record_call_def evidence_history_entry_def)

text \<open>What holds between two steps: one call per step so far, none beyond the limit, every
  successful one permitted, and no handler invocation without a history entry.\<close>

definition gathering_ok :: "'w OpenAIEvidenceAgent \<Rightarrow> nat \<Rightarrow> gathering \<Rightarrow> 'w tool_world \<Rightarrow> bool" where
  "gathering_ok ea n g s \<longleftrightarrow>
     int (length (ga_history g)) \<le> max 0 (ea_max_tool_calls ea) \<and>
     map th_step (ga_history g) = [1..int (length (ga_history g))] \<and>
     (\<forall>h \<in> set (ga_history g). th_success h \<longrightarrow> th_tool_name h \<in> set EVIDENCE_TOOL_NAMES) \<and>
     tw_invoked s \<le> n + length (ga_history g)"

lemma gathering_ok_step:
  assumes "gathering_ok ea n g s" and "int (length (ga_history g)) < ea_max_tool_calls ea"
    and "tw_invoked s1 = tw_invoked s"
    and "permitted_execute Agent_EVIDENCE (ea_tools ea) name raw cache s1 = (Inr r, s')"
    and "step = int (length (ga_history g)) + 1"
  shows "gathering_ok ea n (record_call (g\<lparr>ga_steps_used := step\<rparr>) step name r) s' \<and>
         length (ga_history (record_call (g\<lparr>ga_steps_used := step\<rparr>) step name r)) = Suc (length (ga_history g))"
proof -
  obtain result fp keys c where r: "r = ((result, fp, keys), c)" by (metis prod.exhaust)
  let ?g = "record_call (g\<lparr>ga_steps_used := step\<rparr>) step name r"
  obtain h where h: "ga_history ?g = ga_history g @ [h]" "th_step h = step" "th_tool_name h = name"
    "th_success h = te_success result"
    using record_call_history(1)[of "g\<lparr>ga_steps_used := step\<rparr>" step name result fp keys c] r by auto
  have "th_success h \<longrightarrow> name \<in> set EVIDENCE_TOOL_NAMES"
    using permitted_execute_facts(2)[OF assms(4), of result fp keys c] r h(4) by auto
  moreover have "tw_invoked s' \<le> Suc (tw_invoked s)"
    using permitted_execute_facts(1)[OF assms(4)] assms(3) by simp
  moreover have "[1..int (length (ga_history g)) + 1] = [1..int (length (ga_history g))] @ [step]"
    using assms(5) by (simp add: upto_rec2)
  ultimately show ?thesis using assms(1,2) h unfolding gathering_ok_def by (auto simp: add.commute)
qed

lemma in_env_invoked: "in_env m s = (r, s') \<Longrightarrow> tw_invoked s' = tw_invoked s"
  by (auto simp: in_env_def split: prod.splits)

lemma gather_loop_ok:
  assumes "gather_loop ea request steps g s = (Inr (why, g'), s')" and "gathering_ok ea n g s"
    and "steps = [int (length (ga_history g)) + 1..ea_max_steps ea]"
    and "ga_steps_used g = int (length (ga_history g))"
    and "int (length (ga_history g)) \<le> max 0 (ea_max_steps ea)"
  shows "gathering_ok ea n g' s' \<and> ga_steps_used g' \<le> max 0 (ea_max_steps ea) \<and>
    (why = Term_AGENT_STOPPED \<and> ga_steps_used g' = int (length (ga_history g')) + 1 \<or>
     ga_steps_used g' = int (length (ga_history g')) \<and>
       (why = Term_MAX_STEPS_REACHED \<and> ga_steps_used g' = max 0 (ea_max_steps ea) \<or>
        why = Term_MAX_TOOL_CALLS_REACHED \<and> ga_steps_used g' = max 0 (ea_max_tool_calls ea) \<and>
          ga_steps_used g' < ea_max_steps ea))"
  using assms
proof (induction steps arbitrary: g s)
  case Nil
  then have "ea_max_steps ea < int (length (ga_history g)) + 1" by simp
  then show ?case using Nil by (auto simp: returnE_def)
next
  case (Cons step steps)
  then have step: "step = int (length (ga_history g)) + 1" "step \<le> ea_max_steps ea"
    and steps: "steps = [2 + int (length (ga_history g))..ea_max_steps ea]"
    by (auto simp: upto.simps[of "int (length (ga_history g)) + 1"] split: if_splits)
  show ?case
  proof (cases "int (length (ga_history g)) \<ge> ea_max_tool_calls ea")
    case True
    then show ?thesis using Cons.prems step by (auto simp: returnE_def gathering_ok_def)
  next
    case False
    then obtain call s1 where call: "request_tool ea request g step s = (Inr call, s1)"
      and rest: "(case call of None \<Rightarrow> returnE (Term_AGENT_STOPPED, g\<lparr>ga_steps_used := step\<rparr>)
        | Some c \<Rightarrow> bindE (permitted_execute Agent_EVIDENCE (ea_tools ea) (atr_name c) (atr_arguments c)
                     (Some (ga_cache g))) (\<lambda>r. gather_loop ea request steps
                (record_call (g\<lparr>ga_steps_used := step\<rparr>) step (atr_name c) r))) s1 = (Inr (why, g'), s')"
      using Cons.prems(1) by (auto simp: bindE_eq_Inr)
    have inv: "tw_invoked s1 = tw_invoked s"
      using call unfolding request_tool_def by (rule in_env_invoked)
    show ?thesis
    proof (cases call)
      case None
      then show ?thesis using rest Cons.prems step inv by (auto simp: returnE_def gathering_ok_def)
    next
      case (Some c)
      then obtain r s2 where run: "permitted_execute Agent_EVIDENCE (ea_tools ea) (atr_name c) (atr_arguments c)
            (Some (ga_cache g)) s1 = (Inr r, s2)"
        and loop: "gather_loop ea request steps
            (record_call (g\<lparr>ga_steps_used := step\<rparr>) step (atr_name c) r) s2 = (Inr (why, g'), s')"
        using rest by (auto simp: bindE_eq_Inr)
      have "int (length (ga_history g)) < ea_max_tool_calls ea" using False by simp
      note ok = gathering_ok_step[OF Cons.prems(2) this inv run step(1)]
      have "ga_steps_used (record_call (g\<lparr>ga_steps_used := step\<rparr>) step (atr_name c) r) = step"
        by (cases r) (auto simp: record_call_history(2) split: prod.splits)
      then show ?thesis using loop ok steps step by (intro Cons.IH) auto
    qed
  qed
qed

section \<open>The brief\<close>

lemma sanitize_items_facts:
  assumes "sanitize_items strip D C items = Inr kept"
  shows "\<forall>i \<in> set kept. set (ei_supporting_document_ids i) \<subseteq> D \<and> set (ei_supporting_chunk_ids i) \<subseteq> C \<and>
           (ei_supporting_document_ids i \<noteq> [] \<or> ei_supporting_chunk_ids i \<noteq> []) \<and> evidence_item_ok i"
    and "length kept \<le> length items"
proof -
  have "(\<forall>i \<in> set kept. set (ei_supporting_document_ids i) \<subseteq> D \<and> set (ei_supporting_chunk_ids i) \<subseteq> C \<and>
           (ei_supporting_document_ids i \<noteq> [] \<or> ei_supporting_chunk_ids i \<noteq> []) \<and> evidence_item_ok i) \<and>
        length kept \<le> length items"
    using assms
  proof (induction items arbitrary: kept)
    case (Cons item items)
    show ?case
    proof (cases "filter (\<lambda>x. x \<in> D) (ei_supporting_document_ids item) = [] \<and>
                  filter (\<lambda>x. x \<in> C) (ei_supporting_chunk_ids item) = []")
      case True
      then have "sanitize_items strip D C items = Inr kept" using Cons.prems by (simp add: Let_def)
      then show ?thesis using Cons.IH by force
    next
      case False
      then obtain i rest where i: "mk_evidence_item strip (ei_claim item)
            (filter (\<lambda>x. x \<in> D) (ei_supporting_document_ids item))
            (filter (\<lambda>x. x \<in> C) (ei_supporting_chunk_ids item)) (ei_relevance item) (ei_notes item) = Inr i"
        and rest: "sanitize_items strip D C items = Inr rest" "kept = i # rest"
        using Cons.prems by (auto simp: Let_def map_sum_eq_Inr split: sum.splits if_splits)
      then have "evidence_item_ok i \<and>
          ei_supporting_document_ids i = filter (\<lambda>x. x \<in> D) (ei_supporting_document_ids item) \<and>
          ei_supporting_chunk_ids i = filter (\<lambda>x. x \<in> C) (ei_supporting_chunk_ids item)"
        by (auto simp: mk_evidence_item_def Let_def split: if_splits)
      then show ?thesis using False Cons.IH[OF rest(1)] rest(2) by auto
    qed
  qed simp
  then show "\<forall>i \<in> set kept. set (ei_supporting_document_ids i) \<subseteq> D \<and> set (ei_supporting_chunk_ids i) \<subseteq> C \<and>
           (ei_supporting_document_ids i \<noteq> [] \<or> ei_supporting_chunk_ids i \<noteq> []) \<and> evidence_item_ok i"
    and "length kept \<le> length items" by blast+
qed

lemma sorted_by_str_facts [simp]: "set (sorted_by_str ids) = set ids" "distinct (sorted_by_str ids)"
  by (simp_all add: sorted_by_str_def)

lemma sanitize_brief_facts:
  assumes "sanitize_brief strip raw evidence documents = Inr brief"
  shows "set (eb_retrieved_document_ids brief) = ev_document_id ` set evidence \<union> od_document_id ` set documents \<and>
    set (eb_retrieved_chunk_ids brief) = ev_chunk_id ` set evidence \<and>
    distinct (eb_retrieved_document_ids brief) \<and> distinct (eb_retrieved_chunk_ids brief) \<and>
    validate_item_provenance brief \<and>
    (\<forall>i \<in> set (eb_evidence_items brief). evidence_item_ok i \<and>
       (ei_supporting_document_ids i \<noteq> [] \<or> ei_supporting_chunk_ids i \<noteq> []))"
proof -
  let ?D = "map ev_document_id evidence @ map od_document_id documents" and ?C = "map ev_chunk_id evidence"
  obtain items where items: "sanitize_items strip (set ?D) (set ?C) (eb_evidence_items raw) = Inr items"
    and brief: "brief = raw\<lparr>eb_evidence_items := items, eb_retrieved_document_ids := sorted_by_str ?D,
        eb_retrieved_chunk_ids := sorted_by_str ?C\<rparr>"
    using assms by (auto simp: sanitize_brief_def Let_def map_sum_eq_Inr)
  show ?thesis
    using sanitize_items_facts(1)[OF items] unfolding brief by (auto simp: validate_item_provenance_def)
qed

section \<open>Properties\<close>

text \<open>C13: The Evidence Agent is bounded and grounded. When it returns, it has used at most
  \<open>max_steps\<close> steps and made at most \<open>max_tool_calls\<close> tool calls, one per step and numbered
  from one; no handler ran without an entry in the history, and only tools on the evidence
  allowlist succeeded. The termination reason tells which of the three exits was taken. The brief
  names exactly the documents and chunks that were observed, each once; every remaining item cites
  at least one of them and nothing else, whatever the model wrote.
\<close>

theorem evidence_agent_bounded_and_grounded:
  assumes "gather ea request s = (Inr out, s')"
  shows "0 \<le> eo_steps_used out \<and> eo_steps_used out \<le> max 0 (ea_max_steps ea) \<and>
    int (length (eo_tool_history out)) \<le> max 0 (ea_max_tool_calls ea) \<and>
    map th_step (eo_tool_history out) = [1..int (length (eo_tool_history out))] \<and>
    tw_invoked s' \<le> tw_invoked s + length (eo_tool_history out) \<and>
    (\<forall>h \<in> set (eo_tool_history out). th_success h \<longrightarrow> th_tool_name h \<in> set EVIDENCE_TOOL_NAMES) \<and>
    (eo_termination_reason out = Term_AGENT_STOPPED \<and>
       eo_steps_used out = int (length (eo_tool_history out)) + 1 \<or>
     eo_termination_reason out = Term_MAX_STEPS_REACHED \<and>
       eo_steps_used out = max 0 (ea_max_steps ea) \<or>
     eo_termination_reason out = Term_MAX_TOOL_CALLS_REACHED \<and>
       int (length (eo_tool_history out)) = max 0 (ea_max_tool_calls ea) \<and>
       eo_steps_used out < ea_max_steps ea) \<and>
    set (eb_retrieved_document_ids (eo_brief out)) =
      ev_document_id ` set (eo_evidence out) \<union> od_document_id ` set (eo_documents out) \<and>
    set (eb_retrieved_chunk_ids (eo_brief out)) = ev_chunk_id ` set (eo_evidence out) \<and>
    distinct (eb_retrieved_document_ids (eo_brief out)) \<and>
    distinct (eb_retrieved_chunk_ids (eo_brief out)) \<and>
    validate_item_provenance (eo_brief out) \<and>
    (\<forall>i \<in> set (eb_evidence_items (eo_brief out)).
       ei_supporting_document_ids i \<noteq> [] \<or> ei_supporting_chunk_ids i \<noteq> [])"
proof -
  obtain why g s1 raw s2 brief graph where
    loop: "gather_loop ea request [1..ea_max_steps ea] gathering_start s = (Inr (why, g), s1)"
    and raw: "in_env (smp_brief (ea_provider ea) EVIDENCE_BRIEF_SYSTEM_INSTRUCTIONS
              (build_evidence_brief_input (ea_float_repr ea) request (ga_evidence g) (ga_documents g)
                 (ga_neighborhoods g))) s1 = (Inr raw, s2)"
    and brief: "sanitize_brief (ea_strip ea) raw (ga_evidence g) (ga_documents g) = Inr brief"
    and out: "out = finish_gathering brief why g graph" "s' = s2"
    using assms unfolding gather_def bindE_eq_Inr liftE_def returnE_def by (auto simp: bindE_eq_Inr)
  have "gathering_ok ea (tw_invoked s) gathering_start s"
    by (simp add: gathering_ok_def gathering_start_def)
  from gather_loop_ok[OF loop this] in_env_invoked[OF raw]
  have g: "gathering_ok ea (tw_invoked s) g s2" "ga_steps_used g \<le> max 0 (ea_max_steps ea)"
    and reason: "why = Term_AGENT_STOPPED \<and> ga_steps_used g = int (length (ga_history g)) + 1 \<or>
     ga_steps_used g = int (length (ga_history g)) \<and>
       (why = Term_MAX_STEPS_REACHED \<and> ga_steps_used g = max 0 (ea_max_steps ea) \<or>
        why = Term_MAX_TOOL_CALLS_REACHED \<and> ga_steps_used g = max 0 (ea_max_tool_calls ea) \<and>
          ga_steps_used g < ea_max_steps ea)"
    by (auto simp: gathering_start_def gathering_ok_def)
  have steps: "0 \<le> ga_steps_used g" using reason by auto
  show ?thesis
    using sanitize_brief_facts[OF brief] g reason steps out
    unfolding gathering_ok_def finish_gathering_def by auto
qed

section \<open>A sample run\<close>

text \<open>One search that finds one chunk; the model's brief cites it together with a chunk and a
  document that were never observed.\<close>

definition found_chunk :: RetrievedEvidence where
  "found_chunk =
     \<lparr>ev_chunk_id = 7, ev_document_id = 70, ev_document_title = py ''t'', ev_content = py ''c'',
      ev_similarity_score = None, ev_source_type = Source_TEXT, ev_metadata = [],
      ev_retrieval_source = Retrieval_VECTOR\<rparr>"

definition finding_tool :: "nat ToolDefinition" where
  "finding_tool = sample_tool\<lparr>td_handler :=
     (\<lambda>a w. (Inr ((tool_result (py ''search_knowledge'') True (py ''found''))\<lparr>te_evidence := [found_chunk]\<rparr>),
             Suc w))\<rparr>"

definition overclaiming_brief :: EvidenceBrief where
  "overclaiming_brief =
     unavailable\<lparr>eb_evidence_items :=
       [\<lparr>ei_claim = py ''x'', ei_supporting_document_ids = [90], ei_supporting_chunk_ids = [7, 9],
         ei_relevance = py ''r'', ei_notes = None\<rparr>,
        \<lparr>ei_claim = py ''y'', ei_supporting_document_ids = [90], ei_supporting_chunk_ids = [],
         ei_relevance = py ''r'', ei_notes = None\<rparr>],
       eb_retrieved_document_ids := [90], eb_retrieved_chunk_ids := [7, 9]\<rparr>"

definition sample_provider :: "nat StructuredModelProvider" where
  "sample_provider =
     \<lparr>smp_decide_tool_call = (\<lambda>_ _ _ _ w. (Inr (if w = 0
          then Some \<lparr>atr_name = py ''search_knowledge'', atr_arguments = sample_arguments\<rparr> else None), w)),
      smp_brief = (\<lambda>_ _. returnE overclaiming_brief),
      smp_architecture = (\<lambda>_ _. raiseE (AppExc AssessmentGenerationError)),
      smp_review = (\<lambda>_ _. raiseE (AppExc AssessmentGenerationError)),
      smp_result = (\<lambda>_ _. raiseE (AppExc AssessmentGenerationError))\<rparr>"

definition sample_evidence_agent :: "nat OpenAIEvidenceAgent" where
  "sample_evidence_agent =
     \<lparr>ea_provider = sample_provider,
      ea_tools = sample_registry\<lparr>rg_definitions := [(py ''search_knowledge'', finding_tool)]\<rparr>,
      ea_max_steps = 3, ea_max_tool_calls = 2, ea_strip = id, ea_float_repr = (\<lambda>_. py ''0.5'')\<rparr>"

lemma sample_finding:
  "\<exists>fp s'. permitted_execute Agent_EVIDENCE (ea_tools sample_evidence_agent) (py ''search_knowledge'')
             sample_arguments (Some []) sample_world =
           (Inr (((tool_result (py ''search_knowledge'') True (py ''found''))\<lparr>te_evidence := [found_chunk]\<rparr>, fp,
                  argument_keys sample_arguments),
                 Some [(fp, (tool_result (py ''search_knowledge'') True (py ''found''))\<lparr>te_evidence := [found_chunk]\<rparr>)]), s') \<and>
          tw_env s' = 1"
proof -
  obtain fp where "fingerprint sample_digest (py ''search_knowledge'')
          (dump_arguments (SearchKnowledgeArguments (py ''q'') 1)) = Inr fp"
    using sample_fingerprint by blast
  then show ?thesis
    by (simp add: permitted_execute_def EVIDENCE_TOOL_NAMES_def sample_evidence_agent_def finding_tool_def
        registry_execute_def sample_registry_def sample_tool_def bindE_def liftE_def
        invoke_tool_def perf_counter_def catchE_def run_handler_def update_metrics_def modifyE_def
        returnE_def Let_def del: dump_arguments.simps) (simp add: sample_world_def)
qed

lemma sample_gathering:
  "\<exists>out s'. gather sample_evidence_agent hostile_request sample_world = (Inr out, s') \<and>
     eo_evidence out = [found_chunk] \<and> length (eo_tool_history out) = 1 \<and>
     length (eb_evidence_items (eo_brief out)) = 1"
proof -
  obtain fp s1 where run: "permitted_execute Agent_EVIDENCE (ea_tools sample_evidence_agent)
      (py ''search_knowledge'') sample_arguments (Some []) sample_world =
           (Inr (((tool_result (py ''search_knowledge'') True (py ''found''))\<lparr>te_evidence := [found_chunk]\<rparr>, fp,
                  argument_keys sample_arguments),
                 Some [(fp, (tool_result (py ''search_knowledge'') True (py ''found''))\<lparr>te_evidence := [found_chunk]\<rparr>)]), s1)"
    and s1: "tw_env s1 = 1" using sample_finding by blast
  have r3: "[1..3::int] = [1, 2, 3]" by code_simp
  have ask: "request_tool sample_evidence_agent hostile_request g step s =
      (Inr (if tw_env s = 0 then Some \<lparr>atr_name = py ''search_knowledge'', atr_arguments = sample_arguments\<rparr>
            else None), s)" for g step s
    by (simp add: request_tool_def in_env_def sample_evidence_agent_def sample_provider_def)
  have w0: "tw_env sample_world = 0" by (simp add: sample_world_def)
  obtain g where loop: "gather_loop sample_evidence_agent hostile_request [1..ea_max_steps sample_evidence_agent]
      gathering_start sample_world = (Inr (Term_AGENT_STOPPED, g), s1)"
    and g: "ga_evidence g = [found_chunk]" "ga_documents g = []" "length (ga_history g) = 1"
      "List.map_filter th_graph_retrieval (ga_history g) = []"
    using run s1 ask w0 r3
    by (simp add: sample_evidence_agent_def gathering_start_def bindE_def returnE_def record_call_def
        merge_observations_def evidence_history_entry_def tool_result_def map_filter_simps Let_def)
  have "\<exists>brief. sanitize_brief id overclaiming_brief [found_chunk] [] = Inr brief \<and>
      length (eb_evidence_items brief) = 1"
    by (simp add: sanitize_brief_def overclaiming_brief_def found_chunk_def unavailable_def
        mk_evidence_item_def evidence_item_ok_def opt_len_ok_def Let_def)
  then show ?thesis
    using loop g unfolding gather_def
    by (auto simp: bindE_def in_env_def sample_evidence_agent_def sample_provider_def returnE_def liftE_def
        aggregate_graph_metadata_def finish_gathering_def)
qed

theorem evidence_agent_bounded_and_grounded_witness:
  "\<exists>out s'. gather sample_evidence_agent hostile_request sample_world = (Inr out, s') \<and>
     length (eo_tool_history out) = 1 \<and> length (eb_evidence_items (eo_brief out)) = 1 \<and>
     set (eb_retrieved_chunk_ids (eo_brief out)) = {7} \<and> validate_item_provenance (eo_brief out)"
proof -
  obtain out s' where run: "gather sample_evidence_agent hostile_request sample_world = (Inr out, s')"
    and out: "eo_evidence out = [found_chunk]" "length (eo_tool_history out) = 1"
      "length (eb_evidence_items (eo_brief out)) = 1" using sample_gathering by blast
  from evidence_agent_bounded_and_grounded[OF run]
  have "set (eb_retrieved_chunk_ids (eo_brief out)) = {7} \<and> validate_item_provenance (eo_brief out)"
    using out(1) by (simp add: found_chunk_def)
  with run out show ?thesis by blast
qed

end
