(* ===== verification/Providers.thy ===== *)
theory Providers
  imports Configuration Evidence_Agent "HOL-Library.Multiset"
begin

text \<open>
  The model provider adapters (\<^verbatim>\<open>app/providers/\<close>, \<^verbatim>\<open>app/services/llm.py\<close>): one request with its
  metrics, the retries around it, the translation of errors, and what the adapters read out of a
  response.

  A vendor SDK is not part of the repository. What it does with the \<open>n\<close>-th request is a field of the
  environment, which exception classes are its own is the argument \<open>sdk_errors\<close>, and the attributes
  that the adapters read are records. \<open>model_validate\<close>, \<open>model_json_schema\<close> and \<open>json.loads\<close> are
  arguments.
\<close>

section \<open>Environment\<close>

record ('q, 'r) provider_world =
  pw_metrics :: "RuntimeMetricsRecorder option"
  pw_perf :: "nat \<Rightarrow> rat"
  pw_reads :: nat
  pw_sdk :: "nat \<Rightarrow> 'q \<Rightarrow> py_exc + 'r"
  pw_requests :: "'q list"
  pw_random :: "nat \<Rightarrow> rat"
  pw_sleeps :: "rat list"

type_synonym ('q, 'r, 'a) provider_eff = "(('q, 'r) provider_world, py_exc, 'a) eff"

definition provider_clock :: "('q, 'r, rat) provider_eff" where
  "provider_clock = (\<lambda>w. (Inr (pw_perf w (pw_reads w)), w\<lparr>pw_reads := Suc (pw_reads w)\<rparr>))"

definition send_request :: "'q \<Rightarrow> ('q, 'r, 'r) provider_eff" where
  "send_request q = (\<lambda>w. (pw_sdk w (length (pw_requests w)) q, w\<lparr>pw_requests := pw_requests w @ [q]\<rparr>))"

text \<open>\<open>try: ... finally: ...\<close> where the last block sees the outcome; an exception of it wins.\<close>

definition finallyE :: "('s, 'e, 'a) eff \<Rightarrow> ('e + 'a \<Rightarrow> ('s, 'e, unit) eff) \<Rightarrow> ('s, 'e, 'a) eff" where
  "finallyE m f = (\<lambda>s. case m s of (r, s') \<Rightarrow>
     (case f r s' of (Inl e, s'') \<Rightarrow> (Inl e, s'') | (Inr _, s'') \<Rightarrow> (r, s'')))"

definition metered :: "(int \<Rightarrow> (RuntimeMetricsRecorder, py_exc, unit) eff) \<Rightarrow> rat \<Rightarrow> ('q, 'r, unit) provider_eff" where
  "metered recording started = (\<lambda>w.
     case pw_metrics w of
       None \<Rightarrow> (Inr (), w)
     | Some _ \<Rightarrow>
         bindE provider_clock (\<lambda>finished w.
           (case recording (max 0 (py_round ((finished - started) * 1000))) (the (pw_metrics w)) of
              (r, m) \<Rightarrow> (r, w\<lparr>pw_metrics := Some m\<rparr>))) w)"

section \<open>Requests\<close>

record sdk_errors =
  se_is_timeout :: "py_exc \<Rightarrow> bool"
  se_is_transient :: "py_exc \<Rightarrow> bool"
  se_is_vendor :: "py_exc \<Rightarrow> bool"

definition normalize_provider_error :: "sdk_errors \<Rightarrow> py_exc \<Rightarrow> py_exc" where
  "normalize_provider_error lib e =
     (if se_is_timeout lib e then ProviderTimeoutExc
      else if se_is_transient lib e then ProviderTransientExc
      else if se_is_vendor lib e then ProviderPermanentExc
      else e)"

text \<open>The inner function \<open>request\<close> of both adapters: the client is built inside the \<open>try\<close>.\<close>

definition model_request ::
  "sdk_errors \<Rightarrow> py_exc + unit \<Rightarrow> ('r \<Rightarrow> (usage_attr \<times> usage_attr \<times> usage_attr) option) \<Rightarrow> 'q \<Rightarrow>
     ('q, 'r, 'r) provider_eff" where
  "model_request lib client usage q =
     bindE provider_clock (\<lambda>started.
     finallyE
       (catchE (bindE (liftE client) (\<lambda>_. send_request q)) (\<lambda>e. raiseE (normalize_provider_error lib e)))
       (\<lambda>outcome. metered (\<lambda>ms. record_model_call ms
          (case outcome of Inl _ \<Rightarrow> No_response | Inr r \<Rightarrow> Vendor_response (usage r))) started))"

text \<open>\<open>run_with_retry\<close> over effects, with \<open>time.sleep\<close> and \<open>random.random\<close> of the environment.\<close>

definition on_retry :: "FailureCategory \<Rightarrow> ('q, 'r, unit) provider_eff" where
  "on_retry category = modifyE (\<lambda>w. w\<lparr>pw_metrics := map_option (\<lambda>m. snd (record_retry category m)) (pw_metrics w)\<rparr>)"

definition backoff_sleep :: "RetryPolicy \<Rightarrow> nat \<Rightarrow> ('q, 'r, unit) provider_eff" where
  "backoff_sleep p attempt =
     modifyE (\<lambda>w. w\<lparr>pw_sleeps := pw_sleeps w @ [backoff_seconds p (pw_random w (length (pw_sleeps w))) attempt]\<rparr>)"

primrec retrying :: "RetryPolicy \<Rightarrow> ('q, 'r, 'a) provider_eff \<Rightarrow> nat \<Rightarrow> nat \<Rightarrow> ('q, 'r, 'a) provider_eff" where
  "retrying p operation 0 attempt = raiseE RuntimeExc"
| "retrying p operation (Suc left) attempt =
     catchE operation (\<lambda>e.
       let category = classify_failure e
       in if category \<notin> {Fail_TRANSIENT, Fail_TIMEOUT} \<or> attempt \<ge> rp_max_retries p then raiseE e
          else bindE (on_retry category) (\<lambda>_.
               bindE (backoff_sleep p attempt) (\<lambda>_.
               retrying p operation left (Suc attempt))))"

definition with_retry :: "RetryPolicy option \<Rightarrow> ('q, 'r, 'a) provider_eff \<Rightarrow> ('q, 'r, 'a) provider_eff" where
  "with_retry policy operation =
     (case policy of None \<Rightarrow> operation | Some p \<Rightarrow> retrying p operation (Suc (rp_max_retries p)) 0)"

definition value_error :: "py_exc \<Rightarrow> bool" where
  "value_error e \<longleftrightarrow> e \<in> {TypeExc, ValueExc, ValidationExc}"

definition provider_failure :: "py_exc \<Rightarrow> bool" where
  "provider_failure e \<longleftrightarrow> e \<in> {ProviderTimeoutExc, ProviderTransientExc, ProviderPermanentExc}"

text \<open>The \<open>except\<close> clauses of \<open>_run\<close> and \<open>_create\<close>.\<close>

definition translate_model_error :: "py_exc \<Rightarrow> py_exc" where
  "translate_model_error e =
     (if provider_failure e then AppExc LLMProviderError
      else if value_error e then AppExc InvalidLLMResponseError
      else e)"

section \<open>Clients\<close>

definition create_openai_client :: "Settings \<Rightarrow> py_exc + unit" where
  "create_openai_client s =
     (if \<not> secret_set (cfg_openai_api_key (cfg_provider s)) then Inl (AppExc OpenAIClientNotConfiguredError) else Inr ())"

definition create_anthropic_client :: "Settings \<Rightarrow> py_exc + unit" where
  "create_anthropic_client s =
     (if \<not> secret_set (cfg_anthropic_api_key (cfg_provider s)) then Inl (AppExc ModelProviderNotConfiguredError) else Inr ())"

record ProviderCapabilities =
  pc_structured_output :: bool
  pc_tool_calling :: bool
  pc_usage_reporting :: bool
  pc_embeddings :: bool

definition OPENAI_CAPABILITIES :: ProviderCapabilities where
  "OPENAI_CAPABILITIES =
     \<lparr>pc_structured_output = True, pc_tool_calling = True, pc_usage_reporting = True, pc_embeddings = True\<rparr>"

definition ANTHROPIC_CAPABILITIES :: ProviderCapabilities where
  "ANTHROPIC_CAPABILITIES =
     \<lparr>pc_structured_output = True, pc_tool_calling = True, pc_usage_reporting = True, pc_embeddings = False\<rparr>"

record 'a output_model =
  om_schema :: json
  om_validate :: "json \<Rightarrow> py_exc + 'a"

definition validated_output :: "'a output_model \<Rightarrow> json \<Rightarrow> py_exc + 'a" where
  "validated_output model v =
     (case om_validate model v of
        Inl e \<Rightarrow> Inl (if value_error e then AppExc InvalidLLMResponseError else e)
      | Inr x \<Rightarrow> Inr x)"

section \<open>OpenAI\<close>

datatype openai_operation =
    Parse_response (pr_text_format: json)
  | Create_response (cr_tools: "json_object list") (cr_max_output_tokens: int)

text \<open>\<open>tool_choice="auto"\<close> and \<open>parallel_tool_calls=False\<close> are constants of \<open>Create_response\<close>.\<close>

record openai_request =
  oq_model :: pystr
  oq_system :: pystr
  oq_user :: pystr
  oq_operation :: openai_operation
  oq_store :: bool
  oq_timeout :: "rat option"

record openai_item =
  oi_type :: "pystr option"
  oi_name :: pystr
  oi_arguments :: pystr

record openai_response =
  or_output_parsed :: "json option"
  or_output :: "openai_item list"
  or_usage :: "(usage_attr \<times> usage_attr \<times> usage_attr) option"

record OpenAIStructuredModelProvider =
  op_model :: pystr
  op_store_responses :: bool
  op_client :: "py_exc + unit"
  op_retry_policy :: "RetryPolicy option"
  op_timeout_seconds :: "rat option"
  op_errors :: sdk_errors
  op_json_loads :: "pystr \<Rightarrow> py_exc + json"

type_synonym 'a openai_eff = "(openai_request, openai_response, 'a) provider_eff"

definition openai_run :: "OpenAIStructuredModelProvider \<Rightarrow> openai_request \<Rightarrow> openai_response openai_eff" where
  "openai_run p q =
     catchE (with_retry (op_retry_policy p) (model_request (op_errors p) (op_client p) or_usage q))
       (\<lambda>e. raiseE (if e = AppExc OpenAIClientNotConfiguredError then e else translate_model_error e))"

definition openai_generate_structured ::
  "OpenAIStructuredModelProvider \<Rightarrow> pystr \<Rightarrow> pystr \<Rightarrow> 'a output_model \<Rightarrow> 'a openai_eff" where
  "openai_generate_structured p system user model =
     bindE (openai_run p
       \<lparr>oq_model = op_model p, oq_system = system, oq_user = user, oq_operation = Parse_response (om_schema model),
        oq_store = op_store_responses p, oq_timeout = op_timeout_seconds p\<rparr>) (\<lambda>response.
     case or_output_parsed response of
       None \<Rightarrow> raiseE (AppExc InvalidLLMResponseError)
     | Some parsed \<Rightarrow> liftE (validated_output model parsed))"

definition object_arguments :: "json \<Rightarrow> json_object" where
  "object_arguments v = (case v of JObj d \<Rightarrow> d | _ \<Rightarrow> [])"

definition call_arguments :: "(pystr \<Rightarrow> py_exc + json) \<Rightarrow> pystr \<Rightarrow> py_exc + json_object" where
  "call_arguments json_loads s =
     (case json_loads s of
        Inl e \<Rightarrow> if e \<in> {OtherExc (py ''JSONDecodeError''), TypeExc} then Inr [] else Inl e
      | Inr v \<Rightarrow> Inr (object_arguments v))"

definition openai_decide_tool_call ::
  "OpenAIStructuredModelProvider \<Rightarrow> pystr \<Rightarrow> pystr \<Rightarrow> json_object list \<Rightarrow> int \<Rightarrow> AgentToolRequest option openai_eff" where
  "openai_decide_tool_call p system user tools max_output_tokens =
     bindE (openai_run p
       \<lparr>oq_model = op_model p, oq_system = system, oq_user = user,
        oq_operation = Create_response tools max_output_tokens, oq_store = op_store_responses p,
        oq_timeout = op_timeout_seconds p\<rparr>) (\<lambda>response.
     case filter (\<lambda>item. oi_type item = Some (py ''function_call'')) (or_output response) of
       [] \<Rightarrow> returnE None
     | call # _ \<Rightarrow>
         bindE (liftE (call_arguments (op_json_loads p) (oi_arguments call))) (\<lambda>arguments.
         returnE (Some \<lparr>atr_name = oi_name call, atr_arguments = arguments\<rparr>)))"

section \<open>Anthropic\<close>

record anthropic_tool =
  at_name :: pystr
  at_description :: json
  at_input_schema :: json

datatype anthropic_choice = Choose_auto | Choose_tool pystr

record anthropic_request =
  aq_model :: pystr
  aq_system :: pystr
  aq_user :: pystr
  aq_tools :: "anthropic_tool list"
  aq_tool_choice :: anthropic_choice
  aq_max_tokens :: int
  aq_timeout :: "rat option"

record anthropic_block =
  ab_type :: "pystr option"
  ab_name :: pystr
  ab_input :: json

record anthropic_response =
  an_content :: "anthropic_block list"
  an_usage :: "(usage_attr \<times> usage_attr \<times> usage_attr) option"

record AnthropicStructuredModelProvider =
  ap_model :: pystr
  ap_client :: "py_exc + unit"
  ap_retry_policy :: "RetryPolicy option"
  ap_timeout_seconds :: "rat option"
  ap_errors :: sdk_errors

type_synonym 'a anthropic_eff = "(anthropic_request, anthropic_response, 'a) provider_eff"

definition anthropic_create ::
  "AnthropicStructuredModelProvider \<Rightarrow> pystr \<Rightarrow> pystr \<Rightarrow> anthropic_tool list \<Rightarrow> anthropic_choice \<Rightarrow> int \<Rightarrow>
     anthropic_response anthropic_eff" where
  "anthropic_create p system user tools choice max_tokens =
     catchE (with_retry (ap_retry_policy p) (model_request (ap_errors p) (ap_client p) an_usage
         \<lparr>aq_model = ap_model p, aq_system = system, aq_user = user, aq_tools = tools, aq_tool_choice = choice,
          aq_max_tokens = max_tokens, aq_timeout = ap_timeout_seconds p\<rparr>))
       (\<lambda>e. raiseE (translate_model_error e))"

definition structured_tool_name :: pystr where
  "structured_tool_name = py ''submit_structured_result''"

definition anthropic_generate_structured ::
  "AnthropicStructuredModelProvider \<Rightarrow> pystr \<Rightarrow> pystr \<Rightarrow> 'a output_model \<Rightarrow> 'a anthropic_eff" where
  "anthropic_generate_structured p system user model =
     bindE (anthropic_create p system user
       [\<lparr>at_name = structured_tool_name,
         at_description = JStr (py ''Submit the complete validated structured result.''),
         at_input_schema = om_schema model\<rparr>] (Choose_tool structured_tool_name) 4096) (\<lambda>response.
     case find (\<lambda>b. ab_type b = Some (py ''tool_use'') \<and> ab_name b = structured_tool_name) (an_content response) of
       None \<Rightarrow> raiseE (AppExc InvalidLLMResponseError)
     | Some block \<Rightarrow> liftE (validated_output model (ab_input block)))"

text \<open>\<open>tool["name"]\<close> and \<open>tool["parameters"]\<close> raise \<open>KeyError\<close> when they are missing.\<close>

definition anthropic_tool_of :: "json_object \<Rightarrow> py_exc + anthropic_tool" where
  "anthropic_tool_of tool =
     (case map_of tool (py ''name'') of
        Some (JStr name) \<Rightarrow>
          (case map_of tool (py ''parameters'') of
             Some schema \<Rightarrow> Inr \<lparr>at_name = name,
               at_description = (case map_of tool (py ''description'') of None \<Rightarrow> JStr [] | Some d \<Rightarrow> d),
               at_input_schema = schema\<rparr>
           | None \<Rightarrow> Inl KeyExc)
      | _ \<Rightarrow> Inl KeyExc)"

fun collect_results :: "('e + 'a) list \<Rightarrow> 'e + 'a list" where
  "collect_results [] = Inr []"
| "collect_results (Inl e # rs) = Inl e"
| "collect_results (Inr x # rs) = map_sum id (Cons x) (collect_results rs)"

definition anthropic_decide_tool_call ::
  "AnthropicStructuredModelProvider \<Rightarrow> pystr \<Rightarrow> pystr \<Rightarrow> json_object list \<Rightarrow> int \<Rightarrow> AgentToolRequest option anthropic_eff" where
  "anthropic_decide_tool_call p system user tools max_output_tokens =
     bindE (liftE (collect_results (map anthropic_tool_of tools))) (\<lambda>anthropic_tools.
     bindE (anthropic_create p system user anthropic_tools Choose_auto max_output_tokens) (\<lambda>response.
     returnE (map_option (\<lambda>block. \<lparr>atr_name = ab_name block, atr_arguments = object_arguments (ab_input block)\<rparr>)
       (find (\<lambda>b. ab_type b = Some (py ''tool_use'')) (an_content response)))))"

section \<open>Embeddings\<close>

text \<open>A value of an embedding as the SDK returns it.\<close>

datatype raw_value = Finite rat | Not_finite | Not_convertible

record embedding_request =
  eq_model :: pystr
  eq_input :: "pystr list"
  eq_dimensions :: nat
  eq_timeout :: "rat option"

type_synonym embedding_data = "(int \<times> raw_value list) list"

record OpenAIEmbeddingProvider =
  ep_model :: pystr
  ep_dimension :: nat
  ep_batch_size :: nat
  ep_client :: "py_exc + unit"
  ep_retry_policy :: "RetryPolicy option"
  ep_timeout_seconds :: "rat option"
  ep_errors :: sdk_errors

definition embedding_provider_ok :: "OpenAIEmbeddingProvider \<Rightarrow> bool" where
  "embedding_provider_ok p \<longleftrightarrow> 0 < ep_dimension p \<and> 0 < ep_batch_size p"

type_synonym 'a embedding_eff = "(embedding_request, embedding_data, 'a) provider_eff"

definition request_batch :: "OpenAIEmbeddingProvider \<Rightarrow> pystr list \<Rightarrow> embedding_data embedding_eff" where
  "request_batch p batch =
     bindE provider_clock (\<lambda>started.
     finallyE
       (catchE (send_request \<lparr>eq_model = ep_model p, eq_input = batch, eq_dimensions = ep_dimension p,
                              eq_timeout = ep_timeout_seconds p\<rparr>)
               (\<lambda>e. raiseE (normalize_provider_error (ep_errors p) e)))
       (\<lambda>_. metered record_embedding_call started))"

text \<open>\<open>for start in range(0, len(texts), batch_size)\<close>.\<close>

fun batches :: "nat \<Rightarrow> 'a list \<Rightarrow> 'a list list" where
  "batches n xs = (if n = 0 \<or> xs = [] then [] else take n xs # batches n (drop n xs))"

fun embed_batches :: "OpenAIEmbeddingProvider \<Rightarrow> pystr list list \<Rightarrow> raw_value list list embedding_eff" where
  "embed_batches p [] = returnE []"
| "embed_batches p (batch # rest) =
     bindE (with_retry (ep_retry_policy p) (request_batch p batch)) (\<lambda>data.
     bindE (embed_batches p rest) (\<lambda>vectors.
     returnE (map snd (sort_key fst data) @ vectors)))"

definition translate_embedding_error :: "py_exc \<Rightarrow> py_exc" where
  "translate_embedding_error e =
     (if e = AppExc OpenAIClientNotConfiguredError then AppExc EmbeddingNotConfiguredError
      else if provider_failure e then AppExc EmbeddingProviderError
      else if e = attribute_error \<or> value_error e then AppExc InvalidEmbeddingError
      else e)"

definition converted_vector :: "nat \<Rightarrow> raw_value list \<Rightarrow> rat list option" where
  "converted_vector dimension v =
     (if length v = dimension \<and> list_all (\<lambda>x. case x of Finite _ \<Rightarrow> True | _ \<Rightarrow> False) v
      then Some (map (\<lambda>x. case x of Finite q \<Rightarrow> q | _ \<Rightarrow> 0) v) else None)"

definition provider_embed_texts :: "OpenAIEmbeddingProvider \<Rightarrow> pystr list \<Rightarrow> rat list list embedding_eff" where
  "provider_embed_texts p texts =
     (if texts = [] \<or> list_ex (\<lambda>s. py_strip s = []) texts then raiseE (AppExc InvalidEmbeddingError)
      else bindE (catchE (bindE (liftE (ep_client p)) (\<lambda>_. embed_batches p (batches (ep_batch_size p) texts)))
                         (\<lambda>e. raiseE (translate_embedding_error e))) (\<lambda>vectors.
        if length vectors \<noteq> length texts then raiseE (AppExc InvalidEmbeddingError)
        else if list_ex (\<lambda>v. converted_vector (ep_dimension p) v = None) vectors
        then raiseE (AppExc InvalidEmbeddingError)
        else returnE (map (\<lambda>v. the (converted_vector (ep_dimension p) v)) vectors)))"

section \<open>Selection\<close>

datatype built_provider =
    Built_openai OpenAIStructuredModelProvider
  | Built_anthropic AnthropicStructuredModelProvider

definition build_structured_model_provider ::
  "sdk_errors \<Rightarrow> sdk_errors \<Rightarrow> (pystr \<Rightarrow> py_exc + json) \<Rightarrow> Settings \<Rightarrow> rat option \<Rightarrow> py_exc + built_provider" where
  "build_structured_model_provider openai anthropic json_loads s timeout_seconds =
     (case configured_retry_policy s of
        Inl e \<Rightarrow> Inl e
      | Inr retry \<Rightarrow>
          (let limit = (case timeout_seconds of
                 Some t \<Rightarrow> if t = 0 then cfg_model_timeout_seconds (cfg_resilience s) else t
               | None \<Rightarrow> cfg_model_timeout_seconds (cfg_resilience s))
           in Inr (if cfg_chat_model_provider (cfg_provider s) = Provider_ANTHROPIC
              then Built_anthropic \<lparr>ap_model = cfg_chat_model_name (cfg_provider s), ap_client = create_anthropic_client s,
                ap_retry_policy = Some retry, ap_timeout_seconds = Some limit, ap_errors = anthropic\<rparr>
              else Built_openai \<lparr>op_model = cfg_chat_model_name (cfg_provider s),
                op_store_responses = cfg_openai_store_responses (cfg_provider s), op_client = create_openai_client s,
                op_retry_policy = Some retry, op_timeout_seconds = Some limit, op_errors = openai,
                op_json_loads = json_loads\<rparr>)))"

definition build_embedding_provider :: "sdk_errors \<Rightarrow> Settings \<Rightarrow> py_exc + OpenAIEmbeddingProvider" where
  "build_embedding_provider openai s =
     map_sum id (\<lambda>retry.
       \<lparr>ep_model = cfg_embedding_model (cfg_provider s),
        ep_dimension = cfg_openai_embedding_dimension (cfg_knowledge s), ep_batch_size = 100,
        ep_client = create_openai_client s, ep_retry_policy = Some retry,
        ep_timeout_seconds = Some (cfg_embedding_timeout_seconds (cfg_resilience s)), ep_errors = openai\<rparr>)
       (configured_retry_policy s)"

section \<open>Requests and retries\<close>

declare batches.simps [simp del]

lemma record_model_call_vendor:
  "\<exists>m'. record_model_call ms No_response m = (Inr (), m')" "\<exists>m'. record_model_call ms (Vendor_response u) m = (Inr (), m')"
  by (auto simp: record_model_call_def record_usage_def eff_defs bindE_def Let_def split: option.split usage_attr.split prod.split)

text \<open>What an operation on the environment may change: metrics and clock readings, and the requests it
  sent are copies of \<open>q\<close>.\<close>

definition sends_copies :: "nat \<Rightarrow> 'q \<Rightarrow> ('q, 'r) provider_world \<Rightarrow> ('q, 'r) provider_world \<Rightarrow> bool" where
  "sends_copies n q w w' \<longleftrightarrow>
     (\<exists>k \<le> n. pw_requests w' = pw_requests w @ replicate k q) \<and> pw_sdk w' = pw_sdk w \<and> pw_random w' = pw_random w \<and>
     pw_perf w' = pw_perf w"

definition same_sleeps :: "('q, 'r) provider_world \<Rightarrow> ('q, 'r) provider_world \<Rightarrow> bool" where
  "same_sleeps w w' \<longleftrightarrow> pw_sleeps w' = pw_sleeps w"

lemma metered_model_call:
  assumes "response = No_response \<or> (\<exists>u. response = Vendor_response u)"
  shows "\<exists>w'. metered (\<lambda>ms. record_model_call ms response) started w = (Inr (), w') \<and>
    pw_requests w' = pw_requests w \<and> pw_sdk w' = pw_sdk w \<and> pw_random w' = pw_random w \<and> pw_perf w' = pw_perf w \<and>
    pw_sleeps w' = pw_sleeps w"
proof (cases "pw_metrics w")
  case (Some m)
  define ms where "ms = max 0 (py_round ((pw_perf w (pw_reads w) - started) * 1000))"
  obtain m' where "record_model_call ms response m = (Inr (), m')"
    using assms record_model_call_vendor by metis
  then show ?thesis
    unfolding metered_def by (simp add: Some bindE_def provider_clock_def ms_def)
qed (simp add: metered_def)

lemma model_request_runs:
  "\<exists>w'. model_request lib client usage q w = (case client of
       Inl e \<Rightarrow> Inl (normalize_provider_error lib e)
     | Inr _ \<Rightarrow> (case pw_sdk w (length (pw_requests w)) q of
         Inl e \<Rightarrow> Inl (normalize_provider_error lib e) | Inr r \<Rightarrow> Inr r), w') \<and>
     sends_copies 1 q w w' \<and> same_sleeps w w'"
proof -
  let ?w1 = "w\<lparr>pw_reads := Suc (pw_reads w)\<rparr>"
  let ?w2 = "?w1\<lparr>pw_requests := pw_requests w @ [q]\<rparr>"
  show ?thesis
  proof (cases client)
    case (Inl e)
    obtain w' where w': "metered (\<lambda>ms. record_model_call ms No_response) (pw_perf w (pw_reads w)) ?w1 = (Inr (), w')"
      "pw_requests w' = pw_requests ?w1" "pw_sdk w' = pw_sdk ?w1" "pw_random w' = pw_random ?w1" "pw_perf w' = pw_perf ?w1"
      "pw_sleeps w' = pw_sleeps ?w1"
      using metered_model_call[of No_response "pw_perf w (pw_reads w)" ?w1] by blast
    show ?thesis
      using w' unfolding Inl
      by (intro exI[of _ w'])
         (simp add: model_request_def provider_clock_def finallyE_def sends_copies_def same_sleeps_def eff_defs bindE_def catchE_def)
  next
    case (Inr u)
    define out where "out = pw_sdk w (length (pw_requests w)) q"
    define response where "response = (case out of Inl _ \<Rightarrow> No_response | Inr r \<Rightarrow> Vendor_response (usage r))"
    have "response = No_response \<or> (\<exists>u. response = Vendor_response u)" by (simp add: response_def split: sum.split)
    then obtain w' where w': "metered (\<lambda>ms. record_model_call ms response) (pw_perf w (pw_reads w)) ?w2 = (Inr (), w')"
      "pw_requests w' = pw_requests ?w2" "pw_sdk w' = pw_sdk ?w2" "pw_random w' = pw_random ?w2" "pw_perf w' = pw_perf ?w2"
      "pw_sleeps w' = pw_sleeps ?w2"
      using metered_model_call[of response "pw_perf w (pw_reads w)" ?w2] by blast
    have one: "\<exists>k \<le> 1. [q] = replicate k q" by (rule exI[of _ 1]) simp
    show ?thesis
    proof (cases out)
      case out_e: (Inl e)
      show ?thesis
        using w' one unfolding Inr
        by (intro exI[of _ w'])
           (simp add: model_request_def provider_clock_def finallyE_def send_request_def sends_copies_def same_sleeps_def
             eff_defs bindE_def catchE_def out_def[symmetric] out_e response_def)
    next
      case out_r: (Inr r)
      show ?thesis
        using w' one unfolding Inr
        by (intro exI[of _ w'])
           (simp add: model_request_def provider_clock_def finallyE_def send_request_def sends_copies_def same_sleeps_def
             eff_defs bindE_def catchE_def out_def[symmetric] out_r response_def)
    qed
  qed
qed

lemma sends_copies_trans:
  assumes "sends_copies m q w w'" and "sends_copies n q w' w''"
  shows "sends_copies (m + n) q w w''"
proof -
  obtain j k where "j \<le> m" "pw_requests w' = pw_requests w @ replicate j q"
    "k \<le> n" "pw_requests w'' = pw_requests w' @ replicate k q"
    using assms by (auto simp: sends_copies_def)
  then have "j + k \<le> m + n" "pw_requests w'' = pw_requests w @ replicate (j + k) q" by (simp_all add: replicate_add)
  then show ?thesis using assms unfolding sends_copies_def by auto
qed

lemma sends_copies_mono: "sends_copies m q w w' \<Longrightarrow> m \<le> n \<Longrightarrow> sends_copies n q w w'"
  using le_trans by (fastforce simp: sends_copies_def)

text \<open>Between two attempts only metrics and the list of sleeps change.\<close>

definition after_failure :: "RetryPolicy \<Rightarrow> nat \<Rightarrow> py_exc \<Rightarrow> ('q, 'r) provider_world \<Rightarrow> ('q, 'r) provider_world" where
  "after_failure p attempt e w = snd (backoff_sleep p attempt (snd (on_retry (classify_failure e) w)))"

lemma after_failure_fields:
  "pw_requests (after_failure p k e w) = pw_requests w" "pw_sdk (after_failure p k e w) = pw_sdk w"
  "pw_random (after_failure p k e w) = pw_random w" "pw_perf (after_failure p k e w) = pw_perf w"
  "pw_sleeps (after_failure p k e w) = pw_sleeps w @ [backoff_seconds p (pw_random w (length (pw_sleeps w))) k]"
  by (simp_all add: after_failure_def backoff_sleep_def on_retry_def modifyE_def)

lemma retrying_Suc:
  "retrying p operation (Suc left) attempt w =
     (case operation w of
        (Inr x, w') \<Rightarrow> (Inr x, w')
      | (Inl e, w') \<Rightarrow>
          if \<not> retriable e \<or> attempt \<ge> rp_max_retries p then (Inl e, w')
          else retrying p operation left (Suc attempt) (after_failure p attempt e w'))"
  by (auto simp: catchE_def retriable_def Let_def bindE_def raiseE_def after_failure_def on_retry_def backoff_sleep_def
      modifyE_def split: prod.split sum.split)

declare retrying.simps(2) [simp del]

text \<open>The environment in front of every attempt, and the refinement: with retries over effects, outcome
  and sleeps are those of the retry loop over the outcomes of the attempts.\<close>

primrec world_at :: "RetryPolicy \<Rightarrow> ('q, 'r, 'a) provider_eff \<Rightarrow> ('q, 'r) provider_world \<Rightarrow> nat \<Rightarrow> ('q, 'r) provider_world" where
  "world_at p operation w 0 = w"
| "world_at p operation w (Suc i) =
     (case operation (world_at p operation w i) of
        (Inl e, w') \<Rightarrow> after_failure p i e w' | (Inr _, w') \<Rightarrow> w')"

definition keeps_script :: "('q, 'r, 'a) provider_eff \<Rightarrow> bool" where
  "keeps_script operation \<longleftrightarrow>
     (\<forall>w. pw_random (snd (operation w)) = pw_random w \<and> pw_sleeps (snd (operation w)) = pw_sleeps w)"

lemma model_request_keeps_script: "keeps_script (model_request lib client usage q)"
  unfolding keeps_script_def
proof
  fix w :: "('a, 'b) provider_world"
  obtain w' where "snd (model_request lib client usage q w) = w'" "sends_copies 1 q w w'" "same_sleeps w w'"
    using model_request_runs[of lib client usage q w] by auto
  then show "pw_random (snd (model_request lib client usage q w)) = pw_random w \<and>
      pw_sleeps (snd (model_request lib client usage q w)) = pw_sleeps w"
    by (simp add: sends_copies_def same_sleeps_def)
qed

lemma retrying_refines:
  assumes "keeps_script operation" and "pw_random w = rnd" and "length (pw_sleeps w) = base + attempt"
    and "w = world_at p operation w0 attempt"
  shows "fst (retrying p operation n attempt w) =
      rr_result (retry_loop p (\<lambda>i. fst (operation (world_at p operation w0 i))) (\<lambda>i. rnd (base + i)) n attempt) \<and>
    pw_sleeps (snd (retrying p operation n attempt w)) = pw_sleeps w @
      rr_sleeps (retry_loop p (\<lambda>i. fst (operation (world_at p operation w0 i))) (\<lambda>i. rnd (base + i)) n attempt)"
  using assms
proof (induction n arbitrary: attempt w)
  case 0
  then show ?case by (simp add: raiseE_def)
next
  case (Suc n)
  obtain r w' where op: "operation w = (r, w')" by (cases "operation w")
  have kept: "pw_random w' = rnd" "pw_sleeps w' = pw_sleeps w"
    using Suc.prems(1,2) op by (auto simp: keeps_script_def dest: spec[of _ w])
  show ?case
  proof (cases r)
    case (Inr x)
    then show ?thesis using op kept Suc.prems(4) by (simp add: retrying_Suc)
  next
    case (Inl e)
    show ?thesis
    proof (cases "\<not> retriable e \<or> attempt \<ge> rp_max_retries p")
      case True
      then show ?thesis using op kept Suc.prems(4) Inl by (auto simp: retrying_Suc retriable_def Let_def)
    next
      case False
      have "fst (retrying p operation n (Suc attempt) (after_failure p attempt e w')) =
          rr_result (retry_loop p (\<lambda>i. fst (operation (world_at p operation w0 i))) (\<lambda>i. rnd (base + i)) n (Suc attempt)) \<and>
        pw_sleeps (snd (retrying p operation n (Suc attempt) (after_failure p attempt e w'))) =
          pw_sleeps (after_failure p attempt e w') @
          rr_sleeps (retry_loop p (\<lambda>i. fst (operation (world_at p operation w0 i))) (\<lambda>i. rnd (base + i)) n (Suc attempt))"
      proof (rule Suc.IH[OF Suc.prems(1)])
        show "after_failure p attempt e w' = world_at p operation w0 (Suc attempt)"
          using op Inl Suc.prems(4) by simp
      qed (use kept Suc.prems(3) in \<open>simp_all add: after_failure_fields\<close>)
      then show ?thesis
        using op Inl False kept Suc.prems(3,4)
        by (auto simp: retrying_Suc retriable_def Let_def after_failure_fields)
    qed
  qed
qed

lemma retrying_outcome:
  assumes "n + attempt = Suc (rp_max_retries p)" and "attempt \<le> rp_max_retries p"
  shows "\<exists>v. fst (retrying p operation n attempt w) = fst (operation v)"
  using assms
proof (induction n arbitrary: attempt w)
  case (Suc n)
  obtain r w' where op: "operation w = (r, w')" by (cases "operation w")
  show ?case
  proof (cases "\<exists>e. r = Inl e \<and> retriable e \<and> attempt < rp_max_retries p")
    case True
    then obtain e where "r = Inl e" "retriable e" "attempt < rp_max_retries p" by blast
    then show ?thesis using Suc.IH[of "Suc attempt"] Suc.prems(1) op by (simp add: retrying_Suc)
  next
    case False
    have "fst (retrying p operation (Suc n) attempt w) = r"
      using False op by (cases r) (auto simp: retrying_Suc)
    then show ?thesis using op by (intro exI[of _ w]) simp
  qed
qed simp

lemma with_retry_outcome: "\<exists>v. fst (with_retry policy operation w) = fst (operation v)"
  using retrying_outcome[of "Suc (rp_max_retries p)" 0 p for p]
  by (cases policy) (auto simp: with_retry_def)

definition request_limit :: "RetryPolicy option \<Rightarrow> nat" where
  "request_limit policy = (case policy of None \<Rightarrow> 1 | Some p \<Rightarrow> Suc (rp_max_retries p))"

lemma retrying_copies:
  assumes one: "\<And>v. sends_copies 1 q v (snd (operation v))"
  shows "sends_copies n q w (snd (retrying p operation n attempt w))"
proof (induction n arbitrary: attempt w)
  case 0
  then show ?case by (simp add: raiseE_def sends_copies_def)
next
  case (Suc n)
  obtain r w' where op: "operation w = (r, w')" by (cases "operation w")
  have first: "sends_copies 1 q w w'" using one[of w] op by simp
  show ?case
  proof (cases "\<exists>e. r = Inl e \<and> retriable e \<and> attempt < rp_max_retries p")
    case True
    then obtain e where e: "r = Inl e" "retriable e" "attempt < rp_max_retries p" by blast
    have "sends_copies 1 q w (after_failure p attempt e w')"
      using first by (simp add: sends_copies_def after_failure_fields)
    from sends_copies_trans[OF this Suc.IH[of "after_failure p attempt e w'" "Suc attempt"]] show ?thesis
      using op e by (simp add: retrying_Suc)
  next
    case False
    then have "snd (retrying p operation (Suc n) attempt w) = w'"
      using op by (cases r) (auto simp: retrying_Suc)
    then show ?thesis using sends_copies_mono[OF first, of "Suc n"] by simp
  qed
qed

lemma with_retry_copies:
  assumes "\<And>v. sends_copies 1 q v (snd (operation v))"
  shows "sends_copies (request_limit policy) q w (snd (with_retry policy operation w))"
  using assms retrying_copies[OF assms]
  by (cases policy) (simp_all add: with_retry_def request_limit_def)

lemma model_request_copies: "sends_copies 1 q v (snd (model_request lib client usage q v))"
  using model_request_runs[of lib client usage q v] by auto

section \<open>The boundary of a structured provider\<close>

text \<open>An exception that is no SDK class, no provider failure and no type or value error: the adapters let
  it through unchanged (a missing credential, for instance).\<close>

definition passes_through :: "sdk_errors \<Rightarrow> py_exc \<Rightarrow> bool" where
  "passes_through lib e \<longleftrightarrow>
     \<not> se_is_timeout lib e \<and> \<not> se_is_transient lib e \<and> \<not> se_is_vendor lib e \<and> \<not> provider_failure e \<and> \<not> value_error e"

definition documented_model_error :: "sdk_errors \<Rightarrow> 'a output_model \<Rightarrow> py_exc \<Rightarrow> bool" where
  "documented_model_error lib model e \<longleftrightarrow>
     e \<in> {AppExc LLMProviderError, AppExc InvalidLLMResponseError} \<or> passes_through lib e \<or>
     \<not> value_error e \<and> (\<exists>v. om_validate model v = Inl e)"

text \<open>
  The contract of \<open>generate_structured\<close> that both adapters keep and that the generator and the
  agents rely on: what may be raised, that a result passed the validation of its model, and
  that one call sends the same request a bounded number of times.
\<close>

locale structured_provider =
  fixes errors :: sdk_errors and limit :: nat
    and request_of :: "pystr \<Rightarrow> pystr \<Rightarrow> 'a output_model \<Rightarrow> 'q"
    and generate :: "pystr \<Rightarrow> pystr \<Rightarrow> 'a output_model \<Rightarrow> ('q, 'r, 'a) provider_eff"
  assumes boundary: "generate system user model w = (Inl e, w') \<Longrightarrow> documented_model_error errors model e"
    and validated: "generate system user model w = (Inr x, w') \<Longrightarrow> \<exists>v. om_validate model v = Inr x"
    and bounded: "sends_copies limit (request_of system user model) w (snd (generate system user model w))"
begin

text \<open>Two calls in a row, as the specialists of one run make them.\<close>

lemma calls_bounded:
  assumes "generate system user model w = (r, w')" and "generate system' user' model' w' = (r', w'')"
  shows "length (pw_requests w'') \<le> length (pw_requests w) + 2 * limit"
  using bounded[of system user model w] bounded[of system' user' model' w'] assms by (auto simp: sends_copies_def)

lemma contract:
  assumes "generate system user model w = (r, w')"
  shows "(\<forall>e. r = Inl e \<longrightarrow> documented_model_error errors model e) \<and>
    (\<forall>x. r = Inr x \<longrightarrow> (\<exists>v. om_validate model v = Inr x)) \<and>
    (\<exists>k \<le> limit. pw_requests w' = pw_requests w @ replicate k (request_of system user model))"
  using assms boundary validated bounded[of system user model w] by (auto simp: sends_copies_def)

end

lemma validated_output_error:
  "validated_output model v = Inl e \<Longrightarrow> documented_model_error lib model e"
  "validated_output model v = Inr x \<Longrightarrow> om_validate model v = Inr x"
  by (auto simp: validated_output_def documented_model_error_def split: sum.splits if_splits)

lemma model_request_error:
  "fst (model_request lib client usage q w) = Inl e \<Longrightarrow> provider_failure e \<or> value_error e \<or> passes_through lib e"
  using model_request_runs[of lib client usage q w]
  by (auto simp: normalize_provider_error_def provider_failure_def passes_through_def split: sum.splits if_splits)

lemma retried_request_error:
  assumes "fst (with_retry policy (model_request lib client usage q) w) = Inl e"
  shows "provider_failure e \<or> value_error e \<or> passes_through lib e"
  using with_retry_outcome[of policy "model_request lib client usage q" w] assms model_request_error by metis

lemma retried_request_copies:
  "sends_copies (request_limit policy) q w (snd (with_retry policy (model_request lib client usage q) w))"
  by (rule with_retry_copies) (rule model_request_copies)

lemma translated_request_error:
  assumes "provider_failure e \<or> value_error e \<or> passes_through lib e"
  shows "documented_model_error lib model (translate_model_error e)"
  using assms by (auto simp: translate_model_error_def documented_model_error_def)

lemma catch_raise_eq:
  "catchE m (\<lambda>e. raiseE (f e)) w = (case m w of (Inl e, w') \<Rightarrow> (Inl (f e), w') | (Inr x, w') \<Rightarrow> (Inr x, w'))"
  by (simp add: catchE_def raiseE_def split: prod.split sum.split)

lemma openai_run_cases:
  "openai_run p q w = (r, w') \<Longrightarrow>
     sends_copies (request_limit (op_retry_policy p)) q w w' \<and>
     (\<forall>e. r = Inl e \<longrightarrow> documented_model_error (op_errors p) model e)"
  using retried_request_error[of "op_retry_policy p" "op_errors p" "op_client p" or_usage q w]
    retried_request_copies[of "op_retry_policy p" q w "op_errors p" "op_client p" or_usage]
  by (auto simp: openai_run_def catch_raise_eq intro: translated_request_error split: prod.splits sum.splits if_splits)
     (auto simp: documented_model_error_def provider_failure_def value_error_def)

definition openai_structured_request :: "OpenAIStructuredModelProvider \<Rightarrow> pystr \<Rightarrow> pystr \<Rightarrow> 'a output_model \<Rightarrow> openai_request" where
  "openai_structured_request p system user model =
     \<lparr>oq_model = op_model p, oq_system = system, oq_user = user, oq_operation = Parse_response (om_schema model),
      oq_store = op_store_responses p, oq_timeout = op_timeout_seconds p\<rparr>"

interpretation openai: structured_provider "op_errors p" "request_limit (op_retry_policy p)"
  "openai_structured_request p" "openai_generate_structured p" for p
proof
  fix system user w w' and model :: "'a output_model" and e x
  note run = openai_run_cases[of p "openai_structured_request p system user model" w _ _ model]
  have unfold: "openai_generate_structured p system user model w =
      (case openai_run p (openai_structured_request p system user model) w of
         (Inl e, w') \<Rightarrow> (Inl e, w')
       | (Inr response, w') \<Rightarrow>
           (case or_output_parsed response of None \<Rightarrow> Inl (AppExc InvalidLLMResponseError)
            | Some parsed \<Rightarrow> validated_output model parsed, w'))"
    by (simp add: openai_generate_structured_def openai_structured_request_def bindE_def raiseE_def liftE_def
        split: prod.split sum.split option.split)
  show "openai_generate_structured p system user model w = (Inl e, w') \<Longrightarrow> documented_model_error (op_errors p) model e"
    unfolding unfold using run by (auto split: prod.splits sum.splits option.splits dest: validated_output_error(1))
       (simp_all add: documented_model_error_def)
  show "openai_generate_structured p system user model w = (Inr x, w') \<Longrightarrow> \<exists>v. om_validate model v = Inr x"
    unfolding unfold by (auto split: prod.splits sum.splits option.splits dest: validated_output_error(2))
  show "sends_copies (request_limit (op_retry_policy p)) (openai_structured_request p system user model) w
      (snd (openai_generate_structured p system user model w))"
    unfolding unfold using run by (auto split: prod.splits sum.splits)
qed

lemma anthropic_create_cases:
  "anthropic_create p system user tools choice max_tokens w = (r, w') \<Longrightarrow>
     sends_copies (request_limit (ap_retry_policy p))
       \<lparr>aq_model = ap_model p, aq_system = system, aq_user = user, aq_tools = tools, aq_tool_choice = choice,
        aq_max_tokens = max_tokens, aq_timeout = ap_timeout_seconds p\<rparr> w w' \<and>
     (\<forall>e. r = Inl e \<longrightarrow> documented_model_error (ap_errors p) model e)"
proof -
  assume run: "anthropic_create p system user tools choice max_tokens w = (r, w')"
  let ?q = "\<lparr>aq_model = ap_model p, aq_system = system, aq_user = user, aq_tools = tools, aq_tool_choice = choice,
        aq_max_tokens = max_tokens, aq_timeout = ap_timeout_seconds p\<rparr>"
  show ?thesis
    using run retried_request_error[of "ap_retry_policy p" "ap_errors p" "ap_client p" an_usage ?q w]
      retried_request_copies[of "ap_retry_policy p" ?q w "ap_errors p" "ap_client p" an_usage]
    by (auto simp: anthropic_create_def catch_raise_eq intro!: translated_request_error split: prod.splits sum.splits)
qed

definition anthropic_structured_request ::
  "AnthropicStructuredModelProvider \<Rightarrow> pystr \<Rightarrow> pystr \<Rightarrow> 'a output_model \<Rightarrow> anthropic_request" where
  "anthropic_structured_request p system user model =
     \<lparr>aq_model = ap_model p, aq_system = system, aq_user = user,
      aq_tools = [\<lparr>at_name = structured_tool_name,
        at_description = JStr (py ''Submit the complete validated structured result.''),
        at_input_schema = om_schema model\<rparr>],
      aq_tool_choice = Choose_tool structured_tool_name, aq_max_tokens = 4096, aq_timeout = ap_timeout_seconds p\<rparr>"

interpretation anthropic: structured_provider "ap_errors p" "request_limit (ap_retry_policy p)"
  "anthropic_structured_request p" "anthropic_generate_structured p" for p
proof
  fix system user w w' and model :: "'a output_model" and e x
  let ?create = "anthropic_create p system user
       [\<lparr>at_name = structured_tool_name,
         at_description = JStr (py ''Submit the complete validated structured result.''),
         at_input_schema = om_schema model\<rparr>] (Choose_tool structured_tool_name) 4096 w"
  obtain r w1 where c: "?create = (r, w1)" by (cases ?create)
  note run = anthropic_create_cases[OF c, of model]
  have unfold: "anthropic_generate_structured p system user model w =
      (case r of Inl e \<Rightarrow> Inl e
       | Inr response \<Rightarrow>
           (case find (\<lambda>b. ab_type b = Some (py ''tool_use'') \<and> ab_name b = structured_tool_name) (an_content response) of
              None \<Rightarrow> Inl (AppExc InvalidLLMResponseError)
            | Some block \<Rightarrow> validated_output model (ab_input block)), w1)"
    by (simp add: anthropic_generate_structured_def bindE_def raiseE_def liftE_def c split: sum.split option.split)
  show "anthropic_generate_structured p system user model w = (Inl e, w') \<Longrightarrow> documented_model_error (ap_errors p) model e"
    unfolding unfold using run by (auto split: sum.splits option.splits dest: validated_output_error(1))
       (simp_all add: documented_model_error_def)
  show "anthropic_generate_structured p system user model w = (Inr x, w') \<Longrightarrow> \<exists>v. om_validate model v = Inr x"
    unfolding unfold by (auto split: sum.splits option.splits dest: validated_output_error(2))
  show "sends_copies (request_limit (ap_retry_policy p)) (anthropic_structured_request p system user model) w
      (snd (anthropic_generate_structured p system user model w))"
    unfolding unfold anthropic_structured_request_def using run by simp
qed


text \<open>The retries of an adapter are the retry loop: outcome and waiting times of a retried model request are those
  of the pure loop over the outcomes of its attempts.\<close>

theorem provider_retry_refines:
  "let operation = model_request lib client usage q;
       run = run_with_retry p (\<lambda>i. fst (operation (world_at p operation w i)))
               (\<lambda>i. pw_random w (length (pw_sleeps w) + i))
   in fst (with_retry (Some p) operation w) = rr_result run \<and>
      pw_sleeps (snd (with_retry (Some p) operation w)) = pw_sleeps w @ rr_sleeps run"
  using retrying_refines[OF model_request_keeps_script, of w "pw_random w" "length (pw_sleeps w)" 0 p lib client usage q w
      "Suc (rp_max_retries p)"]
  by (simp add: Let_def with_retry_def run_with_retry_def)

section \<open>Embeddings in batches\<close>

lemma metered_embedding:
  "\<exists>w'. metered record_embedding_call started w = (Inr (), w') \<and> pw_requests w' = pw_requests w \<and> pw_sdk w' = pw_sdk w"
  by (cases "pw_metrics w") (simp_all add: metered_def bindE_def provider_clock_def record_embedding_call_def modifyE_def)

lemma request_batch_answered:
  assumes "pw_sdk w (length (pw_requests w)) q = Inr data"
    and "q = \<lparr>eq_model = ep_model p, eq_input = batch, eq_dimensions = ep_dimension p, eq_timeout = ep_timeout_seconds p\<rparr>"
  shows "\<exists>w'. request_batch p batch w = (Inr data, w') \<and> pw_requests w' = pw_requests w @ [q] \<and> pw_sdk w' = pw_sdk w"
proof -
  let ?w2 = "w\<lparr>pw_reads := Suc (pw_reads w), pw_requests := pw_requests w @ [q]\<rparr>"
  obtain w' where "metered record_embedding_call (pw_perf w (pw_reads w)) ?w2 = (Inr (), w')"
    "pw_requests w' = pw_requests ?w2" "pw_sdk w' = pw_sdk ?w2"
    using metered_embedding[of "pw_perf w (pw_reads w)" ?w2] by blast
  then show ?thesis
    using assms by (intro exI[of _ w'])
      (simp add: request_batch_def provider_clock_def finallyE_def send_request_def bindE_def catchE_def raiseE_def)
qed

lemma with_retry_success: "operation w = (Inr x, w') \<Longrightarrow> with_retry policy operation w = (Inr x, w')"
  by (cases policy) (simp_all add: with_retry_def retrying_Suc)

lemma concat_batches: "0 < n \<Longrightarrow> concat (batches n xs) = xs"
proof (induction n xs rule: batches.induct)
  case (1 n xs)
  then show ?case by (subst batches.simps) auto
qed

lemma batches_sizes: "\<forall>b \<in> set (batches n xs). 0 < length b \<and> length b \<le> n"
proof (induction n xs rule: batches.induct)
  case (1 n xs)
  then show ?case by (subst batches.simps) auto
qed

text \<open>The documented behaviour of the embedding endpoint: one entry per input with its index, in any order.\<close>

definition answers_embeddings :: "(pystr \<Rightarrow> rat list) \<Rightarrow> (embedding_request, embedding_data) provider_world \<Rightarrow> bool" where
  "answers_embeddings emb w \<longleftrightarrow>
     (\<forall>n q. \<exists>data. pw_sdk w n q = Inr data \<and>
        mset data = mset (map (\<lambda>i. (int i, map Finite (emb (eq_input q ! i)))) [0..<length (eq_input q)]))"

lemma ordered_answers:
  assumes "mset data = mset (map (\<lambda>i. (int i, f i)) [0..<n])"
  shows "map snd (sort_key fst data) = map f [0..<n]"
proof -
  have "set data = (\<lambda>i. (int i, f i)) ` {0..<n}"
    using assms by (metis atLeastLessThan_upt set_map set_mset_mset)
  then have "inj_on fst (set data)" by (auto simp: inj_on_def)
  moreover have "sorted (map fst (map (\<lambda>i. (int i, f i)) [0..<n]))"
    by (simp add: comp_def sorted_wrt_map sorted_wrt_iff_nth_less)
  ultimately have "sort_key fst data = map (\<lambda>i. (int i, f i)) [0..<n]" using sort_key_inj_key_eq[OF assms] by blast
  then show ?thesis by (simp add: comp_def)
qed

lemma embed_batches_answered:
  assumes "answers_embeddings emb w"
  shows "\<exists>w' qs. embed_batches p bs w = (Inr (map (\<lambda>s. map Finite (emb s)) (concat bs)), w') \<and>
    pw_requests w' = pw_requests w @ qs \<and> map eq_input qs = bs"
  using assms
proof (induction bs arbitrary: w)
  case (Cons b bs)
  define q where "q = \<lparr>eq_model = ep_model p, eq_input = b, eq_dimensions = ep_dimension p, eq_timeout = ep_timeout_seconds p\<rparr>"
  obtain data where data: "pw_sdk w (length (pw_requests w)) q = Inr data"
    "mset data = mset (map (\<lambda>i. (int i, map Finite (emb (b ! i)))) [0..<length b])"
    using Cons.prems unfolding answers_embeddings_def by (metis embedding_request.select_convs(2) q_def)
  obtain w1 where w1: "request_batch p b w = (Inr data, w1)" "pw_requests w1 = pw_requests w @ [q]" "pw_sdk w1 = pw_sdk w"
    using request_batch_answered[OF data(1) q_def] by blast
  have "answers_embeddings emb w1" using Cons.prems w1(3) by (simp add: answers_embeddings_def)
  then obtain w2 qs where w2: "embed_batches p bs w1 = (Inr (map (\<lambda>s. map Finite (emb s)) (concat bs)), w2)"
    "pw_requests w2 = pw_requests w1 @ qs" "map eq_input qs = bs"
    using Cons.IH by blast
  have "map snd (sort_key fst data) = map (\<lambda>s. map Finite (emb s)) b"
    using ordered_answers[OF data(2)] arg_cong[OF map_nth[of b], of "map (\<lambda>s. map Finite (emb s))"] by (simp add: comp_def)
  then have "embed_batches p (b # bs) w = (Inr (map (\<lambda>s. map Finite (emb s)) (concat (b # bs))), w2)"
    using with_retry_success[of "request_batch p b" w data w1 "ep_retry_policy p"] w1(1) w2(1) by (simp add: bindE_def returnE_def)
  then show ?case using w1(2) w2(2,3) by (intro exI[of _ w2] exI[of _ "q # qs"]) (simp add: q_def)
qed (simp add: returnE_def)

text \<open>Whatever the SDK answers, a returned result has one vector of the configured dimension per text.\<close>

lemma embeddings_well_formed:
  assumes "provider_embed_texts p texts w = (Inr vectors, w')"
  shows "length vectors = length texts \<and> (\<forall>v \<in> set vectors. length v = ep_dimension p)"
  using assms
  by (auto simp: provider_embed_texts_def bindE_def catchE_def raiseE_def returnE_def list_ex_iff converted_vector_def
      split: if_splits prod.splits sum.splits)

text \<open>C31: Batching and reordering do not show. When the embedding endpoint answers every request with one entry
  per input, in whatever order, the adapter returns the embeddings of the texts in the order of the
  texts, for every batch size; it sent every text exactly once, in order, in batches of at most the
  configured size.\<close>

theorem embed_texts_reference:
  assumes p: "embedding_provider_ok p" "ep_client p = Inr ()"
    and texts: "texts \<noteq> []" "list_all (\<lambda>s. py_strip s \<noteq> []) texts"
    and sdk: "answers_embeddings emb w" "list_all (\<lambda>s. length (emb s) = ep_dimension p) texts"
  shows "\<exists>w' qs. provider_embed_texts p texts w = (Inr (map emb texts), w') \<and> pw_requests w' = pw_requests w @ qs \<and>
    concat (map eq_input qs) = texts \<and> list_all (\<lambda>q. length (eq_input q) \<le> ep_batch_size p) qs"
proof -
  have n: "0 < ep_batch_size p" using p(1) by (simp add: embedding_provider_ok_def)
  obtain w' qs where run: "embed_batches p (batches (ep_batch_size p) texts) w =
      (Inr (map (\<lambda>s. map Finite (emb s)) texts), w')"
    "pw_requests w' = pw_requests w @ qs" "map eq_input qs = batches (ep_batch_size p) texts"
    using embed_batches_answered[OF sdk(1), of p "batches (ep_batch_size p) texts"] concat_batches[OF n] by metis
  have conv: "converted_vector (ep_dimension p) (map Finite v) = Some v" if "length v = ep_dimension p" for v
    using that by (simp add: converted_vector_def list_all_iff comp_def)
  have sizes: "list_all (\<lambda>q. length (eq_input q) \<le> ep_batch_size p) qs"
    using batches_sizes[of "ep_batch_size p" texts] run(3) by (metis (no_types, lifting) imageI list.set_map list_all_iff)
  have "provider_embed_texts p texts w = (Inr (map emb texts), w')"
    using texts sdk(2) run(1) p(2)
    by (auto simp: provider_embed_texts_def bindE_def catchE_def liftE_def returnE_def list_all_iff list_ex_iff conv)
  then show ?thesis using run(2,3) sizes concat_batches[OF n, of texts] by auto
qed

section \<open>An instance\<close>

definition sample_provider_world :: "(nat \<Rightarrow> 'q \<Rightarrow> py_exc + 'r) \<Rightarrow> ('q, 'r) provider_world" where
  "sample_provider_world sdk =
     \<lparr>pw_metrics = None, pw_perf = (\<lambda>_. 0), pw_reads = 0, pw_sdk = sdk, pw_requests = [], pw_random = (\<lambda>_. 0), pw_sleeps = []\<rparr>"

definition sample_sdk_errors :: sdk_errors where
  "sample_sdk_errors =
     \<lparr>se_is_timeout = (\<lambda>e. e = OtherExc (py ''APITimeoutError'')), se_is_transient = (\<lambda>e. e = OtherExc (py ''RateLimitError'')),
      se_is_vendor = (\<lambda>e. e = OtherExc (py ''AuthenticationError''))\<rparr>"

definition sample_openai_provider :: OpenAIStructuredModelProvider where
  "sample_openai_provider =
     \<lparr>op_model = py ''m'', op_store_responses = False, op_client = Inr (), op_retry_policy = None, op_timeout_seconds = None,
      op_errors = sample_sdk_errors, op_json_loads = (\<lambda>_. Inr JNull)\<rparr>"

definition sample_output_model :: "nat output_model" where
  "sample_output_model = \<lparr>om_schema = JObj [], om_validate = (\<lambda>v. if v = JInt 1 then Inr 1 else Inl ValidationExc)\<rparr>"


definition sample_embedding_provider :: OpenAIEmbeddingProvider where
  "sample_embedding_provider =
     \<lparr>ep_model = py ''e'', ep_dimension = 1, ep_batch_size = 2, ep_client = Inr (), ep_retry_policy = None,
      ep_timeout_seconds = None, ep_errors = sample_sdk_errors\<rparr>"

text \<open>An endpoint that answers in reverse order.\<close>

theorem embed_texts_reference_witness:
  "\<exists>w'. provider_embed_texts sample_embedding_provider [py ''a'', py ''bc'', py ''d'']
      (sample_provider_world (\<lambda>_ q. Inr (rev (map (\<lambda>i. (int i, [Finite (of_nat (length (eq_input q ! i)))])) [0..<length (eq_input q)]))))
    = (Inr [[1], [2], [1]], w')"
proof -
  let ?w = "sample_provider_world (\<lambda>_ q. Inr (rev (map (\<lambda>i. (int i, [Finite (of_nat (length (eq_input q ! i)))])) [0..<length (eq_input q)])))"
  let ?emb = "\<lambda>s :: pystr. [of_nat (length s) :: rat]"
  have "answers_embeddings ?emb ?w"
    by (simp add: answers_embeddings_def sample_provider_world_def)
  moreover have "list_all (\<lambda>s. py_strip s \<noteq> []) [py ''a'', py ''bc'', py ''d'']"
    by (simp add: py_strip_def py_lstrip_def py_rstrip_def py_isspace_def py_def)
  ultimately show ?thesis
    using embed_texts_reference[of sample_embedding_provider "[py ''a'', py ''bc'', py ''d'']" ?emb ?w]
    by (auto simp: sample_embedding_provider_def embedding_provider_ok_def)
qed

end
