(* ===== verification/Hybrid_Retrieval.thy ===== *)
theory Hybrid_Retrieval
  imports Graph_Retrieval
begin

text \<open>
  Hybrid retrieval and its context (\<^verbatim>\<open>app/knowledge_graph/hybrid.py\<close>,
  \<^verbatim>\<open>app/knowledge_graph/context.py\<close>): vector and graph search run one after the other on the same
  session, either may fall back, and the chunks are merged by identifier.
\<close>

section \<open>Hybrid retrieval\<close>

record HybridRetrievalService =
  hy_vector :: RetrievalService
  hy_graph :: GraphRetrievalService

definition merge_vector :: "RetrievedEvidence list \<Rightarrow> (uuid, RetrievedEvidence) dict" where
  "merge_vector items =
     fold (\<lambda>e. AList.update (ev_chunk_id e) (e\<lparr>ev_retrieval_source := Retrieval_VECTOR\<rparr>)) items []"

definition merge_graph ::
  "RetrievedEvidence list \<Rightarrow> (uuid, RetrievedEvidence) dict \<Rightarrow> (uuid, RetrievedEvidence) dict" where
  "merge_graph items merged =
     fold (\<lambda>e m. AList.update (ev_chunk_id e)
             (case map_of m (ev_chunk_id e) of
                None \<Rightarrow> e\<lparr>ev_retrieval_source := Retrieval_GRAPH\<rparr>
              | Some x \<Rightarrow> x\<lparr>ev_retrieval_source := Retrieval_BOTH\<rparr>) m) items merged"

text \<open>\<open>try: ... except ApplicationError as exc\<close>: the value and no code, or the fallback and the code.\<close>

definition with_fallback :: "'a kdb \<Rightarrow> 'a kdb \<Rightarrow> ('a \<times> pystr option) kdb" where
  "with_fallback m fallback =
     catchE (bindE m (\<lambda>x. returnE (x, None)))
       (\<lambda>e. case e of
          AppExc a \<Rightarrow> bindE fallback (\<lambda>x. returnE (x, Some (error_code a)))
        | _ \<Rightarrow> raiseE e)"

definition hybrid_metadata ::
  "RetrievedEvidence list \<Rightarrow> GraphNeighborhood \<Rightarrow> RetrievedEvidence list \<Rightarrow> pystr option \<Rightarrow> pystr option \<Rightarrow>
     GraphRetrievalExecutionMetadata" where
  "hybrid_metadata vector_evidence n evidence graph_err vector_err =
     \<lparr>gx_graph_retrieval_used = (graph_err = None),
      gx_matched_entity_count = int (length (gn_matched_entities n)),
      gx_relationship_count = int (length (gn_relationships n)),
      gx_graph_depth_used = gn_depth_used n,
      gx_vector_evidence_count = int (length vector_evidence),
      gx_graph_evidence_count = int (length (gn_evidence n)),
      gx_hybrid_evidence_count = int (length evidence),
      gx_degraded_graph_mode = (graph_err \<noteq> None),
      gx_graph_error_code = graph_err, gx_vector_error_code = vector_err\<rparr>"

definition hybrid_search ::
  "HybridRetrievalService \<Rightarrow> pystr \<Rightarrow> int option \<Rightarrow> int option \<Rightarrow> HybridRetrievalResult kdb" where
  "hybrid_search svc query top_k max_depth =
     bindE (with_fallback (retrieval_search (hy_vector svc) query top_k None None None) (returnE []))
       (\<lambda>(vector_evidence, vector_err).
     bindE (with_fallback (graph_search (hy_graph svc) query max_depth None)
              (mk_neighborhood (empty_neighborhood query))) (\<lambda>(n, graph_err).
       let evidence = dict_values (merge_graph (gn_evidence n) (merge_vector vector_evidence));
           metadata = hybrid_metadata vector_evidence n evidence graph_err vector_err
       in if graph_metadata_ok metadata
          then returnE \<lparr>hrr_evidence = evidence, hrr_neighborhood = n, hrr_metadata = metadata\<rparr>
          else raiseE ValidationExc))"

section \<open>The hybrid context\<close>

definition vector_section :: "nat \<Rightarrow> RetrievedEvidence \<Rightarrow> rat \<Rightarrow> pystr" where
  "vector_section rank item score =
     py_join [10]
       [py ''Vector rank: '' @ nat_digits rank,
        py ''Document: '' @ ev_document_title item,
        py ''Document ID: '' @ uuid_str (ev_document_id item),
        py ''Chunk ID: '' @ uuid_str (ev_chunk_id item),
        py ''Retrieval source: '' @ retrieval_source_value (ev_retrieval_source item),
        py ''Similarity: '' @ fixed_decimals 6 score]"

definition relationship_section :: "nat \<Rightarrow> GraphRelationshipResult \<Rightarrow> pystr" where
  "relationship_section rank r =
     py_join [10]
       [py ''BEGIN_GRAPH_RELATIONSHIP_'' @ nat_digits rank,
        py ''Entity: '' @ gl_source_entity_name r,
        py ''Relationship: '' @ gl_source_entity_name r @ [32, 8594, 32] @
          relationship_type_value (gl_relationship_type r) @ [32, 8594, 32] @ gl_target_entity_name r,
        py ''Description: '' @ str_or (gl_description r) (py ''Not supplied''),
        py ''Confidence: '' @ fixed_decimals 3 (gl_confidence r),
        py ''Supported by document: '' @ uuid_str (gl_source_document_id r),
        py ''Supported by chunk: '' @ uuid_str (gl_source_chunk_id r),
        py ''END_GRAPH_RELATIONSHIP_'' @ nat_digits rank]"

definition hybrid_source_section :: "nat \<Rightarrow> RetrievedEvidence \<Rightarrow> pystr" where
  "hybrid_source_section rank item =
     py_join [10]
       [py ''BEGIN_HYBRID_SOURCE_'' @ nat_digits rank,
        py ''Document: '' @ ev_document_title item,
        py ''Document ID: '' @ uuid_str (ev_document_id item),
        py ''Chunk ID: '' @ uuid_str (ev_chunk_id item),
        py ''Source type: '' @ source_type_value (ev_source_type item),
        py ''Retrieval source: '' @ retrieval_source_value (ev_retrieval_source item),
        py ''Content:'',
        ev_content item,
        py ''END_HYBRID_SOURCE_'' @ nat_digits rank]"

text \<open>Formatting a missing similarity raises \<open>TypeError\<close>.\<close>

fun vector_sections :: "(nat \<times> RetrievedEvidence) list \<Rightarrow> py_exc + pystr list" where
  "vector_sections [] = Inr []"
| "vector_sections ((rank, item) # rest) =
     (case ev_similarity_score item of
        None \<Rightarrow> Inl TypeExc
      | Some score \<Rightarrow>
          (case vector_sections rest of
             Inl e \<Rightarrow> Inl e
           | Inr out \<Rightarrow> Inr (vector_section rank item score # out)))"

definition build_hybrid_rag_context :: "RetrievedEvidence list \<Rightarrow> GraphNeighborhood \<Rightarrow> py_exc + pystr" where
  "build_hybrid_rag_context evidence n =
     (if evidence = [] \<and> gn_relationships n = [] then Inr NO_EVIDENCE_CONTEXT
      else let vector_items = filter (\<lambda>e. ev_retrieval_source e \<in> {Retrieval_VECTOR, Retrieval_BOTH}) evidence
        in case vector_sections (numbered vector_items) of
             Inl e \<Rightarrow> Inl e
           | Inr vectors \<Rightarrow>
               Inr (py_join [10, 10]
                 ([py ''EXTERNAL_KNOWLEDGE_STATUS: RELEVANT_HYBRID_EVIDENCE_RETRIEVED'',
                   py ''VECTOR EVIDENCE''] @
                  (if vector_items = [] then [py ''No vector evidence available.''] else vectors) @
                  [py ''GRAPH RELATIONSHIPS''] @
                  (if gn_relationships n = [] then [py ''No source-grounded graph relationships matched.'']
                   else map (\<lambda>(rank, r). relationship_section rank r) (numbered (gn_relationships n))) @
                  [py ''SOURCE EVIDENCE''] @
                  map (\<lambda>(rank, item). hybrid_source_section rank item) (numbered evidence))))"

record HybridRAGPreparation =
  hp_query :: pystr
  hp_evidence :: "RetrievedEvidence list"
  hp_context :: pystr
  hp_graph_retrieval :: GraphRetrievalExecutionMetadata

definition hybrid_prepare :: "HybridRetrievalService \<Rightarrow> AssessmentRequest \<Rightarrow> HybridRAGPreparation kdb" where
  "hybrid_prepare svc request =
     (let query = build_retrieval_query request
      in bindE (hybrid_search svc query None None) (\<lambda>result.
         bindE (liftE (build_hybrid_rag_context (hrr_evidence result) (hrr_neighborhood result))) (\<lambda>context.
         returnE \<lparr>hp_query = query, hp_evidence = hrr_evidence result, hp_context = context,
                  hp_graph_retrieval = hrr_metadata result\<rparr>)))"

section \<open>Merging\<close>

text \<open>A merged dictionary: one entry per chunk found by either search, labelled by the searches that
  found it, with a similarity wherever the vector search did.\<close>

definition merge_ok :: "uuid set \<Rightarrow> uuid set \<Rightarrow> (uuid, RetrievedEvidence) dict \<Rightarrow> bool" where
  "merge_ok V G m \<longleftrightarrow>
     distinct (map fst m) \<and> dom (map_of m) = V \<union> G \<and>
     (\<forall>k x. map_of m k = Some x \<longrightarrow> ev_chunk_id x = k \<and>
        (ev_retrieval_source x \<in> {Retrieval_GRAPH, Retrieval_BOTH} \<longleftrightarrow> k \<in> G) \<and>
        (ev_retrieval_source x \<in> {Retrieval_VECTOR, Retrieval_BOTH} \<longleftrightarrow> k \<in> V) \<and>
        (k \<in> V \<longrightarrow> ev_similarity_score x \<noteq> None))"

lemma merge_ok_update:
  assumes "merge_ok V G m" and "ev_chunk_id x = k" and "V' \<union> G' = insert k (V \<union> G)"
    and "V' - {k} = V - {k}" and "G' - {k} = G - {k}"
    and "ev_retrieval_source x \<in> {Retrieval_GRAPH, Retrieval_BOTH} \<longleftrightarrow> k \<in> G'"
    and "ev_retrieval_source x \<in> {Retrieval_VECTOR, Retrieval_BOTH} \<longleftrightarrow> k \<in> V'"
    and "k \<in> V' \<longrightarrow> ev_similarity_score x \<noteq> None"
  shows "merge_ok V' G' (AList.update k x m)"
proof -
  have other: "j \<in> V' \<longleftrightarrow> j \<in> V" "j \<in> G' \<longleftrightarrow> j \<in> G" if "j \<noteq> k" for j
    using assms(4,5) that by blast+
  have "dom (map_of (AList.update k x m)) = V' \<union> G'"
    using assms(1,3) by (auto simp: merge_ok_def update_conv')
  then show ?thesis
    using assms(1,2,6-8) other unfolding merge_ok_def
    by (simp add: distinct_update update_conv')
qed

lemma merge_vector_ok:
  assumes "\<forall>e \<in> set items. ev_similarity_score e \<noteq> None"
  shows "merge_ok (ev_chunk_id ` set items) {} (merge_vector items)"
proof -
  have "merge_ok V {} m \<Longrightarrow> \<forall>e \<in> set items. ev_similarity_score e \<noteq> None \<Longrightarrow>
     merge_ok (V \<union> ev_chunk_id ` set items) {}
       (fold (\<lambda>e. AList.update (ev_chunk_id e) (e\<lparr>ev_retrieval_source := Retrieval_VECTOR\<rparr>)) items m)" for V m
  proof (induction items arbitrary: V m)
    case (Cons e es)
    have "merge_ok (insert (ev_chunk_id e) V) {}
        (AList.update (ev_chunk_id e) (e\<lparr>ev_retrieval_source := Retrieval_VECTOR\<rparr>) m)"
      by (rule merge_ok_update[OF Cons.prems(1)]) (use Cons.prems(2) in simp_all)
    from Cons.IH[OF this] Cons.prems(2) show ?case by simp
  qed simp
  note step = this
  have "merge_ok {} {} []" by (simp add: merge_ok_def)
  from step[OF this assms] show ?thesis by (simp add: merge_vector_def)
qed

lemma merge_graph_ok:
  assumes "merge_ok V {} m" and "distinct (map ev_chunk_id items)"
  shows "merge_ok V (ev_chunk_id ` set items) (merge_graph items m)"
proof -
  let ?f = "\<lambda>e m. AList.update (ev_chunk_id e)
             (case map_of m (ev_chunk_id e) of
                None \<Rightarrow> e\<lparr>ev_retrieval_source := Retrieval_GRAPH\<rparr>
              | Some x \<Rightarrow> x\<lparr>ev_retrieval_source := Retrieval_BOTH\<rparr>) m"
  have "merge_ok V G m \<Longrightarrow> distinct (map ev_chunk_id items) \<Longrightarrow> G \<inter> ev_chunk_id ` set items = {} \<Longrightarrow>
     merge_ok V (G \<union> ev_chunk_id ` set items) (fold ?f items m)" for G m
  proof (induction items arbitrary: G m)
    case (Cons e es)
    let ?i = "ev_chunk_id e"
    have i: "?i \<notin> G" using Cons.prems(3) by auto
    have "merge_ok V (insert ?i G) (?f e m)"
    proof (cases "map_of m ?i")
      case None
      then have "?i \<notin> dom (map_of m)" by blast
      then have "?i \<notin> V" using Cons.prems(1)[unfolded merge_ok_def] by blast
      then show ?thesis
        by (intro merge_ok_update[OF Cons.prems(1)]) (auto simp: None)
    next
      case (Some x)
      from Some Cons.prems(1) have x: "?i \<in> V \<union> G" "ev_chunk_id x = ?i" "?i \<in> V \<longrightarrow> ev_similarity_score x \<noteq> None"
        by (auto simp: merge_ok_def)
      with i show ?thesis
        by (intro merge_ok_update[OF Cons.prems(1)]) (auto simp: Some)
    qed
    from Cons.IH[OF this] Cons.prems show ?case by auto
  qed simp
  from this[of "{}" m] assms show ?thesis by (simp add: merge_graph_def)
qed

lemma merge_ok_values:
  assumes "merge_ok V G m"
  shows "distinct (map ev_chunk_id (dict_values m))" "ev_chunk_id ` set (dict_values m) = V \<union> G"
    "e \<in> set (dict_values m) \<Longrightarrow>
        (ev_retrieval_source e \<in> {Retrieval_GRAPH, Retrieval_BOTH} \<longleftrightarrow> ev_chunk_id e \<in> G) \<and>
        (ev_retrieval_source e \<in> {Retrieval_VECTOR, Retrieval_BOTH} \<longleftrightarrow> ev_chunk_id e \<in> V) \<and>
        (ev_chunk_id e \<in> V \<longrightarrow> ev_similarity_score e \<noteq> None)"
proof -
  have mem: "map_of m k = Some x" if "(k, x) \<in> set m" for k x
    using that assms by (simp add: merge_ok_def)
  then have "keyed ev_chunk_id m" using assms unfolding keyed_def merge_ok_def by fastforce
  then have keys: "map ev_chunk_id (dict_values m) = map fst m" by (rule keyed_values)
  then show "distinct (map ev_chunk_id (dict_values m))" using assms by (simp add: merge_ok_def)
  have "ev_chunk_id ` set (dict_values m) = fst ` set m" using keys by (metis set_map)
  then show "ev_chunk_id ` set (dict_values m) = V \<union> G"
    using assms by (simp add: merge_ok_def dom_map_of_conv_image_fst)
  assume "e \<in> set (dict_values m)"
  then obtain k where "(k, e) \<in> set m" by (auto simp: dict_values_def)
  then have "map_of m k = Some e" by (rule mem)
  then show "(ev_retrieval_source e \<in> {Retrieval_GRAPH, Retrieval_BOTH} \<longleftrightarrow> ev_chunk_id e \<in> G) \<and>
        (ev_retrieval_source e \<in> {Retrieval_VECTOR, Retrieval_BOTH} \<longleftrightarrow> ev_chunk_id e \<in> V) \<and>
        (ev_chunk_id e \<in> V \<longrightarrow> ev_similarity_score e \<noteq> None)"
    using assms unfolding merge_ok_def by metis
qed

section \<open>What the two searches promise\<close>

lemma with_fallback_Inr:
  assumes "with_fallback m fallback s = (Inr (x, err), s')"
  obtains (returned) "err = None" "m s = (Inr x, s')"
  | (fell_back) a s1 where "err = Some (error_code a)" "m s = (Inl (AppExc a), s1)" "fallback s1 = (Inr x, s')"
  using assms
  by (auto simp: with_fallback_def catchE_def bindE_def returnE_def raiseE_def
      split: prod.splits sum.splits py_exc.splits)

lemma rollback_suppressed_run:
  "k_rollback_suppressed s = (r, s') \<Longrightarrow> r = Inr () \<and> k_durable s' = k_durable s \<and> k_live s' \<in> {k_live s, k_durable s}"
proof -
  assume run: "k_rollback_suppressed s = (r, s')"
  obtain s1 where s1: "k_rollback_suppressed s = (Inr (), s1)" "k_durable s1 = k_durable s"
    using rollback_suppressed by blast
  moreover have "k_live s' \<in> {k_live s, k_durable s}"
    using run by (auto simp: k_rollback_suppressed_def k_rollback_def catchE_def bindE_def modifyE_def returnE_def
        raiseE_def dest!: k_call_frame split: prod.splits sum.splits py_exc.splits)
  ultimately show ?thesis using run by simp
qed

lemma retrieval_search_frame:
  assumes "retrieval_search svc query top_k threshold source_type document_id s = (r, s')"
  shows "k_durable s' = k_durable s \<and> k_live s' \<in> {k_live s, k_durable s}"
proof -
  have search: "k_live s2 = k_live s1 \<and> k_durable s2 = k_durable s1"
    if "search_similar db v k t st d s1 = (x, s2)" for db v k t st d s1 x s2
    using search_similar_frame[OF that] .
  show ?thesis
    using assms unfolding retrieval_search_def
    by (auto simp: bindE_def liftE_def raiseE_def catchE_def returnE_def Let_def
        dest!: search rollback_suppressed_run split: sum.splits list.splits prod.splits if_splits py_exc.splits)
qed

lemma retrieval_search_scores:
  assumes "retrieval_search svc query top_k threshold source_type document_id s = (Inr ev, s')" and "e \<in> set ev"
  shows "ev_similarity_score e \<noteq> None"
proof -
  from assms(1) obtain v vs where v: "rs_embed_texts svc [query] = Inr (v # vs)"
    by (cases "rs_embed_texts svc [query]")
       (auto simp: retrieval_search_def bindE_def liftE_def raiseE_def split: list.splits)
  with assms(1) obtain all t k where "\<not> list_ex (\<lambda>e. ev_similarity_score e = None) all" "ev = rank_evidence t k all"
    by (auto simp: retrieval_search_def bindE_eq_Inr liftE_def raiseE_def returnE_def Let_def split: if_splits)
  with rank_evidence_facts(4)[of t k all] assms(2) show ?thesis by (auto simp: list_ex_iff)
qed

lemma distinct_concat_keys:
  assumes "distinct (map key cs)" and "\<And>c. length (f c) \<le> 1"
  shows "distinct (map (\<lambda>(c, d). key c) (concat (map (\<lambda>c. map (Pair c) (f c)) cs)))"
  using assms(1)
proof (induction cs)
  case (Cons c cs)
  have "distinct (map (\<lambda>(c, d). key c) (map (Pair c) (f c)))"
    using assms(2)[of c] by (cases "f c") (auto simp: Suc_le_eq)
  moreover have "set (map (\<lambda>(c, d). key c) (concat (map (\<lambda>c. map (Pair c) (f c)) cs))) \<subseteq> key ` set cs" by auto
  moreover have "key c \<notin> key ` set cs" using Cons.prems by simp
  ultimately show ?case using Cons by auto
qed simp

lemma chunk_join_distinct:
  assumes "documents_wf t"
  shows "distinct (map (\<lambda>(c, d). kc_chunk_id c) (chunk_join t))"
proof -
  have "length (filter (\<lambda>d. kd_document_id d = i) ds) \<le> 1" if "distinct (map kd_document_id ds)" for i ds
    using that by (induction ds) (auto simp: filter_empty_conv image_iff)
  with assms show ?thesis
    unfolding chunk_join_def documents_wf_def by (intro distinct_concat_keys) auto
qed

lemma load_graph_evidence_distinct:
  assumes "load_graph_evidence ids s = (Inr ev, s')" and "documents_wf (k_live s)"
  shows "distinct (map ev_chunk_id ev)"
proof (cases "ids = {}")
  case True
  with assms(1) show ?thesis by (simp add: load_graph_evidence_def returnE_def)
next
  case False
  let ?rows = "sort_key (\<lambda>(c, d). kc_chunk_id c) (filter (\<lambda>(c, d). kc_chunk_id c \<in> ids) (chunk_join (k_live s)))"
  have "ev = map (\<lambda>(c, d). chunk_evidence c d None Retrieval_GRAPH) ?rows"
    using assms(1) False k_query_run[of _ s "Inr ev" s'] by (auto simp: load_graph_evidence_def)
  then have "map ev_chunk_id ev = map (\<lambda>(c, d). kc_chunk_id c) ?rows"
    by (simp add: chunk_evidence_def case_prod_beta)
  moreover have "distinct (map (\<lambda>(c, d). kc_chunk_id c) ?rows)"
    using distinct_map_filter[OF chunk_join_distinct[OF assms(2)], of "\<lambda>(c, d). kc_chunk_id c \<in> ids"]
    by (simp add: distinct_map)
  ultimately show ?thesis by simp
qed

lemma get_neighborhood_evidence:
  assumes "get_neighborhood g seeds d k c s = (Inr data, s')" and "documents_wf (k_live s)"
  shows "distinct (map ev_chunk_id (gtd_evidence data))"
proof -
  from assms(1) obtain tv s1 es s2 ms s3 ids ev where
    t: "traverse (nat d) 1 k c (start_traversal (take k (dedup seeds))) s = (Inr tv, s1)"
    and q1: "k_query (\<lambda>t. entities_in_order g (filter (\<lambda>e. ken_entity_id e \<in> tv_visited tv) (kt_entities t))) s1 = (Inr es, s2)"
    and q2: "k_query (\<lambda>t. sort_key (\<lambda>m. (kme_created_at m, kme_mention_id m))
                  (filter (\<lambda>m. kme_entity_id m \<in> tv_visited tv) (kt_mentions t))) s2 = (Inr ms, s3)"
    and q3: "load_graph_evidence ids s3 = (Inr ev, s')" and data: "gtd_evidence data = ev"
    by (auto simp: get_neighborhood_def Let_def bindE_eq_Inr returnE_def)
  have "traversal_ok c (k_live s) k (set (take k (dedup seeds))) (start_traversal (take k (dedup seeds)))"
    by (rule start_traversal_ok) simp_all
  with t have "k_live s1 = k_live s"
    using traverse_ok[OF t] by (simp add: start_traversal_def)
  then have "k_live s3 = k_live s" using k_query_run[OF q1] k_query_run[OF q2] by simp
  with load_graph_evidence_distinct[OF q3] assms(2) data show ?thesis by simp
qed

lemma graph_search_Inr:
  assumes run: "graph_search svc query max_depth types s = (Inr n, s')"
  shows "neighborhood_ok n \<and> gn_query n = query \<and>
     (documents_wf (k_live s) \<longrightarrow> distinct (map ev_chunk_id (gn_evidence n)))"
proof -
  let ?h = "\<lambda>e. case e of SqlExc q \<Rightarrow> bindE k_rollback_suppressed (\<lambda>_. raiseE (AppExc (graph_error q))) | _ \<Rightarrow> raiseE e"
  have "?h e s1 \<noteq> (Inr found, s2)" for e s1 s2 and found :: "GraphNeighborhood + GraphTraversalData"
    by (auto simp: bindE_eq_Inr raiseE_def split: py_exc.splits)
  with run obtain found s1 where l: "graph_lookup svc query max_depth types s = (Inr found, s1)"
    and rest: "(case found of Inl n \<Rightarrow> returnE n | Inr data \<Rightarrow> neighborhood_of query data) s1 = (Inr n, s')"
    by (auto simp: graph_search_def bindE_eq_Inr catchE_def split: prod.splits sum.splits)
  show ?thesis
  proof (cases found)
    case (Inl m)
    with l have "m = empty_neighborhood query" "neighborhood_ok m"
      by (auto simp: graph_lookup_def bindE_eq_Inr returnE_def split: if_splits)
    with Inl rest show ?thesis by (auto simp: returnE_def empty_neighborhood_def)
  next
    case (Inr data)
    with l obtain ms s2 where f: "find_matching_query (gr_text svc) query (gr_max_entities svc) types s = (Inr ms, s2)"
      and g: "get_neighborhood (gr_text svc) (map ken_entity_id ms) (resolve_depth svc max_depth)
                     (gr_max_entities svc) (gr_min_confidence svc) s2 = (Inr data, s1)"
      by (auto simp: graph_lookup_def bindE_eq_Inr returnE_def split: if_splits)
    have "k_live s2 = k_live s" using find_matching_query_Inr[OF f] by simp
    moreover have "neighborhood_ok n" "gn_query n = query" "gn_evidence n = gtd_evidence data"
      using rest Inr by (auto simp: neighborhood_of_def Let_def bindE_eq_Inr liftE_def)
    ultimately show ?thesis using get_neighborhood_evidence[OF g] by simp
  qed
qed

section \<open>Properties\<close>

lemma vector_sections_total:
  "\<forall>(rank, item) \<in> set items. ev_similarity_score item \<noteq> None \<Longrightarrow> \<exists>out. vector_sections items = Inr out"
  by (induction items rule: vector_sections.induct) auto

lemma hybrid_context_total:
  assumes "\<forall>e \<in> set evidence. ev_retrieval_source e \<in> {Retrieval_VECTOR, Retrieval_BOTH} \<longrightarrow> ev_similarity_score e \<noteq> None"
  shows "\<exists>c. build_hybrid_rag_context evidence n = Inr c"
proof -
  let ?items = "filter (\<lambda>e. ev_retrieval_source e \<in> {Retrieval_VECTOR, Retrieval_BOTH}) evidence"
  have "\<forall>(rank, item) \<in> set (numbered ?items). ev_similarity_score item \<noteq> None"
    using assms unfolding numbered_def by (fastforce dest: set_zip_rightD)
  then obtain out where "vector_sections (numbered ?items) = Inr out" using vector_sections_total by blast
  then show ?thesis by (simp add: build_hybrid_rag_context_def)
qed


lemma with_fallback_neighborhood:
  assumes "with_fallback (graph_search svc query max_depth types) (mk_neighborhood (empty_neighborhood query)) s = (Inr (n, err), s')"
  shows "length query \<le> 4000"
  using assms
proof (cases rule: with_fallback_Inr)
  case returned
  with graph_search_Inr[OF returned(2)] show ?thesis by (auto simp: neighborhood_ok_def)
next
  case (fell_back a s1)
  then show ?thesis by (auto simp: neighborhood_ok_def empty_neighborhood_def)
qed

lemma hybrid_search_short: "hybrid_search svc query top_k max_depth s = (Inr result, s') \<Longrightarrow> length query \<le> 4000"
  by (fastforce simp: hybrid_search_def Let_def bindE_eq_Inr raiseE_def split: if_splits prod.splits
      dest: with_fallback_neighborhood)

text \<open>A request with a current process of 4000 characters, which the request schema allows.\<close>

definition long_request :: AssessmentRequest where
  "long_request =
     \<lparr>req_company_name = [97], req_organization_description = None, req_industry = [98],
      req_business_problem = [99], req_current_process = Some (replicate 4000 100), req_pain_points = [],
      req_desired_outcome = [101], req_constraints = [], req_additional_context = None\<rparr>"

text \<open>With the knowledge graph enabled, no retrieval context can be prepared for it, whatever the
  services and the store.\<close>

theorem valid_request_defeats_hybrid_retrieval:
  "request_ok long_request \<and> (\<forall>svc s result s'. hybrid_prepare svc long_request s \<noteq> (Inr result, s'))"
proof -
  have "4000 < length (build_retrieval_query long_request)"
    by (simp add: build_retrieval_query_def query_fields_def long_request_def str_truthy_def str_or_def py_def)
  then have "hybrid_prepare svc long_request s \<noteq> (Inr result, s')" for svc s result s'
    by (auto simp: hybrid_prepare_def Let_def bindE_eq_Inr dest!: hybrid_search_short)
  moreover have "request_ok long_request"
    by (simp add: request_ok_def long_request_def len_between_def opt_between_def)
  ultimately show ?thesis by blast
qed

section \<open>An instance\<close>

definition sample_hybrid :: HybridRetrievalService where
  "sample_hybrid = \<lparr>hy_vector = sample_retrieval, hy_graph = sample_graph_service\<rparr>"

lemma sample_vector_search:
  "\<exists>v. retrieval_search sample_retrieval [97] None None None None (knowledge_session_of sample_graph []) =
     (Inr v, knowledge_session_of sample_graph [])"
  by (simp add: retrieval_search_def sample_retrieval_def knowledge_session_of_def sample_graph_defs
      bindE_def catchE_def liftE_def returnE_def getE_def search_similar_def k_call_def Let_def
      qualifying_rows_def chunk_join_def chunk_evidence_def)


end
