(* ===== verification/Multi_Agent.thy ===== *)
theory Multi_Agent
  imports Evidence_Agent
begin

text \<open>
  The four-agent workflow (\<^verbatim>\<open>app/graph/multi_agent_state.py\<close>, \<^verbatim>\<open>app/graph/multi_agent_nodes.py\<close>,
  \<^verbatim>\<open>app/graph/multi_agent_workflow.py\<close>) and its three toolless specialists
  (\<^verbatim>\<open>app/agents/architecture_agent.py\<close>, \<^verbatim>\<open>app/agents/risk_governance_agent.py\<close>,
  \<^verbatim>\<open>app/agents/synthesis_agent.py\<close>).

  A node returns an update of the state. The architecture and governance nodes run concurrently:
  each is cut into three steps (start, call of the specialist, end), and a schedule says which of
  the two moves next. LangGraph's \<open>invoke\<close> is a parameter; \<open>multi_langgraph_semantics\<close> states
  that it runs the declared graph under some schedule.
\<close>

section \<open>Specialists\<close>

definition architecture_analyze ::
  "'w StructuredModelProvider \<Rightarrow> (rat \<Rightarrow> pystr) \<Rightarrow> AssessmentRequest \<Rightarrow> EvidenceBrief \<Rightarrow>
     ('w, py_exc, ArchitectureRecommendation) eff" where
  "architecture_analyze provider float_repr request evidence_brief =
     smp_architecture provider ARCHITECTURE_AGENT_SYSTEM_INSTRUCTIONS
       (build_architecture_input float_repr request evidence_brief)"

definition risk_governance_review ::
  "'w StructuredModelProvider \<Rightarrow> (rat \<Rightarrow> pystr) \<Rightarrow> AssessmentRequest \<Rightarrow> EvidenceBrief \<Rightarrow>
     ('w, py_exc, RiskGovernanceReview) eff" where
  "risk_governance_review provider float_repr request evidence_brief =
     smp_review provider RISK_GOVERNANCE_AGENT_SYSTEM_INSTRUCTIONS
       (build_risk_governance_input float_repr request evidence_brief)"

definition synthesis_synthesize ::
  "'w StructuredModelProvider \<Rightarrow> (rat \<Rightarrow> pystr) \<Rightarrow> AssessmentRequest \<Rightarrow> EvidenceBrief \<Rightarrow>
     ArchitectureRecommendation option \<Rightarrow> RiskGovernanceReview option \<Rightarrow> pystr list \<Rightarrow>
     ('w, py_exc, AssessmentResult) eff" where
  "synthesis_synthesize provider float_repr request evidence_brief architecture risk_governance reasons =
     smp_result provider SYNTHESIS_AGENT_SYSTEM_INSTRUCTIONS
       (build_synthesis_input float_repr request evidence_brief architecture risk_governance reasons)"

text \<open>The agents the nodes are bound to, with Pydantic's \<open>model_validate\<close> and stripping.\<close>

record 'w MultiAgentGraphNodes =
  mn_evidence :: "AssessmentRequest \<Rightarrow> ('w, EvidenceAgentOutcome) tool"
  mn_architecture :: "AssessmentRequest \<Rightarrow> EvidenceBrief \<Rightarrow> ('w, py_exc, ArchitectureRecommendation) eff"
  mn_risk_governance :: "AssessmentRequest \<Rightarrow> EvidenceBrief \<Rightarrow> ('w, py_exc, RiskGovernanceReview) eff"
  mn_synthesis :: "AssessmentRequest \<Rightarrow> EvidenceBrief \<Rightarrow> ArchitectureRecommendation option \<Rightarrow>
     RiskGovernanceReview option \<Rightarrow> pystr list \<Rightarrow> ('w, py_exc, AssessmentResult) eff"
  mn_strip :: stripper
  mn_validate_result :: "AssessmentResult \<Rightarrow> py_exc + AssessmentResult"

definition provider_nodes ::
  "'w OpenAIEvidenceAgent \<Rightarrow> 'w StructuredModelProvider \<Rightarrow>
     (AssessmentResult \<Rightarrow> py_exc + AssessmentResult) \<Rightarrow> 'w MultiAgentGraphNodes" where
  "provider_nodes ea provider validate_result =
     \<lparr>mn_evidence = gather ea,
      mn_architecture = architecture_analyze provider (ea_float_repr ea),
      mn_risk_governance = risk_governance_review provider (ea_float_repr ea),
      mn_synthesis = synthesis_synthesize provider (ea_float_repr ea),
      mn_strip = ea_strip ea, mn_validate_result = validate_result\<rparr>"

section \<open>State\<close>

record MultiAgentGraphState =
  ms_assessment_id :: pystr
  ms_request :: AssessmentRequest
  ms_started_at :: "instant option"
  ms_completed_at :: "instant option"
  ms_max_failures :: int
  ms_evidence_brief :: "EvidenceBrief option"
  ms_retrieved_evidence :: "RetrievedEvidence list"
  ms_observed_documents :: "ObservedKnowledgeDocument list"
  ms_tool_history :: "ToolHistoryEntry list"
  ms_evidence_steps_used :: int
  ms_evidence_termination_reason :: "AgentTerminationReason option"
  ms_graph_retrieval :: "GraphRetrievalExecutionMetadata option"
  ms_architecture_recommendation :: "ArchitectureRecommendation option"
  ms_risk_governance_review :: "RiskGovernanceReview option"
  ms_final_result :: "AssessmentResult option"
  ms_execution :: "MultiAgentExecutionMetadata option"
  ms_evidence_status :: MultiAgentStatus
  ms_architecture_status :: MultiAgentStatus
  ms_risk_governance_status :: MultiAgentStatus
  ms_synthesis_status :: MultiAgentStatus
  ms_evidence_error :: "pystr option"
  ms_architecture_error :: "pystr option"
  ms_risk_governance_error :: "pystr option"
  ms_synthesis_error :: "pystr option"
  ms_evidence_duration_ms :: "int option"
  ms_architecture_duration_ms :: "int option"
  ms_risk_governance_duration_ms :: "int option"
  ms_synthesis_duration_ms :: "int option"
  ms_initialization_trace :: "MultiAgentTraceEvent list"
  ms_evidence_trace :: "MultiAgentTraceEvent list"
  ms_architecture_trace :: "MultiAgentTraceEvent list"
  ms_risk_governance_trace :: "MultiAgentTraceEvent list"
  ms_synthesis_trace :: "MultiAgentTraceEvent list"
  ms_validation_trace :: "MultiAgentTraceEvent list"

definition initialize_multi_agent_state ::
  "pystr \<Rightarrow> AssessmentRequest \<Rightarrow> int \<Rightarrow> MultiAgentGraphState" where
  "initialize_multi_agent_state assessment_id request max_failures =
     \<lparr>ms_assessment_id = assessment_id, ms_request = request, ms_started_at = None,
      ms_completed_at = None, ms_max_failures = max_failures, ms_evidence_brief = None,
      ms_retrieved_evidence = [], ms_observed_documents = [], ms_tool_history = [],
      ms_evidence_steps_used = 0, ms_evidence_termination_reason = None,
      ms_graph_retrieval = None, ms_architecture_recommendation = None,
      ms_risk_governance_review = None, ms_final_result = None, ms_execution = None,
      ms_evidence_status = MA_PENDING, ms_architecture_status = MA_PENDING,
      ms_risk_governance_status = MA_PENDING, ms_synthesis_status = MA_PENDING,
      ms_evidence_error = None, ms_architecture_error = None, ms_risk_governance_error = None,
      ms_synthesis_error = None, ms_evidence_duration_ms = None,
      ms_architecture_duration_ms = None, ms_risk_governance_duration_ms = None,
      ms_synthesis_duration_ms = None, ms_initialization_trace = [], ms_evidence_trace = [],
      ms_architecture_trace = [], ms_risk_governance_trace = [], ms_synthesis_trace = [],
      ms_validation_trace = []\<rparr>"

type_synonym multi_update = "MultiAgentGraphState \<Rightarrow> MultiAgentGraphState"

section \<open>Nodes\<close>

definition multi_event ::
  "stripper \<Rightarrow> MultiAgentTraceEventType \<Rightarrow> pystr \<Rightarrow> MultiAgentName option \<Rightarrow> pystr option \<Rightarrow>
     pystr option \<Rightarrow> ('w, MultiAgentTraceEvent) tool" where
  "multi_event strip event_type summary agent tool_name code =
     bindE datetime_now (\<lambda>now.
       let e = \<lparr>mte_sequence = 0, mte_timestamp = now, mte_agent = agent,
                mte_event_type = event_type, mte_summary = strip summary,
                mte_tool_name = map_option strip tool_name,
                mte_error_code = map_option strip code\<rparr>
       in if multi_event_ok e then returnE e else raiseE ValidationExc)"

definition safe_error_code :: "py_exc \<Rightarrow> pystr" where
  "safe_error_code e =
     (case e of AppExc a \<Rightarrow> error_code a | _ \<Rightarrow> py ''specialist_generation_failed'')"

definition node_elapsed_ms :: "rat \<Rightarrow> ('w, int) tool" where
  "node_elapsed_ms started =
     bindE perf_counter (\<lambda>now. returnE (max 0 (py_round ((now - started) * 1000))))"

text \<open>\<open>try: x = m() except Exception as exc\<close>: the outcome as a value.\<close>

definition attemptE :: "('s, 'e, 'a) eff \<Rightarrow> ('s, 'e, 'e + 'a) eff" where
  "attemptE m = (\<lambda>s. case m s of (r, s') \<Rightarrow> (Inr r, s'))"

definition multi_initialize :: "stripper \<Rightarrow> ('w, multi_update) tool" where
  "multi_initialize strip =
     bindE datetime_now (\<lambda>now.
     bindE (multi_event strip MT_WORKFLOW_STARTED
              (py ''The controlled four-agent workflow started.'') None None None) (\<lambda>event.
     returnE (\<lambda>st. st\<lparr>ms_started_at := Some now, ms_initialization_trace := [event]\<rparr>)))"

definition evidence_failed ::
  "stripper \<Rightarrow> rat \<Rightarrow> MultiAgentTraceEvent \<Rightarrow> py_exc \<Rightarrow> ('w, multi_update) tool" where
  "evidence_failed strip started begun exc =
     (let code = safe_error_code exc
      in bindE (multi_event strip MT_AGENT_FAILED (py ''Evidence analysis did not complete.'')
                  (Some Agent_EVIDENCE) None (Some code)) (\<lambda>failed.
         bindE (multi_event strip MT_DEGRADED_MODE
                  (py ''The workflow continued with assessment-only evidence context.'')
                  None None None) (\<lambda>degraded.
         bindE (node_elapsed_ms started) (\<lambda>duration.
         returnE (\<lambda>st. st\<lparr>ms_evidence_brief := Some unavailable,
                          ms_evidence_status := MA_FAILED,
                          ms_evidence_error := Some code,
                          ms_evidence_duration_ms := Some duration,
                          ms_evidence_trace := [begun, failed, degraded]\<rparr>)))))"

definition tool_event_type :: "ToolHistoryEntry \<Rightarrow> MultiAgentTraceEventType" where
  "tool_event_type item =
     (if th_error_code item = Some (py ''unauthorized_tool'') then MT_TOOL_AUTHORIZATION_DENIED
      else if th_success item then MT_TOOL_COMPLETED else MT_TOOL_FAILED)"

primrec tool_events ::
  "stripper \<Rightarrow> ToolHistoryEntry list \<Rightarrow> ('w, MultiAgentTraceEvent list) tool" where
  "tool_events strip [] = returnE []"
| "tool_events strip (item # items) =
     bindE (multi_event strip (tool_event_type item) (th_summary item) (Some Agent_EVIDENCE)
              (Some (th_tool_name item)) (th_error_code item)) (\<lambda>event.
     bindE (tool_events strip items) (\<lambda>events. returnE (event # events)))"

definition evidence_completed ::
  "stripper \<Rightarrow> rat \<Rightarrow> MultiAgentTraceEvent \<Rightarrow> EvidenceAgentOutcome \<Rightarrow> ('w, multi_update) tool" where
  "evidence_completed strip started begun outcome =
     bindE (tool_events strip (eo_tool_history outcome)) (\<lambda>events.
     bindE (multi_event strip MT_AGENT_COMPLETED
              (py ''The Evidence Agent produced a typed EvidenceBrief.'') (Some Agent_EVIDENCE)
              None None) (\<lambda>completed.
     bindE (node_elapsed_ms started) (\<lambda>duration.
     returnE (\<lambda>st. st\<lparr>ms_evidence_brief := Some (eo_brief outcome),
                      ms_retrieved_evidence := eo_evidence outcome,
                      ms_observed_documents := eo_documents outcome,
                      ms_tool_history := eo_tool_history outcome,
                      ms_evidence_steps_used := eo_steps_used outcome,
                      ms_evidence_termination_reason := Some (eo_termination_reason outcome),
                      ms_graph_retrieval := eo_graph_retrieval outcome,
                      ms_evidence_status := MA_COMPLETED,
                      ms_evidence_duration_ms := Some duration,
                      ms_evidence_trace := [begun] @ events @ [completed]\<rparr>))))"

definition multi_evidence ::
  "'w MultiAgentGraphNodes \<Rightarrow> MultiAgentGraphState \<Rightarrow> ('w, multi_update) tool" where
  "multi_evidence nodes st =
     bindE perf_counter (\<lambda>started.
     bindE (multi_event (mn_strip nodes) MT_AGENT_STARTED
              (py ''Evidence analysis started with approved read-only tools.'')
              (Some Agent_EVIDENCE) None None) (\<lambda>begun.
     bindE (attemptE (mn_evidence nodes (ms_request st))) (\<lambda>outcome.
       case outcome of
         Inl exc \<Rightarrow> evidence_failed (mn_strip nodes) started begun exc
       | Inr result \<Rightarrow> evidence_completed (mn_strip nodes) started begun result)))"

text \<open>The two toolless branches have the same body up to their texts.\<close>

record branch_text =
  bt_agent :: MultiAgentName
  bt_started :: pystr
  bt_failed :: pystr
  bt_completed :: pystr

definition architecture_text :: branch_text where
  "architecture_text =
     \<lparr>bt_agent = Agent_ARCHITECTURE,
      bt_started = py ''Independent solution architecture analysis started.'',
      bt_failed = py ''Solution architecture analysis did not complete.'',
      bt_completed = py ''The Architecture Agent produced a typed recommendation.''\<rparr>"

definition risk_governance_text :: branch_text where
  "risk_governance_text =
     \<lparr>bt_agent = Agent_RISK_GOVERNANCE,
      bt_started = py ''Independent risk and governance analysis started.'',
      bt_failed = py ''Risk and governance analysis did not complete.'',
      bt_completed = py ''The Risk & Governance Agent produced a typed review.''\<rparr>"

record 'r branch_result =
  br_result :: "'r option"
  br_status :: MultiAgentStatus
  br_error :: "pystr option"
  br_duration :: int
  br_trace :: "MultiAgentTraceEvent list"

definition branch_begin :: "stripper \<Rightarrow> branch_text \<Rightarrow> ('w, rat \<times> MultiAgentTraceEvent) tool" where
  "branch_begin strip txt =
     bindE perf_counter (\<lambda>started.
     bindE (multi_event strip MT_AGENT_STARTED (bt_started txt) (Some (bt_agent txt)) None None)
       (\<lambda>begun. returnE (started, begun)))"

definition branch_end ::
  "stripper \<Rightarrow> branch_text \<Rightarrow> rat \<times> MultiAgentTraceEvent \<Rightarrow> py_exc + 'r \<Rightarrow>
     ('w, 'r branch_result) tool" where
  "branch_end strip txt p outcome =
     (case outcome of
        Inl exc \<Rightarrow>
          bindE (multi_event strip MT_AGENT_FAILED (bt_failed txt) (Some (bt_agent txt)) None
                   (Some (safe_error_code exc))) (\<lambda>event.
          bindE (node_elapsed_ms (fst p)) (\<lambda>duration.
          returnE \<lparr>br_result = None, br_status = MA_FAILED,
                   br_error = Some (safe_error_code exc), br_duration = duration,
                   br_trace = [snd p, event]\<rparr>))
      | Inr result \<Rightarrow>
          bindE (multi_event strip MT_AGENT_COMPLETED (bt_completed txt) (Some (bt_agent txt)) None
                   None) (\<lambda>event.
          bindE (node_elapsed_ms (fst p)) (\<lambda>duration.
          returnE \<lparr>br_result = Some result, br_status = MA_COMPLETED, br_error = None,
                   br_duration = duration, br_trace = [snd p, event]\<rparr>)))"

definition specialist_branch ::
  "stripper \<Rightarrow> branch_text \<Rightarrow> ('w, py_exc, 'r) eff \<Rightarrow> ('w, 'r branch_result) tool" where
  "specialist_branch strip txt call =
     bindE (branch_begin strip txt) (\<lambda>p.
     bindE (attemptE (in_env call)) (\<lambda>outcome.
     branch_end strip txt p outcome))"

text \<open>\<open>state["evidence_brief"] or EvidenceBrief.unavailable()\<close>.\<close>

definition brief_of :: "MultiAgentGraphState \<Rightarrow> EvidenceBrief" where
  "brief_of st = (case ms_evidence_brief st of Some b \<Rightarrow> b | None \<Rightarrow> unavailable)"

definition architecture_call ::
  "'w MultiAgentGraphNodes \<Rightarrow> MultiAgentGraphState \<Rightarrow> ('w, py_exc, ArchitectureRecommendation) eff" where
  "architecture_call nodes st = mn_architecture nodes (ms_request st) (brief_of st)"

definition risk_governance_call ::
  "'w MultiAgentGraphNodes \<Rightarrow> MultiAgentGraphState \<Rightarrow> ('w, py_exc, RiskGovernanceReview) eff" where
  "risk_governance_call nodes st = mn_risk_governance nodes (ms_request st) (brief_of st)"

definition architecture_update :: "ArchitectureRecommendation branch_result \<Rightarrow> multi_update" where
  "architecture_update b st =
     st\<lparr>ms_architecture_recommendation :=
          (case br_result b of None \<Rightarrow> ms_architecture_recommendation st | Some r \<Rightarrow> Some r),
        ms_architecture_status := br_status b,
        ms_architecture_error :=
          (case br_error b of None \<Rightarrow> ms_architecture_error st | Some e \<Rightarrow> Some e),
        ms_architecture_duration_ms := Some (br_duration b),
        ms_architecture_trace := br_trace b\<rparr>"

definition risk_governance_update :: "RiskGovernanceReview branch_result \<Rightarrow> multi_update" where
  "risk_governance_update b st =
     st\<lparr>ms_risk_governance_review :=
          (case br_result b of None \<Rightarrow> ms_risk_governance_review st | Some r \<Rightarrow> Some r),
        ms_risk_governance_status := br_status b,
        ms_risk_governance_error :=
          (case br_error b of None \<Rightarrow> ms_risk_governance_error st | Some e \<Rightarrow> Some e),
        ms_risk_governance_duration_ms := Some (br_duration b),
        ms_risk_governance_trace := br_trace b\<rparr>"

definition multi_architecture ::
  "'w MultiAgentGraphNodes \<Rightarrow> MultiAgentGraphState \<Rightarrow> ('w, multi_update) tool" where
  "multi_architecture nodes st =
     bindE (specialist_branch (mn_strip nodes) architecture_text (architecture_call nodes st))
       (\<lambda>b. returnE (architecture_update b))"

definition multi_risk_governance ::
  "'w MultiAgentGraphNodes \<Rightarrow> MultiAgentGraphState \<Rightarrow> ('w, multi_update) tool" where
  "multi_risk_governance nodes st =
     bindE (specialist_branch (mn_strip nodes) risk_governance_text (risk_governance_call nodes st))
       (\<lambda>b. returnE (risk_governance_update b))"

definition degradation_reasons :: "MultiAgentGraphState \<Rightarrow> pystr list" where
  "degradation_reasons st =
     (if ms_evidence_error st \<noteq> None
      then [py ''Evidence Agent output unavailable; assessment-only context used.''] else []) @
     (if ms_architecture_error st \<noteq> None
      then [py ''Architecture Agent output unavailable.''] else []) @
     (if ms_risk_governance_error st \<noteq> None
      then [py ''Risk & Governance Agent output unavailable; governance confidence reduced.''] else [])"

definition specialist_failures :: "MultiAgentGraphState \<Rightarrow> int" where
  "specialist_failures st =
     of_bool (ms_evidence_error st \<noteq> None) + of_bool (ms_architecture_error st \<noteq> None) +
     of_bool (ms_risk_governance_error st \<noteq> None)"

definition specialist_available :: "MultiAgentGraphState \<Rightarrow> bool" where
  "specialist_available st \<longleftrightarrow>
     ms_evidence_status st = MA_COMPLETED \<or> ms_architecture_recommendation st \<noteq> None \<or>
     ms_risk_governance_review st \<noteq> None"

definition with_limitations :: "pystr list \<Rightarrow> AssessmentResult \<Rightarrow> AssessmentResult" where
  "with_limitations reasons result =
     (if reasons = [] then result
      else result\<lparr>res_information_gaps := res_information_gaps result @
                   map (\<lambda>reason. py ''Specialist limitation: '' @ reason) reasons\<rparr>)"

definition synthesis_update ::
  "AssessmentResult \<Rightarrow> int \<Rightarrow> MultiAgentTraceEvent list \<Rightarrow> multi_update" where
  "synthesis_update result duration trace st =
     st\<lparr>ms_final_result := Some result, ms_synthesis_status := MA_COMPLETED,
        ms_synthesis_duration_ms := Some duration, ms_synthesis_trace := trace\<rparr>"

definition multi_synthesize ::
  "'w MultiAgentGraphNodes \<Rightarrow> MultiAgentGraphState \<Rightarrow> ('w, multi_update) tool" where
  "multi_synthesize nodes st =
     (if specialist_failures st > ms_max_failures st \<or> \<not> specialist_available st
      then raiseE (AppExc AssessmentGenerationError)
      else let reasons = degradation_reasons st
        in bindE perf_counter (\<lambda>started.
           bindE (multi_event (mn_strip nodes) MT_AGENT_STARTED
                    (py ''Typed specialist outputs converged for final synthesis.'')
                    (Some Agent_SYNTHESIS) None None) (\<lambda>begun.
           bindE (in_env (mn_synthesis nodes (ms_request st) (brief_of st)
                    (ms_architecture_recommendation st) (ms_risk_governance_review st) reasons)) (\<lambda>result.
           bindE (multi_event (mn_strip nodes) MT_AGENT_COMPLETED
                    (py ''The Synthesis Agent produced the existing AssessmentResult contract.'')
                    (Some Agent_SYNTHESIS) None None) (\<lambda>completed.
           bindE (node_elapsed_ms started) (\<lambda>duration.
           returnE (synthesis_update (with_limitations reasons result) duration [begun, completed])))))))"

text \<open>\<open>event.model_copy(update={"sequence": index})\<close> for every event of the trace.\<close>

definition numbered_trace :: "MultiAgentTraceEvent list \<Rightarrow> MultiAgentTraceEvent list" where
  "numbered_trace trace = map (\<lambda>(index, event). event\<lparr>mte_sequence := int index\<rparr>) (enumerate 0 trace)"

definition mk_multi_errors :: "stripper \<Rightarrow> MultiAgentGraphState \<Rightarrow> py_exc + MultiAgentErrors" where
  "mk_multi_errors strip st =
     (let e = \<lparr>mae_evidence = map_option strip (ms_evidence_error st),
               mae_architecture = map_option strip (ms_architecture_error st),
               mae_risk_governance = map_option strip (ms_risk_governance_error st),
               mae_synthesis = map_option strip (ms_synthesis_error st)\<rparr>
      in if opt_len_ok (mae_evidence e) 100 \<and> opt_len_ok (mae_architecture e) 100 \<and>
            opt_len_ok (mae_risk_governance e) 100 \<and> opt_len_ok (mae_synthesis e) 100
         then Inr e else Inl ValidationExc)"

definition duration_ok :: "int option \<Rightarrow> bool" where
  "duration_ok d \<longleftrightarrow> (case d of None \<Rightarrow> True | Some n \<Rightarrow> 0 \<le> n)"

definition mk_multi_durations :: "MultiAgentGraphState \<Rightarrow> py_exc + MultiAgentDurations" where
  "mk_multi_durations st =
     (if duration_ok (ms_evidence_duration_ms st) \<and> duration_ok (ms_architecture_duration_ms st) \<and>
         duration_ok (ms_risk_governance_duration_ms st) \<and> duration_ok (ms_synthesis_duration_ms st)
      then Inr \<lparr>mad_evidence = ms_evidence_duration_ms st,
                mad_architecture = ms_architecture_duration_ms st,
                mad_risk_governance = ms_risk_governance_duration_ms st,
                mad_synthesis = ms_synthesis_duration_ms st\<rparr>
      else Inl ValidationExc)"

definition multi_metadata ::
  "stripper \<Rightarrow> MultiAgentGraphState \<Rightarrow> MultiAgentTraceEvent list \<Rightarrow> MultiAgentErrors \<Rightarrow>
     MultiAgentDurations \<Rightarrow> MultiAgentExecutionMetadata" where
  "multi_metadata strip st trace errors durations =
     (let reasons = degradation_reasons st
      in \<lparr>mx_common = \<lparr>x_request_id = None, x_execution_mode = py ''multi_agent'',
                       x_preferred_execution_mode = None, x_routing_reason_codes = [],
                       x_fallback_reason_codes = [], x_graph_retrieval = ms_graph_retrieval st\<rparr>,
          mx_agents = all_agents,
          mx_agent_statuses = \<lparr>mas_evidence = ms_evidence_status st,
                               mas_architecture = ms_architecture_status st,
                               mas_risk_governance = ms_risk_governance_status st,
                               mas_synthesis = ms_synthesis_status st\<rparr>,
          mx_agent_durations_ms = durations,
          mx_agent_errors = errors,
          mx_tools_used = map strip (dedup (map th_tool_name (ms_tool_history st))),
          mx_tool_calls = int (length (ms_tool_history st)),
          mx_degraded_mode = (reasons \<noteq> []),
          mx_degradation_reasons = map strip reasons,
          mx_termination_reason =
            (if reasons \<noteq> [] then MTerm_COMPLETED_DEGRADED else MTerm_COMPLETED),
          mx_trace = trace\<rparr>)"

definition multi_validate ::
  "'w MultiAgentGraphNodes \<Rightarrow> MultiAgentGraphState \<Rightarrow> ('w, multi_update) tool" where
  "multi_validate nodes st =
     bindE (requireE (AppExc AssessmentGenerationError) (ms_final_result st)) (\<lambda>final.
     bindE (liftE (mn_validate_result nodes final)) (\<lambda>result.
     bindE (multi_event (mn_strip nodes) MT_WORKFLOW_COMPLETED
              (if degradation_reasons st \<noteq> []
               then py ''The multi-agent workflow completed in degraded mode.''
               else py ''The multi-agent workflow completed with all specialists.'')
              None None None) (\<lambda>event.
       let trace = numbered_trace (ms_initialization_trace st @ ms_evidence_trace st @
                     ms_architecture_trace st @ ms_risk_governance_trace st @
                     ms_synthesis_trace st @ [event])
       in bindE (liftE (mk_multi_durations st)) (\<lambda>durations.
          bindE (liftE (mk_multi_errors (mn_strip nodes) st)) (\<lambda>errors.
          bindE datetime_now (\<lambda>now.
          returnE (\<lambda>st'. st'\<lparr>ms_final_result := Some result,
                            ms_execution := Some (multi_metadata (mn_strip nodes) st trace errors durations),
                            ms_completed_at := Some now,
                            ms_validation_trace := [last trace]\<rparr>)))))))"

section \<open>The graph\<close>

text \<open>How far a branch has come: started, answered by its specialist, finished.\<close>

datatype 'r branch_progress =
    Branch_ready
  | Branch_begun "rat \<times> MultiAgentTraceEvent"
  | Branch_answered "rat \<times> MultiAgentTraceEvent" "py_exc + 'r"
  | Branch_finished "'r branch_result"

primrec branch_step ::
  "stripper \<Rightarrow> branch_text \<Rightarrow> ('w, py_exc, 'r) eff \<Rightarrow> 'r branch_progress \<Rightarrow>
     ('w, 'r branch_progress) tool" where
  "branch_step strip txt call Branch_ready =
     bindE (branch_begin strip txt) (\<lambda>p. returnE (Branch_begun p))"
| "branch_step strip txt call (Branch_begun p) =
     bindE (attemptE (in_env call)) (\<lambda>outcome. returnE (Branch_answered p outcome))"
| "branch_step strip txt call (Branch_answered p outcome) =
     bindE (branch_end strip txt p outcome) (\<lambda>b. returnE (Branch_finished b))"
| "branch_step strip txt call (Branch_finished b) = returnE (Branch_finished b)"

text \<open>The steps a branch still has to take once it runs alone.\<close>

definition branch_rest ::
  "stripper \<Rightarrow> branch_text \<Rightarrow> ('w, py_exc, 'r) eff \<Rightarrow> 'r branch_progress \<Rightarrow>
     ('w, 'r branch_progress) tool" where
  "branch_rest strip txt call p =
     bindE (branch_step strip txt call p) (\<lambda>p1.
     bindE (branch_step strip txt call p1) (branch_step strip txt call))"

type_synonym fan_out = "ArchitectureRecommendation branch_progress \<times> RiskGovernanceReview branch_progress"

text \<open>One superstep: the schedule interleaves the branches, then both run to their end.\<close>

primrec run_branches ::
  "'w MultiAgentGraphNodes \<Rightarrow> MultiAgentGraphState \<Rightarrow> bool list \<Rightarrow> fan_out \<Rightarrow> ('w, fan_out) tool" where
  "run_branches nodes st [] p =
     bindE (branch_rest (mn_strip nodes) architecture_text (architecture_call nodes st) (fst p)) (\<lambda>a.
     bindE (branch_rest (mn_strip nodes) risk_governance_text (risk_governance_call nodes st) (snd p))
       (\<lambda>r. returnE (a, r)))"
| "run_branches nodes st (first # schedule) p =
     (if first
      then bindE (branch_step (mn_strip nodes) architecture_text (architecture_call nodes st) (fst p))
             (\<lambda>a. run_branches nodes st schedule (a, snd p))
      else bindE (branch_step (mn_strip nodes) risk_governance_text (risk_governance_call nodes st) (snd p))
             (\<lambda>r. run_branches nodes st schedule (fst p, r)))"

definition join_branches :: "fan_out \<Rightarrow> multi_update" where
  "join_branches p st =
     (case p of
        (Branch_finished a, Branch_finished r) \<Rightarrow> risk_governance_update r (architecture_update a st)
      | _ \<Rightarrow> st)"

definition multi_graph ::
  "'w MultiAgentGraphNodes \<Rightarrow> bool list \<Rightarrow> MultiAgentGraphState \<Rightarrow> ('w, MultiAgentGraphState) tool" where
  "multi_graph nodes schedule st0 =
     bindE (multi_initialize (mn_strip nodes)) (\<lambda>u1. let st1 = u1 st0 in
     bindE (multi_evidence nodes st1) (\<lambda>u2. let st2 = u2 st1 in
     bindE (run_branches nodes st2 schedule (Branch_ready, Branch_ready)) (\<lambda>p. let st3 = join_branches p st2 in
     bindE (multi_synthesize nodes st3) (\<lambda>u4. let st4 = u4 st3 in
     bindE (multi_validate nodes st4) (\<lambda>u5. returnE (u5 st4))))))"

type_synonym 'w multi_invoke =
  "'w MultiAgentGraphNodes \<Rightarrow> MultiAgentGraphState \<Rightarrow> ('w, MultiAgentGraphState) tool"

definition multi_langgraph_semantics :: "'w multi_invoke \<Rightarrow> bool" where
  "multi_langgraph_semantics invoke \<longleftrightarrow>
     (\<forall>nodes st s. \<exists>schedule. invoke nodes st s = multi_graph nodes schedule st s)"

section \<open>The workflow\<close>

record MultiAgentWorkflowResult =
  mwr_result :: AssessmentResult
  mwr_evidence :: "RetrievedEvidence list"
  mwr_execution :: MultiAgentExecutionMetadata

record 'w MultiAgentAssessmentWorkflow =
  mw_invoke :: "'w multi_invoke"
  mw_nodes :: "'w MultiAgentGraphNodes"
  mw_max_failures :: int
  mw_validate_execution :: "MultiAgentExecutionMetadata \<Rightarrow> py_exc + MultiAgentExecutionMetadata"

definition as_application_error :: "py_exc \<Rightarrow> py_exc" where
  "as_application_error e = (case e of AppExc a \<Rightarrow> AppExc a | _ \<Rightarrow> AppExc AssessmentGenerationError)"

definition finish_multi_agent ::
  "'w MultiAgentAssessmentWorkflow \<Rightarrow> MultiAgentGraphState \<Rightarrow> py_exc + MultiAgentWorkflowResult" where
  "finish_multi_agent flow st =
     (case (ms_final_result st, ms_execution st) of
        (Some result, Some execution) \<Rightarrow>
          (case mn_validate_result (mw_nodes flow) result of
             Inl e \<Rightarrow> Inl e
           | Inr validated \<Rightarrow>
               (case mw_validate_execution flow execution of
                  Inl e \<Rightarrow> Inl e
                | Inr x \<Rightarrow> Inr \<lparr>mwr_result = validated, mwr_evidence = ms_retrieved_evidence st,
                                mwr_execution = x\<rparr>))
      | _ \<Rightarrow> Inl (AppExc AssessmentGenerationError))"

definition multi_agent_run ::
  "'w MultiAgentAssessmentWorkflow \<Rightarrow> pystr \<Rightarrow> AssessmentRequest \<Rightarrow>
     ('w, MultiAgentWorkflowResult) tool" where
  "multi_agent_run flow assessment_id request =
     bindE (catchE (mw_invoke flow (mw_nodes flow)
                      (initialize_multi_agent_state assessment_id request (mw_max_failures flow)))
              (\<lambda>e. raiseE (as_application_error e))) (\<lambda>st.
     liftE (finish_multi_agent flow st))"

section \<open>Events\<close>

definition traceable :: "stripper \<Rightarrow> pystr \<Rightarrow> bool" where
  "traceable strip summary \<longleftrightarrow> len_between 1 300 (strip summary)"

lemma strip_nonempty:
  assumes "strip_documented strip" and "c \<in> set s" and "\<not> py_isspace c"
  shows "strip s \<noteq> []"
proof
  assume "strip s = []"
  then obtain u v where "s = u @ v" "\<forall>c \<in> set u \<union> set v. py_isspace c"
    using assms(1) unfolding strip_documented_def by (metis append_Nil)
  then show False using assms(2,3) by auto
qed

lemma traceable_literal:
  assumes "strip_documented strip" and "s \<noteq> []" and "\<not> py_isspace (of_char (hd s))" and "length s \<le> 300"
  shows "traceable strip (py s)"
proof -
  have "of_char (hd s) \<in> set (py s)" using assms(2) by (cases s) (auto simp: py_def)
  then have "strip (py s) \<noteq> []" using assms strip_nonempty by blast
  moreover have "length (strip (py s)) \<le> 300" using strip_length[OF assms(1), of "py s"] assms(4) by simp
  ultimately show ?thesis by (cases "strip (py s)") (auto simp: traceable_def len_between_def)
qed

lemma opt_len_ok_strip: "strip_documented strip \<Longrightarrow> opt_len_ok v n \<Longrightarrow> opt_len_ok (map_option strip v) n"
  using strip_length[of strip] by (auto simp: opt_len_ok_def split: option.splits intro: order_trans)

lemma multi_event_run:
  "multi_event strip t summary agent name code s =
     (if traceable strip summary \<and> opt_len_ok (map_option strip name) 100 \<and>
         opt_len_ok (map_option strip code) 100
      then Inr \<lparr>mte_sequence = 0, mte_timestamp = tw_now s (tw_ticks s), mte_agent = agent,
                mte_event_type = t, mte_summary = strip summary,
                mte_tool_name = map_option strip name, mte_error_code = map_option strip code\<rparr>
      else Inl ValidationExc, s\<lparr>tw_ticks := Suc (tw_ticks s)\<rparr>)"
  by (simp add: multi_event_def datetime_now_def bindE_def multi_event_ok_def traceable_def Let_def
      returnE_def raiseE_def)

lemma safe_error_code_length: "length (safe_error_code e) \<le> 100"
  using error_code_length by (cases e) (simp_all add: safe_error_code_def)

lemma node_elapsed_ms_run:
  "\<exists>d. 0 \<le> d \<and> node_elapsed_ms started s = (Inr d, s\<lparr>tw_reads := Suc (tw_reads s)\<rparr>)"
  by (simp add: node_elapsed_ms_def perf_counter_def bindE_def returnE_def)

section \<open>One branch\<close>

definition text_traceable :: "stripper \<Rightarrow> branch_text \<Rightarrow> bool" where
  "text_traceable strip txt \<longleftrightarrow>
     traceable strip (bt_started txt) \<and> traceable strip (bt_failed txt) \<and> traceable strip (bt_completed txt)"

lemma branch_texts_traceable:
  assumes "strip_documented strip"
  shows "text_traceable strip architecture_text" and "text_traceable strip risk_governance_text"
  by (simp_all add: text_traceable_def architecture_text_def risk_governance_text_def
      traceable_literal[OF assms] py_isspace_def)

text \<open>What a finished branch reports of the specialist's outcome.\<close>

definition outcome_value :: "py_exc + 'r \<Rightarrow> 'r option" where
  "outcome_value r = (case r of Inl e \<Rightarrow> None | Inr x \<Rightarrow> Some x)"

definition outcome_error :: "py_exc + 'r \<Rightarrow> pystr option" where
  "outcome_error r = (case r of Inl e \<Rightarrow> Some (safe_error_code e) | Inr x \<Rightarrow> None)"

definition outcome_status :: "py_exc + 'r \<Rightarrow> MultiAgentStatus" where
  "outcome_status r = (case r of Inl e \<Rightarrow> MA_FAILED | Inr x \<Rightarrow> MA_COMPLETED)"

definition branch_reports :: "py_exc + 'r \<Rightarrow> 'r branch_result \<Rightarrow> bool" where
  "branch_reports r b \<longleftrightarrow>
     br_result b = outcome_value r \<and> br_status b = outcome_status r \<and> br_error b = outcome_error r \<and>
     0 \<le> br_duration b \<and> list_all multi_event_ok (br_trace b)"

text \<open>\<open>Q\<close> is what the environment guarantees of the specialist's answers.\<close>

definition answers :: "('w, py_exc, 'r) eff \<Rightarrow> (py_exc + 'r \<Rightarrow> bool) \<Rightarrow> bool" where
  "answers call Q \<longleftrightarrow> (\<forall>w. Q (fst (call w)))"

definition progress_ok :: "(py_exc + 'r \<Rightarrow> bool) \<Rightarrow> 'r branch_progress \<Rightarrow> bool" where
  "progress_ok Q p \<longleftrightarrow>
     (case p of
        Branch_ready \<Rightarrow> True
      | Branch_begun q \<Rightarrow> multi_event_ok (snd q)
      | Branch_answered q r \<Rightarrow> multi_event_ok (snd q) \<and> Q r
      | Branch_finished b \<Rightarrow> (\<exists>r. Q r \<and> branch_reports r b))"

primrec branch_remaining :: "'r branch_progress \<Rightarrow> nat" where
  "branch_remaining Branch_ready = 3"
| "branch_remaining (Branch_begun q) = 2"
| "branch_remaining (Branch_answered q r) = 1"
| "branch_remaining (Branch_finished b) = 0"

lemma branch_begin_run:
  assumes "text_traceable strip txt"
  shows "\<exists>q s'. branch_begin strip txt s = (Inr q, s') \<and> multi_event_ok (snd q)"
  using assms
  by (simp add: branch_begin_def perf_counter_def bindE_def multi_event_run text_traceable_def
      opt_len_ok_def returnE_def multi_event_ok_def traceable_def)

lemma branch_end_run:
  assumes "strip_documented strip" and "text_traceable strip txt" and "multi_event_ok (snd q)"
  shows "\<exists>b s'. branch_end strip txt q r s = (Inr b, s') \<and> branch_reports r b"
proof -
  have code: "opt_len_ok (map_option strip (Some (safe_error_code e))) 100" for e
    using opt_len_ok_strip[OF assms(1), of "Some (safe_error_code e)" 100] safe_error_code_length
    by (simp add: opt_len_ok_def)
  obtain d where d: "0 \<le> d" "node_elapsed_ms (fst q) (s\<lparr>tw_ticks := Suc (tw_ticks s)\<rparr>) =
      (Inr d, (s\<lparr>tw_ticks := Suc (tw_ticks s)\<rparr>)\<lparr>tw_reads := Suc (tw_reads s)\<rparr>)"
    using node_elapsed_ms_run[of "fst q" "s\<lparr>tw_ticks := Suc (tw_ticks s)\<rparr>"] by auto
  show ?thesis
  proof (cases r)
    case (Inl e)
    then show ?thesis using assms(2,3) code[of e] d
      by (simp add: branch_end_def bindE_def multi_event_run text_traceable_def opt_len_ok_def returnE_def
          branch_reports_def outcome_value_def outcome_error_def outcome_status_def multi_event_ok_def traceable_def)
  next
    case (Inr x)
    then show ?thesis using assms(2,3) d
      by (simp add: branch_end_def bindE_def multi_event_run text_traceable_def opt_len_ok_def returnE_def
          branch_reports_def outcome_value_def outcome_error_def outcome_status_def multi_event_ok_def traceable_def)
  qed
qed

lemma branch_step_run:
  assumes "strip_documented strip" and "text_traceable strip txt" and "progress_ok Q p"
    and "answers call Q"
  shows "\<exists>p' s'. branch_step strip txt call p s = (Inr p', s') \<and> progress_ok Q p' \<and>
           branch_remaining p' = branch_remaining p - 1"
proof (cases p)
  case Branch_ready
  then show ?thesis using branch_begin_run[OF assms(2), of s]
    by (auto simp: bindE_def returnE_def progress_ok_def)
next
  case (Branch_begun q)
  have "Q (fst (in_env call s))" using assms(4)
    by (auto simp: in_env_def answers_def split: prod.splits) (metis fst_conv)
  then show ?thesis using Branch_begun assms(3)
    by (auto simp: bindE_def returnE_def attemptE_def progress_ok_def split: prod.splits)
next
  case (Branch_answered q r)
  then obtain b s' where "branch_end strip txt q r s = (Inr b, s')" "branch_reports r b"
    using branch_end_run[OF assms(1,2), of q r s] assms(3) by (auto simp: progress_ok_def)
  then show ?thesis using Branch_answered assms(3)
    by (auto simp: bindE_def returnE_def progress_ok_def)
next
  case (Branch_finished b)
  then show ?thesis using assms(3) by (auto simp: returnE_def)
qed

lemma branch_finished_iff: "branch_remaining p = 0 \<longleftrightarrow> (\<exists>b. p = Branch_finished b)"
  by (cases p) auto

lemma branch_rest_run:
  assumes "strip_documented strip" and "text_traceable strip txt" and "progress_ok Q p"
    and "answers call Q"
  shows "\<exists>b r s'. branch_rest strip txt call p s = (Inr (Branch_finished b), s') \<and> Q r \<and> branch_reports r b"
proof -
  note step = branch_step_run[OF assms(1,2) _ assms(4)]
  obtain p1 s1 where 1: "branch_step strip txt call p s = (Inr p1, s1)" "progress_ok Q p1"
    "branch_remaining p1 = branch_remaining p - 1" using step[OF assms(3)] by blast
  obtain p2 s2 where 2: "branch_step strip txt call p1 s1 = (Inr p2, s2)" "progress_ok Q p2"
    "branch_remaining p2 = branch_remaining p1 - 1" using step[OF 1(2)] by blast
  obtain p3 s3 where 3: "branch_step strip txt call p2 s2 = (Inr p3, s3)" "progress_ok Q p3"
    "branch_remaining p3 = branch_remaining p2 - 1" using step[OF 2(2)] by blast
  have "branch_remaining p \<le> 3" by (cases p) auto
  then have "branch_remaining p3 = 0" using 1 2 3 by simp
  then obtain b where b: "p3 = Branch_finished b" using branch_finished_iff by blast
  then show ?thesis using 1 2 3 by (auto simp: branch_rest_def bindE_def progress_ok_def)
qed

lemma run_branches_run:
  assumes "strip_documented (mn_strip nodes)" and "progress_ok A (fst p)" and "progress_ok R (snd p)"
    and "answers (architecture_call nodes st) A" and "answers (risk_governance_call nodes st) R"
  shows "\<exists>a r ba br s'. run_branches nodes st schedule p s = (Inr (Branch_finished ba, Branch_finished br), s') \<and>
           A a \<and> branch_reports a ba \<and> R r \<and> branch_reports r br"
  using assms(2,3)
proof (induction schedule arbitrary: p s)
  case Nil
  obtain ba a s1 where a: "branch_rest (mn_strip nodes) architecture_text (architecture_call nodes st) (fst p) s =
      (Inr (Branch_finished ba), s1)" "A a" "branch_reports a ba"
    using branch_rest_run[OF assms(1) branch_texts_traceable(1)[OF assms(1)] Nil(1) assms(4)] by blast
  obtain br r s2 where "branch_rest (mn_strip nodes) risk_governance_text (risk_governance_call nodes st) (snd p) s1 =
      (Inr (Branch_finished br), s2)" "R r" "branch_reports r br"
    using branch_rest_run[OF assms(1) branch_texts_traceable(2)[OF assms(1)] Nil(2) assms(5)] by blast
  with a show ?case by (auto simp: bindE_def returnE_def)
next
  case (Cons first schedule)
  show ?case
  proof (cases first)
    case True
    then show ?thesis
      using branch_step_run[OF assms(1) branch_texts_traceable(1)[OF assms(1)] Cons.prems(1) assms(4), of s]
        Cons.IH Cons.prems(2) by (force simp: bindE_def)
  next
    case False
    then show ?thesis
      using branch_step_run[OF assms(1) branch_texts_traceable(2)[OF assms(1)] Cons.prems(2) assms(5), of s]
        Cons.IH Cons.prems(1) by (force simp: bindE_def)
  qed
qed

text \<open>The schedule that runs one branch after the other is the sequential composition of the nodes.\<close>

lemma branch_rest_ready:
  "branch_rest strip txt call Branch_ready s =
     bindE (specialist_branch strip txt call) (\<lambda>b. returnE (Branch_finished b)) s"
  by (simp add: branch_rest_def specialist_branch_def bindE_def returnE_def attemptE_def
      split: prod.splits sum.splits)

section \<open>The abstract specification\<close>

text \<open>
  What the workflow is for, without clocks, traces and schedules: the four outcomes decide
  everything that the caller can see.
\<close>

record multi_view =
  mv_result :: AssessmentResult
  mv_evidence :: "RetrievedEvidence list"
  mv_statuses :: MultiAgentStatuses
  mv_errors :: MultiAgentErrors
  mv_reasons :: "pystr list"
  mv_degraded :: bool
  mv_termination :: MultiAgentTerminationReason
  mv_tool_calls :: int

definition multi_view_of :: "MultiAgentWorkflowResult \<Rightarrow> multi_view" where
  "multi_view_of out =
     (let x = mwr_execution out
      in \<lparr>mv_result = mwr_result out, mv_evidence = mwr_evidence out,
          mv_statuses = mx_agent_statuses x, mv_errors = mx_agent_errors x,
          mv_reasons = mx_degradation_reasons x, mv_degraded = mx_degraded_mode x,
          mv_termination = mx_termination_reason x, mv_tool_calls = mx_tool_calls x\<rparr>)"

definition history_traceable :: "stripper \<Rightarrow> ToolHistoryEntry \<Rightarrow> bool" where
  "history_traceable strip h \<longleftrightarrow>
     traceable strip (th_summary h) \<and> length (strip (th_tool_name h)) \<le> 100 \<and>
     opt_len_ok (map_option strip (th_error_code h)) 100"

definition evidence_traceable :: "stripper \<Rightarrow> py_exc + EvidenceAgentOutcome \<Rightarrow> bool" where
  "evidence_traceable strip ev =
     (case ev of Inl e \<Rightarrow> True | Inr out \<Rightarrow> list_all (history_traceable strip) (eo_tool_history out))"

definition spec_brief :: "py_exc + EvidenceAgentOutcome \<Rightarrow> EvidenceBrief" where
  "spec_brief ev = (case ev of Inl e \<Rightarrow> unavailable | Inr out \<Rightarrow> eo_brief out)"

definition spec_evidence :: "py_exc + EvidenceAgentOutcome \<Rightarrow> RetrievedEvidence list" where
  "spec_evidence ev = (case ev of Inl e \<Rightarrow> [] | Inr out \<Rightarrow> eo_evidence out)"

definition spec_history :: "py_exc + EvidenceAgentOutcome \<Rightarrow> ToolHistoryEntry list" where
  "spec_history ev = (case ev of Inl e \<Rightarrow> [] | Inr out \<Rightarrow> eo_tool_history out)"

definition spec_reasons ::
  "py_exc + EvidenceAgentOutcome \<Rightarrow> py_exc + ArchitectureRecommendation \<Rightarrow>
     py_exc + RiskGovernanceReview \<Rightarrow> pystr list" where
  "spec_reasons ev a r =
     (if isl ev then [py ''Evidence Agent output unavailable; assessment-only context used.''] else []) @
     (if isl a then [py ''Architecture Agent output unavailable.''] else []) @
     (if isl r then [py ''Risk & Governance Agent output unavailable; governance confidence reduced.'']
      else [])"

definition multi_spec ::
  "stripper \<Rightarrow> int \<Rightarrow> py_exc + EvidenceAgentOutcome \<Rightarrow> py_exc + ArchitectureRecommendation \<Rightarrow>
     py_exc + RiskGovernanceReview \<Rightarrow> py_exc + AssessmentResult \<Rightarrow> py_exc + multi_view" where
  "multi_spec strip max_failures ev a r syn =
     (let reasons = spec_reasons ev a r
      in if \<not> evidence_traceable strip ev \<or> int (length reasons) > max_failures \<or> length reasons = 3
         then Inl (AppExc AssessmentGenerationError)
         else (case syn of
             Inl e \<Rightarrow> Inl (as_application_error e)
           | Inr result \<Rightarrow> Inr
               \<lparr>mv_result = with_limitations reasons result, mv_evidence = spec_evidence ev,
                mv_statuses = \<lparr>mas_evidence = outcome_status ev, mas_architecture = outcome_status a,
                               mas_risk_governance = outcome_status r, mas_synthesis = MA_COMPLETED\<rparr>,
                mv_errors = \<lparr>mae_evidence = outcome_error ev,
                             mae_architecture = outcome_error a,
                             mae_risk_governance = outcome_error r,
                             mae_synthesis = None\<rparr>,
                mv_reasons = reasons, mv_degraded = (reasons \<noteq> []),
                mv_termination =
                  (if reasons \<noteq> [] then MTerm_COMPLETED_DEGRADED else MTerm_COMPLETED),
                mv_tool_calls = int (length (spec_history ev))\<rparr>))"

section \<open>The evidence node\<close>

lemma multi_event_ok_made:
  "multi_event_ok \<lparr>mte_sequence = n, mte_timestamp = t, mte_agent = agent, mte_event_type = type,
     mte_summary = summary, mte_tool_name = name, mte_error_code = code\<rparr> \<longleftrightarrow>
   0 \<le> n \<and> len_between 1 300 summary \<and> opt_len_ok name 100 \<and> opt_len_ok code 100"
  by (simp add: multi_event_ok_def)

lemma tool_events_run:
  "\<exists>events s'. tool_events strip items s =
     (if list_all (history_traceable strip) items then Inr events else Inl ValidationExc, s') \<and>
     (list_all (history_traceable strip) items \<longrightarrow> list_all multi_event_ok events)"
proof (induction items arbitrary: s)
  case Nil
  then show ?case by (simp add: returnE_def)
next
  case (Cons h items)
  obtain events s' where IH: "tool_events strip items (s\<lparr>tw_ticks := Suc (tw_ticks s)\<rparr>) =
     (if list_all (history_traceable strip) items then Inr events else Inl ValidationExc, s')"
     "list_all (history_traceable strip) items \<longrightarrow> list_all multi_event_ok events"
    using Cons by blast
  have h: "traceable strip (th_summary h) \<and> opt_len_ok (map_option strip (Some (th_tool_name h))) 100 \<and>
      opt_len_ok (map_option strip (th_error_code h)) 100 \<longleftrightarrow> history_traceable strip h"
    by (simp add: history_traceable_def opt_len_ok_def)
  show ?case
  proof (cases "history_traceable strip h")
    case True
    then show ?thesis using IH h
      by (auto simp: bindE_def multi_event_run returnE_def multi_event_ok_made traceable_def)
  next
    case False
    then show ?thesis using h by (auto simp: bindE_def multi_event_run)
  qed
qed

definition evidence_update ::
  "py_exc + EvidenceAgentOutcome \<Rightarrow> int \<Rightarrow> MultiAgentTraceEvent list \<Rightarrow> multi_update" where
  "evidence_update ev duration trace st =
     (case ev of
        Inl e \<Rightarrow> st\<lparr>ms_evidence_brief := Some unavailable, ms_evidence_status := MA_FAILED,
                    ms_evidence_error := Some (safe_error_code e),
                    ms_evidence_duration_ms := Some duration, ms_evidence_trace := trace\<rparr>
      | Inr out \<Rightarrow> st\<lparr>ms_evidence_brief := Some (eo_brief out),
                      ms_retrieved_evidence := eo_evidence out,
                      ms_observed_documents := eo_documents out,
                      ms_tool_history := eo_tool_history out,
                      ms_evidence_steps_used := eo_steps_used out,
                      ms_evidence_termination_reason := Some (eo_termination_reason out),
                      ms_graph_retrieval := eo_graph_retrieval out,
                      ms_evidence_status := MA_COMPLETED,
                      ms_evidence_duration_ms := Some duration, ms_evidence_trace := trace\<rparr>)"

lemma evidence_failed_run:
  assumes "strip_documented strip" and "multi_event_ok begun"
  shows "\<exists>d tr s'. evidence_failed strip started begun e s = (Inr (evidence_update (Inl e) d tr), s') \<and>
           0 \<le> d \<and> list_all multi_event_ok tr"
proof -
  have code: "opt_len_ok (map_option strip (Some (safe_error_code e))) 100"
    using opt_len_ok_strip[OF assms(1), of "Some (safe_error_code e)" 100] safe_error_code_length
    by (simp add: opt_len_ok_def)
  have t: "traceable strip (py ''Evidence analysis did not complete.'')"
    "traceable strip (py ''The workflow continued with assessment-only evidence context.'')"
    by (simp_all add: traceable_literal[OF assms(1)] py_isspace_def)
  show ?thesis
    using assms(2) code t
    by (auto simp: evidence_failed_def Let_def bindE_def multi_event_run node_elapsed_ms_def perf_counter_def
        returnE_def opt_len_ok_def multi_event_ok_made traceable_def evidence_update_def fun_eq_iff
        intro!: exI)
qed

lemma evidence_completed_run:
  assumes "strip_documented strip" and "multi_event_ok begun"
  shows "\<exists>d tr s'. evidence_completed strip started begun out s =
           (if list_all (history_traceable strip) (eo_tool_history out)
            then Inr (evidence_update (Inr out) d tr) else Inl ValidationExc, s') \<and>
           0 \<le> d \<and> (list_all (history_traceable strip) (eo_tool_history out) \<longrightarrow> list_all multi_event_ok tr)"
proof -
  obtain events s' where ev: "tool_events strip (eo_tool_history out) s =
     (if list_all (history_traceable strip) (eo_tool_history out) then Inr events else Inl ValidationExc, s')"
     "list_all (history_traceable strip) (eo_tool_history out) \<longrightarrow> list_all multi_event_ok events"
    using tool_events_run by blast
  have t: "traceable strip (py ''The Evidence Agent produced a typed EvidenceBrief.'')"
    by (simp add: traceable_literal[OF assms(1)] py_isspace_def)
  show ?thesis
  proof (cases "list_all (history_traceable strip) (eo_tool_history out)")
    case True
    then show ?thesis using assms(2) ev t
      by (auto simp: evidence_completed_def bindE_def multi_event_run node_elapsed_ms_def perf_counter_def
        returnE_def opt_len_ok_def multi_event_ok_made traceable_def evidence_update_def fun_eq_iff
        intro!: exI)
  next
    case False
    then show ?thesis using ev by (auto simp: evidence_completed_def bindE_def intro!: exI[of _ 0])
  qed
qed

definition gather_answers ::
  "'w MultiAgentGraphNodes \<Rightarrow> AssessmentRequest \<Rightarrow> (py_exc + EvidenceAgentOutcome \<Rightarrow> bool) \<Rightarrow> bool" where
  "gather_answers nodes request Q \<longleftrightarrow> (\<forall>s. Q (fst (mn_evidence nodes request s)))"

lemma multi_evidence_run:
  assumes "strip_documented (mn_strip nodes)" and "gather_answers nodes (ms_request st) E"
  shows "\<exists>ev d tr s'. E ev \<and> multi_evidence nodes st s =
           (if evidence_traceable (mn_strip nodes) ev then Inr (evidence_update ev d tr) else Inl ValidationExc, s') \<and>
           0 \<le> d \<and> (evidence_traceable (mn_strip nodes) ev \<longrightarrow> list_all multi_event_ok tr)"
proof -
  have t: "traceable (mn_strip nodes) (py ''Evidence analysis started with approved read-only tools.'')"
    by (simp add: traceable_literal[OF assms(1)] py_isspace_def)
  obtain started begun s1 where start: "perf_counter s = (Inr started, s\<lparr>tw_reads := Suc (tw_reads s)\<rparr>)"
    "multi_event (mn_strip nodes) MT_AGENT_STARTED
       (py ''Evidence analysis started with approved read-only tools.'') (Some Agent_EVIDENCE) None None
       (s\<lparr>tw_reads := Suc (tw_reads s)\<rparr>) = (Inr begun, s1)" "multi_event_ok begun"
    using t by (simp add: perf_counter_def multi_event_run opt_len_ok_def multi_event_ok_made traceable_def)
  obtain ev s2 where ev: "mn_evidence nodes (ms_request st) s1 = (ev, s2)" by (cases "mn_evidence nodes (ms_request st) s1")
  have E: "E ev" using assms(2) ev unfolding gather_answers_def by (metis fst_conv)
  have run: "multi_evidence nodes st s =
      (case ev of Inl exc \<Rightarrow> evidence_failed (mn_strip nodes) started begun exc
       | Inr result \<Rightarrow> evidence_completed (mn_strip nodes) started begun result) s2"
    using start(1,2) ev by (simp add: multi_evidence_def bindE_def attemptE_def)
  show ?thesis
  proof (cases ev)
    case (Inl e)
    obtain d tr s3 where "evidence_failed (mn_strip nodes) started begun e s2 =
        (Inr (evidence_update (Inl e) d tr), s3)" "0 \<le> d" "list_all multi_event_ok tr"
      using evidence_failed_run[OF assms(1) start(3), of started e s2] by blast
    then show ?thesis using run E Inl
      by (intro exI[of _ ev] exI[of _ d] exI[of _ tr] exI[of _ s3]) (simp add: evidence_traceable_def)
  next
    case (Inr out)
    obtain d tr s3 where "evidence_completed (mn_strip nodes) started begun out s2 =
           (if list_all (history_traceable (mn_strip nodes)) (eo_tool_history out)
            then Inr (evidence_update (Inr out) d tr) else Inl ValidationExc, s3)" "0 \<le> d"
           "list_all (history_traceable (mn_strip nodes)) (eo_tool_history out) \<longrightarrow> list_all multi_event_ok tr"
      using evidence_completed_run[OF assms(1) start(3), of started out s2] by blast
    then show ?thesis using run E Inr
      by (intro exI[of _ ev] exI[of _ d] exI[of _ tr] exI[of _ s3]) (simp add: evidence_traceable_def)
  qed
qed

section \<open>Fan-in\<close>

lemma outcome_isl: "outcome_error r = None \<longleftrightarrow> \<not> isl r" "outcome_value r = None \<longleftrightarrow> isl r"
    "outcome_status r = MA_COMPLETED \<longleftrightarrow> \<not> isl r"
  by (cases r; simp add: outcome_error_def outcome_value_def outcome_status_def)+

definition fanned_in ::
  "AssessmentRequest \<Rightarrow> int \<Rightarrow> py_exc + EvidenceAgentOutcome \<Rightarrow> py_exc + ArchitectureRecommendation \<Rightarrow>
     py_exc + RiskGovernanceReview \<Rightarrow> MultiAgentGraphState \<Rightarrow> bool" where
  "fanned_in request max_failures ev a r st \<longleftrightarrow>
     (ms_request st = request \<and> ms_max_failures st = max_failures \<and> brief_of st = spec_brief ev \<and>
      ms_retrieved_evidence st = spec_evidence ev \<and> ms_tool_history st = spec_history ev \<and>
      ms_architecture_recommendation st = outcome_value a \<and>
      ms_risk_governance_review st = outcome_value r) \<and>
     (ms_evidence_status st = outcome_status ev \<and> ms_architecture_status st = outcome_status a \<and>
      ms_risk_governance_status st = outcome_status r \<and> ms_evidence_error st = outcome_error ev \<and>
      ms_architecture_error st = outcome_error a \<and> ms_risk_governance_error st = outcome_error r \<and>
      ms_synthesis_error st = None) \<and>
     (duration_ok (ms_evidence_duration_ms st) \<and> duration_ok (ms_architecture_duration_ms st) \<and>
      duration_ok (ms_risk_governance_duration_ms st)) \<and>
     (\<exists>e. ms_initialization_trace st = [e] \<and> mte_event_type e = MT_WORKFLOW_STARTED \<and> multi_event_ok e) \<and>
     list_all multi_event_ok (ms_evidence_trace st) \<and>
     list_all multi_event_ok (ms_architecture_trace st) \<and>
     list_all multi_event_ok (ms_risk_governance_trace st)"

lemma fan_in:
  assumes "0 \<le> d" and "list_all multi_event_ok tr" and "branch_reports a ba" and "branch_reports r br"
    and "multi_event_ok e" and "mte_event_type e = MT_WORKFLOW_STARTED"
  shows "fanned_in request max_failures ev a r
    (join_branches (Branch_finished ba, Branch_finished br) (evidence_update ev d tr
      ((initialize_multi_agent_state i request max_failures)
         \<lparr>ms_started_at := Some now, ms_initialization_trace := [e]\<rparr>)))"
proof -
  have a: "br_result ba = outcome_value a" "br_error ba = outcome_error a" "br_status ba = outcome_status a"
    "0 \<le> br_duration ba" "list_all multi_event_ok (br_trace ba)" using assms(3) by (simp_all add: branch_reports_def)
  have r: "br_result br = outcome_value r" "br_error br = outcome_error r" "br_status br = outcome_status r"
    "0 \<le> br_duration br" "list_all multi_event_ok (br_trace br)" using assms(4) by (simp_all add: branch_reports_def)
  show ?thesis
    using assms a r
    by (cases ev; cases a; cases r)
       (simp_all add: fanned_in_def join_branches_def architecture_update_def risk_governance_update_def
        evidence_update_def initialize_multi_agent_state_def brief_of_def spec_brief_def spec_evidence_def
        spec_history_def outcome_value_def outcome_error_def outcome_status_def duration_ok_def)
qed

lemma fanned_in_reasons:
  assumes "fanned_in request max_failures ev a r st"
  shows "degradation_reasons st = spec_reasons ev a r"
    and "specialist_failures st = int (length (spec_reasons ev a r))"
    and "specialist_available st \<longleftrightarrow> length (spec_reasons ev a r) \<noteq> 3"
  using assms
  by (simp_all add: fanned_in_def degradation_reasons_def specialist_failures_def specialist_available_def
      spec_reasons_def outcome_isl)

lemma numbered_trace_facts:
  "map mte_sequence (numbered_trace t) = map int [0..<length t]"
  "map mte_event_type (numbered_trace t) = map mte_event_type t"
  "list_all multi_event_ok t \<Longrightarrow> list_all multi_event_ok (numbered_trace t)"
proof -
  show "map mte_sequence (numbered_trace t) = map int [0..<length t]"
    by (rule nth_equalityI) (simp_all add: numbered_trace_def nth_enumerate_eq)
  show "map mte_event_type (numbered_trace t) = map mte_event_type t"
    by (rule nth_equalityI) (simp_all add: numbered_trace_def nth_enumerate_eq)
  show "list_all multi_event_ok (numbered_trace t)" if "list_all multi_event_ok t"
    using that by (auto simp: numbered_trace_def list_all_length nth_enumerate_eq multi_event_ok_def)
qed

section \<open>Synthesis and validation\<close>

text \<open>A trace as the caller gets it: numbered from zero, every event within the bounds of its
  model, opened by the start of the workflow and closed by its end.\<close>

definition trace_well_formed :: "MultiAgentTraceEvent list \<Rightarrow> bool" where
  "trace_well_formed t \<longleftrightarrow>
     map mte_sequence t = map int [0..<length t] \<and> list_all multi_event_ok t \<and>
     t \<noteq> [] \<and> mte_event_type (hd t) = MT_WORKFLOW_STARTED \<and>
     mte_event_type (last t) = MT_WORKFLOW_COMPLETED"

lemma trace_well_formed_numbered:
  assumes "list_all multi_event_ok t" and "mte_event_type e = MT_WORKFLOW_STARTED" and "multi_event_ok e"
    and "mte_event_type e' = MT_WORKFLOW_COMPLETED" and "multi_event_ok e'"
  shows "trace_well_formed (numbered_trace (e # t @ [e']))"
proof -
  let ?t = "e # t @ [e']"
  have types: "map mte_event_type (numbered_trace ?t) = map mte_event_type ?t" by (rule numbered_trace_facts)
  then have ne: "numbered_trace ?t \<noteq> []" by auto
  have len: "length (numbered_trace ?t) = length ?t" using arg_cong[OF types, of length] by simp
  have "hd (map mte_event_type (numbered_trace ?t)) = MT_WORKFLOW_STARTED"
    "last (map mte_event_type (numbered_trace ?t)) = MT_WORKFLOW_COMPLETED"
    using types assms by simp_all
  then show ?thesis
    using ne len numbered_trace_facts(1)[of ?t] numbered_trace_facts(3)[of ?t] assms
    by (simp add: trace_well_formed_def hd_map last_map)
qed

definition converged ::
  "stripper \<Rightarrow> py_exc + EvidenceAgentOutcome \<Rightarrow> py_exc + ArchitectureRecommendation \<Rightarrow>
     py_exc + RiskGovernanceReview \<Rightarrow> AssessmentResult \<Rightarrow> MultiAgentGraphState \<Rightarrow> bool" where
  "converged strip ev a r result st \<longleftrightarrow>
     ms_final_result st = Some (with_limitations (spec_reasons ev a r) result) \<and>
     ms_retrieved_evidence st = spec_evidence ev \<and>
     (\<exists>x. ms_execution st = Some x \<and>
       mx_agents x = all_agents \<and> trace_well_formed (mx_trace x) \<and>
       mx_tools_used x = map strip (dedup (map th_tool_name (spec_history ev))) \<and>
       mx_agent_statuses x =
         \<lparr>mas_evidence = outcome_status ev, mas_architecture = outcome_status a,
          mas_risk_governance = outcome_status r, mas_synthesis = MA_COMPLETED\<rparr> \<and>
       mx_agent_errors x =
         \<lparr>mae_evidence = map_option strip (outcome_error ev),
          mae_architecture = map_option strip (outcome_error a),
          mae_risk_governance = map_option strip (outcome_error r), mae_synthesis = None\<rparr> \<and>
       mx_degradation_reasons x = map strip (spec_reasons ev a r) \<and>
       mx_degraded_mode x = (spec_reasons ev a r \<noteq> []) \<and>
       mx_termination_reason x =
         (if spec_reasons ev a r \<noteq> [] then MTerm_COMPLETED_DEGRADED else MTerm_COMPLETED) \<and>
       mx_tool_calls x = int (length (spec_history ev)))"

text \<open>Pydantic returns an instance of the model unchanged (\<open>revalidate_instances\<close> is \<open>'never'\<close>).\<close>

definition instances_accepted :: "('a \<Rightarrow> py_exc + 'a) \<Rightarrow> bool" where
  "instances_accepted validate \<longleftrightarrow> (\<forall>x. validate x = Inr x)"

lemma outcome_error_len: "strip_documented strip \<Longrightarrow> opt_len_ok (map_option strip (outcome_error r)) 100"
  using opt_len_ok_strip[of strip "outcome_error r" 100] safe_error_code_length
  by (cases r) (auto simp: outcome_error_def opt_len_ok_def)

lemma multi_validate_run:
  assumes "strip_documented (mn_strip nodes)" and "instances_accepted (mn_validate_result nodes)"
    and "fanned_in request max_failures ev a r st" and "0 \<le> d" and "multi_event_ok b" and "multi_event_ok c"
    and st4: "st4 = synthesis_update (with_limitations (spec_reasons ev a r) result) d [b, c] st"
  shows "\<exists>u s'. multi_validate nodes st4 s = (Inr u, s') \<and> converged (mn_strip nodes) ev a r result (u st4)"
proof -
  let ?strip = "mn_strip nodes"
  have reasons: "degradation_reasons st4 = spec_reasons ev a r"
    using fanned_in_reasons(1)[OF assms(3)] unfolding st4 by (simp add: degradation_reasons_def synthesis_update_def)
  let ?summary = "if spec_reasons ev a r \<noteq> [] then py ''The multi-agent workflow completed in degraded mode.''
               else py ''The multi-agent workflow completed with all specialists.''"
  have t: "traceable ?strip ?summary"
    by (simp add: traceable_literal[OF assms(1)] py_isspace_def)
  obtain event s1 where event: "multi_event ?strip MT_WORKFLOW_COMPLETED ?summary None None None s = (Inr event, s1)"
    "multi_event_ok event" "mte_event_type event = MT_WORKFLOW_COMPLETED"
    using t by (simp add: multi_event_run opt_len_ok_def multi_event_ok_made traceable_def)
  obtain e where e: "ms_initialization_trace st = [e]" "mte_event_type e = MT_WORKFLOW_STARTED" "multi_event_ok e"
    using assms(3) by (auto simp: fanned_in_def)
  let ?trace = "numbered_trace (ms_initialization_trace st4 @ ms_evidence_trace st4 @ ms_architecture_trace st4 @
        ms_risk_governance_trace st4 @ ms_synthesis_trace st4 @ [event])"
  have "trace_well_formed (numbered_trace (e # (ms_evidence_trace st @ ms_architecture_trace st @
        ms_risk_governance_trace st @ [b, c]) @ [event]))"
    using assms(3,5,6) e event by (intro trace_well_formed_numbered) (auto simp: fanned_in_def)
  then have trace: "trace_well_formed ?trace" unfolding st4 using e(1) by (simp add: synthesis_update_def)
  obtain durations where durations: "mk_multi_durations st4 = Inr durations"
    using assms(3,4) unfolding st4
    by (auto simp: synthesis_update_def mk_multi_durations_def fanned_in_def duration_ok_def)
  have errors: "mk_multi_errors ?strip st4 = Inr \<lparr>mae_evidence = map_option ?strip (outcome_error ev),
      mae_architecture = map_option ?strip (outcome_error a),
      mae_risk_governance = map_option ?strip (outcome_error r), mae_synthesis = None\<rparr>"
    using assms(3) outcome_error_len[OF assms(1), of ev] outcome_error_len[OF assms(1), of a]
      outcome_error_len[OF assms(1), of r] unfolding st4
    by (simp add: synthesis_update_def mk_multi_errors_def fanned_in_def Let_def) (simp add: opt_len_ok_def)
  have fin: "ms_final_result st4 = Some (with_limitations (spec_reasons ev a r) result)"
    by (simp add: st4 synthesis_update_def)
  show ?thesis
    using assms(2) reasons event(1) durations errors trace fin assms(3)
    by (simp add: multi_validate_def bindE_def requireE_def returnE_def liftE_def instances_accepted_def
        datetime_now_def Let_def converged_def multi_metadata_def)
       (simp add: st4 synthesis_update_def fanned_in_def)
qed

definition synthesis_answers ::
  "'w MultiAgentGraphNodes \<Rightarrow> AssessmentRequest \<Rightarrow> EvidenceBrief \<Rightarrow> ArchitectureRecommendation option \<Rightarrow>
     RiskGovernanceReview option \<Rightarrow> pystr list \<Rightarrow> (py_exc + AssessmentResult \<Rightarrow> bool) \<Rightarrow> bool" where
  "synthesis_answers nodes request brief a r reasons = answers (mn_synthesis nodes request brief a r reasons)"

definition multi_fan_in ::
  "'w MultiAgentGraphNodes \<Rightarrow> MultiAgentGraphState \<Rightarrow> ('w, MultiAgentGraphState) tool" where
  "multi_fan_in nodes st =
     bindE (multi_synthesize nodes st) (\<lambda>u4. let st4 = u4 st in
     bindE (multi_validate nodes st4) (\<lambda>u5. returnE (u5 st4)))"

lemma multi_fan_in_run:
  assumes "strip_documented (mn_strip nodes)" and "instances_accepted (mn_validate_result nodes)"
    and "fanned_in request max_failures ev a r st"
    and "synthesis_answers nodes request (spec_brief ev) (outcome_value a) (outcome_value r)
           (spec_reasons ev a r) S"
  shows "\<exists>syn out s'. S syn \<and> multi_fan_in nodes st s = (out, s') \<and>
    (if int (length (spec_reasons ev a r)) > max_failures \<or> length (spec_reasons ev a r) = 3
     then out = Inl (AppExc AssessmentGenerationError)
     else (case syn of Inl e \<Rightarrow> out = Inl e
           | Inr result \<Rightarrow> (\<exists>st'. out = Inr st' \<and> converged (mn_strip nodes) ev a r result st')))"
proof -
  note reasons = fanned_in_reasons[OF assms(3)]
  let ?call = "mn_synthesis nodes request (spec_brief ev) (outcome_value a) (outcome_value r) (spec_reasons ev a r)"
  have st: "ms_max_failures st = max_failures" "ms_request st = request" "brief_of st = spec_brief ev"
    "ms_architecture_recommendation st = outcome_value a" "ms_risk_governance_review st = outcome_value r"
    using assms(3) by (auto simp: fanned_in_def)
  show ?thesis
  proof (cases "int (length (spec_reasons ev a r)) > max_failures \<or> length (spec_reasons ev a r) = 3")
    case True
    then have "multi_fan_in nodes st s = (Inl (AppExc AssessmentGenerationError), s)"
      using reasons st by (simp add: multi_fan_in_def multi_synthesize_def bindE_def raiseE_def)
    moreover have "S (fst (?call (tw_env s)))"
      using assms(4) by (simp add: synthesis_answers_def answers_def)
    ultimately show ?thesis using True by auto
  next
    case False
    have t: "traceable (mn_strip nodes) (py ''Typed specialist outputs converged for final synthesis.'')"
      "traceable (mn_strip nodes) (py ''The Synthesis Agent produced the existing AssessmentResult contract.'')"
      by (simp_all add: traceable_literal[OF assms(1)] py_isspace_def)
    let ?s1 = "s\<lparr>tw_reads := Suc (tw_reads s)\<rparr>"
    obtain b s2 where b: "multi_event (mn_strip nodes) MT_AGENT_STARTED
        (py ''Typed specialist outputs converged for final synthesis.'') (Some Agent_SYNTHESIS) None None ?s1 = (Inr b, s2)"
      "multi_event_ok b"
      using t(1) by (simp add: multi_event_run opt_len_ok_def multi_event_ok_made traceable_def)
    obtain syn s3 where syn: "in_env ?call s2 = (syn, s3)" by (cases "in_env ?call s2")
    then have S: "S syn" using assms(4)
      by (auto simp: synthesis_answers_def answers_def in_env_def split: prod.splits) (metis fst_conv)
    obtain c s4 where c: "multi_event (mn_strip nodes) MT_AGENT_COMPLETED
        (py ''The Synthesis Agent produced the existing AssessmentResult contract.'') (Some Agent_SYNTHESIS) None None s3
        = (Inr c, s4)" "multi_event_ok c"
      using t(2) by (simp add: multi_event_run opt_len_ok_def multi_event_ok_made traceable_def)
    obtain d s5 where d: "node_elapsed_ms (tw_perf s (tw_reads s)) s4 = (Inr d, s5)" "0 \<le> d"
      using node_elapsed_ms_run[of "tw_perf s (tw_reads s)" s4] by auto
    show ?thesis
    proof (cases syn)
      case (Inl e)
      then have "multi_fan_in nodes st s = (Inl e, s3)"
        using False reasons st b(1) syn
        by (simp add: multi_fan_in_def multi_synthesize_def bindE_def perf_counter_def Let_def)
      then show ?thesis using False S Inl by auto
    next
      case (Inr result)
      obtain u s' where v: "multi_validate nodes (synthesis_update (with_limitations (spec_reasons ev a r) result) d [b, c] st) s5 = (Inr u, s')"
        "converged (mn_strip nodes) ev a r result (u (synthesis_update (with_limitations (spec_reasons ev a r) result) d [b, c] st))"
        using multi_validate_run[OF assms(1,2,3) d(2) b(2) c(2) refl] by blast
      have "multi_fan_in nodes st s = (Inr (u (synthesis_update (with_limitations (spec_reasons ev a r) result) d [b, c] st)), s')"
        using False reasons st b(1) syn c(1) d(1) v(1) Inr
        by (simp add: multi_fan_in_def multi_synthesize_def bindE_def perf_counter_def Let_def returnE_def)
      then show ?thesis using False S Inr v(2) by auto
    qed
  qed
qed

section \<open>The whole run\<close>

lemma strip_literal:
  assumes "strip_documented strip" and "s \<noteq> []" and "\<not> py_isspace (of_char (hd s))"
    and "\<not> py_isspace (of_char (last s))"
  shows "strip (py s) = py s"
  using assms by (intro strip_tight) (auto simp: py_def hd_map last_map)

lemma strip_reasons: "strip_documented strip \<Longrightarrow> map strip (spec_reasons ev a r) = spec_reasons ev a r"
  by (simp add: spec_reasons_def strip_literal py_isspace_def)

lemma strip_error_code: "strip_documented strip \<Longrightarrow> strip (safe_error_code e) = safe_error_code e"
proof -
  assume strip: "strip_documented strip"
  have "strip (error_code x) = error_code x" for x
    by (cases x) (simp_all add: strip_literal[OF strip] py_isspace_def)
  then show ?thesis by (cases e) (simp_all add: safe_error_code_def strip_literal[OF strip] py_isspace_def)
qed

lemma strip_outcome: "strip_documented strip \<Longrightarrow> map_option strip (outcome_error r) = outcome_error r"
  by (cases r) (simp_all add: outcome_error_def strip_error_code)

lemma multi_graph_split:
  "multi_graph nodes schedule st0 =
     bindE (multi_initialize (mn_strip nodes)) (\<lambda>u1. let st1 = u1 st0 in
     bindE (multi_evidence nodes st1) (\<lambda>u2. let st2 = u2 st1 in
     bindE (run_branches nodes st2 schedule (Branch_ready, Branch_ready)) (\<lambda>p.
     multi_fan_in nodes (join_branches p st2))))"
  by (simp add: multi_graph_def multi_fan_in_def Let_def)

lemma multi_initialize_run:
  assumes "strip_documented strip"
  shows "\<exists>now e s'. multi_initialize strip s =
      (Inr (\<lambda>st. st\<lparr>ms_started_at := Some now, ms_initialization_trace := [e]\<rparr>), s') \<and>
    multi_event_ok e \<and> mte_event_type e = MT_WORKFLOW_STARTED"
proof -
  have "traceable strip (py ''The controlled four-agent workflow started.'')"
    by (simp add: traceable_literal[OF assms] py_isspace_def)
  then show ?thesis
    by (simp add: multi_initialize_def datetime_now_def bindE_def multi_event_run opt_len_ok_def returnE_def)
       (rule exI, rule exI, rule conjI, rule refl, simp add: multi_event_ok_made traceable_def opt_len_ok_def)
qed

text \<open>What the environment guarantees of the four agents, each knowing what the others answered.\<close>

definition agents_answer ::
  "'w MultiAgentGraphNodes \<Rightarrow> AssessmentRequest \<Rightarrow> (py_exc + EvidenceAgentOutcome \<Rightarrow> bool) \<Rightarrow>
     (py_exc + EvidenceAgentOutcome \<Rightarrow> py_exc + ArchitectureRecommendation \<Rightarrow> bool) \<Rightarrow>
     (py_exc + EvidenceAgentOutcome \<Rightarrow> py_exc + RiskGovernanceReview \<Rightarrow> bool) \<Rightarrow>
     (py_exc + AssessmentResult \<Rightarrow> bool) \<Rightarrow> bool" where
  "agents_answer nodes request E A R S \<longleftrightarrow>
     gather_answers nodes request E \<and>
     (\<forall>ev. E ev \<longrightarrow> answers (mn_architecture nodes request (spec_brief ev)) (A ev) \<and>
        answers (mn_risk_governance nodes request (spec_brief ev)) (R ev) \<and>
        (\<forall>a r. A ev a \<longrightarrow> R ev r \<longrightarrow>
           synthesis_answers nodes request (spec_brief ev) (outcome_value a) (outcome_value r)
             (spec_reasons ev a r) S))"

lemma answers_inhabited: "answers call Q \<Longrightarrow> \<exists>x. Q x"
  unfolding answers_def by blast

lemma multi_graph_run:
  assumes "strip_documented (mn_strip nodes)" and "instances_accepted (mn_validate_result nodes)"
    and "agents_answer nodes request E A R S"
  shows "\<exists>ev a r syn out s'. E ev \<and> A ev a \<and> R ev r \<and> S syn \<and>
    multi_graph nodes schedule (initialize_multi_agent_state i request max_failures) s = (out, s') \<and>
    (if \<not> evidence_traceable (mn_strip nodes) ev then out = Inl ValidationExc
     else if int (length (spec_reasons ev a r)) > max_failures \<or> length (spec_reasons ev a r) = 3
     then out = Inl (AppExc AssessmentGenerationError)
     else (case syn of Inl e \<Rightarrow> out = Inl e
           | Inr result \<Rightarrow> (\<exists>st'. out = Inr st' \<and> converged (mn_strip nodes) ev a r result st')))"
proof -
  let ?st0 = "initialize_multi_agent_state i request max_failures"
  obtain now e s1 where 1: "multi_initialize (mn_strip nodes) s =
      (Inr (\<lambda>st. st\<lparr>ms_started_at := Some now, ms_initialization_trace := [e]\<rparr>), s1)"
    "multi_event_ok e" "mte_event_type e = MT_WORKFLOW_STARTED"
    using multi_initialize_run[OF assms(1)] by blast
  let ?st1 = "?st0\<lparr>ms_started_at := Some now, ms_initialization_trace := [e]\<rparr>"
  have req: "ms_request ?st1 = request" by (simp add: initialize_multi_agent_state_def)
  have E: "gather_answers nodes (ms_request ?st1) E" using assms(3) req by (simp add: agents_answer_def)
  obtain ev d tr s2 where ev: "E ev" and 2: "multi_evidence nodes ?st1 s1 =
      (if evidence_traceable (mn_strip nodes) ev then Inr (evidence_update ev d tr) else Inl ValidationExc, s2)"
    and d: "0 \<le> d" and tr: "evidence_traceable (mn_strip nodes) ev \<longrightarrow> list_all multi_event_ok tr"
    using multi_evidence_run[OF assms(1) E] by blast
  have A: "answers (mn_architecture nodes request (spec_brief ev)) (A ev)"
    and R: "answers (mn_risk_governance nodes request (spec_brief ev)) (R ev)"
    and S: "\<And>a r. A ev a \<Longrightarrow> R ev r \<Longrightarrow> synthesis_answers nodes request (spec_brief ev) (outcome_value a)
        (outcome_value r) (spec_reasons ev a r) S"
    using assms(3) ev by (auto simp: agents_answer_def)
  show ?thesis
  proof (cases "evidence_traceable (mn_strip nodes) ev")
    case False
    obtain a r where ar: "A ev a" "R ev r" using answers_inhabited[OF A] answers_inhabited[OF R] by blast
    then obtain syn where "S syn" using answers_inhabited[OF S[OF ar, unfolded synthesis_answers_def]] by blast
    moreover have "multi_graph nodes schedule ?st0 s = (Inl ValidationExc, s2)"
      using 1(1) 2 False by (simp add: multi_graph_split bindE_def Let_def)
    ultimately show ?thesis using ev ar False by auto
  next
    case True
    let ?st2 = "evidence_update ev d tr ?st1"
    have st2: "ms_request ?st2 = request" "brief_of ?st2 = spec_brief ev"
      by (cases ev; simp add: evidence_update_def initialize_multi_agent_state_def brief_of_def spec_brief_def)+
    have calls: "answers (architecture_call nodes ?st2) (A ev)" "answers (risk_governance_call nodes ?st2) (R ev)"
      using A R st2 by (simp_all add: architecture_call_def risk_governance_call_def)
    obtain a r ba br s3 where 3: "run_branches nodes ?st2 schedule (Branch_ready, Branch_ready) s2 =
        (Inr (Branch_finished ba, Branch_finished br), s3)"
      and ar: "A ev a" "R ev r" and reports: "branch_reports a ba" "branch_reports r br"
      using run_branches_run[OF assms(1) _ _ calls, of "(Branch_ready, Branch_ready)" schedule s2]
      by (auto simp: progress_ok_def)
    have "fanned_in request max_failures ev a r (join_branches (Branch_finished ba, Branch_finished br) ?st2)"
      using True tr d reports 1(2,3) by (intro fan_in) auto
    from multi_fan_in_run[OF assms(1,2) this S[OF ar], of s3]
    obtain syn out s' where syn: "S syn" and
      4: "multi_fan_in nodes (join_branches (Branch_finished ba, Branch_finished br) ?st2) s3 = (out, s')" and
      out: "if int (length (spec_reasons ev a r)) > max_failures \<or> length (spec_reasons ev a r) = 3
       then out = Inl (AppExc AssessmentGenerationError)
       else (case syn of Inl e \<Rightarrow> out = Inl e
           | Inr result \<Rightarrow> (\<exists>st'. out = Inr st' \<and> converged (mn_strip nodes) ev a r result st'))"
      by blast
    have "multi_graph nodes schedule ?st0 s = (out, s')"
      using 1(1) 2 3 4 True by (simp add: multi_graph_split bindE_def Let_def)
    then show ?thesis using ev ar syn out True
      by (intro exI[of _ ev] exI[of _ a] exI[of _ r] exI[of _ syn] exI[of _ out] exI[of _ s']) simp
  qed
qed

text \<open>The collaborators behave as documented.\<close>

definition documented_libraries :: "'w MultiAgentAssessmentWorkflow \<Rightarrow> bool" where
  "documented_libraries flow \<longleftrightarrow>
     multi_langgraph_semantics (mw_invoke flow) \<and> strip_documented (mn_strip (mw_nodes flow)) \<and>
     instances_accepted (mn_validate_result (mw_nodes flow)) \<and>
     instances_accepted (mw_validate_execution flow)"

text \<open>The public outcome, and what else the execution record of a result satisfies.\<close>

definition run_matches ::
  "'w MultiAgentAssessmentWorkflow \<Rightarrow> py_exc + EvidenceAgentOutcome \<Rightarrow>
     py_exc + ArchitectureRecommendation \<Rightarrow> py_exc + RiskGovernanceReview \<Rightarrow>
     py_exc + AssessmentResult \<Rightarrow> py_exc + MultiAgentWorkflowResult \<Rightarrow> bool" where
  "run_matches flow ev a r syn out \<longleftrightarrow>
     map_sum id multi_view_of out = multi_spec (mn_strip (mw_nodes flow)) (mw_max_failures flow) ev a r syn \<and>
     (\<forall>x. out = Inr x \<longrightarrow> mx_agents (mwr_execution x) = all_agents \<and>
        trace_well_formed (mx_trace (mwr_execution x)))"

lemma finish_converged:
  assumes "instances_accepted (mn_validate_result (mw_nodes flow))" and "instances_accepted (mw_validate_execution flow)"
    and "strip_documented (mn_strip (mw_nodes flow))" and "evidence_traceable (mn_strip (mw_nodes flow)) ev"
    and "\<not> (int (length (spec_reasons ev a r)) > mw_max_failures flow \<or> length (spec_reasons ev a r) = 3)"
    and "converged (mn_strip (mw_nodes flow)) ev a r result st"
  shows "run_matches flow ev a r (Inr result) (finish_multi_agent flow st)"
proof -
  obtain x where x: "ms_execution st = Some x" and conv: "converged (mn_strip (mw_nodes flow)) ev a r result st"
    using assms(6) by (auto simp: converged_def)
  have "finish_multi_agent flow st = Inr \<lparr>mwr_result = with_limitations (spec_reasons ev a r) result,
      mwr_evidence = spec_evidence ev, mwr_execution = x\<rparr>"
    using conv x assms(1,2) by (simp add: converged_def finish_multi_agent_def instances_accepted_def)
  then show ?thesis
    using conv x assms(4,5)
    by (simp add: run_matches_def multi_spec_def multi_view_of_def converged_def Let_def
        strip_reasons[OF assms(3)] strip_outcome[OF assms(3)])
qed

lemma multi_agent_run_matches:
  assumes "documented_libraries flow" and "agents_answer (mw_nodes flow) request E A R S"
  shows "\<exists>ev a r syn. E ev \<and> A ev a \<and> R ev r \<and> S syn \<and>
           run_matches flow ev a r syn (fst (multi_agent_run flow i request s))"
proof -
  note lib = assms(1)[unfolded documented_libraries_def]
  let ?st0 = "initialize_multi_agent_state i request (mw_max_failures flow)"
  obtain schedule where inv: "mw_invoke flow (mw_nodes flow) ?st0 s = multi_graph (mw_nodes flow) schedule ?st0 s"
    using lib unfolding multi_langgraph_semantics_def by blast
  obtain ev a r syn out s' where ok: "E ev" "A ev a" "R ev r" "S syn"
    and run: "multi_graph (mw_nodes flow) schedule ?st0 s = (out, s')"
    and out: "if \<not> evidence_traceable (mn_strip (mw_nodes flow)) ev then out = Inl ValidationExc
     else if int (length (spec_reasons ev a r)) > mw_max_failures flow \<or> length (spec_reasons ev a r) = 3
     then out = Inl (AppExc AssessmentGenerationError)
     else (case syn of Inl e \<Rightarrow> out = Inl e
           | Inr result \<Rightarrow> (\<exists>st'. out = Inr st' \<and> converged (mn_strip (mw_nodes flow)) ev a r result st'))"
    using multi_graph_run[OF _ _ assms(2), of schedule i "mw_max_failures flow" s] lib by blast
  have fst_run: "fst (multi_agent_run flow i request s) =
      (case out of Inl e \<Rightarrow> Inl (as_application_error e) | Inr st \<Rightarrow> finish_multi_agent flow st)"
    using inv run by (cases out) (simp_all add: multi_agent_run_def bindE_def catchE_def raiseE_def liftE_def)
  have "run_matches flow ev a r syn (fst (multi_agent_run flow i request s))"
  proof (cases "\<not> evidence_traceable (mn_strip (mw_nodes flow)) ev \<or>
      int (length (spec_reasons ev a r)) > mw_max_failures flow \<or> length (spec_reasons ev a r) = 3")
    case True
    then have "fst (multi_agent_run flow i request s) = Inl (AppExc AssessmentGenerationError)"
      using out fst_run by (auto simp: as_application_error_def split: if_splits)
    then show ?thesis using True by (auto simp: run_matches_def multi_spec_def Let_def)
  next
    case False
    show ?thesis
    proof (cases syn)
      case (Inl e)
      then show ?thesis using False out fst_run by (simp add: run_matches_def multi_spec_def Let_def)
    next
      case (Inr result)
      then obtain st' where "out = Inr st'" "converged (mn_strip (mw_nodes flow)) ev a r result st'"
        using False out by auto
      then show ?thesis using fst_run False Inr lib by (simp add: finish_converged)
    qed
  qed
  with ok show ?thesis by blast
qed

section \<open>Properties\<close>


definition failed_agents :: "MultiAgentStatuses \<Rightarrow> nat" where
  "failed_agents m = length (filter (\<lambda>x. x = MA_FAILED) (statuses_values m))"

lemma multi_spec_Inr:
  assumes "multi_spec strip max_failures ev a r syn = Inr v"
  shows "evidence_traceable strip ev" and "int (length (spec_reasons ev a r)) \<le> max_failures"
    and "length (spec_reasons ev a r) \<noteq> 3" and "\<exists>result. syn = Inr result \<and>
      mv_result v = with_limitations (spec_reasons ev a r) result"
    and "mv_reasons v = spec_reasons ev a r" and "mv_degraded v \<longleftrightarrow> spec_reasons ev a r \<noteq> []"
    and "mv_statuses v = \<lparr>mas_evidence = outcome_status ev, mas_architecture = outcome_status a,
           mas_risk_governance = outcome_status r, mas_synthesis = MA_COMPLETED\<rparr>"
    and "mv_errors v = \<lparr>mae_evidence = outcome_error ev, mae_architecture = outcome_error a,
           mae_risk_governance = outcome_error r, mae_synthesis = None\<rparr>"
    and "mv_evidence v = spec_evidence ev" and "mv_tool_calls v = int (length (spec_history ev))"
    and "mv_termination v = (if spec_reasons ev a r \<noteq> [] then MTerm_COMPLETED_DEGRADED else MTerm_COMPLETED)"
  using assms by (auto simp: multi_spec_def Let_def split: if_splits sum.splits)

lemma limitations_last:
  "\<exists>gaps. res_information_gaps (with_limitations reasons result) =
     gaps @ map (\<lambda>reason. py ''Specialist limitation: '' @ reason) reasons"
  by (simp add: with_limitations_def)

lemma spec_failed_agents:
  "failed_agents \<lparr>mas_evidence = outcome_status ev, mas_architecture = outcome_status a,
     mas_risk_governance = outcome_status r, mas_synthesis = MA_COMPLETED\<rparr> = length (spec_reasons ev a r)"
  by (cases ev; cases a; cases r) (simp_all add: failed_agents_def statuses_values_def spec_reasons_def outcome_status_def)

text \<open>A degraded result says so. Whatever the agents do, when the workflow returns: its metadata
  lists exactly the four agents, synthesis completed, and each other agent either completed
  without an error code or failed with one; no more agents failed than configured, and not all
  three; the run is marked degraded, with one reason per failure and the matching termination
  reason, exactly when an agent failed; every reason is repeated at the end of the result's
  information gaps; without the Evidence Agent there is no evidence and no tool call; and the
  trace is numbered from zero, within the bounds of its model, from the start event to the end event.
\<close>

theorem multi_agent_degradation_reported:
  assumes "documented_libraries flow" and "multi_agent_run flow i request s = (Inr out, s')"
  shows "let x = mwr_execution out in mx_agents x = all_agents \<and> mas_synthesis (mx_agent_statuses x) = MA_COMPLETED \<and>
    list_all (\<lambda>(status, code). status = MA_COMPLETED \<and> code = None \<or> status = MA_FAILED \<and> code \<noteq> None)
      [(mas_evidence (mx_agent_statuses x), mae_evidence (mx_agent_errors x)),
       (mas_architecture (mx_agent_statuses x), mae_architecture (mx_agent_errors x)),
       (mas_risk_governance (mx_agent_statuses x), mae_risk_governance (mx_agent_errors x))] \<and>
    int (failed_agents (mx_agent_statuses x)) \<le> mw_max_failures flow \<and>
    failed_agents (mx_agent_statuses x) \<le> 2 \<and>
    length (mx_degradation_reasons x) = failed_agents (mx_agent_statuses x) \<and>
    mx_degraded_mode x = (0 < failed_agents (mx_agent_statuses x)) \<and>
    mx_termination_reason x = (if mx_degraded_mode x then MTerm_COMPLETED_DEGRADED else MTerm_COMPLETED) \<and>
    (\<exists>gaps. res_information_gaps (mwr_result out) =
       gaps @ map (\<lambda>reason. py ''Specialist limitation: '' @ reason) (mx_degradation_reasons x)) \<and>
    (mas_evidence (mx_agent_statuses x) = MA_FAILED \<longrightarrow> mwr_evidence out = [] \<and> mx_tool_calls x = 0) \<and>
    trace_well_formed (mx_trace x)"
proof -
  define x where "x = mwr_execution out"
  have "agents_answer (mw_nodes flow) request (\<lambda>_. True) (\<lambda>_ _. True) (\<lambda>_ _. True) (\<lambda>_. True)"
    by (simp add: agents_answer_def gather_answers_def answers_def synthesis_answers_def)
  from multi_agent_run_matches[OF assms(1) this, of i s] assms(2)
  obtain ev a r syn where view: "multi_spec (mn_strip (mw_nodes flow)) (mw_max_failures flow) ev a r syn =
      Inr (multi_view_of out)"
    and tr: "mx_agents x = all_agents" "trace_well_formed (mx_trace x)"
    by (auto simp: run_matches_def x_def)
  note m = multi_spec_Inr[OF view, unfolded multi_view_of_def Let_def multi_view.simps, folded x_def]
  have len: "length (spec_reasons ev a r) \<le> 3" by (simp add: spec_reasons_def)
  have fails: "failed_agents (mx_agent_statuses x) = length (spec_reasons ev a r)"
    unfolding m(7) by (rule spec_failed_agents)
  have gaps: "\<exists>gaps. res_information_gaps (mwr_result out) =
      gaps @ map (\<lambda>reason. py ''Specialist limitation: '' @ reason) (spec_reasons ev a r)"
    using m(4) limitations_last by metis
  have codes: "list_all (\<lambda>(status, code). status = MA_COMPLETED \<and> code = None \<or> status = MA_FAILED \<and> code \<noteq> None)
      [(outcome_status ev, outcome_error ev), (outcome_status a, outcome_error a), (outcome_status r, outcome_error r)]"
    by (cases ev; cases a; cases r) (simp_all add: outcome_status_def outcome_error_def)
  have none: "outcome_status ev = MA_FAILED \<longrightarrow> spec_evidence ev = [] \<and> spec_history ev = []"
    by (cases ev) (simp_all add: outcome_status_def spec_evidence_def spec_history_def)
  show ?thesis
    unfolding Let_def x_def[symmetric]
    using tr m(2,3,5,6,9-11) fails len gaps codes none unfolding m(7,8) by auto
qed

text \<open>The workflow raises application errors only, and a specialist's failure is contained: every
  exception of the Evidence, architecture or governance agent becomes a degraded run or
  \<open>AssessmentGenerationError\<close>; any other application error is one that the synthesis agent raised.
\<close>

theorem multi_agent_errors_contained:
  assumes "documented_libraries flow" and "multi_agent_run flow i request s = (Inl e, s')"
  shows "e = AppExc AssessmentGenerationError \<or>
    (\<exists>c brief a r reasons w. e = AppExc c \<and>
       fst (mn_synthesis (mw_nodes flow) request brief a r reasons w) = Inl (AppExc c))"
proof -
  let ?S = "\<lambda>syn. \<exists>brief a r reasons w. syn = fst (mn_synthesis (mw_nodes flow) request brief a r reasons w)"
  have "agents_answer (mw_nodes flow) request (\<lambda>_. True) (\<lambda>_ _. True) (\<lambda>_ _. True) ?S"
    unfolding agents_answer_def gather_answers_def answers_def synthesis_answers_def by blast
  from multi_agent_run_matches[OF assms(1) this, of i s]
  obtain ev a r syn where syn: "?S syn" and "run_matches flow ev a r syn (fst (multi_agent_run flow i request s))"
    by blast
  then have view: "multi_spec (mn_strip (mw_nodes flow)) (mw_max_failures flow) ev a r syn = Inl e"
    using assms(2) by (simp add: run_matches_def)
  show ?thesis
  proof (cases syn)
    case (Inl x)
    then have "e = AppExc AssessmentGenerationError \<or> e = as_application_error x"
      using view by (auto simp: multi_spec_def Let_def split: if_splits)
    moreover have "as_application_error x = AppExc AssessmentGenerationError \<or> (\<exists>c. x = AppExc c \<and> as_application_error x = AppExc c)"
      by (cases x) (simp_all add: as_application_error_def)
    ultimately show ?thesis using syn Inl by metis
  next
    case (Inr result)
    then show ?thesis using view by (auto simp: multi_spec_def Let_def split: if_splits)
  qed
qed

section \<open>A sample run\<close>

text \<open>The Evidence Agent and the governance agent fail, the architecture agent answers, one of the
  two failures is more than a second workflow allows.\<close>

definition sample_recommendation :: ArchitectureRecommendation where
  "sample_recommendation =
     \<lparr>ar_recommended_pattern = DETERMINISTIC_AUTOMATION, ar_architecture_summary = py ''s'',
      ar_components = [], ar_data_flow = [], ar_integrations = [], ar_complexity = Complexity_LOW,
      ar_implementation_assumptions = [], ar_alternatives_considered = [],
      ar_why_simpler_options_are_or_are_not_sufficient = py ''w'', ar_confidence = Confidence_LOW\<rparr>"

definition sample_nodes :: "nat MultiAgentGraphNodes" where
  "sample_nodes =
     \<lparr>mn_evidence = (\<lambda>_. raiseE (OtherExc (py ''RuntimeError''))),
      mn_architecture = (\<lambda>_ _. returnE sample_recommendation),
      mn_risk_governance = (\<lambda>_ _. raiseE OperationTimeoutExc),
      mn_synthesis = (\<lambda>_ _ _ _ _. returnE sample_assessment),
      mn_strip = py_strip, mn_validate_result = Inr\<rparr>"

definition sample_multi_agent :: "int \<Rightarrow> nat MultiAgentAssessmentWorkflow" where
  "sample_multi_agent max_failures =
     \<lparr>mw_invoke = (\<lambda>nodes. multi_graph nodes [False, True, True, False]), mw_nodes = sample_nodes,
      mw_max_failures = max_failures, mw_validate_execution = Inr\<rparr>"

lemma sample_libraries: "documented_libraries (sample_multi_agent n)"
  by (auto simp: documented_libraries_def sample_multi_agent_def multi_langgraph_semantics_def sample_nodes_def
      strip_documented_py_strip instances_accepted_def)

abbreviation sample_outcome :: "int \<Rightarrow> py_exc + multi_view" where
  "sample_outcome n \<equiv> multi_spec py_strip n (Inl (OtherExc (py ''RuntimeError''))) (Inr sample_recommendation)
     (Inl OperationTimeoutExc) (Inr sample_assessment)"


lemma sample_degraded_run:
  "map_sum id multi_view_of (fst (multi_agent_run (sample_multi_agent n) (py ''i'') hostile_request sample_world)) =
     sample_outcome n"
proof -
  have "agents_answer sample_nodes hostile_request (\<lambda>x. x = Inl (OtherExc (py ''RuntimeError'')))
      (\<lambda>_ x. x = Inr sample_recommendation) (\<lambda>_ x. x = Inl OperationTimeoutExc) (\<lambda>x. x = Inr sample_assessment)"
    by (simp add: agents_answer_def sample_nodes_def gather_answers_def answers_def synthesis_answers_def
        raiseE_def returnE_def)
  then have "agents_answer (mw_nodes (sample_multi_agent n)) hostile_request (\<lambda>x. x = Inl (OtherExc (py ''RuntimeError'')))
      (\<lambda>_ x. x = Inr sample_recommendation) (\<lambda>_ x. x = Inl OperationTimeoutExc) (\<lambda>x. x = Inr sample_assessment)"
    by (simp add: sample_multi_agent_def)
  from multi_agent_run_matches[OF sample_libraries this, of "py ''i''" sample_world]
  show ?thesis by (auto simp: run_matches_def sample_multi_agent_def sample_nodes_def)
qed

theorem multi_agent_degradation_reported_witness:
  "\<exists>out s'. multi_agent_run (sample_multi_agent 2) (py ''i'') hostile_request sample_world = (Inr out, s') \<and>
     failed_agents (mx_agent_statuses (mwr_execution out)) \<le> 2 \<and> trace_well_formed (mx_trace (mwr_execution out))"
proof -
  have "\<exists>v. sample_outcome 2 = Inr v"
    by (simp add: multi_spec_def spec_reasons_def evidence_traceable_def Let_def)
  then obtain out s' where "multi_agent_run (sample_multi_agent 2) (py ''i'') hostile_request sample_world = (Inr out, s')"
    using sample_degraded_run[of 2]
    by (cases "multi_agent_run (sample_multi_agent 2) (py ''i'') hostile_request sample_world"; cases "fst (multi_agent_run (sample_multi_agent 2) (py ''i'') hostile_request sample_world)") auto
  then show ?thesis using multi_agent_degradation_reported[OF sample_libraries] unfolding Let_def by blast
qed

theorem multi_agent_errors_contained_witness:
  "\<exists>s'. multi_agent_run (sample_multi_agent 1) (py ''i'') hostile_request sample_world =
     (Inl (AppExc AssessmentGenerationError), s')"
proof -
  have "sample_outcome 1 = Inl (AppExc AssessmentGenerationError)"
    by (simp add: multi_spec_def spec_reasons_def evidence_traceable_def Let_def)
  then obtain e s' where run: "multi_agent_run (sample_multi_agent 1) (py ''i'') hostile_request sample_world = (Inl e, s')"
    using sample_degraded_run[of 1]
    by (cases "multi_agent_run (sample_multi_agent 1) (py ''i'') hostile_request sample_world"; cases "fst (multi_agent_run (sample_multi_agent 1) (py ''i'') hostile_request sample_world)") auto
  from multi_agent_errors_contained[OF sample_libraries run]
  have "e = AppExc AssessmentGenerationError"
    by (simp add: sample_multi_agent_def sample_nodes_def returnE_def)
  with run show ?thesis by blast
qed

end
