(* ===== verification/Assessment_Lifecycle.thy ===== *)
theory Assessment_Lifecycle
  imports Assessment_Service Review_Properties
begin

text \<open>
  What \<open>generate_assessment\<close> does to the store, stage by stage, and the properties of the whole:
  it keeps the invariant of the review lifecycle under every database failure, publishes a result
  only when the gate decided so, records failures, and translates every database error.
\<close>

section \<open>Guarded database blocks\<close>

lemma catchE_eq_Inr:
  "catchE m h s = (Inr x, s') \<longleftrightarrow>
     m s = (Inr x, s') \<or> (\<exists>e s1. m s = (Inl e, s1) \<and> h e s1 = (Inr x, s'))"
  by (auto simp: catchE_def split: prod.splits sum.splits)

lemma catchE_eq_Inl:
  "catchE m h s = (Inl e, s') \<longleftrightarrow> (\<exists>e0 s1. m s = (Inl e0, s1) \<and> h e0 s1 = (Inl e, s'))"
  by (auto simp: catchE_def split: prod.splits sum.splits)

lemma keeps_durable_handle [intro!, simp]: "keeps_durable (handle_database_error e)"
  unfolding handle_database_error_def by auto

lemma rollback_Inl: "rollback s = (Inl e, s') \<Longrightarrow> \<exists>q. e = SqlExc q"
  by (auto simp: rollback_def bindE_eq_Inl modifyE_def dest!: db_call_Inl)

lemma handle_database_error_Inl:
  assumes "handle_database_error e s = (r, s')"
  shows "\<exists>x. r = Inl x \<and> x \<in> {AppExc DatabaseUnavailableError, AppExc PersistenceError}"
proof -
  have quiet: "catchE rollback (\<lambda>r. if is_sql r then returnE () else raiseE r) t \<noteq> (Inl x, t')" for t x t'
    by (auto simp: catchE_eq_Inl raiseE_def returnE_def is_sql_def split: if_splits dest!: rollback_Inl)
  show ?thesis
  proof (cases r)
    case (Inr v)
    with assms show ?thesis by (auto simp: handle_database_error_def bindE_eq_Inr raiseE_def)
  next
    case (Inl x)
    with assms quiet show ?thesis
      unfolding handle_database_error_def by (auto simp: bindE_eq_Inl raiseE_def split: if_splits)
  qed
qed

lemma guarding_database_Inr: "guarding_database m s = (Inr x, s') \<longleftrightarrow> m s = (Inr x, s')"
proof -
  have "handle_database_error e s1 \<noteq> (Inr x, s')" for e s1
    using handle_database_error_Inl[of e s1 "Inr x" s'] by auto
  then show ?thesis
    unfolding guarding_database_def catchE_eq_Inr by (auto simp: raiseE_def split: if_splits)
qed

lemma guarding_database_Inl: "guarding_database m s = (Inl e, s') \<Longrightarrow> \<not> is_sql e"
  unfolding guarding_database_def catchE_eq_Inl
  by (auto simp: raiseE_def is_sql_def split: if_splits dest!: handle_database_error_Inl)

lemma atomic_guarding [intro]: "atomic m \<Longrightarrow> atomic (guarding_database m)"
  unfolding atomic_def guarding_database_def catchE_eq_Inl
  by (auto simp: raiseE_def split: if_splits dest: keeps_durableD[OF keeps_durable_handle])

lemma atomic_commit: "atomic commit"
  by (auto simp: atomic_def dest: commit_Inl)

lemma atomic_commit_return: "atomic (bindE commit (\<lambda>_. returnE x))"
  by (rule atomic_commit_then) (simp add: returnE_def)

lemma keeps_durable_repo_create [intro!, simp]: "keeps_durable (repo_create i c ind p payload subj)"
  unfolding repo_create_def by (auto simp: Let_def)

lemma atomic_stages:
  "atomic (register svc request subject i)" "atomic (start_processing i)"
  "atomic (persist_failure i code message)" "atomic (finalize svc a)"
proof -
  show "atomic (register svc request subject i)"
    unfolding register_def by (intro atomic_guarding atomic_bind atomic_commit) auto
  show "atomic (start_processing i)"
    unfolding start_processing_def by (intro atomic_guarding atomic_bind atomic_commit) auto
  show "atomic (persist_failure i code message)"
    unfolding persist_failure_def by (intro atomic_guarding atomic_bind atomic_commit) auto
  show "atomic (finalize svc a)"
    unfolding finalize_def
    by (intro atomic_guarding atomic_bind atomic_commit_return) (auto split: option.split)
qed

section \<open>Stages\<close>

lemma repo_create_Inr:
  assumes "repo_create i c ind p payload subj s = (Inr rec, s')"
  shows "map_of (t_assessments (live s)) i = None \<and>
         (\<exists>row. row_status row = Status_PENDING \<and> row_result_payload row = None \<and>
            assessment_row_ok row \<and> live s' = row_set (live s) i row)"
proof -
  from assms obtain now s1 row s2 where c: "read_clock s = (Inr now, s1)"
    and f: "flush_with (map_of (t_assessments (live s1)) i = None)
        (\<lambda>t. t\<lparr>t_assessments := AList.update i row (t_assessments t)\<rparr>) s1 = (Inr (), s2)"
    and row: "row_status row = Status_PENDING \<and> row_result_payload row = None \<and> assessment_row_ok row"
    and s': "s' = s2"
    unfolding repo_create_def Let_def
    by (auto simp: bindE_eq_Inr getE_def returnE_def assessment_row_ok_def)
  from flush_with_Inr[OF f] read_clock_frame[OF c] row show ?thesis
    unfolding s' row_set_def by auto
qed

lemma register_Inr:
  assumes "register svc request subject i s = (Inr u, s')"
  shows "map_of (t_assessments (live s)) i = None \<and> durable s' = live s' \<and>
         (\<exists>row. row_status row = Status_PENDING \<and> row_result_payload row = None \<and>
            assessment_row_ok row \<and> live s' = row_set (live s) i row)"
  using assms unfolding register_def guarding_database_Inr
  by (auto simp: bindE_eq_Inr dest!: repo_create_Inr commit_Inr)

lemma start_processing_Inr:
  assumes "start_processing i s = (Inr u, s')"
  shows "durable s' = live s' \<and>
         (\<exists>row now. map_of (t_assessments (live s)) i = Some row \<and>
            live s' = row_set (live s) i (row\<lparr>row_status := Status_PROCESSING, row_updated_at := now\<rparr>))"
proof -
  from assms obtain rec s1 where m: "mark_processing i s = (Inr (Some rec), s1)" and c: "commit s1 = (Inr (), s')"
    unfolding start_processing_def guarding_database_Inr by (auto simp: bindE_eq_Inr requireE_Inr)
  from processing.mark_some[OF m] commit_Inr[OF c] show ?thesis by (auto simp: row_set_def)
qed

lemma persist_failure_Inr:
  assumes "persist_failure i code message s = (Inr u, s')"
  shows "durable s' = live s' \<and>
         (\<exists>row now. map_of (t_assessments (live s)) i = Some row \<and>
            live s' = row_set (live s) i (failed_effect (code, message) now row))"
proof -
  from assms obtain rec s1 where m: "mark_failed i (fst (code, message)) (snd (code, message)) s = (Inr (Some rec), s1)"
    and c: "commit s1 = (Inr (), s')"
    unfolding persist_failure_def guarding_database_Inr by (auto simp: bindE_eq_Inr requireE_Inr)
  from failed.mark_some[OF m] commit_Inr[OF c] show ?thesis by (auto simp: row_set_def)
qed

lemma finalize_Inr:
  assumes "svc_governance svc = Some gv" and "finalize svc a s = (Inr rec, s')"
  shows "\<exists>s1. process_candidate gv a s = (Inr rec, s1) \<and> live s' = live s1 \<and> durable s' = live s1"
  using assms unfolding finalize_def guarding_database_Inr
  by (auto simp: bindE_eq_Inr requireE_Inr returnE_def dest!: commit_Inr)

lemma keeps_tables_generation [intro!, simp]: "keeps_tables (run_generation svc i request r)"
  unfolding run_generation_def run_agent_workflow_def run_deterministic_def Let_def
  by (auto split: ExecutionMode.split option.split prod.split)

text \<open>A row of an open case: nothing decided yet, no checkpoint, no events.\<close>

definition open_case :: "tables \<Rightarrow> uuid \<Rightarrow> bool" where
  "open_case T i \<longleftrightarrow>
     (\<exists>row. case_of T i = (Some row, None, []) \<and> assessment_row_ok row \<and> row_result_payload row = None \<and>
        row_status row \<in> {Status_PENDING, Status_PROCESSING})"

lemma open_case_ok: "open_case T i \<Longrightarrow> case_ok (case_of T i)"
  by (auto simp: open_case_def)

lemma new_row_open:
  assumes "store_ok T" and "map_of (t_assessments T) i = None"
    and "row_status row = Status_PENDING" "row_result_payload row = None" "assessment_row_ok row"
  shows "open_case (row_set T i row) i \<and> only i T (row_set T i row) \<and> case_of T i = (None, None, [])"
proof -
  have "case_ok (case_of T i)" using assms(1) by (simp add: store_ok_def)
  with assms(2) have "case_of T i = (None, None, [])"
    by (cases "map_of (t_runtime_states T) i") (auto simp: case_of_def)
  with assms(3-5) show ?thesis unfolding open_case_def by (simp add: case_of_row_set)
qed

lemma registered:
  assumes "store_ok (live s)" and "register svc request subject i s = (Inr u, s')"
  shows "open_case (live s') i \<and> only i (live s) (live s') \<and> durable s' = live s' \<and>
         case_of (live s) i = (None, None, [])"
proof -
  from register_Inr[OF assms(2)] obtain row where
    none: "map_of (t_assessments (live s)) i = None" and dur: "durable s' = live s'"
    and row: "row_status row = Status_PENDING" "row_result_payload row = None" "assessment_row_ok row"
    and live: "live s' = row_set (live s) i row" by blast
  from new_row_open[OF assms(1) none row] dur show ?thesis unfolding live by simp
qed

lemma processing_started:
  assumes "open_case (live s) i" and "start_processing i s = (Inr u, s')"
  shows "open_case (live s') i \<and> only i (live s) (live s') \<and> durable s' = live s'"
proof -
  from start_processing_Inr[OF assms(2)] assms(1) obtain row now where
    "case_of (live s) i = (Some row, None, [])" "row_result_payload row = None"
    and dur: "durable s' = live s'"
    and live: "live s' = row_set (live s) i (row\<lparr>row_status := Status_PROCESSING, row_updated_at := now\<rparr>)"
    by (auto simp: open_case_def case_of_def)
  then show ?thesis
    unfolding open_case_def live by (simp add: case_of_row_set assessment_row_ok_def)
qed

lemma failure_persisted:
  assumes "open_case (live s) i" and "persist_failure i code message s = (Inr u, s')"
  shows "\<exists>row. case_of (durable s') i = (Some row, None, []) \<and> row_status row = Status_FAILED \<and>
           row_error_code row = Some (take 100 code) \<and> row_error_message row = Some (take 500 message) \<and>
           case_ok (case_of (durable s') i) \<and> only i (live s) (durable s')"
proof -
  from persist_failure_Inr[OF assms(2)] assms(1) obtain row now where
    "case_of (live s) i = (Some row, None, [])" and dur: "durable s' = live s'"
    and live: "live s' = row_set (live s) i (failed_effect (code, message) now row)"
    by (auto simp: open_case_def case_of_def)
  then show ?thesis
    unfolding dur live by (simp add: case_of_row_set failed_effect_def assessment_row_ok_def)
qed

lemma open_case_decided:
  assumes "process_candidate gv a s = (Inr rec, s')" and "open_case (live s) (ca_assessment_id a)"
    and args: "ca_record_review_request a" "ca_revision_count a = 0"
  shows "\<exists>g now rt es. gate_evaluate (gv_policy gv) (observed_signals a) = Inr g \<and>
           (\<exists>row. case_of (live s') (ca_assessment_id a) = (Some (decided_row gv a g now row), Some rt, es) \<and>
              rec = to_record (ca_assessment_id a) (decided_row gv a g now row)) \<and>
           checkpoint_for gv a g rt \<and>
           case_ok (case_of (live s') (ca_assessment_id a)) \<and> only (ca_assessment_id a) (live s) (live s')"
proof -
  let ?i = "ca_assessment_id a"
  from process_candidate_case[OF assms(1)] assms(2) obtain g row now rt evs where
    c: "case_of (live s') ?i = (Some (decided_row gv a g now row), Some rt, evs)"
    and o: "only ?i (live s) (live s')" and ck: "checkpoint_for gv a g rt"
    and rec: "rec = to_record ?i (decided_row gv a g now row)"
    and ev: "if decided_status g = Review_PENDING \<and> ca_record_review_request a
            then \<exists>u n. evs = [event_row u ?i (review_request_event a g) n] else evs = []"
    unfolding open_case_def by auto
  note k = ck[unfolded checkpoint_for_def args(2)]
  have "row_matches (decided_row gv a g now row) rt"
    using k by (intro decided_row_matches) (simp_all add: args)
  moreover have "audit_path Review_NOT_REQUIRED evs = Some (rt_review_status rt) \<and> revisions_in evs = 0"
    using ev k args
    by (auto simp: review_request_event_def plain_event_def revisions_in_def decided_status_def split: if_splits)
  ultimately have "case_ok (case_of (live s') ?i)" unfolding c using k by simp
  with c o rec ck k show ?thesis by auto
qed

lemma finalized:
  assumes "svc_governance svc = Some gv" and "open_case (live s) i"
    and "finalize svc (candidate_for i result provenance evidence execution d ms) s = (Inr rec, s')"
  shows "\<exists>g row rt es.
           gate_evaluate (gv_policy gv) (derive_signals result evidence execution provenance) = Inr g \<and>
           case_of (durable s') i = (Some row, Some rt, es) \<and> rec = to_record i row \<and>
           rt_gate_result rt = g \<and> rt_review_status rt = decided_status g \<and>
           rt_candidate_result rt = Some (gv_dump_result gv result) \<and>
           rt_revision_count rt = 0 \<and> rt_max_revisions rt = pol_max_human_revisions (gv_policy gv) \<and>
           case_ok (case_of (durable s') i) \<and> only i (live s) (durable s')"
proof -
  let ?a = "candidate_for i result provenance evidence execution d ms"
  from finalize_Inr[OF assms(1,3)] obtain s1 where
    pc: "process_candidate gv ?a s = (Inr rec, s1)" and dur: "durable s' = live s1" by blast
  have args: "ca_assessment_id ?a = i" "ca_record_review_request ?a" "ca_revision_count ?a = 0" "ca_result ?a = result"
    "observed_signals ?a = derive_signals result evidence execution provenance"
    by (simp_all add: candidate_for_def observed_signals_def Let_def)
  have open_i: "open_case (live s) (ca_assessment_id ?a)" using assms(2) args(1) by simp
  from open_case_decided[OF pc open_i args(2,3)] obtain g now rt es row where
    g: "gate_evaluate (gv_policy gv) (derive_signals result evidence execution provenance) = Inr g"
    and c: "case_of (live s1) i = (Some (decided_row gv ?a g now row), Some rt, es)"
    and rec: "rec = to_record i (decided_row gv ?a g now row)" and ck: "checkpoint_for gv ?a g rt"
    and ok: "case_ok (case_of (live s1) i)" and o: "only i (live s) (live s1)"
    unfolding args by auto
  from c rec ok o g ck[unfolded checkpoint_for_def args] show ?thesis unfolding dur by auto
qed

section \<open>The whole operation\<close>

definition public_error :: "py_exc \<Rightarrow> app_error" where
  "public_error e = (case e of AppExc a \<Rightarrow> a | _ \<Rightarrow> AssessmentGenerationError)"

lemma generation_failed_cases:
  assumes "generation_failed i e s = (r, s')"
  shows "(\<exists>x. r = Inl x \<and> persist_failure i (error_code (public_error e)) (public_message (public_error e)) s = (Inl x, s')) \<or>
         (r = Inl (AppExc (public_error e)) \<and>
          (\<exists>u. persist_failure i (error_code (public_error e)) (public_message (public_error e)) s = (Inr u, s')))"
proof -
  let ?m = "persist_failure i (error_code (public_error e)) (public_message (public_error e))"
  obtain v s1 where m: "?m s = (v, s1)" by (cases "?m s")
  from assms m show ?thesis
    unfolding generation_failed_def Let_def public_error_def[symmetric]
    by (cases v) (auto simp: bindE_def raiseE_def)
qed

text \<open>How a run can end: registration or the start of processing fails, something later fails
  without committing, the failure is persisted, or the candidate is finalised.\<close>

inductive generation_end ::
  "AssessmentService \<Rightarrow> AssessmentRequest \<Rightarrow> pystr option \<Rightarrow> uuid \<Rightarrow> session \<Rightarrow>
     py_exc + AssessmentResponse \<Rightarrow> session \<Rightarrow> bool"
  for svc request subject i s where
  not_registered: "register svc request subject i s = (Inl e, s') \<Longrightarrow>
     generation_end svc request subject i s (Inl e) s'"
| not_started: "register svc request subject i s = (Inr u, s1) \<Longrightarrow> start_processing i s1 = (Inl e, s') \<Longrightarrow>
     generation_end svc request subject i s (Inl e) s'"
| uncommitted: "register svc request subject i s = (Inr u, s1) \<Longrightarrow> start_processing i s1 = (Inr v, s2) \<Longrightarrow>
     durable s' = durable s2 \<Longrightarrow> \<not> is_sql e \<Longrightarrow> generation_end svc request subject i s (Inl e) s'"
| failed_recorded: "register svc request subject i s = (Inr u, s1) \<Longrightarrow> start_processing i s1 = (Inr v, s2) \<Longrightarrow>
     live s4 = live s2 \<Longrightarrow> persist_failure i (error_code e) (public_message e) s4 = (Inr w, s') \<Longrightarrow>
     generation_end svc request subject i s (Inl (AppExc e)) s'"
| finished: "register svc request subject i s = (Inr u, s1) \<Longrightarrow> start_processing i s1 = (Inr v, s2) \<Longrightarrow>
     live s4 = live s2 \<Longrightarrow>
     finalize svc (candidate_for i result provenance evidence execution d ms) s4 = (Inr rec, s') \<Longrightarrow>
     generation_end svc request subject i s (to_response (svc_codec svc) rec) s'"

lemma generate_after_start:
  assumes "register svc request subject i s = (Inr u, s1)" and "start_processing i s1 = (Inr v, s2)"
    and run: "bindE (catchE (run_generation svc i request r) (generation_failed i))
       (\<lambda>(result, provenance, evidence, execution, retrieval_ms).
     bindE read_clock (\<lambda>now.
     bindE (finalize svc (candidate_for i result provenance evidence execution
              (elapsed_ms started now) retrieval_ms)) (\<lambda>rec.
     liftE (to_response (svc_codec svc) rec)))) s3 = (out, s')"
    and same: "live s3 = live s2" "durable s3 = durable s2"
  shows "generation_end svc request subject i s out s'"
proof -
  obtain g s4 where g: "run_generation svc i request r s3 = (g, s4)"
    by (cases "run_generation svc i request r s3")
  have t4: "live s4 = live s2" "durable s4 = durable s2"
    using keeps_tablesD[OF keeps_tables_generation g] same by simp_all
  show ?thesis
  proof (cases g)
    case (Inl e)
    obtain f :: "py_exc + (AssessmentResult \<times> bool \<times> RetrievedEvidence list \<times> ExecutionMetadata \<times> int option)"
      and s5 where f: "generation_failed i e s4 = (f, s5)" by fastforce
    from generation_failed_cases[OF f] run g Inl show ?thesis
    proof (elim disjE exE conjE)
      fix x
      assume x: "f = Inl x"
        and p: "persist_failure i (error_code (public_error e)) (public_message (public_error e)) s4 = (Inl x, s5)"
      have "out = Inl x" "s' = s5"
        using run g Inl f x by (auto simp: bindE_def catchE_def)
      moreover have "durable s5 = durable s2" using atomicD[OF atomic_stages(3) p] t4 by simp
      moreover have "\<not> is_sql x" using p unfolding persist_failure_def by (rule guarding_database_Inl)
      ultimately show ?thesis using uncommitted[OF assms(1,2)] by blast
    next
      fix w
      assume x: "f = Inl (AppExc (public_error e))"
        and p: "persist_failure i (error_code (public_error e)) (public_message (public_error e)) s4 = (Inr w, s5)"
      have "out = Inl (AppExc (public_error e))" "s' = s5"
        using run g Inl f x by (auto simp: bindE_def catchE_def)
      then show ?thesis using failed_recorded[OF assms(1,2) t4(1) p] by simp
    qed
  next
    case (Inr y)
    obtain result provenance evidence execution ms where y: "y = (result, provenance, evidence, execution, ms)"
      by (cases y) auto
    obtain now s5 where c: "read_clock s4 = (Inr now, s5)" by (simp add: read_clock_def)
    then have l5: "live s5 = live s2" "durable s5 = durable s2" using read_clock_frame[OF c] t4 by auto
    let ?f = "finalize svc (candidate_for i result provenance evidence execution (elapsed_ms started now) ms)"
    obtain z s6 where z: "?f s5 = (z, s6)" by (cases "?f s5")
    have out: "(case z of Inl e \<Rightarrow> out = Inl e | Inr rec \<Rightarrow> out = to_response (svc_codec svc) rec) \<and> s' = s6"
      using run g Inr y c z by (cases z) (auto simp: bindE_def catchE_def liftE_def)
    show ?thesis
    proof (cases z)
      case (Inl e)
      have "\<not> is_sql e" using z Inl unfolding finalize_def by (auto dest: guarding_database_Inl)
      with Inl out z atomicD[OF atomic_stages(4), of svc _ s5 e s6] l5 uncommitted[OF assms(1,2)]
      show ?thesis by auto
    next
      case (Inr rec)
      with out z finished[OF assms(1,2) l5(1)] show ?thesis by auto
    qed
  qed
qed

lemma generate_assessment_end:
  assumes "generate_assessment svc request actor s = (out, s')"
  shows "\<exists>i s0. live s0 = live s \<and> durable s0 = durable s \<and>
           generation_end svc request (map_option pr_subject actor) i s0 out s'"
proof -
  obtain i s0 where d: "draw_uuid s = (Inr i, s0)" by (simp add: draw_uuid_def)
  let ?sub = "map_option pr_subject actor"
  obtain a s1 where a: "register svc request ?sub i s0 = (a, s1)" by (cases "register svc request ?sub i s0")
  have "generation_end svc request ?sub i s0 out s'"
  proof (cases a)
    case (Inl e)
    with assms d a have "out = Inl e" "s' = s1" by (auto simp: generate_assessment_def bindE_def)
    with not_registered a Inl show ?thesis by simp
  next
    case reg: (Inr u)
    obtain b s2 where b: "start_processing i s1 = (b, s2)" by (cases "start_processing i s1")
    show ?thesis
    proof (cases b)
      case (Inl e)
      with assms d a reg b have "out = Inl e" "s' = s2" by (auto simp: generate_assessment_def bindE_def)
      with not_started a reg b Inl show ?thesis by simp
    next
      case st: (Inr v)
      obtain started s3 where c: "read_clock s2 = (Inr started, s3)" by (simp add: read_clock_def)
      then have t3: "live s3 = live s2" "durable s3 = durable s2" using read_clock_frame[OF c] by auto
      from resolved_route_Inr obtain r where
        r: "route_execution (svc_router svc) (svc_agentic_workflow svc \<noteq> None)
              (svc_multi_agent_workflow svc \<noteq> None) request = Inr r" by blast
      show ?thesis
        by (rule generate_after_start[OF a[unfolded reg] b[unfolded st] _ t3, where r = r and started = started])
           (use assms d a reg b st c r in \<open>simp add: generate_assessment_def bindE_step liftE_def\<close>)
    qed
  qed
  with draw_uuid_frame[OF d] show ?thesis by auto
qed

text \<open>The case of the new assessment when the run ends.\<close>

definition generation_outcome ::
  "governance \<Rightarrow> tables \<Rightarrow> uuid \<Rightarrow> py_exc + AssessmentResponse \<Rightarrow> tables \<Rightarrow> bool" where
  "generation_outcome gv T i out T' \<longleftrightarrow>
     only i T T' \<and> case_ok (case_of T' i) \<and>
     (case_of T' i = case_of T i \<or> case_of T i = (None, None, [])) \<and>
     ((\<exists>e. out = Inl e \<and> (case_of T' i = case_of T i \<or> open_case T' i)) \<or>
      (\<exists>e row. out = Inl (AppExc e) \<and> case_of T' i = (Some row, None, []) \<and>
         row_status row = Status_FAILED \<and> row_error_code row = Some (take 100 (error_code e)) \<and>
         row_error_message row = Some (take 500 (public_message e))) \<or>
      (\<exists>codec row rt es. case_of T' i = (Some row, Some rt, es) \<and>
         out = to_response codec (to_record i row) \<and>
         rt_review_status rt = decided_status (rt_gate_result rt) \<and>
         rt_max_revisions rt = pol_max_human_revisions (gv_policy gv)))"

lemma generation_end_outcome:
  assumes "generation_end svc request subject i s out s'" and "svc_governance svc = Some gv"
    and "store_ok (durable s)" and "live s = durable s"
  shows "generation_outcome gv (durable s) i out (durable s')"
  using assms(1)
proof cases
  case (not_registered e)
  with atomicD[OF atomic_stages(1)] assms(3) show ?thesis
    by (auto simp: generation_outcome_def store_ok_def)
next
  case (not_started u s1 e)
  from registered[OF _ not_started(2)] assms(3,4) have
    r: "open_case (durable s1) i" "only i (durable s) (durable s1)" "case_of (durable s) i = (None, None, [])" by auto
  from atomicD[OF atomic_stages(2) not_started(3)] r not_started(1) open_case_ok show ?thesis
    by (auto simp: generation_outcome_def)
next
  case (uncommitted u s1 v s2 e)
  from registered[OF _ uncommitted(2)] assms(3,4) have
    r: "open_case (live s1) i" "only i (durable s) (live s1)" "case_of (durable s) i = (None, None, [])" by auto
  from processing_started[OF r(1) uncommitted(3)] uncommitted(1,4) r(2,3) open_case_ok only_trans
  show ?thesis by (auto simp: generation_outcome_def)
next
  case (failed_recorded u s1 v s2 s4 e w)
  from registered[OF _ failed_recorded(2)] assms(3,4) have
    r: "open_case (live s1) i" "only i (durable s) (live s1)" "case_of (durable s) i = (None, None, [])" by auto
  from processing_started[OF r(1) failed_recorded(3)] have
    p: "open_case (live s4) i" "only i (live s1) (live s4)" unfolding failed_recorded(4) by auto
  from failure_persisted[OF p(1) failed_recorded(5)] obtain row where
    "case_of (durable s') i = (Some row, None, [])" "row_status row = Status_FAILED"
    "row_error_code row = Some (take 100 (error_code e))"
    "row_error_message row = Some (take 500 (public_message e))"
    "case_ok (case_of (durable s') i)" "only i (live s4) (durable s')" by blast
  then show ?thesis
    unfolding generation_outcome_def failed_recorded(1)
    using only_trans[OF r(2) only_trans[OF p(2)]] r(3) by blast
next
  case (finished u s1 v s2 s4 result provenance evidence execution d ms rec)
  from registered[OF _ finished(2)] assms(3,4) have
    r: "open_case (live s1) i" "only i (durable s) (live s1)" "case_of (durable s) i = (None, None, [])" by auto
  from processing_started[OF r(1) finished(3)] have
    p: "open_case (live s4) i" "only i (live s1) (live s4)" unfolding finished(4) by auto
  from finalized[OF assms(2) p(1) finished(5)] obtain row rt es where
    "case_of (durable s') i = (Some row, Some rt, es)" "rec = to_record i row"
    "rt_review_status rt = decided_status (rt_gate_result rt)"
    "rt_max_revisions rt = pol_max_human_revisions (gv_policy gv)"
    "case_ok (case_of (durable s') i)" "only i (live s4) (durable s')" by auto
  then show ?thesis
    unfolding generation_outcome_def finished(1)
    using only_trans[OF r(2) only_trans[OF p(2)]] r(3) by blast
qed

lemma generate_outcome:
  assumes "svc_governance svc = Some gv" and "store_ok (durable s)" and "live s = durable s"
    and "generate_assessment svc request actor s = (out, s')"
  shows "\<exists>i. generation_outcome gv (durable s) i out (durable s')"
proof -
  from generate_assessment_end[OF assms(4)] obtain i s0 where s0: "live s0 = live s" "durable s0 = durable s"
    and run: "generation_end svc request (map_option pr_subject actor) i s0 out s'" by blast
  have "store_ok (durable s0)" "live s0 = durable s0" using assms(2,3) s0 by simp_all
  from generation_end_outcome[OF run assms(1) this] show ?thesis unfolding s0(2) by blast
qed

lemma generate_keeps_store:
  assumes "svc_governance svc = Some gv" and "store_ok (durable s)" and "live s = durable s"
    and "generate_assessment svc request actor s = (out, s')"
  shows "store_ok (durable s')"
  using generate_outcome[OF assms] assms(2) unfolding generation_outcome_def
  by (auto intro: store_ok_only)

lemma to_response_result:
  assumes "to_response codec rec = Inr resp"
  shows "ar_status resp = pa_status rec \<and> ar_assessment_id resp = pa_assessment_id rec \<and>
         (ar_result resp \<noteq> None \<longleftrightarrow> pa_result_payload rec \<noteq> None)"
  using assms unfolding to_response_def validate_payloads_def
  by (auto simp: Let_def map_sum_def split: sum.splits option.splits if_splits)

lemma keep_references_facts:
  "set (keep_references allowed seen rs) \<subseteq> set rs"
  "reference_key ` set (keep_references allowed seen rs) = reference_key ` set rs \<inter> allowed - seen"
  "distinct (map reference_key (keep_references allowed seen rs))"
proof -
  show "set (keep_references allowed seen rs) \<subseteq> set rs"
    by (induction allowed seen rs rule: keep_references.induct) auto
  show keys: "reference_key ` set (keep_references allowed seen rs) = reference_key ` set rs \<inter> allowed - seen"
    for allowed seen rs
    by (induction allowed seen rs rule: keep_references.induct) auto
  show "distinct (map reference_key (keep_references allowed seen rs))"
    by (induction allowed seen rs rule: keep_references.induct) (auto simp: keys)
qed

lemma keep_references_id:
  "distinct (map reference_key rs) \<Longrightarrow> reference_key ` set rs \<subseteq> allowed - seen \<Longrightarrow>
     keep_references allowed seen rs = rs"
  by (induction allowed seen rs rule: keep_references.induct) auto

end
