(* ===== verification/Generation_Liveness.thy ===== *)
theory Generation_Liveness
  imports Assessment_Lifecycle
begin

text \<open>
  Total correctness of the generation path: when the database answers, the identifier is fresh,
  generation produces a well-formed candidate and the payload codec reads back what it wrote, the
  service answers with a response. This also gives the concrete runs that the properties of the
  previous theory are exercised on.
\<close>

section \<open>Telemetry of a candidate\<close>

definition governance_ok :: "governance \<Rightarrow> bool" where
  "governance_ok gv \<longleftrightarrow>
     0 \<le> pol_max_human_revisions (gv_policy gv) \<and> opt_len_ok (gv_request_id gv) 128 \<and>
     (case gv_metrics gv of None \<Rightarrow> True | Some m \<Rightarrow> metrics_ok m) \<and>
     (case gv_input_cost_per_million gv of None \<Rightarrow> True | Some c \<Rightarrow> 0 \<le> c) \<and>
     (case gv_output_cost_per_million gv of None \<Rightarrow> True | Some c \<Rightarrow> 0 \<le> c)"

lemma sum_list_nonneg_int: "(\<And>x. x \<in> set xs \<Longrightarrow> 0 \<le> x) \<Longrightarrow> 0 \<le> sum_list (xs :: int list)"
  by (induction xs) auto

lemma with_metrics_ok:
  assumes "telemetry_ok t" and "case m of None \<Rightarrow> True | Some m \<Rightarrow> metrics_ok m" and "opt_nonneg ms"
  shows "telemetry_ok (with_metrics m ms t)"
proof (cases m)
  case (Some x)
  with assms(2) have x: "metrics_ok x" by simp
  have s: "0 \<le> sum_list (met_tool_call_durations_ms x)"
    using x by (intro sum_list_nonneg_int) (auto simp: metrics_ok_def)
  have l: "met_model_call_durations_ms x \<noteq> [] \<Longrightarrow> 0 \<le> last (met_model_call_durations_ms x)"
    using x last_in_set by (auto simp: metrics_ok_def)
  show ?thesis
    using Some assms(1,3) x s l unfolding with_metrics_def Let_def
    by (auto simp: telemetry_ok_def opt_nonneg_def metrics_ok_def)
qed (use assms in \<open>simp add: with_metrics_def\<close>)

lemma token_usage_ok:
  assumes "case m of None \<Rightarrow> True | Some m \<Rightarrow> metrics_ok m"
  shows "case (case m of None \<Rightarrow> None | Some m \<Rightarrow> token_usage m) of None \<Rightarrow> True | Some u \<Rightarrow> usage_record_ok u"
  using assms by (cases m) (auto simp: token_usage_def usage_record_ok_iff metrics_ok_def)

lemma candidate_telemetry_run:
  assumes "governance_ok gv" and "execution_ok (ca_execution a)" and "0 \<le> ca_duration_ms a"
    and "opt_nonneg (ca_retrieval_duration_ms a)"
  shows "\<exists>t. candidate_telemetry gv a g s = (Inr t, s\<lparr>ticks := Suc (ticks s)\<rparr>) \<and> telemetry_ok t"
proof -
  let ?m = "gv_metrics gv"
  have m: "case ?m of None \<Rightarrow> True | Some m \<Rightarrow> metrics_ok m" using assms(1) by (simp add: governance_ok_def)
  define args where "args = \<lparr>ta_duration_ms = ca_duration_ms a, ta_gate_decision = gr_decision g,
               ta_token_usage = (case ?m of None \<Rightarrow> None | Some m \<Rightarrow> token_usage m),
               ta_evidence_count = int (length (ca_evidence a)),
               ta_model_call_count =
                 (case ?m of None \<Rightarrow> None
                  | Some m \<Rightarrow> Some (int (length (met_model_call_durations_ms m)))),
               ta_input_cost_per_million = gv_input_cost_per_million gv,
               ta_output_cost_per_million = gv_output_cost_per_million gv,
               ta_request_id = gv_request_id gv, ta_now = clock s (ticks s)\<rparr>"
  have "telemetry_args_ok args"
    using assms(1,3) token_usage_ok[OF m]
    by (auto simp: args_def telemetry_args_ok_def governance_ok_def opt_nonneg_def split: option.split)
  then have t: "telemetry_ok (telemetry_of (ca_execution a) args)" by (rule telemetry_of_ok[OF assms(2)])
  then have "candidate_telemetry gv a g s =
      (Inr (with_metrics ?m (ca_retrieval_duration_ms a) (telemetry_of (ca_execution a) args)),
       s\<lparr>ticks := Suc (ticks s)\<rparr>)"
    unfolding candidate_telemetry_def args_def
    by (simp add: bindE_def read_clock_def liftE_def returnE_def build_operational_telemetry_def Let_def)
  with with_metrics_ok[OF t m assms(4)] show ?thesis by blast
qed

section \<open>Database stages that succeed\<close>

lemma quiet_repo_update:
  assumes "faults s = []" and "map_of (t_assessments (live s)) i = Some row"
    and "\<And>now. assessment_row_ok (change now row)"
  shows "\<exists>now s'. repo_update i change s = (Inr (Some (to_record i (change now row))), s') \<and> faults s' = [] \<and>
           live s' = row_set (live s) i (change now row)"
  using assms
  by (intro exI[of _ "clock s (ticks s)"])
     (simp add: repo_update_def bindE_def getE_def returnE_def read_clock_def Let_def flush_with_def
        db_call_def modifyE_def row_set_def)

lemma quiet_register:
  assumes "faults s = []" and "map_of (t_assessments (live s)) i = None"
  shows "\<exists>u s'. register svc request subject i s = (Inr u, s') \<and> faults s' = [] \<and>
           (\<exists>row. map_of (t_assessments (live s')) i = Some row \<and> assessment_row_ok row \<and>
              row_request_payload row = pc_dump_request (svc_codec svc) request)"
  using assms unfolding register_def
  by (simp add: guarding_database_def catchE_def repo_create_def bindE_def getE_def returnE_def
      read_clock_def Let_def flush_with_def db_call_def modifyE_def commit_def update_conv'
      assessment_row_ok_def)

lemma quiet_start:
  assumes "faults s = []" and "map_of (t_assessments (live s)) i = Some row"
    and "assessment_row_ok row"
  shows "\<exists>u s'. start_processing i s = (Inr u, s') \<and> faults s' = [] \<and>
           (\<exists>row'. map_of (t_assessments (live s')) i = Some row' \<and>
              row_request_payload row' = row_request_payload row)"
  using assms unfolding start_processing_def mark_processing_def
  by (simp add: guarding_database_def catchE_def repo_update_def bindE_def getE_def returnE_def
      read_clock_def Let_def flush_with_def db_call_def modifyE_def commit_def update_conv'
      assessment_row_ok_def requireE_def)

lemma apply_decision_run:
  assumes "faults s = []" and "map_of (t_assessments (live s)) (ca_assessment_id a) = Some row"
    and "telemetry_ok t"
  shows "\<exists>now t' s'. apply_decision gv a g t s =
           (Inr (decided_status g, Some (to_record (ca_assessment_id a) (decided_row gv a g now row)), t'), s') \<and>
           faults s' = [] \<and> telemetry_ok t'"
proof -
  let ?i = "ca_assessment_id a"
  have id: "opt_len_ok (ot_request_id t) 128" using assms(3) by (simp add: telemetry_ok_def)
  have ev: "telemetry_ok (t\<lparr>ot_events := ot_events t @ [e]\<rparr>)" if "trace_event_ok e" for e
    using that assms(3) by (auto simp: telemetry_ok_def)
  have appended: "\<exists>t' s''. append_event t ty st c s' = (Inr t', s'') \<and> faults s'' = faults s' \<and> telemetry_ok t'"
    if "len_between 1 50 st" "len_between 1 100 c" for ty st c s'
    using append_event_run[OF id that, of ty s'] ev by auto
  note upd = quiet_repo_update[OF assms(1,2)]
  consider (review) "gr_decision g = REQUIRE_HUMAN_REVIEW" | (block) "gr_decision g = BLOCK_AND_ESCALATE"
    | (publish) "gr_decision g \<noteq> REQUIRE_HUMAN_REVIEW" "gr_decision g \<noteq> BLOCK_AND_ESCALATE" by blast
  then show ?thesis
  proof cases
    case review
    from upd[of "pending_effect (Some (gv_dump_execution gv (ca_execution a)))"] obtain now s1 where
      m: "mark_pending_review ?i (Some (gv_dump_execution gv (ca_execution a))) s =
        (Inr (Some (to_record ?i (decided_row gv a g now row))), s1)" "faults s1 = []"
      unfolding marks_as_updates using review by (auto simp: decided_row_def)
    from appended[of "review_status_value Review_PENDING" "py ''human_review''" RT_HUMAN_REVIEW_REQUESTED s1]
    obtain t' s2 where "append_event t RT_HUMAN_REVIEW_REQUESTED (review_status_value Review_PENDING)
        (py ''human_review'') s1 = (Inr t', s2)" "faults s2 = []" "telemetry_ok t'" using m(2) by auto
    with m review show ?thesis
      by (auto simp: apply_decision_def Let_def bindE_def returnE_def decided_status_def)
  next
    case block
    let ?f = "(py ''runtime_risk_gate_blocked'',
             py ''The assessment was blocked by the runtime risk and quality gate.'')"
    from upd[of "failed_effect ?f"] obtain now s1 where
      m: "mark_failed ?i (fst ?f) (snd ?f) s =
        (Inr (Some (to_record ?i (decided_row gv a g now row))), s1)" "faults s1 = []"
      unfolding marks_as_updates using block by (auto simp: decided_row_def)
    from appended[of "py ''blocked''" "py ''assessment''" RT_ASSESSMENT_FAILED s1]
    obtain t' s2 where "append_event t RT_ASSESSMENT_FAILED (py ''blocked'') (py ''assessment'') s1 = (Inr t', s2)"
      "faults s2 = []" "telemetry_ok t'" using m(2) by auto
    with m block show ?thesis
      by (auto simp: apply_decision_def Let_def bindE_def returnE_def decided_status_def)
  next
    case publish
    let ?c = "(gv_dump_result gv (ca_result a), Some (gv_dump_execution gv (ca_execution a)))"
    from upd[of "completed_effect ?c"] obtain now s1 where
      m: "mark_completed ?i (fst ?c) (snd ?c) s =
        (Inr (Some (to_record ?i (decided_row gv a g now row))), s1)" "faults s1 = []"
      unfolding marks_as_updates using publish by (auto simp: decided_row_def)
    from appended[of "decision_value (gr_decision g)" "py ''assessment''" RT_ASSESSMENT_COMPLETED s1]
    obtain t' s2 where "append_event t RT_ASSESSMENT_COMPLETED (decision_value (gr_decision g))
        (py ''assessment'') s1 = (Inr t', s2)" "faults s2 = []" "telemetry_ok t'" using m(2) by auto
    with m publish show ?thesis
      by (auto simp: apply_decision_def Let_def bindE_def returnE_def decided_status_def)
  qed
qed

lemma quiet_process_candidate:
  assumes "faults s = []" and "map_of (t_assessments (live s)) (ca_assessment_id a) = Some row"
    and "governance_ok gv" and "execution_ok (ca_execution a)" and "0 \<le> ca_duration_ms a"
    and "opt_nonneg (ca_retrieval_duration_ms a)" and "ca_revision_count a = 0"
  shows "\<exists>g now s'. gate_evaluate (gv_policy gv) (observed_signals a) = Inr g \<and>
           process_candidate gv a s =
             (Inr (to_record (ca_assessment_id a) (decided_row gv a g now row)), s') \<and> faults s' = []"
proof -
  let ?i = "ca_assessment_id a"
  obtain g where g: "gate_evaluate (gv_policy gv) (observed_signals a) = Inr g" and gok: "gate_result_ok g"
    by (auto simp: gate_evaluate_eq gate_result_ok_def)
  from candidate_telemetry_run[OF assms(3-6), of g s] obtain t0 where
    t0: "candidate_telemetry gv a g s = (Inr t0, s\<lparr>ticks := Suc (ticks s)\<rparr>)" "telemetry_ok t0" by blast
  from apply_decision_run[of "s\<lparr>ticks := Suc (ticks s)\<rparr>" a row t0 gv g] assms(1,2) t0(2) obtain now t s2 where
    ap: "apply_decision gv a g t0 (s\<lparr>ticks := Suc (ticks s)\<rparr>) =
      (Inr (decided_status g, Some (to_record ?i (decided_row gv a g now row)), t), s2)"
    and q2: "faults s2 = []" and t: "telemetry_ok t" by auto
  from quiet_save_state[OF q2, of "checkpoint gv a g (decided_status g) t" ?i] gok t assms(3,7) obtain st s3 where
    sv: "save_state ?i (checkpoint gv a g (decided_status g) t) s2 = (Inr st, s3)" and q3: "faults s3 = []"
    by (auto simp: checkpoint_def governance_ok_def)
  from quiet_add_review_event[OF q3, of "review_request_event a g" ?i] assms(7) obtain ev s4 where
    lg: "add_review_event ?i (review_request_event a g) s3 = (Inr ev, s4)" and q4: "faults s4 = []"
    by (auto simp: review_request_event_def plain_event_def)
  show ?thesis
    unfolding process_candidate_def review_request_event_def[symmetric] using g t0(1) ap sv lg q3 q4
    by (auto simp: bindE_def liftE_def requireE_def returnE_def)
qed

lemma decided_row_request [simp]:
  "row_request_payload (decided_row gv a g now row) = row_request_payload row"
  by (simp add: decided_row_def pending_effect_def failed_effect_def completed_effect_def)

lemma quiet_finalize:
  assumes "svc_governance svc = Some gv" and "faults s = []"
    and "map_of (t_assessments (live s)) i = Some row" and "governance_ok gv"
    and "execution_ok execution" and "0 \<le> d" and "opt_nonneg ms"
    and a_def: "a = candidate_for i result provenance evidence execution d ms"
  shows "\<exists>g now s'. gate_evaluate (gv_policy gv) (derive_signals result evidence execution provenance) = Inr g \<and>
           finalize svc a s = (Inr (to_record i (decided_row gv a g now row)), s')"
proof -
  have a: "ca_assessment_id a = i" "ca_execution a = execution" "ca_duration_ms a = d"
    "ca_retrieval_duration_ms a = ms" "ca_revision_count a = 0"
    "observed_signals a = derive_signals result evidence execution provenance"
    by (simp_all add: a_def candidate_for_def observed_signals_def Let_def)
  from quiet_process_candidate[of s a row gv] assms(2-7) a obtain g now s1 where
    "gate_evaluate (gv_policy gv) (derive_signals result evidence execution provenance) = Inr g"
    and pc: "process_candidate gv a s = (Inr (to_record i (decided_row gv a g now row)), s1)"
    and q: "faults s1 = []" by auto
  moreover have "finalize svc a s = (Inr (to_record i (decided_row gv a g now row)), s1\<lparr>durable := live s1\<rparr>)"
    using assms(1) pc quiet_calls(4)[OF q]
    by (simp add: finalize_def guarding_database_def catchE_def bindE_def returnE_def requireE_def)
  ultimately show ?thesis by blast
qed

text \<open>The codec reads back what it wrote for these values.\<close>

definition codec_round_trip ::
  "payload_codec \<Rightarrow> governance \<Rightarrow> AssessmentRequest \<Rightarrow> AssessmentResult \<Rightarrow> ExecutionMetadata \<Rightarrow> bool" where
  "codec_round_trip c gv request result execution \<longleftrightarrow>
     pc_validate_request c (pc_dump_request c request) = Inr request \<and>
     pc_validate_result c (gv_dump_result gv result) = Inr result \<and>
     parse_execution_metadata c (Some (gv_dump_execution gv execution)) = Inr (Some execution)"

lemma to_response_decided:
  assumes "codec_round_trip c gv request (ca_result a) (ca_execution a)"
    and "row_request_payload row = pc_dump_request c request"
  shows "\<exists>resp. to_response c (to_record i (decided_row gv a g now row)) = Inr resp \<and>
           ar_assessment_id resp = i \<and> ar_input resp = request \<and>
           ar_result resp = (if gr_decision g \<in> {AUTO_COMPLETE, COMPLETE_WITH_WARNING}
                             then Some (ca_result a) else None) \<and>
           ar_status resp = (if gr_decision g = REQUIRE_HUMAN_REVIEW then Status_PENDING_REVIEW
                             else if gr_decision g = BLOCK_AND_ESCALATE then Status_FAILED
                             else Status_COMPLETED)"
proof -
  have none: "parse_execution_metadata c None = Inr None" by (simp add: parse_execution_metadata_def)
  show ?thesis
    using assms none
    by (cases "gr_decision g")
       (simp_all add: codec_round_trip_def to_response_def validate_payloads_def to_record_def decided_row_def
          pending_effect_def failed_effect_def completed_effect_def lifecycle_payloads_ok_def Let_def)
qed

lemma elapsed_nonneg [simp]: "0 \<le> elapsed_ms a b"
  by (simp add: elapsed_ms_def)

lemma quiet_generate:
  assumes "svc_governance svc = Some gv" and "governance_ok gv" and "codec_round_trip (svc_codec svc) gv request result execution"
    and "faults s = []" and "map_of (t_assessments (live s)) (uuids s (drawn s)) = None"
    and gen: "\<And>i r t. route_execution (svc_router svc) (svc_agentic_workflow svc \<noteq> None)
        (svc_multi_agent_workflow svc \<noteq> None) request = Inr r \<Longrightarrow> \<exists>t'. run_generation svc i request r t =
        (Inr (result, provenance, evidence, execution, ms), t') \<and> faults t' = faults t"
    and "execution_ok execution" and "opt_nonneg ms"
  shows "\<exists>g resp s'. gate_evaluate (gv_policy gv) (derive_signals result evidence execution provenance) = Inr g \<and>
           generate_assessment svc request actor s = (Inr resp, s') \<and> ar_input resp = request \<and>
           ar_result resp = (if gr_decision g \<in> {AUTO_COMPLETE, COMPLETE_WITH_WARNING}
                             then Some result else None)"
proof -
  let ?i = "uuids s (drawn s)" and ?s0 = "s\<lparr>drawn := Suc (drawn s)\<rparr>"
  have d: "draw_uuid s = (Inr ?i, ?s0)" by (simp add: draw_uuid_def)
  from quiet_register[of ?s0 ?i svc request "map_option pr_subject actor"] assms(4,5) obtain u s1 row1 where
    reg: "register svc request (map_option pr_subject actor) ?i ?s0 = (Inr u, s1)" and q1: "faults s1 = []"
    and row1: "map_of (t_assessments (live s1)) ?i = Some row1" "assessment_row_ok row1"
      "row_request_payload row1 = pc_dump_request (svc_codec svc) request" by auto
  from quiet_start[OF q1 row1(1,2)] row1(3) obtain v s2 row2 where
    st: "start_processing ?i s1 = (Inr v, s2)" and q2: "faults s2 = []"
    and row2: "map_of (t_assessments (live s2)) ?i = Some row2"
      "row_request_payload row2 = pc_dump_request (svc_codec svc) request" by auto
  obtain started s3 where c3: "read_clock s2 = (Inr started, s3)" "faults s3 = []" "live s3 = live s2"
    using q2 by (simp add: read_clock_def)
  obtain r where r: "route_execution (svc_router svc) (svc_agentic_workflow svc \<noteq> None)
      (svc_multi_agent_workflow svc \<noteq> None) request = Inr r" using resolved_route_Inr by blast
  obtain s4 where g4: "run_generation svc ?i request r s3 =
      (Inr (result, provenance, evidence, execution, ms), s4)" "faults s4 = []"
    using gen[OF r, of ?i s3] c3(2) by auto
  have l4: "live s4 = live s2" using keeps_tablesD[OF keeps_tables_generation g4(1)] c3(3) by simp
  obtain now s5 where c5: "read_clock s4 = (Inr now, s5)" "faults s5 = []" "live s5 = live s2"
    using g4(2) l4 by (simp add: read_clock_def)
  let ?a = "candidate_for ?i result provenance evidence execution (elapsed_ms started now) ms"
  from quiet_finalize[OF assms(1) c5(2) _ assms(2,7) elapsed_nonneg[of started now] assms(8) refl, where i = ?i and row = row2
      and result = result and provenance = provenance and evidence = evidence]
    row2(1) c5(3) obtain g t s6 where
    g: "gate_evaluate (gv_policy gv) (derive_signals result evidence execution provenance) = Inr g"
    and f: "finalize svc ?a s5 = (Inr (to_record ?i (decided_row gv ?a g t row2)), s6)" by auto
  have "codec_round_trip (svc_codec svc) gv request (ca_result ?a) (ca_execution ?a)"
    using assms(3) by (simp add: candidate_for_def)
  from to_response_decided[OF this row2(2), of ?i g t] obtain resp where
    resp: "to_response (svc_codec svc) (to_record ?i (decided_row gv ?a g t row2)) = Inr resp"
    "ar_input resp = request"
    "ar_result resp = (if gr_decision g \<in> {AUTO_COMPLETE, COMPLETE_WITH_WARNING} then Some result else None)"
    by (auto simp: candidate_for_def)
  have "generate_assessment svc request actor s = (Inr resp, s6)"
    using d reg st c3 r g4 c5 f resp(1)
    by (simp add: generate_assessment_def bindE_step catchE_def liftE_def)
  with g resp show ?thesis by blast
qed

section \<open>Concrete runs\<close>

definition sample_request :: AssessmentRequest where
  "sample_request =
     \<lparr>req_company_name = py ''a'', req_organization_description = None, req_industry = py ''b'',
      req_business_problem = py ''c'', req_current_process = None, req_pain_points = [],
      req_desired_outcome = py ''d'', req_constraints = [], req_additional_context = None\<rparr>"

definition sample_codec :: payload_codec where
  "sample_codec =
     \<lparr>pc_dump_request = (\<lambda>_. []), pc_dump_result = (\<lambda>_. [(py ''x'', JNull)]),
      pc_dump_execution = (\<lambda>_. []), pc_validate_request = (\<lambda>_. Inr sample_request),
      pc_validate_result = (\<lambda>_. Inr (apply_grounding_metadata (ca_result sample_candidate) [])),
      pc_validate_execution = (\<lambda>_ _. Inr deterministic_execution),
      pc_context_json = (\<lambda>_. [])\<rparr>"

definition sample_service :: AssessmentService where
  "sample_service =
     \<lparr>svc_generate = (\<lambda>_. Inr (ca_result sample_candidate)), svc_rag = None, svc_agentic_workflow = None,
      svc_multi_agent_workflow = None, svc_governance = Some sample_governance,
      svc_router = None, svc_codec = sample_codec, svc_request_id = None\<rparr>"

lemma sample_governance_ok: "governance_ok sample_governance"
  by (simp add: governance_ok_def sample_governance_def default_policy_def opt_len_ok_def)

lemma sample_generation:
  "rr_execution_mode r = Mode_DETERMINISTIC \<Longrightarrow>
   run_generation sample_service i sample_request r t =
     (Inr (apply_grounding_metadata (ca_result sample_candidate) [], True, [], deterministic_execution, None), t)"
  by (simp add: run_generation_def run_deterministic_def sample_service_def bindE_def liftE_def returnE_def
      with_routing_def Let_def provenance_is_valid_def sample_candidate_def)

lemma sample_codec_round_trip:
  "codec_round_trip sample_codec sample_governance sample_request
     (apply_grounding_metadata (ca_result sample_candidate) []) deterministic_execution"
  by (simp add: codec_round_trip_def sample_codec_def sample_governance_def parse_execution_metadata_def)

lemma sample_route: "route_execution (svc_router sample_service) (svc_agentic_workflow sample_service \<noteq> None)
    (svc_multi_agent_workflow sample_service \<noteq> None) sample_request = Inr r \<Longrightarrow>
   rr_execution_mode r = Mode_DETERMINISTIC"
  by (auto simp: sample_service_def route_execution_def Let_def)

lemma sample_execution_ok: "execution_ok deterministic_execution"
  by (simp add: execution_ok_def deterministic_execution_def opt_len_ok_def)

lemma sample_session_fresh:
  "map_of (t_assessments (live (sample_session []))) (uuids (sample_session []) (drawn (sample_session []))) = None"
  by (simp add: sample_session_def sample_store_def)

lemma sample_gate:
  "\<exists>g. gate_evaluate default_policy (derive_signals (apply_grounding_metadata (ca_result sample_candidate) []) []
     deterministic_execution True) = Inr g \<and> gr_decision g = AUTO_COMPLETE"
  by (simp add: gate_evaluate_def derive_signals_def apply_grounding_metadata_def sample_candidate_def
      deterministic_execution_def max_level_def risk_decision_def review_conditions_def default_policy_def
      mk_gate_result_def gate_result_ok_def Let_def)

lemma sample_run_on:
  assumes "faults s = []" and "map_of (t_assessments (live s)) (uuids s (drawn s)) = None"
  shows "\<exists>resp s'. generate_assessment sample_service sample_request None s = (Inr resp, s') \<and>
     ar_result resp \<noteq> None"
proof -
  have "\<exists>g resp s'. gate_evaluate (gv_policy sample_governance)
      (derive_signals (apply_grounding_metadata (ca_result sample_candidate) []) [] deterministic_execution True) = Inr g \<and>
     generate_assessment sample_service sample_request None s = (Inr resp, s') \<and>
     ar_input resp = sample_request \<and>
     ar_result resp = (if gr_decision g \<in> {AUTO_COMPLETE, COMPLETE_WITH_WARNING}
        then Some (apply_grounding_metadata (ca_result sample_candidate) []) else None)"
    by (rule quiet_generate[where ms = None])
       (use assms sample_governance_ok sample_codec_round_trip sample_execution_ok
          sample_generation sample_route in
        \<open>auto simp: opt_nonneg_def sample_service_def\<close>)
  with sample_gate show ?thesis by (auto simp: sample_governance_def)
qed

lemma sample_run:
  "\<exists>resp s'. generate_assessment sample_service sample_request None (sample_session []) = (Inr resp, s') \<and>
     ar_result resp \<noteq> None"
  using sample_session_fresh by (intro sample_run_on) (simp_all add: sample_session_def)

text \<open>Pydantic's \<open>model_validate\<close> raises \<open>ValidationError\<close> only.\<close>

definition codec_errors_documented :: "payload_codec \<Rightarrow> bool" where
  "codec_errors_documented c \<longleftrightarrow>
     (\<forall>p x. pc_validate_request c p = Inl x \<longrightarrow> x = ValidationExc) \<and>
     (\<forall>p x. pc_validate_result c p = Inl x \<longrightarrow> x = ValidationExc) \<and>
     (\<forall>sch p x. pc_validate_execution c sch p = Inl x \<longrightarrow> x = ValidationExc)"

lemma returned_result_row:
  assumes "svc_governance svc = Some gv" and "store_ok (durable s)" and "live s = durable s"
    and "generate_assessment svc request actor s = (Inr resp, s')" and "ar_result resp \<noteq> None"
  shows "ar_status resp = Status_COMPLETED \<and>
         (\<exists>row rt es. case_of (durable s') (ar_assessment_id resp) = (Some row, Some rt, es) \<and>
            row_status row = Status_COMPLETED \<and>
            gr_decision (rt_gate_result rt) \<in> {AUTO_COMPLETE, COMPLETE_WITH_WARNING})"
proof -
  from generate_outcome[OF assms(1-4)] obtain i codec row rt es where
    c: "case_of (durable s') i = (Some row, Some rt, es)"
    and r: "Inr resp = to_response codec (to_record i row)"
    and d: "rt_review_status rt = decided_status (rt_gate_result rt)"
    and ok: "case_ok (case_of (durable s') i)"
    unfolding generation_outcome_def by auto
  note f = to_response_result[OF r[symmetric]]
  from f assms(5) have payload: "row_result_payload row \<noteq> None" by (auto simp: to_record_def)
  from ok c have m: "row_matches row rt" by simp
  with payload d have "row_status row = Status_COMPLETED \<and>
      gr_decision (rt_gate_result rt) \<in> {AUTO_COMPLETE, COMPLETE_WITH_WARNING}"
    by (cases "gr_decision (rt_gate_result rt)") (auto simp: row_matches_def decided_status_def)
  with c f show ?thesis by (auto simp: to_record_def)
qed

section \<open>Properties\<close>



text \<open>no database exception reaches the caller of a generation: every SQLAlchemy error is rolled
  back and translated into the public database-unavailable or persistence error.\<close>

theorem generation_translates_database_errors:
  assumes "generate_assessment svc request actor s = (Inl e, s')"
    and "codec_errors_documented (svc_codec svc)"
  shows "e \<noteq> SqlExc q"
proof -
  have resp: "to_response (svc_codec svc) rec = Inl x \<Longrightarrow> \<not> is_sql x" for rec x
    using assms(2) unfolding codec_errors_documented_def to_response_def validate_payloads_def
      parse_execution_metadata_def
    by (auto simp: Let_def map_sum_def is_sql_def split: sum.splits option.splits if_splits)
  from generate_assessment_end[OF assms(1)] obtain i s0 where
    "generation_end svc request (map_option pr_subject actor) i s0 (Inl e) s'" by blast
  then have "\<not> is_sql e"
    by cases (auto simp: register_def start_processing_def is_sql_def dest: guarding_database_Inl resp[OF sym])
  then show ?thesis by (auto simp: is_sql_def)
qed

text \<open>C15: after grounding, the cited sources are exactly the citations the model made that are in
  the retrieved evidence, each once, and the evidence status says whether anything was retrieved.\<close>

theorem grounding_keeps_supported_citations:
  "let r = apply_grounding_metadata result evidence
   in set (res_source_references r) \<subseteq> set (res_source_references result) \<and>
      reference_key ` set (res_source_references r) =
        reference_key ` set (res_source_references result) \<inter> evidence_keys evidence \<and>
      distinct (map reference_key (res_source_references r)) \<and>
      (res_external_evidence_status r = Evidence_RETRIEVED \<longleftrightarrow> evidence \<noteq> []) \<and>
      provenance_is_valid r evidence"
proof -
  let ?k = "keep_references (evidence_keys evidence) {} (res_source_references result)"
  note k = keep_references_facts[of "evidence_keys evidence" "{}" "res_source_references result"]
  have "reference_key r \<in> evidence_keys evidence" if "r \<in> set ?k" for r
    using k(2) that by (metis Diff_empty IntD2 image_eqI)
  with k show ?thesis
    by (simp add: Let_def apply_grounding_metadata_def provenance_is_valid_def list_all_iff)
qed





theorem generation_translates_database_errors_witness:
  "\<exists>e s'. generate_assessment sample_service sample_request None (sample_session [Some OperationalError]) = (Inl e, s') \<and>
     e \<noteq> SqlExc OperationalError"
proof -
  have "\<exists>e s'. generate_assessment sample_service sample_request None (sample_session [Some OperationalError]) = (Inl e, s')"
    by (simp add: generate_assessment_def register_def repo_create_def guarding_database_def catchE_def
        bindE_def draw_uuid_def read_clock_def getE_def Let_def flush_with_def db_call_def sample_session_def
        handle_database_error_def rollback_def modifyE_def raiseE_def is_sql_def)
  then obtain e s' where run: "generate_assessment sample_service sample_request None
      (sample_session [Some OperationalError]) = (Inl e, s')" by blast
  have codec: "codec_errors_documented (svc_codec sample_service)"
    by (simp add: codec_errors_documented_def sample_service_def sample_codec_def)
  from generation_translates_database_errors[OF run codec] run show ?thesis by blast
qed

end
