(* ===== verification/Service_Wiring.thy ===== *)
theory Service_Wiring
  imports Policy_Connector Product_Read Providers Hybrid_Retrieval Multi_Agent Generation_Liveness
begin

text \<open>
  The composition of the services from the settings (\<^verbatim>\<open>app/api/dependencies.py\<close>): one function per factory, with
  the libraries of the components as arguments. The theorem says which execution mode a service
  built from given settings uses.
\<close>

section \<open>Knowledge\<close>

definition get_knowledge_ingestion_service ::
  "Settings \<Rightarrow> (pystr list \<Rightarrow> py_exc + rat list list) \<Rightarrow> (pystr \<Rightarrow> pystr) \<Rightarrow> KnowledgeIngestionService" where
  "get_knowledge_ingestion_service s embed_texts sha256_hex =
     \<lparr>is_embed_texts = embed_texts, is_sha256_hex = sha256_hex,
      is_chunk_size = cfg_rag_chunk_size (cfg_knowledge s), is_chunk_overlap = cfg_rag_chunk_overlap (cfg_knowledge s)\<rparr>"

definition get_file_parser_router ::
  "Settings \<Rightarrow> stripper \<Rightarrow> pdf_library \<Rightarrow> docx_library \<Rightarrow> (bytes \<Rightarrow> pystr list option) \<Rightarrow> fold_table \<Rightarrow> DocumentParserRouter" where
  "get_file_parser_router s strip pdf docx zip_names table =
     \<lparr>pr_parsers = file_parsers strip pdf docx (cfg_pdf_min_extracted_characters (cfg_knowledge s)),
      pr_zip_names = zip_names, pr_fold = table\<rparr>"

definition get_retrieval_service ::
  "Settings \<Rightarrow> vector_database \<Rightarrow> (pystr list \<Rightarrow> py_exc + rat list list) \<Rightarrow> RetrievalService" where
  "get_retrieval_service s database embed_texts =
     \<lparr>rs_database = database, rs_embed_texts = embed_texts,
      rs_top_k = cfg_rag_retrieval_top_k (cfg_knowledge s),
      rs_similarity_threshold = cfg_rag_similarity_threshold (cfg_knowledge s)\<rparr>"

definition get_graph_retrieval_service :: "Settings \<Rightarrow> graph_text \<Rightarrow> GraphRetrievalService option" where
  "get_graph_retrieval_service s g =
     (if \<not> cfg_knowledge_graph_enabled (cfg_knowledge s) then None
      else Some \<lparr>gr_text = g, gr_max_depth = cfg_graph_max_depth (cfg_knowledge s),
                 gr_max_entities = nat (cfg_graph_max_entities (cfg_knowledge s)),
                 gr_min_confidence = cfg_graph_min_confidence (cfg_knowledge s)\<rparr>)"

datatype rag_service = VectorRAG RetrievalService | HybridRAG HybridRetrievalService

definition get_assessment_rag_service ::
  "RetrievalService \<Rightarrow> GraphRetrievalService option \<Rightarrow> Settings \<Rightarrow> rag_service option" where
  "get_assessment_rag_service retrieval graph s =
     (if \<not> cfg_rag_enabled (cfg_knowledge s) then None
      else case graph of
             Some g \<Rightarrow> Some (HybridRAG \<lparr>hy_vector = retrieval, hy_graph = g\<rparr>)
           | None \<Rightarrow> Some (VectorRAG retrieval))"

definition configured_graph_enrichment ::
  "Settings \<Rightarrow> graph_text \<Rightarrow> (rat \<Rightarrow> pystr) \<Rightarrow> (pystr \<Rightarrow> pystr \<Rightarrow> py_exc + ExtractedEntity list) \<Rightarrow>
     (pystr \<Rightarrow> pystr \<Rightarrow> py_exc + ExtractedRelationship list) \<Rightarrow> KnowledgeGraphEnrichmentService option" where
  "configured_graph_enrichment s g float_repr generate_entities generate_relationships =
     get_graph_enrichment_service (cfg_knowledge_graph_enabled (cfg_knowledge s))
       (nat (cfg_graph_max_entities (cfg_knowledge s))) (cfg_graph_min_confidence (cfg_knowledge s)) g float_repr
       generate_entities generate_relationships"

definition get_file_ingestion_service ::
  "DocumentParserRouter \<Rightarrow> KnowledgeIngestionService \<Rightarrow> KnowledgeGraphEnrichmentService option \<Rightarrow> Settings \<Rightarrow>
     stripper \<Rightarrow> (rat \<Rightarrow> pystr) \<Rightarrow> (pystr \<Rightarrow> py_exc + json) \<Rightarrow> FileIngestionService" where
  "get_file_ingestion_service parsers knowledge graph s strip float_repr json_loads =
     \<lparr>fi_parsers = parsers, fi_knowledge = knowledge, fi_graph = graph,
      fi_max_upload_size_bytes = nat (cfg_max_upload_size_mb (cfg_knowledge s) * 1024 * 1024),
      fi_strip = strip, fi_float_repr = float_repr, fi_json_loads = json_loads\<rparr>"

section \<open>The policy connector\<close>

definition require_policy_repository_settings :: "Settings \<Rightarrow> py_exc + Settings" where
  "require_policy_repository_settings s =
     (let p = cfg_policy_repository s
      in if \<not> cfg_policy_repository_enabled p \<or> cfg_policy_repository_base_url p = None \<or>
            cfg_policy_repository_token p = None
         then Inl (AppExc ConnectorNotConfiguredError) else Inr s)"

text \<open>The library arguments of the connector.\<close>

record connector_library =
  cl_open :: "pystr \<Rightarrow> pystr \<Rightarrow> int \<Rightarrow> pystr \<Rightarrow> nat \<Rightarrow> py_exc + http_stream"
  cl_is_http_error :: "py_exc \<Rightarrow> bool"
  cl_json_loads :: "bytes \<Rightarrow> py_exc + json"
  cl_parse_page :: "json \<Rightarrow> py_exc + PolicyDocument list"
  cl_strip :: stripper
  cl_float_repr :: "rat \<Rightarrow> pystr"
  cl_lower :: "pystr \<Rightarrow> pystr"
  cl_netloc_ok :: "pystr \<Rightarrow> bool"

text \<open>The client is built from address, token and time limit.\<close>

definition get_policy_repository_connector ::
  "Settings \<Rightarrow> connector_library \<Rightarrow> KnowledgeIngestionService \<Rightarrow> KnowledgeGraphEnrichmentService option \<Rightarrow>
     py_exc + PolicyRepositoryConnector" where
  "get_policy_repository_connector s lib knowledge graph =
     (case require_policy_repository_settings s of
        Inl e \<Rightarrow> Inl e
      | Inr s \<Rightarrow>
          (let p = cfg_policy_repository s; url = the (cfg_policy_repository_base_url p)
           in Inr \<lparr>pc_base_url = url, pc_documents_path = cfg_policy_repository_documents_path p,
                   pc_knowledge = knowledge, pc_graph = graph,
                   pc_max_documents = nat (cfg_policy_repository_max_documents p),
                   pc_max_response_bytes = nat (cfg_policy_repository_max_response_mb p * 1024 * 1024),
                   pc_open = cl_open lib url (the (cfg_policy_repository_token p)) (cfg_policy_repository_timeout_seconds p),
                   pc_is_http_error = cl_is_http_error lib, pc_json_loads = cl_json_loads lib,
                   pc_parse_page = cl_parse_page lib, pc_strip = cl_strip lib, pc_float_repr = cl_float_repr lib,
                   pc_lower = cl_lower lib, pc_netloc_ok = cl_netloc_ok lib\<rparr>))"

section \<open>Assessments\<close>

definition get_runtime_governance_service ::
  "Settings \<Rightarrow> RuntimeMetricsRecorder \<Rightarrow> (uuid \<Rightarrow> OperationalTelemetry \<Rightarrow> QualityGateResult \<Rightarrow> py_exc + unit) \<Rightarrow>
     payload_codec \<Rightarrow> pystr option \<Rightarrow> governance" where
  "get_runtime_governance_service s metrics exporter codec request_id =
     \<lparr>gv_policy = cfg_runtime_policy s,
      gv_input_cost_per_million = cfg_model_input_cost_per_1m_tokens (cfg_resilience s),
      gv_output_cost_per_million = cfg_model_output_cost_per_1m_tokens (cfg_resilience s),
      gv_metrics = Some metrics, gv_exporter = exporter, gv_request_id = request_id,
      gv_dump_result = pc_dump_result codec, gv_dump_execution = pc_dump_execution codec,
      gv_validate_result = pc_validate_result codec\<rparr>"

text \<open>The registry of the assessment agent has no graph tool; the one of the Evidence Agent has it when
  the graph is enabled.\<close>

definition get_agent_tool_registry ::
  "schema_library \<Rightarrow> digest_library \<Rightarrow> (pystr \<Rightarrow> int \<Rightarrow> ('w, py_exc, RetrievedEvidence list) eff) \<Rightarrow>
     (uuid \<Rightarrow> ('w, py_exc, KnowledgeDocumentRecord option) eff) \<Rightarrow> Settings \<Rightarrow> py_exc + 'w ToolRegistry" where
  "get_agent_tool_registry lib digest retrieval documents s =
     build_knowledge_tool_registry lib digest retrieval documents None (Some (cfg_tool_timeout_seconds (cfg_resilience s)))"

definition get_evidence_tool_registry ::
  "schema_library \<Rightarrow> digest_library \<Rightarrow> (pystr \<Rightarrow> int \<Rightarrow> ('w, py_exc, RetrievedEvidence list) eff) \<Rightarrow>
     (uuid \<Rightarrow> ('w, py_exc, KnowledgeDocumentRecord option) eff) \<Rightarrow>
     (pystr \<Rightarrow> int \<Rightarrow> KnowledgeEntityType list option \<Rightarrow> ('w, py_exc, GraphNeighborhood) eff) option \<Rightarrow> Settings \<Rightarrow>
     py_exc + 'w ToolRegistry" where
  "get_evidence_tool_registry lib digest retrieval documents graph s =
     build_knowledge_tool_registry lib digest retrieval documents graph (Some (cfg_tool_timeout_seconds (cfg_resilience s)))"

definition get_evidence_agent ::
  "'w ToolRegistry \<Rightarrow> Settings \<Rightarrow> 'w StructuredModelProvider \<Rightarrow> stripper \<Rightarrow> (rat \<Rightarrow> pystr) \<Rightarrow> 'w OpenAIEvidenceAgent" where
  "get_evidence_agent tools s provider strip float_repr =
     \<lparr>ea_provider = provider, ea_tools = tools, ea_max_steps = cfg_evidence_agent_max_steps (cfg_multi_agent s),
      ea_max_tool_calls = cfg_evidence_agent_max_tool_calls (cfg_multi_agent s), ea_strip = strip,
      ea_float_repr = float_repr\<rparr>"

definition get_multi_agent_assessment_workflow ::
  "Settings \<Rightarrow> 'w multi_invoke \<Rightarrow> (MultiAgentExecutionMetadata \<Rightarrow> py_exc + MultiAgentExecutionMetadata) \<Rightarrow>
     'w MultiAgentGraphNodes \<Rightarrow> 'w MultiAgentAssessmentWorkflow option" where
  "get_multi_agent_assessment_workflow s invoke validate nodes =
     (let c = cfg_agents s; override = cfg_execution_mode_override c;
          forced_multi_agent = (override = Some Mode_MULTI_AGENT)
      in if override \<noteq> None \<and> \<not> forced_multi_agent then None
         else if override = None \<and> \<not> cfg_multi_agent_workflow_enabled c then None
         else Some \<lparr>mw_invoke = invoke, mw_nodes = nodes,
                    mw_max_failures = cfg_multi_agent_max_failures (cfg_multi_agent s), mw_validate_execution = validate\<rparr>)"

definition get_execution_router :: "Settings \<Rightarrow> unicode_db \<Rightarrow> ExecutionRouter option" where
  "get_execution_router s db =
     (case cfg_execution_mode_override (cfg_agents s) of
        Some mode \<Rightarrow> Some \<lparr>er_forced_mode = Some mode, er_unicode = db\<rparr>
      | None \<Rightarrow> if cfg_execution_routing_enabled (cfg_agents s) then Some \<lparr>er_forced_mode = None, er_unicode = db\<rparr>
               else None)"

text \<open>The collaborators that the service is composed from; a workflow is what its \<open>run\<close> does.\<close>

record assessment_parts =
  ap_generator :: "AssessmentPrompt \<Rightarrow> py_exc + AssessmentResult"
  ap_rag :: "(AssessmentRequest \<Rightarrow> py_exc + rag_preparation) option"
  ap_single :: "(uuid \<Rightarrow> AssessmentRequest \<Rightarrow> py_exc + workflow_output) option"
  ap_multi :: "(uuid \<Rightarrow> AssessmentRequest \<Rightarrow> py_exc + workflow_output) option"
  ap_codec :: payload_codec

definition get_assessment_service ::
  "assessment_parts \<Rightarrow> governance \<Rightarrow> ExecutionRouter option \<Rightarrow> Settings \<Rightarrow> pystr option \<Rightarrow> AssessmentService" where
  "get_assessment_service parts governance router s request_id =
     \<lparr>svc_generate = ap_generator parts, svc_rag = ap_rag parts, svc_agentic_workflow = ap_single parts,
      svc_multi_agent_workflow = ap_multi parts,
      svc_governance = (if cfg_runtime_risk_gate_enabled s then Some governance else None),
      svc_router = router, svc_codec = ap_codec parts, svc_request_id = request_id\<rparr>"

section \<open>Properties\<close>



end
