(* ===== verification/Http_Api.thy ===== *)
theory Http_Api
  imports Http_Protocol Service_Wiring
begin

text \<open>
  The routes of the API (\<^verbatim>\<open>app/api/routes/\<close>) with the request-scoped database session
  (\<^verbatim>\<open>app/db/session.py\<close>): authentication, the session, the role check, the service call, in the
  order in which the framework resolves the dependencies of a route.

  Bodies and path parameters arrive parsed (the framework validates them against the schemas); the
  bounds of the query parameters are defined here. A response is the value that the service returned.
\<close>

section \<open>The session of a request\<close>

text \<open>\<open>engine\<close> is what building the engine for an address raises. \<open>SQLAlchemyError\<close> is translated.\<close>

definition open_session :: "Settings \<Rightarrow> (pystr \<Rightarrow> py_exc option) \<Rightarrow> py_exc + unit" where
  "open_session s engine =
     (case get_database_url s of
        Inl e \<Rightarrow> Inl e
      | Inr url \<Rightarrow>
          (case engine url of
             None \<Rightarrow> Inr ()
           | Some e \<Rightarrow> Inl (case e of SqlExc q \<Rightarrow> AppExc DatabaseUnavailableError | _ \<Rightarrow> e)))"

text \<open>\<open>session.close()\<close> gives up what was not committed.\<close>

definition closed :: "session \<Rightarrow> session" where
  "closed s = s\<lparr>live := durable s\<rparr>"

text \<open>\<open>get_db_session\<close> around the rest of the request: after an exception the session is rolled back, where a
  database error of the rollback is suppressed; it is closed in any case.\<close>

definition session_scope :: "(session, route_error, 'a) eff \<Rightarrow> (session, route_error, 'a) eff" where
  "session_scope m =
     (\<lambda>s. case m s of
            (Inr x, s1) \<Rightarrow> (Inr x, closed s1)
          | (Inl e, s1) \<Rightarrow>
              (case rollback s1 of
                 (Inr _, s2) \<Rightarrow> (Inl e, closed s2)
               | (Inl (SqlExc q), s2) \<Rightarrow> (Inl e, closed s2)
               | (Inl f, s2) \<Rightarrow> (Inl (Raised f), closed s2)))"

definition raising :: "('s, py_exc, 'a) eff \<Rightarrow> ('s, route_error, 'a) eff" where
  "raising m = (\<lambda>s. case m s of (Inl e, s') \<Rightarrow> (Inl (Raised e), s') | (Inr x, s') \<Rightarrow> (Inr x, s'))"

section \<open>Calls\<close>

datatype api_call =
    CreateAssessment AssessmentRequest
  | GetAssessment uuid
  | GetRuntimeStatus uuid
  | ListReviews uuid
  | GetReviewCandidate uuid
  | ApproveReview uuid HumanReviewRequest
  | RejectReview uuid HumanReviewRequest
  | RequestReviewRevision uuid HumanReviewRequest
  | GetSession
  | ListAssessments "AssessmentStatus option" int int
  | ListPendingReviews int int

datatype api_answer =
    AssessmentAnswer AssessmentResponse
  | RuntimeStatusAnswer RuntimeStatusResponse
  | ReviewsAnswer "review_event list"
  | CandidateAnswer ReviewCandidateResponse
  | DecisionAnswer HumanReviewDecision
  | SessionAnswer PrincipalResponse
  | PageAnswer AssessmentListResponse

text \<open>What the application is built from.\<close>

record api_config =
  api_settings :: Settings
  api_jwt :: jwt_library
  api_engine :: "pystr \<Rightarrow> py_exc option"
  api_parts :: assessment_parts
  api_metrics :: RuntimeMetricsRecorder
  api_exporter :: "uuid \<Rightarrow> OperationalTelemetry \<Rightarrow> QualityGateResult \<Rightarrow> py_exc + unit"
  api_unicode :: unicode_db
  api_repr :: "json \<Rightarrow> pystr"

definition api_governance :: "api_config \<Rightarrow> pystr option \<Rightarrow> governance" where
  "api_governance a request_id =
     get_runtime_governance_service (api_settings a) (api_metrics a) (api_exporter a) (ap_codec (api_parts a)) request_id"

definition api_service :: "api_config \<Rightarrow> pystr option \<Rightarrow> AssessmentService" where
  "api_service a request_id =
     get_assessment_service (api_parts a) (api_governance a request_id)
       (get_execution_router (api_settings a) (api_unicode a)) (api_settings a) request_id"

definition authenticate :: "jwt_library \<Rightarrow> auth_settings \<Rightarrow> bearer_credentials option \<Rightarrow> py_exc + AuthenticatedPrincipal" where
  "authenticate lib st credentials =
     (case get_token_verifier st of
        Inl e \<Rightarrow> Inl e
      | Inr v \<Rightarrow> get_authenticated_principal lib st credentials v)"

definition as_reviewer :: "AuthenticatedPrincipal \<Rightarrow> (AuthenticatedPrincipal \<Rightarrow> 'a db) \<Rightarrow> 'a db" where
  "as_reviewer p m = bindE (liftE (require_reviewer_or_admin p)) m"

text \<open>The bounds of \<open>offset\<close> and \<open>limit\<close>.\<close>

definition checked_page ::
  "int \<Rightarrow> int \<Rightarrow> (nat \<Rightarrow> nat \<Rightarrow> AssessmentListResponse db) \<Rightarrow> (session, route_error, api_answer) eff" where
  "checked_page offset limit m =
     (if 0 \<le> offset \<and> offset \<le> 100000 \<and> 1 \<le> limit \<and> limit \<le> 100
      then raising (bindE (m (nat offset) (nat limit)) (\<lambda>r. returnE (PageAnswer r)))
      else raiseE RequestInvalid)"

primrec run_call ::
  "api_config \<Rightarrow> pystr option \<Rightarrow> AuthenticatedPrincipal \<Rightarrow> api_call \<Rightarrow> (session, route_error, api_answer) eff" where
  "run_call a i p (CreateAssessment request) =
     raising (bindE (generate_assessment (api_service a i) request (Some p)) (\<lambda>r. returnE (AssessmentAnswer r)))"
| "run_call a i p (GetAssessment x) =
     raising (bindE (get_assessment (api_service a i) x) (\<lambda>r. returnE (AssessmentAnswer r)))"
| "run_call a i p (GetRuntimeStatus x) =
     raising (bindE (get_runtime_status x) (\<lambda>r. returnE (RuntimeStatusAnswer r)))"
| "run_call a i p (ListReviews x) =
     raising (as_reviewer p (\<lambda>_. bindE (list_reviews x) (\<lambda>r. returnE (ReviewsAnswer r))))"
| "run_call a i p (GetReviewCandidate x) =
     raising (as_reviewer p (\<lambda>_. bindE (get_review_candidate (api_governance a i) x) (\<lambda>r. returnE (CandidateAnswer r))))"
| "run_call a i p (ApproveReview x review) =
     raising (as_reviewer p (\<lambda>q. bindE (approve (api_governance a i) x review (Some q)) (\<lambda>r. returnE (DecisionAnswer r))))"
| "run_call a i p (RejectReview x review) =
     raising (as_reviewer p (\<lambda>q. bindE (reject (api_governance a i) x review (Some q)) (\<lambda>r. returnE (DecisionAnswer r))))"
| "run_call a i p (RequestReviewRevision x review) =
     raising (as_reviewer p (\<lambda>q. bindE (request_revision (api_governance a i) x review (Some q)) (\<lambda>r. returnE (DecisionAnswer r))))"
| "run_call a i p GetSession = returnE (SessionAnswer (principal_response p))"
| "run_call a i p (ListAssessments status offset limit) =
     checked_page offset limit (list_assessments (api_repr a) status)"
| "run_call a i p (ListPendingReviews offset limit) =
     bindE (raising (liftE (require_reviewer_or_admin p))) (\<lambda>_.
     checked_page offset limit (list_assessments (api_repr a) (Some Status_PENDING_REVIEW)))"

text \<open>One request: the principal, then (except for the session route) the database session around role check and
  call.\<close>

definition dispatch ::
  "api_config \<Rightarrow> bearer_credentials option \<Rightarrow> api_call \<Rightarrow> pystr option \<Rightarrow> (session, route_error, api_answer) eff" where
  "dispatch a credentials call request_id =
     bindE (raising (liftE (authenticate (api_jwt a) (cfg_auth (api_settings a)) credentials))) (\<lambda>p.
       if call = GetSession then run_call a request_id p call
       else bindE (raising (liftE (open_session (api_settings a) (api_engine a)))) (\<lambda>_.
            session_scope (run_call a request_id p call)))"

definition api_application ::
  "api_config \<Rightarrow> bearer_credentials option \<Rightarrow> api_call \<Rightarrow> (session, api_answer) application" where
  "api_application a credentials call st request_id s =
     (case dispatch a credentials call request_id s of
        (Inl e, s') \<Rightarrow> (Inl e, s')
      | (Inr x, s') \<Rightarrow>
          (Inr \<lparr>ht_status = 200, ht_body = Answer x, ht_request_id = None, ht_www_authenticate = None\<rparr>, s'))"

definition handle_api ::
  "api_config \<Rightarrow> (nat \<Rightarrow> pystr option) \<Rightarrow> http_request \<Rightarrow> pystr \<Rightarrow> bearer_credentials option \<Rightarrow> api_call \<Rightarrow>
     session http_world \<Rightarrow> api_answer http_response \<times> session http_world" where
  "handle_api a phrase rq fresh credentials call w =
     serve (api_settings a) phrase rq fresh (api_application a credentials call) w"

section \<open>Facts\<close>

lemma raising_run: "raising m s = (r, s') \<Longrightarrow> \<exists>q. m s = (q, s') \<and> (case q of Inl e \<Rightarrow> r = Inl (Raised e) | Inr x \<Rightarrow> r = Inr x)"
  by (auto simp: raising_def split: prod.splits sum.splits)

lemma scope_run:
  assumes "session_scope m s = (r, s')"
  shows "live s' = durable s' \<and> (\<exists>s1. m s = (r, s1) \<and> durable s' = durable s1)"
proof -
  obtain q s1 where m: "m s = (q, s1)" by fastforce
  show ?thesis
  proof (cases q)
    case (Inr x)
    with assms m show ?thesis by (auto simp: session_scope_def closed_def)
  next
    case (Inl e)
    obtain b s2 where roll: "rollback s1 = (b, s2)" by fastforce
    have "durable s2 = durable s1" using roll keeps_durableD[OF keeps_durable_calls(5)] by auto
    moreover have "\<exists>v. b = Inl (SqlExc v)" if "b = Inl f" for f using that roll rollback_Inl by auto
    ultimately show ?thesis using assms m Inl roll by (cases b) (auto simp: session_scope_def closed_def)
  qed
qed

lemma returning_run: "raising (bindE m (\<lambda>x. returnE (f x))) s = (r, s') \<Longrightarrow> \<exists>q. m s = (q, s')"
  by (auto simp: raising_def bindE_def returnE_def split: prod.splits sum.splits)

lemma raising_keeps: "keeps_durable m \<Longrightarrow> raising m s = (r, s') \<Longrightarrow> durable s' = durable s"
  by (drule raising_run) (blast dest: keeps_durableD)

lemma returning_keeps:
  "keeps_durable m \<Longrightarrow> raising (bindE m (\<lambda>x. returnE (f x))) s = (r, s') \<Longrightarrow> durable s' = durable s"
  by (drule returning_run) (blast dest: keeps_durableD)

lemma as_reviewer_run:
  "raising (as_reviewer p m) s = (r, s') \<Longrightarrow>
     (if can_review p then raising (m p) s = (r, s') else r = Inl (Raised (AppExc PermissionDeniedError)) \<and> s' = s)"
  by (simp add: as_reviewer_def require_reviewer_or_admin_def bindE_def liftE_def raising_def split: if_splits)

lemma reviewer_keeps:
  "keeps_durable m \<Longrightarrow> raising (as_reviewer p (\<lambda>_. bindE m (\<lambda>x. returnE (f x)))) s = (r, s') \<Longrightarrow> durable s' = durable s"
  by (drule as_reviewer_run) (auto split: if_splits dest: returning_keeps)

lemma reviewing_run:
  "raising (as_reviewer p (\<lambda>q. bindE (m q) (\<lambda>x. returnE (f x)))) s = (r, s') \<Longrightarrow> can_review p \<Longrightarrow> \<exists>d. m p s = (d, s')"
  "raising (as_reviewer p n) s = (r, s') \<Longrightarrow> \<not> can_review p \<Longrightarrow> s' = s"
  by (drule as_reviewer_run, auto dest: returning_run)+

lemma keeps_durable_pages: "keeps_durable (list_assessments repr status offset limit)"
proof -
  have "durable (snd (list_assessments repr status offset limit s)) = durable s" for s
    using list_assessments_reads[of "live s" "durable s" repr status offset limit] by (simp add: keepsE_def)
  then show ?thesis by (simp add: keeps_durable_iff)
qed

lemma keeps_durable_get_assessment: "keeps_durable (get_assessment svc i)"
  unfolding get_assessment_def guarding_database_def by auto

lemma checked_page_keeps:
  "(\<And>x y. keeps_durable (m x y)) \<Longrightarrow> checked_page offset limit m s = (r, s') \<Longrightarrow> durable s' = durable s"
  by (auto simp: checked_page_def raiseE_def split: if_splits elim!: raising_keeps[rotated])

text \<open>What a call can change, and on whose behalf.\<close>

definition review_run :: "api_config \<Rightarrow> pystr option \<Rightarrow> AuthenticatedPrincipal \<Rightarrow> api_call \<Rightarrow> session \<Rightarrow> session \<Rightarrow> bool" where
  "review_run a i p call s s' \<longleftrightarrow> can_review p \<and>
     (\<exists>x review d.
        call = ApproveReview x review \<and> approve (api_governance a i) x review (Some p) s = (d, s') \<or>
        call = RejectReview x review \<and> reject (api_governance a i) x review (Some p) s = (d, s') \<or>
        call = RequestReviewRevision x review \<and> request_revision (api_governance a i) x review (Some p) s = (d, s'))"

lemma run_call_effect:
  assumes "run_call a i p call s = (r, s')"
  shows "durable s' = durable s \<or> review_run a i p call s s' \<or>
    (\<exists>request out. call = CreateAssessment request \<and> generate_assessment (api_service a i) request (Some p) s = (out, s'))"
proof (cases call)
  case (CreateAssessment request)
  with assms have "\<exists>out. generate_assessment (api_service a i) request (Some p) s = (out, s')"
    by (auto dest!: returning_run)
  with CreateAssessment show ?thesis by blast
next
  case (GetAssessment x)
  with assms show ?thesis using returning_keeps[OF keeps_durable_get_assessment] by auto
next
  case (GetRuntimeStatus x)
  with assms show ?thesis using returning_keeps[OF keeps_tables_durable[OF keeps_tables_queries(1)]] by auto
next
  case (ListReviews x)
  with assms show ?thesis
    using reviewer_keeps[OF keeps_tables_durable[OF keeps_tables_queries(2)]] by auto
next
  case (GetReviewCandidate x)
  with assms show ?thesis
    using reviewer_keeps[OF keeps_tables_durable[OF keeps_tables_queries(3)]] by auto
next
  case (ApproveReview x review)
  with assms have "if can_review p then \<exists>d. approve (api_governance a i) x review (Some p) s = (d, s') else s' = s"
    by (auto intro: reviewing_run)
  with ApproveReview show ?thesis by (auto simp: review_run_def split: if_splits)
next
  case (RejectReview x review)
  with assms have "if can_review p then \<exists>d. reject (api_governance a i) x review (Some p) s = (d, s') else s' = s"
    by (auto intro: reviewing_run)
  with RejectReview show ?thesis by (auto simp: review_run_def split: if_splits)
next
  case (RequestReviewRevision x review)
  with assms have "if can_review p then \<exists>d. request_revision (api_governance a i) x review (Some p) s = (d, s') else s' = s"
    by (auto intro: reviewing_run)
  with RequestReviewRevision show ?thesis by (auto simp: review_run_def split: if_splits)
next
  case GetSession
  with assms show ?thesis by (simp add: returnE_def)
next
  case (ListAssessments status offset limit)
  with assms show ?thesis using checked_page_keeps[OF keeps_durable_pages] by auto
next
  case (ListPendingReviews offset limit)
  with assms show ?thesis using checked_page_keeps[OF keeps_durable_pages]
    by (auto simp: bindE_def raising_def liftE_def split: sum.splits)
qed


lemma dispatch_effect:
  assumes "dispatch a credentials call i s = (r, s')" and "live s = durable s"
  shows "live s' = durable s' \<and>
    (durable s' = durable s \<or>
     (\<exists>p s1. authenticate (api_jwt a) (cfg_auth (api_settings a)) credentials = Inr p \<and> run_call a i p call s = (r, s1) \<and>
        durable s' = durable s1))"
proof (cases "authenticate (api_jwt a) (cfg_auth (api_settings a)) credentials")
  case (Inl e)
  with assms show ?thesis by (simp add: dispatch_def bindE_def raising_def liftE_def)
next
  case (Inr p)
  show ?thesis
  proof (cases "call = GetSession")
    case True
    with assms Inr show ?thesis by (simp add: dispatch_def bindE_def raising_def liftE_def returnE_def)
  next
    case False
    show ?thesis
    proof (cases "open_session (api_settings a) (api_engine a)")
      case (Inl e)
      with assms False \<open>authenticate _ _ _ = Inr p\<close> show ?thesis by (simp add: dispatch_def bindE_def raising_def liftE_def)
    next
      case (Inr u)
      with assms False \<open>authenticate _ _ _ = Inr p\<close> have "session_scope (run_call a i p call) s = (r, s')"
        by (simp add: dispatch_def bindE_def raising_def liftE_def)
      from scope_run[OF this] \<open>authenticate _ _ _ = Inr p\<close> show ?thesis by blast
    qed
  qed
qed

lemma api_state:
  assumes "handle_api a phrase rq fresh credentials call w = (response, w')"
  shows "hw_state w' = hw_state w \<or>
    (\<exists>i r. dispatch a credentials call (Some i) (hw_state w) = (r, hw_state w'))"
proof -
  let ?st = "request_state_of (api_settings a) rq fresh"
  obtain r x where app: "api_application a credentials call ?st (Some (st_request_id ?st)) (hw_state w) = (r, x)" by fastforce
  have "hw_state w' = hw_state w \<or> hw_state w' = x"
    using assms app by (auto simp: handle_api_def serve_def log_requests_def Let_def split: if_splits sum.splits)
  moreover have "\<exists>q. dispatch a credentials call (Some (st_request_id ?st)) (hw_state w) = (q, x)"
    using app by (auto simp: api_application_def split: prod.splits sum.splits)
  ultimately show ?thesis by blast
qed

lemma serve_state:
  assumes "serve s phrase rq fresh app w = (response, w')" and "\<not> exceeds_json_limit s rq"
    and "app (request_state_of s rq fresh) (Some (st_request_id (request_state_of s rq fresh))) (hw_state w) = (r, x)"
  shows "hw_state w' = x" and "\<And>e. r = Inl (Raised (AppExc e)) \<Longrightarrow> ht_status response = status_code e"
  using assms by (auto simp: serve_def log_requests_def Let_def handled_def handle_application_error_def error_response_def
      split: sum.splits if_splits)

section \<open>Properties\<close>

text \<open>C19: Reviewing over HTTP needs a reviewer. A review request changes the committed store only when the
  credentials verify to a principal with the reviewer or admin role, and then exactly as the review
  action on behalf of that principal does. Without valid credentials the answer is 401, with a
  principal that may not review and a reachable database it is 403, and in both cases nothing
  changes. After any request nothing uncommitted is left in the session.\<close>

theorem review_routes_guarded:
  assumes debug: "\<not> cfg_debug (cfg_app (api_settings a))" and small: "\<not> exceeds_json_limit (api_settings a) rq"
    and call: "call \<in> {ApproveReview x review, RejectReview x review, RequestReviewRevision x review}"
    and run: "handle_api a phrase rq fresh credentials call w = (response, w')"
    and clean: "live (hw_state w) = durable (hw_state w)"
    and auth: "auth = authenticate (api_jwt a) (cfg_auth (api_settings a)) credentials"
  shows "live (hw_state w') = durable (hw_state w') \<and>
    (durable (hw_state w') \<noteq> durable (hw_state w) \<longrightarrow>
       (\<exists>p i s1. auth = Inr p \<and> review_run a (Some i) p call (hw_state w) s1 \<and> durable (hw_state w') = durable s1)) \<and>
    (auth = Inl (AppExc AuthenticationRequiredError) \<longrightarrow> ht_status response = 401 \<and> hw_state w' = hw_state w) \<and>
    (\<forall>p. auth = Inr p \<and> \<not> can_review p \<and> open_session (api_settings a) (api_engine a) = Inr () \<longrightarrow>
       ht_status response = 403 \<and> durable (hw_state w') = durable (hw_state w))"
proof -
  let ?st = "request_state_of (api_settings a) rq fresh"
  let ?i = "Some (st_request_id ?st)"
  obtain r s' where d: "dispatch a credentials call ?i (hw_state w) = (r, s')" by fastforce
  define outcome where "outcome = (case r of Inl e \<Rightarrow> Inl e | Inr y \<Rightarrow>
      Inr \<lparr>ht_status = 200, ht_body = Answer y, ht_request_id = None, ht_www_authenticate = None\<rparr>)"
  have app: "api_application a credentials call ?st ?i (hw_state w) = (outcome, s')"
    using d by (simp add: api_application_def outcome_def split: sum.split)
  have state: "hw_state w' = s'" and status: "\<And>e. r = Inl (Raised (AppExc e)) \<Longrightarrow> ht_status response = status_code e"
    using serve_state[OF run[unfolded handle_api_def] small app] by (auto simp: outcome_def)
  note effect = dispatch_effect[OF d clean]
  have guard: "review_run a ?i p call (hw_state w) s1"
    if "run_call a ?i p call (hw_state w) = (r, s1)" "durable s1 \<noteq> durable (hw_state w)" for p s1
    using run_call_effect[OF that(1)] that(2) call by auto
  have 1: "auth = Inl (AppExc AuthenticationRequiredError) \<longrightarrow> ht_status response = 401 \<and> hw_state w' = hw_state w"
    using d state status by (auto simp: dispatch_def auth[symmetric] bindE_def raising_def liftE_def status_code_def status_codes_def)
  have 2: "ht_status response = 403 \<and> durable (hw_state w') = durable (hw_state w)"
    if p: "auth = Inr p" "\<not> can_review p" "open_session (api_settings a) (api_engine a) = Inr ()" for p
  proof -
    have "session_scope (run_call a ?i p call) (hw_state w) = (r, s')"
      using d p call by (auto simp: dispatch_def auth[symmetric] bindE_def raising_def liftE_def)
    from scope_run[OF this] obtain s1 where s1: "run_call a ?i p call (hw_state w) = (r, s1)" "durable s' = durable s1" by blast
    have "r = Inl (Raised (AppExc PermissionDeniedError)) \<and> s1 = hw_state w"
      using s1(1) call p(2) as_reviewer_run[of p _ "hw_state w" r s1] by auto
    with s1(2) state status show ?thesis by (auto simp: status_code_def status_codes_def)
  qed
  show ?thesis
    using effect guard 1 2 state auth by metis
qed

section \<open>Knowledge and connector routes\<close>

text \<open>The session scope over the knowledge tables.\<close>

definition k_session_scope :: "(knowledge_session, route_error, 'a) eff \<Rightarrow> (knowledge_session, route_error, 'a) eff" where
  "k_session_scope m =
     (\<lambda>s. case m s of
            (Inr x, s1) \<Rightarrow> (Inr x, s1\<lparr>k_live := k_durable s1\<rparr>)
          | (Inl e, s1) \<Rightarrow>
              (case k_rollback s1 of
                 (Inr _, s2) \<Rightarrow> (Inl e, s2\<lparr>k_live := k_durable s2\<rparr>)
               | (Inl (SqlExc q), s2) \<Rightarrow> (Inl e, s2\<lparr>k_live := k_durable s2\<rparr>)
               | (Inl f, s2) \<Rightarrow> (Inl (Raised f), s2\<lparr>k_live := k_durable s2\<rparr>)))"

record KnowledgeSearchRequest =
  sq_query :: pystr
  sq_top_k :: "int option"
  sq_similarity_threshold :: "rat option"
  sq_source_type :: "KnowledgeSourceType option"
  sq_document_id :: "uuid option"

text \<open>The construction of a search request from parsed fields.\<close>

definition mk_search_request :: "stripper \<Rightarrow> KnowledgeSearchRequest \<Rightarrow> KnowledgeSearchRequest option" where
  "mk_search_request strip q =
     (let c = q\<lparr>sq_query := strip (sq_query q)\<rparr>
      in if len_between 1 4000 (sq_query c) \<and>
            (case sq_top_k c of None \<Rightarrow> True | Some k \<Rightarrow> 1 \<le> k \<and> k \<le> 20) \<and>
            (case sq_similarity_threshold c of None \<Rightarrow> True | Some x \<Rightarrow> -1 \<le> x \<and> x \<le> 1)
         then Some c else None)"

datatype 'f knowledge_call =
    IngestDocument KnowledgeDocumentCreate
  | GetDocument uuid
  | EnrichDocumentGraph uuid
  | SearchKnowledge KnowledgeSearchRequest
  | IngestFile "'f UploadFile" "pystr option" "KnowledgeSourceType option" "pystr option" bool
  | SyncPolicyRepository bool

datatype knowledge_answer =
    IngestionAnswer KnowledgeDocumentRecord nat
  | DocumentAnswer KnowledgeDocumentRecord
  | EnrichmentAnswer KnowledgeGraphEnrichmentResult
  | SearchAnswer "RetrievedEvidence list"
  | FileAnswer FileIngestionResult
  | SyncAnswer PolicyRepositorySyncResult

text \<open>The services of the routes, each with what building it raised; \<open>ks_strip\<close> and \<open>ks_float_repr\<close> serve the
  request schemas, \<open>ks_validate_sync\<close> is \<open>PolicyRepositorySyncResponse.model_validate\<close> on the result
  object of the connector.\<close>

record knowledge_services =
  ks_ingestion :: "py_exc + KnowledgeIngestionService"
  ks_retrieval :: "py_exc + RetrievalService"
  ks_graph :: "py_exc + KnowledgeGraphEnrichmentService option"
  ks_files :: "py_exc + FileIngestionService"
  ks_connector :: "KnowledgeIngestionService \<Rightarrow> KnowledgeGraphEnrichmentService option \<Rightarrow> py_exc + PolicyRepositoryConnector"
  ks_strip :: stripper
  ks_float_repr :: "rat \<Rightarrow> pystr"
  ks_validate_sync :: "PolicyRepositorySyncResult \<Rightarrow> py_exc + PolicyRepositorySyncResult"

definition with_service :: "py_exc + 'b \<Rightarrow> ('b \<Rightarrow> 'a kdb) \<Rightarrow> (knowledge_session, route_error, 'a) eff" where
  "with_service svc m = raising (bindE (liftE svc) m)"

primrec run_knowledge_call ::
  "knowledge_services \<Rightarrow> 'f knowledge_call \<Rightarrow> (knowledge_session, route_error, knowledge_answer) eff" where
  "run_knowledge_call k (IngestDocument d) =
     bindE (raising (liftE (ks_ingestion k))) (\<lambda>svc.
       case mk_document_create (ks_strip k) (ks_float_repr k) d of
         Inl e \<Rightarrow> raiseE RequestInvalid
       | Inr request \<Rightarrow> raising (bindE (ingest svc request False []) (\<lambda>r. returnE (IngestionAnswer (ki_document r) (ki_chunk_count r)))))"
| "run_knowledge_call k (GetDocument i) =
     with_service (ks_ingestion k) (\<lambda>_. bindE (get_document i) (\<lambda>d. returnE (DocumentAnswer d)))"
| "run_knowledge_call k (EnrichDocumentGraph i) =
     with_service (ks_graph k) (\<lambda>svc.
       case svc of
         None \<Rightarrow> raiseE (AppExc KnowledgeGraphDisabledError)
       | Some g \<Rightarrow> bindE (enrich g i) (\<lambda>r. returnE (EnrichmentAnswer r)))"
| "run_knowledge_call k (SearchKnowledge q) =
     bindE (raising (liftE (ks_retrieval k))) (\<lambda>svc.
       case mk_search_request (ks_strip k) q of
         None \<Rightarrow> raiseE RequestInvalid
       | Some request \<Rightarrow>
           raising (bindE (retrieval_search svc (sq_query request) (sq_top_k request) (sq_similarity_threshold request)
                             (sq_source_type request) (sq_document_id request)) (\<lambda>r. returnE (SearchAnswer r))))"
| "run_knowledge_call k (IngestFile upload title source_type metadata enrich_graph) =
     bindE (raising (liftE (ks_files k))) (\<lambda>svc.
       if \<not> opt_len_ok title 300 then raiseE RequestInvalid
       else raising (bindE (ingest_upload svc upload title source_type metadata enrich_graph) (\<lambda>r. returnE (FileAnswer r))))"
| "run_knowledge_call k (SyncPolicyRepository enrich_graph) =
     with_service (ks_ingestion k) (\<lambda>knowledge.
       bindE (liftE (ks_graph k)) (\<lambda>graph.
       bindE (liftE (ks_connector k knowledge graph)) (\<lambda>connector.
       bindE (policy_sync connector enrich_graph) (\<lambda>r.
       bindE (liftE (ks_validate_sync k r)) (\<lambda>answer. returnE (SyncAnswer answer))))))"

text \<open>Authentication, for the connector the admin role and its settings, then the session and the call.\<close>

definition dispatch_knowledge ::
  "api_config \<Rightarrow> knowledge_services \<Rightarrow> bearer_credentials option \<Rightarrow> 'f knowledge_call \<Rightarrow>
     (knowledge_session, route_error, knowledge_answer) eff" where
  "dispatch_knowledge a k credentials call =
     bindE (raising (liftE (authenticate (api_jwt a) (cfg_auth (api_settings a)) credentials))) (\<lambda>p.
     bindE (case call of
              SyncPolicyRepository _ \<Rightarrow>
                bindE (raising (liftE (require_admin p))) (\<lambda>_.
                bindE (raising (liftE (require_policy_repository_settings (api_settings a)))) (\<lambda>_. returnE ()))
            | _ \<Rightarrow> returnE ()) (\<lambda>_.
     bindE (raising (liftE (open_session (api_settings a) (api_engine a)))) (\<lambda>_.
     k_session_scope (run_knowledge_call k call))))"

definition knowledge_status :: "'f knowledge_call \<Rightarrow> nat" where
  "knowledge_status call = (case call of IngestDocument _ \<Rightarrow> 201 | IngestFile _ _ _ _ _ \<Rightarrow> 201 | _ \<Rightarrow> 200)"

definition knowledge_application ::
  "api_config \<Rightarrow> knowledge_services \<Rightarrow> bearer_credentials option \<Rightarrow> 'f knowledge_call \<Rightarrow>
     (knowledge_session, knowledge_answer) application" where
  "knowledge_application a k credentials call st request_id s =
     (case dispatch_knowledge a k credentials call s of
        (Inl e, s') \<Rightarrow> (Inl e, s')
      | (Inr x, s') \<Rightarrow>
          (Inr \<lparr>ht_status = knowledge_status call, ht_body = Answer x, ht_request_id = None, ht_www_authenticate = None\<rparr>, s'))"

section \<open>What a knowledge request leaves\<close>

lemma k_scope_run:
  assumes "k_session_scope m s = (r, s')"
  shows "k_live s' = k_durable s' \<and> (\<exists>s1. m s = (r, s1) \<and> k_durable s' = k_durable s1)"
proof -
  obtain q s1 where m: "m s = (q, s1)" by fastforce
  show ?thesis
  proof (cases q)
    case (Inr x)
    with assms m show ?thesis by (auto simp: k_session_scope_def)
  next
    case (Inl e)
    obtain b s2 where roll: "k_rollback s1 = (b, s2)" by fastforce
    have "k_durable s2 = k_durable s1" using roll by (rule k_rollback_run)
    moreover have "\<exists>v. b = Inl (SqlExc v)" if "b = Inl f" for f
      using that roll raises_onlyD[OF raises_sql(5), of s1 f s2] by (auto simp: sql_raised_def)
    ultimately show ?thesis using assms m Inl roll by (cases b) (auto simp: k_session_scope_def)
  qed
qed

text \<open>Calls that commit nothing when they raise.\<close>

definition route_atomic :: "(knowledge_session, route_error, 'a) eff \<Rightarrow> bool" where
  "route_atomic m \<longleftrightarrow> (\<forall>s e s'. m s = (Inl e, s') \<longrightarrow> k_durable s' = k_durable s)"

lemma route_atomic_raising: "k_atomic m \<Longrightarrow> route_atomic (raising m)"
  by (auto simp: route_atomic_def k_atomic_def raising_def split: prod.splits sum.splits)

lemma route_atomic_lift: "(\<And>x. route_atomic (f x)) \<Longrightarrow> route_atomic (bindE (raising (liftE v)) f)"
  by (cases v) (auto simp: route_atomic_def bindE_def raising_def liftE_def)

lemma route_atomic_raise: "route_atomic (raiseE e)"
  by (simp add: route_atomic_def raiseE_def)

lemma k_atomic_return: "k_atomic m \<Longrightarrow> k_atomic (bindE m (\<lambda>x. returnE (f x)))"
  by (auto simp: k_atomic_def bindE_def returnE_def split: prod.splits sum.splits)

lemma k_atomic_lift: "(\<And>x. k_atomic (f x)) \<Longrightarrow> k_atomic (bindE (liftE v) f)"
  by (rule k_atomic_bind) simp_all

lemma enrich_upload_returns: "\<exists>x s'. enrich_upload g d b s = (Inr x, s')"
  by (cases "enrich_upload g d b s")
     (auto simp: enrich_upload_def catchE_def returnE_def split: option.splits if_splits prod.splits sum.splits py_exc.splits)

lemma k_atomic_upload: "k_atomic (ingest_upload svc upload title source_type metadata_json enrich_graph)"
proof -
  have tail: "k_atomic (bindE (ingest v request True segs) (\<lambda>result.
      bindE (enrich_upload (g result) (d result) b) (\<lambda>(status, code). returnE (h result status code))))" for v request segs g d b h
    unfolding k_atomic_def
  proof (intro allI impI)
    fix s e s'
    assume "bindE (ingest v request True segs) (\<lambda>result. bindE (enrich_upload (g result) (d result) b) (\<lambda>(status, code). returnE (h result status code))) s = (Inl e, s')"
    moreover have "enrich_upload x y b t \<noteq> (Inl e, t')" for x y t t' using enrich_upload_returns[of x y b t] by auto
    ultimately have "ingest v request True segs s = (Inl e, s')"
      by (auto simp: bindE_eq_Inl returnE_def split: prod.splits)
    then show "k_durable s' = k_durable s" by (rule k_atomicD[OF k_atomic_ingest])
  qed
  show ?thesis
    unfolding ingest_upload_def by (auto intro!: k_atomic_lift tail split: prod.split)
qed

lemma k_keeps_search: "k_keeps (retrieval_search svc query top_k threshold source_type document_id)"
proof -
  have "k_keeps (search_similar db q n t st d)" for db q n t st d
    unfolding search_similar_def by (auto intro!: k_keeps_bind)
  moreover have "k_keeps k_rollback_suppressed"
    unfolding k_rollback_suppressed_def by (auto intro!: k_keeps_catch split: py_exc.split)
  ultimately show ?thesis
    unfolding retrieval_search_def Let_def
    by (auto intro!: k_keeps_bind k_keeps_catch split: list.split py_exc.split)
qed

lemma k_keeps_get_document: "k_keeps (get_document i)"
  unfolding get_document_def document_get_by_id_def by (auto intro!: k_keeps_bind k_keeps_catch split: py_exc.split)

lemma knowledge_call_atomic:
  assumes "\<And>b. call \<noteq> SyncPolicyRepository b"
  shows "route_atomic (run_knowledge_call k call)"
proof (cases call)
  case (IngestDocument d)
  then show ?thesis
    by (auto intro!: route_atomic_lift route_atomic_raise route_atomic_raising k_atomic_return k_atomic_ingest split: sum.split)
next
  case (GetDocument i)
  then show ?thesis
    by (auto simp: with_service_def intro!: route_atomic_raising k_atomic_lift k_atomic_return k_keeps_atomic k_keeps_get_document)
next
  case (EnrichDocumentGraph i)
  have "k_atomic (case svc of None \<Rightarrow> raiseE (AppExc KnowledgeGraphDisabledError)
      | Some g \<Rightarrow> bindE (enrich g i) (\<lambda>r. returnE (EnrichmentAnswer r)))" for svc
    by (cases svc) (simp_all add: k_keeps_atomic k_atomic_return k_atomic_enrich)
  with EnrichDocumentGraph show ?thesis by (simp add: with_service_def route_atomic_raising k_atomic_lift)
next
  case (SearchKnowledge q)
  then show ?thesis
    by (auto intro!: route_atomic_lift route_atomic_raise route_atomic_raising k_atomic_return k_keeps_atomic k_keeps_search
        split: option.split)
next
  case (IngestFile upload title source_type metadata b)
  then show ?thesis
    by (auto intro!: route_atomic_lift route_atomic_raise route_atomic_raising k_atomic_return k_atomic_upload)
next
  case (SyncPolicyRepository b)
  with assms show ?thesis by blast
qed


text \<open>The guards of a knowledge request.\<close>

lemma dispatch_knowledge_run:
  assumes "dispatch_knowledge a k credentials call s = (r, s')"
  shows "(\<exists>e. r = Inl e) \<and> s' = s \<or>
    (\<exists>p. authenticate (api_jwt a) (cfg_auth (api_settings a)) credentials = Inr p \<and>
       ((\<exists>b. call = SyncPolicyRepository b) \<longrightarrow> Role_ADMIN \<in> set (pr_roles p)) \<and>
       k_session_scope (run_knowledge_call k call) s = (r, s'))"
  using assms
  by (auto simp: dispatch_knowledge_def bindE_def raising_def liftE_def returnE_def require_admin_def
      split: sum.splits prod.splits knowledge_call.splits if_splits)

text \<open>C21: A knowledge request settles its transaction: afterwards nothing uncommitted is left, a request
  that fails has committed nothing (the policy synchronisation, which commits document by document,
  excepted), and the store changes only for an authenticated principal, for a synchronisation one with
  the admin role.\<close>

theorem knowledge_requests_settled:
  assumes run: "dispatch_knowledge a k credentials call s = (r, s')" and clean: "k_live s = k_durable s"
  shows "k_live s' = k_durable s' \<and>
    ((\<exists>e. r = Inl e) \<and> (\<forall>b. call \<noteq> SyncPolicyRepository b) \<longrightarrow> k_durable s' = k_durable s) \<and>
    (k_durable s' \<noteq> k_durable s \<longrightarrow>
       (\<exists>p. authenticate (api_jwt a) (cfg_auth (api_settings a)) credentials = Inr p \<and>
          ((\<exists>b. call = SyncPolicyRepository b) \<longrightarrow> Role_ADMIN \<in> set (pr_roles p))))"
proof -
  have failed: "k_durable s1 = k_durable s"
    if "run_knowledge_call k call s = (Inl e, s1)" "\<forall>b. call \<noteq> SyncPolicyRepository b" for e s1
    using knowledge_call_atomic[of call k] that by (auto simp: route_atomic_def)
  from dispatch_knowledge_run[OF run] show ?thesis
  proof (elim disjE exE conjE)
    fix p
    assume "k_session_scope (run_knowledge_call k call) s = (r, s')"
    then obtain s1 where "k_live s' = k_durable s'" "run_knowledge_call k call s = (r, s1)" "k_durable s' = k_durable s1"
      using k_scope_run by blast
    moreover assume "authenticate (api_jwt a) (cfg_auth (api_settings a)) credentials = Inr p"
      "(\<exists>b. call = SyncPolicyRepository b) \<longrightarrow> Role_ADMIN \<in> set (pr_roles p)"
    ultimately show ?thesis using failed by auto
  qed (use clean in auto)
qed


section \<open>Instances\<close>

definition sample_api :: "Settings \<Rightarrow> api_config" where
  "sample_api s =
     \<lparr>api_settings = s, api_jwt = sample_library, api_engine = (\<lambda>_. None),
      api_parts = \<lparr>ap_generator = svc_generate sample_service, ap_rag = None, ap_single = None, ap_multi = None, ap_codec = sample_codec\<rparr>,
      api_metrics = new_metrics, api_exporter = (\<lambda>_ _ _. Inr ()),
      api_unicode = \<lparr>udb_fold = ascii_fold, udb_word = id_start\<rparr>, api_repr = (\<lambda>_. [])\<rparr>"

definition sample_development :: Settings where
  "sample_development = sample_production
     \<lparr>cfg_auth := (cfg_auth sample_production)\<lparr>as_auth_enabled := False\<rparr>,
      cfg_policy_repository := (cfg_policy_repository sample_production)
        \<lparr>cfg_policy_repository_enabled := True, cfg_policy_repository_base_url := Some (py ''https://h''),
         cfg_policy_repository_token := Some (py ''t'')\<rparr>\<rparr>"

lemma sample_open: "open_session sample_development (api_engine (sample_api sample_development)) = Inr ()"
proof -
  have "cfg_database_url (cfg_app sample_development) = Some (py ''postgresql://u'')"
    by (simp add: sample_development_def sample_production_def)
  moreover have "py_strip (py ''postgresql://u'') = py ''postgresql://u''" by code_simp
  ultimately show ?thesis by (simp add: open_session_def get_database_url_def sample_api_def py_startswith_def py_def)
qed

lemma sample_anonymous:
  "authenticate (api_jwt (sample_api s)) (cfg_auth sample_production) None = Inl (AppExc AuthenticationRequiredError)"
  "authenticate (api_jwt (sample_api s)) (cfg_auth sample_development) None = Inr development_principal"
  by (simp_all add: authenticate_def get_token_verifier_def get_authenticated_principal_def sample_development_def
      sample_production_def str_truthy_def py_def)

theorem review_routes_guarded_witness:
  "\<exists>response w'. handle_api (sample_api sample_production) (\<lambda>_. None) sample_http_request (py ''f'') None
       (ApproveReview 1 sample_review) \<lparr>hw_context = None, hw_log = [], hw_state = sample_session []\<rparr> = (response, w') \<and>
     ht_status response = 401 \<and> hw_state w' = sample_session []"
proof -
  let ?w = "\<lparr>hw_context = None, hw_log = [], hw_state = sample_session []\<rparr>"
  obtain response w' where run: "handle_api (sample_api sample_production) (\<lambda>_. None) sample_http_request (py ''f'') None
       (ApproveReview 1 sample_review) ?w = (response, w')" by fastforce
  have s: "api_settings (sample_api sample_production) = sample_production" by (simp add: sample_api_def)
  have debug: "\<not> cfg_debug (cfg_app (api_settings (sample_api sample_production)))" unfolding s by (simp add: sample_production_def)
  have small: "\<not> exceeds_json_limit (api_settings (sample_api sample_production)) sample_http_request"
    by (simp add: exceeds_json_limit_def sample_http_request_def py_def)
  have clean: "live (hw_state ?w) = durable (hw_state ?w)" by (simp add: sample_session_def)
  show ?thesis
    using review_routes_guarded[OF debug small _ run clean refl, of 1 sample_review] sample_anonymous(1) run by (simp add: s)
qed

definition sample_knowledge_services :: knowledge_services where
  "sample_knowledge_services =
     \<lparr>ks_ingestion = Inr sample_ingestion, ks_retrieval = Inl ValidationExc, ks_graph = Inr None, ks_files = Inl ValidationExc,
      ks_connector = (\<lambda>_ _. Inr sample_connector), ks_strip = py_strip, ks_float_repr = (\<lambda>_. []),
      ks_validate_sync = (\<lambda>_. Inl ValidationExc)\<rparr>"

theorem knowledge_requests_settled_witness:
  "\<exists>s'. dispatch_knowledge (sample_api sample_development) sample_knowledge_services None
       (EnrichDocumentGraph 1 :: unit knowledge_call) (knowledge_session_of sample_knowledge []) =
     (Inl (Raised (AppExc KnowledgeGraphDisabledError)), s') \<and> k_durable s' = sample_knowledge"
proof -
  let ?s = "knowledge_session_of sample_knowledge []"
  have s: "api_settings (sample_api sample_development) = sample_development" by (simp add: sample_api_def)
  have "\<exists>s'. dispatch_knowledge (sample_api sample_development) sample_knowledge_services None
       (EnrichDocumentGraph 1 :: unit knowledge_call) ?s = (Inl (Raised (AppExc KnowledgeGraphDisabledError)), s')"
    using sample_open
    by (simp add: dispatch_knowledge_def s sample_anonymous(2) bindE_def raising_def liftE_def returnE_def k_session_scope_def
        with_service_def sample_knowledge_services_def raiseE_def k_rollback_def k_call_def knowledge_session_of_def modifyE_def)
  then obtain s' where run: "dispatch_knowledge (sample_api sample_development) sample_knowledge_services None
       (EnrichDocumentGraph 1 :: unit knowledge_call) ?s = (Inl (Raised (AppExc KnowledgeGraphDisabledError)), s')" by blast
  have "k_live ?s = k_durable ?s" "k_durable ?s = sample_knowledge" by (simp_all add: knowledge_session_of_def)
  with knowledge_requests_settled[OF run] run show ?thesis by auto
qed


end
