(* ===== verification/Retrieval_Evaluation.thy ===== *)
theory Retrieval_Evaluation
  imports Graph_Retrieval
begin

text \<open>
  The offline evaluation of retrieval: benchmark data sets and their integrity check
  (\<^verbatim>\<open>app/evaluation/models.py\<close>), metrics (\<^verbatim>\<open>metrics.py\<close>), the deterministic fixtures
  (\<^verbatim>\<open>fixtures.py\<close>), the runner (\<^verbatim>\<open>runner.py\<close>) and the comparison of reports (\<^verbatim>\<open>reports.py\<close>).

  Scores are rational numbers, case folding is a table, and the three retrieval services of the runner
  are functions that may raise.
\<close>

section \<open>Scores\<close>

definition unit_score :: "rat option \<Rightarrow> bool" where
  "unit_score v \<longleftrightarrow> (case v of None \<Rightarrow> True | Some q \<Rightarrow> 0 \<le> q \<and> q \<le> 1)"

text \<open>\<open>_average\<close>: the mean of the values that are present.\<close>

definition average :: "rat option list \<Rightarrow> rat option" where
  "average values =
     (let present = List.map_filter id values
      in if present = [] then None else Some (sum_list present / of_nat (length present)))"

definition require_unique :: "'a list \<Rightarrow> bool" where
  "require_unique values \<longleftrightarrow> length values = length (remdups values)"

text \<open>\<open>len(a & set(b)) / len(set(b))\<close>.\<close>

definition coverage :: "'a list \<Rightarrow> 'a list \<Rightarrow> rat" where
  "coverage found expected =
     of_nat (length (filter (\<lambda>x. x \<in> set found) (remdups expected))) / of_nat (length (remdups expected))"

definition true_share :: "bool list \<Rightarrow> rat" where
  "true_share checks = of_nat (length (filter id checks)) / of_nat (length checks)"

section \<open>Benchmark data\<close>

datatype EvaluationMode = Mode_VECTOR | Mode_GRAPH | Mode_HYBRID

primrec evaluation_mode_value :: "EvaluationMode \<Rightarrow> pystr" where
  "evaluation_mode_value Mode_VECTOR = py ''vector''"
| "evaluation_mode_value Mode_GRAPH = py ''graph''"
| "evaluation_mode_value Mode_HYBRID = py ''hybrid''"

datatype EvaluationQueryType =
  Query_SEMANTIC_FACTUAL | Query_POLICY_LOOKUP | Query_MULTI_DOCUMENT
  | Query_RELATIONSHIP_IMPACT_CHAIN | Query_MULTI_HOP_RELATIONSHIP | Query_NEGATIVE_NO_ANSWER

record BenchmarkDocument =
  bd_document_id :: uuid
  bd_chunk_id :: uuid
  bd_title :: pystr
  bd_content :: pystr

record BenchmarkEntity =
  be_entity_id :: uuid
  be_canonical_name :: pystr
  be_entity_type :: KnowledgeEntityType

record ExpectedRelationship =
  xr_source_entity :: pystr
  xr_relationship_type :: KnowledgeRelationshipType
  xr_target_entity :: pystr

record BenchmarkRelationship = ExpectedRelationship +
  br_relationship_id :: uuid
  br_source_document_id :: uuid
  br_source_chunk_id :: uuid

type_synonym edge_key = "pystr \<times> KnowledgeRelationshipType \<times> pystr"

definition edge_key_of :: "fold_table \<Rightarrow> pystr \<Rightarrow> KnowledgeRelationshipType \<Rightarrow> pystr \<Rightarrow> edge_key" where
  "edge_key_of table source ty target = (py_casefold table source, ty, py_casefold table target)"

definition relationship_key :: "fold_table \<Rightarrow> 'a ExpectedRelationship_scheme \<Rightarrow> edge_key" where
  "relationship_key table r = edge_key_of table (xr_source_entity r) (xr_relationship_type r) (xr_target_entity r)"

definition expected_relationship_ok :: "'a ExpectedRelationship_scheme \<Rightarrow> bool" where
  "expected_relationship_ok r \<longleftrightarrow> len_between 1 500 (xr_source_entity r) \<and> len_between 1 500 (xr_target_entity r)"

text \<open>A path is its list of relationships.\<close>

record EvaluationExpectedEvidence =
  ee_document_ids :: "uuid list"
  ee_chunk_ids :: "uuid list"
  ee_entities :: "pystr list"
  ee_relationships :: "ExpectedRelationship list"
  ee_paths :: "ExpectedRelationship list list"

record FixtureGraphResult =
  fg_matched_entity_ids :: "uuid list"
  fg_related_entity_ids :: "uuid list"
  fg_relationship_ids :: "uuid list"
  fg_evidence_chunk_ids :: "uuid list"
  fg_depth_used :: int

record FixtureRetrievalResult =
  fx_vector_chunk_ids :: "uuid list"
  fx_graph :: FixtureGraphResult

record EvaluationCase =
  ec_query_id :: pystr
  ec_query :: pystr
  ec_query_type :: EvaluationQueryType
  ec_modes :: "EvaluationMode list"
  ec_expected :: EvaluationExpectedEvidence
  ec_fixture :: FixtureRetrievalResult
  ec_notes :: "pystr option"

record EvaluationDataset =
  ds_dataset_id :: pystr
  ds_version :: pystr
  ds_description :: pystr
  ds_synthetic :: bool
  ds_documents :: "BenchmarkDocument list"
  ds_entities :: "BenchmarkEntity list"
  ds_relationships :: "BenchmarkRelationship list"
  ds_cases :: "EvaluationCase list"

text \<open>The pattern \<^verbatim>\<open>^[a-z0-9][a-z0-9_-]{2,99}$\<close> of benchmark identifiers.\<close>

definition slug_start :: "codepoint \<Rightarrow> bool" where
  "slug_start c \<longleftrightarrow> 97 \<le> c \<and> c \<le> 122 \<or> 48 \<le> c \<and> c \<le> 57"

definition slug_ok :: "pystr \<Rightarrow> bool" where
  "slug_ok s \<longleftrightarrow>
     (case s of [] \<Rightarrow> False
      | c # rest \<Rightarrow> slug_start c \<and> len_between 2 99 rest \<and> list_all (\<lambda>d. slug_start d \<or> d = 95 \<or> d = 45) rest)"

text \<open>The declared field bounds.\<close>

definition case_fields_ok :: "EvaluationCase \<Rightarrow> bool" where
  "case_fields_ok c \<longleftrightarrow>
     slug_ok (ec_query_id c) \<and> len_between 1 4000 (ec_query c) \<and> ec_modes c \<noteq> [] \<and>
     opt_len_ok (ec_notes c) 1000 \<and>
     list_all expected_relationship_ok (ee_relationships (ec_expected c)) \<and>
     list_all (\<lambda>p. p \<noteq> [] \<and> list_all expected_relationship_ok p) (ee_paths (ec_expected c)) \<and>
     0 \<le> fg_depth_used (fx_graph (ec_fixture c)) \<and> fg_depth_used (fx_graph (ec_fixture c)) \<le> 5"

definition dataset_fields_ok :: "EvaluationDataset \<Rightarrow> bool" where
  "dataset_fields_ok d \<longleftrightarrow>
     len_between 1 100 (ds_dataset_id d) \<and> len_between 1 30 (ds_version d) \<and>
     len_between 1 1000 (ds_description d) \<and> ds_documents d \<noteq> [] \<and> ds_cases d \<noteq> [] \<and>
     list_all (\<lambda>b. len_between 1 300 (bd_title b) \<and> bd_content b \<noteq> []) (ds_documents d) \<and>
     list_all (\<lambda>b. len_between 1 500 (be_canonical_name b)) (ds_entities d) \<and>
     list_all expected_relationship_ok (ds_relationships d) \<and> list_all case_fields_ok (ds_cases d)"

section \<open>Data-set integrity\<close>

definition entry_satisfies :: "('k, 'v) dict \<Rightarrow> 'k \<Rightarrow> ('v \<Rightarrow> bool) \<Rightarrow> bool" where
  "entry_satisfies d k P \<longleftrightarrow> (case map_of d k of None \<Rightarrow> False | Some v \<Rightarrow> P v)"

definition relationship_sourced :: "fold_table \<Rightarrow> EvaluationDataset \<Rightarrow> BenchmarkRelationship \<Rightarrow> bool" where
  "relationship_sourced table d r \<longleftrightarrow>
     (let names = map (\<lambda>b. py_casefold table (be_canonical_name b)) (ds_entities d)
      in py_casefold table (xr_source_entity r) \<in> set names \<and>
         py_casefold table (xr_target_entity r) \<in> set names \<and>
         (case (map_of (dict_of bd_document_id (ds_documents d)) (br_source_document_id r),
                map_of (dict_of bd_chunk_id (ds_documents d)) (br_source_chunk_id r)) of
            (Some document, Some chunk) \<Rightarrow> bd_document_id chunk = bd_document_id document
          | _ \<Rightarrow> False))"

definition expectation_ok :: "fold_table \<Rightarrow> EvaluationDataset \<Rightarrow> EvaluationCase \<Rightarrow> bool" where
  "expectation_ok table d c \<longleftrightarrow>
     (let e = ec_expected c; chunks = dict_of bd_chunk_id (ds_documents d);
          edges = map (relationship_key table) (ee_relationships e)
      in require_unique (ee_document_ids e) \<and> require_unique (ee_chunk_ids e) \<and>
         require_unique (map (py_casefold table) (ee_entities e)) \<and> require_unique edges \<and>
         set (ee_document_ids e) \<subseteq> set (map bd_document_id (ds_documents d)) \<and>
         set (ee_chunk_ids e) \<subseteq> set (map bd_chunk_id (ds_documents d)) \<and>
         (ee_document_ids e \<noteq> [] \<and> ee_chunk_ids e \<noteq> [] \<longrightarrow>
            list_all (\<lambda>i. entry_satisfies chunks i (\<lambda>b. bd_document_id b \<in> set (ee_document_ids e))) (ee_chunk_ids e)) \<and>
         set (map (py_casefold table) (ee_entities e)) \<subseteq>
           set (map (\<lambda>b. py_casefold table (be_canonical_name b)) (ds_entities d)) \<and>
         set edges \<subseteq> set (map (relationship_key table) (ds_relationships d)) \<and>
         (ec_query_type c \<in> {Query_RELATIONSHIP_IMPACT_CHAIN, Query_MULTI_HOP_RELATIONSHIP} \<longrightarrow>
            ee_entities e \<noteq> [] \<and> ee_relationships e \<noteq> []) \<and>
         (ec_query_type c = Query_NEGATIVE_NO_ANSWER \<longrightarrow>
            ee_document_ids e = [] \<and> ee_chunk_ids e = [] \<and> ee_entities e = [] \<and> ee_relationships e = []) \<and>
         list_all (\<lambda>p. set (map (relationship_key table) p) \<subseteq> set edges) (ee_paths e))"

definition fixture_ok :: "EvaluationDataset \<Rightarrow> EvaluationCase \<Rightarrow> bool" where
  "fixture_ok d c \<longleftrightarrow>
     (let chunk_ids = map bd_chunk_id (ds_documents d); graph = fx_graph (ec_fixture c);
          relationships = dict_of br_relationship_id (ds_relationships d)
      in set (fx_vector_chunk_ids (ec_fixture c)) \<subseteq> set chunk_ids \<and>
         set (fg_matched_entity_ids graph @ fg_related_entity_ids graph) \<subseteq> set (map be_entity_id (ds_entities d)) \<and>
         set (fg_relationship_ids graph) \<subseteq> set (map br_relationship_id (ds_relationships d)) \<and>
         set (fg_evidence_chunk_ids graph) \<subseteq> set chunk_ids \<and>
         list_all (\<lambda>i. entry_satisfies relationships i (\<lambda>r. br_source_chunk_id r \<in> set (fg_evidence_chunk_ids graph)))
           (fg_relationship_ids graph))"

definition validate_integrity :: "fold_table \<Rightarrow> EvaluationDataset \<Rightarrow> bool" where
  "validate_integrity table d \<longleftrightarrow>
     require_unique (map bd_document_id (ds_documents d)) \<and> require_unique (map bd_chunk_id (ds_documents d)) \<and>
     require_unique (map be_entity_id (ds_entities d)) \<and>
     require_unique (map (\<lambda>b. py_casefold table (be_canonical_name b)) (ds_entities d)) \<and>
     require_unique (map br_relationship_id (ds_relationships d)) \<and>
     require_unique (map (relationship_key table) (ds_relationships d)) \<and>
     require_unique (map ec_query_id (ds_cases d)) \<and>
     list_all (relationship_sourced table d) (ds_relationships d) \<and>
     list_all (\<lambda>c. expectation_ok table d c \<and> fixture_ok d c) (ds_cases d)"

section \<open>Metrics\<close>

record RetrievalMetrics =
  rm_hit_rate_at_k :: "rat option"
  rm_precision_at_k :: "rat option"
  rm_recall_at_k :: "rat option"
  rm_mrr :: "rat option"
  rm_false_positive_rate :: "rat option"

definition no_retrieval_metrics :: RetrievalMetrics where
  "no_retrieval_metrics =
     \<lparr>rm_hit_rate_at_k = None, rm_precision_at_k = None, rm_recall_at_k = None, rm_mrr = None,
      rm_false_positive_rate = None\<rparr>"

definition retrieval_metrics_ok :: "RetrievalMetrics \<Rightarrow> bool" where
  "retrieval_metrics_ok m \<longleftrightarrow>
     unit_score (rm_hit_rate_at_k m) \<and> unit_score (rm_precision_at_k m) \<and> unit_score (rm_recall_at_k m) \<and>
     unit_score (rm_mrr m) \<and> unit_score (rm_false_positive_rate m)"

definition mk_retrieval_metrics :: "RetrievalMetrics \<Rightarrow> py_exc + RetrievalMetrics" where
  "mk_retrieval_metrics m = (if retrieval_metrics_ok m then Inr m else Inl ValidationExc)"

record GraphMetrics =
  gm_entity_hit_rate :: "rat option"
  gm_relationship_hit_rate :: "rat option"
  gm_path_success :: "rat option"
  gm_provenance_coverage :: "rat option"

definition no_graph_metrics :: GraphMetrics where
  "no_graph_metrics =
     \<lparr>gm_entity_hit_rate = None, gm_relationship_hit_rate = None, gm_path_success = None,
      gm_provenance_coverage = None\<rparr>"

definition graph_metrics_ok :: "GraphMetrics \<Rightarrow> bool" where
  "graph_metrics_ok m \<longleftrightarrow>
     unit_score (gm_entity_hit_rate m) \<and> unit_score (gm_relationship_hit_rate m) \<and>
     unit_score (gm_path_success m) \<and> unit_score (gm_provenance_coverage m)"

definition mk_graph_metrics :: "GraphMetrics \<Rightarrow> py_exc + GraphMetrics" where
  "mk_graph_metrics m = (if graph_metrics_ok m then Inr m else Inl ValidationExc)"

definition deduplicate_evidence :: "RetrievedEvidence list \<Rightarrow> RetrievedEvidence list" where
  "deduplicate_evidence evidence = dict_values (index_by ev_chunk_id [] evidence)"

fun first_rank :: "nat \<Rightarrow> uuid list \<Rightarrow> uuid list \<Rightarrow> nat option" where
  "first_rank rank expected [] = None"
| "first_rank rank expected (i # ids) =
     (if i \<in> set expected then Some rank else first_rank (Suc rank) expected ids)"

definition ranked_metrics :: "int \<Rightarrow> uuid list \<Rightarrow> uuid list \<Rightarrow> RetrievalMetrics" where
  "ranked_metrics k expected_ids retrieved_ids =
     (let relevant = length (filter (\<lambda>i. i \<in> set expected_ids) retrieved_ids)
      in \<lparr>rm_hit_rate_at_k = Some (if relevant = 0 then 0 else 1),
          rm_precision_at_k = Some (of_nat relevant / of_int k),
          rm_recall_at_k = Some (of_nat relevant / of_nat (length (remdups expected_ids))),
          rm_mrr = Some (case first_rank 1 expected_ids retrieved_ids of None \<Rightarrow> 0 | Some n \<Rightarrow> 1 / of_nat n),
          rm_false_positive_rate = None\<rparr>)"

definition calculate_retrieval_metrics ::
  "RetrievedEvidence list \<Rightarrow> EvaluationExpectedEvidence \<Rightarrow> int \<Rightarrow> bool \<Rightarrow> py_exc + RetrievalMetrics" where
  "calculate_retrieval_metrics evidence expected k negative =
     (if k < 1 then Inl ValueExc
      else let ranked = deduplicate_evidence (take (nat k) evidence)
        in if negative
           then mk_retrieval_metrics (no_retrieval_metrics\<lparr>rm_false_positive_rate := Some (if ranked = [] then 0 else 1)\<rparr>)
           else let use_chunks = (ee_chunk_ids expected \<noteq> []);
                    expected_ids = (if use_chunks then ee_chunk_ids expected else ee_document_ids expected)
             in if expected_ids = [] then mk_retrieval_metrics no_retrieval_metrics
                else mk_retrieval_metrics
                  (ranked_metrics k expected_ids (map (if use_chunks then ev_chunk_id else ev_document_id) ranked)))"

definition found_key :: "fold_table \<Rightarrow> GraphRelationshipResult \<Rightarrow> edge_key" where
  "found_key table r = edge_key_of table (gl_source_entity_name r) (gl_relationship_type r) (gl_target_entity_name r)"

definition item_traceable :: "BenchmarkDocument list \<Rightarrow> RetrievedEvidence \<Rightarrow> bool" where
  "item_traceable corpus item =
     entry_satisfies (dict_of bd_chunk_id corpus) (ev_chunk_id item)
       (\<lambda>source. bd_document_id source = ev_document_id item \<and> bd_title source = ev_document_title item)"

definition edge_traceable ::
  "fold_table \<Rightarrow> BenchmarkRelationship list \<Rightarrow> GraphRelationshipResult \<Rightarrow> bool" where
  "edge_traceable table rels item =
     entry_satisfies (dict_of (relationship_key table) rels) (found_key table item)
       (\<lambda>r. br_source_chunk_id r = gl_source_chunk_id item \<and> br_source_document_id r = gl_source_document_id item)"

definition path_found :: "fold_table \<Rightarrow> GraphNeighborhood \<Rightarrow> ExpectedRelationship list \<Rightarrow> bool" where
  "path_found table n path \<longleftrightarrow>
     int (length path) \<le> gn_depth_used n \<and>
     list_all (\<lambda>step. relationship_key table step \<in> set (map (found_key table) (gn_relationships n))) path"

definition calculate_graph_metrics ::
  "fold_table \<Rightarrow> GraphNeighborhood option \<Rightarrow> RetrievedEvidence list \<Rightarrow> EvaluationExpectedEvidence \<Rightarrow>
     BenchmarkDocument list \<Rightarrow> BenchmarkRelationship list \<Rightarrow> py_exc + GraphMetrics" where
  "calculate_graph_metrics table neighborhood evidence expected corpus benchmark_relationships =
     (let relationships = (case neighborhood of None \<Rightarrow> [] | Some n \<Rightarrow> gn_relationships n);
          expected_entities = map (py_casefold table) (ee_entities expected);
          expected_relationships = map (relationship_key table) (ee_relationships expected);
          checks = map (item_traceable corpus) (deduplicate_evidence evidence) @
                   map (edge_traceable table benchmark_relationships) relationships
      in mk_graph_metrics
        \<lparr>gm_entity_hit_rate =
           (case neighborhood of None \<Rightarrow> None
            | Some n \<Rightarrow>
                if expected_entities = [] then None
                else Some (coverage
                  (map (\<lambda>e. py_casefold table (ge_canonical_name e)) (gn_matched_entities n @ gn_related_entities n))
                  expected_entities)),
         gm_relationship_hit_rate =
           (case neighborhood of None \<Rightarrow> None
            | Some n \<Rightarrow>
                if expected_relationships = [] then None
                else Some (coverage (map (found_key table) (gn_relationships n)) expected_relationships)),
         gm_path_success =
           (case neighborhood of None \<Rightarrow> None
            | Some n \<Rightarrow>
                if ee_paths expected = [] then None
                else Some (true_share (map (path_found table n) (ee_paths expected)))),
         gm_provenance_coverage = (if checks = [] then None else Some (true_share checks))\<rparr>)"

definition count_of :: "('k, nat) dict \<Rightarrow> 'k \<Rightarrow> nat" where
  "count_of counts k = (case map_of counts k of None \<Rightarrow> 0 | Some n \<Rightarrow> n)"

definition evidence_origin_mix :: "RetrievedEvidence list \<Rightarrow> (RetrievalSource, nat) dict" where
  "evidence_origin_mix evidence =
     fold (\<lambda>item counts. AList.update (ev_retrieval_source item) (count_of counts (ev_retrieval_source item) + 1) counts)
       (deduplicate_evidence evidence) []"

section \<open>The runner\<close>

record EvidenceObservation =
  eo_document_id :: uuid
  eo_chunk_id :: uuid
  eo_title :: pystr
  eo_retrieval_origin :: RetrievalSource

record RelationshipObservation = ExpectedRelationship +
  ro_source_document_id :: uuid
  ro_source_chunk_id :: uuid

record CaseEvaluationResult =
  ce_query_id :: pystr
  ce_query_type :: EvaluationQueryType
  ce_skipped :: bool
  ce_skip_reason :: "pystr option"
  ce_retrieved_evidence :: "EvidenceObservation list"
  ce_retrieved_entities :: "pystr list"
  ce_retrieved_relationships :: "RelationshipObservation list"
  ce_retrieval_metrics :: RetrievalMetrics
  ce_graph_metrics :: GraphMetrics
  ce_evidence_origin_mix :: "(RetrievalSource, nat) dict"
  ce_warnings :: "pystr list"

record EvaluationConfiguration =
  cf_embedding_model :: pystr
  cf_embedding_dimensions :: int
  cf_top_k :: int
  cf_similarity_threshold :: rat
  cf_chunk_size :: int
  cf_chunk_overlap :: int
  cf_graph_max_depth :: int
  cf_graph_min_confidence :: rat
  cf_graph_max_entities :: int

definition configuration_ok :: "EvaluationConfiguration \<Rightarrow> bool" where
  "configuration_ok c \<longleftrightarrow>
     1 \<le> cf_embedding_dimensions c \<and> 1 \<le> cf_top_k c \<and>
     - 1 \<le> cf_similarity_threshold c \<and> cf_similarity_threshold c \<le> 1 \<and>
     1 \<le> cf_chunk_size c \<and> 0 \<le> cf_chunk_overlap c \<and>
     1 \<le> cf_graph_max_depth c \<and> cf_graph_max_depth c \<le> 5 \<and>
     0 \<le> cf_graph_min_confidence c \<and> cf_graph_min_confidence c \<le> 1 \<and> 1 \<le> cf_graph_max_entities c"

record AggregateMetrics =
  am_retrieval :: RetrievalMetrics
  am_graph :: GraphMetrics
  am_evidence_origin_mix :: "(RetrievalSource, nat) dict"

text \<open>The macro average of every metric and the sum of the origin counts over the evaluated cases.\<close>

definition add_counts :: "('k, nat) dict \<Rightarrow> ('k, nat) dict \<Rightarrow> ('k, nat) dict" where
  "add_counts counts origins =
     fold (\<lambda>(origin, n) acc. AList.update origin (count_of acc origin + n) acc) counts origins"

definition aggregate_case_results :: "CaseEvaluationResult list \<Rightarrow> py_exc + AggregateMetrics" where
  "aggregate_case_results results =
     (let evaluated = filter (\<lambda>c. \<not> ce_skipped c) results;
          origins = fold (\<lambda>c. add_counts (ce_evidence_origin_mix c)) evaluated [];
          mean_r = (\<lambda>field. average (map (\<lambda>c. field (ce_retrieval_metrics c)) evaluated));
          mean_g = (\<lambda>field. average (map (\<lambda>c. field (ce_graph_metrics c)) evaluated))
      in case mk_retrieval_metrics
             \<lparr>rm_hit_rate_at_k = mean_r rm_hit_rate_at_k, rm_precision_at_k = mean_r rm_precision_at_k,
              rm_recall_at_k = mean_r rm_recall_at_k, rm_mrr = mean_r rm_mrr,
              rm_false_positive_rate = mean_r rm_false_positive_rate\<rparr> of
           Inl e \<Rightarrow> Inl e
         | Inr rm \<Rightarrow>
             map_sum id (\<lambda>gm. \<lparr>am_retrieval = rm, am_graph = gm, am_evidence_origin_mix = origins\<rparr>)
               (mk_graph_metrics
                 \<lparr>gm_entity_hit_rate = mean_g gm_entity_hit_rate,
                  gm_relationship_hit_rate = mean_g gm_relationship_hit_rate,
                  gm_path_success = mean_g gm_path_success,
                  gm_provenance_coverage = mean_g gm_provenance_coverage\<rparr>))"

record EvaluationRunner =
  er_dataset :: EvaluationDataset
  er_vector :: "pystr \<Rightarrow> int \<Rightarrow> py_exc + RetrievedEvidence list"
  er_graph :: "pystr \<Rightarrow> int \<Rightarrow> py_exc + GraphNeighborhood"
  er_hybrid :: "pystr \<Rightarrow> int \<Rightarrow> int \<Rightarrow> py_exc + HybridRetrievalResult"
  er_configuration :: EvaluationConfiguration
  er_execution_profile :: pystr
  er_fold :: fold_table

definition observation :: "RetrievedEvidence \<Rightarrow> EvidenceObservation" where
  "observation item =
     \<lparr>eo_document_id = ev_document_id item, eo_chunk_id = ev_chunk_id item, eo_title = ev_document_title item,
      eo_retrieval_origin = ev_retrieval_source item\<rparr>"

definition relationship_observation :: "GraphRelationshipResult \<Rightarrow> RelationshipObservation" where
  "relationship_observation r =
     \<lparr>xr_source_entity = gl_source_entity_name r, xr_relationship_type = gl_relationship_type r,
      xr_target_entity = gl_target_entity_name r, ro_source_document_id = gl_source_document_id r,
      ro_source_chunk_id = gl_source_chunk_id r\<rparr>"

definition run_search ::
  "EvaluationRunner \<Rightarrow> EvaluationCase \<Rightarrow> EvaluationMode \<Rightarrow>
     py_exc + (RetrievedEvidence list \<times> GraphNeighborhood option)" where
  "run_search er c mode =
     (case mode of
        Mode_VECTOR \<Rightarrow>
          map_sum id (\<lambda>evidence. (evidence, None)) (er_vector er (ec_query c) (cf_top_k (er_configuration er)))
      | Mode_GRAPH \<Rightarrow>
          map_sum id (\<lambda>n. (gn_evidence n, Some n))
            (er_graph er (ec_query c) (cf_graph_max_depth (er_configuration er)))
      | Mode_HYBRID \<Rightarrow>
          map_sum id (\<lambda>h. (hrr_evidence h, Some (hrr_neighborhood h)))
            (er_hybrid er (ec_query c) (cf_top_k (er_configuration er)) (cf_graph_max_depth (er_configuration er))))"

definition run_case ::
  "EvaluationRunner \<Rightarrow> EvaluationMode \<Rightarrow> EvaluationCase \<Rightarrow> py_exc + CaseEvaluationResult" where
  "run_case er mode c =
     (if mode \<notin> set (ec_modes c)
      then Inr \<lparr>ce_query_id = ec_query_id c, ce_query_type = ec_query_type c, ce_skipped = True,
                ce_skip_reason = Some (evaluation_mode_value mode @ py '' mode is not applicable to this benchmark case''),
                ce_retrieved_evidence = [], ce_retrieved_entities = [], ce_retrieved_relationships = [],
                ce_retrieval_metrics = no_retrieval_metrics, ce_graph_metrics = no_graph_metrics,
                ce_evidence_origin_mix = [], ce_warnings = []\<rparr>
      else case run_search er c mode of
             Inl e \<Rightarrow> Inl e
           | Inr (evidence, neighborhood) \<Rightarrow>
               (case calculate_retrieval_metrics evidence (ec_expected c) (cf_top_k (er_configuration er))
                       (ec_query_type c = Query_NEGATIVE_NO_ANSWER) of
                  Inl e \<Rightarrow> Inl e
                | Inr rm \<Rightarrow>
                    (case calculate_graph_metrics (er_fold er) neighborhood evidence (ec_expected c)
                            (ds_documents (er_dataset er)) (ds_relationships (er_dataset er)) of
                       Inl e \<Rightarrow> Inl e
                     | Inr gm \<Rightarrow>
                         let found = (case neighborhood of None \<Rightarrow> [] | Some n \<Rightarrow>
                               map relationship_observation (gn_relationships n))
                         in if \<not> list_all expected_relationship_ok found then Inl ValidationExc
                            else Inr
                              \<lparr>ce_query_id = ec_query_id c, ce_query_type = ec_query_type c, ce_skipped = False,
                               ce_skip_reason = None,
                               ce_retrieved_evidence = map observation evidence,
                               ce_retrieved_entities =
                                 (case neighborhood of None \<Rightarrow> [] | Some n \<Rightarrow>
                                    map ge_canonical_name (gn_matched_entities n @ gn_related_entities n)),
                               ce_retrieved_relationships = found,
                               ce_retrieval_metrics = rm, ce_graph_metrics = gm,
                               ce_evidence_origin_mix = evidence_origin_mix evidence, ce_warnings = []\<rparr>)))"

record EvaluationReport =
  rp_generated_at :: instant
  rp_execution_profile :: pystr
  rp_evaluation_mode :: EvaluationMode
  rp_dataset_id :: pystr
  rp_dataset_version :: pystr
  rp_synthetic :: bool
  rp_total_cases :: nat
  rp_evaluated_cases :: nat
  rp_skipped_cases :: "pystr list"
  rp_configuration :: EvaluationConfiguration
  rp_cases :: "CaseEvaluationResult list"
  rp_aggregate_metrics :: AggregateMetrics
  rp_warnings :: "pystr list"

fun run_cases :: "EvaluationRunner \<Rightarrow> EvaluationMode \<Rightarrow> EvaluationCase list \<Rightarrow> py_exc + CaseEvaluationResult list" where
  "run_cases er mode [] = Inr []"
| "run_cases er mode (c # cs) =
     (case run_case er mode c of
        Inl e \<Rightarrow> Inl e
      | Inr r \<Rightarrow> map_sum id (Cons r) (run_cases er mode cs))"

definition run_evaluation :: "EvaluationRunner \<Rightarrow> EvaluationMode \<Rightarrow> instant \<Rightarrow> py_exc + EvaluationReport" where
  "run_evaluation er mode now =
     (case run_cases er mode (ds_cases (er_dataset er)) of
        Inl e \<Rightarrow> Inl e
      | Inr results \<Rightarrow>
          let skipped = map ce_query_id (filter ce_skipped results)
          in case aggregate_case_results results of
               Inl e \<Rightarrow> Inl e
             | Inr aggregate \<Rightarrow>
                 if length results < 1 then Inl ValidationExc
                 else Inr
                   \<lparr>rp_generated_at = now, rp_execution_profile = er_execution_profile er, rp_evaluation_mode = mode,
                    rp_dataset_id = ds_dataset_id (er_dataset er), rp_dataset_version = ds_version (er_dataset er),
                    rp_synthetic = ds_synthetic (er_dataset er), rp_total_cases = length results,
                    rp_evaluated_cases = length results - length skipped, rp_skipped_cases = skipped,
                    rp_configuration = er_configuration er, rp_cases = results, rp_aggregate_metrics = aggregate,
                    rp_warnings =
                      [py ''Synthetic deterministic fixture results; not live retrieval-quality metrics.'',
                       py ''Live OpenAI/PostgreSQL evaluation was not requested and was skipped.'']\<rparr>)"

section \<open>Deterministic fixtures\<close>

definition benchmark_evidence :: "RetrievalSource \<Rightarrow> BenchmarkDocument \<Rightarrow> nat \<Rightarrow> RetrievedEvidence" where
  "benchmark_evidence origin d rank =
     \<lparr>ev_chunk_id = bd_chunk_id d, ev_document_id = bd_document_id d, ev_document_title = bd_title d,
      ev_content = bd_content d,
      ev_similarity_score =
        (if origin = Retrieval_VECTOR then Some (max 0 (1 - (of_nat rank - 1) * (5 / 100))) else None),
      ev_source_type = Source_SYNTHETIC,
      ev_metadata = [(py ''synthetic'', JBool True), (py ''benchmark_rank'', JInt (int rank))],
      ev_retrieval_source = origin\<rparr>"

text \<open>\<open>self._documents[chunk_id]\<close> for every chunk, ranks counted from one.\<close>

fun ranked_evidence ::
  "RetrievalSource \<Rightarrow> (uuid, BenchmarkDocument) dict \<Rightarrow> nat \<Rightarrow> uuid list \<Rightarrow> py_exc + RetrievedEvidence list" where
  "ranked_evidence origin documents rank [] = Inr []"
| "ranked_evidence origin documents rank (i # ids) =
     (case map_of documents i of
        None \<Rightarrow> Inl KeyExc
      | Some d \<Rightarrow> map_sum id (Cons (benchmark_evidence origin d rank)) (ranked_evidence origin documents (Suc rank) ids))"

definition case_for :: "EvaluationDataset \<Rightarrow> pystr \<Rightarrow> EvaluationCase option" where
  "case_for ds query = map_of (dict_of ec_query (ds_cases ds)) query"

definition fixture_vector_search ::
  "EvaluationDataset \<Rightarrow> pystr \<Rightarrow> nat option \<Rightarrow> py_exc + RetrievedEvidence list" where
  "fixture_vector_search ds query top_k =
     (case case_for ds query of
        None \<Rightarrow> Inr []
      | Some c \<Rightarrow>
          let ids = fx_vector_chunk_ids (ec_fixture c);
              limit = (case top_k of Some (Suc n) \<Rightarrow> Suc n | _ \<Rightarrow> length ids)
          in ranked_evidence Retrieval_VECTOR (dict_of bd_chunk_id (ds_documents ds)) 1 (take limit ids))"

text \<open>\<open>next(entity for entity in ... if entity.canonical_name == name)\<close>: no match is a \<open>StopIteration\<close>.\<close>

definition entity_named :: "EvaluationDataset \<Rightarrow> pystr \<Rightarrow> py_exc + BenchmarkEntity" where
  "entity_named ds name =
     (case find (\<lambda>b. be_canonical_name b = name) (dict_values (dict_of be_entity_id (ds_entities ds))) of
        None \<Rightarrow> Inl (OtherExc (py ''StopIteration''))
      | Some b \<Rightarrow> Inr b)"

definition fixture_relationship :: "EvaluationDataset \<Rightarrow> uuid \<Rightarrow> py_exc + GraphRelationshipResult" where
  "fixture_relationship ds i =
     (case map_of (dict_of br_relationship_id (ds_relationships ds)) i of
        None \<Rightarrow> Inl KeyExc
      | Some item \<Rightarrow>
          (case entity_named ds (xr_source_entity item) of
             Inl e \<Rightarrow> Inl e
           | Inr source \<Rightarrow>
               map_sum id (\<lambda>target.
                 \<lparr>gl_relationship_id = br_relationship_id item, gl_source_entity_id = be_entity_id source,
                  gl_source_entity_name = be_canonical_name source, gl_target_entity_id = be_entity_id target,
                  gl_target_entity_name = be_canonical_name target,
                  gl_relationship_type = xr_relationship_type item, gl_description = None, gl_confidence = 1,
                  gl_source_document_id = br_source_document_id item,
                  gl_source_chunk_id = br_source_chunk_id item\<rparr>)
                 (entity_named ds (xr_target_entity item))))"

definition fixture_entity :: "fold_table \<Rightarrow> EvaluationDataset \<Rightarrow> uuid \<Rightarrow> py_exc + GraphEntityResult" where
  "fixture_entity table ds i =
     (case map_of (dict_of be_entity_id (ds_entities ds)) i of
        None \<Rightarrow> Inl KeyExc
      | Some item \<Rightarrow>
          Inr \<lparr>ge_entity_id = be_entity_id item, ge_entity_type = be_entity_type item,
               ge_canonical_name = be_canonical_name item,
               ge_normalized_name = py_casefold table (be_canonical_name item), ge_description = None\<rparr>)"

fun try_map :: "('a \<Rightarrow> 'e + 'b) \<Rightarrow> 'a list \<Rightarrow> 'e + 'b list" where
  "try_map f [] = Inr []"
| "try_map f (x # xs) = (case f x of Inl e \<Rightarrow> Inl e | Inr y \<Rightarrow> map_sum id (Cons y) (try_map f xs))"

definition checked_neighborhood :: "GraphNeighborhood \<Rightarrow> py_exc + GraphNeighborhood" where
  "checked_neighborhood n = (if neighborhood_ok n then Inr n else Inl ValidationExc)"

definition fixture_neighborhood ::
  "fold_table \<Rightarrow> EvaluationDataset \<Rightarrow> pystr \<Rightarrow> FixtureGraphResult \<Rightarrow> py_exc + GraphNeighborhood" where
  "fixture_neighborhood table ds query fixture =
     (case ranked_evidence Retrieval_GRAPH (dict_of bd_chunk_id (ds_documents ds)) 1 (fg_evidence_chunk_ids fixture) of
        Inl e \<Rightarrow> Inl e
      | Inr evidence \<Rightarrow>
     (case try_map (fixture_relationship ds) (fg_relationship_ids fixture) of
        Inl e \<Rightarrow> Inl e
      | Inr relationships \<Rightarrow>
     (case try_map (fixture_entity table ds) (fg_matched_entity_ids fixture) of
        Inl e \<Rightarrow> Inl e
      | Inr matched \<Rightarrow>
     (case try_map (fixture_entity table ds) (fg_related_entity_ids fixture) of
        Inl e \<Rightarrow> Inl e
      | Inr related \<Rightarrow>
          checked_neighborhood
            \<lparr>gn_query = query, gn_matched_entities = matched, gn_related_entities = related,
             gn_relationships = relationships,
             gn_source_document_ids = dedup (map ev_document_id evidence),
             gn_source_chunk_ids = dedup (map ev_chunk_id evidence),
             gn_depth_used = fg_depth_used fixture, gn_evidence = evidence\<rparr>))))"

definition fixture_graph_search ::
  "fold_table \<Rightarrow> EvaluationDataset \<Rightarrow> pystr \<Rightarrow> int option \<Rightarrow> py_exc + GraphNeighborhood" where
  "fixture_graph_search table ds query max_depth =
     (case case_for ds query of
        None \<Rightarrow> checked_neighborhood (empty_neighborhood query)
      | Some c \<Rightarrow>
          if (case max_depth of None \<Rightarrow> False | Some n \<Rightarrow> n < fg_depth_used (fx_graph (ec_fixture c)))
          then checked_neighborhood (empty_neighborhood query)
          else fixture_neighborhood table ds query (fx_graph (ec_fixture c)))"

section \<open>Comparison\<close>

record EvaluationComparison =
  cmp_dataset_id :: pystr
  cmp_dataset_version :: pystr
  cmp_synthetic :: bool
  cmp_modes :: "EvaluationMode list"
  cmp_rows :: "(pystr \<times> (EvaluationMode, rat option) dict) list"
  cmp_warnings :: "pystr list"
  cmp_generated_at :: instant

definition comparison_metrics :: "(pystr \<times> (AggregateMetrics \<Rightarrow> rat option)) list" where
  "comparison_metrics =
     [(py ''hit_rate_at_k'', \<lambda>a. rm_hit_rate_at_k (am_retrieval a)),
      (py ''precision_at_k'', \<lambda>a. rm_precision_at_k (am_retrieval a)),
      (py ''recall_at_k'', \<lambda>a. rm_recall_at_k (am_retrieval a)),
      (py ''mrr'', \<lambda>a. rm_mrr (am_retrieval a)),
      (py ''entity_hit_rate'', \<lambda>a. gm_entity_hit_rate (am_graph a)),
      (py ''relationship_hit_rate'', \<lambda>a. gm_relationship_hit_rate (am_graph a)),
      (py ''path_success'', \<lambda>a. gm_path_success (am_graph a)),
      (py ''provenance_coverage'', \<lambda>a. gm_provenance_coverage (am_graph a)),
      (py ''false_positive_rate'', \<lambda>a. rm_false_positive_rate (am_retrieval a))]"

definition build_comparison :: "EvaluationReport list \<Rightarrow> instant \<Rightarrow> py_exc + EvaluationComparison" where
  "build_comparison reports now =
     (case reports of
        [] \<Rightarrow> Inl ValueExc
      | first # _ \<Rightarrow>
          if length (remdups (map (\<lambda>r. (rp_dataset_id r, rp_dataset_version r)) reports)) \<noteq> 1 then Inl ValueExc
          else let by_mode = dict_of rp_evaluation_mode reports
            in if length by_mode \<noteq> length reports then Inl ValueExc
               else let present = List.map_filter (\<lambda>m. map_option (Pair m) (map_of by_mode m))
                          [Mode_VECTOR, Mode_GRAPH, Mode_HYBRID]
                 in Inr
                   \<lparr>cmp_dataset_id = rp_dataset_id first, cmp_dataset_version = rp_dataset_version first,
                    cmp_synthetic = list_all rp_synthetic reports, cmp_modes = map fst present,
                    cmp_rows = map (\<lambda>(name, accessor).
                        (name, map (\<lambda>(m, r). (m, accessor (rp_aggregate_metrics r))) present)) comparison_metrics,
                    cmp_warnings = [py ''Calculated synthetic fixture comparison; not a live retrieval-quality claim.''],
                    cmp_generated_at = now\<rparr>)"

section \<open>Averages\<close>

text \<open>A metric whose validated values lie between zero and one, as every aggregated field does.\<close>

locale unit_metric =
  fixes valid :: "'m \<Rightarrow> bool" and field :: "'m \<Rightarrow> rat option"
  assumes bounded: "valid m \<Longrightarrow> unit_score (field m)"
begin

lemma present_bounded:
  assumes "list_all valid ms"
  shows "\<forall>q \<in> set (List.map_filter id (map field ms)). 0 \<le> q \<and> q \<le> 1"
  using assms bounded by (force simp: map_filter_def unit_score_def list_all_iff)

lemma average_bounded:
  assumes "list_all valid ms"
  shows "unit_score (average (map field ms))"
proof -
  let ?p = "List.map_filter id (map field ms)"
  have "0 \<le> sum_list ?p" using present_bounded[OF assms] by (intro sum_list_nonneg) blast
  moreover have "sum_list ?p \<le> of_nat (length ?p)"
    using sum_list_mono[of ?p "\<lambda>q. q" "\<lambda>_. 1"] present_bounded[OF assms] by (simp add: sum_list_triv)
  ultimately show ?thesis by (auto simp: average_def unit_score_def Let_def divide_le_eq)
qed

end

interpretation hit_rate: unit_metric retrieval_metrics_ok rm_hit_rate_at_k
  by unfold_locales (simp add: retrieval_metrics_ok_def)

interpretation precision: unit_metric retrieval_metrics_ok rm_precision_at_k
  by unfold_locales (simp add: retrieval_metrics_ok_def)

interpretation recall: unit_metric retrieval_metrics_ok rm_recall_at_k
  by unfold_locales (simp add: retrieval_metrics_ok_def)

interpretation mrr: unit_metric retrieval_metrics_ok rm_mrr
  by unfold_locales (simp add: retrieval_metrics_ok_def)

interpretation false_positives: unit_metric retrieval_metrics_ok rm_false_positive_rate
  by unfold_locales (simp add: retrieval_metrics_ok_def)

interpretation entity_hits: unit_metric graph_metrics_ok gm_entity_hit_rate
  by unfold_locales (simp add: graph_metrics_ok_def)

interpretation relationship_hits: unit_metric graph_metrics_ok gm_relationship_hit_rate
  by unfold_locales (simp add: graph_metrics_ok_def)

interpretation paths: unit_metric graph_metrics_ok gm_path_success
  by unfold_locales (simp add: graph_metrics_ok_def)

interpretation provenance: unit_metric graph_metrics_ok gm_provenance_coverage
  by unfold_locales (simp add: graph_metrics_ok_def)

lemma average_map_comp: "map (\<lambda>c. field (g c)) cs = map field (map g cs)"
  by simp

definition case_scores_ok :: "CaseEvaluationResult \<Rightarrow> bool" where
  "case_scores_ok c \<longleftrightarrow> retrieval_metrics_ok (ce_retrieval_metrics c) \<and> graph_metrics_ok (ce_graph_metrics c)"

lemma aggregate_total:
  assumes "list_all case_scores_ok results"
  shows "\<exists>a. aggregate_case_results results = Inr a \<and>
    retrieval_metrics_ok (am_retrieval a) \<and> graph_metrics_ok (am_graph a) \<and>
    gm_provenance_coverage (am_graph a) =
      average (map (\<lambda>c. gm_provenance_coverage (ce_graph_metrics c)) (filter (\<lambda>c. \<not> ce_skipped c) results))"
proof -
  let ?e = "filter (\<lambda>c. \<not> ce_skipped c) results"
  have r: "list_all retrieval_metrics_ok (map ce_retrieval_metrics ?e)"
    and g: "list_all graph_metrics_ok (map ce_graph_metrics ?e)"
    using assms by (auto simp: list_all_iff case_scores_ok_def)
  note scores = hit_rate.average_bounded[OF r] precision.average_bounded[OF r] recall.average_bounded[OF r]
    mrr.average_bounded[OF r] false_positives.average_bounded[OF r] entity_hits.average_bounded[OF g]
    relationship_hits.average_bounded[OF g] paths.average_bounded[OF g] provenance.average_bounded[OF g]
  show ?thesis
    using scores unfolding aggregate_case_results_def Let_def average_map_comp
    by (simp add: mk_retrieval_metrics_def retrieval_metrics_ok_def mk_graph_metrics_def graph_metrics_ok_def)
qed

section \<open>Rank metrics\<close>

lemma dedup_evidence_distinct: "distinct (map ev_chunk_id (deduplicate_evidence es))"
  by (simp add: deduplicate_evidence_def keyed_distinct keyed_index_by)

lemma dedup_evidence_subset: "set (deduplicate_evidence es) \<subseteq> set es"
  using values_index_by_subset[of ev_chunk_id "[]" es] by (auto simp: deduplicate_evidence_def dict_values_def)

lemma first_rank_Some: "first_rank r E ids = Some n \<Longrightarrow> r \<le> n \<and> n - r < length ids \<and> ids ! (n - r) \<in> set E"
proof (induction r E ids rule: first_rank.induct)
  case (2 r E i ids)
  show ?case
  proof (cases "i \<in> set E")
    case False
    with 2 have "Suc r \<le> n" "n - Suc r < length ids" "ids ! (n - Suc r) \<in> set E" by simp_all
    moreover from this have "n - r = Suc (n - Suc r)" by simp
    ultimately show ?thesis by simp
  qed (use 2 in simp)
qed simp

lemma first_rank_None: "first_rank r E ids = None \<longleftrightarrow> (\<forall>i \<in> set ids. i \<notin> set E)"
  by (induction r E ids rule: first_rank.induct) auto

lemma relevant_distinct:
  assumes "distinct ids"
  shows "length (filter (\<lambda>i. i \<in> set E) ids) \<le> length (remdups E)"
proof -
  have "length (filter (\<lambda>i. i \<in> set E) ids) = card (set ids \<inter> set E)"
    using distinct_card[OF distinct_filter[OF assms, of "\<lambda>i. i \<in> set E"]] by (simp add: Int_def)
  also have "\<dots> \<le> card (set E)" by (simp add: card_mono)
  finally show ?thesis by (simp add: length_remdups_card_conv)
qed

lemma ranked_metrics_ok:
  assumes "1 \<le> k" and "int (length ids) \<le> k" and "E \<noteq> []"
  shows "retrieval_metrics_ok (ranked_metrics k E ids) \<longleftrightarrow>
    length (filter (\<lambda>i. i \<in> set E) ids) \<le> length (remdups E)"
proof -
  let ?n = "length (filter (\<lambda>i. i \<in> set E) ids)"
  have "int ?n \<le> k" using assms(2) length_filter_le[of "\<lambda>i. i \<in> set E" ids] by linarith
  then have precision: "(of_nat ?n :: rat) \<le> of_int k" by (metis of_int_le_iff of_int_of_nat_eq)
  have pos: "0 < length (remdups E)" using assms(3) by simp
  have mrr: "unit_score (rm_mrr (ranked_metrics k E ids))"
    using first_rank_Some[of 1 E ids]
    by (auto simp: ranked_metrics_def unit_score_def Let_def divide_le_eq split: option.split)
  have "(0::rat) < of_int k" using assms(1) by simp
  then show ?thesis
    using precision pos mrr assms(1)
    by (simp add: retrieval_metrics_ok_def ranked_metrics_def unit_score_def Let_def divide_le_eq of_nat_le_iff)
qed

text \<open>What the rank metrics are computed from.\<close>

definition scored_ids :: "EvaluationExpectedEvidence \<Rightarrow> uuid list" where
  "scored_ids expected = (if ee_chunk_ids expected \<noteq> [] then ee_chunk_ids expected else ee_document_ids expected)"

definition ranked_ids :: "EvaluationExpectedEvidence \<Rightarrow> int \<Rightarrow> RetrievedEvidence list \<Rightarrow> uuid list" where
  "ranked_ids expected k evidence =
     map (if ee_chunk_ids expected \<noteq> [] then ev_chunk_id else ev_document_id)
       (deduplicate_evidence (take (nat k) evidence))"

lemma length_deduplicate: "length (deduplicate_evidence es) \<le> length es"
proof -
  have "length (deduplicate_evidence es) = card (ev_chunk_id ` set (deduplicate_evidence es))"
    using distinct_card[OF dedup_evidence_distinct[of es]] by simp
  also have "\<dots> \<le> card (ev_chunk_id ` set es)" using dedup_evidence_subset[of es] by (intro card_mono image_mono) auto
  also have "\<dots> \<le> length es" using card_length[of "map ev_chunk_id es"] by simp
  finally show ?thesis .
qed

lemma ranked_ids_length: "int (length (ranked_ids expected k evidence)) \<le> max 0 k"
  using length_deduplicate[of "take (nat k) evidence"] by (auto simp: ranked_ids_def)

lemma recall_full_iff:
  assumes "distinct ids" and "E \<noteq> []"
  shows "length (filter (\<lambda>i. i \<in> set E) ids) = length (remdups E) \<longleftrightarrow> set E \<subseteq> set ids"
proof -
  have f: "length (filter (\<lambda>i. i \<in> set E) ids) = card (set ids \<inter> set E)"
    using distinct_card[OF distinct_filter[OF assms(1), of "\<lambda>i. i \<in> set E"]] by (simp add: Int_def)
  have "card (set ids \<inter> set E) = card (set E) \<longleftrightarrow> set ids \<inter> set E = set E"
    by (metis List.finite_set card_subset_eq inf_le2)
  then show ?thesis unfolding f length_remdups_card_conv by blast
qed

text \<open>The rank metrics of one query mean what they say. With a positive \<open>k\<close> the calculation
  returns scores between zero and one: for a negative query the false-positive rate is zero exactly
  when nothing was retrieved; otherwise the hit rate is one exactly when an expected identifier is among the
  first \<open>k\<close> results, recall is one exactly when all of them are, and the reciprocal rank is that of
  the first hit. The one exception: when only documents are expected and several chunks of one
  document are retrieved, they are counted each, and a count above the number of expected documents is
  rejected by the score's own bound.\<close>

theorem retrieval_metrics_meaning:
  assumes k: "1 \<le> k"
  shows "(negative \<longrightarrow> (\<exists>m. calculate_retrieval_metrics evidence expected k negative = Inr m \<and>
       rm_false_positive_rate m = Some (if evidence = [] then 0 else 1))) \<and>
    (\<not> negative \<and> scored_ids expected \<noteq> [] \<and> distinct (ranked_ids expected k evidence) \<longrightarrow>
       (\<exists>m. calculate_retrieval_metrics evidence expected k negative = Inr m \<and> retrieval_metrics_ok m \<and>
          (rm_hit_rate_at_k m = Some 1 \<longleftrightarrow> (\<exists>i \<in> set (ranked_ids expected k evidence). i \<in> set (scored_ids expected))) \<and>
          (rm_recall_at_k m = Some 1 \<longleftrightarrow> set (scored_ids expected) \<subseteq> set (ranked_ids expected k evidence)) \<and>
          (\<forall>n. first_rank 1 (scored_ids expected) (ranked_ids expected k evidence) = Some n \<longrightarrow>
             rm_mrr m = Some (1 / of_nat n) \<and> ranked_ids expected k evidence ! (n - 1) \<in> set (scored_ids expected)))) \<and>
    (\<not> negative \<and> scored_ids expected \<noteq> [] \<longrightarrow>
       (calculate_retrieval_metrics evidence expected k negative = Inl ValidationExc \<longleftrightarrow>
          length (remdups (scored_ids expected)) <
          length (filter (\<lambda>i. i \<in> set (scored_ids expected)) (ranked_ids expected k evidence))))"
proof -
  let ?E = "scored_ids expected" and ?ids = "ranked_ids expected k evidence"
  let ?rel = "length (filter (\<lambda>i. i \<in> set ?E) ?ids)"
  have len: "int (length ?ids) \<le> k" using ranked_ids_length[of expected k evidence] k by simp
  have calc: "calculate_retrieval_metrics evidence expected k False = mk_retrieval_metrics (ranked_metrics k ?E ?ids)"
    if "?E \<noteq> []" using that k by (auto simp: calculate_retrieval_metrics_def scored_ids_def ranked_ids_def Let_def)
  have neg: "\<exists>m. calculate_retrieval_metrics evidence expected k True = Inr m \<and>
       rm_false_positive_rate m = Some (if evidence = [] then 0 else 1)"
  proof -
    have "deduplicate_evidence (take (nat k) evidence) = [] \<longleftrightarrow> evidence = []"
      using k keys_index_by[of ev_chunk_id "[]" "take (nat k) evidence"]
      by (cases evidence; cases "nat k") (auto simp: deduplicate_evidence_def dict_values_def index_by_def)
    then show ?thesis using k
      by (simp add: calculate_retrieval_metrics_def mk_retrieval_metrics_def retrieval_metrics_ok_def
          no_retrieval_metrics_def unit_score_def)
  qed
  have good: "\<exists>m. calculate_retrieval_metrics evidence expected k False = Inr m \<and> retrieval_metrics_ok m \<and>
          (rm_hit_rate_at_k m = Some 1 \<longleftrightarrow> (\<exists>i \<in> set ?ids. i \<in> set ?E)) \<and>
          (rm_recall_at_k m = Some 1 \<longleftrightarrow> set ?E \<subseteq> set ?ids) \<and>
          (\<forall>n. first_rank 1 ?E ?ids = Some n \<longrightarrow> rm_mrr m = Some (1 / of_nat n) \<and> ?ids ! (n - 1) \<in> set ?E)"
    if "?E \<noteq> []" "distinct ?ids"
  proof -
    have ok: "retrieval_metrics_ok (ranked_metrics k ?E ?ids)"
      using ranked_metrics_ok[OF k len that(1)] relevant_distinct[OF that(2)] by blast
    have "rm_hit_rate_at_k (ranked_metrics k ?E ?ids) = Some 1 \<longleftrightarrow> (\<exists>i \<in> set ?ids. i \<in> set ?E)"
      by (auto simp: ranked_metrics_def Let_def filter_empty_conv)
    moreover have "rm_recall_at_k (ranked_metrics k ?E ?ids) = Some 1 \<longleftrightarrow> set ?E \<subseteq> set ?ids"
    proof -
      have "rm_recall_at_k (ranked_metrics k ?E ?ids) = Some 1 \<longleftrightarrow> ?rel = length (remdups ?E)"
        using that(1) by (simp add: ranked_metrics_def Let_def divide_eq_eq)
      then show ?thesis using recall_full_iff[OF that(2,1)] by simp
    qed
    moreover have "rm_mrr (ranked_metrics k ?E ?ids) = Some (1 / of_nat n) \<and> ?ids ! (n - 1) \<in> set ?E"
      if "first_rank 1 ?E ?ids = Some n" for n
      using that first_rank_Some[OF that] by (simp add: ranked_metrics_def Let_def)
    ultimately show ?thesis using ok calc[OF that(1)] by (auto simp: mk_retrieval_metrics_def)
  qed
  have raises: "calculate_retrieval_metrics evidence expected k False = Inl ValidationExc \<longleftrightarrow> length (remdups ?E) < ?rel"
    if "?E \<noteq> []" using calc[OF that] ranked_metrics_ok[OF k len that] by (auto simp: mk_retrieval_metrics_def)
  show ?thesis using neg good raises by (cases negative) simp_all
qed

section \<open>Fixtures\<close>

lemma require_unique_iff [simp]: "require_unique xs \<longleftrightarrow> distinct xs"
  by (metis require_unique_def distinct_remdups length_remdups_eq remdups_id_iff_distinct)

lemma dict_of_lookup:
  assumes "distinct (map key xs)"
  shows "map_of (dict_of key xs) k = Some x \<longleftrightarrow> x \<in> set xs \<and> key x = k"
proof -
  have "distinct (map fst (map (\<lambda>x. (key x, x)) xs))" using assms by (simp add: comp_def)
  from map_of_eq_Some_iff[OF this, of k x] show ?thesis unfolding dict_of_distinct[OF assms] by auto
qed

lemma dict_of_defined:
  assumes "distinct (map key xs)" and "k \<in> key ` set xs"
  shows "\<exists>x \<in> set xs. map_of (dict_of key xs) k = Some x \<and> key x = k"
  using assms dict_of_lookup[OF assms(1)] by blast

definition from_corpus :: "BenchmarkDocument list \<Rightarrow> RetrievedEvidence \<Rightarrow> bool" where
  "from_corpus docs e \<longleftrightarrow>
     (\<exists>d \<in> set docs. ev_chunk_id e = bd_chunk_id d \<and> ev_document_id e = bd_document_id d \<and>
        ev_document_title e = bd_title d)"

lemma ranked_evidence_total:
  assumes "distinct (map bd_chunk_id docs)" and "set ids \<subseteq> bd_chunk_id ` set docs"
  shows "\<exists>es. ranked_evidence origin (dict_of bd_chunk_id docs) rank ids = Inr es \<and> list_all (from_corpus docs) es \<and>
    map ev_chunk_id es = ids"
  using assms(2)
proof (induction ids arbitrary: rank)
  case (Cons i ids)
  obtain d where d: "d \<in> set docs" "map_of (dict_of bd_chunk_id docs) i = Some d" "bd_chunk_id d = i"
    using dict_of_defined[OF assms(1), of i] Cons.prems by auto
  obtain es where es: "ranked_evidence origin (dict_of bd_chunk_id docs) (Suc rank) ids = Inr es"
    "list_all (from_corpus docs) es" "map ev_chunk_id es = ids" using Cons by fastforce
  have "from_corpus docs (benchmark_evidence origin d rank)"
    using d(1) by (auto simp: from_corpus_def benchmark_evidence_def)
  with d es show ?case by (simp add: benchmark_evidence_def)
qed simp

lemma from_corpus_traceable:
  assumes "distinct (map bd_chunk_id docs)" and "from_corpus docs e"
  shows "item_traceable docs e"
proof -
  obtain d where d: "d \<in> set docs" "ev_chunk_id e = bd_chunk_id d" "ev_document_id e = bd_document_id d"
    "ev_document_title e = bd_title d" using assms(2) unfolding from_corpus_def by blast
  have "map_of (dict_of bd_chunk_id docs) (ev_chunk_id e) = Some d"
    using dict_of_lookup[OF assms(1)] d(1,2) by simp
  then show ?thesis using d by (simp add: item_traceable_def entry_satisfies_def)
qed

lemma corpus_documents_distinct:
  assumes "distinct (map bd_document_id docs)" and "list_all (from_corpus docs) es" and "distinct (map ev_chunk_id es)"
  shows "distinct (map ev_document_id es)"
proof -
  have "inj_on ev_document_id (set es)"
  proof (rule inj_onI)
    fix a b assume ab: "a \<in> set es" "b \<in> set es" "ev_document_id a = ev_document_id b"
    obtain d e where d: "d \<in> set docs" "ev_chunk_id a = bd_chunk_id d" "ev_document_id a = bd_document_id d"
      and e: "e \<in> set docs" "ev_chunk_id b = bd_chunk_id e" "ev_document_id b = bd_document_id e"
      using assms(2) ab(1,2) unfolding list_all_iff from_corpus_def by meson
    have "d = e" using assms(1) ab(3) d e by (auto simp: distinct_map dest: inj_onD)
    then have "ev_chunk_id a = ev_chunk_id b" using d e by simp
    then show "a = b" using assms(3) ab(1,2) by (auto simp: distinct_map dest: inj_onD)
  qed
  then show ?thesis using assms(3) by (auto simp: distinct_map)
qed

lemma dict_of_fold: "map_of (fold (\<lambda>x. AList.update (key x) x) xs d) k = Some y \<Longrightarrow>
    y \<in> set xs \<and> key y = k \<or> map_of d k = Some y"
proof (induction xs arbitrary: d)
  case (Cons x xs)
  from Cons.IH[of "AList.update (key x) x d"] Cons.prems show ?case
    by (auto simp: update_conv' split: if_splits)
qed simp

lemma dict_of_in: "map_of (dict_of key xs) k = Some y \<Longrightarrow> y \<in> set xs \<and> key y = k"
  using dict_of_fold[of key xs "[]" k y] by (simp add: dict_of_def)

lemma try_map_total:
  "(\<And>x. x \<in> set xs \<Longrightarrow> \<exists>y. f x = Inr y \<and> P y) \<Longrightarrow> \<exists>ys. try_map f xs = Inr ys \<and> list_all P ys"
proof (induction xs)
  case (Cons x xs)
  obtain y where y: "f x = Inr y" "P y" using Cons.prems[of x] by auto
  have "\<exists>ys. try_map f xs = Inr ys \<and> list_all P ys" by (rule Cons.IH) (simp add: Cons.prems)
  then obtain ys where "try_map f xs = Inr ys" "list_all P ys" by blast
  with y show ?case by simp
qed simp

text \<open>A data set as the loader accepts it, whose edges spell the entity names exactly.\<close>

definition benchmark_ok :: "fold_table \<Rightarrow> EvaluationDataset \<Rightarrow> bool" where
  "benchmark_ok table ds \<longleftrightarrow> dataset_fields_ok ds \<and> validate_integrity table ds"

definition names_exact :: "EvaluationDataset \<Rightarrow> bool" where
  "names_exact ds \<longleftrightarrow>
     list_all (\<lambda>r. {xr_source_entity r, xr_target_entity r} \<subseteq> be_canonical_name ` set (ds_entities ds)) (ds_relationships ds)"

lemma benchmark_facts:
  assumes "benchmark_ok table ds"
  shows "distinct (map bd_document_id (ds_documents ds))" and "distinct (map bd_chunk_id (ds_documents ds))"
    and "distinct (map be_entity_id (ds_entities ds))" and "distinct (map br_relationship_id (ds_relationships ds))"
    and "distinct (map (relationship_key table) (ds_relationships ds))"
    and "c \<in> set (ds_cases ds) \<Longrightarrow> fixture_ok ds c" and "c \<in> set (ds_cases ds) \<Longrightarrow> case_fields_ok c"
    and "r \<in> set (ds_relationships ds) \<Longrightarrow> expected_relationship_ok r"
  using assms by (simp_all add: benchmark_ok_def validate_integrity_def dataset_fields_ok_def list_all_iff)

lemma entity_named_total:
  assumes "distinct (map be_entity_id (ds_entities ds))" and "name \<in> be_canonical_name ` set (ds_entities ds)"
  shows "\<exists>b. entity_named ds name = Inr b \<and> be_canonical_name b = name"
proof -
  have vals: "dict_values (dict_of be_entity_id (ds_entities ds)) = ds_entities ds"
    by (simp add: dict_of_distinct[OF assms(1)] dict_values_def comp_def)
  have "find (\<lambda>b. be_canonical_name b = name) (ds_entities ds) \<noteq> None"
    using assms(2) by (auto simp: find_None_iff)
  then obtain b where "find (\<lambda>b. be_canonical_name b = name) (ds_entities ds) = Some b" by blast
  with find_SomeD[OF this] show ?thesis by (simp add: entity_named_def vals)
qed

definition edge_reported :: "fold_table \<Rightarrow> EvaluationDataset \<Rightarrow> GraphRelationshipResult \<Rightarrow> bool" where
  "edge_reported table ds g \<longleftrightarrow>
     edge_traceable table (ds_relationships ds) g \<and> expected_relationship_ok (relationship_observation g)"

lemma fixture_relationship_total:
  assumes ok: "benchmark_ok table ds" "names_exact ds" and i: "i \<in> br_relationship_id ` set (ds_relationships ds)"
  shows "\<exists>g. fixture_relationship ds i = Inr g \<and> edge_reported table ds g"
proof -
  obtain r where r: "r \<in> set (ds_relationships ds)" "map_of (dict_of br_relationship_id (ds_relationships ds)) i = Some r"
    using dict_of_defined[OF benchmark_facts(4)[OF ok(1)] i] by blast
  have "{xr_source_entity r, xr_target_entity r} \<subseteq> be_canonical_name ` set (ds_entities ds)"
    using ok(2) r(1) by (auto simp: names_exact_def list_all_iff)
  then obtain s t where s: "entity_named ds (xr_source_entity r) = Inr s" "be_canonical_name s = xr_source_entity r"
    and t: "entity_named ds (xr_target_entity r) = Inr t" "be_canonical_name t = xr_target_entity r"
    using entity_named_total[OF benchmark_facts(3)[OF ok(1)]] by (meson insert_subset)
  have key: "map_of (dict_of (relationship_key table) (ds_relationships ds)) (relationship_key table r) = Some r"
    using dict_of_lookup[OF benchmark_facts(5)[OF ok(1)]] r(1) by blast
  show ?thesis
    using r(2) s t key benchmark_facts(8)[OF ok(1) r(1)]
    by (simp add: fixture_relationship_def edge_reported_def edge_traceable_def entry_satisfies_def found_key_def
        relationship_key_def expected_relationship_ok_def relationship_observation_def)
qed

lemma case_for_facts:
  assumes "benchmark_ok table ds" and "case_for ds query = Some c"
  shows "fixture_ok ds c" and "case_fields_ok c" and "ec_query c = query"
  using dict_of_in[OF assms(2)[unfolded case_for_def]] benchmark_facts(6,7)[OF assms(1)] by auto

lemma fixture_vector_total:
  assumes "benchmark_ok table ds"
  shows "\<exists>es. fixture_vector_search ds query top_k = Inr es \<and> list_all (from_corpus (ds_documents ds)) es"
proof (cases "case_for ds query")
  case None
  then show ?thesis by (simp add: fixture_vector_search_def)
next
  case (Some c)
  define ids where "ids = fx_vector_chunk_ids (ec_fixture c)"
  define limit where "limit = (case top_k of Some (Suc n) \<Rightarrow> Suc n | _ \<Rightarrow> length ids)"
  have "set (take limit ids) \<subseteq> bd_chunk_id ` set (ds_documents ds)"
    using case_for_facts(1)[OF assms Some] set_take_subset[of limit ids] by (auto simp: fixture_ok_def Let_def ids_def)
  from ranked_evidence_total[OF benchmark_facts(2)[OF assms] this, of Retrieval_VECTOR 1]
  obtain es where "ranked_evidence Retrieval_VECTOR (dict_of bd_chunk_id (ds_documents ds)) 1 (take limit ids) = Inr es"
    "list_all (from_corpus (ds_documents ds)) es" by blast
  then show ?thesis unfolding fixture_vector_search_def Some option.case Let_def ids_def[symmetric] limit_def[symmetric] by blast
qed

lemma fixture_graph_total:
  assumes ok: "benchmark_ok table ds" "names_exact ds" and q: "len_between 1 4000 query"
  shows "\<exists>n. fixture_graph_search table ds query max_depth = Inr n \<and>
    list_all (from_corpus (ds_documents ds)) (gn_evidence n) \<and> list_all (edge_reported table ds) (gn_relationships n)"
proof -
  have empty: "checked_neighborhood (empty_neighborhood query) = Inr (empty_neighborhood query)"
    using q by (simp add: checked_neighborhood_def neighborhood_ok_def empty_neighborhood_def len_between_def)
  have hit: "\<exists>n. fixture_neighborhood table ds query (fx_graph (ec_fixture c)) = Inr n \<and>
      list_all (from_corpus (ds_documents ds)) (gn_evidence n) \<and> list_all (edge_reported table ds) (gn_relationships n)"
    if c: "case_for ds query = Some c" for c
  proof -
    let ?f = "fx_graph (ec_fixture c)"
    have f: "set (fg_evidence_chunk_ids ?f) \<subseteq> bd_chunk_id ` set (ds_documents ds)"
      "set (fg_relationship_ids ?f) \<subseteq> br_relationship_id ` set (ds_relationships ds)"
      "set (fg_matched_entity_ids ?f) \<union> set (fg_related_entity_ids ?f) \<subseteq> be_entity_id ` set (ds_entities ds)"
      using case_for_facts(1)[OF ok(1) c] by (simp_all add: fixture_ok_def Let_def)
    have depth: "0 \<le> fg_depth_used ?f" "fg_depth_used ?f \<le> 5"
      using case_for_facts(2)[OF ok(1) c] by (simp_all add: case_fields_ok_def)
    obtain es where es: "ranked_evidence Retrieval_GRAPH (dict_of bd_chunk_id (ds_documents ds)) 1 (fg_evidence_chunk_ids ?f) = Inr es"
      "list_all (from_corpus (ds_documents ds)) es"
      using ranked_evidence_total[OF benchmark_facts(2)[OF ok(1)] f(1)] by blast
    obtain gs where gs: "try_map (fixture_relationship ds) (fg_relationship_ids ?f) = Inr gs" "list_all (edge_reported table ds) gs"
      using try_map_total[of "fg_relationship_ids ?f" "fixture_relationship ds" "edge_reported table ds"]
        fixture_relationship_total[OF ok] f(2) by blast
    have entity: "\<exists>y. fixture_entity table ds i = Inr y \<and> True" if "i \<in> be_entity_id ` set (ds_entities ds)" for i
      using dict_of_defined[OF benchmark_facts(3)[OF ok(1)] that] by (auto simp: fixture_entity_def)
    obtain ms where ms: "try_map (fixture_entity table ds) (fg_matched_entity_ids ?f) = Inr ms"
      using try_map_total[of "fg_matched_entity_ids ?f" "fixture_entity table ds" "\<lambda>_. True"] entity f(3) by blast
    obtain rs where rs: "try_map (fixture_entity table ds) (fg_related_entity_ids ?f) = Inr rs"
      using try_map_total[of "fg_related_entity_ids ?f" "fixture_entity table ds" "\<lambda>_. True"] entity f(3) by blast
    show ?thesis
      using es gs ms rs depth q
      by (simp add: fixture_neighborhood_def checked_neighborhood_def neighborhood_ok_def len_between_def)
  qed
  show ?thesis
  proof (cases "case_for ds query")
    case None
    then show ?thesis by (simp add: fixture_graph_search_def empty) (simp add: empty_neighborhood_def)
  next
    case (Some c)
    then show ?thesis using hit[OF Some] empty
      by (simp add: fixture_graph_search_def) (simp add: empty_neighborhood_def)
  qed
qed

section \<open>Complete runs\<close>

lemma coverage_unit: "expected \<noteq> [] \<Longrightarrow> unit_score (Some (coverage found expected))"
  by (auto simp: coverage_def unit_score_def divide_le_eq intro: length_filter_le)

lemma true_share_unit: "checks \<noteq> [] \<Longrightarrow> unit_score (Some (true_share checks))"
  by (auto simp: true_share_def unit_score_def divide_le_eq intro: length_filter_le)

lemma true_share_all: "checks \<noteq> [] \<Longrightarrow> list_all id checks \<Longrightarrow> true_share checks = 1"
proof -
  assume c: "checks \<noteq> []" "list_all id checks"
  have "filter id checks = checks" using c(2) by (simp add: list_all_iff)
  then show ?thesis using c(1) by (simp add: true_share_def)
qed

lemma graph_metrics_total:
  "\<exists>m. calculate_graph_metrics table neighborhood evidence expected corpus rels = Inr m \<and> graph_metrics_ok m \<and>
     (list_all (item_traceable corpus) evidence \<and>
      (case neighborhood of None \<Rightarrow> True | Some n \<Rightarrow> list_all (edge_traceable table rels) (gn_relationships n)) \<longrightarrow>
        gm_provenance_coverage m \<in> {None, Some 1})"
proof -
  let ?rs = "case neighborhood of None \<Rightarrow> [] | Some n \<Rightarrow> gn_relationships n"
  let ?checks = "map (item_traceable corpus) (deduplicate_evidence evidence) @ map (edge_traceable table rels) ?rs"
  have all: "list_all id ?checks" if "list_all (item_traceable corpus) evidence"
    "case neighborhood of None \<Rightarrow> True | Some n \<Rightarrow> list_all (edge_traceable table rels) (gn_relationships n)"
    using that dedup_evidence_subset[of evidence] by (auto simp: list_all_iff split: option.splits)
  have one: "true_share ?checks = 1" if "?checks \<noteq> []" "list_all (item_traceable corpus) evidence"
    "case neighborhood of None \<Rightarrow> True | Some n \<Rightarrow> list_all (edge_traceable table rels) (gn_relationships n)"
    using true_share_all[OF that(1) all[OF that(2,3)]] .
  have share: "?checks \<noteq> [] \<Longrightarrow> unit_score (Some (true_share ?checks))" by (rule true_share_unit)
  let ?m = "\<lparr>gm_entity_hit_rate =
           (case neighborhood of None \<Rightarrow> None
            | Some n \<Rightarrow>
                if map (py_casefold table) (ee_entities expected) = [] then None
                else Some (coverage
                  (map (\<lambda>e. py_casefold table (ge_canonical_name e)) (gn_matched_entities n @ gn_related_entities n))
                  (map (py_casefold table) (ee_entities expected)))),
         gm_relationship_hit_rate =
           (case neighborhood of None \<Rightarrow> None
            | Some n \<Rightarrow>
                if map (relationship_key table) (ee_relationships expected) = [] then None
                else Some (coverage (map (found_key table) (gn_relationships n))
                  (map (relationship_key table) (ee_relationships expected)))),
         gm_path_success =
           (case neighborhood of None \<Rightarrow> None
            | Some n \<Rightarrow>
                if ee_paths expected = [] then None
                else Some (true_share (map (path_found table n) (ee_paths expected)))),
         gm_provenance_coverage = (if ?checks = [] then None else Some (true_share ?checks))\<rparr>"
  have ok: "graph_metrics_ok ?m"
    unfolding graph_metrics_ok_def using share
    by (auto simp: unit_score_def[of None] simp del: map_is_Nil_conv intro!: coverage_unit true_share_unit split: option.split)
  have "calculate_graph_metrics table neighborhood evidence expected corpus rels = Inr ?m"
    using ok unfolding calculate_graph_metrics_def Let_def mk_graph_metrics_def by simp
  then show ?thesis using ok one by (intro exI[of _ ?m]) auto
qed

lemma retrieval_metrics_total:
  assumes "1 \<le> k" and "distinct (ranked_ids expected k evidence)"
  shows "\<exists>m. calculate_retrieval_metrics evidence expected k negative = Inr m \<and> retrieval_metrics_ok m"
proof -
  let ?E = "scored_ids expected" and ?ids = "ranked_ids expected k evidence"
  have len: "int (length ?ids) \<le> k" using ranked_ids_length[of expected k evidence] assms(1) by simp
  have none: "retrieval_metrics_ok (no_retrieval_metrics\<lparr>rm_false_positive_rate := v\<rparr>) \<longleftrightarrow> unit_score v" for v
    by (auto simp: retrieval_metrics_ok_def no_retrieval_metrics_def unit_score_def)
  have "retrieval_metrics_ok no_retrieval_metrics" using none[of None] by (simp add: unit_score_def no_retrieval_metrics_def)
  moreover have "retrieval_metrics_ok (ranked_metrics k ?E ?ids)" if "?E \<noteq> []"
    using ranked_metrics_ok[OF assms(1) len that] relevant_distinct[OF assms(2)] by blast
  ultimately show ?thesis
    using assms(1) none[of "Some 0"] none[of "Some 1"]
    by (auto simp: calculate_retrieval_metrics_def mk_retrieval_metrics_def scored_ids_def ranked_ids_def Let_def unit_score_def)
qed

lemma corpus_ranked_distinct:
  assumes "benchmark_ok table ds" and "list_all (from_corpus (ds_documents ds)) es"
  shows "distinct (ranked_ids expected k es)"
proof -
  let ?d = "deduplicate_evidence (take (nat k) es)"
  have "list_all (from_corpus (ds_documents ds)) ?d"
    using assms(2) dedup_evidence_subset[of "take (nat k) es"] set_take_subset[of "nat k" es] by (auto simp: list_all_iff)
  from corpus_documents_distinct[OF benchmark_facts(1)[OF assms(1)] this dedup_evidence_distinct]
  show ?thesis by (simp add: ranked_ids_def dedup_evidence_distinct)
qed

definition case_reported :: "EvaluationMode \<Rightarrow> EvaluationCase \<Rightarrow> CaseEvaluationResult \<Rightarrow> bool" where
  "case_reported mode c r \<longleftrightarrow>
     ce_query_id r = ec_query_id c \<and> (ce_skipped r \<longleftrightarrow> mode \<notin> set (ec_modes c)) \<and> case_scores_ok r \<and>
     gm_provenance_coverage (ce_graph_metrics r) \<in> {None, Some 1}"

lemma run_case_reported:
  assumes ok: "benchmark_ok table ds" and er: "er_dataset er = ds" "er_fold er = table" "configuration_ok (er_configuration er)"
    and search: "mode \<in> set (ec_modes c) \<Longrightarrow> \<exists>es n. run_search er c mode = Inr (es, n) \<and>
      list_all (from_corpus (ds_documents ds)) es \<and>
      (case n of None \<Rightarrow> True | Some g \<Rightarrow> list_all (edge_reported table ds) (gn_relationships g))"
  shows "\<exists>r. run_case er mode c = Inr r \<and> case_reported mode c r"
proof (cases "mode \<in> set (ec_modes c)")
  case False
  then show ?thesis
    by (simp add: run_case_def case_reported_def case_scores_ok_def retrieval_metrics_ok_def graph_metrics_ok_def
        no_retrieval_metrics_def no_graph_metrics_def unit_score_def)
next
  case True
  then obtain es n where s: "run_search er c mode = Inr (es, n)" "list_all (from_corpus (ds_documents ds)) es"
    and edges: "case n of None \<Rightarrow> True | Some g \<Rightarrow> list_all (edge_reported table ds) (gn_relationships g)"
    using search by blast
  have k: "1 \<le> cf_top_k (er_configuration er)" using er(3) by (simp add: configuration_ok_def)
  obtain rm where rm: "calculate_retrieval_metrics es (ec_expected c) (cf_top_k (er_configuration er))
      (ec_query_type c = Query_NEGATIVE_NO_ANSWER) = Inr rm" "retrieval_metrics_ok rm"
    using retrieval_metrics_total[OF k corpus_ranked_distinct[OF ok s(2)]] by blast
  have traced: "list_all (item_traceable (ds_documents ds)) es"
    using s(2) from_corpus_traceable[OF benchmark_facts(2)[OF ok]] by (auto simp: list_all_iff)
  obtain gm where gm: "calculate_graph_metrics table n es (ec_expected c) (ds_documents ds) (ds_relationships ds) = Inr gm"
    "graph_metrics_ok gm" "gm_provenance_coverage gm \<in> {None, Some 1}"
    using graph_metrics_total[of table n es "ec_expected c" "ds_documents ds" "ds_relationships ds"] traced edges
    by (auto simp: edge_reported_def list_all_iff split: option.splits)
  have obs: "list_all expected_relationship_ok (case n of None \<Rightarrow> [] | Some n \<Rightarrow> map relationship_observation (gn_relationships n))"
    using edges by (auto simp: edge_reported_def list_all_iff split: option.splits)
  show ?thesis
    using True s(1) rm gm obs er by (simp add: run_case_def case_reported_def case_scores_ok_def)
qed

lemma run_cases_reported:
  "(\<And>c. c \<in> set cs \<Longrightarrow> \<exists>r. run_case er mode c = Inr r \<and> P c r) \<Longrightarrow>
     \<exists>rs. run_cases er mode cs = Inr rs \<and> list_all2 P cs rs"
proof (induction cs)
  case (Cons c cs)
  obtain r where r: "run_case er mode c = Inr r" "P c r" using Cons.prems[of c] by auto
  have "\<exists>rs. run_cases er mode cs = Inr rs \<and> list_all2 P cs rs" by (rule Cons.IH) (simp add: Cons.prems)
  then obtain rs where "run_cases er mode cs = Inr rs" "list_all2 P cs rs" by blast
  with r show ?case by simp
qed simp

lemma sum_list_ones: "\<forall>q \<in> set qs. q = 1 \<Longrightarrow> sum_list qs = (of_nat (length qs) :: rat)"
  by (induction qs) simp_all

lemma average_ones:
  assumes "set vs \<subseteq> {None, Some 1}"
  shows "average vs \<in> {None, Some 1}"
proof -
  have "\<forall>q \<in> set (List.map_filter id vs). q = 1" using assms by (auto simp: map_filter_def)
  from sum_list_ones[OF this] show ?thesis by (simp add: average_def Let_def)
qed

text \<open>A deterministic evaluation run ends. For every data set that passes the integrity check
  (and, in graph mode, spells entity names in edges exactly as the entities do), the vector and the
  graph run over the fixtures return a report: no lookup fails, every case appears once and in
  order, a case is skipped exactly when it does not declare the mode, every score is between zero and
  one, and every retrieved item is traced to the corpus.\<close>

theorem deterministic_evaluation_completes:
  assumes ok: "benchmark_ok (er_fold er) (er_dataset er)" "configuration_ok (er_configuration er)"
    and names: "mode = Mode_GRAPH \<longrightarrow> names_exact (er_dataset er)" and mode: "mode \<noteq> Mode_HYBRID"
    and vector: "er_vector er = (\<lambda>query k. fixture_vector_search (er_dataset er) query (Some (nat k)))"
    and graph: "er_graph er = (\<lambda>query d. fixture_graph_search (er_fold er) (er_dataset er) query (Some d))"
  shows "\<exists>report. run_evaluation er mode now = Inr report \<and>
    map ce_query_id (rp_cases report) = map ec_query_id (ds_cases (er_dataset er)) \<and>
    rp_skipped_cases report = map ec_query_id (filter (\<lambda>c. mode \<notin> set (ec_modes c)) (ds_cases (er_dataset er))) \<and>
    rp_evaluated_cases report + length (rp_skipped_cases report) = rp_total_cases report \<and>
    rp_total_cases report = length (ds_cases (er_dataset er)) \<and> list_all case_scores_ok (rp_cases report) \<and>
    retrieval_metrics_ok (am_retrieval (rp_aggregate_metrics report)) \<and>
    gm_provenance_coverage (am_graph (rp_aggregate_metrics report)) \<in> {None, Some 1}"
proof -
  let ?ds = "er_dataset er" and ?table = "er_fold er"
  have "\<exists>r. run_case er mode c = Inr r \<and> case_reported mode c r" if c: "c \<in> set (ds_cases ?ds)" for c
  proof (rule run_case_reported[OF ok(1) refl refl ok(2)])
    have q: "len_between 1 4000 (ec_query c)" using benchmark_facts(7)[OF ok(1) c] by (simp add: case_fields_ok_def)
    show "\<exists>es n. run_search er c mode = Inr (es, n) \<and> list_all (from_corpus (ds_documents ?ds)) es \<and>
      (case n of None \<Rightarrow> True | Some g \<Rightarrow> list_all (edge_reported ?table ?ds) (gn_relationships g))"
    proof (cases mode)
      case Mode_VECTOR
      obtain es where "fixture_vector_search ?ds (ec_query c) (Some (nat (cf_top_k (er_configuration er)))) = Inr es"
        "list_all (from_corpus (ds_documents ?ds)) es" using fixture_vector_total[OF ok(1)] by blast
      then show ?thesis by (simp add: run_search_def Mode_VECTOR vector)
    next
      case Mode_GRAPH
      then have exact: "names_exact ?ds" using names by simp
      obtain n where "fixture_graph_search ?table ?ds (ec_query c) (Some (cf_graph_max_depth (er_configuration er))) = Inr n"
        "list_all (from_corpus (ds_documents ?ds)) (gn_evidence n)" "list_all (edge_reported ?table ?ds) (gn_relationships n)"
        using fixture_graph_total[OF ok(1) exact q] by blast
      then show ?thesis by (simp add: run_search_def Mode_GRAPH graph)
    qed (use mode in simp)
  qed
  then obtain rs where rs: "run_cases er mode (ds_cases ?ds) = Inr rs" "list_all2 (case_reported mode) (ds_cases ?ds) rs"
    using run_cases_reported[of "ds_cases ?ds" er mode "case_reported mode"] by blast
  have len: "length rs = length (ds_cases ?ds)" using list_all2_lengthD[OF rs(2)] by simp
  have ids: "map ce_query_id rs = map ec_query_id (ds_cases ?ds) \<and>
      map ce_query_id (filter ce_skipped rs) = map ec_query_id (filter (\<lambda>c. mode \<notin> set (ec_modes c)) (ds_cases ?ds))"
    using rs(2) by (induction rule: list_all2_induct) (auto simp: case_reported_def)
  have scores: "list_all case_scores_ok rs" and prov: "\<forall>r \<in> set rs. gm_provenance_coverage (ce_graph_metrics r) \<in> {None, Some 1}"
    using rs(2) by (induction rule: list_all2_induct) (auto simp: case_reported_def)
  obtain a where a: "aggregate_case_results rs = Inr a" "retrieval_metrics_ok (am_retrieval a)"
    "gm_provenance_coverage (am_graph a) =
      average (map (\<lambda>c. gm_provenance_coverage (ce_graph_metrics c)) (filter (\<lambda>c. \<not> ce_skipped c) rs))"
    using aggregate_total[OF scores] by blast
  have one: "gm_provenance_coverage (am_graph a) \<in> {None, Some 1}"
    unfolding a(3) using prov by (intro average_ones) auto
  have "ds_cases ?ds \<noteq> []" using ok(1) by (simp add: benchmark_ok_def dataset_fields_ok_def)
  then have "\<not> length rs < 1" using len by (cases "ds_cases ?ds") simp_all
  then show ?thesis
    using rs(1) a(1,2) one ids len scores length_filter_le[of ce_skipped rs]
    by (simp add: run_evaluation_def Let_def)
qed

section \<open>An instance\<close>

definition sample_benchmark :: EvaluationDataset where
  "sample_benchmark =
     \<lparr>ds_dataset_id = py ''d'', ds_version = py ''1'', ds_description = py ''x'', ds_synthetic = True,
      ds_documents = [\<lparr>bd_document_id = 1, bd_chunk_id = 2, bd_title = py ''t'', bd_content = py ''c''\<rparr>],
      ds_entities = [], ds_relationships = [],
      ds_cases =
        [\<lparr>ec_query_id = py ''q-1'', ec_query = py ''q'', ec_query_type = Query_POLICY_LOOKUP, ec_modes = [Mode_VECTOR],
          ec_expected = \<lparr>ee_document_ids = [1], ee_chunk_ids = [2], ee_entities = [], ee_relationships = [], ee_paths = []\<rparr>,
          ec_fixture = \<lparr>fx_vector_chunk_ids = [2], fx_graph = \<lparr>fg_matched_entity_ids = [], fg_related_entity_ids = [],
            fg_relationship_ids = [], fg_evidence_chunk_ids = [], fg_depth_used = 0\<rparr>\<rparr>,
          ec_notes = None\<rparr>]\<rparr>"

definition sample_runner :: EvaluationRunner where
  "sample_runner =
     \<lparr>er_dataset = sample_benchmark,
      er_vector = (\<lambda>query k. fixture_vector_search sample_benchmark query (Some (nat k))),
      er_graph = (\<lambda>query d. fixture_graph_search ascii_fold sample_benchmark query (Some d)),
      er_hybrid = (\<lambda>query k d. Inl ValueExc),
      er_configuration = \<lparr>cf_embedding_model = [], cf_embedding_dimensions = 1, cf_top_k = 3, cf_similarity_threshold = 0,
        cf_chunk_size = 1, cf_chunk_overlap = 0, cf_graph_max_depth = 1, cf_graph_min_confidence = 0, cf_graph_max_entities = 1\<rparr>,
      er_execution_profile = py ''deterministic_fixture'', er_fold = ascii_fold\<rparr>"

lemma sample_benchmark_ok: "benchmark_ok ascii_fold sample_benchmark"
  by (simp add: benchmark_ok_def dataset_fields_ok_def validate_integrity_def sample_benchmark_def case_fields_ok_def
      slug_ok_def slug_start_def len_between_def py_def opt_len_ok_def expectation_ok_def fixture_ok_def Let_def
      entry_satisfies_def dict_of_def)

theorem deterministic_evaluation_completes_witness:
  "\<exists>report. run_evaluation sample_runner Mode_VECTOR 0 = Inr report \<and> rp_total_cases report = 1 \<and>
     rp_skipped_cases report = [] \<and> gm_provenance_coverage (am_graph (rp_aggregate_metrics report)) \<in> {None, Some 1}"
  using deterministic_evaluation_completes[of sample_runner Mode_VECTOR 0] sample_benchmark_ok
  by (simp add: sample_runner_def configuration_ok_def) (auto simp: sample_benchmark_def)

theorem retrieval_metrics_meaning_witness:
  "calculate_retrieval_metrics
     [benchmark_evidence Retrieval_VECTOR \<lparr>bd_document_id = 1, bd_chunk_id = 2, bd_title = [], bd_content = []\<rparr> 1,
      benchmark_evidence Retrieval_VECTOR \<lparr>bd_document_id = 1, bd_chunk_id = 3, bd_title = [], bd_content = []\<rparr> 2]
     \<lparr>ee_document_ids = [1], ee_chunk_ids = [], ee_entities = [], ee_relationships = [], ee_paths = []\<rparr> 5 False
   = Inl ValidationExc"
  using retrieval_metrics_meaning[of 5 False
     "[benchmark_evidence Retrieval_VECTOR \<lparr>bd_document_id = 1, bd_chunk_id = 2, bd_title = [], bd_content = []\<rparr> 1,
       benchmark_evidence Retrieval_VECTOR \<lparr>bd_document_id = 1, bd_chunk_id = 3, bd_title = [], bd_content = []\<rparr> 2]"
     "\<lparr>ee_document_ids = [1], ee_chunk_ids = [], ee_entities = [], ee_relationships = [], ee_paths = []\<rparr>"]
  by (simp add: scored_ids_def ranked_ids_def deduplicate_evidence_def index_by_def dict_setdefault_def dict_values_def
      benchmark_evidence_def)

end
