(* ===== verification/Assessment_Evaluation.thy ===== *)
theory Assessment_Evaluation
  imports Retrieval_Evaluation Retrieval
begin

text \<open>
  The offline evaluation of assessments (\<^verbatim>\<open>app/evaluation/assessment/\<close>): the benchmark contracts and
  their validators, the evaluators, the runner with its optional judge, and the comparison of the
  three execution modes by Pareto dominance.

  Executor, judge, the JSON dump of a report and SHA-256 are arguments. A set is a list.
\<close>

section \<open>Vocabulary\<close>

datatype AssessmentEvaluationMode =
  Eval_DETERMINISTIC | Eval_SINGLE_AGENT | Eval_MULTI_AGENT

primrec eval_mode_value :: "AssessmentEvaluationMode \<Rightarrow> pystr" where
  "eval_mode_value Eval_DETERMINISTIC = py ''deterministic''"
| "eval_mode_value Eval_SINGLE_AGENT = py ''single_agent''"
| "eval_mode_value Eval_MULTI_AGENT = py ''multi_agent''"

datatype AssessmentScenarioCategory =
  Scenario_CUSTOMER_SERVICE_PII | Scenario_CONFIDENTIAL_INTERNAL_RAG | Scenario_EXTERNAL_TOOL_ACCESS
   | Scenario_HIGH_IMPACT_DECISION | Scenario_THIRD_PARTY_VENDOR | Scenario_COMPLIANCE_REVIEW
   | Scenario_HUMAN_OPERATED_RECOMMENDATION | Scenario_LOW_RISK_PRODUCTIVITY
   | Scenario_INSUFFICIENT_INFORMATION | Scenario_SIMPLE_DETERMINISTIC

datatype EvaluationRiskCategory =
  RiskCat_PRIVACY | RiskCat_SECURITY | RiskCat_MODEL_RISK | RiskCat_HALLUCINATION_GROUNDING
   | RiskCat_COMPLIANCE | RiskCat_OPERATIONAL_RISK | RiskCat_ACCESS_CONTROL
   | RiskCat_DATA_GOVERNANCE | RiskCat_THIRD_PARTY_VENDOR_RISK | RiskCat_EXPLAINABILITY
   | RiskCat_HUMAN_OVERSIGHT | RiskCat_MONITORING | RiskCat_AUDITABILITY

primrec risk_category_value :: "EvaluationRiskCategory \<Rightarrow> pystr" where
  "risk_category_value RiskCat_PRIVACY = py ''privacy''"
| "risk_category_value RiskCat_SECURITY = py ''security''"
| "risk_category_value RiskCat_MODEL_RISK = py ''model_risk''"
| "risk_category_value RiskCat_HALLUCINATION_GROUNDING = py ''hallucination_grounding''"
| "risk_category_value RiskCat_COMPLIANCE = py ''compliance''"
| "risk_category_value RiskCat_OPERATIONAL_RISK = py ''operational_risk''"
| "risk_category_value RiskCat_ACCESS_CONTROL = py ''access_control''"
| "risk_category_value RiskCat_DATA_GOVERNANCE = py ''data_governance''"
| "risk_category_value RiskCat_THIRD_PARTY_VENDOR_RISK = py ''third_party_vendor_risk''"
| "risk_category_value RiskCat_EXPLAINABILITY = py ''explainability''"
| "risk_category_value RiskCat_HUMAN_OVERSIGHT = py ''human_oversight''"
| "risk_category_value RiskCat_MONITORING = py ''monitoring''"
| "risk_category_value RiskCat_AUDITABILITY = py ''auditability''"

datatype EvaluationControlCategory =
  Ctl_RETRIEVAL_GROUNDING | Ctl_ROLE_BASED_ACCESS_CONTROL | Ctl_LEAST_PRIVILEGE
   | Ctl_TOOL_ALLOWLISTING | Ctl_HUMAN_APPROVAL | Ctl_ESCALATION | Ctl_AUDIT_LOGGING
   | Ctl_DATA_MINIMIZATION | Ctl_MODEL_MONITORING | Ctl_OUTPUT_VALIDATION | Ctl_FALLBACK_BEHAVIOR
   | Ctl_VERSIONING | Ctl_APPROVAL_GATES | Ctl_VENDOR_DUE_DILIGENCE | Ctl_INCIDENT_RESPONSE

primrec control_category_value :: "EvaluationControlCategory \<Rightarrow> pystr" where
  "control_category_value Ctl_RETRIEVAL_GROUNDING = py ''retrieval_grounding''"
| "control_category_value Ctl_ROLE_BASED_ACCESS_CONTROL = py ''role_based_access_control''"
| "control_category_value Ctl_LEAST_PRIVILEGE = py ''least_privilege''"
| "control_category_value Ctl_TOOL_ALLOWLISTING = py ''tool_allowlisting''"
| "control_category_value Ctl_HUMAN_APPROVAL = py ''human_approval''"
| "control_category_value Ctl_ESCALATION = py ''escalation''"
| "control_category_value Ctl_AUDIT_LOGGING = py ''audit_logging''"
| "control_category_value Ctl_DATA_MINIMIZATION = py ''data_minimization''"
| "control_category_value Ctl_MODEL_MONITORING = py ''model_monitoring''"
| "control_category_value Ctl_OUTPUT_VALIDATION = py ''output_validation''"
| "control_category_value Ctl_FALLBACK_BEHAVIOR = py ''fallback_behavior''"
| "control_category_value Ctl_VERSIONING = py ''versioning''"
| "control_category_value Ctl_APPROVAL_GATES = py ''approval_gates''"
| "control_category_value Ctl_VENDOR_DUE_DILIGENCE = py ''vendor_due_diligence''"
| "control_category_value Ctl_INCIDENT_RESPONSE = py ''incident_response''"

datatype EvaluationGovernanceRequirement =
  GovReq_ACCOUNTABLE_OWNER | GovReq_DOCUMENTED_USE_CASE | GovReq_RISK_REVIEW
   | GovReq_DATA_USE_APPROVAL | GovReq_VENDOR_OVERSIGHT | GovReq_HUMAN_DECISION_AUTHORITY
   | GovReq_AUDIT_RECORD | GovReq_PERIODIC_REVIEW

primrec governance_requirement_value :: "EvaluationGovernanceRequirement \<Rightarrow> pystr" where
  "governance_requirement_value GovReq_ACCOUNTABLE_OWNER = py ''accountable_owner''"
| "governance_requirement_value GovReq_DOCUMENTED_USE_CASE = py ''documented_use_case''"
| "governance_requirement_value GovReq_RISK_REVIEW = py ''risk_review''"
| "governance_requirement_value GovReq_DATA_USE_APPROVAL = py ''data_use_approval''"
| "governance_requirement_value GovReq_VENDOR_OVERSIGHT = py ''vendor_oversight''"
| "governance_requirement_value GovReq_HUMAN_DECISION_AUTHORITY = py ''human_decision_authority''"
| "governance_requirement_value GovReq_AUDIT_RECORD = py ''audit_record''"
| "governance_requirement_value GovReq_PERIODIC_REVIEW = py ''periodic_review''"

datatype ArchitectureCharacteristic =
  Arch_DETERMINISTIC_SUFFICIENT | Arch_RAG_APPROPRIATE | Arch_GRAPH_RETRIEVAL_APPROPRIATE
   | Arch_AGENT_WORKFLOW_JUSTIFIED | Arch_MULTI_AGENT_JUSTIFIED | Arch_MULTI_AGENT_UNNECESSARY
   | Arch_HUMAN_APPROVAL_REQUIRED | Arch_EXTERNAL_TOOL_PERMISSIONS_CONSTRAINED
   | Arch_SIMPLER_WORKFLOW_PREFERRED

primrec architecture_value :: "ArchitectureCharacteristic \<Rightarrow> pystr" where
  "architecture_value Arch_DETERMINISTIC_SUFFICIENT = py ''deterministic_sufficient''"
| "architecture_value Arch_RAG_APPROPRIATE = py ''rag_appropriate''"
| "architecture_value Arch_GRAPH_RETRIEVAL_APPROPRIATE = py ''graph_retrieval_appropriate''"
| "architecture_value Arch_AGENT_WORKFLOW_JUSTIFIED = py ''agent_workflow_justified''"
| "architecture_value Arch_MULTI_AGENT_JUSTIFIED = py ''multi_agent_justified''"
| "architecture_value Arch_MULTI_AGENT_UNNECESSARY = py ''multi_agent_unnecessary''"
| "architecture_value Arch_HUMAN_APPROVAL_REQUIRED = py ''human_approval_required''"
| "architecture_value Arch_EXTERNAL_TOOL_PERMISSIONS_CONSTRAINED = py ''external_tool_permissions_constrained''"
| "architecture_value Arch_SIMPLER_WORKFLOW_PREFERRED = py ''simpler_workflow_preferred''"

datatype EvaluationSeverity =
  Sev_LOW | Sev_MEDIUM | Sev_HIGH | Sev_CRITICAL

datatype AbstentionExpectation =
  Abstain_REQUIRED | Abstain_NOT_REQUIRED

datatype ClaimSupportSource =
  Support_ASSESSMENT_INPUT | Support_RETRIEVED_EVIDENCE | Support_SPECIALIST_OUTPUT
   | Support_SYSTEM_KNOWLEDGE

datatype AssessmentClaimType =
  ClaimType_FACT | ClaimType_RISK | ClaimType_CONTROL | ClaimType_GOVERNANCE
   | ClaimType_ARCHITECTURE

datatype AssessmentRunStatus =
  RunStatus_COMPLETED | RunStatus_DEGRADED | RunStatus_FAILED

datatype JudgeDimension =
  Judge_GROUNDEDNESS | Judge_RISK_REASONING_QUALITY | Judge_MITIGATION_USEFULNESS
   | Judge_ARCHITECTURE_APPROPRIATENESS | Judge_GOVERNANCE_COMPLETENESS
   | Judge_CLARITY_ACTIONABILITY

section \<open>Contracts\<close>

record ExpectedRisk =
  xk_category :: EvaluationRiskCategory
  xk_severity :: EvaluationSeverity

record ExpectedEvidenceRequirement =
  rq_claim_id :: pystr
  rq_allowed_sources :: "ClaimSupportSource list"
  rq_allowed_reference_ids :: "pystr list"
  rq_allowed_specialist_finding_ids :: "pystr list"
  rq_allowed_system_knowledge_categories :: "pystr list"
  rq_citation_required :: bool

record ExpectedAbstentionBehavior =
  ab_expectation :: AbstentionExpectation
  ab_uncertainty_acknowledgment_required :: bool
  ab_validation_recommendation_required :: bool

definition abstention_behavior_ok :: "ExpectedAbstentionBehavior \<Rightarrow> bool" where
  "abstention_behavior_ok b \<longleftrightarrow>
     (ab_expectation b = Abstain_REQUIRED \<longrightarrow>
        ab_uncertainty_acknowledgment_required b \<and> ab_validation_recommendation_required b)"

record IdentifiedRisk =
  ik_finding_id :: pystr
  ik_category :: EvaluationRiskCategory
  ik_severity :: EvaluationSeverity

record ClaimSupport =
  cs_source :: ClaimSupportSource
  cs_reference_id :: "pystr option"
  cs_system_knowledge_category :: "pystr option"

record AssessmentClaim =
  cl_claim_id :: pystr
  cl_claim_type :: AssessmentClaimType
  cl_summary :: pystr
  cl_supports :: "ClaimSupport list"

record SpecialistEvaluationTrace =
  st_available_finding_ids :: "pystr list"
  st_important_finding_ids :: "pystr list"
  st_disagreement_ids :: "pystr list"
  st_unavailable_specialists :: "pystr list"

definition specialist_trace_ok :: "SpecialistEvaluationTrace \<Rightarrow> bool" where
  "specialist_trace_ok s \<longleftrightarrow>
     require_unique (st_available_finding_ids s) \<and> require_unique (st_important_finding_ids s) \<and>
     require_unique (st_disagreement_ids s) \<and>
     set (st_important_finding_ids s) \<subseteq> set (st_available_finding_ids s)"

record AssessmentEvaluationOutput =
  ao_summary :: pystr
  ao_identified_risks :: "IdentifiedRisk list"
  ao_recommended_controls :: "EvaluationControlCategory list"
  ao_governance_requirements :: "EvaluationGovernanceRequirement list"
  ao_architecture_characteristics :: "ArchitectureCharacteristic list"
  ao_human_oversight_recommended :: bool
  ao_uncertainty_acknowledged :: bool
  ao_abstained_from_unsupported_conclusion :: bool
  ao_validation_recommended :: bool
  ao_claims :: "AssessmentClaim list"
  ao_run_status :: AssessmentRunStatus
  ao_degradation_reasons :: "pystr list"
  ao_specialists :: "SpecialistEvaluationTrace option"
  ao_preserved_specialist_finding_ids :: "pystr list"
  ao_surfaced_disagreement_ids :: "pystr list"
  ao_degraded_state_acknowledged :: bool

definition claim_ok :: "AssessmentClaim \<Rightarrow> bool" where
  "claim_ok c \<longleftrightarrow>
     slug_ok (cl_claim_id c) \<and> len_between 1 500 (cl_summary c) \<and> length (cl_supports c) \<le> 10 \<and>
     list_all (\<lambda>s. opt_between 1 200 (cs_reference_id s) \<and> opt_between 1 100 (cs_system_knowledge_category s))
       (cl_supports c)"

definition evaluation_output_ok :: "AssessmentEvaluationOutput \<Rightarrow> bool" where
  "evaluation_output_ok a \<longleftrightarrow>
     len_between 1 1000 (ao_summary a) \<and> list_all (\<lambda>k. slug_ok (ik_finding_id k)) (ao_identified_risks a) \<and>
     list_all claim_ok (ao_claims a) \<and>
     (case ao_specialists a of None \<Rightarrow> True | Some s \<Rightarrow> specialist_trace_ok s) \<and>
     require_unique (map ik_category (ao_identified_risks a)) \<and>
     require_unique (ao_recommended_controls a) \<and> require_unique (ao_governance_requirements a) \<and>
     require_unique (ao_architecture_characteristics a) \<and> require_unique (map cl_claim_id (ao_claims a)) \<and>
     require_unique (ao_preserved_specialist_finding_ids a) \<and> require_unique (ao_surfaced_disagreement_ids a) \<and>
     (ao_run_status a = RunStatus_DEGRADED \<longrightarrow> ao_degradation_reasons a \<noteq> []) \<and>
     (ao_run_status a = RunStatus_COMPLETED \<longrightarrow> ao_degradation_reasons a = []) \<and>
     (ao_specialists a = None \<longrightarrow> ao_preserved_specialist_finding_ids a = [] \<and> ao_surfaced_disagreement_ids a = [])"

record AssessmentEvaluationCase =
  ac_case_id :: pystr
  ac_title :: pystr
  ac_scenario_category :: AssessmentScenarioCategory
  ac_business_context :: pystr
  ac_industry :: pystr
  ac_business_problem :: pystr
  ac_expected_risks :: "ExpectedRisk list"
  ac_unacceptable_risks :: "EvaluationRiskCategory list"
  ac_expected_controls :: "EvaluationControlCategory list"
  ac_expected_governance_requirements :: "EvaluationGovernanceRequirement list"
  ac_expected_architecture_characteristics :: "ArchitectureCharacteristic list"
  ac_human_oversight_expected :: bool
  ac_available_evidence_ids :: "pystr list"
  ac_evidence_requirements :: "ExpectedEvidenceRequirement list"
  ac_abstention :: ExpectedAbstentionBehavior
  ac_evaluation_notes :: pystr
  ac_fixtures :: "(AssessmentEvaluationMode, AssessmentEvaluationOutput) dict"

definition all_evaluation_modes :: "AssessmentEvaluationMode list" where
  "all_evaluation_modes = [Eval_DETERMINISTIC, Eval_SINGLE_AGENT, Eval_MULTI_AGENT]"

definition requirement_ok :: "pystr list \<Rightarrow> ExpectedEvidenceRequirement \<Rightarrow> bool" where
  "requirement_ok available r \<longleftrightarrow>
     slug_ok (rq_claim_id r) \<and> rq_allowed_sources r \<noteq> [] \<and>
     set (rq_allowed_reference_ids r) \<subseteq> set available \<and>
     (rq_citation_required r \<longrightarrow> rq_allowed_reference_ids r \<noteq> [])"

definition evaluation_case_ok :: "AssessmentEvaluationCase \<Rightarrow> bool" where
  "evaluation_case_ok c \<longleftrightarrow>
     slug_ok (ac_case_id c) \<and> len_between 1 300 (ac_title c) \<and> len_between 1 4000 (ac_business_context c) \<and>
     len_between 1 120 (ac_industry c) \<and> len_between 1 2000 (ac_business_problem c) \<and>
     len_between 1 1000 (ac_evaluation_notes c) \<and>
     ac_expected_risks c \<noteq> [] \<and> ac_expected_controls c \<noteq> [] \<and> ac_expected_governance_requirements c \<noteq> [] \<and>
     ac_expected_architecture_characteristics c \<noteq> [] \<and> ac_evidence_requirements c \<noteq> [] \<and>
     abstention_behavior_ok (ac_abstention c) \<and>
     require_unique (map xk_category (ac_expected_risks c)) \<and> require_unique (ac_unacceptable_risks c) \<and>
     set (map xk_category (ac_expected_risks c)) \<inter> set (ac_unacceptable_risks c) = {} \<and>
     require_unique (ac_expected_controls c) \<and> require_unique (ac_expected_governance_requirements c) \<and>
     require_unique (ac_expected_architecture_characteristics c) \<and> require_unique (ac_available_evidence_ids c) \<and>
     require_unique (map rq_claim_id (ac_evidence_requirements c)) \<and>
     list_all (requirement_ok (ac_available_evidence_ids c)) (ac_evidence_requirements c) \<and>
     set (map fst (ac_fixtures c)) = set all_evaluation_modes \<and>
     list_all (\<lambda>(mode, output). evaluation_output_ok output) (ac_fixtures c)"

record AssessmentEvaluationDataset =
  ad_dataset_id :: pystr
  ad_version :: pystr
  ad_description :: pystr
  ad_synthetic :: bool
  ad_taxonomy_notice :: pystr
  ad_cases :: "AssessmentEvaluationCase list"

definition evaluation_dataset_ok :: "AssessmentEvaluationDataset \<Rightarrow> bool" where
  "evaluation_dataset_ok d \<longleftrightarrow>
     len_between 1 100 (ad_dataset_id d) \<and> len_between 1 30 (ad_version d) \<and> len_between 1 1000 (ad_description d) \<and>
     len_between 1 1000 (ad_taxonomy_notice d) \<and> ad_cases d \<noteq> [] \<and> list_all evaluation_case_ok (ad_cases d) \<and>
     ad_synthetic d \<and> require_unique (map ac_case_id (ad_cases d)) \<and>
     require_unique (map ac_scenario_category (ad_cases d))"

section \<open>Metrics and observations\<close>

record AssessmentQualityMetrics =
  qm_risk_recall :: "rat option"
  qm_risk_precision :: "rat option"
  qm_severity_consistency :: "rat option"
  qm_control_coverage :: "rat option"
  qm_governance_coverage :: "rat option"
  qm_human_oversight_accuracy :: "rat option"
  qm_architecture_fit_score :: "rat option"
  qm_over_engineering_avoidance :: "rat option"
  qm_groundedness :: "rat option"
  qm_unsupported_claim_rate :: "rat option"
  qm_appropriate_abstention_rate :: "rat option"
  qm_specialist_preservation :: "rat option"
  qm_synthesis_transparency :: "rat option"

text \<open>\<open>METRIC_NAMES\<close> with their accessors, in the order of the fields.\<close>

definition METRIC_NAMES :: "(pystr \<times> (AssessmentQualityMetrics \<Rightarrow> rat option)) list" where
  "METRIC_NAMES =
     [(py ''risk_recall'', qm_risk_recall), (py ''risk_precision'', qm_risk_precision),
      (py ''severity_consistency'', qm_severity_consistency), (py ''control_coverage'', qm_control_coverage),
      (py ''governance_coverage'', qm_governance_coverage),
      (py ''human_oversight_accuracy'', qm_human_oversight_accuracy),
      (py ''architecture_fit_score'', qm_architecture_fit_score),
      (py ''over_engineering_avoidance'', qm_over_engineering_avoidance),
      (py ''groundedness'', qm_groundedness), (py ''unsupported_claim_rate'', qm_unsupported_claim_rate),
      (py ''appropriate_abstention_rate'', qm_appropriate_abstention_rate),
      (py ''specialist_preservation'', qm_specialist_preservation),
      (py ''synthesis_transparency'', qm_synthesis_transparency)]"

definition no_quality_metrics :: AssessmentQualityMetrics where
  "no_quality_metrics =
     \<lparr>qm_risk_recall = None, qm_risk_precision = None, qm_severity_consistency = None, qm_control_coverage = None,
      qm_governance_coverage = None, qm_human_oversight_accuracy = None, qm_architecture_fit_score = None,
      qm_over_engineering_avoidance = None, qm_groundedness = None, qm_unsupported_claim_rate = None,
      qm_appropriate_abstention_rate = None, qm_specialist_preservation = None, qm_synthesis_transparency = None\<rparr>"

definition quality_metrics_ok :: "AssessmentQualityMetrics \<Rightarrow> bool" where
  "quality_metrics_ok m \<longleftrightarrow> list_all (\<lambda>(name, field). unit_score (field m)) METRIC_NAMES"

definition mk_quality_metrics :: "AssessmentQualityMetrics \<Rightarrow> py_exc + AssessmentQualityMetrics" where
  "mk_quality_metrics m = (if quality_metrics_ok m then Inr m else Inl ValidationExc)"

record AssessmentQualityObservations =
  qo_identified_risks :: "IdentifiedRisk list"
  qo_missing_risks :: "EvaluationRiskCategory list"
  qo_unexpected_risks :: "EvaluationRiskCategory list"
  qo_recommended_controls :: "EvaluationControlCategory list"
  qo_missing_controls :: "EvaluationControlCategory list"
  qo_governance_requirements :: "EvaluationGovernanceRequirement list"
  qo_missing_governance_requirements :: "EvaluationGovernanceRequirement list"
  qo_architecture_characteristics :: "ArchitectureCharacteristic list"
  qo_missing_architecture_characteristics :: "ArchitectureCharacteristic list"
  qo_unsupported_claim_ids :: "pystr list"
  qo_missing_citation_claim_ids :: "pystr list"
  qo_invalid_citation_claim_ids :: "pystr list"
  qo_unacceptable_risks_identified :: "EvaluationRiskCategory list"
  qo_human_oversight_expected :: bool
  qo_human_oversight_recommended :: bool
  qo_abstention_expected :: AbstentionExpectation
  qo_uncertainty_acknowledged :: bool
  qo_abstained_from_unsupported_conclusion :: bool
  qo_validation_recommended :: bool
  qo_run_status :: AssessmentRunStatus
  qo_degradation_reasons :: "pystr list"

section \<open>The evaluators\<close>

definition opt_in :: "pystr option \<Rightarrow> pystr list \<Rightarrow> bool" where
  "opt_in v xs \<longleftrightarrow> (case v of None \<Rightarrow> False | Some x \<Rightarrow> x \<in> set xs)"

definition support_is_valid :: "ExpectedEvidenceRequirement \<Rightarrow> pystr list \<Rightarrow> ClaimSupport \<Rightarrow> bool" where
  "support_is_valid r findings s \<longleftrightarrow>
     cs_source s \<in> set (rq_allowed_sources r) \<and>
     (case cs_source s of
        Support_ASSESSMENT_INPUT \<Rightarrow> cs_reference_id s = None \<and> cs_system_knowledge_category s = None
      | Support_RETRIEVED_EVIDENCE \<Rightarrow> opt_in (cs_reference_id s) (rq_allowed_reference_ids r)
      | Support_SPECIALIST_OUTPUT \<Rightarrow>
          opt_in (cs_reference_id s) (rq_allowed_specialist_finding_ids r) \<and> opt_in (cs_reference_id s) findings
      | Support_SYSTEM_KNOWLEDGE \<Rightarrow>
          opt_in (cs_system_knowledge_category s) (rq_allowed_system_knowledge_categories r))"

definition evidence_supports :: "AssessmentClaim \<Rightarrow> ClaimSupport list" where
  "evidence_supports c = filter (\<lambda>s. cs_source s = Support_RETRIEVED_EVIDENCE) (cl_supports c)"

text \<open>The loop over the claims: unsupported, without citation, with an invalid citation.\<close>

fun check_claims ::
  "(pystr, ExpectedEvidenceRequirement) dict \<Rightarrow> pystr list \<Rightarrow> AssessmentClaim list \<Rightarrow>
     pystr list \<times> pystr list \<times> pystr list" where
  "check_claims requirements findings [] = ([], [], [])"
| "check_claims requirements findings (c # cs) =
     (let (unsupported, missing, invalid) = check_claims requirements findings cs
      in case map_of requirements (cl_claim_id c) of
           None \<Rightarrow> (cl_claim_id c # unsupported, missing, invalid)
         | Some r \<Rightarrow>
             (if list_ex (support_is_valid r findings) (cl_supports c) then unsupported
              else cl_claim_id c # unsupported,
              if rq_citation_required r \<and> evidence_supports c = [] then cl_claim_id c # missing else missing,
              if rq_citation_required r \<and> evidence_supports c \<noteq> [] \<and>
                 \<not> list_ex (\<lambda>s. opt_in (cs_reference_id s) (rq_allowed_reference_ids r)) (evidence_supports c)
              then cl_claim_id c # invalid else invalid))"

definition abstention_score :: "AssessmentEvaluationCase \<Rightarrow> AssessmentEvaluationOutput \<Rightarrow> rat" where
  "abstention_score c a =
     (let expected = ac_abstention c
      in if ab_expectation expected = Abstain_REQUIRED
         then true_share ([ao_abstained_from_unsupported_conclusion a] @
           (if ab_uncertainty_acknowledgment_required expected then [ao_uncertainty_acknowledged a] else []) @
           (if ab_validation_recommendation_required expected then [ao_validation_recommended a] else []))
         else if ao_abstained_from_unsupported_conclusion a then 0 else 1)"

definition evaluate_synthesis :: "AssessmentEvaluationOutput \<Rightarrow> rat option \<times> rat option" where
  "evaluate_synthesis a =
     (case ao_specialists a of
        None \<Rightarrow> (None, None)
      | Some s \<Rightarrow>
          (if st_important_finding_ids s = [] then None
           else Some (coverage (ao_preserved_specialist_finding_ids a) (st_important_finding_ids s)),
           Some (true_share
             ([set (ao_preserved_specialist_finding_ids a) \<subseteq> set (st_available_finding_ids s)] @
              (if st_disagreement_ids s \<noteq> []
               then [set (st_disagreement_ids s) \<subseteq> set (ao_surfaced_disagreement_ids a)] else []) @
              (if st_unavailable_specialists s \<noteq> [] \<or> ao_degradation_reasons a \<noteq> []
               then [ao_degraded_state_acknowledged a] else [])))))"

text \<open>\<open>sorted(set(xs) - set(ys), key=str)\<close>.\<close>

definition sorted_minus :: "('a \<Rightarrow> pystr) \<Rightarrow> 'a list \<Rightarrow> 'a list \<Rightarrow> 'a list" where
  "sorted_minus str xs ys = sort_key str (filter (\<lambda>x. x \<notin> set ys) (remdups xs))"

definition matched_risks :: "AssessmentEvaluationCase \<Rightarrow> AssessmentEvaluationOutput \<Rightarrow> EvaluationRiskCategory list" where
  "matched_risks c a =
     filter (\<lambda>k. k \<in> ik_category ` set (ao_identified_risks a)) (map fst (dict_of xk_category (ac_expected_risks c)))"

definition severity_matches :: "AssessmentEvaluationCase \<Rightarrow> AssessmentEvaluationOutput \<Rightarrow> nat" where
  "severity_matches c a =
     length (filter (\<lambda>k. map_option xk_severity (map_of (dict_of xk_category (ac_expected_risks c)) k) =
                         map_option ik_severity (map_of (dict_of ik_category (ao_identified_risks a)) k))
       (matched_risks c a))"

definition specialist_findings :: "AssessmentEvaluationOutput \<Rightarrow> pystr list" where
  "specialist_findings a = (case ao_specialists a of None \<Rightarrow> [] | Some s \<Rightarrow> st_available_finding_ids s)"

definition claim_faults :: "AssessmentEvaluationCase \<Rightarrow> AssessmentEvaluationOutput \<Rightarrow> pystr list \<times> pystr list \<times> pystr list" where
  "claim_faults c a = check_claims (dict_of rq_claim_id (ac_evidence_requirements c)) (specialist_findings a) (ao_claims a)"

definition quality_observations ::
  "AssessmentEvaluationCase \<Rightarrow> AssessmentEvaluationOutput \<Rightarrow> AssessmentQualityObservations" where
  "quality_observations c a =
     (let expected = map xk_category (ac_expected_risks c); identified = map ik_category (ao_identified_risks a);
          (unsupported, missing, invalid) = claim_faults c a
      in \<lparr>qo_identified_risks = sort_key (\<lambda>k. risk_category_value (ik_category k)) (ao_identified_risks a),
          qo_missing_risks = sorted_minus risk_category_value expected identified,
          qo_unexpected_risks = sorted_minus risk_category_value identified expected,
          qo_recommended_controls = sorted_minus control_category_value (ao_recommended_controls a) [],
          qo_missing_controls = sorted_minus control_category_value (ac_expected_controls c) (ao_recommended_controls a),
          qo_governance_requirements = sorted_minus governance_requirement_value (ao_governance_requirements a) [],
          qo_missing_governance_requirements =
            sorted_minus governance_requirement_value (ac_expected_governance_requirements c) (ao_governance_requirements a),
          qo_architecture_characteristics = sorted_minus architecture_value (ao_architecture_characteristics a) [],
          qo_missing_architecture_characteristics =
            sorted_minus architecture_value (ac_expected_architecture_characteristics c) (ao_architecture_characteristics a),
          qo_unsupported_claim_ids = unsupported, qo_missing_citation_claim_ids = missing,
          qo_invalid_citation_claim_ids = invalid,
          qo_unacceptable_risks_identified =
            sort_key risk_category_value (filter (\<lambda>k. k \<in> set identified) (remdups (ac_unacceptable_risks c))),
          qo_human_oversight_expected = ac_human_oversight_expected c,
          qo_human_oversight_recommended = ao_human_oversight_recommended a,
          qo_abstention_expected = ab_expectation (ac_abstention c),
          qo_uncertainty_acknowledged = ao_uncertainty_acknowledged a,
          qo_abstained_from_unsupported_conclusion = ao_abstained_from_unsupported_conclusion a,
          qo_validation_recommended = ao_validation_recommended a, qo_run_status = ao_run_status a,
          qo_degradation_reasons = ao_degradation_reasons a\<rparr>)"

definition quality_metrics :: "AssessmentEvaluationCase \<Rightarrow> AssessmentEvaluationOutput \<Rightarrow> AssessmentQualityMetrics" where
  "quality_metrics c a =
     (let expected = map fst (dict_of xk_category (ac_expected_risks c));
          identified = map fst (dict_of ik_category (ao_identified_risks a));
          matched = matched_risks c a;
          (unsupported, _, _) = claim_faults c a;
          claim_count = length (ao_claims a);
          simple_expected = list_ex (\<lambda>x. x \<in> set (ac_expected_architecture_characteristics c))
            [Arch_DETERMINISTIC_SUFFICIENT, Arch_SIMPLER_WORKFLOW_PREFERRED, Arch_MULTI_AGENT_UNNECESSARY];
          excessive = list_ex (\<lambda>x. x \<in> set (ao_architecture_characteristics a))
            [Arch_AGENT_WORKFLOW_JUSTIFIED, Arch_MULTI_AGENT_JUSTIFIED];
          (preservation, transparency) = evaluate_synthesis a
      in \<lparr>qm_risk_recall = Some (of_nat (length matched) / of_nat (length expected)),
          qm_risk_precision =
            Some (if identified = [] then 0 else of_nat (length matched) / of_nat (length identified)),
          qm_severity_consistency =
            (if matched = [] then None else Some (of_nat (severity_matches c a) / of_nat (length matched))),
          qm_control_coverage = Some (coverage (ao_recommended_controls a) (ac_expected_controls c)),
          qm_governance_coverage =
            Some (coverage (ao_governance_requirements a) (ac_expected_governance_requirements c)),
          qm_human_oversight_accuracy =
            Some (if ao_human_oversight_recommended a = ac_human_oversight_expected c then 1 else 0),
          qm_architecture_fit_score =
            Some (coverage (ao_architecture_characteristics a) (ac_expected_architecture_characteristics c)),
          qm_over_engineering_avoidance = (if simple_expected then Some (if excessive then 0 else 1) else None),
          qm_groundedness =
            (if claim_count = 0 then None
             else Some ((of_nat claim_count - of_nat (length unsupported)) / of_nat claim_count)),
          qm_unsupported_claim_rate =
            (if claim_count = 0 then None else Some (of_nat (length unsupported) / of_nat claim_count)),
          qm_appropriate_abstention_rate = Some (abstention_score c a),
          qm_specialist_preservation = preservation, qm_synthesis_transparency = transparency\<rparr>)"

text \<open>An empty expectation list is a \<open>ZeroDivisionError\<close>.\<close>

definition evaluate_assessment ::
  "AssessmentEvaluationCase \<Rightarrow> AssessmentEvaluationOutput \<Rightarrow>
     py_exc + (AssessmentQualityMetrics \<times> AssessmentQualityObservations)" where
  "evaluate_assessment c a =
     (if ac_expected_risks c = [] \<or> ac_expected_controls c = [] \<or> ac_expected_governance_requirements c = [] \<or>
         ac_expected_architecture_characteristics c = []
      then Inl (OtherExc (py ''ZeroDivisionError''))
      else map_sum id (\<lambda>m. (m, quality_observations c a)) (mk_quality_metrics (quality_metrics c a)))"

definition aggregate_quality_metrics :: "AssessmentQualityMetrics list \<Rightarrow> py_exc + AssessmentQualityMetrics" where
  "aggregate_quality_metrics ms =
     (let mean = (\<lambda>field. average (map field ms))
      in mk_quality_metrics
        \<lparr>qm_risk_recall = mean qm_risk_recall, qm_risk_precision = mean qm_risk_precision,
         qm_severity_consistency = mean qm_severity_consistency, qm_control_coverage = mean qm_control_coverage,
         qm_governance_coverage = mean qm_governance_coverage,
         qm_human_oversight_accuracy = mean qm_human_oversight_accuracy,
         qm_architecture_fit_score = mean qm_architecture_fit_score,
         qm_over_engineering_avoidance = mean qm_over_engineering_avoidance,
         qm_groundedness = mean qm_groundedness, qm_unsupported_claim_rate = mean qm_unsupported_claim_rate,
         qm_appropriate_abstention_rate = mean qm_appropriate_abstention_rate,
         qm_specialist_preservation = mean qm_specialist_preservation,
         qm_synthesis_transparency = mean qm_synthesis_transparency\<rparr>)"

section \<open>The judge\<close>

record JudgeDimensionScore =
  jd_dimension :: JudgeDimension
  jd_score :: int
  jd_rationale :: pystr

record LLMJudgeResult =
  jr_dimensions :: "JudgeDimensionScore list"
  jr_findings :: "(pystr \<times> pystr) list"
  jr_confidence :: rat
  jr_usage :: "(int option \<times> int option) option"

definition judge_result_ok :: "LLMJudgeResult \<Rightarrow> bool" where
  "judge_result_ok j \<longleftrightarrow>
     list_all (\<lambda>d. 1 \<le> jd_score d \<and> jd_score d \<le> 5 \<and> len_between 1 500 (jd_rationale d)) (jr_dimensions j) \<and>
     length (jr_findings j) \<le> 20 \<and>
     list_all (\<lambda>(ty, summary). len_between 1 100 ty \<and> len_between 1 500 summary) (jr_findings j) \<and>
     0 \<le> jr_confidence j \<and> jr_confidence j \<le> 1 \<and>
     require_unique (map jd_dimension (jr_dimensions j)) \<and>
     set (map jd_dimension (jr_dimensions j)) =
       {Judge_GROUNDEDNESS, Judge_RISK_REASONING_QUALITY, Judge_MITIGATION_USEFULNESS,
        Judge_ARCHITECTURE_APPROPRIATENESS, Judge_GOVERNANCE_COMPLETENESS, Judge_CLARITY_ACTIONABILITY}"

section \<open>The runner\<close>

record AssessmentCaseEvaluationResult =
  cr_case_id :: pystr
  cr_scenario_category :: AssessmentScenarioCategory
  cr_mode :: AssessmentEvaluationMode
  cr_failed :: bool
  cr_error_code :: "pystr option"
  cr_metrics :: AssessmentQualityMetrics
  cr_observations :: "AssessmentQualityObservations option"
  cr_judge :: "LLMJudgeResult option"

record AssessmentEvaluationConfiguration =
  ax_execution_profile :: pystr
  ax_judge_enabled :: bool
  ax_judge_model :: "pystr option"
  ax_deterministic_contract_version :: pystr

record AssessmentEvaluationReport =
  ar_generated_at :: instant
  ar_dataset_id :: pystr
  ar_dataset_version :: pystr
  ar_synthetic :: bool
  ar_mode :: AssessmentEvaluationMode
  ar_total_cases :: nat
  ar_evaluated_cases :: nat
  ar_skipped_cases :: "pystr list"
  ar_failed_cases :: "pystr list"
  ar_degraded_cases :: "pystr list"
  ar_aggregate_metrics :: AssessmentQualityMetrics
  ar_cases :: "AssessmentCaseEvaluationResult list"
  ar_configuration :: AssessmentEvaluationConfiguration
  ar_llm_judge_calls :: nat
  ar_reproducibility_fingerprint :: pystr
  ar_warnings :: "pystr list"

text \<open>\<open>av_dump\<close> is \<open>json.dumps\<close> of mode, aggregate and the cases without their judge results,
  \<open>av_sha256_hex\<close> the digest of its encoding.\<close>

record AssessmentEvaluationRunner =
  av_dataset :: AssessmentEvaluationDataset
  av_execute :: "AssessmentEvaluationCase \<Rightarrow> AssessmentEvaluationMode \<Rightarrow> py_exc + AssessmentEvaluationOutput"
  av_configuration :: AssessmentEvaluationConfiguration
  av_judge :: "(AssessmentEvaluationCase \<Rightarrow> AssessmentEvaluationOutput \<Rightarrow> py_exc + LLMJudgeResult) option"
  av_dump :: "AssessmentEvaluationMode \<Rightarrow> AssessmentQualityMetrics \<Rightarrow> AssessmentCaseEvaluationResult list \<Rightarrow> pystr"
  av_sha256_hex :: "pystr \<Rightarrow> pystr"

definition failed_case ::
  "AssessmentEvaluationCase \<Rightarrow> AssessmentEvaluationMode \<Rightarrow> pystr \<Rightarrow> AssessmentCaseEvaluationResult" where
  "failed_case c mode code =
     \<lparr>cr_case_id = ac_case_id c, cr_scenario_category = ac_scenario_category c, cr_mode = mode, cr_failed = True,
      cr_error_code = Some code, cr_metrics = no_quality_metrics, cr_observations = None, cr_judge = None\<rparr>"

text \<open>The judge is asked when it is enabled and present; its failure only counts.\<close>

definition judged ::
  "AssessmentEvaluationRunner \<Rightarrow> AssessmentEvaluationCase \<Rightarrow> AssessmentEvaluationOutput \<Rightarrow>
     LLMJudgeResult option \<times> nat \<times> nat" where
  "judged av c a =
     (case av_judge av of
        None \<Rightarrow> (None, 0, 0)
      | Some judge \<Rightarrow>
          if \<not> ax_judge_enabled (av_configuration av) then (None, 0, 0)
          else (case judge c a of Inl e \<Rightarrow> (None, 1, 1) | Inr j \<Rightarrow> (Some j, 1, 0)))"

definition run_assessment_case ::
  "AssessmentEvaluationRunner \<Rightarrow> AssessmentEvaluationMode \<Rightarrow> AssessmentEvaluationCase \<Rightarrow>
     AssessmentCaseEvaluationResult \<times> nat \<times> nat" where
  "run_assessment_case av mode c =
     (case av_execute av c mode of
        Inl e \<Rightarrow> (failed_case c mode (py ''assessment_evaluation_execution_failed''), 0, 0)
      | Inr a \<Rightarrow>
          if ao_run_status a = RunStatus_FAILED
          then (failed_case c mode (py ''assessment_mode_execution_failed''), 0, 0)
          else (case evaluate_assessment c a of
              Inl e \<Rightarrow> (failed_case c mode (py ''assessment_evaluation_execution_failed''), 0, 0)
            | Inr (metrics, observations) \<Rightarrow>
                let (j, calls, failures) = judged av c a
                in (\<lparr>cr_case_id = ac_case_id c, cr_scenario_category = ac_scenario_category c, cr_mode = mode,
                     cr_failed = False, cr_error_code = None, cr_metrics = metrics,
                     cr_observations = Some observations, cr_judge = j\<rparr>, calls, failures)))"

definition degraded_case :: "AssessmentCaseEvaluationResult \<Rightarrow> bool" where
  "degraded_case r \<longleftrightarrow>
     (case cr_observations r of None \<Rightarrow> False | Some q \<Rightarrow> qo_run_status q = RunStatus_DEGRADED)"

definition evaluation_fingerprint ::
  "AssessmentEvaluationRunner \<Rightarrow> AssessmentEvaluationMode \<Rightarrow> AssessmentQualityMetrics \<Rightarrow>
     AssessmentCaseEvaluationResult list \<Rightarrow> pystr" where
  "evaluation_fingerprint av mode aggregate results =
     av_sha256_hex av (av_dump av mode aggregate (map (\<lambda>r. r\<lparr>cr_judge := None\<rparr>) results))"

definition hex64 :: "pystr \<Rightarrow> bool" where
  "hex64 s \<longleftrightarrow> length s = 64 \<and> list_all (\<lambda>c. 48 \<le> c \<and> c \<le> 57 \<or> 97 \<le> c \<and> c \<le> 102) s"

definition run_warnings :: "AssessmentEvaluationRunner \<Rightarrow> nat \<Rightarrow> pystr list" where
  "run_warnings av judge_failures =
     [py ''Synthetic deterministic assessment fixtures; not real-world production assurance.'',
      py ''Deterministic metrics use explicit benchmark labels, not hidden reasoning.''] @
     (if \<not> ax_judge_enabled (av_configuration av)
      then [py ''Optional LLM judge disabled; zero judge calls made.'']
      else if av_judge av = None
      then [py ''LLM judge enabled but unavailable; no judge results produced.''] else []) @
     (if judge_failures \<noteq> 0
      then [py ''LLM judge unavailable for '' @ nat_digits judge_failures @ py '' case(s).''] else [])"

definition run_assessment_evaluation ::
  "AssessmentEvaluationRunner \<Rightarrow> AssessmentEvaluationMode \<Rightarrow> instant \<Rightarrow> py_exc + AssessmentEvaluationReport" where
  "run_assessment_evaluation av mode now =
     (let runs = map (run_assessment_case av mode) (ad_cases (av_dataset av));
          results = map fst runs;
          evaluated = filter (\<lambda>r. \<not> cr_failed r) results
      in case aggregate_quality_metrics (map cr_metrics evaluated) of
           Inl e \<Rightarrow> Inl e
         | Inr aggregate \<Rightarrow>
             let fingerprint = evaluation_fingerprint av mode aggregate results
             in if \<not> hex64 fingerprint then Inl ValidationExc
                else Inr
                  \<lparr>ar_generated_at = now, ar_dataset_id = ad_dataset_id (av_dataset av),
                   ar_dataset_version = ad_version (av_dataset av), ar_synthetic = ad_synthetic (av_dataset av),
                   ar_mode = mode, ar_total_cases = length results, ar_evaluated_cases = length evaluated,
                   ar_skipped_cases = [], ar_failed_cases = map cr_case_id (filter cr_failed results),
                   ar_degraded_cases = map cr_case_id (filter degraded_case evaluated),
                   ar_aggregate_metrics = aggregate, ar_cases = results, ar_configuration = av_configuration av,
                   ar_llm_judge_calls = sum_list (map (\<lambda>(_, calls, _). calls) runs),
                   ar_reproducibility_fingerprint = fingerprint,
                   ar_warnings = run_warnings av (sum_list (map (\<lambda>(_, _, failures). failures) runs))\<rparr>)"

text \<open>\<open>DeterministicAssessmentFixtureExecutor.execute\<close>.\<close>

definition fixture_execute ::
  "AssessmentEvaluationCase \<Rightarrow> AssessmentEvaluationMode \<Rightarrow> py_exc + AssessmentEvaluationOutput" where
  "fixture_execute c mode = (case map_of (ac_fixtures c) mode of None \<Rightarrow> Inl KeyExc | Some a \<Rightarrow> Inr a)"

section \<open>Comparison\<close>

definition oriented :: "pystr \<Rightarrow> rat \<Rightarrow> rat" where
  "oriented name v = (if name = py ''unsupported_claim_rate'' then 1 - v else v)"

definition comparable :: "AssessmentQualityMetrics \<Rightarrow> AssessmentQualityMetrics \<Rightarrow> (rat \<times> rat) list" where
  "comparable candidate baseline =
     List.map_filter (\<lambda>(name, field).
         case (field candidate, field baseline) of
           (Some a, Some b) \<Rightarrow> Some (oriented name a, oriented name b)
         | _ \<Rightarrow> None) METRIC_NAMES"

definition metrics_dominate :: "AssessmentQualityMetrics \<Rightarrow> AssessmentQualityMetrics \<Rightarrow> bool" where
  "metrics_dominate candidate baseline \<longleftrightarrow>
     comparable candidate baseline \<noteq> [] \<and>
     list_all (\<lambda>(a, b). a \<ge> b) (comparable candidate baseline) \<and>
     list_ex (\<lambda>(a, b). a > b) (comparable candidate baseline)"

definition dominates :: "AssessmentCaseEvaluationResult \<Rightarrow> AssessmentCaseEvaluationResult \<Rightarrow> bool" where
  "dominates candidate baseline = metrics_dominate (cr_metrics candidate) (cr_metrics baseline)"

definition pareto_modes :: "AssessmentCaseEvaluationResult list \<Rightarrow> AssessmentEvaluationMode list" where
  "pareto_modes cases =
     (let available = filter (\<lambda>r. \<not> cr_failed r) cases
      in map cr_mode (filter (\<lambda>candidate.
           \<not> list_ex (\<lambda>other. cr_mode other \<noteq> cr_mode candidate \<and> dominates other candidate) available) available))"

definition case_by_id :: "AssessmentEvaluationReport \<Rightarrow> pystr \<Rightarrow> py_exc + AssessmentCaseEvaluationResult" where
  "case_by_id report i =
     (case find (\<lambda>r. cr_case_id r = i) (ar_cases report) of
        None \<Rightarrow> Inl (OtherExc (py ''StopIteration'')) | Some r \<Rightarrow> Inr r)"

definition final_metrics :: "(AssessmentQualityMetrics \<Rightarrow> rat option) list" where
  "final_metrics =
     [qm_risk_recall, qm_risk_precision, qm_severity_consistency, qm_control_coverage, qm_governance_coverage,
      qm_human_oversight_accuracy, qm_architecture_fit_score, qm_over_engineering_avoidance, qm_groundedness,
      qm_unsupported_claim_rate, qm_appropriate_abstention_rate]"

definition shared_final_quality_equal :: "AssessmentCaseEvaluationResult \<Rightarrow> AssessmentCaseEvaluationResult \<Rightarrow> bool" where
  "shared_final_quality_equal a b \<longleftrightarrow> list_all (\<lambda>field. field (cr_metrics a) = field (cr_metrics b)) final_metrics"

definition improved :: "rat option \<Rightarrow> rat option \<Rightarrow> rat option" where
  "improved before after =
     (case (before, after) of (Some b, Some a) \<Rightarrow> if a > b then Some (a - b) else None | _ \<Rightarrow> None)"

definition pair_tradeoffs ::
  "AssessmentEvaluationMode \<Rightarrow> AssessmentEvaluationMode \<Rightarrow> AssessmentQualityMetrics \<Rightarrow> AssessmentQualityMetrics \<Rightarrow>
     pystr list" where
  "pair_tradeoffs baseline_mode candidate_mode baseline candidate =
     List.map_filter (\<lambda>(metric, field).
         map_option (\<lambda>d. eval_mode_value candidate_mode @ py '' improved '' @ metric @ py '' by '' @ fixed_decimals 3 d @
             py '' over '' @ eval_mode_value baseline_mode @ py '' on this synthetic benchmark.'')
           (improved (field baseline) (field candidate)))
       [(py ''risk_recall'', qm_risk_recall), (py ''control_coverage'', qm_control_coverage),
        (py ''governance_coverage'', qm_governance_coverage)] @
     List.map_filter (\<lambda>(metric, field).
         map_option (\<lambda>d. eval_mode_value baseline_mode @ py '' retained a '' @ fixed_decimals 3 d @
             py '' advantage in '' @ metric @ py '' over '' @ eval_mode_value candidate_mode @
             py '' on this synthetic benchmark.'')
           (improved (field candidate) (field baseline)))
       [(py ''human_oversight_accuracy'', qm_human_oversight_accuracy),
        (py ''architecture_fit_score'', qm_architecture_fit_score), (py ''groundedness'', qm_groundedness)] @
     (case improved (qm_unsupported_claim_rate baseline) (qm_unsupported_claim_rate candidate) of
        None \<Rightarrow> []
      | Some d \<Rightarrow>
          [eval_mode_value baseline_mode @ py '' had a '' @ fixed_decimals 3 d @
           py '' lower unsupported_claim_rate than '' @ eval_mode_value candidate_mode @ py ''.''])"

type_synonym reports_by_mode = "(AssessmentEvaluationMode, AssessmentEvaluationReport) dict"

definition mode_pair_tradeoffs ::
  "reports_by_mode \<Rightarrow> AssessmentEvaluationMode \<times> AssessmentEvaluationMode \<Rightarrow> pystr list" where
  "mode_pair_tradeoffs reports = (\<lambda>(baseline_mode, candidate_mode).
     case (map_of reports baseline_mode, map_of reports candidate_mode) of
       (Some b, Some c) \<Rightarrow>
         pair_tradeoffs baseline_mode candidate_mode (ar_aggregate_metrics b) (ar_aggregate_metrics c)
     | _ \<Rightarrow> [])"

definition simple_case_statement ::
  "reports_by_mode \<Rightarrow> (pystr, AssessmentEvaluationMode list) dict \<Rightarrow> py_exc + pystr list" where
  "simple_case_statement reports best =
     (case map_of reports Eval_DETERMINISTIC of
        None \<Rightarrow> Inr []
      | Some r \<Rightarrow>
          (let simple = filter (\<lambda>x. cr_scenario_category x \<in>
                 {Scenario_LOW_RISK_PRODUCTIVITY, Scenario_SIMPLE_DETERMINISTIC}) (ar_cases r)
           in if \<not> list_all (\<lambda>x. map_of best (cr_case_id x) \<noteq> None) simple then Inl KeyExc
              else let ids = map cr_case_id (filter (\<lambda>x. entry_satisfies best (cr_case_id x)
                         (\<lambda>modes. Eval_DETERMINISTIC \<in> set modes)) simple)
                in Inr (if ids = [] then []
                        else [py ''deterministic remained Pareto-optimal for simple cases: '' @
                              py_join (py '', '') ids @ py ''.''])))"

text \<open>The cases in which the single and the multi-agent result score the same.\<close>

fun unchanged_ids :: "AssessmentEvaluationReport \<Rightarrow> AssessmentCaseEvaluationResult list \<Rightarrow> py_exc + pystr list" where
  "unchanged_ids multi [] = Inr []"
| "unchanged_ids multi (item # items) =
     (if cr_failed item then unchanged_ids multi items
      else case case_by_id multi (cr_case_id item) of
             Inl e \<Rightarrow> Inl e
           | Inr other \<Rightarrow>
               map_sum id (\<lambda>ids. if \<not> cr_failed other \<and> shared_final_quality_equal item other
                                 then cr_case_id item # ids else ids)
                 (unchanged_ids multi items))"

definition unchanged_statement :: "reports_by_mode \<Rightarrow> py_exc + pystr list" where
  "unchanged_statement reports =
     (case (map_of reports Eval_SINGLE_AGENT, map_of reports Eval_MULTI_AGENT) of
        (Some single, Some multi) \<Rightarrow>
          map_sum id (\<lambda>ids. if ids = [] then []
              else [py ''multi_agent added no measurable final-output quality benefit over single_agent for: '' @
                    py_join (py '', '') ids @ py ''.''])
            (unchanged_ids multi (ar_cases single))
      | _ \<Rightarrow> Inr [])"

definition derive_tradeoffs ::
  "reports_by_mode \<Rightarrow> (pystr, AssessmentEvaluationMode list) dict \<Rightarrow> py_exc + pystr list" where
  "derive_tradeoffs reports best =
     (case simple_case_statement reports best of
        Inl e \<Rightarrow> Inl e
      | Inr simple \<Rightarrow>
          map_sum id (\<lambda>unchanged.
              concat (map (mode_pair_tradeoffs reports)
                [(Eval_DETERMINISTIC, Eval_SINGLE_AGENT), (Eval_SINGLE_AGENT, Eval_MULTI_AGENT)]) @ simple @ unchanged)
            (unchanged_statement reports))"

record AssessmentModeComparison =
  mc_generated_at :: instant
  mc_dataset_id :: pystr
  mc_dataset_version :: pystr
  mc_synthetic :: bool
  mc_modes :: "AssessmentEvaluationMode list"
  mc_rows :: "(pystr \<times> (AssessmentEvaluationMode, rat option) dict) list"
  mc_key_tradeoffs :: "pystr list"
  mc_best_mode_by_case :: "(pystr, AssessmentEvaluationMode list) dict"
  mc_case_count :: nat
  mc_warnings :: "pystr list"

definition best_by_case ::
  "AssessmentEvaluationReport list \<Rightarrow> pystr \<Rightarrow> py_exc + (pystr \<times> AssessmentEvaluationMode list)" where
  "best_by_case reports i = map_sum id (\<lambda>cases. (i, pareto_modes cases)) (try_map (\<lambda>r. case_by_id r i) reports)"

definition build_assessment_comparison ::
  "AssessmentEvaluationReport list \<Rightarrow> instant \<Rightarrow> py_exc + AssessmentModeComparison" where
  "build_assessment_comparison reports now =
     (case reports of
        [] \<Rightarrow> Inl ValueExc
      | first # others \<Rightarrow>
          if length (remdups (map (\<lambda>r. (ar_dataset_id r, ar_dataset_version r)) reports)) \<noteq> 1 then Inl ValueExc
          else let by_mode = dict_of ar_mode reports
            in if length by_mode \<noteq> length reports then Inl ValueExc
               else if \<not> list_all (\<lambda>r. set (map cr_case_id (ar_cases r)) = set (map cr_case_id (ar_cases first))) others
               then Inl ValueExc
               else let ids = sort (remdups (map cr_case_id (ar_cases first)));
                        present = List.map_filter (\<lambda>m. map_option (Pair m) (map_of by_mode m)) all_evaluation_modes
                 in case try_map (best_by_case (map snd present)) ids of
                      Inl e \<Rightarrow> Inl e
                    | Inr best \<Rightarrow>
                        map_sum id (\<lambda>tradeoffs.
                          \<lparr>mc_generated_at = now, mc_dataset_id = ar_dataset_id first,
                           mc_dataset_version = ar_dataset_version first,
                           mc_synthetic = list_all ar_synthetic reports, mc_modes = map fst present,
                           mc_rows = map (\<lambda>(name, field).
                               (name, map (\<lambda>(m, r). (m, field (ar_aggregate_metrics r))) present)) METRIC_NAMES,
                           mc_key_tradeoffs = tradeoffs, mc_best_mode_by_case = best, mc_case_count = length ids,
                           mc_warnings =
                             [py ''Synthetic benchmark findings are local to these declared fixtures.'',
                              py ''Pareto-optimal modes may tie; no global winner or hidden composite score is used.'']\<rparr>)
                          (derive_tradeoffs by_mode best))"

section \<open>Scores of one assessment\<close>

lemma quality_metrics_ok_iff:
  "quality_metrics_ok m \<longleftrightarrow>
     unit_score (qm_risk_recall m) \<and> unit_score (qm_risk_precision m) \<and> unit_score (qm_severity_consistency m) \<and>
     unit_score (qm_control_coverage m) \<and> unit_score (qm_governance_coverage m) \<and>
     unit_score (qm_human_oversight_accuracy m) \<and> unit_score (qm_architecture_fit_score m) \<and>
     unit_score (qm_over_engineering_avoidance m) \<and> unit_score (qm_groundedness m) \<and>
     unit_score (qm_unsupported_claim_rate m) \<and> unit_score (qm_appropriate_abstention_rate m) \<and>
     unit_score (qm_specialist_preservation m) \<and> unit_score (qm_synthesis_transparency m)"
  by (simp add: quality_metrics_ok_def METRIC_NAMES_def)

interpretation risk_recall: unit_metric quality_metrics_ok qm_risk_recall
  by unfold_locales (simp add: quality_metrics_ok_iff)

interpretation risk_precision: unit_metric quality_metrics_ok qm_risk_precision
  by unfold_locales (simp add: quality_metrics_ok_iff)

interpretation severity: unit_metric quality_metrics_ok qm_severity_consistency
  by unfold_locales (simp add: quality_metrics_ok_iff)

interpretation controls: unit_metric quality_metrics_ok qm_control_coverage
  by unfold_locales (simp add: quality_metrics_ok_iff)

interpretation governance: unit_metric quality_metrics_ok qm_governance_coverage
  by unfold_locales (simp add: quality_metrics_ok_iff)

interpretation oversight: unit_metric quality_metrics_ok qm_human_oversight_accuracy
  by unfold_locales (simp add: quality_metrics_ok_iff)

interpretation architecture: unit_metric quality_metrics_ok qm_architecture_fit_score
  by unfold_locales (simp add: quality_metrics_ok_iff)

interpretation simplicity: unit_metric quality_metrics_ok qm_over_engineering_avoidance
  by unfold_locales (simp add: quality_metrics_ok_iff)

interpretation groundedness: unit_metric quality_metrics_ok qm_groundedness
  by unfold_locales (simp add: quality_metrics_ok_iff)

interpretation unsupported: unit_metric quality_metrics_ok qm_unsupported_claim_rate
  by unfold_locales (simp add: quality_metrics_ok_iff)

interpretation abstention: unit_metric quality_metrics_ok qm_appropriate_abstention_rate
  by unfold_locales (simp add: quality_metrics_ok_iff)

interpretation preservation: unit_metric quality_metrics_ok qm_specialist_preservation
  by unfold_locales (simp add: quality_metrics_ok_iff)

interpretation transparency: unit_metric quality_metrics_ok qm_synthesis_transparency
  by unfold_locales (simp add: quality_metrics_ok_iff)

lemma aggregate_quality_total:
  assumes "list_all quality_metrics_ok ms"
  shows "\<exists>a. aggregate_quality_metrics ms = Inr a \<and> quality_metrics_ok a"
  using risk_recall.average_bounded[OF assms] risk_precision.average_bounded[OF assms] severity.average_bounded[OF assms]
    controls.average_bounded[OF assms] governance.average_bounded[OF assms] oversight.average_bounded[OF assms]
    architecture.average_bounded[OF assms] simplicity.average_bounded[OF assms] groundedness.average_bounded[OF assms]
    unsupported.average_bounded[OF assms] abstention.average_bounded[OF assms] preservation.average_bounded[OF assms]
    transparency.average_bounded[OF assms]
  by (simp add: aggregate_quality_metrics_def mk_quality_metrics_def quality_metrics_ok_iff Let_def)

lemma coverage_full_iff: "expected \<noteq> [] \<Longrightarrow> coverage found expected = 1 \<longleftrightarrow> set expected \<subseteq> set found"
proof -
  assume ne: "expected \<noteq> []"
  let ?f = "filter (\<lambda>x. x \<in> set found) (remdups expected)"
  have "coverage found expected = 1 \<longleftrightarrow> length ?f = length (remdups expected)"
    using ne by (simp add: coverage_def divide_eq_eq)
  also have "\<dots> \<longleftrightarrow> (\<forall>x \<in> set expected. x \<in> set found)"
    by (metis filter_True length_filter_less nat_neq_iff set_remdups)
  finally show ?thesis by blast
qed

lemma sorted_minus_Nil: "sorted_minus str xs ys = [] \<longleftrightarrow> set xs \<subseteq> set ys"
proof -
  have "sorted_minus str xs ys = [] \<longleftrightarrow> filter (\<lambda>x. x \<notin> set ys) (remdups xs) = []"
    unfolding sorted_minus_def by (metis length_0_conv length_sort)
  then show ?thesis by (auto simp: filter_empty_conv)
qed

lemma check_claims_length:
  "check_claims requirements findings cs = (unsupported, missing, invalid) \<Longrightarrow> length unsupported \<le> length cs"
  by (induction cs arbitrary: unsupported missing invalid)
     (fastforce split: prod.splits option.splits if_splits)+

lemma matched_risks_length:
  assumes "distinct (map xk_category (ac_expected_risks c))" and "distinct (map ik_category (ao_identified_risks a))"
  shows "length (matched_risks c a) \<le> length (ac_expected_risks c)"
    and "length (matched_risks c a) \<le> length (ao_identified_risks a)"
    and "length (matched_risks c a) = length (ac_expected_risks c) \<longleftrightarrow>
      set (map xk_category (ac_expected_risks c)) \<subseteq> set (map ik_category (ao_identified_risks a))"
    and "length (matched_risks c a) = length (ao_identified_risks a) \<longleftrightarrow>
      set (map ik_category (ao_identified_risks a)) \<subseteq> set (map xk_category (ac_expected_risks c))"
proof -
  let ?E = "map xk_category (ac_expected_risks c)" and ?I = "map ik_category (ao_identified_risks a)"
  have m: "matched_risks c a = filter (\<lambda>k. k \<in> set ?I) ?E"
    by (simp add: matched_risks_def dict_of_distinct[OF assms(1)] comp_def)
  have d: "distinct (matched_risks c a)" unfolding m using assms(1) by (rule distinct_filter)
  have n: "length (matched_risks c a) = card (set ?E \<inter> set ?I)"
    using distinct_card[OF d] by (simp add: m Int_def conj_commute)
  have e: "length (ac_expected_risks c) = card (set ?E)" "length (ao_identified_risks a) = card (set ?I)"
    using distinct_card[OF assms(1)] distinct_card[OF assms(2)] by simp_all
  show "length (matched_risks c a) \<le> length (ac_expected_risks c)"
    "length (matched_risks c a) \<le> length (ao_identified_risks a)"
    unfolding n e by (simp_all add: card_mono)
  have "card (set ?E \<inter> set ?I) = card (set ?E) \<longleftrightarrow> set ?E \<inter> set ?I = set ?E"
    by (metis List.finite_set card_subset_eq inf_le1)
  then show "length (matched_risks c a) = length (ac_expected_risks c) \<longleftrightarrow> set ?E \<subseteq> set ?I" unfolding n e by blast
  have "card (set ?E \<inter> set ?I) = card (set ?I) \<longleftrightarrow> set ?E \<inter> set ?I = set ?I"
    by (metis List.finite_set card_subset_eq inf_le2)
  then show "length (matched_risks c a) = length (ao_identified_risks a) \<longleftrightarrow> set ?I \<subseteq> set ?E" unfolding n e by blast
qed

lemma ratio_unit: "m \<le> n \<Longrightarrow> 0 < n \<Longrightarrow> unit_score (Some (of_nat m / of_nat n))"
  by (simp add: unit_score_def divide_le_eq)

lemma synthesis_unit: "unit_score (fst (evaluate_synthesis a)) \<and> unit_score (snd (evaluate_synthesis a))"
  by (auto simp: evaluate_synthesis_def unit_score_def[of None] intro: coverage_unit true_share_unit split: option.split)

lemma abstention_unit: "unit_score (Some (abstention_score c a))"
proof (cases "ab_expectation (ac_abstention c) = Abstain_REQUIRED")
  case True
  then show ?thesis unfolding abstention_score_def Let_def
    by (simp only: if_True refl simp_thms) (rule true_share_unit, simp)
next
  case False
  then show ?thesis by (simp add: abstention_score_def unit_score_def Let_def)
qed

text \<open>The fields of \<open>quality_metrics\<close> with its tuples resolved.\<close>

lemma quality_metrics_fields:
  assumes "distinct (map xk_category (ac_expected_risks c))" and "distinct (map ik_category (ao_identified_risks a))"
    and "claim_faults c a = (unsup, missing, invalid)"
  shows "qm_risk_recall (quality_metrics c a) = Some (of_nat (length (matched_risks c a)) / of_nat (length (ac_expected_risks c)))"
    and "qm_risk_precision (quality_metrics c a) = Some (if ao_identified_risks a = [] then 0
           else of_nat (length (matched_risks c a)) / of_nat (length (ao_identified_risks a)))"
    and "qm_severity_consistency (quality_metrics c a) = (if matched_risks c a = [] then None
           else Some (of_nat (severity_matches c a) / of_nat (length (matched_risks c a))))"
    and "qm_control_coverage (quality_metrics c a) = Some (coverage (ao_recommended_controls a) (ac_expected_controls c))"
    and "qm_governance_coverage (quality_metrics c a) =
           Some (coverage (ao_governance_requirements a) (ac_expected_governance_requirements c))"
    and "unit_score (qm_human_oversight_accuracy (quality_metrics c a))"
    and "qm_architecture_fit_score (quality_metrics c a) =
           Some (coverage (ao_architecture_characteristics a) (ac_expected_architecture_characteristics c))"
    and "unit_score (qm_over_engineering_avoidance (quality_metrics c a))"
    and "qm_groundedness (quality_metrics c a) = (if ao_claims a = [] then None
           else Some ((of_nat (length (ao_claims a)) - of_nat (length unsup)) / of_nat (length (ao_claims a))))"
    and "qm_unsupported_claim_rate (quality_metrics c a) = (if ao_claims a = [] then None
           else Some (of_nat (length unsup) / of_nat (length (ao_claims a))))"
    and "qm_appropriate_abstention_rate (quality_metrics c a) = Some (abstention_score c a)"
    and "qm_specialist_preservation (quality_metrics c a) = fst (evaluate_synthesis a)"
    and "qm_synthesis_transparency (quality_metrics c a) = snd (evaluate_synthesis a)"
  using assms
  by (simp_all add: quality_metrics_def Let_def unit_score_def dict_of_distinct comp_def split: prod.split)

lemma quality_metrics_valid:
  assumes c: "evaluation_case_ok c" and a: "evaluation_output_ok a"
  shows "quality_metrics_ok (quality_metrics c a)"
proof -
  obtain unsup missing invalid where f: "claim_faults c a = (unsup, missing, invalid)" by (cases "claim_faults c a")
  have d: "distinct (map xk_category (ac_expected_risks c))" "distinct (map ik_category (ao_identified_risks a))"
    and ne: "ac_expected_risks c \<noteq> []" "ac_expected_controls c \<noteq> []" "ac_expected_governance_requirements c \<noteq> []"
      "ac_expected_architecture_characteristics c \<noteq> []"
    using c a by (simp_all add: evaluation_case_ok_def evaluation_output_ok_def)
  note fields = quality_metrics_fields[OF d f]
  have u: "length unsup \<le> length (ao_claims a)" using check_claims_length f by (simp add: claim_faults_def)
  have "unit_score (qm_groundedness (quality_metrics c a))"
  proof (cases "ao_claims a = []")
    case False
    have "unit_score (Some (of_nat (length (ao_claims a) - length unsup) / of_nat (length (ao_claims a))))"
      using False by (intro ratio_unit) simp_all
    then show ?thesis unfolding fields(9) using False of_nat_diff[OF u, where 'a = rat] by simp
  qed (simp add: fields(9) unit_score_def)
  moreover have "unit_score (qm_severity_consistency (quality_metrics c a))"
    using ratio_unit[of "severity_matches c a" "length (matched_risks c a)"]
    unfolding fields(3) by (auto simp: severity_matches_def unit_score_def[of None])
  moreover have "unit_score (qm_risk_precision (quality_metrics c a))"
    using ratio_unit[OF matched_risks_length(2)[OF d]] unfolding fields(2) by (auto simp: unit_score_def[of "Some 0"])
  moreover have "unit_score (qm_risk_recall (quality_metrics c a))"
    using ratio_unit[OF matched_risks_length(1)[OF d]] ne(1) unfolding fields(1) by simp
  moreover have "unit_score (qm_unsupported_claim_rate (quality_metrics c a))"
    using ratio_unit[OF u] unfolding fields(10) by (auto simp: unit_score_def[of None])
  ultimately show ?thesis
    unfolding quality_metrics_ok_iff
    using fields(6,8) coverage_unit[OF ne(2)] coverage_unit[OF ne(3)] coverage_unit[OF ne(4)] synthesis_unit[of a]
      abstention_unit[of c a]
    by (simp add: fields(4,5,7,11-13))
qed


section \<open>Runs\<close>

definition case_run_ok ::
  "AssessmentEvaluationRunner \<Rightarrow> AssessmentEvaluationMode \<Rightarrow> AssessmentEvaluationCase \<Rightarrow>
     AssessmentCaseEvaluationResult \<times> nat \<times> nat \<Rightarrow> bool" where
  "case_run_ok av mode c = (\<lambda>(r, calls, failures).
     cr_case_id r = ac_case_id c \<and> cr_mode r = mode \<and> quality_metrics_ok (cr_metrics r) \<and>
     (cr_failed r \<longleftrightarrow> cr_error_code r \<noteq> None) \<and>
     calls = (if \<not> cr_failed r \<and> ax_judge_enabled (av_configuration av) \<and> av_judge av \<noteq> None then 1 else 0))"

lemma no_quality_metrics_ok: "quality_metrics_ok no_quality_metrics"
  by (simp add: quality_metrics_ok_iff no_quality_metrics_def unit_score_def)

lemma evaluate_assessment_valid: "evaluate_assessment c a = Inr (m, q) \<Longrightarrow> quality_metrics_ok m"
  by (auto simp: evaluate_assessment_def mk_quality_metrics_def split: if_splits)

lemma run_assessment_case_ok: "case_run_ok av mode c (run_assessment_case av mode c)"
  by (auto simp: run_assessment_case_def case_run_ok_def failed_case_def judged_def no_quality_metrics_ok Let_def
      dest: evaluate_assessment_valid split: sum.split option.split prod.split)

text \<open>Whatever the judge does, the result of a case apart from its judge entry is the same.\<close>

lemma run_case_without_judge:
  "(fst (run_assessment_case (av\<lparr>av_judge := j, av_configuration := cfg\<rparr>) mode c))\<lparr>cr_judge := None\<rparr> =
   (fst (run_assessment_case av mode c))\<lparr>cr_judge := None\<rparr>"
  by (auto simp: run_assessment_case_def judged_def failed_case_def Let_def split: sum.split option.split prod.split)

lemma results_without_judge:
  assumes "map (\<lambda>r. r\<lparr>cr_judge := None\<rparr>) rs = map (\<lambda>r. r\<lparr>cr_judge := None\<rparr>) rs'"
  shows "map cr_metrics (filter (\<lambda>r. \<not> cr_failed r) rs) = map cr_metrics (filter (\<lambda>r. \<not> cr_failed r) rs')"
  using assms
proof (induction rs arbitrary: rs')
  case (Cons r rs)
  then obtain r' ts where rs': "rs' = r' # ts" "r\<lparr>cr_judge := None\<rparr> = r'\<lparr>cr_judge := None\<rparr>"
    "map (\<lambda>r. r\<lparr>cr_judge := None\<rparr>) rs = map (\<lambda>r. r\<lparr>cr_judge := None\<rparr>) ts" by auto
  have "cr_failed r = cr_failed r'" "cr_metrics r = cr_metrics r'"
    using arg_cong[OF rs'(2), of cr_failed] arg_cong[OF rs'(2), of cr_metrics] by simp_all
  with Cons.IH[OF rs'(3)] rs'(1) show ?case by simp
qed simp

text \<open>An evaluation run contains every failure. Whatever executor and judge return or raise, the run gives one
  result per benchmark case, in order; evaluated and failed cases add up to the total and the failed ones
  carry an error code; all scores lie between zero and one; the judge is asked exactly once per
  evaluated case when it is enabled and present and never otherwise; and enabling, replacing or
  dropping the judge changes neither the aggregate scores nor the reproducibility fingerprint.\<close>

theorem evaluation_run_contained:
  assumes sha: "\<forall>s. hex64 (av_sha256_hex av s)"
  shows "\<exists>report. run_assessment_evaluation av mode now = Inr report \<and>
    map cr_case_id (ar_cases report) = map ac_case_id (ad_cases (av_dataset av)) \<and>
    ar_total_cases report = length (ad_cases (av_dataset av)) \<and>
    ar_evaluated_cases report + length (ar_failed_cases report) = ar_total_cases report \<and>
    list_all (\<lambda>r. quality_metrics_ok (cr_metrics r) \<and> (cr_failed r \<longleftrightarrow> cr_error_code r \<noteq> None)) (ar_cases report) \<and>
    quality_metrics_ok (ar_aggregate_metrics report) \<and>
    ar_llm_judge_calls report =
      (if ax_judge_enabled (av_configuration av) \<and> av_judge av \<noteq> None then ar_evaluated_cases report else 0) \<and>
    (\<forall>j cfg. \<exists>other. run_assessment_evaluation (av\<lparr>av_judge := j, av_configuration := cfg\<rparr>) mode now = Inr other \<and>
       ar_aggregate_metrics other = ar_aggregate_metrics report \<and>
       ar_reproducibility_fingerprint other = ar_reproducibility_fingerprint report)"
proof -
  define runs where "runs = map (run_assessment_case av mode) (ad_cases (av_dataset av))"
  define rs where "rs = map fst runs"
  have ok: "list_all2 (case_run_ok av mode) (ad_cases (av_dataset av)) runs"
    unfolding runs_def by (simp add: list_all2_conv_all_nth run_assessment_case_ok)
  have ids: "map cr_case_id rs = map ac_case_id (ad_cases (av_dataset av)) \<and>
      list_all (\<lambda>r. quality_metrics_ok (cr_metrics r) \<and> (cr_failed r \<longleftrightarrow> cr_error_code r \<noteq> None)) rs"
    unfolding rs_def using ok by (induction rule: list_all2_induct) (auto simp: case_run_ok_def)
  have calls: "sum_list (map (\<lambda>(_, calls, _). calls) runs) =
      (if ax_judge_enabled (av_configuration av) \<and> av_judge av \<noteq> None then length (filter (\<lambda>r. \<not> cr_failed r) rs) else 0)"
    unfolding rs_def using ok by (induction rule: list_all2_induct) (auto simp: case_run_ok_def)
  have valid: "list_all quality_metrics_ok (map cr_metrics (filter (\<lambda>r. \<not> cr_failed r) rs))"
    using ids by (auto simp: list_all_iff)
  obtain a where agg: "aggregate_quality_metrics (map cr_metrics (filter (\<lambda>r. \<not> cr_failed r) rs)) = Inr a" "quality_metrics_ok a"
    using aggregate_quality_total[OF valid] by blast
  have same: "\<exists>other. run_assessment_evaluation (av\<lparr>av_judge := j, av_configuration := cfg\<rparr>) mode now = Inr other \<and>
       ar_aggregate_metrics other = a \<and> ar_reproducibility_fingerprint other = evaluation_fingerprint av mode a rs" for j cfg
  proof -
    let ?av = "av\<lparr>av_judge := j, av_configuration := cfg\<rparr>"
    let ?rs = "map fst (map (run_assessment_case ?av mode) (ad_cases (av_dataset av)))"
    have eq: "map (\<lambda>r. r\<lparr>cr_judge := None\<rparr>) ?rs = map (\<lambda>r. r\<lparr>cr_judge := None\<rparr>) rs"
      unfolding rs_def runs_def using run_case_without_judge by (simp add: comp_def)
    have fp: "evaluation_fingerprint ?av mode a ?rs = evaluation_fingerprint av mode a rs"
      unfolding evaluation_fingerprint_def eq by simp
    have "aggregate_quality_metrics (map cr_metrics (filter (\<lambda>r. \<not> cr_failed r) ?rs)) = Inr a"
      unfolding results_without_judge[OF eq] by (rule agg(1))
    then show ?thesis using sha fp by (simp add: run_assessment_evaluation_def Let_def evaluation_fingerprint_def)
  qed
  have fp: "hex64 (evaluation_fingerprint av mode a rs)" using sha by (simp add: evaluation_fingerprint_def)
  have "\<exists>report. run_assessment_evaluation av mode now = Inr report \<and> ar_cases report = rs \<and>
      ar_total_cases report = length rs \<and> ar_evaluated_cases report = length (filter (\<lambda>r. \<not> cr_failed r) rs) \<and>
      ar_failed_cases report = map cr_case_id (filter cr_failed rs) \<and> ar_aggregate_metrics report = a \<and>
      ar_llm_judge_calls report = sum_list (map (\<lambda>(_, calls, _). calls) runs) \<and>
      ar_reproducibility_fingerprint report = evaluation_fingerprint av mode a rs"
    unfolding run_assessment_evaluation_def Let_def runs_def[symmetric] rs_def[symmetric] using agg(1) fp by simp
  then obtain report where report: "run_assessment_evaluation av mode now = Inr report" "ar_cases report = rs"
      "ar_total_cases report = length rs" "ar_evaluated_cases report = length (filter (\<lambda>r. \<not> cr_failed r) rs)"
      "ar_failed_cases report = map cr_case_id (filter cr_failed rs)" "ar_aggregate_metrics report = a"
      "ar_llm_judge_calls report = sum_list (map (\<lambda>(_, calls, _). calls) runs)"
      "ar_reproducibility_fingerprint report = evaluation_fingerprint av mode a rs" by blast
  have total: "length (filter (\<lambda>r. \<not> cr_failed r) rs) + length (filter cr_failed rs) = length rs"
    using sum_length_filter_compl[of cr_failed rs] by simp
  have len: "length rs = length (ad_cases (av_dataset av))" by (simp add: rs_def runs_def)
  show ?thesis
    by (rule exI[of _ report]) (use report(1) ids calls total len agg(2) same in \<open>auto simp: report(2-8)\<close>)
qed

section \<open>The Pareto front\<close>

text \<open>Two sets of scores with the same dimensions present.\<close>

definition same_support :: "AssessmentQualityMetrics \<Rightarrow> AssessmentQualityMetrics \<Rightarrow> bool" where
  "same_support m m' \<longleftrightarrow> list_all (\<lambda>(name, field). field m = None \<longleftrightarrow> field m' = None) METRIC_NAMES"

definition total_score :: "AssessmentQualityMetrics \<Rightarrow> rat" where
  "total_score m = sum_list (map (\<lambda>(name, field). case field m of None \<Rightarrow> 0 | Some v \<Rightarrow> oriented name v) METRIC_NAMES)"

lemma comparable_pairs:
  "(x, y) \<in> set (comparable a b) \<longleftrightarrow>
     (\<exists>name field v w. (name, field) \<in> set METRIC_NAMES \<and> field a = Some v \<and> field b = Some w \<and>
        x = oriented name v \<and> y = oriented name w)"
  by (force simp: comparable_def map_filter_def split: option.splits)

lemma dominate_iff:
  "metrics_dominate a b \<longleftrightarrow>
     (\<forall>name field v w. (name, field) \<in> set METRIC_NAMES \<longrightarrow> field a = Some v \<longrightarrow> field b = Some w \<longrightarrow>
        oriented name w \<le> oriented name v) \<and>
     (\<exists>name field v w. (name, field) \<in> set METRIC_NAMES \<and> field a = Some v \<and> field b = Some w \<and>
        oriented name w < oriented name v)"
proof -
  have "metrics_dominate a b \<longleftrightarrow>
      (\<forall>x y. (x, y) \<in> set (comparable a b) \<longrightarrow> y \<le> x) \<and> (\<exists>x y. (x, y) \<in> set (comparable a b) \<and> y < x)"
    by (auto simp: metrics_dominate_def list_all_iff list_ex_iff)
  also have "(\<forall>x y. (x, y) \<in> set (comparable a b) \<longrightarrow> y \<le> x) \<longleftrightarrow>
      (\<forall>name field v w. (name, field) \<in> set METRIC_NAMES \<longrightarrow> field a = Some v \<longrightarrow> field b = Some w \<longrightarrow>
        oriented name w \<le> oriented name v)"
    unfolding comparable_pairs by blast
  also have "(\<exists>x y. (x, y) \<in> set (comparable a b) \<and> y < x) \<longleftrightarrow>
      (\<exists>name field v w. (name, field) \<in> set METRIC_NAMES \<and> field a = Some v \<and> field b = Some w \<and>
        oriented name w < oriented name v)"
    unfolding comparable_pairs by blast
  finally show ?thesis .
qed

lemma dominateD:
  "metrics_dominate a b \<Longrightarrow> (name, field) \<in> set METRIC_NAMES \<Longrightarrow> field a = Some v \<Longrightarrow> field b = Some w \<Longrightarrow>
     oriented name w \<le> oriented name v"
  unfolding dominate_iff by blast

lemma supportD:
  "same_support a b \<Longrightarrow> (name, field) \<in> set METRIC_NAMES \<Longrightarrow> field a = None \<longleftrightarrow> field b = None"
  using bspec[of "set METRIC_NAMES" "\<lambda>(name, field). field a = None \<longleftrightarrow> field b = None" "(name, field)"]
  by (simp add: same_support_def list_all_iff)

lemma dominate_trans:
  assumes ab: "metrics_dominate a b" "same_support a b" and bc: "metrics_dominate b c" "same_support b c"
  shows "metrics_dominate a c"
proof -
  have le: "oriented name u \<le> oriented name v"
    if f: "(name, field) \<in> set METRIC_NAMES" and v: "field a = Some v" and u: "field c = Some u" for name field v u
  proof -
    have "field b \<noteq> None" using supportD[OF ab(2) f] v by simp
    then obtain w where w: "field b = Some w" by auto
    show ?thesis using dominateD[OF ab(1) f v w] dominateD[OF bc(1) f w u] by linarith
  qed
  obtain name field v w where x: "(name, field) \<in> set METRIC_NAMES" "field a = Some v" "field b = Some w"
    "oriented name w < oriented name v" using ab(1) unfolding dominate_iff by blast
  obtain u where u: "field c = Some u" using supportD[OF bc(2) x(1)] x(3) by auto
  have "oriented name u < oriented name v" using dominateD[OF bc(1) x(1,3) u] x(4) by linarith
  with le x(1,2) u show ?thesis unfolding dominate_iff by blast
qed

lemma dominate_total_score:
  assumes "metrics_dominate a b" and "same_support a b"
  shows "total_score b < total_score a"
proof -
  let ?v = "\<lambda>m (name, field). case field m of None \<Rightarrow> 0 | Some v \<Rightarrow> oriented name v"
  have le: "?v b x \<le> ?v a x" if "x \<in> set METRIC_NAMES" for x
  proof -
    obtain name field where x: "x = (name, field)" by (cases x)
    show ?thesis
      using dominateD[OF assms(1), of name field] supportD[OF assms(2), of name field] that
      by (auto simp: x split: option.split)
  qed
  obtain x where x: "x \<in> set METRIC_NAMES" "?v b x < ?v a x"
  proof -
    obtain name field v w where "(name, field) \<in> set METRIC_NAMES" "field a = Some v" "field b = Some w"
      "oriented name w < oriented name v" using assms(1) unfolding dominate_iff by blast
    then show thesis by (intro that[of "(name, field)"]) simp_all
  qed
  have strict: "sum_list (map (?v b) xs) < sum_list (map (?v a) xs)"
    if "\<forall>x \<in> set xs. ?v b x \<le> ?v a x" "x \<in> set xs" "?v b x < ?v a x" for xs
    using that
  proof (induction xs)
    case (Cons y ys)
    have tail: "sum_list (map (?v b) ys) \<le> sum_list (map (?v a) ys)" using Cons.prems(1) by (intro sum_list_mono) simp
    show ?case
    proof (cases "x = y")
      case True
      then show ?thesis using tail Cons.prems(3) by (simp add: add_less_le_mono)
    next
      case False
      then have "sum_list (map (?v b) ys) < sum_list (map (?v a) ys)" using Cons by simp
      then show ?thesis using Cons.prems(1) by (simp add: add_le_less_mono)
    qed
  qed simp
  from strict[OF _ x] le show ?thesis unfolding total_score_def by blast
qed

lemma dominator_on_front:
  assumes "finite A" and "\<And>x y. x \<in> A \<Longrightarrow> y \<in> A \<Longrightarrow> same_support (cr_metrics x) (cr_metrics y)" and "c \<in> A"
  shows "\<exists>x \<in> A. (x = c \<or> dominates x c) \<and> (\<forall>y \<in> A. \<not> dominates y x)"
proof -
  let ?U = "{x \<in> A. x = c \<or> dominates x c}"
  have fin: "finite ?U" "?U \<noteq> {}" using assms(1,3) by auto
  obtain x where x: "x \<in> ?U" "\<forall>y \<in> ?U. total_score (cr_metrics y) \<le> total_score (cr_metrics x)"
  proof -
    let ?S = "(\<lambda>x. total_score (cr_metrics x)) ` ?U"
    have "Max ?S \<in> ?S" using fin by (intro Max_in) auto
    then obtain x where "x \<in> ?U" "total_score (cr_metrics x) = Max ?S" by force
    moreover have "total_score (cr_metrics y) \<le> Max ?S" if "y \<in> ?U" for y using fin that by (intro Max_ge) auto
    ultimately show thesis by (intro that) auto
  qed
  have "\<not> dominates y x" if y: "y \<in> A" for y
  proof
    assume d: "dominates y x"
    have sup: "same_support (cr_metrics y) (cr_metrics x)" "same_support (cr_metrics x) (cr_metrics c)"
      using assms(2,3) y x(1) by blast+
    have "y \<in> ?U"
    proof (cases "x = c")
      case True
      then show ?thesis using y d by simp
    next
      case False
      then have "dominates x c" using x(1) by simp
      then show ?thesis using dominate_trans[of "cr_metrics y" "cr_metrics x" "cr_metrics c"] sup d y
        by (simp add: dominates_def)
    qed
    then have "total_score (cr_metrics y) \<le> total_score (cr_metrics x)" using x(2) by blast
    moreover have "total_score (cr_metrics x) < total_score (cr_metrics y)"
      using dominate_total_score[OF _ sup(1)] d by (simp add: dominates_def)
    ultimately show False by simp
  qed
  then show ?thesis using x(1) by blast
qed

text \<open>The best modes of a benchmark case are the Pareto front of its available results. When the results
  score the same dimensions, there is a best mode as soon as one result is available, no best mode is
  dominated by another, and a mode that is left out is dominated by one of the best modes.\<close>

theorem pareto_modes_front:
  assumes modes: "distinct (map cr_mode cases)"
    and support: "\<forall>x \<in> set cases. \<forall>y \<in> set cases. \<not> cr_failed x \<and> \<not> cr_failed y \<longrightarrow> same_support (cr_metrics x) (cr_metrics y)"
  shows "(pareto_modes cases = [] \<longleftrightarrow> list_all cr_failed cases) \<and>
    (\<forall>c \<in> set cases. cr_mode c \<in> set (pareto_modes cases) \<longrightarrow>
       \<not> cr_failed c \<and> \<not> list_ex (\<lambda>x. \<not> cr_failed x \<and> dominates x c) cases) \<and>
    (\<forall>c \<in> set cases. \<not> cr_failed c \<and> cr_mode c \<notin> set (pareto_modes cases) \<longrightarrow>
       list_ex (\<lambda>x. cr_mode x \<in> set (pareto_modes cases) \<and> dominates x c) cases)"
proof -
  let ?A = "{x \<in> set cases. \<not> cr_failed x}"
  have irrefl: "\<not> dominates c c" for c
    unfolding dominates_def dominate_iff by auto
  have same: "x = y" if "x \<in> set cases" "y \<in> set cases" "cr_mode x = cr_mode y" for x y
    using modes that by (auto simp: distinct_map dest: inj_onD)
  have set_eq: "set (pareto_modes cases) = cr_mode ` {d \<in> ?A. \<forall>y \<in> ?A. cr_mode y \<noteq> cr_mode d \<longrightarrow> \<not> dominates y d}"
    unfolding pareto_modes_def Let_def by (auto simp: list_ex_iff)
  have front: "cr_mode c \<in> set (pareto_modes cases) \<longleftrightarrow> \<not> cr_failed c \<and> (\<forall>y \<in> ?A. \<not> dominates y c)" if c: "c \<in> set cases" for c
  proof
    assume "cr_mode c \<in> set (pareto_modes cases)"
    then obtain d where d: "d \<in> ?A" "cr_mode c = cr_mode d" "\<forall>y \<in> ?A. cr_mode y \<noteq> cr_mode d \<longrightarrow> \<not> dominates y d"
      unfolding set_eq by blast
    have "d = c" using same[of d c] d c by simp
    moreover have "\<not> dominates y c" if "y \<in> ?A" for y
      using same[of y c] d(3) that c irrefl[of c] calculation by auto
    ultimately show "\<not> cr_failed c \<and> (\<forall>y \<in> ?A. \<not> dominates y c)" using d(1) by blast
  next
    assume "\<not> cr_failed c \<and> (\<forall>y \<in> ?A. \<not> dominates y c)"
    then show "cr_mode c \<in> set (pareto_modes cases)" unfolding set_eq using c by blast
  qed
  have dom: "\<exists>x \<in> ?A. (x = c \<or> dominates x c) \<and> cr_mode x \<in> set (pareto_modes cases)" if c: "c \<in> ?A" for c
  proof -
    obtain x where "x \<in> ?A" "x = c \<or> dominates x c" "\<forall>y \<in> ?A. \<not> dominates y x"
      using dominator_on_front[of ?A c] support c by fastforce
    then show ?thesis using front[of x] by auto
  qed
  have "pareto_modes cases = [] \<longleftrightarrow> list_all cr_failed cases"
  proof
    assume "pareto_modes cases = []"
    then show "list_all cr_failed cases" using dom by (fastforce simp: list_all_iff)
  qed (simp add: pareto_modes_def list_all_iff)
  moreover have "\<not> cr_failed c \<and> \<not> list_ex (\<lambda>x. \<not> cr_failed x \<and> dominates x c) cases"
    if "c \<in> set cases" "cr_mode c \<in> set (pareto_modes cases)" for c
    using front[OF that(1)] that(2) by (auto simp: list_ex_iff)
  moreover have "list_ex (\<lambda>x. cr_mode x \<in> set (pareto_modes cases) \<and> dominates x c) cases"
    if "c \<in> set cases" "\<not> cr_failed c" "cr_mode c \<notin> set (pareto_modes cases)" for c
    using dom[of c] that by (auto simp: list_ex_iff)
  ultimately show ?thesis by blast
qed

section \<open>Comparison of reports\<close>

lemma try_map_pointwise:
  "(\<And>x. x \<in> set xs \<Longrightarrow> \<exists>y. f x = Inr y \<and> P x y) \<Longrightarrow> \<exists>ys. try_map f xs = Inr ys \<and> list_all2 P xs ys"
proof (induction xs)
  case (Cons x xs)
  obtain y where y: "f x = Inr y" "P x y" using Cons.prems[of x] by auto
  have "\<exists>ys. try_map f xs = Inr ys \<and> list_all2 P xs ys" by (rule Cons.IH, rule Cons.prems, simp)
  then obtain ys where "try_map f xs = Inr ys" "list_all2 P xs ys" by blast
  with y show ?case by simp
qed simp

lemma in_set_map_filter: "x \<in> set (List.map_filter f xs) \<longleftrightarrow> (\<exists>y \<in> set xs. f y = Some x)"
  by (induction xs) (auto simp: List.map_filter_simps split: option.split)

definition reports_aligned :: "pystr list \<Rightarrow> AssessmentEvaluationReport list \<Rightarrow> bool" where
  "reports_aligned ids reports \<longleftrightarrow>
     reports \<noteq> [] \<and> distinct (map ar_mode reports) \<and>
     (\<forall>r \<in> set reports. \<forall>r' \<in> set reports. ar_dataset_id r = ar_dataset_id r' \<and> ar_dataset_version r = ar_dataset_version r') \<and>
     (\<forall>r \<in> set reports. set (map cr_case_id (ar_cases r)) = set ids)"

lemma remdups_constant: "xs \<noteq> [] \<Longrightarrow> (\<And>x y. x \<in> set xs \<Longrightarrow> y \<in> set xs \<Longrightarrow> x = y) \<Longrightarrow> length (remdups xs) = 1"
proof -
  assume ne: "xs \<noteq> []" and eq: "\<And>x y. x \<in> set xs \<Longrightarrow> y \<in> set xs \<Longrightarrow> x = y"
  have "set xs = {hd xs}" using ne eq by (metis hd_in_set insertI1 insert_absorb singleton_iff subset_antisym subsetI)
  then show ?thesis by (simp add: length_remdups_card_conv)
qed

lemma case_by_id_total:
  assumes "i \<in> set (map cr_case_id (ar_cases r))"
  shows "\<exists>x. case_by_id r i = Inr x \<and> x \<in> set (ar_cases r) \<and> cr_case_id x = i"
proof -
  have "find (\<lambda>x. cr_case_id x = i) (ar_cases r) \<noteq> None" using assms by (auto simp: find_None_iff)
  then obtain x where x: "find (\<lambda>x. cr_case_id x = i) (ar_cases r) = Some x" by blast
  with find_SomeD[OF x] show ?thesis by (simp add: case_by_id_def)
qed

lemma unchanged_ids_total:
  "(\<And>x. x \<in> set items \<Longrightarrow> cr_case_id x \<in> set (map cr_case_id (ar_cases multi))) \<Longrightarrow>
     \<exists>ids. unchanged_ids multi items = Inr ids"
proof (induction items)
  case (Cons x xs)
  have "\<exists>ids. unchanged_ids multi xs = Inr ids" by (rule Cons.IH, rule Cons.prems, simp)
  moreover obtain y where "case_by_id multi (cr_case_id x) = Inr y" using case_by_id_total[OF Cons.prems[of x]] by auto
  ultimately show ?case by auto
qed simp

definition front_entry :: "AssessmentEvaluationReport list \<Rightarrow> pystr \<Rightarrow> pystr \<times> AssessmentEvaluationMode list \<Rightarrow> bool" where
  "front_entry reports i e \<longleftrightarrow>
     fst e = i \<and> (\<exists>cases. snd e = pareto_modes cases \<and>
       list_all2 (\<lambda>r x. x \<in> set (ar_cases r) \<and> cr_case_id x = i) reports cases)"

lemma best_by_case_total:
  assumes "\<And>r. r \<in> set reports \<Longrightarrow> i \<in> set (map cr_case_id (ar_cases r))"
  shows "\<exists>e. best_by_case reports i = Inr e \<and> front_entry reports i e"
proof -
  obtain cases where "try_map (\<lambda>r. case_by_id r i) reports = Inr cases"
    "list_all2 (\<lambda>r x. x \<in> set (ar_cases r) \<and> cr_case_id x = i) reports cases"
    using try_map_pointwise[of reports "\<lambda>r. case_by_id r i" "\<lambda>r x. x \<in> set (ar_cases r) \<and> cr_case_id x = i"]
      case_by_id_total assms by blast
  then show ?thesis by (auto simp: best_by_case_def front_entry_def)
qed

lemma derive_tradeoffs_total:
  assumes reports: "\<And>m r. map_of by_mode m = Some r \<Longrightarrow> set (map cr_case_id (ar_cases r)) = set ids"
    and best: "set (map fst best) = set ids"
  shows "\<exists>s. derive_tradeoffs by_mode best = Inr s"
proof -
  have known: "map_of best (cr_case_id x) \<noteq> None" if "map_of by_mode m = Some r" "x \<in> set (ar_cases r)" for m r x
  proof -
    have "cr_case_id x \<in> set ids" using reports[OF that(1)] that(2) by auto
    then show ?thesis using best by (auto simp: map_of_eq_None_iff)
  qed
  have "\<exists>s. simple_case_statement by_mode best = Inr s"
  proof (cases "map_of by_mode Eval_DETERMINISTIC")
    case (Some r)
    have "list_all (\<lambda>x. map_of best (cr_case_id x) \<noteq> None) (ar_cases r)"
      using known[OF Some] by (simp add: list_all_iff)
    then show ?thesis by (auto simp: simple_case_statement_def Let_def Some list_all_iff)
  qed (simp add: simple_case_statement_def)
  moreover have "\<exists>s. unchanged_statement by_mode = Inr s"
  proof (cases "map_of by_mode Eval_SINGLE_AGENT")
    case (Some single)
    show ?thesis
    proof (cases "map_of by_mode Eval_MULTI_AGENT")
      case m: (Some multi)
      have "\<exists>ids. unchanged_ids multi (ar_cases single) = Inr ids"
        using reports[OF Some] reports[OF m] by (intro unchanged_ids_total) auto
      then show ?thesis by (auto simp: unchanged_statement_def Some m)
    qed (simp add: unchanged_statement_def Some)
  qed (simp add: unchanged_statement_def)
  ultimately show ?thesis by (auto simp: derive_tradeoffs_def)
qed

text \<open>Reports of the same data set, one per mode and over the same cases, can always be compared: the
  comparison never misses a case, lists every case exactly once with the Pareto front of its
  results in the reports, and shows one row per metric with one value per report.\<close>

theorem comparison_total:
  assumes aligned: "reports_aligned ids reports"
  shows "\<exists>cmp. build_assessment_comparison reports now = Inr cmp \<and>
    map fst (mc_best_mode_by_case cmp) = sort (remdups (map cr_case_id (ar_cases (hd reports)))) \<and>
    set (map fst (mc_best_mode_by_case cmp)) = set ids \<and>
    set (mc_modes cmp) = ar_mode ` set reports \<and>
    (\<exists>ordered. set ordered = set reports \<and>
       list_all (\<lambda>e. front_entry ordered (fst e) e) (mc_best_mode_by_case cmp) \<and>
       mc_rows cmp = map (\<lambda>(name, field). (name, map (\<lambda>r. (ar_mode r, field (ar_aggregate_metrics r))) ordered)) METRIC_NAMES)"
proof -
  obtain first others where rs: "reports = first # others"
    using aligned by (cases reports) (auto simp: reports_aligned_def)
  have d: "distinct (map ar_mode reports)" and cases: "\<And>r. r \<in> set reports \<Longrightarrow> set (map cr_case_id (ar_cases r)) = set ids"
    using aligned by (auto simp: reports_aligned_def)
  have key: "length (remdups (map (\<lambda>r. (ar_dataset_id r, ar_dataset_version r)) reports)) = 1"
  proof (rule remdups_constant)
    fix x y assume "x \<in> set (map (\<lambda>r. (ar_dataset_id r, ar_dataset_version r)) reports)"
      "y \<in> set (map (\<lambda>r. (ar_dataset_id r, ar_dataset_version r)) reports)"
    then obtain r r' where r: "r \<in> set reports" "r' \<in> set reports"
      "x = (ar_dataset_id r, ar_dataset_version r)" "y = (ar_dataset_id r', ar_dataset_version r')" by auto
    have "ar_dataset_id r = ar_dataset_id r' \<and> ar_dataset_version r = ar_dataset_version r'"
      using aligned r(1,2) unfolding reports_aligned_def by blast
    then show "x = y" by (simp add: r(3,4))
  qed (simp add: rs)
  define by_mode where "by_mode = dict_of ar_mode reports"
  have len: "length by_mode = length reports" by (simp add: by_mode_def dict_of_distinct[OF d])
  have look: "map_of by_mode m = Some r \<longleftrightarrow> r \<in> set reports \<and> ar_mode r = m" for m r
    unfolding by_mode_def by (rule dict_of_lookup[OF d])
  define present where "present = List.map_filter (\<lambda>m. map_option (Pair m) (map_of by_mode m)) all_evaluation_modes"
  have members: "(m, r) \<in> set present \<longleftrightarrow> r \<in> set reports \<and> ar_mode r = m" for m r
  proof -
    have "m \<in> set all_evaluation_modes" by (cases m) (simp_all add: all_evaluation_modes_def)
    then have "(m, r) \<in> set present \<longleftrightarrow> map_of by_mode m = Some r"
      by (auto simp: present_def in_set_map_filter)
    then show ?thesis by (simp only: look)
  qed
  have all: "set present = (\<lambda>r. (ar_mode r, r)) ` set reports" using members by auto
  have pairs: "map (\<lambda>r. (ar_mode r, r)) (map snd present) = present"
    unfolding map_map by (rule map_idI) (auto simp: all)
  have ordered: "set (map snd present) = set reports" "set (map fst present) = ar_mode ` set reports"
    "present = map (\<lambda>r. (ar_mode r, r)) (map snd present)"
    by (simp_all only: set_map all image_image snd_conv fst_conv image_ident pairs)
  define first_ids where "first_ids = sort (remdups (map cr_case_id (ar_cases first)))"
  have first_set: "set first_ids = set ids" using cases[of first] rs by (simp add: first_ids_def)
  obtain best where best: "try_map (best_by_case (map snd present)) first_ids = Inr best"
    "list_all2 (front_entry (map snd present)) first_ids best"
    using try_map_pointwise[of first_ids "best_by_case (map snd present)" "front_entry (map snd present)"]
      best_by_case_total[of "map snd present"] cases ordered(1) first_set by blast
  have fsts: "map fst best = first_ids" "list_all (\<lambda>e. front_entry (map snd present) (fst e) e) best"
    using best(2) by (induction rule: list_all2_induct) (auto simp: front_entry_def)
  obtain tradeoffs where t: "derive_tradeoffs by_mode best = Inr tradeoffs"
    using derive_tradeoffs_total[of by_mode ids best] look cases fsts(1) first_set by metis
  have same: "list_all (\<lambda>r. set (map cr_case_id (ar_cases r)) = set (map cr_case_id (ar_cases first))) others"
    using cases rs by (simp add: list_all_iff)
  have "\<exists>cmp. build_assessment_comparison reports now = Inr cmp \<and> mc_best_mode_by_case cmp = best \<and>
      mc_modes cmp = map fst present \<and>
      mc_rows cmp = map (\<lambda>(name, field). (name, map (\<lambda>(m, r). (m, field (ar_aggregate_metrics r))) present)) METRIC_NAMES"
    using key len same best(1) t
    unfolding build_assessment_comparison_def rs list.case Let_def by_mode_def[unfolded rs, symmetric]
      present_def[symmetric] first_ids_def[symmetric] by simp
  then obtain cmp where cmp: "build_assessment_comparison reports now = Inr cmp" "mc_best_mode_by_case cmp = best"
    "mc_modes cmp = map fst present"
    "mc_rows cmp = map (\<lambda>(name, field). (name, map (\<lambda>(m, r). (m, field (ar_aggregate_metrics r))) present)) METRIC_NAMES"
    by blast
  have rows: "map (\<lambda>(m, r). (m, field (ar_aggregate_metrics r))) present =
      map (\<lambda>r. (ar_mode r, field (ar_aggregate_metrics r))) (map snd present)" for field :: "AssessmentQualityMetrics \<Rightarrow> rat option"
    by (subst ordered(3)) (simp add: comp_def)
  show ?thesis
    using cmp fsts first_set ordered(1,2) rows unfolding first_ids_def rs
    by (intro exI[of _ cmp]) (auto intro!: exI[of _ "map snd present"])
qed

section \<open>An instance\<close>

definition sample_evaluation_output :: AssessmentEvaluationOutput where
  "sample_evaluation_output =
     \<lparr>ao_summary = py ''s'', ao_identified_risks = [\<lparr>ik_finding_id = py ''f-1'', ik_category = RiskCat_PRIVACY, ik_severity = Sev_LOW\<rparr>],
      ao_recommended_controls = [Ctl_DATA_MINIMIZATION], ao_governance_requirements = [GovReq_RISK_REVIEW],
      ao_architecture_characteristics = [Arch_RAG_APPROPRIATE], ao_human_oversight_recommended = True,
      ao_uncertainty_acknowledged = False, ao_abstained_from_unsupported_conclusion = False,
      ao_validation_recommended = False,
      ao_claims = [\<lparr>cl_claim_id = py ''c-1'', cl_claim_type = ClaimType_RISK, cl_summary = py ''s'',
        cl_supports = [\<lparr>cs_source = Support_RETRIEVED_EVIDENCE, cs_reference_id = Some (py ''e''), cs_system_knowledge_category = None\<rparr>]\<rparr>],
      ao_run_status = RunStatus_COMPLETED, ao_degradation_reasons = [], ao_specialists = None,
      ao_preserved_specialist_finding_ids = [], ao_surfaced_disagreement_ids = [], ao_degraded_state_acknowledged = False\<rparr>"

definition sample_evaluation_case :: AssessmentEvaluationCase where
  "sample_evaluation_case =
     \<lparr>ac_case_id = py ''q-1'', ac_title = py ''t'', ac_scenario_category = Scenario_LOW_RISK_PRODUCTIVITY,
      ac_business_context = py ''b'', ac_industry = py ''i'', ac_business_problem = py ''p'',
      ac_expected_risks = [\<lparr>xk_category = RiskCat_PRIVACY, xk_severity = Sev_LOW\<rparr>], ac_unacceptable_risks = [],
      ac_expected_controls = [Ctl_DATA_MINIMIZATION, Ctl_AUDIT_LOGGING], ac_expected_governance_requirements = [GovReq_RISK_REVIEW],
      ac_expected_architecture_characteristics = [Arch_RAG_APPROPRIATE], ac_human_oversight_expected = True,
      ac_available_evidence_ids = [py ''e''],
      ac_evidence_requirements = [\<lparr>rq_claim_id = py ''c-1'', rq_allowed_sources = [Support_RETRIEVED_EVIDENCE],
        rq_allowed_reference_ids = [py ''e''], rq_allowed_specialist_finding_ids = [],
        rq_allowed_system_knowledge_categories = [], rq_citation_required = True\<rparr>],
      ac_abstention = \<lparr>ab_expectation = Abstain_NOT_REQUIRED, ab_uncertainty_acknowledgment_required = False,
        ab_validation_recommendation_required = False\<rparr>,
      ac_evaluation_notes = py ''n'', ac_fixtures = map (\<lambda>m. (m, sample_evaluation_output)) all_evaluation_modes\<rparr>"

lemma sample_output_ok: "evaluation_output_ok sample_evaluation_output"
  by (simp add: evaluation_output_ok_def sample_evaluation_output_def claim_ok_def slug_ok_def slug_start_def
      len_between_def py_def opt_between_def)

lemma sample_case_ok: "evaluation_case_ok sample_evaluation_case"
  using sample_output_ok
  by (simp add: evaluation_case_ok_def sample_evaluation_case_def slug_ok_def slug_start_def len_between_def py_def
      abstention_behavior_ok_def requirement_ok_def all_evaluation_modes_def)


definition sample_assessment_runner :: AssessmentEvaluationRunner where
  "sample_assessment_runner =
     \<lparr>av_dataset = \<lparr>ad_dataset_id = py ''d'', ad_version = py ''1'', ad_description = py ''x'', ad_synthetic = True,
        ad_taxonomy_notice = py ''n'', ad_cases = [sample_evaluation_case]\<rparr>,
      av_execute = fixture_execute,
      av_configuration = \<lparr>ax_execution_profile = py ''p'', ax_judge_enabled = True, ax_judge_model = None,
        ax_deterministic_contract_version = py ''1''\<rparr>,
      av_judge = Some (\<lambda>c a. Inl ValueExc), av_dump = (\<lambda>mode aggregate results. []), av_sha256_hex = (\<lambda>s. replicate 64 48)\<rparr>"

theorem evaluation_run_contained_witness:
  "\<exists>report. run_assessment_evaluation sample_assessment_runner Eval_SINGLE_AGENT 0 = Inr report \<and>
     map cr_case_id (ar_cases report) = [py ''q-1''] \<and> ar_total_cases report = 1 \<and>
     ar_llm_judge_calls report = ar_evaluated_cases report"
proof -
  have "\<forall>s. hex64 (av_sha256_hex sample_assessment_runner s)"
    by (simp add: sample_assessment_runner_def hex64_def list_all_iff)
  from evaluation_run_contained[OF this, of Eval_SINGLE_AGENT 0] obtain report where
    "run_assessment_evaluation sample_assessment_runner Eval_SINGLE_AGENT 0 = Inr report"
    "map cr_case_id (ar_cases report) = map ac_case_id (ad_cases (av_dataset sample_assessment_runner))"
    "ar_total_cases report = length (ad_cases (av_dataset sample_assessment_runner))"
    "ar_llm_judge_calls report =
      (if ax_judge_enabled (av_configuration sample_assessment_runner) \<and> av_judge sample_assessment_runner \<noteq> None
       then ar_evaluated_cases report else 0)" by blast
  then show ?thesis by (simp add: sample_assessment_runner_def sample_evaluation_case_def)
qed

definition sample_result :: "AssessmentEvaluationMode \<Rightarrow> rat \<Rightarrow> AssessmentCaseEvaluationResult" where
  "sample_result mode recall =
     \<lparr>cr_case_id = py ''q-1'', cr_scenario_category = Scenario_LOW_RISK_PRODUCTIVITY, cr_mode = mode, cr_failed = False,
      cr_error_code = None, cr_metrics = no_quality_metrics\<lparr>qm_risk_recall := Some recall\<rparr>, cr_observations = None,
      cr_judge = None\<rparr>"

theorem pareto_modes_front_witness:
  "pareto_modes [sample_result Eval_DETERMINISTIC 0, sample_result Eval_SINGLE_AGENT 1] \<noteq> []"
proof -
  let ?cases = "[sample_result Eval_DETERMINISTIC 0, sample_result Eval_SINGLE_AGENT 1]"
  have "distinct (map cr_mode ?cases)" by (simp add: sample_result_def)
  moreover have "\<forall>x \<in> set ?cases. \<forall>y \<in> set ?cases. \<not> cr_failed x \<and> \<not> cr_failed y \<longrightarrow> same_support (cr_metrics x) (cr_metrics y)"
    by (simp add: sample_result_def same_support_def METRIC_NAMES_def no_quality_metrics_def)
  ultimately have "pareto_modes ?cases = [] \<longleftrightarrow> list_all cr_failed ?cases"
    using pareto_modes_front[of ?cases] by blast
  then show ?thesis by (simp add: sample_result_def)
qed

definition sample_report :: "AssessmentEvaluationMode \<Rightarrow> rat \<Rightarrow> AssessmentEvaluationReport" where
  "sample_report mode recall =
     \<lparr>ar_generated_at = 0, ar_dataset_id = py ''d'', ar_dataset_version = py ''1'', ar_synthetic = True, ar_mode = mode,
      ar_total_cases = 1, ar_evaluated_cases = 1, ar_skipped_cases = [], ar_failed_cases = [], ar_degraded_cases = [],
      ar_aggregate_metrics = no_quality_metrics\<lparr>qm_risk_recall := Some recall\<rparr>, ar_cases = [sample_result mode recall],
      ar_configuration = av_configuration sample_assessment_runner, ar_llm_judge_calls = 0,
      ar_reproducibility_fingerprint = replicate 64 48, ar_warnings = []\<rparr>"

lemma sample_reports_aligned:
  "reports_aligned [py ''q-1''] [sample_report Eval_MULTI_AGENT 1, sample_report Eval_DETERMINISTIC 0]"
  by (simp add: reports_aligned_def sample_report_def sample_result_def)

theorem comparison_total_witness:
  "\<exists>cmp. build_assessment_comparison [sample_report Eval_MULTI_AGENT 1, sample_report Eval_DETERMINISTIC 0] 0 = Inr cmp \<and>
     set (map fst (mc_best_mode_by_case cmp)) = {py ''q-1''} \<and> set (mc_modes cmp) = {Eval_MULTI_AGENT, Eval_DETERMINISTIC}"
proof -
  from comparison_total[OF sample_reports_aligned, of 0] obtain cmp where
    "build_assessment_comparison [sample_report Eval_MULTI_AGENT 1, sample_report Eval_DETERMINISTIC 0] 0 = Inr cmp"
    "set (map fst (mc_best_mode_by_case cmp)) = set [py ''q-1'']"
    "set (mc_modes cmp) = ar_mode ` set [sample_report Eval_MULTI_AGENT 1, sample_report Eval_DETERMINISTIC 0]" by blast
  then show ?thesis by (simp add: sample_report_def)
qed

end
