(* ===== verification/Exporters.thy ===== *)
theory Exporters
  imports Configuration Review_Properties
begin

text \<open>
  The process-level telemetry exporters (\<^verbatim>\<open>app/observability/exporters.py\<close>): the cached factory, the
  list of exporters to flush, the shutdown, and the export of one governance span. The factory's
  \<open>lru_cache\<close> holds 128 entries, most recent first; a call that raises is not cached.

  The OpenTelemetry SDK is an argument: whether a tracer provider can be built, and what recording a
  span or flushing a provider raises. Endpoint and timeout reach it unchanged.
\<close>

section \<open>Exporters\<close>

datatype exporter =
    NoOpTelemetryExporter
  | OpenTelemetryExporter (ox_endpoint: pystr) (ox_service_name: pystr) (ox_timeout_seconds: int)

record otel_sdk =
  os_provider :: "pystr \<Rightarrow> pystr \<Rightarrow> int \<Rightarrow> py_exc + unit"
  os_record_span :: "pystr \<Rightarrow> (pystr, attr) dict \<Rightarrow> py_exc + unit"
  os_shutdown :: "exporter \<Rightarrow> py_exc + unit"

definition export :: "otel_sdk \<Rightarrow> exporter \<Rightarrow> uuid \<Rightarrow> OperationalTelemetry \<Rightarrow> QualityGateResult \<Rightarrow> py_exc + unit" where
  "export sdk e assessment_id t g =
     (case e of
        NoOpTelemetryExporter \<Rightarrow> Inr ()
      | OpenTelemetryExporter _ _ _ \<Rightarrow>
          os_record_span sdk (py ''assessment.governance'')
            (safe_span_attributes (uuid_str assessment_id) t g))"

section \<open>The process-level registry\<close>

type_synonym exporter_key = "pystr \<times> pystr option \<times> pystr \<times> int"

record exporter_registry =
  xr_cache :: "(exporter_key \<times> exporter) list"
  xr_created :: "exporter list"

type_synonym 'a registry_eff = "(exporter_registry, py_exc, 'a) eff"

definition construct_exporter :: "otel_sdk \<Rightarrow> exporter_key \<Rightarrow> py_exc + exporter" where
  "construct_exporter sdk = (\<lambda>(kind, endpoint, service_name, timeout_seconds).
     if kind = py ''none'' then Inr NoOpTelemetryExporter
     else (case (kind = py ''otlp'', endpoint) of
        (True, Some url) \<Rightarrow>
          (case os_provider sdk url service_name timeout_seconds of
             Inl e \<Rightarrow> Inl e
           | Inr _ \<Rightarrow> Inr (OpenTelemetryExporter url service_name timeout_seconds))
      | _ \<Rightarrow> Inl ValueExc))"

definition build_telemetry_exporter :: "otel_sdk \<Rightarrow> exporter_key \<Rightarrow> exporter registry_eff" where
  "build_telemetry_exporter sdk key = (\<lambda>st.
     case map_of (xr_cache st) key of
       Some e \<Rightarrow> (Inr e, st\<lparr>xr_cache := (key, e) # AList.delete key (xr_cache st)\<rparr>)
     | None \<Rightarrow>
         (case construct_exporter sdk key of
            Inl x \<Rightarrow> (Inl x, st)
          | Inr e \<Rightarrow> (Inr e, \<lparr>xr_cache = take 128 ((key, e) # xr_cache st),
                               xr_created = xr_created st @ [e]\<rparr>)))"

text \<open>Every shutdown runs under \<open>suppress(Exception)\<close>: the list says what was flushed.\<close>

definition close_telemetry_exporters :: "otel_sdk \<Rightarrow> exporter_registry \<Rightarrow> (exporter \<times> (py_exc + unit)) list \<times> exporter_registry" where
  "close_telemetry_exporters sdk st =
     (map (\<lambda>e. (e, case e of NoOpTelemetryExporter \<Rightarrow> Inr () | _ \<Rightarrow> os_shutdown sdk e)) (xr_created st),
      \<lparr>xr_cache = [], xr_created = []\<rparr>)"

definition exporter_name_value :: "ExporterName \<Rightarrow> pystr" where
  "exporter_name_value n = (case n of Exporter_NONE \<Rightarrow> py ''none'' | Exporter_OTLP \<Rightarrow> py ''otlp'')"

definition get_operational_telemetry_exporter :: "otel_sdk \<Rightarrow> Settings \<Rightarrow> exporter registry_eff" where
  "get_operational_telemetry_exporter sdk s =
     build_telemetry_exporter sdk
       (exporter_name_value (cfg_observability_exporter (cfg_observability s)),
        cfg_otel_exporter_otlp_endpoint (cfg_observability s),
        cfg_otel_service_name (cfg_observability s),
        cfg_otel_export_timeout_seconds (cfg_observability s))"

section \<open>The factory\<close>

definition registry_ok :: "exporter_registry \<Rightarrow> bool" where
  "registry_ok st \<longleftrightarrow>
     distinct (map fst (xr_cache st)) \<and> length (xr_cache st) \<le> 128 \<and>
     snd ` set (xr_cache st) \<subseteq> set (xr_created st)"

lemma length_delete_present: "(k, v) \<in> set xs \<Longrightarrow> length (AList.delete k xs) < length xs"
  unfolding AList.delete_eq by (rule length_filter_less) auto

lemma registry_ok_build: "keepsE registry_ok (build_telemetry_exporter sdk key)"
proof -
  have "registry_ok (snd (build_telemetry_exporter sdk key st))" if ok: "registry_ok st" for st
  proof (cases "map_of (xr_cache st) key")
    case None
    then have fresh: "key \<notin> fst ` set (xr_cache st)" by (simp add: map_of_eq_None_iff)
    show ?thesis
    proof (cases "construct_exporter sdk key")
      case (Inr e)
      have "set (take 127 (xr_cache st)) \<subseteq> set (xr_cache st)" by (rule set_take_subset)
      then have "distinct (map fst (take 127 (xr_cache st)))" "key \<notin> fst ` set (take 127 (xr_cache st))"
        "snd ` set (take 127 (xr_cache st)) \<subseteq> set (xr_created st)"
        using ok fresh by (auto simp: registry_ok_def take_map[symmetric])
      then show ?thesis
        using None Inr by (auto simp: build_telemetry_exporter_def registry_ok_def)
    qed (use None ok in \<open>simp add: build_telemetry_exporter_def\<close>)
  next
    case (Some e)
    then have m: "(key, e) \<in> set (xr_cache st)" by (rule map_of_SomeD)
    from length_delete_present[OF m] ok have "length (AList.delete key (xr_cache st)) < 128"
      unfolding registry_ok_def by (meson le_trans less_le_trans)
    moreover have "set (AList.delete key (xr_cache st)) \<subseteq> set (xr_cache st)" by (auto simp: AList.delete_eq)
    ultimately show ?thesis
      using m ok Some
      by (auto simp: build_telemetry_exporter_def registry_ok_def AList.delete_eq distinct_map_filter)
  qed
  then show ?thesis by (simp add: keepsE_def)
qed

text \<open>
  The exporter of a configuration is built once: asking again gives the same one, constructs
  nothing, and a shutdown flushes every exporter that was ever handed out, exactly as often as it
  was constructed, whatever the others raise.
\<close>

lemma exporter_built_once:
  assumes "build_telemetry_exporter sdk key st = (Inr e, st')"
  shows "\<exists>st''. build_telemetry_exporter sdk' key st' = (Inr e, st'') \<and> xr_created st'' = xr_created st'"
  using assms by (auto simp: build_telemetry_exporter_def split: option.splits sum.splits)

lemma close_flushes_all:
  assumes "registry_ok st" and "close_telemetry_exporters sdk st = (flushed, st')"
  shows "map fst flushed = xr_created st \<and> snd ` set (xr_cache st) \<subseteq> fst ` set flushed \<and>
         st' = \<lparr>xr_cache = [], xr_created = []\<rparr> \<and> registry_ok st'"
  using assms by (auto simp: close_telemetry_exporters_def registry_ok_def comp_def image_image)

text \<open>Validated settings always select an exporter; only the SDK itself can refuse.\<close>

lemma configured_exporter:
  assumes "load_settings netloc_ok table s0 = Inr s"
    and "get_operational_telemetry_exporter sdk s st = (Inl x, st')"
  shows "\<exists>url. cfg_otel_exporter_otlp_endpoint (cfg_observability s) = Some url \<and>
           os_provider sdk url (cfg_otel_service_name (cfg_observability s))
             (cfg_otel_export_timeout_seconds (cfg_observability s)) = Inl x \<and> st' = st"
proof -
  have "s = s0" and "validate_chunk_settings netloc_ok table s0 = None" using assms(1) by (auto simp: load_settings_Inr)
  then have "cfg_observability_exporter (cfg_observability s) = Exporter_OTLP \<longrightarrow>
      (\<exists>url. cfg_otel_exporter_otlp_endpoint (cfg_observability s) = Some url)"
    by (auto simp: validate_chunk_settings_def observability_checks_def Let_def first_raise_None str_truthy_iff
        split: option.splits)
  with assms(2) show ?thesis
    by (auto simp: get_operational_telemetry_exporter_def build_telemetry_exporter_def construct_exporter_def
        exporter_name_value_def py_def split: option.splits sum.splits ExporterName.splits)
qed

end
