(* ===== verification/Demo_Seed.thy ===== *)
theory Demo_Seed
  imports Generation_Liveness
begin

text \<open>
  The demonstration seed (\<^verbatim>\<open>app/demo/seed.py\<close>): two fixed assessments that go through the
  repositories and the real runtime gate, one ending in a human review and one completed. The seed
  is the smallest client of the governance service: it writes both cases in one transaction and
  commits once. The lemmas show that whatever it returns has these two outcomes, that it keeps the
  review invariant and leaves nothing behind when it fails, and that it does return on a database
  that answers and a generator of identifiers that does not repeat.
\<close>

section \<open>The fixed scenarios\<close>

definition demo_result :: "bool \<Rightarrow> AssessmentResult" where
  "demo_result high_risk =
     \<lparr>res_executive_summary =
        (if high_risk
         then py ''Use a governed drafting assistant with mandatory review for customer-facing PII.''
         else py ''Use a bounded internal assistant for low-impact procedure discovery.''),
      res_problem_analysis =
        \<lparr>pa_core_problem = py ''Employees spend time finding and organizing approved guidance.'',
         pa_current_process_weaknesses = [py ''Information retrieval is manual.''],
         pa_key_bottlenecks = [py ''Policy discovery'']\<rparr>,
      res_ai_suitability =
        \<lparr>suit_level = Suitability_HIGH,
         suit_rationale = py ''Retrieval-assisted drafting can reduce repetitive knowledge work.''\<rparr>,
      res_recommended_use_cases =
        [\<lparr>uc_name = py ''Governed guidance assistant'',
          uc_description = py ''Retrieve approved guidance and prepare a bounded draft.'',
          uc_expected_business_value = py ''Reduce preparation time while preserving controls.'',
          uc_complexity = (if high_risk then Complexity_MEDIUM else Complexity_LOW),
          uc_priority = Priority_HIGH\<rparr>],
      res_recommended_solution =
        \<lparr>sol_pattern = RAG_DECISION_SUPPORT,
         sol_description = py ''Use retrieval with citations, validation, and least privilege.'',
         sol_rationale = py ''The task depends on governed enterprise knowledge.''\<rparr>,
      res_risks =
        [\<lparr>risk_category = (if high_risk then Category_PRIVACY else Category_OPERATIONAL),
          risk_description =
            (if high_risk then py ''Customer PII could appear in an inaccurate external response.''
             else py ''An internal answer could be incomplete.''),
          risk_severity = (if high_risk then Severity_HIGH else Severity_LOW),
          risk_mitigation =
            (if high_risk then py ''Minimize data and require an authenticated reviewer before release.''
             else py ''Show citations and provide a clear escalation path.'')\<rparr>],
      res_human_oversight =
        \<lparr>ho_review_recommended = high_risk,
         ho_decisions_requiring_review =
           (if high_risk then [py ''Any customer-facing response containing personal data''] else []),
         ho_rationale =
           (if high_risk then py ''Customer-facing PII creates material privacy and accuracy risk.''
            else py ''The assistant is informational and does not execute decisions.'')\<rparr>,
      res_next_steps =
        [\<lparr>ns_priority = 1, ns_action = py ''Validate access controls and source ownership.'',
          ns_rationale = py ''Deployment depends on governed source access.''\<rparr>],
      res_assumptions = [py ''All source material is synthetic for this demonstration.''],
      res_information_gaps = [py ''Production workload and control effectiveness are unmeasured.''],
      res_external_evidence_status = Evidence_NOT_RETRIEVED,
      res_source_references = []\<rparr>"

definition demo_scenarios :: "(pystr \<times> AssessmentRequest \<times> bool) list" where
  "demo_scenarios =
     [(py ''high-risk-customer-pii'',
       \<lparr>req_company_name = py ''Synthetic Retail Bank'', req_organization_description = None,
        req_industry = py ''Financial services'',
        req_business_problem = py ''Draft customer responses using account context containing PII.'',
        req_current_process = None, req_pain_points = [],
        req_desired_outcome = py ''Faster responses without unreviewed disclosure or advice.'',
        req_constraints = [], req_additional_context = None\<rparr>,
       True),
      (py ''low-risk-internal-assistant'',
       \<lparr>req_company_name = py ''Synthetic Operations Company'', req_organization_description = None,
        req_industry = py ''Business services'',
        req_business_problem = py ''Employees spend time locating internal procedures.'',
        req_current_process = None, req_pain_points = [],
        req_desired_outcome = py ''Provide cited informational answers with no external action.'',
        req_constraints = [], req_additional_context = None\<rparr>,
       False)]"

lemma demo_requests_ok: "(name, request, high_risk) \<in> set demo_scenarios \<Longrightarrow> request_ok request"
  by (auto simp: demo_scenarios_def request_ok_def opt_between_def)

section \<open>The seed\<close>

record SeededDemoAssessment =
  sd_scenario :: pystr
  sd_assessment_id :: uuid
  sd_status :: AssessmentStatus

text \<open>
  \<open>RuntimeGovernanceService(assessments, reviews, gate)\<close>: the default policy, no prices, no metrics
  and the exporter that does nothing. The payloads of pydantic and the identifier of the current
  request are arguments.
\<close>

definition demo_governance ::
  "(AssessmentResult \<Rightarrow> json_object) \<Rightarrow> (ExecutionMetadata \<Rightarrow> json_object) \<Rightarrow>
     (json_object \<Rightarrow> py_exc + AssessmentResult) \<Rightarrow> pystr option \<Rightarrow> governance" where
  "demo_governance dump_result dump_execution validate_result request_id =
     \<lparr>gv_policy = default_policy, gv_input_cost_per_million = None,
      gv_output_cost_per_million = None, gv_metrics = None, gv_exporter = (\<lambda>_ _ _. Inr ()),
      gv_request_id = request_id, gv_dump_result = dump_result, gv_dump_execution = dump_execution,
      gv_validate_result = validate_result\<rparr>"

definition demo_candidate :: "uuid \<Rightarrow> bool \<Rightarrow> candidate_args" where
  "demo_candidate i high_risk =
     \<lparr>ca_assessment_id = i, ca_result = demo_result high_risk, ca_evidence = [],
      ca_execution = deterministic_execution, ca_duration_ms = (if high_risk then 25 else 10),
      ca_provenance_valid = True, ca_retrieval_duration_ms = None,
      ca_signal_overrides = Some (\<lambda>s. s\<lparr>sig_evidence_required := False\<rparr>),
      ca_revision_count = 0, ca_record_review_request = True\<rparr>"

definition seed_scenario ::
  "(AssessmentRequest \<Rightarrow> json_object) \<Rightarrow> governance \<Rightarrow> pystr \<times> AssessmentRequest \<times> bool \<Rightarrow>
     SeededDemoAssessment db" where
  "seed_scenario dump_request gv = (\<lambda>(name, request, high_risk).
     bindE draw_uuid (\<lambda>i.
     bindE (repo_create i (req_company_name request) (req_industry request)
              (req_business_problem request) (dump_request request)
              (Some (py ''synthetic-demo-seed''))) (\<lambda>_.
     bindE (mark_processing i) (\<lambda>_.
     bindE (process_candidate gv (demo_candidate i high_risk)) (\<lambda>rec.
     returnE \<lparr>sd_scenario = name, sd_assessment_id = i, sd_status = pa_status rec\<rparr>)))))"

primrec seed_all ::
  "(AssessmentRequest \<Rightarrow> json_object) \<Rightarrow> governance \<Rightarrow> (pystr \<times> AssessmentRequest \<times> bool) list \<Rightarrow>
     SeededDemoAssessment list db" where
  "seed_all dump_request gv [] = returnE []"
| "seed_all dump_request gv (x # xs) =
     bindE (seed_scenario dump_request gv x) (\<lambda>d.
     bindE (seed_all dump_request gv xs) (\<lambda>ds.
     returnE (d # ds)))"

definition seed_demo_scenarios ::
  "(AssessmentRequest \<Rightarrow> json_object) \<Rightarrow> governance \<Rightarrow> SeededDemoAssessment list db" where
  "seed_demo_scenarios dump_request gv =
     bindE (seed_all dump_request gv demo_scenarios) (\<lambda>seeded.
     bindE commit (\<lambda>_.
     returnE seeded))"

section \<open>What the gate says\<close>

definition demo_status :: "bool \<Rightarrow> AssessmentStatus" where
  "demo_status high_risk = (if high_risk then Status_PENDING_REVIEW else Status_COMPLETED)"

lemma demo_gate:
  "\<exists>g. gate_evaluate default_policy (observed_signals (demo_candidate i high_risk)) = Inr g \<and>
     gr_decision g = (if high_risk then REQUIRE_HUMAN_REVIEW else AUTO_COMPLETE)"
  by (cases high_risk)
     (simp_all add: gate_evaluate_def observed_signals_def demo_candidate_def derive_signals_def demo_result_def
      deterministic_execution_def max_level_def risk_decision_def review_conditions_def default_policy_def
      mk_gate_result_def gate_result_ok_def Let_def py_strip_def)

lemma decided_demo_status:
  assumes "gr_decision g = (if high_risk then REQUIRE_HUMAN_REVIEW else AUTO_COMPLETE)"
  shows "row_status (decided_row gv a g now row) = demo_status high_risk"
  using assms
  by (cases high_risk)
     (simp_all add: decided_row_def pending_effect_def completed_effect_def demo_status_def)

section \<open>What a returned seed has done\<close>

lemma created_open:
  assumes "store_ok (live s)" and "repo_create i c ind p payload subj s = (Inr rec, s')"
  shows "open_case (live s') i \<and> only i (live s) (live s') \<and> case_of (live s) i = (None, None, [])"
proof -
  from repo_create_Inr[OF assms(2)] obtain row where
    none: "map_of (t_assessments (live s)) i = None"
    and row: "row_status row = Status_PENDING" "row_result_payload row = None" "assessment_row_ok row"
    and live: "live s' = row_set (live s) i row" by blast
  from new_row_open[OF assms(1) none row] show ?thesis unfolding live .
qed

lemma marked_open:
  assumes "open_case (live s) i" and "mark_processing i s = (Inr found, s')"
  shows "open_case (live s') i \<and> only i (live s) (live s')"
proof (cases found)
  case None
  with assms(2) processing.mark_none[of i s s'] have "live s' = live s" by auto
  with assms(1) show ?thesis by simp
next
  case (Some rec)
  with processing.mark_some[of i s rec s'] assms obtain row now where
    "case_of (live s) i = (Some row, None, [])" "row_result_payload row = None"
    and live: "live s' = row_set (live s) i (row\<lparr>row_status := Status_PROCESSING, row_updated_at := now\<rparr>)"
    by (auto simp: open_case_def case_of_def row_set_def)
  then show ?thesis
    unfolding open_case_def live by (simp add: case_of_row_set assessment_row_ok_def)
qed

text \<open>One scenario: a new case that the gate has decided, everything else untouched.\<close>

definition seeded :: "bool \<Rightarrow> tables \<Rightarrow> tables \<Rightarrow> SeededDemoAssessment \<Rightarrow> bool" where
  "seeded high_risk T T' d \<longleftrightarrow>
     case_of T (sd_assessment_id d) = (None, None, []) \<and> only (sd_assessment_id d) T T' \<and>
     sd_status d = demo_status high_risk \<and>
     (\<exists>row rt es. case_of T' (sd_assessment_id d) = (Some row, Some rt, es) \<and>
        row_status row = demo_status high_risk \<and>
        rt_review_status rt = (if high_risk then Review_PENDING else Review_NOT_REQUIRED))"

lemma seed_scenario_Inr:
  assumes "gv_policy gv = default_policy" and "store_ok (live s)"
    and "seed_scenario dump gv (name, request, high_risk) s = (Inr d, s')"
  shows "sd_scenario d = name \<and> seeded high_risk (live s) (live s') d \<and> store_ok (live s')"
proof -
  from assms(3) obtain i s0 r1 s1 found s2 rec where
    u: "draw_uuid s = (Inr i, s0)"
    and c: "repo_create i (req_company_name request) (req_industry request) (req_business_problem request)
        (dump request) (Some (py ''synthetic-demo-seed'')) s0 = (Inr r1, s1)"
    and m: "mark_processing i s1 = (Inr found, s2)"
    and p: "process_candidate gv (demo_candidate i high_risk) s2 = (Inr rec, s')"
    and d: "d = \<lparr>sd_scenario = name, sd_assessment_id = i, sd_status = pa_status rec\<rparr>"
    unfolding seed_scenario_def by (auto simp: bindE_eq_Inr returnE_def)
  have l0: "live s0 = live s" using draw_uuid_frame[OF u] by simp
  from created_open[OF _ c] assms(2) l0 have
    o1: "open_case (live s1) i" "only i (live s) (live s1)" "case_of (live s) i = (None, None, [])" by simp_all
  from marked_open[OF o1(1) m] have o2: "open_case (live s2) i" "only i (live s1) (live s2)" by simp_all
  have a: "ca_assessment_id (demo_candidate i high_risk) = i" "ca_record_review_request (demo_candidate i high_risk)"
    "ca_revision_count (demo_candidate i high_risk) = 0" by (simp_all add: demo_candidate_def)
  from open_case_decided[OF p] a o2(1) obtain g now rt es row where
    g: "gate_evaluate default_policy (observed_signals (demo_candidate i high_risk)) = Inr g"
    and cs: "case_of (live s') i = (Some (decided_row gv (demo_candidate i high_risk) g now row), Some rt, es)"
    and rec: "rec = to_record i (decided_row gv (demo_candidate i high_risk) g now row)"
    and ck: "checkpoint_for gv (demo_candidate i high_risk) g rt"
    and ok: "case_ok (case_of (live s') i)" and o3: "only i (live s2) (live s')"
    unfolding assms(1) by auto
  from demo_gate[of i high_risk] g have
    gd: "gr_decision g = (if high_risk then REQUIRE_HUMAN_REVIEW else AUTO_COMPLETE)" by auto
  have only: "only i (live s) (live s')" using o1(2) o2(2) o3 only_trans by blast
  moreover have "rt_review_status rt = (if high_risk then Review_PENDING else Review_NOT_REQUIRED)"
    using ck gd by (simp add: checkpoint_for_def decided_status_def)
  moreover have "pa_status rec = demo_status high_risk"
    unfolding rec using decided_demo_status[OF gd] by (simp add: to_record_def)
  ultimately show ?thesis
    using cs o1(3) decided_demo_status[OF gd] store_ok_only[OF assms(2) only ok]
    unfolding seeded_def d by simp
qed

lemma seeded_then_only:
  assumes "seeded high_risk T T1 d" and "only j T1 T2" and "j \<noteq> sd_assessment_id d"
  shows "case_of T2 (sd_assessment_id d) = case_of T1 (sd_assessment_id d)"
  using assms by (simp add: only_def)

text \<open>
  The outcome of the whole seed: two new cases with different identifiers, the first waiting for a
  reviewer and the second completed, both durable; no other case changes.
\<close>

lemma seed_demo_outcome:
  assumes "gv_policy gv = default_policy" and "store_ok (live s)"
    and "seed_demo_scenarios dump gv s = (Inr ds, s')"
  shows "\<exists>d1 d2 row1 rt1 es1 row2 rt2 es2.
           ds = [d1, d2] \<and> sd_assessment_id d1 \<noteq> sd_assessment_id d2 \<and>
           sd_status d1 = Status_PENDING_REVIEW \<and> sd_status d2 = Status_COMPLETED \<and>
           case_of (durable s') (sd_assessment_id d1) = (Some row1, Some rt1, es1) \<and>
           row_status row1 = Status_PENDING_REVIEW \<and> rt_review_status rt1 = Review_PENDING \<and>
           case_of (durable s') (sd_assessment_id d2) = (Some row2, Some rt2, es2) \<and>
           row_status row2 = Status_COMPLETED \<and> rt_review_status rt2 = Review_NOT_REQUIRED \<and>
           store_ok (durable s') \<and>
           (\<forall>j. j \<notin> {sd_assessment_id d1, sd_assessment_id d2} \<longrightarrow>
              case_of (durable s') j = case_of (live s) j)"
proof -
  from assms(3) obtain n1 r1 n2 r2 d1 s1 d2 s2 where
    sc: "demo_scenarios = [(n1, r1, True), (n2, r2, False)]"
    and e1: "seed_scenario dump gv (n1, r1, True) s = (Inr d1, s1)"
    and e2: "seed_scenario dump gv (n2, r2, False) s1 = (Inr d2, s2)"
    and ds: "ds = [d1, d2]" and cm: "commit s2 = (Inr (), s')"
    unfolding seed_demo_scenarios_def demo_scenarios_def by (auto simp: bindE_eq_Inr returnE_def)
  from seed_scenario_Inr[OF assms(1,2) e1] have
    a: "seeded True (live s) (live s1) d1" and ok1: "store_ok (live s1)" by simp_all
  from seed_scenario_Inr[OF assms(1) ok1 e2] have
    b: "seeded False (live s1) (live s2) d2" and ok2: "store_ok (live s2)" by simp_all
  from commit_Inr[OF cm] have dur: "durable s' = live s2" by simp
  have ne: "sd_assessment_id d1 \<noteq> sd_assessment_id d2" using a b by (auto simp: seeded_def)
  from b have o2: "only (sd_assessment_id d2) (live s1) (live s2)" by (simp add: seeded_def)
  from seeded_then_only[OF a o2] ne have
    same: "case_of (live s2) (sd_assessment_id d1) = case_of (live s1) (sd_assessment_id d1)" by simp
  from a obtain row1 rt1 es1 where
    c1: "case_of (live s2) (sd_assessment_id d1) = (Some row1, Some rt1, es1)"
      "row_status row1 = Status_PENDING_REVIEW" "rt_review_status rt1 = Review_PENDING"
      "sd_status d1 = Status_PENDING_REVIEW"
    unfolding same by (auto simp: seeded_def demo_status_def)
  from b obtain row2 rt2 es2 where
    c2: "case_of (live s2) (sd_assessment_id d2) = (Some row2, Some rt2, es2)"
      "row_status row2 = Status_COMPLETED" "rt_review_status rt2 = Review_NOT_REQUIRED"
      "sd_status d2 = Status_COMPLETED"
    by (auto simp: seeded_def demo_status_def)
  have "case_of (live s2) j = case_of (live s) j"
    if "j \<notin> {sd_assessment_id d1, sd_assessment_id d2}" for j
    using that a b by (simp add: seeded_def only_def)
  with ds ne c1 c2 ok2 show ?thesis unfolding dur by blast
qed

text \<open>A seed that fails leaves nothing behind: the scripts' session is rolled back on close.\<close>

lemma seed_demo_atomic: "atomic (seed_demo_scenarios dump gv)"
proof -
  have m: "keeps_durable (mark_processing i)" for i
    unfolding mark_processing_def repo_update_def by (auto simp: Let_def split: option.split)
  have one: "keeps_durable (seed_scenario dump gv x)" for x
    unfolding seed_scenario_def using m by (auto split: prod.split)
  have "keeps_durable (seed_all dump gv xs)" for xs
    by (induction xs) (use one in auto)
  then show ?thesis
    unfolding seed_demo_scenarios_def by (intro atomic_bind atomic_commit_return)
qed

section \<open>The seed returns\<close>

text \<open>The source of identifiers moves forward only.\<close>

definition forward :: "(nat \<Rightarrow> uuid) \<Rightarrow> nat \<Rightarrow> session \<Rightarrow> bool" where
  "forward U n s \<longleftrightarrow> uuids s = U \<and> n \<le> drawn s"

lemma forward_step:
  "keepsE (forward U n) m \<Longrightarrow> forward U n s \<Longrightarrow> m s = (r, s') \<Longrightarrow> forward U n s'"
  by (rule keepsED)

lemma keeps_forward_calls [intro!, simp]:
  "keepsE (forward U n) db_call" "keepsE (forward U n) read_clock" "keepsE (forward U n) draw_uuid"
  "keepsE (forward U n) (flush_with ok f)"
proof -
  show d: "keepsE (forward U n) db_call"
    by (auto simp: keepsE_def forward_def db_call_def split: list.split option.split)
  show "keepsE (forward U n) read_clock" "keepsE (forward U n) draw_uuid"
    by (auto simp: keepsE_def forward_def read_clock_def draw_uuid_def)
  show "keepsE (forward U n) (flush_with ok f)"
    unfolding flush_with_def using d by (auto intro: keepsE_modify simp: forward_def)
qed

lemma keeps_forward_update [intro!, simp]: "keepsE (forward U n) (repo_update i change)"
  unfolding repo_update_def by (auto simp: Let_def split: option.split)

lemma keeps_forward_process [intro!, simp]: "keepsE (forward U n) (process_candidate gv a)"
proof -
  have e: "keepsE (forward U n) (append_event t ty st c)" for t ty st c
    unfolding append_event_def by (auto simp: Let_def)
  have ap: "keepsE (forward U n) (apply_decision gv a g t)" for g t
    unfolding apply_decision_def mark_pending_review_def mark_failed_def mark_completed_def Let_def
    using e by auto
  have sv: "keepsE (forward U n) (save_state i x)" for i x
    unfolding save_state_def by (auto simp: Let_def)
  have ev: "keepsE (forward U n) (add_review_event i x)" for i x
    unfolding add_review_event_def by (auto simp: Let_def)
  have ct: "keepsE (forward U n) (candidate_telemetry gv a g)" for g
    unfolding candidate_telemetry_def by auto
  have ex: "keepsE (forward U n) (export_telemetry gv i t g)" for i t g
    unfolding export_telemetry_def by auto
  show ?thesis
    unfolding process_candidate_def using ap sv ev ct ex by (auto split: prod.split)
qed

lemma quiet_scenario:
  assumes "faults s = []" and "governance_ok gv" and "store_ok (live s)"
    and "map_of (t_assessments (live s)) (uuids s (drawn s)) = None"
  shows "\<exists>d s'. seed_scenario dump gv (name, request, high_risk) s = (Inr d, s') \<and> faults s' = [] \<and>
           forward (uuids s) (Suc (drawn s)) s' \<and> sd_assessment_id d = uuids s (drawn s)"
proof -
  let ?i = "uuids s (drawn s)" and ?s0 = "s\<lparr>drawn := Suc (drawn s)\<rparr>"
  have u: "draw_uuid s = (Inr ?i, ?s0)" by (simp add: draw_uuid_def)
  have f0: "forward (uuids s) (Suc (drawn s)) ?s0" by (simp add: forward_def)
  let ?create = "repo_create ?i (req_company_name request) (req_industry request)
      (req_business_problem request) (dump request) (Some (py ''synthetic-demo-seed''))"
  have "\<exists>r s1. ?create ?s0 = (Inr r, s1) \<and> faults s1 = []"
    using assms(1,4)
    by (simp add: repo_create_def bindE_def getE_def returnE_def read_clock_def Let_def flush_with_def
        db_call_def modifyE_def)
  then obtain r s1 where c: "?create ?s0 = (Inr r, s1)" and q1: "faults s1 = []" by blast
  from created_open[OF _ c] assms(3) have "open_case (live s1) ?i" by simp
  then obtain row where row: "map_of (t_assessments (live s1)) ?i = Some row" "assessment_row_ok row"
    by (auto simp: open_case_def case_of_def)
  from quiet_repo_update[OF q1 row(1), of "\<lambda>now r. r\<lparr>row_status := Status_PROCESSING, row_updated_at := now\<rparr>"]
    row(2) obtain found row' s2 where m: "mark_processing ?i s1 = (Inr found, s2)" and q2: "faults s2 = []"
    and row2: "map_of (t_assessments (live s2)) ?i = Some row'"
    by (auto simp: mark_processing_def assessment_row_ok_def row_set_def update_conv')
  have args: "ca_assessment_id (demo_candidate ?i high_risk) = ?i"
    "execution_ok (ca_execution (demo_candidate ?i high_risk))" "0 \<le> ca_duration_ms (demo_candidate ?i high_risk)"
    "opt_nonneg (ca_retrieval_duration_ms (demo_candidate ?i high_risk))"
    "ca_revision_count (demo_candidate ?i high_risk) = 0"
    using sample_execution_ok by (simp_all add: demo_candidate_def opt_nonneg_def)
  from quiet_process_candidate[of s2 "demo_candidate ?i high_risk" row' gv] q2 row2 assms(2) args
  obtain rec s3 where p: "process_candidate gv (demo_candidate ?i high_risk) s2 = (Inr rec, s3)"
    and q3: "faults s3 = []" by auto
  have "keepsE (forward (uuids s) (Suc (drawn s))) ?create" unfolding repo_create_def by (auto simp: Let_def)
  from forward_step[OF this f0 c] have f1: "forward (uuids s) (Suc (drawn s)) s1" .
  from forward_step[where m = "mark_processing ?i", OF _ f1 m] have f2: "forward (uuids s) (Suc (drawn s)) s2" by (simp add: mark_processing_def)
  from forward_step[where m = "process_candidate gv (demo_candidate ?i high_risk)", OF _ f2 p] have f3: "forward (uuids s) (Suc (drawn s)) s3" by simp
  show ?thesis
    unfolding seed_scenario_def using u c m p q3 f3 by (simp add: bindE_step returnE_def)
qed

lemma demo_governance_ok: "opt_len_ok rid 128 \<Longrightarrow> governance_ok (demo_governance dr de vr rid)"
  by (simp add: governance_ok_def demo_governance_def default_policy_def)

lemma seed_demo_returns:
  assumes "faults s = []" and "opt_len_ok rid 128" and "store_ok (live s)"
    and "inj (uuids s)" and "\<And>n. map_of (t_assessments (live s)) (uuids s n) = None"
  shows "\<exists>ds s'. seed_demo_scenarios dump (demo_governance dr de vr rid) s = (Inr ds, s')"
proof -
  let ?gv = "demo_governance dr de vr rid"
  have pol: "gv_policy ?gv = default_policy" by (simp add: demo_governance_def)
  note gok = demo_governance_ok[OF assms(2), of dr de vr]
  obtain n1 r1 n2 r2 where sc: "demo_scenarios = [(n1, r1, True), (n2, r2, False)]"
    unfolding demo_scenarios_def by blast
  from quiet_scenario[OF assms(1) gok assms(3) assms(5), of dump n1 r1 True] obtain d1 s1 where
    e1: "seed_scenario dump ?gv (n1, r1, True) s = (Inr d1, s1)" and q1: "faults s1 = []"
    and fw: "forward (uuids s) (Suc (drawn s)) s1" and i1: "sd_assessment_id d1 = uuids s (drawn s)" by blast
  from seed_scenario_Inr[OF pol assms(3) e1] have
    a: "seeded True (live s) (live s1) d1" and ok1: "store_ok (live s1)" by simp_all
  have "uuids s1 (drawn s1) \<noteq> sd_assessment_id d1"
  proof
    assume "uuids s1 (drawn s1) = sd_assessment_id d1"
    with fw i1 have "uuids s (drawn s1) = uuids s (drawn s)" by (simp add: forward_def)
    with injD[OF assms(4)] have "drawn s1 = drawn s" .
    with fw show False by (simp add: forward_def)
  qed
  with a have "case_of (live s1) (uuids s1 (drawn s1)) = case_of (live s) (uuids s1 (drawn s1))"
    by (simp add: seeded_def only_def)
  with assms(5)[of "drawn s1"] fw have "map_of (t_assessments (live s1)) (uuids s1 (drawn s1)) = None"
    by (simp add: case_of_def forward_def)
  from quiet_scenario[OF q1 gok ok1 this, of dump n2 r2 False] obtain d2 s2 where
    e2: "seed_scenario dump ?gv (n2, r2, False) s1 = (Inr d2, s2)" and q2: "faults s2 = []" by blast
  have "seed_all dump ?gv demo_scenarios s = (Inr [d1, d2], s2)"
    unfolding sc by (simp add: bindE_def returnE_def e1 e2)
  then show ?thesis
    unfolding seed_demo_scenarios_def by (simp add: bindE_def returnE_def quiet_calls(4)[OF q2])
qed

end
