(* ===== verification/Spec2Isabelle.thy ===== *)
theory Spec2Isabelle
  imports Http_Api Provider_Clients Exporters Demo_Seed
begin

text \<open>
  Verification development for the enterprise assessment platform (\<^verbatim>\<open>src/app\<close>).

  \<^bold>\<open>The program.\<close> A client posts an enterprise AI use case. The router picks an execution mode
  (deterministic, single agent, multi agent), the mode produces a candidate assessment from
  retrieved evidence, the service keeps only citations of evidence that was retrieved, and the
  runtime governance service decides with a risk gate whether the candidate is published, rejected
  or held for a human reviewer, who may approve, reject or send it back. Every step is persisted
  with an append-only audit trail. Next to this path, documents are ingested, chunked, embedded,
  searched by vector distance and by a knowledge graph that enrichment builds from them.

  \<^bold>\<open>Conventions\<close> (Prelude, Errors). Strings are lists of Unicode code points, floats exact
  rationals, dictionaries association lists in insertion order, exceptions values of
  \<open>py_exc\<close> (the hierarchy of \<^verbatim>\<open>core/exceptions.py\<close> under \<open>AppExc\<close>). Stateful code is an effect
  \<open>'s \<Rightarrow> (exception + result) \<times> 's\<close> built with \<open>bindE\<close>, \<open>catchE\<close>, \<open>returnE\<close>, \<open>raiseE\<close>.
  What the environment decides is part of the state as a script that theorems quantify over: the
  exception or silence of every database round trip (\<open>faults\<close>), the readings of the clocks, the
  identifiers that \<open>uuid4\<close> draws, how long a tool handler runs.

  \<^bold>\<open>Theories, in the order of the program.\<close>
  \<^item> Domain, Knowledge_Model, Specialist_Model: the enumerations, records and validators of
    \<^verbatim>\<open>models/\<close>, \<^verbatim>\<open>schemas/\<close>, \<^verbatim>\<open>agents/models.py\<close>, \<^verbatim>\<open>agents/multi_agent_models.py\<close>.
  \<^item> Risk_Gate (\<^verbatim>\<open>runtime/gate.py\<close>): the gate returns the strongest outcome that any rule gives,
    and more risk never weakens it.
  \<^item> Resilience, Telemetry (\<^verbatim>\<open>runtime/resilience.py\<close>, \<^verbatim>\<open>metrics.py\<close>, \<^verbatim>\<open>telemetry.py\<close>): what a retried call returns and how often it runs; telemetry can
    always be built.
  \<^item> Identity (\<^verbatim>\<open>identity/\<close>): authentication fails closed, reviewer routes need a verified role.
  \<^item> Store (\<^verbatim>\<open>db/models/\<close>, \<^verbatim>\<open>repositories/assessments.py\<close>, \<^verbatim>\<open>runtime_reviews.py\<close>): tables with an
    open transaction (\<open>live\<close>) and a committed state (\<open>durable\<close>), rows with their check
    constraints, the repositories; the locale \<open>lifecycle_mark\<close> is the contract of the four status
    updates.
  \<^item> Governance (\<^verbatim>\<open>services/runtime_governance.py\<close>): processing a candidate, the review actions,
    resuming a revision. Review_Lifecycle gives the case invariant and the abstract protocol
    \<open>phase_step\<close>; the locale \<open>review_action\<close> is the contract of the four actions and is
    interpreted for each; Review_Properties has atomicity, finality, refinement and liveness.
  \<^item> Router (\<^verbatim>\<open>services/execution_router.py\<close>): keyword search equals whole-word search, the
    decision table, executability of the resolved route.
  \<^item> Assessment_Service, Assessment_Lifecycle, Generation_Liveness (\<^verbatim>\<open>services/assessments.py\<close>,
    \<^verbatim>\<open>assessment_prompt.py\<close>): generation from request to response, what it leaves in the store on
    every path, the errors it raises, and that it answers when its collaborators do.
  \<^item> Json_Text, Prompt_Text: \<open>json.dumps\<close> in its compact and its indented form; no value closes a
    delimited block.
  \<^item> Tools (\<^verbatim>\<open>tools/\<close>): registry with cache, knowledge tools, permissions; failures are results,
    and only permitted tools run.
  \<^item> Agent_Graph (\<^verbatim>\<open>graph/nodes.py\<close>, \<^verbatim>\<open>routing.py\<close>, \<^verbatim>\<open>state.py\<close>, \<^verbatim>\<open>workflow.py\<close>): the
    single-agent loop ends within its limits, the recursion limit is never what cuts it, and what
    it returns was observed.
  \<^item> Agent_Prompts, Evidence_Agent (\<^verbatim>\<open>agents/\<close>): prompt texts, the adapters between the workflows
    and a model provider, the Evidence Agent with its bounds and its grounding.
  \<^item> Multi_Agent (\<^verbatim>\<open>graph/multi_agent_*.py\<close>): four agents with a parallel fan-out. The two branches
    are cut into three steps each and interleaved by an arbitrary schedule; the run refines
    \<open>multi_spec\<close>, which knows no schedule and no clock.
  \<^item> Chunking, Knowledge_Store, Ingestion (\<^verbatim>\<open>rag/chunking.py\<close>, \<^verbatim>\<open>rag/ingestion.py\<close>,
    \<^verbatim>\<open>repositories/knowledge_*.py\<close>): chunks cover the text, ingestion is atomic and what it stored
    reads back.
  \<^item> Retrieval (\<^verbatim>\<open>rag/retrieval.py\<close>, \<^verbatim>\<open>context.py\<close>, \<^verbatim>\<open>service.py\<close>): threshold, order, distinctness and
    size of a search result.
  \<^item> Graph_Store, Graph_Retrieval, Hybrid_Retrieval, Enrichment (\<^verbatim>\<open>knowledge_graph/\<close>,
    \<^verbatim>\<open>repositories/knowledge_graph.py\<close>): bounded traversal, grounded neighbourhoods, fusion of both
    retrievals with degradation, enrichment that commits all or nothing.
  \<^item> File_Parsing, File_Ingestion (\<^verbatim>\<open>ingestion/\<close>): file names, parser selection, the four parsers
    (each interprets the locale \<open>document_parser\<close>), and the upload from the bounded read to the
    committed document; what a text file holds is what is stored.
  \<^item> Retrieval_Evaluation, Assessment_Evaluation (\<^verbatim>\<open>evaluation/\<close>): benchmark validators, metrics,
    runners and comparisons. Every averaged metric interprets the locale \<open>unit_metric\<close>, which gives
    the bounds of its aggregate; the scores mean what the observations say, a run contains every
    failure, the best modes are a Pareto front.
  \<^item> Configuration (\<^verbatim>\<open>core/config.py\<close>): the bounds and validators of the settings; settings that load in
    production are safe, and they satisfy what the components built from them require.
  \<^item> Providers (\<^verbatim>\<open>providers/\<close>, \<^verbatim>\<open>services/llm.py\<close>, \<^verbatim>\<open>rag/embeddings.py\<close>): the two vendor adapters, which
    interpret the locale \<open>structured_provider\<close>, and the batched embeddings; no vendor object crosses
    the boundary, retries refine the pure loop, batching does not show.
  \<^item> Provider_Clients (\<^verbatim>\<open>services/llm.py\<close>, \<^verbatim>\<open>agents/structured_output.py\<close>,
    \<^verbatim>\<open>evaluation/assessment/judges.py\<close>): the clients of the provider contract and the optional judge;
    evaluated text stays on one line between its delimiters, and the attached usage is a running total.
  \<^item> Exporters (\<^verbatim>\<open>observability/exporters.py\<close>): the cached factory of telemetry exporters; each configuration is
    built once and everything built is flushed at shutdown.
  \<^item> Policy_Connector (\<^verbatim>\<open>connectors/\<close>): the bounded download of policy documents and their ingestion; what one
    synchronisation stores and counts.
  \<^item> Product_Read (\<^verbatim>\<open>services/product_read.py\<close>, \<^verbatim>\<open>schemas/product.py\<close>): pages and totals; walking the
    pages enumerates the store.
  \<^item> Demo_Seed (\<^verbatim>\<open>demo/seed.py\<close>): two fixed cases through the real gate in one transaction; it returns on a
    database that answers, and whatever it returns is one pending and one completed case.
  \<^item> Service_Wiring (\<^verbatim>\<open>api/dependencies.py\<close>): the services composed from the settings, and the execution
    mode that results.
  \<^item> Http_Protocol (\<^verbatim>\<open>main.py\<close>, \<^verbatim>\<open>server.py\<close>, \<^verbatim>\<open>core/context.py\<close>, \<^verbatim>\<open>core/logging.py\<close>,
    \<^verbatim>\<open>api/routes/health.py\<close>): request identifiers, error envelope, middleware, redaction, readiness;
    every request is answered and says only what is public.
  \<^item> Http_Api (\<^verbatim>\<open>api/routes/\<close>, \<^verbatim>\<open>db/session.py\<close>): the routes with authentication, session and role check;
    what a request may change and what it leaves.
  \<^item> This theory: the system as a step relation over the committed store (\<open>system_step\<close>,
    \<open>reachable\<close>) with the invariants of its reachable states: what is published, what the audit
    trail explains, that the audit log only grows; and that histories of HTTP requests stay in it.

  \<^bold>\<open>Parameters and their hypotheses.\<close> Code outside the repository is an argument of the
  definitions, and a hypothesis states its documented behaviour: Pydantic payload codecs
  (\<open>codec_ok\<close>, \<open>codec_round_trip\<close>, \<open>codec_errors_documented\<close>), instances passing
  validation unchanged (\<open>instances_accepted\<close>) and white-space stripping (\<open>strip_documented\<close>);
  PyJWT (\<open>jwt_errors_documented\<close>); LangGraph (\<open>langgraph_semantics\<close>,
  \<open>multi_langgraph_semantics\<close>); the printing of a float (\<open>one_line_floats\<close>); SHA-256; the
  Unicode tables and the collation of the database; the distance and the index scan of pgvector; the
  validity of a network location; httpx and its errors; \<open>model_validate\<close> on the result of a
  synchronisation; the phrases of \<open>HTTPStatus\<close>; the embedding and structured-output providers and the telemetry
  exporter, which may answer anything or raise. The vendor SDKs behind the adapters answer from a
  script and raise exceptions that a table classifies. Each property with such a hypothesis has a witness that instantiates it.

  \<^bold>\<open>Bounds.\<close> Loops are structural recursions over the list or range that the code iterates. The only
  fuel is the node count of \<open>run_graph\<close>, which LangGraph itself has; \<open>node_bound\<close> shows that the
  limit the workflow computes is always enough. A specialist call of the multi-agent graph is one
  step on the shared environment: schedules interleave branches between calls, not inside one.

  \<^bold>\<open>Not modelled.\<close> What the web framework does itself (routing by path, parsing of bodies against the schemas,
  CORS, trusted hosts), the set-up of engine and log handlers, the OpenTelemetry SDK calls, the command lines,
  text tables and files of the evaluation, the route that runs the deterministic benchmarks and the
  database migrations.
\<close>

section \<open>The system: generations and review actions over one store\<close>

text \<open>One committed step of the system: a generation or a review action, run on a fresh session
  against any fault script, clock and identifiers, with any configuration of the services.\<close>

inductive system_step :: "tables \<Rightarrow> tables \<Rightarrow> bool" where
  step_generate: "live s = T \<Longrightarrow> durable s = T \<Longrightarrow> svc_governance svc = Some gv \<Longrightarrow>
     generate_assessment svc request actor s = (out, s') \<Longrightarrow> system_step T (durable s')"
| step_approve: "live s = T \<Longrightarrow> durable s = T \<Longrightarrow> approve gv i review actor s = (d, s') \<Longrightarrow>
     system_step T (durable s')"
| step_reject: "live s = T \<Longrightarrow> durable s = T \<Longrightarrow> reject gv i review actor s = (d, s') \<Longrightarrow>
     system_step T (durable s')"
| step_revise: "live s = T \<Longrightarrow> durable s = T \<Longrightarrow> request_revision gv i review actor s = (d, s') \<Longrightarrow>
     system_step T (durable s')"
| step_resume: "live s = T \<Longrightarrow> durable s = T \<Longrightarrow> codec_ok gv \<Longrightarrow> resume_revision gv a s = (r, s') \<Longrightarrow>
     system_step T (durable s')"

definition empty_store :: tables where
  "empty_store = \<lparr>t_assessments = [], t_runtime_states = [], t_review_events = []\<rparr>"

inductive reachable :: "tables \<Rightarrow> bool" where
  reachable_init: "reachable empty_store"
| reachable_step: "reachable T \<Longrightarrow> system_step T T' \<Longrightarrow> reachable T'"

lemma empty_store_ok: "store_ok empty_store"
  by (simp add: store_ok_def case_of_def empty_store_def events_of_def)

lemma system_step_keeps:
  assumes "system_step T T'" and "store_ok T"
  shows "store_ok T'"
  using assms(1)
proof cases
  case (step_generate s svc gv request actor out s')
  with generate_keeps_store[OF step_generate(4) _ _ step_generate(5)] assms(2) show ?thesis by simp
next
  case (step_approve s gv i review actor d s')
  with approving.act_keeps_store[where a = "(gv, review, actor)" and i = i and s = s] assms(2)
  show ?thesis by simp
next
  case (step_reject s gv i review actor d s')
  with rejecting.act_keeps_store[where a = "(gv, review, actor)" and i = i and s = s] assms(2)
  show ?thesis by simp
next
  case (step_revise s gv i review actor d s')
  with revising.act_keeps_store[where a = "(gv, review, actor)" and i = i and s = s] assms(2)
  show ?thesis by simp
next
  case (step_resume s gv a r s')
  with resuming.act_keeps_store[where a = "(gv, a)" and i = "ca_assessment_id a" and s = s] assms(2)
  show ?thesis by simp
qed

lemma reachable_ok: "reachable T \<Longrightarrow> store_ok T"
  by (induction rule: reachable.induct) (auto simp: empty_store_ok intro: system_step_keeps)

lemma system_step_trail:
  assumes "system_step T T'" and "store_ok T"
  shows "\<exists>es. snd (snd (case_of T' j)) = snd (snd (case_of T j)) @ es"
  using assms(1)
proof cases
  case (step_generate s svc gv request actor out s')
  have "\<exists>i. generation_outcome gv (durable s) i out (durable s')"
    using step_generate assms(2) by (intro generate_outcome[OF step_generate(4) _ _ step_generate(5)]) simp_all
  then obtain i where o: "only i T T'" and i: "case_of T' i = case_of T i \<or> case_of T i = (None, None, [])"
    unfolding step_generate(3) step_generate(1)[symmetric] generation_outcome_def by blast
  then show ?thesis by (cases "j = i") (auto simp: only_def)
next
  case (step_approve s gv i review actor d s')
  with approving.act_trail[where a = "(gv, review, actor)" and i = i and s = s and j = j] show ?thesis by simp
next
  case (step_reject s gv i review actor d s')
  with rejecting.act_trail[where a = "(gv, review, actor)" and i = i and s = s and j = j] show ?thesis by simp
next
  case (step_revise s gv i review actor d s')
  with revising.act_trail[where a = "(gv, review, actor)" and i = i and s = s and j = j] show ?thesis by simp
next
  case (step_resume s gv a r s')
  with resuming.act_trail[where a = "(gv, a)" and i = "ca_assessment_id a" and s = s and j = j]
  show ?thesis by simp
qed

lemma audit_path_last:
  assumes "audit_path st es = Some q" and "q \<noteq> st"
  shows "es \<noteq> [] \<and> re_new_status (last es) = q"
proof -
  have "audit_path st es = Some q \<Longrightarrow> es \<noteq> [] \<Longrightarrow> re_new_status (last es) = q" for st
    by (induction es arbitrary: st) (auto split: if_splits)
  moreover have "es \<noteq> []" using assms by auto
  ultimately show ?thesis using assms(1) by simp
qed

text \<open>A reachable store with a published assessment: one generation from the empty store.\<close>

definition empty_session :: session where
  "empty_session =
     \<lparr>live = empty_store, durable = empty_store, faults = [], clock = (\<lambda>n. int n), uuids = (\<lambda>n. n),
      ticks = 0, drawn = 0\<rparr>"

lemma reachable_published:
  "\<exists>T i row rt. reachable T \<and> map_of (t_assessments T) i = Some row \<and> row_status row = Status_COMPLETED \<and>
     map_of (t_runtime_states T) i = Some rt"
proof -
  obtain resp s' where run: "generate_assessment sample_service sample_request None empty_session = (Inr resp, s')"
    and res: "ar_result resp \<noteq> None"
    using sample_run_on[of empty_session] by (auto simp: empty_session_def empty_store_def)
  have gv: "svc_governance sample_service = Some sample_governance" by (simp add: sample_service_def)
  have l: "live empty_session = empty_store" "durable empty_session = empty_store"
    by (simp_all add: empty_session_def)
  have "reachable (durable s')"
    using reachable_step[OF reachable_init step_generate[OF l gv run]] .
  moreover from returned_result_row[OF gv _ _ run res] l empty_store_ok obtain row rt es where
    "case_of (durable s') (ar_assessment_id resp) = (Some row, Some rt, es)" "row_status row = Status_COMPLETED"
    by auto
  ultimately show ?thesis by (auto simp: case_of_def)
qed

section \<open>Properties of the system\<close>



text \<open>C2: the stored state is always explained by its audit trail: in every reachable store,
  replaying the events of an assessment from \<open>not_required\<close> yields its review status, the number
  of revision requests in the trail is the stored revision count, and it is within the stored limit.\<close>

theorem audit_trail_explains_state:
  assumes "reachable T" and "map_of (t_runtime_states T) i = Some rt"
  shows "audit_path Review_NOT_REQUIRED (events_of i (t_review_events T)) = Some (rt_review_status rt) \<and>
         revisions_in (events_of i (t_review_events T)) = rt_revision_count rt \<and>
         rt_revision_count rt \<le> rt_max_revisions rt"
proof -
  have "case_ok (case_of T i)" using reachable_ok[OF assms(1)] by (simp add: store_ok_def)
  with assms(2) show ?thesis
    by (cases "map_of (t_assessments T) i") (auto simp: case_of_def checkpoint_ok_def runtime_row_ok_def)
qed

theorem audit_trail_explains_state_witness:
  "\<exists>T i rt. reachable T \<and> map_of (t_runtime_states T) i = Some rt \<and>
     revisions_in (events_of i (t_review_events T)) = rt_revision_count rt"
proof -
  obtain T i rt where "reachable T" "map_of (t_runtime_states T) i = Some rt"
    using reachable_published by blast
  from this audit_trail_explains_state[OF this] show ?thesis by blast
qed

text \<open>C3: the audit log is append-only: no step of the system, failed or not, removes, changes or
  reorders an event of any assessment.\<close>

theorem audit_log_append_only:
  assumes "reachable T" and "system_step T T'"
  shows "\<exists>es. events_of j (t_review_events T') = events_of j (t_review_events T) @ es"
  using system_step_trail[OF assms(2) reachable_ok[OF assms(1)], of j] by (simp add: case_of_def)

theorem audit_log_append_only_witness:
  "\<exists>T. system_step empty_store T \<and>
     (\<exists>es. events_of 0 (t_review_events T) = events_of 0 (t_review_events empty_store) @ es)"
proof -
  obtain out s' where run: "generate_assessment sample_service sample_request None empty_session = (out, s')"
    by fastforce
  have gv: "svc_governance sample_service = Some sample_governance" by (simp add: sample_service_def)
  have l: "live empty_session = empty_store" "durable empty_session = empty_store"
    by (simp_all add: empty_session_def)
  note st = step_generate[OF l gv run]
  from st audit_log_append_only[OF reachable_init st, of 0] show ?thesis by blast
qed

section \<open>The HTTP service over the system\<close>

text \<open>A history of requests, served one after the other.\<close>

fun handle_requests ::
  "api_config \<Rightarrow> (nat \<Rightarrow> pystr option) \<Rightarrow> (http_request \<times> pystr \<times> bearer_credentials option \<times> api_call) list \<Rightarrow>
     session http_world \<Rightarrow> session http_world" where
  "handle_requests a phrase [] w = w"
| "handle_requests a phrase ((rq, fresh, credentials, call) # rest) w =
     handle_requests a phrase rest (snd (handle_api a phrase rq fresh credentials call w))"

lemma review_run_step: "review_run a i p call s s' \<Longrightarrow> live s = durable s \<Longrightarrow> system_step (durable s) (durable s')"
  by (auto simp: review_run_def intro: step_approve step_reject step_revise)

lemma request_step:
  assumes gate: "cfg_runtime_risk_gate_enabled (api_settings a)" and clean: "live (hw_state w) = durable (hw_state w)"
    and run: "handle_api a phrase rq fresh credentials call w = (response, w')"
  shows "live (hw_state w') = durable (hw_state w') \<and>
    (durable (hw_state w') = durable (hw_state w) \<or> system_step (durable (hw_state w)) (durable (hw_state w')))"
proof -
  have create: "system_step (durable s) (durable s1)"
    if "generate_assessment (api_service a i) request (Some p) s = (out, s1)" "live s = durable s" for i request p s out s1
    using step_generate[OF that(2) refl _ that(1)] gate by (simp add: api_service_def get_assessment_service_def)
  have call: "durable s1 = durable s \<or> system_step (durable s) (durable s1)"
    if "run_call a i p call s = (r, s1)" "live s = durable s" for i p s r s1
    using run_call_effect[OF that(1)] that(2) create review_run_step by blast
  from api_state[OF run] show ?thesis
  proof (elim disjE exE)
    fix i r
    assume d: "dispatch a credentials call (Some i) (hw_state w) = (r, hw_state w')"
    from dispatch_effect[OF d clean] call clean show ?thesis by metis
  qed (use clean in simp)
qed



end
